(* ===== verification/Prelude.thy ===== *)
theory Prelude
  imports Main "HOL-Library.Word"
begin

text \<open>
  Shared vocabulary of the development: the encoding of Rust's \<open>Result\<close>, saturating and checked
  machine arithmetic, durations, and the lemma collections the component theories extend.

  \<^item> \<open>Result<T, E>\<close> is the sum \<open>'e + 'a\<close>: \<open>Inl\<close> is \<open>Err\<close>, \<open>Inr\<close> is \<open>Ok\<close>.
  \<^item> A trait is a record of operations over a state type; \<open>&mut self\<close> methods return the new
    state next to their result, \<open>&self\<close> methods only read it.
  \<^item> Unsigned integers keep their width as words.
\<close>

named_theorems mutate_simps \<open>unfolding rules of the controller transaction\<close>
named_theorems frame_simps \<open>fields an operation leaves alone\<close>
named_theorems native_simps \<open>unfolding rules of the native pair backend\<close>
named_theorems wire_simps \<open>unfolding rules of the byte and text protocols\<close>

subsection \<open>Results\<close>

type_synonym ('e, 'a) result = "'e + 'a"

fun is_ok :: "('e, 'a) result \<Rightarrow> bool" where
  "is_ok (Inr _) = True"
| "is_ok (Inl _) = False"

abbreviation is_err :: "('e, 'a) result \<Rightarrow> bool" where
  "is_err r \<equiv> \<not> is_ok r"

fun ok :: "('e, 'a) result \<Rightarrow> 'a option" where
  "ok (Inr v) = Some v"
| "ok (Inl _) = None"

fun err :: "('e, 'a) result \<Rightarrow> 'e option" where
  "err (Inr _) = None"
| "err (Inl e) = Some e"

fun map_err :: "('e \<Rightarrow> 'f) \<Rightarrow> ('e, 'a) result \<Rightarrow> ('f, 'a) result" where
  "map_err f (Inr v) = Inr v"
| "map_err f (Inl e) = Inl (f e)"

fun ok_or :: "'e \<Rightarrow> 'a option \<Rightarrow> ('e, 'a) result" where
  "ok_or e (Some v) = Inr v"
| "ok_or e None = Inl e"

definition and_then :: "('e, 'a) result \<Rightarrow> ('a \<Rightarrow> ('e, 'b) result) \<Rightarrow> ('e, 'b) result" where
  "and_then r f = (case r of Inl e \<Rightarrow> Inl e | Inr v \<Rightarrow> f v)"

text \<open>
  An operation on a mutable state that may fail: the result next to the state it leaves. The
  question-mark operator is \<open>try_bind\<close>: an error ends the block and keeps the state reached.
\<close>

type_synonym ('s, 'e, 'a) fallible = "'s \<Rightarrow> ('e, 'a) result \<times> 's"

definition try_bind ::
  "('s, 'e, 'a) fallible \<Rightarrow> ('a \<Rightarrow> ('s, 'e, 'b) fallible) \<Rightarrow> ('s, 'e, 'b) fallible" where
  "try_bind m f s =
     (case m s of (Inl e, s') \<Rightarrow> (Inl e, s') | (Inr v, s') \<Rightarrow> f v s')"

definition lift_result :: "('e, 'a) result \<Rightarrow> ('s, 'e, 'a) fallible" where
  "lift_result r s = (r, s)"

definition with_err :: "('e \<Rightarrow> 'f) \<Rightarrow> ('s, 'e, 'a) fallible \<Rightarrow> ('s, 'f, 'a) fallible" where
  "with_err f m s = apfst (map_err f) (m s)"

text \<open>The same for code with a loop that need not end: \<open>None\<close> is a run that does not return.\<close>

type_synonym ('s, 'e, 'a) partial_run = "'s \<Rightarrow> (('e, 'a) result \<times> 's) option"

definition run_bind ::
  "('s, 'e, 'a) partial_run \<Rightarrow> ('a \<Rightarrow> ('s, 'e, 'b) partial_run) \<Rightarrow> ('s, 'e, 'b) partial_run" where
  "run_bind m f s =
     Option.bind (m s) (\<lambda>(r, s). case r of Inl e \<Rightarrow> Some (Inl e, s) | Inr v \<Rightarrow> f v s)"

definition total_run :: "('s, 'e, 'a) fallible \<Rightarrow> ('s, 'e, 'a) partial_run" where
  "total_run m s = Some (m s)"

text \<open>A relation between the state before and after that every outcome of an operation keeps.\<close>

definition conforms :: "('s \<Rightarrow> 's \<Rightarrow> bool) \<Rightarrow> ('s, 'e, 'a) fallible \<Rightarrow> bool" where
  "conforms R m \<longleftrightarrow> (\<forall>s. R s (snd (m s)))"

subsection \<open>Saturating machine arithmetic\<close>

definition saturating_add :: "'n::len word \<Rightarrow> 'n word \<Rightarrow> 'n word" where
  "saturating_add a b =
     (if unat a + unat b < 2 ^ LENGTH('n) then a + b else - 1)"

definition saturating_sub_nat :: "nat \<Rightarrow> nat \<Rightarrow> nat" where
  "saturating_sub_nat a b = a - b"

subsection \<open>Durations\<close>

text \<open>
  A \<open>std::time::Duration\<close> is a number of nanoseconds. Its seconds are a \<open>u64\<close>, so the checked
  operations fail above \<open>duration_max\<close>.
\<close>

type_synonym duration = nat

definition duration_max :: duration where
  "duration_max = (2 ^ 64 - 1) * 1000000000 + 999999999"

definition from_secs :: "nat \<Rightarrow> duration" where
  "from_secs s = s * 1000000000"

definition from_millis :: "nat \<Rightarrow> duration" where
  "from_millis m = m * 1000000"

definition checked_add :: "duration \<Rightarrow> duration \<Rightarrow> duration option" where
  "checked_add a b = (if a + b \<le> duration_max then Some (a + b) else None)"

definition checked_mul :: "duration \<Rightarrow> nat \<Rightarrow> duration option" where
  "checked_mul a k = (if a * k \<le> duration_max then Some (a * k) else None)"

subsection \<open>Lemmas\<close>

lemma is_ok_iff: "is_ok r \<longleftrightarrow> (\<exists>v. r = Inr v)"
  by (cases r) auto

lemma ok_eq_Some [simp]: "ok r = Some v \<longleftrightarrow> r = Inr v"
  by (cases r) auto

lemma ok_eq_None [simp]: "ok r = None \<longleftrightarrow> (\<exists>e. r = Inl e)"
  by (cases r) auto

lemma map_err_Inr [simp]: "map_err f r = Inr v \<longleftrightarrow> r = Inr v"
  by (cases r) auto

lemma map_err_Inl: "map_err f r = Inl e \<longleftrightarrow> (\<exists>e'. r = Inl e' \<and> e = f e')"
  by (cases r) auto

lemma is_ok_map_err [simp]: "is_ok (map_err f r) = is_ok r"
  by (cases r) auto

lemma ok_or_Inr [simp]: "ok_or e x = Inr v \<longleftrightarrow> x = Some v"
  by (cases x) auto

lemma ok_or_Inl [simp]: "ok_or e x = Inl e' \<longleftrightarrow> x = None \<and> e' = e"
  by (cases x) auto

lemma and_then_Inr [simp]: "and_then r f = Inr v \<longleftrightarrow> (\<exists>u. r = Inr u \<and> f u = Inr v)"
  by (cases r) (auto simp: and_then_def)

lemma try_bind_Inr:
  "try_bind m f s = (Inr v, s'') \<longleftrightarrow> (\<exists>u s'. m s = (Inr u, s') \<and> f u s' = (Inr v, s''))"
  by (auto simp: try_bind_def split: prod.splits sum.splits)

lemma try_bind_Inl:
  "try_bind m f s = (Inl e, s'') \<longleftrightarrow>
     m s = (Inl e, s'') \<or> (\<exists>u s'. m s = (Inr u, s') \<and> f u s' = (Inl e, s''))"
  by (auto simp: try_bind_def split: prod.splits sum.splits)

lemma with_err_Inr: "with_err f m s = (Inr v, s') \<longleftrightarrow> m s = (Inr v, s')"
  by (cases "m s") (auto simp: with_err_def)

lemma conformsD: "conforms R m \<Longrightarrow> m s = (r, s') \<Longrightarrow> R s s'"
  by (metis conforms_def snd_conv)

lemma conforms_lift_result: "reflp R \<Longrightarrow> conforms R (lift_result r)"
  by (simp add: conforms_def lift_result_def reflpD)

lemma conforms_with_err: "conforms R m \<Longrightarrow> conforms R (with_err f m)"
  by (simp add: conforms_def with_err_def)

lemma conforms_try_bind:
  assumes "transp R" and "conforms R m" and "\<And>v. conforms R (f v)"
  shows "conforms R (try_bind m f)"
  using assms unfolding conforms_def try_bind_def
  by (auto split: prod.splits sum.splits dest: transpD) (metis snd_conv, metis snd_conv transpD)

lemma unat_minus_one_max: "unat (- 1 :: 'n::len word) = 2 ^ LENGTH('n) - 1"
  by (simp add: unsigned_minus_1_eq_mask mask_eq_exp_minus_1)

lemma unat_saturating_add:
  "unat (saturating_add a b :: 'n::len word) = min (unat a + unat b) (2 ^ LENGTH('n) - 1)"
proof (cases "unat a + unat b < 2 ^ LENGTH('n)")
  case True
  then have "unat (a + b) = unat a + unat b"
    by (simp add: unat_word_ariths)
  with True show ?thesis
    by (simp add: saturating_add_def)
next
  case False
  then show ?thesis
    by (simp add: saturating_add_def unat_minus_one_max)
qed

lemma saturating_add_ge: "a \<le> saturating_add a (b :: 'n::len word)"
proof -
  have "unat a < 2 ^ LENGTH('n)"
    by simp
  then have "unat a \<le> min (unat a + unat b) (2 ^ LENGTH('n) - 1)"
    by linarith
  then show ?thesis
    unfolding word_le_nat_alt unat_saturating_add .
qed

lemma saturating_add_one_gt: "a \<noteq> - 1 \<Longrightarrow> a < saturating_add a (1 :: 'n::len word)"
proof -
  assume "a \<noteq> - 1"
  then have "unat a \<noteq> unat (- 1 :: 'n word)"
    by (simp add: word_unat_eq_iff)
  moreover have "unat a < 2 ^ LENGTH('n)"
    by simp
  ultimately have "unat a + 1 \<le> 2 ^ LENGTH('n) - 1"
    unfolding unat_minus_one_max by linarith
  then show ?thesis
    by (simp add: word_less_nat_alt unat_saturating_add)
qed

lemma saturating_add_max [simp]: "saturating_add (- 1) (1 :: 'n::len word) = - 1"
proof -
  have "\<not> unat (- 1 :: 'n word) + unat (1 :: 'n word) < 2 ^ LENGTH('n)"
    by (simp add: unat_minus_one_max)
  then show ?thesis
    by (simp add: saturating_add_def)
qed

lemma checked_add_Some: "checked_add a b = Some c \<longleftrightarrow> c = a + b \<and> a + b \<le> duration_max"
  by (auto simp: checked_add_def)

lemma checked_mul_Some: "checked_mul a k = Some c \<longleftrightarrow> c = a * k \<and> a * k \<le> duration_max"
  by (auto simp: checked_mul_def)

end
