(* ===== verification/Backend.thy ===== *)
theory Backend
  imports Prelude
begin

text \<open>
  The whole-pair backend boundary (\<open>rust/src/backend.rs\<close>): the closed result vocabulary, the
  \<open>PairBackend\<close> trait as a record of operations over a backend state, and the
  \<open>PairBackendTransaction\<close> that pins one backend kind around one action.

  The crate is modelled as its tests compile it: the variants of \<open>PairBackendError\<close> and the methods
  under \<open>cfg(test)\<close>, which the compatibility backend of the theory \<open>Legacy_Backend\<close> uses, are included.
\<close>

subsection \<open>Vocabulary\<close>

datatype PairBackendKind = LegacyV04WholePair | NativePair

datatype PairLifecycle =
    Offline | Initializing | Connecting | Ready | Linking | Linked | Unlinking
  | Degraded | Recovering | ShuttingDown | Failed

datatype PairHealthLevel = Healthy | Transitioning | Degraded | Unavailable

fun health_level :: "PairLifecycle \<Rightarrow> PairHealthLevel" where
  "health_level PairLifecycle.Ready = PairHealthLevel.Healthy"
| "health_level PairLifecycle.Linked = PairHealthLevel.Healthy"
| "health_level PairLifecycle.Initializing = PairHealthLevel.Transitioning"
| "health_level PairLifecycle.Connecting = PairHealthLevel.Transitioning"
| "health_level PairLifecycle.Linking = PairHealthLevel.Transitioning"
| "health_level PairLifecycle.Unlinking = PairHealthLevel.Transitioning"
| "health_level PairLifecycle.Recovering = PairHealthLevel.Transitioning"
| "health_level PairLifecycle.ShuttingDown = PairHealthLevel.Transitioning"
| "health_level PairLifecycle.Degraded = PairHealthLevel.Degraded"
| "health_level PairLifecycle.Offline = PairHealthLevel.Unavailable"
| "health_level PairLifecycle.Failed = PairHealthLevel.Unavailable"

datatype AuraControlTransport = Le | BrEdr | Unresolved | Unknown

datatype AuraAcquisitionRoute = StableDirect | A2dpWakeThenStable | FreshLe | Unresolved

record PairHealth =
  ph_backend :: PairBackendKind
  ph_lifecycle :: PairLifecycle
  ph_level :: PairHealthLevel
  ph_reported_error :: bool
  ph_aura_transport :: AuraControlTransport
  ph_aura_acquisition_route :: AuraAcquisitionRoute

definition new_with_route ::
  "PairBackendKind \<Rightarrow> PairLifecycle \<Rightarrow> bool \<Rightarrow> AuraControlTransport \<Rightarrow> AuraAcquisitionRoute
    \<Rightarrow> PairHealth" where
  "new_with_route backend lifecycle reported_error transport route =
     (let level =
        (if reported_error \<and> lifecycle \<in> {PairLifecycle.Ready, PairLifecycle.Linked}
         then PairHealthLevel.Degraded else health_level lifecycle)
      in \<lparr>ph_backend = backend, ph_lifecycle = lifecycle, ph_level = level,
          ph_reported_error = reported_error, ph_aura_transport = transport,
          ph_aura_acquisition_route = route\<rparr>)"

definition pair_health_new ::
  "PairBackendKind \<Rightarrow> PairLifecycle \<Rightarrow> bool \<Rightarrow> AuraControlTransport \<Rightarrow> PairHealth" where
  "pair_health_new backend lifecycle reported_error transport =
     new_with_route backend lifecycle reported_error transport AuraAcquisitionRoute.Unresolved"

datatype PairBackendEvidence =
    LocalSessionState | LifecycleAcknowledgement | BroadcastAcknowledgementOnly
  | BroadcastBusinessNotification

record PairActionReceipt =
  par_backend :: PairBackendKind
  par_lifecycle :: PairLifecycle
  par_evidence :: PairBackendEvidence
  par_idempotent :: bool

datatype PairBackendError =
    InvalidSocketPath | UntrustedSocket | InvalidTimeout
  | Unavailable | AuraAdapterUnavailable | AuraDiscoveryUnavailable
  | AuraVerifiedAdvertisementNotFound | AuraDeviceConnectionFailed
  | AuraWakeProfileConnectFailed | AuraWakeFddfTimedOut | AuraWakeFddfInvalid
  | AuraWakeFddfUnavailable | AuraWakeProfileReleaseFailed | AuraGattProfileInvalid
  | AuraNotificationSetupFailed | AuraWriteUnknown | AuraAcknowledgementTimedOut
  | AuraAcknowledgementChannelClosed | AuraUnexpectedAcknowledgement
  | JblEnterOutcomeUnknown | JblExitOutcomeUnknown | JblBroadcastResultTimedOut
  | JblBroadcastResultUnavailable | JblBroadcastResultRejected | AuraStartOutcomeUnknown
  | TimedOut | ResponseTooLarge | InvalidResponse | BackendReportedFailure
  | InvalidLifecycle | UnexpectedLifecycle | RecoveryUnsupported | BackendChangedDuringTransaction

record PairActionFailure =
  paf_backend :: PairBackendKind
  paf_reason :: PairBackendError
  paf_observed_lifecycle :: "PairLifecycle option"

datatype PairActionResult =
    Accepted PairActionReceipt
  | RejectedBeforeSend PairActionFailure
  | OutcomeUnknown PairActionFailure

fun result_backend :: "PairActionResult \<Rightarrow> PairBackendKind" where
  "result_backend (PairActionResult.Accepted receipt) = par_backend receipt"
| "result_backend (PairActionResult.RejectedBeforeSend failure) = paf_backend failure"
| "result_backend (PairActionResult.OutcomeUnknown failure) = paf_backend failure"

fun result_receipt :: "PairActionResult \<Rightarrow> PairActionReceipt option" where
  "result_receipt (PairActionResult.Accepted r) = Some r"
| "result_receipt (PairActionResult.RejectedBeforeSend failure) = None"
| "result_receipt (PairActionResult.OutcomeUnknown failure) = None"

fun result_observed_lifecycle :: "PairActionResult \<Rightarrow> PairLifecycle option" where
  "result_observed_lifecycle (PairActionResult.Accepted receipt) = Some (par_lifecycle receipt)"
| "result_observed_lifecycle (PairActionResult.RejectedBeforeSend failure) =
     paf_observed_lifecycle failure"
| "result_observed_lifecycle (PairActionResult.OutcomeUnknown failure) =
     paf_observed_lifecycle failure"

subsection \<open>The trait and its default methods\<close>

record 'b PairBackend =
  pb_kind :: "'b \<Rightarrow> PairBackendKind"
  pb_health :: "'b \<Rightarrow> (PairBackendError, PairHealth) result \<times> 'b"
  pb_start :: "'b \<Rightarrow> PairActionResult \<times> 'b"
  pb_stop :: "'b \<Rightarrow> PairActionResult \<times> 'b"
  pb_shutdown :: "'b \<Rightarrow> PairActionResult \<times> 'b"
  pb_recover_stop :: "'b \<Rightarrow> PairActionResult \<times> 'b"
  pb_teardown_transport :: "'b \<Rightarrow> (PairBackendError, unit) result \<times> 'b"

definition default_recover_stop :: "('b \<Rightarrow> PairBackendKind) \<Rightarrow> 'b \<Rightarrow> PairActionResult \<times> 'b" where
  "default_recover_stop kind b =
     (PairActionResult.RejectedBeforeSend
        \<lparr>paf_backend = kind b, paf_reason = PairBackendError.RecoveryUnsupported,
         paf_observed_lifecycle = None\<rparr>, b)"

definition default_teardown_transport :: "'b \<Rightarrow> (PairBackendError, unit) result \<times> 'b" where
  "default_teardown_transport b = (Inr (), b)"

subsection \<open>One pinned transaction\<close>

record 'b PairBackendTransaction =
  pbt_expected_kind :: PairBackendKind
  pbt_backend :: 'b
  pbt_unresolved_action :: "PairActionFailure option"

definition transaction_new :: "'b PairBackend \<Rightarrow> 'b \<Rightarrow> 'b PairBackendTransaction" where
  "transaction_new ops b =
     \<lparr>pbt_expected_kind = pb_kind ops b, pbt_backend = b, pbt_unresolved_action = None\<rparr>"

definition ensure_backend_is_pinned ::
  "'b PairBackend \<Rightarrow> 'b PairBackendTransaction \<Rightarrow> (PairBackendError, unit) result" where
  "ensure_backend_is_pinned ops t =
     (if pb_kind ops (pbt_backend t) = pbt_expected_kind t then Inr ()
      else Inl PairBackendError.BackendChangedDuringTransaction)"

definition checked_action ::
  "'b PairBackend \<Rightarrow> ('b \<Rightarrow> PairActionResult \<times> 'b) \<Rightarrow> 'b PairBackendTransaction
    \<Rightarrow> PairActionResult \<times> 'b PairBackendTransaction" where
  "checked_action ops call t =
     (case pbt_unresolved_action t of
        Some failure \<Rightarrow> (PairActionResult.OutcomeUnknown failure, t)
      | None \<Rightarrow>
        (case ensure_backend_is_pinned ops t of
           Inl reason \<Rightarrow>
             (PairActionResult.RejectedBeforeSend
                \<lparr>paf_backend = pbt_expected_kind t, paf_reason = reason,
                 paf_observed_lifecycle = None\<rparr>, t)
         | Inr _ \<Rightarrow>
             (let (attempted, b') = call (pbt_backend t);
                  t' = t\<lparr>pbt_backend := b'\<rparr>;
                  backend_still_pinned = is_ok (ensure_backend_is_pinned ops t');
                  claimed_backend_is_pinned = (result_backend attempted = pbt_expected_kind t);
                  result =
                    (if backend_still_pinned \<and> claimed_backend_is_pinned then attempted
                     else
                       (let failure =
                          \<lparr>paf_backend = pbt_expected_kind t,
                           paf_reason = PairBackendError.BackendChangedDuringTransaction,
                           paf_observed_lifecycle = result_observed_lifecycle attempted\<rparr>
                        in case attempted of
                             PairActionResult.RejectedBeforeSend _ \<Rightarrow>
                               PairActionResult.RejectedBeforeSend failure
                           | _ \<Rightarrow> PairActionResult.OutcomeUnknown failure))
              in (result,
                  (case result of
                     PairActionResult.OutcomeUnknown failure \<Rightarrow>
                       t'\<lparr>pbt_unresolved_action := Some failure\<rparr>
                   | _ \<Rightarrow> t')))))"

definition checked_call ::
  "'b PairBackend \<Rightarrow> ('b, PairBackendError, 'a) fallible \<Rightarrow> ('b PairBackendTransaction, PairBackendError, 'a) fallible" where
  "checked_call ops call t =
     (case ensure_backend_is_pinned ops t of
        Inl e \<Rightarrow> (Inl e, t)
      | Inr _ \<Rightarrow>
          (case call (pbt_backend t) of
             (result, b) \<Rightarrow>
               let t = t\<lparr>pbt_backend := b\<rparr>
               in (case ensure_backend_is_pinned ops t of Inl e \<Rightarrow> (Inl e, t) | Inr _ \<Rightarrow> (result, t))))"

definition transaction_health ::
  "'b PairBackend \<Rightarrow> ('b PairBackendTransaction, PairBackendError, PairHealth) fallible" where
  "transaction_health ops =
     try_bind (checked_call ops (pb_health ops)) (\<lambda>health t.
       (if ph_backend health \<noteq> pbt_expected_kind t
        then Inl PairBackendError.BackendChangedDuringTransaction else Inr health, t))"

definition transaction_start where
  "transaction_start ops = checked_action ops (pb_start ops)"

definition transaction_stop where
  "transaction_stop ops = checked_action ops (pb_stop ops)"

definition transaction_shutdown where
  "transaction_shutdown ops = checked_action ops (pb_shutdown ops)"

definition transaction_recover_stop where
  "transaction_recover_stop ops = checked_action ops (pb_recover_stop ops)"

subsection \<open>Lemmas\<close>

text \<open>
  A run of actions on one transaction, in the order a caller makes them: the list of calls is
  made one after the other on the same guard.
\<close>

fun transaction_run ::
  "'b PairBackend \<Rightarrow> ('b \<Rightarrow> PairActionResult \<times> 'b) list \<Rightarrow> 'b PairBackendTransaction
    \<Rightarrow> PairActionResult list \<times> 'b PairBackendTransaction" where
  "transaction_run ops [] t = ([], t)"
| "transaction_run ops (c # cs) t =
     (let (r, t') = checked_action ops c t; (rs, t'') = transaction_run ops cs t'
      in (r # rs, t''))"

lemma health_level_healthy_iff:
  "health_level l = PairHealthLevel.Healthy \<longleftrightarrow> l = PairLifecycle.Ready \<or> l = PairLifecycle.Linked"
  by (cases l) auto

lemma new_with_route_sel [simp]:
  "ph_backend (new_with_route k l e t r) = k"
  "ph_lifecycle (new_with_route k l e t r) = l"
  "ph_reported_error (new_with_route k l e t r) = e"
  "ph_aura_transport (new_with_route k l e t r) = t"
  "ph_aura_acquisition_route (new_with_route k l e t r) = r"
  by (simp_all add: new_with_route_def Let_def)

lemma new_with_route_level_healthy_iff:
  "ph_level (new_with_route k l e t r) = PairHealthLevel.Healthy \<longleftrightarrow>
     \<not> e \<and> (l = PairLifecycle.Ready \<or> l = PairLifecycle.Linked)"
  by (auto simp: new_with_route_def Let_def health_level_healthy_iff)

lemma checked_action_latched:
  "pbt_unresolved_action t = Some f \<Longrightarrow>
     checked_action ops c t = (PairActionResult.OutcomeUnknown f, t)"
  by (simp add: checked_action_def)

lemma checked_action_expected_kind [simp]:
  "pbt_expected_kind (snd (checked_action ops c t)) = pbt_expected_kind t"
  by (auto simp: checked_action_def Let_def split: option.splits sum.splits prod.splits
      PairActionResult.splits)

lemma checked_action_fresh:
  assumes "checked_action ops c (transaction_new ops b) = (r, t)"
  obtains r0 where "c b = (r0, pbt_backend t)"
    and "result_backend r = pb_kind ops b"
    and "pb_kind ops (pbt_backend t) = pb_kind ops b \<and> result_backend r0 = pb_kind ops b
           \<Longrightarrow> r = r0"
    and "\<And>x. r = PairActionResult.Accepted x \<Longrightarrow> r0 = PairActionResult.Accepted x"
    and "\<And>x. r = PairActionResult.RejectedBeforeSend x \<Longrightarrow>
           \<exists>y. r0 = PairActionResult.RejectedBeforeSend y"
proof -
  obtain r0 b' where c: "c b = (r0, b')"
    by (cases "c b")
  from assms c have "pbt_backend t = b'"
    by (auto simp: checked_action_def transaction_new_def ensure_backend_is_pinned_def Let_def
        split: PairActionResult.splits if_splits)
  moreover from assms c show ?thesis
    by (intro that [of r0])
      (auto simp: checked_action_def transaction_new_def ensure_backend_is_pinned_def Let_def
        split: PairActionResult.splits if_splits)
qed

text \<open>
  What the guard of a transaction expects of a backend: it stays of its kind, and its results say so. Around such a
  backend the guard changes nothing.
\<close>

locale pair_backend =
  fixes ops :: "'b PairBackend" and sound :: "'b \<Rightarrow> bool"
  assumes start_pinned: "sound b \<Longrightarrow> pb_start ops b = (r, b') \<Longrightarrow>
      sound b' \<and> pb_kind ops b' = pb_kind ops b \<and> result_backend r = pb_kind ops b"
    and stop_pinned: "sound b \<Longrightarrow> pb_stop ops b = (r, b') \<Longrightarrow>
      sound b' \<and> pb_kind ops b' = pb_kind ops b \<and> result_backend r = pb_kind ops b"
    and shutdown_pinned: "sound b \<Longrightarrow> pb_shutdown ops b = (r, b') \<Longrightarrow>
      sound b' \<and> pb_kind ops b' = pb_kind ops b \<and> result_backend r = pb_kind ops b"
    and recover_stop_pinned: "sound b \<Longrightarrow> pb_recover_stop ops b = (r, b') \<Longrightarrow>
      sound b' \<and> pb_kind ops b' = pb_kind ops b \<and> result_backend r = pb_kind ops b"
begin

lemma transparent_guard:
  assumes "sound b" and "action \<in> {pb_start ops, pb_stop ops, pb_shutdown ops, pb_recover_stop ops}"
    and "checked_action ops action (transaction_new ops b) = (r, t)"
  shows "action b = (r, pbt_backend t)" and "sound (pbt_backend t)"
proof -
  obtain r0 where r0: "action b = (r0, pbt_backend t)"
    and same: "pb_kind ops (pbt_backend t) = pb_kind ops b \<and> result_backend r0 = pb_kind ops b \<Longrightarrow> r = r0"
    using checked_action_fresh [OF assms(3)] by metis
  have "sound (pbt_backend t) \<and> pb_kind ops (pbt_backend t) = pb_kind ops b \<and> result_backend r0 = pb_kind ops b"
    using assms(1,2) r0 start_pinned stop_pinned shutdown_pinned recover_stop_pinned by blast
  then show "action b = (r, pbt_backend t)" and "sound (pbt_backend t)"
    using r0 same by auto
qed

end

lemma transaction_run_latched:
  "pbt_unresolved_action t = Some f \<Longrightarrow>
     transaction_run ops cs t = (replicate (length cs) (PairActionResult.OutcomeUnknown f), t)"
  by (induction cs) (simp_all add: checked_action_latched)

end
