(* ===== verification/Text.thy ===== *)
theory Text
  imports Prelude
begin

text \<open>
  The part of Rust's \<open>str\<close> and byte-slice API the sources use. A string is the list of its UTF-8
  bytes (a \<open>char\<close> of HOL is one byte), so lengths are byte lengths as in Rust and the ASCII case
  operations act on single bytes. \<open>trim\<close> removes the Unicode white space Rust removes, written as
  byte sequences.
\<close>

abbreviation byte :: "char \<Rightarrow> nat" where
  "byte c \<equiv> of_char c"

subsection \<open>UTF-8\<close>

definition utf8_cont :: "char \<Rightarrow> bool" where
  "utf8_cont c \<longleftrightarrow> 0x80 \<le> byte c \<and> byte c \<le> 0xBF"

fun utf8_valid :: "string \<Rightarrow> bool" where
  "utf8_valid [] = True"
| "utf8_valid (a # xs) =
     (if byte a < 0x80 then utf8_valid xs
      else if 0xC2 \<le> byte a \<and> byte a \<le> 0xDF then
        (case xs of b # ys \<Rightarrow> utf8_cont b \<and> utf8_valid ys | _ \<Rightarrow> False)
      else if 0xE0 \<le> byte a \<and> byte a \<le> 0xEF then
        (case xs of
           b # c # ys \<Rightarrow>
             utf8_cont b \<and> (byte a = 0xE0 \<longrightarrow> 0xA0 \<le> byte b) \<and> (byte a = 0xED \<longrightarrow> byte b \<le> 0x9F)
             \<and> utf8_cont c \<and> utf8_valid ys
         | _ \<Rightarrow> False)
      else if 0xF0 \<le> byte a \<and> byte a \<le> 0xF4 then
        (case xs of
           b # c # d # ys \<Rightarrow>
             utf8_cont b \<and> (byte a = 0xF0 \<longrightarrow> 0x90 \<le> byte b) \<and> (byte a = 0xF4 \<longrightarrow> byte b \<le> 0x8F)
             \<and> utf8_cont c \<and> utf8_cont d \<and> utf8_valid ys
         | _ \<Rightarrow> False)
      else False)"

definition all_ascii :: "string \<Rightarrow> bool" where
  "all_ascii s \<longleftrightarrow> list_all (\<lambda>c. byte c < 0x80) s"

subsection \<open>Prefixes, suffixes, searching\<close>

definition starts_with :: "string \<Rightarrow> string \<Rightarrow> bool" where
  "starts_with s p \<longleftrightarrow> take (length p) s = p"

definition ends_with :: "string \<Rightarrow> string \<Rightarrow> bool" where
  "ends_with s p \<longleftrightarrow> length p \<le> length s \<and> drop (length s - length p) s = p"

definition strip_prefix :: "string \<Rightarrow> string \<Rightarrow> string option" where
  "strip_prefix s p = (if starts_with s p then Some (drop (length p) s) else None)"

definition strip_suffix :: "string \<Rightarrow> string \<Rightarrow> string option" where
  "strip_suffix s p = (if ends_with s p then Some (take (length s - length p) s) else None)"

text \<open>\<open>haystack.windows(n).position(|w| w == needle)\<close>; the needles of the sources are non-empty.\<close>

fun find_subslice :: "string \<Rightarrow> string \<Rightarrow> nat option" where
  "find_subslice [] needle = None"
| "find_subslice (x # xs) needle =
     (if starts_with (x # xs) needle then Some 0
      else map_option Suc (find_subslice xs needle))"

definition contains_str :: "string \<Rightarrow> string \<Rightarrow> bool" where
  "contains_str s needle \<longleftrightarrow> find_subslice s needle \<noteq> None"

fun split_once :: "char \<Rightarrow> string \<Rightarrow> (string \<times> string) option" where
  "split_once c [] = None"
| "split_once c (x # xs) =
     (if x = c then Some ([], xs)
      else map_option (\<lambda>(a, b). (x # a, b)) (split_once c xs))"

definition rsplit_once :: "char \<Rightarrow> string \<Rightarrow> (string \<times> string) option" where
  "rsplit_once c s =
     map_option (\<lambda>(a, b). (rev b, rev a)) (split_once c (rev s))"

fun split_char :: "char \<Rightarrow> string \<Rightarrow> string list" where
  "split_char c [] = [[]]"
| "split_char c (x # xs) =
     (if x = c then [] # split_char c xs
      else (case split_char c xs of [] \<Rightarrow> [[x]] | p # ps \<Rightarrow> (x # p) # ps))"

text \<open>\<open>str::split("\r\n")\<close>: pieces between the non-overlapping occurrences, left to right.\<close>

fun split_crlf :: "string \<Rightarrow> string list" where
  "split_crlf [] = [[]]"
| "split_crlf [x] = [[x]]"
| "split_crlf (x # y # xs) =
     (if x = CHR 0x0D \<and> y = CHR 0x0A then [] # split_crlf xs
      else (case split_crlf (y # xs) of [] \<Rightarrow> [[x]] | p # ps \<Rightarrow> (x # p) # ps))"

definition trim_matches :: "char set \<Rightarrow> string \<Rightarrow> string" where
  "trim_matches cs s =
     rev (dropWhile (\<lambda>c. c \<in> cs) (rev (dropWhile (\<lambda>c. c \<in> cs) s)))"

subsection \<open>ASCII classes and case\<close>

definition is_ascii_digit :: "char \<Rightarrow> bool" where
  "is_ascii_digit c \<longleftrightarrow> byte CHR ''0'' \<le> byte c \<and> byte c \<le> byte CHR ''9''"

definition is_ascii_uppercase :: "char \<Rightarrow> bool" where
  "is_ascii_uppercase c \<longleftrightarrow> byte CHR ''A'' \<le> byte c \<and> byte c \<le> byte CHR ''Z''"

definition is_ascii_lowercase :: "char \<Rightarrow> bool" where
  "is_ascii_lowercase c \<longleftrightarrow> byte CHR ''a'' \<le> byte c \<and> byte c \<le> byte CHR ''z''"

definition is_ascii_alphanumeric :: "char \<Rightarrow> bool" where
  "is_ascii_alphanumeric c \<longleftrightarrow>
     is_ascii_digit c \<or> is_ascii_uppercase c \<or> is_ascii_lowercase c"

definition is_ascii_hexdigit :: "char \<Rightarrow> bool" where
  "is_ascii_hexdigit c \<longleftrightarrow>
     is_ascii_digit c \<or> (byte CHR ''a'' \<le> byte c \<and> byte c \<le> byte CHR ''f'')
     \<or> (byte CHR ''A'' \<le> byte c \<and> byte c \<le> byte CHR ''F'')"

definition is_ascii_whitespace :: "char \<Rightarrow> bool" where
  "is_ascii_whitespace c \<longleftrightarrow> byte c \<in> {0x20, 0x09, 0x0A, 0x0C, 0x0D}"

definition ascii_lower :: "char \<Rightarrow> char" where
  "ascii_lower c = (if is_ascii_uppercase c then char_of (byte c + 32) else c)"

definition to_ascii_lowercase :: "string \<Rightarrow> string" where
  "to_ascii_lowercase s = map ascii_lower s"

definition eq_ignore_ascii_case :: "string \<Rightarrow> string \<Rightarrow> bool" where
  "eq_ignore_ascii_case a b \<longleftrightarrow> to_ascii_lowercase a = to_ascii_lowercase b"

subsection \<open>Unicode trimming\<close>

text \<open>The UTF-8 encodings of the characters with the \<open>White_Space\<close> property.\<close>

definition unicode_spaces :: "string list" where
  "unicode_spaces =
     [[CHR 0x09], [CHR 0x0A], [CHR 0x0B], [CHR 0x0C], [CHR 0x0D], [CHR 0x20],
      [CHR 0xC2, CHR 0x85], [CHR 0xC2, CHR 0xA0], [CHR 0xE1, CHR 0x9A, CHR 0x80],
      [CHR 0xE2, CHR 0x80, CHR 0x80], [CHR 0xE2, CHR 0x80, CHR 0x81],
      [CHR 0xE2, CHR 0x80, CHR 0x82], [CHR 0xE2, CHR 0x80, CHR 0x83],
      [CHR 0xE2, CHR 0x80, CHR 0x84], [CHR 0xE2, CHR 0x80, CHR 0x85],
      [CHR 0xE2, CHR 0x80, CHR 0x86], [CHR 0xE2, CHR 0x80, CHR 0x87],
      [CHR 0xE2, CHR 0x80, CHR 0x88], [CHR 0xE2, CHR 0x80, CHR 0x89],
      [CHR 0xE2, CHR 0x80, CHR 0x8A], [CHR 0xE2, CHR 0x80, CHR 0xA8],
      [CHR 0xE2, CHR 0x80, CHR 0xA9], [CHR 0xE2, CHR 0x80, CHR 0xAF],
      [CHR 0xE2, CHR 0x81, CHR 0x9F], [CHR 0xE3, CHR 0x80, CHR 0x80]]"

text \<open>
  \<open>strip_any sep s\<close> removes leading occurrences of the byte sequences \<open>sep\<close>; the length of the
  rest bounds the recursion.
\<close>

fun strip_any :: "nat \<Rightarrow> string list \<Rightarrow> string \<Rightarrow> string" where
  "strip_any 0 seps s = s"
| "strip_any (Suc n) seps s =
     (case find (\<lambda>w. w \<noteq> [] \<and> starts_with s w) seps of
        None \<Rightarrow> s
      | Some w \<Rightarrow> strip_any n seps (drop (length w) s))"

definition trim_start :: "string \<Rightarrow> string" where
  "trim_start s = strip_any (length s) unicode_spaces s"

definition trim_end :: "string \<Rightarrow> string" where
  "trim_end s = rev (strip_any (length s) (map rev unicode_spaces) (rev s))"

definition trim :: "string \<Rightarrow> string" where
  "trim s = trim_end (trim_start s)"

subsection \<open>Decimal numbers\<close>

text \<open>
  \<open>str::parse\<close> for an unsigned type with maximum \<open>m\<close>: an optional plus sign, then at least one
  digit and nothing else, and a value that fits.
\<close>

definition digits_value :: "string \<Rightarrow> nat" where
  "digits_value s = foldl (\<lambda>acc c. 10 * acc + (byte c - byte CHR ''0'')) 0 s"

definition parse_unsigned :: "nat \<Rightarrow> string \<Rightarrow> nat option" where
  "parse_unsigned m s =
     (let ds = (case s of c # cs \<Rightarrow> if c = CHR ''+'' then cs else s | [] \<Rightarrow> s)
      in if ds \<noteq> [] \<and> list_all is_ascii_digit ds \<and> digits_value ds \<le> m
         then Some (digits_value ds) else None)"

text \<open>The decimal rendering of a number, as \<open>to_string\<close> and \<open>format!\<close> write it.\<close>

fun show_nat :: "nat \<Rightarrow> string" where
  "show_nat n =
     (if n < 10 then [char_of (byte CHR ''0'' + n)]
      else show_nat (n div 10) @ [char_of (byte CHR ''0'' + n mod 10)])"

declare show_nat.simps [simp del]

subsection \<open>Hexadecimal bytes\<close>

definition hex_digit_lower :: "nat \<Rightarrow> char" where
  "hex_digit_lower n = (if n < 10 then char_of (byte CHR ''0'' + n) else char_of (byte CHR ''a'' + n - 10))"

definition hex_digit_upper :: "nat \<Rightarrow> char" where
  "hex_digit_upper n = (if n < 10 then char_of (byte CHR ''0'' + n) else char_of (byte CHR ''A'' + n - 10))"

text \<open>\<open>{byte:02x}\<close> and \<open>{byte:02X}\<close>.\<close>

definition hex2_lower :: "8 word \<Rightarrow> string" where
  "hex2_lower b = [hex_digit_lower (unat b div 16), hex_digit_lower (unat b mod 16)]"

definition hex2_upper :: "8 word \<Rightarrow> string" where
  "hex2_upper b = [hex_digit_upper (unat b div 16), hex_digit_upper (unat b mod 16)]"

definition as_bytes :: "string \<Rightarrow> 8 word list" where
  "as_bytes s = map (\<lambda>c. of_nat (byte c)) s"

text \<open>\<open>Path::join\<close> with a relative second part.\<close>

definition path_join :: "string \<Rightarrow> string \<Rightarrow> string" where
  "path_join base rel =
     (if base = [] \<or> ends_with base ''/'' then base @ rel else base @ ''/'' @ rel)"

subsection \<open>Lemmas\<close>

lemma all_ascii_utf8: "all_ascii s \<Longrightarrow> utf8_valid s"
  by (induction s) (auto simp: all_ascii_def)

lemma starts_with_append [simp]: "starts_with (p @ s) p"
  by (simp add: starts_with_def)

lemma ends_with_append [simp]: "ends_with (s @ p) p"
  by (simp add: ends_with_def)

lemma strip_prefix_append [simp]: "strip_prefix (p @ s) p = Some s"
  by (simp add: strip_prefix_def)

lemma strip_suffix_append [simp]: "strip_suffix (s @ p) p = Some s"
  by (simp add: strip_suffix_def)

lemma strip_prefix_Some: "strip_prefix s p = Some r \<longleftrightarrow> s = p @ r"
  by (auto simp: strip_prefix_def starts_with_def) (metis append_take_drop_id)

lemma strip_suffix_Some: "strip_suffix s p = Some r \<longleftrightarrow> s = r @ p"
  by (auto simp: strip_suffix_def ends_with_def) (metis append_take_drop_id)

subsection \<open>Trimming and hexadecimal digits\<close>

text \<open>A printable ASCII character that is not a space.\<close>

definition is_graphic :: "char \<Rightarrow> bool" where
  "is_graphic c \<longleftrightarrow> 0x20 < byte c \<and> byte c < 0x7F"

lemma strip_any_none:
  assumes "\<And>w. w \<in> set seps \<Longrightarrow> w \<noteq> [] \<Longrightarrow> \<not> starts_with s w"
  shows "strip_any n seps s = s"
proof -
  have "find (\<lambda>w. w \<noteq> [] \<and> starts_with s w) seps = None"
    using assms by (auto simp: find_None_iff)
  then show ?thesis
    by (cases n) simp_all
qed

lemma starts_with_hd: "w \<noteq> [] \<Longrightarrow> starts_with s w \<Longrightarrow> s \<noteq> [] \<and> hd s = hd w"
  by (cases s; cases w) (auto simp: starts_with_def)

lemma strip_any_graphic:
  assumes "list_all is_graphic s" and "\<forall>w \<in> set seps. \<not> is_graphic (hd w)"
  shows "strip_any n seps s = s"
proof (rule strip_any_none)
  fix w
  assume "w \<in> set seps" and "w \<noteq> []"
  then show "\<not> starts_with s w"
    using assms starts_with_hd [of w s] by (cases s) auto
qed

lemma trim_graphic: "list_all is_graphic s \<Longrightarrow> trim s = s"
proof -
  assume s: "list_all is_graphic s"
  have "\<forall>w \<in> set unicode_spaces. \<not> is_graphic (hd w)"
      "\<forall>w \<in> set (map rev unicode_spaces). \<not> is_graphic (hd w)"
    by (simp_all add: unicode_spaces_def is_graphic_def)
  moreover have "list_all is_graphic (rev s)"
    using s by (simp add: list_all_iff)
  ultimately show ?thesis
    using s by (simp add: trim_def trim_start_def trim_end_def strip_any_graphic del: set_map)
qed

lemma less_16_cases: "(n :: nat) < 16 \<Longrightarrow> n \<in> {0,1,2,3,4,5,6,7,8,9,10,11,12,13,14,15}"
  by (auto simp: less_Suc_eq numeral_eq_Suc)

lemma hex_digits_graphic: "n < 16 \<Longrightarrow> is_graphic (hex_digit_lower n) \<and> is_graphic (hex_digit_upper n)"
  by (drule less_16_cases) (elim insertE emptyE; simp add: is_graphic_def hex_digit_lower_def hex_digit_upper_def)

lemma hex2_graphic: "list_all is_graphic (hex2_lower b)" "list_all is_graphic (hex2_upper b)"
proof -
  have "unat b div 16 < 16"
    using unsigned_less [of b, where ?'a = nat] by (simp add: div_less_iff_less_mult)
  then show "list_all is_graphic (hex2_lower b)" "list_all is_graphic (hex2_upper b)"
    by (simp_all add: hex2_lower_def hex2_upper_def hex_digits_graphic)
qed

end
