(* ===== verification/Model.thy ===== *)
theory Model
  imports Text
begin

unbundle bit_operations_syntax

text \<open>
  The closed error vocabulary (\<open>rust/src/error.rs\<close>), the private device identity and the sanitized
  projections of the JBL responses (\<open>rust/src/model.rs\<close>).

  A JSON document is the tree the JSON library hands to the code; parsing text to a tree is that
  library's work and is a parameter of the definitions that need it.
\<close>

subsection \<open>Errors\<close>

datatype JblError =
    ConfigUnavailable | ConfigPermissions | ConfigTooLarge | InvalidConfig | MissingSetting string
  | InvalidTimeout | InvalidAddress | CertificateUnavailable | CertificatePermissions
  | PrivateKeyUnavailable | PrivateKeyPermissions | InvalidTlsFingerprint | InvalidClientIdentity
  | CredentialFileInvalid | CredentialTooLarge | TlsConfiguration | PeerCertificateMismatch
  | NetworkUnreachable | HttpStatus nat | ResponseTooLarge | InvalidJson | InvalidXml
  | BasicResponseNotObject | BasicResponseCodeMissing | BasicResponseCodeInvalid
  | ControlCommandRejected | DeviceInfoMissing | ControlDeviceInfoMissing | UnexpectedDeviceModel
  | DeviceReportedError | GroupInfoMissing | GroupMembersMissing | GroupDisabledInvalid
  | GroupMemberInvalid | InvalidArguments | OutputFailed

subsection \<open>JSON trees\<close>

datatype Number = PosInt nat | NegInt int | Float

datatype Value =
    Null | Bool bool | JNumber Number | JString string | JArray "Value list"
  | JObject "(string \<times> Value) list"

fun as_i64 :: "Number \<Rightarrow> int option" where
  "as_i64 (PosInt n) = (if n < 2 ^ 63 then Some (int n) else None)"
| "as_i64 (NegInt i) = Some i"
| "as_i64 Float = None"

fun as_u64 :: "Number \<Rightarrow> nat option" where
  "as_u64 (PosInt n) = Some n"
| "as_u64 (NegInt i) = None"
| "as_u64 Float = None"

fun as_object :: "Value \<Rightarrow> (string \<times> Value) list option" where
  "as_object (JObject m) = Some m"
| "as_object _ = None"

fun as_array :: "Value \<Rightarrow> Value list option" where
  "as_array (JArray vs) = Some vs"
| "as_array _ = None"

fun as_str :: "Value \<Rightarrow> string option" where
  "as_str (JString s) = Some s"
| "as_str _ = None"

fun as_bool :: "Value \<Rightarrow> bool option" where
  "as_bool (Bool b) = Some b"
| "as_bool _ = None"

definition get :: "string \<Rightarrow> Value \<Rightarrow> Value option" where
  "get key v = Option.bind (as_object v) (\<lambda>m. map_of m key)"

definition find_key :: "string \<Rightarrow> (string \<times> Value) list \<Rightarrow> Value option" where
  "find_key key m = map_of m key"

subsection \<open>Device identities\<close>

datatype DeviceIdentity = DeviceIdentity (binary: "8 word list")

definition hex_nibble :: "8 word \<Rightarrow> 8 word option" where
  "hex_nibble b =
     (if 0x30 \<le> b \<and> b \<le> 0x39 then Some (b - 0x30)
      else if 0x61 \<le> b \<and> b \<le> 0x66 then Some (b - 0x61 + 10)
      else if 0x41 \<le> b \<and> b \<le> 0x46 then Some (b - 0x41 + 10)
      else None)"

definition identity_digits :: "8 word list \<Rightarrow> 8 word list option" where
  "identity_digits v =
     (if length v = 12 then Some v
      else if length v = 17 then
        (let separator = v ! 2
         in if separator \<noteq> 0x3A \<and> separator \<noteq> 0x2D then None
            else if list_all (\<lambda>i. v ! i = separator) [2, 5, 8, 11, 14]
            then Some (map (\<lambda>i. v ! i) [0, 1, 3, 4, 6, 7, 9, 10, 12, 13, 15, 16])
            else None)
      else None)"

definition identity_byte :: "8 word list \<Rightarrow> nat \<Rightarrow> 8 word option" where
  "identity_byte digits i =
     Option.bind (hex_nibble (digits ! (i * 2))) (\<lambda>high.
     Option.bind (hex_nibble (digits ! (i * 2 + 1))) (\<lambda>low. Some (push_bit 4 high OR low)))"

definition parse :: "string \<Rightarrow> DeviceIdentity option" where
  "parse value =
     Option.bind (identity_digits (as_bytes (trim value))) (\<lambda>digits.
     Option.bind (those (map (identity_byte digits) [0..<6])) (\<lambda>bytes.
       if bytes = replicate 6 0 \<or> bytes ! 0 AND 1 \<noteq> 0 then None else Some (DeviceIdentity bytes)))"

definition from_member_id :: "string \<Rightarrow> DeviceIdentity option" where
  "from_member_id value = (if length value \<noteq> 12 then None else parse value)"

definition matches_binary :: "DeviceIdentity \<Rightarrow> 8 word list \<Rightarrow> bool" where
  "matches_binary self candidate \<longleftrightarrow> candidate = binary self"

definition compact_config_value :: "DeviceIdentity \<Rightarrow> string" where
  "compact_config_value self = concat (map hex2_lower (binary self))"

subsection \<open>Sanitized projections\<close>

definition SUPPORTED_JBL_MODEL :: string where
  "SUPPORTED_JBL_MODEL = ''JBL Authentics 300''"

definition JBL_PUBLIC_ROLE :: string where
  "JBL_PUBLIC_ROLE = ''JBL Authentics 300''"

definition AURA_PUBLIC_ROLE :: string where
  "AURA_PUBLIC_ROLE = ''Aura Studio 5''"

definition ALLOWED_CHANNELS :: "string list" where
  "ALLOWED_CHANNELS = [''front_left'', ''front_right'', ''left'', ''right'', ''mono'', ''stereo'']"

record DeviceInfo =
  di_name :: "string option"
  di_model :: "string option"
  di_firmware :: "string option"
  di_one_os_version :: "string option"

record GroupMember =
  gm_name :: string
  gm_channels :: "string list"

record GroupStatus =
  gs_expected_pair_configured :: bool
  gs_disabled :: "bool option"
  gs_member_count :: nat
  gs_members :: "GroupMember list"
  gs_error :: "string option"

record SanitizedStatus =
  ss_device :: DeviceInfo
  ss_play_together :: GroupStatus

definition safe_version :: "Value option \<Rightarrow> string option" where
  "safe_version value =
     Option.bind value (\<lambda>v. Option.bind (as_str v) (\<lambda>s.
       let raw = trim s
       in if raw = [] \<or> length raw > 40
             \<or> \<not> list_all (\<lambda>c. is_ascii_alphanumeric c \<or> c \<in> set ''.-_'') raw
          then None else Some raw))"

definition error_code_is_zero :: "Value option \<Rightarrow> bool" where
  "error_code_is_zero value =
     (case value of
        Some (JString code) \<Rightarrow> code = ''0''
      | Some (JNumber code) \<Rightarrow> as_i64 code = Some 0
      | _ \<Rightarrow> False)"

definition parse_device_info :: "Value \<Rightarrow> (JblError, DeviceInfo) result" where
  "parse_device_info response =
     (if \<not> error_code_is_zero (get ''error_code'' response) then Inl JblError.DeviceReportedError
      else case Option.bind (get ''device_info'' response) as_object of
          None \<Rightarrow> Inl JblError.DeviceInfoMissing
        | Some info \<Rightarrow>
            Inr \<lparr>di_name = None, di_model = None,
                 di_firmware = safe_version (find_key ''firmware'' info),
                 di_one_os_version = safe_version (find_key ''one_os_ver'' info)\<rparr>)"

text \<open>Mapping with an early error, as \<open>collect\<close> into a \<open>Result\<close> does.\<close>

fun collect :: "('a \<Rightarrow> ('e, 'b) result) \<Rightarrow> 'a list \<Rightarrow> ('e, 'b list) result" where
  "collect f [] = Inr []"
| "collect f (x # xs) =
     (case f x of Inl e \<Rightarrow> Inl e
      | Inr y \<Rightarrow> (case collect f xs of Inl e \<Rightarrow> Inl e | Inr ys \<Rightarrow> Inr (y # ys)))"

definition parse_channel :: "Value \<Rightarrow> (JblError, string) result" where
  "parse_channel raw_channel =
     (case as_str raw_channel of
        None \<Rightarrow> Inl JblError.GroupMemberInvalid
      | Some s \<Rightarrow>
          (let channel = to_ascii_lowercase (trim s)
           in Inr (if channel \<in> set ALLOWED_CHANNELS then channel else ''unknown'')))"

definition parse_member ::
  "DeviceIdentity \<Rightarrow> DeviceIdentity \<Rightarrow> Value \<Rightarrow> (JblError, GroupMember) result" where
  "parse_member expected_jbl expected_aura raw_member =
     and_then (ok_or JblError.GroupMemberInvalid (as_object raw_member)) (\<lambda>member.
     and_then (ok_or JblError.GroupMemberInvalid
       (Option.bind (Option.bind (find_key ''device_name'' member) as_str)
          (\<lambda>name. if name = [] then None else Some name))) (\<lambda>raw_name.
     and_then (ok_or JblError.GroupMemberInvalid
       (Option.bind (Option.bind (find_key ''id'' member) as_str) from_member_id)) (\<lambda>raw_identity.
       let name =
         (if raw_name = JBL_PUBLIC_ROLE \<and> raw_identity = expected_jbl then JBL_PUBLIC_ROLE
          else if raw_name = AURA_PUBLIC_ROLE \<and> raw_identity = expected_aura then AURA_PUBLIC_ROLE
          else ''unknown'')
       in and_then (ok_or JblError.GroupMemberInvalid
            (Option.bind (find_key ''channel'' member) as_array)) (\<lambda>raw_channels.
          and_then (collect parse_channel raw_channels) (\<lambda>channels.
            Inr \<lparr>gm_name = name, gm_channels = channels\<rparr>)))))"

text \<open>
  The two counters of the source are incremented exactly in the branches that assign the two public
  names, so they are the numbers of members with these names.
\<close>

definition parse_group_status ::
  "Value \<Rightarrow> DeviceIdentity \<Rightarrow> DeviceIdentity \<Rightarrow> (JblError, GroupStatus) result" where
  "parse_group_status response expected_jbl expected_aura =
     (if expected_jbl = expected_aura then Inl JblError.InvalidConfig
      else if \<not> error_code_is_zero (get ''error_code'' response) then Inl JblError.DeviceReportedError
      else
        and_then (ok_or JblError.GroupInfoMissing
          (Option.bind (get ''group_info'' response) as_object)) (\<lambda>group.
        and_then (ok_or JblError.GroupMembersMissing
          (Option.bind (find_key ''members'' group) as_array)) (\<lambda>raw_members.
        if length raw_members \<noteq> 2 then Inl JblError.GroupMemberInvalid
        else
          and_then (ok_or JblError.GroupDisabledInvalid
            (Option.bind (find_key ''disabled'' group) as_bool)) (\<lambda>disabled.
          and_then (collect (parse_member expected_jbl expected_aura) raw_members) (\<lambda>members.
            let jbl_count = length (filter (\<lambda>m. gm_name m = JBL_PUBLIC_ROLE) members);
                aura_count = length (filter (\<lambda>m. gm_name m = AURA_PUBLIC_ROLE) members);
                expected_pair_configured = (jbl_count = 1 \<and> aura_count = 1 \<and> \<not> disabled)
            in Inr \<lparr>gs_expected_pair_configured = expected_pair_configured,
                    gs_disabled = Some disabled, gs_member_count = length members,
                    gs_members = members,
                    gs_error = (if expected_pair_configured then None
                                else Some ''expected_pair_not_configured'')\<rparr>)))))"

subsection \<open>Identities\<close>

lemma hex_nibble_digits:
  assumes "n < 16"
  shows "hex_nibble (of_nat (byte (hex_digit_lower n))) = Some (of_nat n)"
    "hex_nibble (of_nat (byte (hex_digit_upper n))) = Some (of_nat n)"
    using less_16_cases [OF assms]
    by (elim insertE emptyE; simp add: hex_nibble_def hex_digit_lower_def hex_digit_upper_def)+

lemma nibbles_join: "push_bit 4 (of_nat (unat b div 16)) OR of_nat (unat b mod 16) = (b :: 8 word)"
proof -
  have "unat b div 16 = drop_bit 4 (unat b)"
    by (simp add: drop_bit_eq_div)
  then have "unat b div 16 = unat (drop_bit 4 b)"
    by (simp only: unat_drop_bit_eq)
  moreover have "unat b mod 16 = take_bit 4 (unat b)"
    by (simp add: take_bit_eq_mod)
  then have "unat b mod 16 = unat (take_bit 4 b)"
    by (simp only: unsigned_take_bit_eq)
  moreover have "push_bit 4 (drop_bit 4 b) OR take_bit 4 b = b"
    by (auto simp: bit_eq_iff bit_or_iff bit_push_bit_iff bit_drop_bit_eq bit_take_bit_iff)
  ultimately show ?thesis
    by simp
qed


definition valid_identity :: "DeviceIdentity \<Rightarrow> bool" where
  "valid_identity d \<longleftrightarrow>
     length (binary d) = 6 \<and> binary d \<noteq> replicate 6 0 \<and> hd (binary d) AND 1 = 0"

lemma unat_nibbles [simp]: "unat (b :: 8 word) div 16 < 16" "unat b mod 16 < 16"
  using unsigned_less [of b, where ?'a = nat] by (simp_all add: div_less_iff_less_mult)

lemma length_6: "length xs = 6 \<Longrightarrow> \<exists>a b c d e f. xs = [a, b, c, d, e, f]"
  by (auto simp: length_Suc_conv numeral_eq_Suc)

lemma parse_compact:
  assumes "valid_identity d"
  shows "parse (compact_config_value d) = Some d"
proof -
  obtain a b c x e f where d: "binary d = [a, b, c, x, e, f]"
    using assms length_6 unfolding valid_identity_def by blast
  have "list_all is_graphic (compact_config_value d)"
    using hex2_graphic by (simp add: compact_config_value_def d)
  then have t: "trim (compact_config_value d) = compact_config_value d"
    by (rule trim_graphic)
  have "[a, b, c, x, e, f] \<noteq> replicate 6 0" "a AND 1 = 0"
    using assms by (simp_all add: valid_identity_def d)
  moreover have u: "[0..<6] = [0, 1, 2, 3, 4, 5 :: nat]"
    by (simp add: upt_rec)
  have "identity_digits (as_bytes (compact_config_value d)) = Some (as_bytes (compact_config_value d))"
    by (simp add: identity_digits_def compact_config_value_def d as_bytes_def hex2_lower_def)
  moreover have "map (identity_byte (as_bytes (compact_config_value d))) [0..<6] = map Some [a, b, c, x, e, f]"
    unfolding u by (simp add: identity_byte_def compact_config_value_def d as_bytes_def hex2_lower_def
      hex_nibble_digits nibbles_join)
  ultimately show ?thesis
    unfolding parse_def t using d by (cases d) simp
qed

lemma those_length: "those xs = Some ys \<Longrightarrow> length ys = length xs"
  by (induction xs arbitrary: ys) (auto split: option.splits)

lemma parse_valid: "parse s = Some d \<Longrightarrow> valid_identity d"
  by (auto simp: parse_def valid_identity_def bind_eq_Some_conv split: if_splits
      dest!: those_length) (metis hd_conv_nth list.size(3) zero_neq_numeral)

subsection \<open>Group projections\<close>

lemma collect_Inr:
  "collect f xs = Inr ys \<longleftrightarrow> list_all2 (\<lambda>x y. f x = Inr y) xs ys"
proof (induction xs arbitrary: ys)
  case (Cons x xs)
  show ?case
    using Cons.IH by (cases ys; cases "f x"; cases "collect f xs") auto
qed auto

lemma roles_distinct [simp]:
  "JBL_PUBLIC_ROLE \<noteq> AURA_PUBLIC_ROLE" "AURA_PUBLIC_ROLE \<noteq> JBL_PUBLIC_ROLE"
  "JBL_PUBLIC_ROLE \<noteq> ''unknown''" "AURA_PUBLIC_ROLE \<noteq> ''unknown''"
  "''unknown'' \<noteq> JBL_PUBLIC_ROLE" "''unknown'' \<noteq> AURA_PUBLIC_ROLE"
  by (simp_all add: JBL_PUBLIC_ROLE_def AURA_PUBLIC_ROLE_def)

text \<open>A raw member that carries the public name and the private identity of a role.\<close>

definition carries :: "string \<Rightarrow> DeviceIdentity \<Rightarrow> Value \<Rightarrow> bool" where
  "carries role identity raw \<longleftrightarrow>
     (\<exists>m id. as_object raw = Some m \<and> find_key ''device_name'' m = Some (JString role) \<and>
        find_key ''id'' m = Some (JString id) \<and> from_member_id id = Some identity)"

lemma as_str_Some [simp]: "as_str v = Some s \<longleftrightarrow> v = JString s"
  by (cases v) auto

lemma parse_member_Inr:
  assumes "parse_member jbl aura raw = Inr m"
  shows "gm_name m = JBL_PUBLIC_ROLE \<longleftrightarrow> carries JBL_PUBLIC_ROLE jbl raw"
    and "gm_name m = AURA_PUBLIC_ROLE \<longleftrightarrow> carries AURA_PUBLIC_ROLE aura raw"
    and "gm_name m \<in> {JBL_PUBLIC_ROLE, AURA_PUBLIC_ROLE, ''unknown''}"
    and "set (gm_channels m) \<subseteq> insert ''unknown'' (set ALLOWED_CHANNELS)"
proof -
  obtain o' name id channels where m: "as_object raw = Some o'"
      "find_key ''device_name'' o' = Some (JString name)" "find_key ''id'' o' = Some (JString id)"
      and identity: "\<exists>i. from_member_id id = Some i"
      and mname: "gm_name m = (if name = JBL_PUBLIC_ROLE \<and> from_member_id id = Some jbl then JBL_PUBLIC_ROLE
          else if name = AURA_PUBLIC_ROLE \<and> from_member_id id = Some aura then AURA_PUBLIC_ROLE
          else ''unknown'')"
      and ch: "collect parse_channel channels = Inr (gm_channels m)"
    using assms unfolding parse_member_def
    by (auto simp: bind_eq_Some_conv Let_def split: if_splits)
  show "gm_name m = JBL_PUBLIC_ROLE \<longleftrightarrow> carries JBL_PUBLIC_ROLE jbl raw"
      "gm_name m = AURA_PUBLIC_ROLE \<longleftrightarrow> carries AURA_PUBLIC_ROLE aura raw"
      "gm_name m \<in> {JBL_PUBLIC_ROLE, AURA_PUBLIC_ROLE, ''unknown''}"
    using m mname by (auto simp: carries_def)
  have "list_all2 (\<lambda>x y. parse_channel x = Inr y) channels (gm_channels m)"
    using ch by (simp add: collect_Inr)
  then show "set (gm_channels m) \<subseteq> insert ''unknown'' (set ALLOWED_CHANNELS)"
    by (auto simp: list_all2_conv_all_nth in_set_conv_nth parse_channel_def Let_def
        split: option.splits if_splits) (metis (no_types, lifting) Inl_Inr_False Inr_inject option.exhaust)
qed

lemma parse_group_status_Inr:
  assumes "parse_group_status response jbl aura = Inr g"
  obtains group m1 m2 disabled g1 g2 where "jbl \<noteq> aura"
    and "error_code_is_zero (get ''error_code'' response)"
    and "get ''group_info'' response = Some (JObject group)"
    and "find_key ''members'' group = Some (JArray [m1, m2])"
    and "find_key ''disabled'' group = Some (Bool disabled)"
    and "parse_member jbl aura m1 = Inr g1" and "parse_member jbl aura m2 = Inr g2"
    and "gs_members g = [g1, g2]" and "gs_disabled g = Some disabled" and "gs_member_count g = 2"
    and "gs_expected_pair_configured g \<longleftrightarrow> \<not> disabled \<and>
          (gm_name g1 = JBL_PUBLIC_ROLE \<and> gm_name g2 = AURA_PUBLIC_ROLE
           \<or> gm_name g1 = AURA_PUBLIC_ROLE \<and> gm_name g2 = JBL_PUBLIC_ROLE)"
    and "gs_error g = (if gs_expected_pair_configured g then None
                       else Some ''expected_pair_not_configured'')"
proof -
  have obj: "as_object v = Some m \<longleftrightarrow> v = JObject m" and arr: "as_array v = Some vs \<longleftrightarrow> v = JArray vs"
      and bl: "as_bool v = Some b \<longleftrightarrow> v = Bool b" for v m vs b
    by (cases v; auto)+
  obtain group raw disabled members where "jbl \<noteq> aura"
      "error_code_is_zero (get ''error_code'' response)"
      "get ''group_info'' response = Some (JObject group)"
      "find_key ''members'' group = Some (JArray raw)" and l: "length raw = 2"
      and "find_key ''disabled'' group = Some (Bool disabled)"
      and c: "collect (parse_member jbl aura) raw = Inr members"
      and g: "gs_members g = members" "gs_disabled g = Some disabled" "gs_member_count g = length members"
      "gs_expected_pair_configured g \<longleftrightarrow> length (filter (\<lambda>m. gm_name m = JBL_PUBLIC_ROLE) members) = 1
         \<and> length (filter (\<lambda>m. gm_name m = AURA_PUBLIC_ROLE) members) = 1 \<and> \<not> disabled"
      "gs_error g = (if gs_expected_pair_configured g then None
                     else Some ''expected_pair_not_configured'')"
    using assms unfolding parse_group_status_def Let_def
    by (auto simp: bind_eq_Some_conv obj arr bl split: if_splits)
  moreover obtain m1 m2 where "raw = [m1, m2]"
    using l by (auto simp: length_Suc_conv numeral_2_eq_2)
  moreover from this c obtain g1 g2 where "members = [g1, g2]" "parse_member jbl aura m1 = Inr g1"
      "parse_member jbl aura m2 = Inr g2"
    by (auto split: sum.splits)
  ultimately show ?thesis
    by (intro that [of group m1 m2 disabled g1 g2]) auto
qed

subsection \<open>Properties\<close>

text \<open>
  Identities round-trip. Parsing the compact rendering of any valid identity gives it back, and
  every identity that parsing returns, from whatever spelling, has six bytes, is not all zero and is
  a unicast address.
\<close>

theorem identity_round_trip:
  "(valid_identity d \<longrightarrow> parse (compact_config_value d) = Some d) \<and>
   (parse s = Some d \<longrightarrow> valid_identity d)"
  using parse_compact parse_valid by blast

theorem identity_round_trip_witness:
  "parse (compact_config_value (DeviceIdentity [2, 0, 0, 0, 0, 1])) = Some (DeviceIdentity [2, 0, 0, 0, 0, 1])"
  using identity_round_trip [of "DeviceIdentity [2, 0, 0, 0, 0, 1]"]
  by (simp add: valid_identity_def numeral_eq_Suc)

text \<open>
  The pair is recognised exactly. A response that parses reports the expected pair as configured
  exactly when the group is not disabled and its two members are the JBL speaker with the configured
  JBL identity and the Aura speaker with the configured Aura identity, in either order.
\<close>

theorem expected_pair_exact:
  assumes "parse_group_status response jbl aura = Inr g"
  shows "\<exists>group m1 m2 disabled. get ''group_info'' response = Some (JObject group) \<and>
    find_key ''members'' group = Some (JArray [m1, m2]) \<and>
    find_key ''disabled'' group = Some (Bool disabled) \<and>
    (gs_expected_pair_configured g \<longleftrightarrow> \<not> disabled \<and>
       (carries JBL_PUBLIC_ROLE jbl m1 \<and> carries AURA_PUBLIC_ROLE aura m2
        \<or> carries AURA_PUBLIC_ROLE aura m1 \<and> carries JBL_PUBLIC_ROLE jbl m2))"
  using assms
proof (rule parse_group_status_Inr)
  fix group m1 m2 disabled g1 g2
  assume "get ''group_info'' response = Some (JObject group)"
    and "find_key ''members'' group = Some (JArray [m1, m2])"
    and "find_key ''disabled'' group = Some (Bool disabled)"
    and p: "parse_member jbl aura m1 = Inr g1" "parse_member jbl aura m2 = Inr g2"
    and "gs_expected_pair_configured g \<longleftrightarrow> \<not> disabled \<and>
          (gm_name g1 = JBL_PUBLIC_ROLE \<and> gm_name g2 = AURA_PUBLIC_ROLE
           \<or> gm_name g1 = AURA_PUBLIC_ROLE \<and> gm_name g2 = JBL_PUBLIC_ROLE)"
  then show ?thesis
    using parse_member_Inr(1,2) [OF p(1)] parse_member_Inr(1,2) [OF p(2)] by auto
qed

definition example_group :: Value where
  "example_group = JObject
     [(''error_code'', JNumber (PosInt 0)),
      (''group_info'', JObject
        [(''disabled'', Bool False),
         (''members'', JArray
           [JObject [(''device_name'', JString ''Aura Studio 5''), (''id'', JString ''020000000001''),
                     (''channel'', JArray [])],
            JObject [(''device_name'', JString ''JBL Authentics 300''), (''id'', JString ''020000000002''),
                     (''channel'', JArray [])]])])]"

abbreviation example_jbl :: DeviceIdentity where
  "example_jbl \<equiv> DeviceIdentity [2, 0, 0, 0, 0, 2]"

abbreviation example_aura :: DeviceIdentity where
  "example_aura \<equiv> DeviceIdentity [2, 0, 0, 0, 0, 1]"

lemma example_group_parses: "\<exists>g. parse_group_status example_group example_jbl example_aura = Inr g"
proof -
  have c: "compact_config_value example_jbl = ''020000000002''"
      "compact_config_value example_aura = ''020000000001''"
    by (simp_all add: compact_config_value_def hex2_lower_def hex_digit_lower_def char_of_def
        bit_Suc_0_iff)
  have "valid_identity example_jbl" "valid_identity example_aura"
    by (simp_all add: valid_identity_def numeral_eq_Suc)
  then have "from_member_id ''020000000002'' = Some example_jbl"
      "from_member_id ''020000000001'' = Some example_aura"
    using parse_compact [of example_jbl] parse_compact [of example_aura]
    by (simp_all add: c from_member_id_def)
  then show ?thesis
    by (simp add: parse_group_status_def example_group_def get_def find_key_def error_code_is_zero_def
        parse_member_def and_then_def Let_def)
qed

theorem expected_pair_exact_witness:
  "\<exists>g group m1 m2 disabled.
    parse_group_status example_group example_jbl example_aura = Inr g \<and>
    get ''group_info'' example_group = Some (JObject group) \<and>
    find_key ''members'' group = Some (JArray [m1, m2]) \<and>
    find_key ''disabled'' group = Some (Bool disabled) \<and>
    (gs_expected_pair_configured g \<longleftrightarrow> \<not> disabled \<and>
       (carries JBL_PUBLIC_ROLE example_jbl m1 \<and> carries AURA_PUBLIC_ROLE example_aura m2
        \<or> carries AURA_PUBLIC_ROLE example_aura m1 \<and> carries JBL_PUBLIC_ROLE example_jbl m2))"
proof -
  obtain g where g: "parse_group_status example_group example_jbl example_aura = Inr g"
    using example_group_parses by blast
  show ?thesis
    by (rule exI [of _ g]) (simp only: g simp_thms expected_pair_exact [OF g])
qed



end
