(* ===== verification/Posix.thy ===== *)
theory Posix
  imports Text
begin

unbundle bit_operations_syntax

text \<open>
  The vocabulary of the system interface the file, lock and socket code shares: error numbers, what
  \<open>fstat\<close> reports, and the kinds of \<open>std::io::Error\<close> the code tells apart.
\<close>

datatype errno =
    ENOENT | EACCES | ELOOP | ENOSYS | EINVAL | E2BIG | EPERM | EEXIST | EWOULDBLOCK | EOTHER nat

record stat =
  st_uid :: nat
  st_mode :: "32 word"
  st_size :: nat
  st_nlink :: nat

definition S_IFMT :: "32 word" where "S_IFMT = 0xF000"
definition S_IFDIR :: "32 word" where "S_IFDIR = 0x4000"
definition S_IFREG :: "32 word" where "S_IFREG = 0x8000"

text \<open>Type and mode bits of an object of the given type that its owner alone may use.\<close>

definition private_object :: "32 word \<Rightarrow> nat \<Rightarrow> stat \<Rightarrow> bool" where
  "private_object kind euid m \<longleftrightarrow>
     st_uid m = euid \<and> st_mode m AND S_IFMT = kind \<and> st_mode m AND 0x3F = 0"

datatype io_error = WouldBlock | TimedOut | Interrupted | OtherError

text \<open>\<open>Path::is_absolute\<close>, and the C string of a path, which may hold no zero byte.\<close>

definition is_absolute :: "string \<Rightarrow> bool" where
  "is_absolute path \<longleftrightarrow> starts_with path ''/''"

definition c_string :: "string \<Rightarrow> string option" where
  "c_string s = (if CHR 0x00 \<in> set s then None else Some s)"

end
