(* ===== verification/Legacy_Backend.thy ===== *)
theory Legacy_Backend
  imports Backend Model Posix
begin

unbundle bit_operations_syntax

text \<open>
  The compatibility backend (\<open>rust/src/backend_legacy.rs\<close>, compiled for the tests of the crate): one command line
  over a trusted Unix socket and one line of JSON back. The system calls are the record \<open>unix_os\<close>; a loop that
  retries until its deadline is a partial function, and under a clock that moves with every call each of them
  returns.
\<close>

definition MAX_LEGACY_RESPONSE_BYTES :: nat where "MAX_LEGACY_RESPONSE_BYTES = 16 * 1024"
definition BACKLOG_RETRY_DELAY :: duration where "BACKLOG_RETRY_DELAY = from_millis 2"

datatype LegacyCommand = Status | Start | Stop | Shutdown

definition newline :: char where "newline = CHR 0x0A"

fun wire_line :: "LegacyCommand \<Rightarrow> string" where
  "wire_line LegacyCommand.Status = ''status'' @ [newline]"
| "wire_line LegacyCommand.Start = ''start'' @ [newline]"
| "wire_line LegacyCommand.Stop = ''stop'' @ [newline]"
| "wire_line LegacyCommand.Shutdown = ''shutdown'' @ [newline]"

fun command_expected_lifecycle :: "LegacyCommand \<Rightarrow> PairLifecycle option" where
  "command_expected_lifecycle LegacyCommand.Status = None"
| "command_expected_lifecycle LegacyCommand.Start = Some PairLifecycle.Linked"
| "command_expected_lifecycle LegacyCommand.Stop = Some PairLifecycle.Ready"
| "command_expected_lifecycle LegacyCommand.Shutdown = Some PairLifecycle.ShuttingDown"

subsection \<open>The reply\<close>

record LegacyWireResponse =
  lw_ok :: bool
  lw_state :: "Value option"
  lw_last_error :: "Value option"
  lw_aura_transport :: "Value option"
  lw_idempotent :: "Value option"

record ParsedLegacyResponse =
  pl_lifecycle :: PairLifecycle
  pl_reported_error :: bool
  pl_aura_transport :: AuraControlTransport

text \<open>
  The derived reader: an object in which the known keys are distinct and unknown ones are passed over, or an array of
  the fields in order that may stop early; only \<open>ok\<close> is required, and a null option is none.
\<close>

definition wire_fields :: "string list" where
  "wire_fields = [''ok'', ''state'', ''last_error'', ''aura_transport'', ''idempotent'']"

definition wire_members :: "Value \<Rightarrow> (string \<times> Value) list option" where
  "wire_members v =
     (case v of
        JObject m \<Rightarrow>
          let known = filter (\<lambda>(k, _). k \<in> set wire_fields) m
          in if distinct (map fst known) then Some known else None
      | JArray vs \<Rightarrow> if length vs \<le> length wire_fields then Some (zip wire_fields vs) else None
      | _ \<Rightarrow> None)"

definition optional_value :: "(string \<times> Value) list \<Rightarrow> string \<Rightarrow> Value option" where
  "optional_value m k = (case map_of m k of Some Null \<Rightarrow> None | v \<Rightarrow> v)"

definition read_wire_response :: "Value \<Rightarrow> LegacyWireResponse option" where
  "read_wire_response v =
     Option.bind (wire_members v) (\<lambda>m.
       case map_of m ''ok'' of
         Some (Bool b) \<Rightarrow>
           Some \<lparr>lw_ok = b, lw_state = optional_value m ''state'', lw_last_error = optional_value m ''last_error'',
                 lw_aura_transport = optional_value m ''aura_transport'',
                 lw_idempotent = optional_value m ''idempotent''\<rparr>
       | _ \<Rightarrow> None)"

definition legacy_lifecycles :: "(string \<times> PairLifecycle) list" where
  "legacy_lifecycles =
     [(''offline'', PairLifecycle.Offline), (''initializing'', PairLifecycle.Initializing),
      (''connecting'', PairLifecycle.Connecting), (''ready'', PairLifecycle.Ready),
      (''starting'', PairLifecycle.Linking), (''linked'', PairLifecycle.Linked),
      (''stopping'', PairLifecycle.Unlinking), (''degraded'', PairLifecycle.Degraded),
      (''recovering'', PairLifecycle.Recovering), (''shutting-down'', PairLifecycle.ShuttingDown),
      (''failed'', PairLifecycle.Failed)]"

definition parse_lifecycle :: "Value option \<Rightarrow> (PairBackendError, PairLifecycle) result" where
  "parse_lifecycle v =
     and_then (ok_or PairBackendError.InvalidLifecycle (Option.bind v as_str)) (\<lambda>state.
       ok_or PairBackendError.InvalidLifecycle (map_of legacy_lifecycles state))"

fun projected_error_presence :: "Value option \<Rightarrow> bool" where
  "projected_error_presence None = False"
| "projected_error_presence (Some Null) = False"
| "projected_error_presence (Some (JString message)) = (message \<noteq> [])"
| "projected_error_presence (Some _) = True"

definition projected_transport :: "Value option \<Rightarrow> AuraControlTransport" where
  "projected_transport v =
     (let name = Option.bind v as_str in
      if name = Some ''le'' then AuraControlTransport.Le
      else if name = Some ''bredr'' then AuraControlTransport.BrEdr
      else if name = Some ''unresolved'' then AuraControlTransport.Unresolved
      else AuraControlTransport.Unknown)"

fun parse_optional_bool :: "Value option \<Rightarrow> (PairBackendError, bool) result" where
  "parse_optional_bool None = Inr False"
| "parse_optional_bool (Some (Bool b)) = Inr b"
| "parse_optional_bool (Some _) = Inl PairBackendError.InvalidResponse"

subsection \<open>The system\<close>

text \<open>The error numbers the code tells apart, and the kind the standard library gives them.\<close>

datatype socket_errno = EISCONN | EINPROGRESS | EALREADY | EAGAIN | ETIMEDOUT | EINTR | OtherErrno nat

fun error_kind :: "socket_errno \<Rightarrow> io_error" where
  "error_kind socket_errno.EAGAIN = io_error.WouldBlock"
| "error_kind socket_errno.ETIMEDOUT = io_error.TimedOut"
| "error_kind socket_errno.EINTR = io_error.Interrupted"
| "error_kind _ = io_error.OtherError"

fun legacy_map_io_error :: "io_error \<Rightarrow> PairBackendError" where
  "legacy_map_io_error io_error.TimedOut = PairBackendError.TimedOut"
| "legacy_map_io_error io_error.WouldBlock = PairBackendError.TimedOut"
| "legacy_map_io_error _ = PairBackendError.Unavailable"

definition map_errno :: "socket_errno \<Rightarrow> PairBackendError" where
  "map_errno e = legacy_map_io_error (error_kind e)"

text \<open>A \<open>sockaddr_un\<close> has 108 bytes for its path, after a family of two bytes.\<close>

definition SUN_PATH_LENGTH :: nat where "SUN_PATH_LENGTH = 108"
definition AF_UNIX :: nat where "AF_UNIX = 1"
definition S_IFSOCK :: "32 word" where "S_IFSOCK = 0xC000"
definition O_NONBLOCK :: "32 word" where "O_NONBLOCK = 0x800"
definition POLLOUT :: "16 word" where "POLLOUT = 0x4"
definition POLLNVAL :: "16 word" where "POLLNVAL = 0x20"
definition UCRED_LENGTH :: nat where "UCRED_LENGTH = 12"

record sockaddr_un =
  sun_family :: nat
  sun_path :: string

record 'w unix_os =
  un_now :: "'w \<Rightarrow> nat"
  un_sleep :: "duration \<Rightarrow> 'w \<Rightarrow> 'w"
  un_geteuid :: "'w \<Rightarrow> nat"
  un_symlink_metadata :: "string \<Rightarrow> ('w, io_error, stat) fallible"
  un_socket :: "('w, socket_errno, nat) fallible"
  un_connect :: "nat \<Rightarrow> sockaddr_un \<Rightarrow> nat \<Rightarrow> ('w, socket_errno, unit) fallible"
  un_poll :: "nat \<Rightarrow> 16 word \<Rightarrow> nat \<Rightarrow> ('w, socket_errno, nat \<times> 16 word) fallible"
  un_so_error :: "nat \<Rightarrow> ('w, socket_errno, socket_errno option) fallible"
  un_getfl :: "nat \<Rightarrow> ('w, socket_errno, 32 word) fallible"
  un_setfl :: "nat \<Rightarrow> 32 word \<Rightarrow> ('w, socket_errno, unit) fallible"
  un_peercred :: "nat \<Rightarrow> ('w, socket_errno, nat \<times> nat) fallible"
  un_set_write_timeout :: "nat \<Rightarrow> duration \<Rightarrow> ('w, io_error, unit) fallible"
  un_write :: "nat \<Rightarrow> string \<Rightarrow> ('w, io_error, nat) fallible"
  un_shutdown_write :: "nat \<Rightarrow> ('w, io_error, unit) fallible"
  un_set_read_timeout :: "nat \<Rightarrow> duration \<Rightarrow> ('w, io_error, unit) fallible"
  un_read :: "nat \<Rightarrow> nat \<Rightarrow> ('w, io_error, string) fallible"
  un_close :: "nat \<Rightarrow> 'w \<Rightarrow> 'w"

text \<open>\<open>Instant::checked_add\<close>: the seconds of an instant are signed and have 64 bits.\<close>

definition instant_checked_add :: "nat \<Rightarrow> duration \<Rightarrow> nat option" where
  "instant_checked_add now timeout =
     (if (now + timeout) div 1000000000 < 2 ^ 63 then Some (now + timeout) else None)"

definition remaining_before :: "'w unix_os \<Rightarrow> nat \<Rightarrow> ('w, PairBackendError, duration) fallible" where
  "remaining_before os deadline w =
     (if deadline - un_now os w = 0 then Inl PairBackendError.TimedOut else Inr (deadline - un_now os w), w)"

definition poll_timeout_millis :: "duration \<Rightarrow> nat" where
  "poll_timeout_millis timeout = min (timeout div 1000000 + 1) (2 ^ 31 - 1)"

subsection \<open>A trusted connection\<close>

definition socket_address :: "string \<Rightarrow> (PairBackendError, sockaddr_un \<times> nat) result" where
  "socket_address path =
     (if path = [] \<or> CHR 0x00 \<in> set path \<or> length path \<ge> SUN_PATH_LENGTH
      then Inl PairBackendError.InvalidSocketPath
      else
        let address = \<lparr>sun_family = AF_UNIX, sun_path = path @ replicate (SUN_PATH_LENGTH - length path) (CHR 0x00)\<rparr>;
            address_length = 2 + length path + 1
        in if address_length < 2 ^ 32 then Inr (address, address_length)
           else Inl PairBackendError.InvalidSocketPath)"

definition inspect_socket_path :: "'w unix_os \<Rightarrow> string \<Rightarrow> ('w, PairBackendError, unit) fallible" where
  "inspect_socket_path os path =
     try_bind (with_err legacy_map_io_error (un_symlink_metadata os path)) (\<lambda>metadata w.
       (if st_mode metadata AND S_IFMT \<noteq> S_IFSOCK \<or> st_uid metadata \<noteq> un_geteuid os w
           \<or> st_mode metadata AND 0x1FF \<noteq> 0x180
        then Inl PairBackendError.UntrustedSocket else Inr (), w))"

definition socket_error :: "'w unix_os \<Rightarrow> nat \<Rightarrow> ('w, PairBackendError, socket_errno option) fallible" where
  "socket_error os fd = with_err map_errno (un_so_error os fd)"

text \<open>One round of the wait for a connection under way: \<open>None\<close> is another round.\<close>

definition poll_connect_once :: "'w unix_os \<Rightarrow> nat \<Rightarrow> nat \<Rightarrow> 'w \<Rightarrow> (PairBackendError, unit) result option \<times> 'w" where
  "poll_connect_once os fd deadline w =
     (case remaining_before os deadline w of
        (Inl e, w) \<Rightarrow> (Some (Inl e), w)
      | (Inr left, w) \<Rightarrow>
          (case un_poll os fd POLLOUT (poll_timeout_millis left) w of
             (Inl e, w) \<Rightarrow>
               (if error_kind e = io_error.Interrupted then None else Some (Inl (map_errno e)), w)
           | (Inr (count, revents), w) \<Rightarrow>
               if count = 0 then (Some (Inl PairBackendError.TimedOut), w)
               else if revents AND POLLNVAL \<noteq> 0 then (Some (Inl PairBackendError.Unavailable), w)
               else
                 (case socket_error os fd w of
                    (Inl e, w) \<Rightarrow> (Some (Inl e), w)
                  | (Inr None, w) \<Rightarrow> (Some (Inr ()), w)
                  | (Inr (Some e), w) \<Rightarrow>
                      (if e = socket_errno.EINPROGRESS \<or> e = socket_errno.EALREADY then None
                       else if e = socket_errno.EAGAIN then Some (Inl PairBackendError.TimedOut)
                       else Some (Inl (map_errno e)), w))))"

partial_function (option) wait_for_connect :: "'w unix_os \<Rightarrow> nat \<Rightarrow> nat \<Rightarrow> ('w, PairBackendError, unit) partial_run" where
  "wait_for_connect os fd deadline w =
     (case poll_connect_once os fd deadline w of
        (Some r, w) \<Rightarrow> Some (r, w)
      | (None, w) \<Rightarrow> wait_for_connect os fd deadline w)"

partial_function (option) connect_descriptor ::
  "'w unix_os \<Rightarrow> nat \<Rightarrow> sockaddr_un \<Rightarrow> nat \<Rightarrow> nat \<Rightarrow> ('w, PairBackendError, unit) partial_run" where
  "connect_descriptor os fd address address_length deadline w =
     (case un_connect os fd address address_length w of
        (Inr _, w) \<Rightarrow> Some (Inr (), w)
      | (Inl e, w) \<Rightarrow>
          if e = socket_errno.EISCONN then Some (Inr (), w)
          else if e = socket_errno.EINPROGRESS \<or> e = socket_errno.EALREADY then wait_for_connect os fd deadline w
          else if e = socket_errno.EAGAIN then
            (case remaining_before os deadline w of
               (Inl e, w) \<Rightarrow> Some (Inl e, w)
             | (Inr left, w) \<Rightarrow>
                 connect_descriptor os fd address address_length deadline
                   (un_sleep os (min left BACKLOG_RETRY_DELAY) w))
          else Some (Inl (map_errno e), w))"

definition set_blocking :: "'w unix_os \<Rightarrow> nat \<Rightarrow> ('w, PairBackendError, unit) fallible" where
  "set_blocking os fd =
     try_bind (with_err map_errno (un_getfl os fd)) (\<lambda>flags.
       with_err map_errno (un_setfl os fd (flags AND NOT O_NONBLOCK)))"

definition peer_uid_is_trusted :: "nat \<Rightarrow> nat \<Rightarrow> bool" where
  "peer_uid_is_trusted peer_uid effective_uid \<longleftrightarrow> peer_uid = effective_uid"

definition verify_peer_effective_uid :: "'w unix_os \<Rightarrow> nat \<Rightarrow> ('w, PairBackendError, unit) fallible" where
  "verify_peer_effective_uid os fd w =
     (case un_peercred os fd w of
        (Inl _, w) \<Rightarrow> (Inl PairBackendError.UntrustedSocket, w)
      | (Inr (credentials_length, uid), w) \<Rightarrow>
          (if credentials_length \<noteq> UCRED_LENGTH \<or> \<not> peer_uid_is_trusted uid (un_geteuid os w)
           then Inl PairBackendError.UntrustedSocket else Inr (), w))"

text \<open>An owned descriptor is closed when the block that owns it fails.\<close>

definition closing_on_error ::
  "'w unix_os \<Rightarrow> nat \<Rightarrow> ('w, PairBackendError, unit) partial_run \<Rightarrow> ('w, PairBackendError, nat) partial_run" where
  "closing_on_error os fd m w =
     map_option (\<lambda>(r, w). case r of Inl e \<Rightarrow> (Inl e, un_close os fd w) | Inr _ \<Rightarrow> (Inr fd, w)) (m w)"

definition connect_trusted_until :: "'w unix_os \<Rightarrow> string \<Rightarrow> nat \<Rightarrow> ('w, PairBackendError, nat) partial_run" where
  "connect_trusted_until os path deadline =
     run_bind (total_run (lift_result (socket_address path))) (\<lambda>(address, address_length).
     run_bind (total_run (inspect_socket_path os path)) (\<lambda>_.
     run_bind (total_run (with_err map_errno (un_socket os))) (\<lambda>fd.
       closing_on_error os fd
         (run_bind (connect_descriptor os fd address address_length deadline) (\<lambda>_.
          run_bind (total_run (set_blocking os fd)) (\<lambda>_.
            total_run (verify_peer_effective_uid os fd)))))))"

subsection \<open>Writing the line and reading the reply\<close>

definition write_step :: "'w unix_os \<Rightarrow> nat \<Rightarrow> nat \<Rightarrow> string \<Rightarrow> ('w, PairBackendError, nat) fallible" where
  "write_step os fd deadline payload =
     try_bind (remaining_before os deadline) (\<lambda>left.
     try_bind (with_err legacy_map_io_error (un_set_write_timeout os fd left)) (\<lambda>_ w.
       (case un_write os fd payload w of
          (Inr count, w) \<Rightarrow> (if count = 0 then Inl PairBackendError.Unavailable else Inr count, w)
        | (Inl e, w) \<Rightarrow> (if e = io_error.Interrupted then Inr 0 else Inl (legacy_map_io_error e), w))))"

partial_function (option) write_all_until ::
  "'w unix_os \<Rightarrow> nat \<Rightarrow> nat \<Rightarrow> string \<Rightarrow> ('w, PairBackendError, unit) partial_run" where
  "write_all_until os fd deadline payload w =
     (if payload = [] then Some (Inr (), w)
      else
        (case write_step os fd deadline payload w of
           (Inl e, w) \<Rightarrow> Some (Inl e, w)
         | (Inr count, w) \<Rightarrow> write_all_until os fd deadline (drop count payload) w))"

definition REPLY_CHUNK :: nat where "REPLY_CHUNK = 1024"

text \<open>What one chunk makes of the payload read so far: the finished reply, an error, or a longer payload.\<close>

definition take_reply :: "string \<Rightarrow> string \<Rightarrow> (PairBackendError, string \<times> bool) result" where
  "take_reply payload chunk =
     (if chunk = [] then Inl PairBackendError.InvalidResponse
      else if newline \<in> set chunk then
        let line = takeWhile (\<lambda>c. c \<noteq> newline) chunk in
        if length payload + length line > MAX_LEGACY_RESPONSE_BYTES then Inl PairBackendError.ResponseTooLarge
        else if list_ex (\<lambda>c. \<not> is_ascii_whitespace c) (drop (length line + 1) chunk)
        then Inl PairBackendError.InvalidResponse
        else Inr (payload @ line, True)
      else if length payload + length chunk > MAX_LEGACY_RESPONSE_BYTES then Inl PairBackendError.ResponseTooLarge
      else Inr (payload @ chunk, False))"

definition read_reply_step ::
  "'w unix_os \<Rightarrow> nat \<Rightarrow> nat \<Rightarrow> string \<Rightarrow> ('w, PairBackendError, string \<times> bool) fallible" where
  "read_reply_step os fd deadline payload =
     try_bind (remaining_before os deadline) (\<lambda>left.
     try_bind (with_err legacy_map_io_error (un_set_read_timeout os fd left)) (\<lambda>_ w.
       (case un_read os fd REPLY_CHUNK w of
          (Inr chunk, w) \<Rightarrow> (take_reply payload chunk, w)
        | (Inl e, w) \<Rightarrow>
            (if e = io_error.Interrupted then Inr (payload, False) else Inl (legacy_map_io_error e), w))))"

partial_function (option) read_reply_loop ::
  "'w unix_os \<Rightarrow> nat \<Rightarrow> nat \<Rightarrow> string \<Rightarrow> ('w, PairBackendError, string) partial_run" where
  "read_reply_loop os fd deadline payload w =
     (case read_reply_step os fd deadline payload w of
        (Inl e, w) \<Rightarrow> Some (Inl e, w)
      | (Inr (payload, finished), w) \<Rightarrow>
          if finished then Some (Inr payload, w) else read_reply_loop os fd deadline payload w)"

definition read_one_bounded_reply :: "'w unix_os \<Rightarrow> nat \<Rightarrow> nat \<Rightarrow> ('w, PairBackendError, string) partial_run" where
  "read_one_bounded_reply os fd deadline = read_reply_loop os fd deadline []"

subsection \<open>The backend\<close>

record LegacyV04PairBackend =
  lv_socket_path :: string
  lv_timeout :: duration

definition for_explicit_socket :: "string \<Rightarrow> duration \<Rightarrow> (PairBackendError, LegacyV04PairBackend) result" where
  "for_explicit_socket path timeout =
     (if \<not> is_absolute path then Inl PairBackendError.InvalidSocketPath
      else if timeout = 0 then Inl PairBackendError.InvalidTimeout
      else Inr \<lparr>lv_socket_path = path, lv_timeout = timeout\<rparr>)"

definition legacy_rejected_before_send :: "PairBackendError \<Rightarrow> PairActionResult" where
  "legacy_rejected_before_send reason =
     PairActionResult.RejectedBeforeSend
       \<lparr>paf_backend = PairBackendKind.LegacyV04WholePair, paf_reason = reason, paf_observed_lifecycle = None\<rparr>"

definition legacy_outcome_unknown :: "PairBackendError \<Rightarrow> PairLifecycle option \<Rightarrow> PairActionResult" where
  "legacy_outcome_unknown reason observed =
     PairActionResult.OutcomeUnknown
       \<lparr>paf_backend = PairBackendKind.LegacyV04WholePair, paf_reason = reason, paf_observed_lifecycle = observed\<rparr>"

text \<open>The stream of a call is closed when the call returns.\<close>

definition with_stream ::
  "'w unix_os \<Rightarrow> nat \<Rightarrow> ('w \<Rightarrow> ('a \<times> 'w) option) \<Rightarrow> 'w \<Rightarrow> ('a \<times> 'w) option" where
  "with_stream os fd m w = map_option (apsnd (un_close os fd)) (m w)"

definition judge_request ::
  "(string \<Rightarrow> Value option) \<Rightarrow> LegacyCommand \<Rightarrow> string \<Rightarrow> (PairBackendError, ParsedLegacyResponse) result" where
  "judge_request from_slice command payload =
     and_then (ok_or PairBackendError.InvalidResponse (Option.bind (from_slice payload) read_wire_response)) (\<lambda>response.
       if \<not> lw_ok response then Inl PairBackendError.BackendReportedFailure
       else
         and_then (parse_lifecycle (lw_state response)) (\<lambda>lifecycle.
           if command_expected_lifecycle command \<noteq> None \<and> command_expected_lifecycle command \<noteq> Some lifecycle
           then Inl PairBackendError.UnexpectedLifecycle
           else Inr \<lparr>pl_lifecycle = lifecycle,
                     pl_reported_error = projected_error_presence (lw_last_error response),
                     pl_aura_transport = projected_transport (lw_aura_transport response)\<rparr>))"

definition legacy_request ::
  "'w unix_os \<Rightarrow> (string \<Rightarrow> Value option) \<Rightarrow> LegacyV04PairBackend \<Rightarrow> LegacyCommand
    \<Rightarrow> ('w, PairBackendError, ParsedLegacyResponse) partial_run" where
  "legacy_request os from_slice self command w =
     (case instant_checked_add (un_now os w) (lv_timeout self) of
        None \<Rightarrow> Some (Inl PairBackendError.InvalidTimeout, w)
      | Some deadline \<Rightarrow>
          run_bind (connect_trusted_until os (lv_socket_path self) deadline) (\<lambda>fd.
            with_stream os fd
              (run_bind (write_all_until os fd deadline (wire_line command)) (\<lambda>_.
               run_bind (total_run (with_err legacy_map_io_error (un_shutdown_write os fd))) (\<lambda>_.
               run_bind (read_one_bounded_reply os fd deadline) (\<lambda>payload.
                 total_run (lift_result (judge_request from_slice command payload))))))) w)"

definition judge_action :: "(string \<Rightarrow> Value option) \<Rightarrow> LegacyCommand \<Rightarrow> string \<Rightarrow> PairActionResult" where
  "judge_action from_slice command payload =
     (case Option.bind (from_slice payload) read_wire_response of
        None \<Rightarrow> legacy_outcome_unknown PairBackendError.InvalidResponse None
      | Some response \<Rightarrow>
          let observed = ok (parse_lifecycle (lw_state response)) in
          if \<not> lw_ok response then legacy_outcome_unknown PairBackendError.BackendReportedFailure observed
          else
            case observed of
              None \<Rightarrow> legacy_outcome_unknown PairBackendError.InvalidLifecycle None
            | Some lifecycle \<Rightarrow>
                if command_expected_lifecycle command \<noteq> Some lifecycle
                then legacy_outcome_unknown PairBackendError.UnexpectedLifecycle (Some lifecycle)
                else
                  case parse_optional_bool (lw_idempotent response) of
                    Inl reason \<Rightarrow> legacy_outcome_unknown reason (Some lifecycle)
                  | Inr idempotent \<Rightarrow>
                      PairActionResult.Accepted
                        \<lparr>par_backend = PairBackendKind.LegacyV04WholePair, par_lifecycle = lifecycle,
                         par_evidence = (if idempotent then PairBackendEvidence.LocalSessionState
                                         else PairBackendEvidence.LifecycleAcknowledgement),
                         par_idempotent = idempotent\<rparr>)"

text \<open>The part of an action after the point from which nothing can be taken back.\<close>

definition action_over ::
  "'w unix_os \<Rightarrow> (string \<Rightarrow> Value option) \<Rightarrow> LegacyCommand \<Rightarrow> nat \<Rightarrow> nat \<Rightarrow> 'w \<Rightarrow> (PairActionResult \<times> 'w) option" where
  "action_over os from_slice command deadline fd w =
     map_option (\<lambda>(r, w).
         (case r of Inl reason \<Rightarrow> legacy_outcome_unknown reason None
                  | Inr payload \<Rightarrow> judge_action from_slice command payload, w))
       (run_bind (write_all_until os fd deadline (wire_line command)) (\<lambda>_.
        run_bind (total_run (with_err legacy_map_io_error (un_shutdown_write os fd))) (\<lambda>_.
          read_one_bounded_reply os fd deadline)) w)"

definition legacy_action ::
  "'w unix_os \<Rightarrow> (string \<Rightarrow> Value option) \<Rightarrow> LegacyV04PairBackend \<Rightarrow> LegacyCommand
    \<Rightarrow> 'w \<Rightarrow> (PairActionResult \<times> 'w) option" where
  "legacy_action os from_slice self command w =
     (case instant_checked_add (un_now os w) (lv_timeout self) of
        None \<Rightarrow> Some (legacy_rejected_before_send PairBackendError.InvalidTimeout, w)
      | Some deadline \<Rightarrow>
          Option.bind (connect_trusted_until os (lv_socket_path self) deadline w) (\<lambda>(r, w).
            case r of
              Inl reason \<Rightarrow> Some (legacy_rejected_before_send reason, w)
            | Inr fd \<Rightarrow> with_stream os fd (action_over os from_slice command deadline fd) w))"

definition legacy_health ::
  "'w unix_os \<Rightarrow> (string \<Rightarrow> Value option) \<Rightarrow> LegacyV04PairBackend \<Rightarrow> ('w, PairBackendError, PairHealth) partial_run" where
  "legacy_health os from_slice self =
     run_bind (legacy_request os from_slice self LegacyCommand.Status) (\<lambda>response.
       total_run (lift_result (Inr (pair_health_new PairBackendKind.LegacyV04WholePair (pl_lifecycle response)
         (pl_reported_error response) (pl_aura_transport response)))))"

definition legacy_start where
  "legacy_start os from_slice self = legacy_action os from_slice self LegacyCommand.Start"

definition legacy_stop where
  "legacy_stop os from_slice self = legacy_action os from_slice self LegacyCommand.Stop"

definition legacy_shutdown where
  "legacy_shutdown os from_slice self = legacy_action os from_slice self LegacyCommand.Shutdown"

subsection \<open>Every call is accounted for\<close>

text \<open>The system with a log of what concerns the peer: descriptors, its credentials with this user, the bytes it
  took and the bytes it gave.\<close>

datatype unix_event = Opened nat | Peer nat nat nat nat | Wrote nat string | Received nat string | Closed nat

definition with_events :: "('r \<Rightarrow> 'w \<Rightarrow> unix_event list) \<Rightarrow> ('w \<Rightarrow> 'r \<times> 'w) \<Rightarrow> 'w \<times> unix_event list \<Rightarrow> 'r \<times> 'w \<times> unix_event list" where
  "with_events events m s = (case m (fst s) of (r, w) \<Rightarrow> (r, (w, snd s @ events r w)))"

definition noting :: "'w unix_os \<Rightarrow> ('w \<times> unix_event list) unix_os" where
  "noting os =
     \<lparr>un_now = (\<lambda>s. un_now os (fst s)), un_sleep = (\<lambda>d s. (un_sleep os d (fst s), snd s)),
      un_geteuid = (\<lambda>s. un_geteuid os (fst s)),
      un_symlink_metadata = (\<lambda>path. with_events (\<lambda>_ _. []) (un_symlink_metadata os path)),
      un_socket = with_events (\<lambda>r _. case r of Inl _ \<Rightarrow> [] | Inr fd \<Rightarrow> [Opened fd]) (un_socket os),
      un_connect = (\<lambda>fd a n. with_events (\<lambda>_ _. []) (un_connect os fd a n)),
      un_poll = (\<lambda>fd e t. with_events (\<lambda>_ _. []) (un_poll os fd e t)),
      un_so_error = (\<lambda>fd. with_events (\<lambda>_ _. []) (un_so_error os fd)),
      un_getfl = (\<lambda>fd. with_events (\<lambda>_ _. []) (un_getfl os fd)),
      un_setfl = (\<lambda>fd flags. with_events (\<lambda>_ _. []) (un_setfl os fd flags)),
      un_peercred = (\<lambda>fd. with_events (\<lambda>r w. case r of Inl _ \<Rightarrow> [] | Inr (n, uid) \<Rightarrow> [Peer fd n uid (un_geteuid os w)]) (un_peercred os fd)),
      un_set_write_timeout = (\<lambda>fd t. with_events (\<lambda>_ _. []) (un_set_write_timeout os fd t)),
      un_write = (\<lambda>fd payload. with_events (\<lambda>r _. case r of Inl _ \<Rightarrow> [] | Inr n \<Rightarrow> [Wrote fd (take n payload)]) (un_write os fd payload)),
      un_shutdown_write = (\<lambda>fd. with_events (\<lambda>_ _. []) (un_shutdown_write os fd)),
      un_set_read_timeout = (\<lambda>fd t. with_events (\<lambda>_ _. []) (un_set_read_timeout os fd t)),
      un_read = (\<lambda>fd n. with_events (\<lambda>r _. case r of Inl _ \<Rightarrow> [] | Inr chunk \<Rightarrow> [Received fd chunk]) (un_read os fd n)),
      un_close = (\<lambda>fd s. (un_close os fd (fst s), snd s @ [Closed fd]))\<rparr>"

text \<open>The calls of the loops take time.\<close>

definition calls_take_time :: "'w unix_os \<Rightarrow> bool" where
  "calls_take_time os \<longleftrightarrow>
     (\<forall>w fd a n. un_now os w < un_now os (snd (un_connect os fd a n w)))
     \<and> (\<forall>w d. un_now os w \<le> un_now os (un_sleep os d w))
     \<and> (\<forall>w fd e t. un_now os w < un_now os (snd (un_poll os fd e t w)))
     \<and> (\<forall>w fd. un_now os w \<le> un_now os (snd (un_so_error os fd w)))
     \<and> (\<forall>w fd t. un_now os w \<le> un_now os (snd (un_set_write_timeout os fd t w)))
     \<and> (\<forall>w fd p. un_now os w < un_now os (snd (un_write os fd p w)))
     \<and> (\<forall>w fd t. un_now os w \<le> un_now os (snd (un_set_read_timeout os fd t w)))
     \<and> (\<forall>w fd n. un_now os w < un_now os (snd (un_read os fd n w)))"

lemma call_time:
  assumes "calls_take_time os"
  shows "un_connect os fd a n w = (r1, w') \<Longrightarrow> un_now os w < un_now os w'"
    and "un_now os w \<le> un_now os (un_sleep os d w)"
    and "un_poll os fd e t w = (r2, w') \<Longrightarrow> un_now os w < un_now os w'"
    and "un_so_error os fd w = (r3, w') \<Longrightarrow> un_now os w \<le> un_now os w'"
    and "un_set_write_timeout os fd t w = (r1', w') \<Longrightarrow> un_now os w \<le> un_now os w'"
    and "un_write os fd p w = (r4, w') \<Longrightarrow> un_now os w < un_now os w'"
    and "un_set_read_timeout os fd t w = (r1', w') \<Longrightarrow> un_now os w \<le> un_now os w'"
    and "un_read os fd n w = (r5, w') \<Longrightarrow> un_now os w < un_now os w'"
  using assms unfolding calls_take_time_def by (metis snd_conv)+

lemma noting_sel [simp]:
  "un_now (noting os) (w, l) = un_now os w"
  "un_sleep (noting os) d (w, l) = (un_sleep os d w, l)"
  "un_geteuid (noting os) (w, l) = un_geteuid os w"
  "un_close (noting os) fd (w, l) = (un_close os fd w, l @ [Closed fd])"
  "un_connect (noting os) fd a n (w, l) = (case un_connect os fd a n w of (r, w) \<Rightarrow> (r, (w, l)))"
  "un_poll (noting os) fd e t (w, l) = (case un_poll os fd e t w of (r, w) \<Rightarrow> (r, (w, l)))"
  "un_so_error (noting os) fd (w, l) = (case un_so_error os fd w of (r, w) \<Rightarrow> (r, (w, l)))"
  "un_set_write_timeout (noting os) fd t (w, l) = (case un_set_write_timeout os fd t w of (r, w) \<Rightarrow> (r, (w, l)))"
  "un_set_read_timeout (noting os) fd t (w, l) = (case un_set_read_timeout os fd t w of (r, w) \<Rightarrow> (r, (w, l)))"
  "un_read (noting os) fd n (w, l) =
     (case un_read os fd n w of (r, w) \<Rightarrow> (r, (w, l @ (case r of Inl _ \<Rightarrow> [] | Inr chunk \<Rightarrow> [Received fd chunk]))))"
  "un_shutdown_write (noting os) fd (w, l) = (case un_shutdown_write os fd w of (r, w) \<Rightarrow> (r, (w, l)))"
  by (simp_all add: noting_def with_events_def split: prod.splits)

lemma poll_connect_once_noted:
  assumes "calls_take_time os"
  shows "\<exists>r w'. poll_connect_once (noting os) fd deadline (w, l) = (r, (w', l)) \<and>
    (r = None \<longrightarrow> un_now os w < deadline \<and> un_now os w < un_now os w')"
proof -
  obtain p w1 where p: "un_poll os fd POLLOUT (poll_timeout_millis (deadline - un_now os w)) w = (p, w1)"
    by fastforce
  obtain e w2 where e: "un_so_error os fd w1 = (e, w2)"
    by fastforce
  note time = call_time(3) [OF assms p] call_time(4) [OF assms e]
  show ?thesis
    using p e time
    by (auto simp: poll_connect_once_def remaining_before_def socket_error_def with_err_def
        split: sum.splits prod.splits option.splits)
qed

lemma wait_for_connect_noted:
  assumes "calls_take_time os"
  shows "\<exists>r w'. wait_for_connect (noting os) fd deadline (w, l) = Some (r, (w', l))"
proof (induction "deadline - un_now os w" arbitrary: w rule: less_induct)
  case less
  obtain r w' where r: "poll_connect_once (noting os) fd deadline (w, l) = (r, (w', l))"
    and again: "r = None \<Longrightarrow> un_now os w < deadline \<and> un_now os w < un_now os w'"
    using poll_connect_once_noted [OF assms] by blast
  show ?case
    using r again less [of w'] by (subst wait_for_connect.simps) (auto split: option.splits)
qed

lemma connect_descriptor_noted:
  assumes "calls_take_time os"
  shows "\<exists>r w'. connect_descriptor (noting os) fd address n deadline (w, l) = Some (r, (w', l))"
proof (induction "deadline - un_now os w" arbitrary: w rule: less_induct)
  case less
  obtain r w1 where r: "un_connect os fd address n w = (r, w1)"
    by fastforce
  let ?w2 = "un_sleep os (min (deadline - un_now os w1) BACKLOG_RETRY_DELAY) w1"
  have "un_now os w < un_now os w1" and "un_now os w1 \<le> un_now os ?w2"
    using call_time(1) [OF assms r] call_time(2) [OF assms] by auto
  then have "\<exists>r w'. connect_descriptor (noting os) fd address n deadline (?w2, l) = Some (r, (w', l))"
    if "un_now os w1 < deadline"
    using that by (intro less) linarith
  then show ?case
    using r wait_for_connect_noted [OF assms, of fd deadline w1 l]
    by (subst connect_descriptor.simps) (auto simp: remaining_before_def split: sum.splits)
qed

lemma verify_peer_noted:
  "\<exists>r w' events. verify_peer_effective_uid (noting os) fd (w, l) = (r, (w', l @ events)) \<and>
     (events = [] \<or> (\<exists>n uid euid. events = [Peer fd n uid euid])) \<and>
     (is_ok r \<longrightarrow> (\<exists>uid. events = [Peer fd UCRED_LENGTH uid uid]))"
  by (auto simp: verify_peer_effective_uid_def noting_def with_events_def peer_uid_is_trusted_def
      split: prod.splits sum.splits)

lemma set_blocking_noted: "\<exists>r w'. set_blocking (noting os) fd (w, l) = (r, (w', l))"
  by (auto simp: set_blocking_def try_bind_def with_err_def noting_def with_events_def split: prod.splits sum.splits)

lemma inspect_socket_path_noted: "\<exists>r w'. inspect_socket_path (noting os) path (w, l) = (r, (w', l))"
  by (auto simp: inspect_socket_path_def try_bind_def with_err_def noting_def with_events_def split: prod.splits sum.splits)

text \<open>What a connection leaves in the log: a failed one has closed what it opened.\<close>

definition connection_events :: "(PairBackendError, nat) result \<Rightarrow> unix_event list \<Rightarrow> bool" where
  "connection_events r events \<longleftrightarrow>
     (case r of
        Inr fd \<Rightarrow> \<exists>uid. events = [Opened fd, Peer fd UCRED_LENGTH uid uid]
      | Inl _ \<Rightarrow> events = [] \<or> (\<exists>fd peer. events = Opened fd # peer @ [Closed fd] \<and>
          (peer = [] \<or> (\<exists>n uid euid. peer = [Peer fd n uid euid]))))"

lemma owned_descriptor_noted:
  assumes "calls_take_time os"
  shows "\<exists>r w' peer. closing_on_error (noting os) fd
      (run_bind (connect_descriptor (noting os) fd address n deadline) (\<lambda>_.
       run_bind (total_run (set_blocking (noting os) fd)) (\<lambda>_.
         total_run (verify_peer_effective_uid (noting os) fd)))) (w, l) = Some (r, (w', l @ peer)) \<and>
    connection_events r (Opened fd # peer)"
proof -
  obtain r1 w1 where 1: "connect_descriptor (noting os) fd address n deadline (w, l) = Some (r1, (w1, l))"
    using connect_descriptor_noted [OF assms] by blast
  obtain r2 w2 where 2: "set_blocking (noting os) fd (w1, l) = (r2, (w2, l))"
    using set_blocking_noted [of os fd w1 l] by blast
  obtain r3 w3 events where 3: "verify_peer_effective_uid (noting os) fd (w2, l) = (r3, (w3, l @ events))"
    "events = [] \<or> (\<exists>n uid euid. events = [Peer fd n uid euid])"
    "is_ok r3 \<Longrightarrow> \<exists>uid. events = [Peer fd UCRED_LENGTH uid uid]"
    using verify_peer_noted [of os fd w2 l] by blast
  show ?thesis
    using 1 2 3
    by (cases r1; cases r2; cases r3)
      (auto simp: closing_on_error_def run_bind_def total_run_def connection_events_def)
qed

lemma connect_trusted_noted:
  assumes "calls_take_time os"
  shows "\<exists>r w' events. connect_trusted_until (noting os) path deadline (w, l) = Some (r, (w', l @ events)) \<and>
    connection_events r events"
proof (cases "socket_address path")
  case (Inl e)
  then show ?thesis
    by (auto simp: connect_trusted_until_def run_bind_def total_run_def lift_result_def connection_events_def)
next
  case (Inr a)
  obtain address n where a: "a = (address, n)"
    by fastforce
  obtain r1 w1 where 1: "inspect_socket_path (noting os) path (w, l) = (r1, (w1, l))"
    using inspect_socket_path_noted [of os path w l] by blast
  obtain r2 w2 where 2: "un_socket os w1 = (r2, w2)"
    by fastforce
  have socket: "un_socket (noting os) (w1, l) = (r2, (w2, l @ (case r2 of Inl _ \<Rightarrow> [] | Inr fd \<Rightarrow> [Opened fd])))"
    using 2 by (simp add: noting_def with_events_def)
  show ?thesis
  proof (cases r1)
    case l1: (Inl e)
    then show ?thesis
      using Inr a 1
      by (auto simp: connect_trusted_until_def run_bind_def total_run_def lift_result_def connection_events_def)
  next
    case r1: (Inr u)
    show ?thesis
    proof (cases r2)
      case l2: (Inl e)
      then show ?thesis
        using Inr a 1 r1 socket
        by (auto simp: connect_trusted_until_def run_bind_def total_run_def lift_result_def with_err_def connection_events_def)
    next
      case r2: (Inr fd)
      obtain r w' peer where "closing_on_error (noting os) fd
          (run_bind (connect_descriptor (noting os) fd address n deadline) (\<lambda>_.
           run_bind (total_run (set_blocking (noting os) fd)) (\<lambda>_.
             total_run (verify_peer_effective_uid (noting os) fd)))) (w2, l @ [Opened fd]) = Some (r, (w', l @ Opened fd # peer))"
        "connection_events r (Opened fd # peer)"
        using owned_descriptor_noted [OF assms, of fd address n deadline w2 "l @ [Opened fd]"] by auto
      then show ?thesis
        using Inr a 1 r1 socket r2
        by (auto simp: connect_trusted_until_def run_bind_def total_run_def lift_result_def with_err_def)
    qed
  qed
qed

lemma write_step_noted:
  assumes "calls_take_time os"
  shows "\<exists>r w' chunks. write_step (noting os) fd deadline payload (w, l) = (r, (w', l @ map (Wrote fd) chunks)) \<and>
    (\<forall>n. r = Inr n \<longrightarrow> un_now os w < deadline \<and> un_now os w < un_now os w' \<and> concat chunks = take n payload) \<and>
    (is_err r \<longrightarrow> concat chunks = [])"
proof -
  obtain t w1 where t: "un_set_write_timeout os fd (deadline - un_now os w) w = (t, w1)"
    by fastforce
  obtain c w2 where c: "un_write os fd payload w1 = (c, w2)"
    by fastforce
  have c': "un_write (noting os) fd payload (w1, l) =
      (c, (w2, l @ map (Wrote fd) (case c of Inl _ \<Rightarrow> [] | Inr n \<Rightarrow> [take n payload])))"
    using c by (cases c) (simp_all add: noting_def with_events_def)
  note time = call_time(5) [OF assms t] call_time(6) [OF assms c]
  have none: "l = l @ map (Wrote fd) []"
    by simp
  show ?thesis
  proof (cases "un_now os w < deadline \<and> is_ok t")
    case False
    then have "\<exists>e w'. write_step (noting os) fd deadline payload (w, l) = (Inl e, (w', l))"
      using t by (cases t) (auto simp: write_step_def try_bind_def remaining_before_def with_err_def)
    then show ?thesis
      using none by fastforce
  next
    case True
    then have "write_step (noting os) fd deadline payload (w, l) =
        (case c of Inr n \<Rightarrow> (if n = 0 then Inl PairBackendError.Unavailable else Inr n)
           | Inl e \<Rightarrow> (if e = io_error.Interrupted then Inr 0 else Inl (legacy_map_io_error e)),
         (w2, l @ map (Wrote fd) (case c of Inl _ \<Rightarrow> [] | Inr n \<Rightarrow> [take n payload])))"
      using t c' by (cases t; cases c) (auto simp: write_step_def try_bind_def remaining_before_def with_err_def)
    then show ?thesis
      using True time by (intro exI conjI) (auto split: sum.splits if_splits)
  qed
qed

lemma write_all_noted:
  assumes "calls_take_time os"
  shows "\<exists>r w' chunks. write_all_until (noting os) fd deadline payload (w, l) = Some (r, (w', l @ map (Wrote fd) chunks)) \<and>
    (\<exists>k. concat chunks = take k payload) \<and> (is_ok r \<longrightarrow> concat chunks = payload)"
proof (induction "deadline - un_now os w" arbitrary: w l payload rule: less_induct)
  case less
  obtain r w1 chunks where s: "write_step (noting os) fd deadline payload (w, l) = (r, (w1, l @ map (Wrote fd) chunks))"
    and ok: "\<And>n. r = Inr n \<Longrightarrow> un_now os w < deadline \<and> un_now os w < un_now os w1 \<and> concat chunks = take n payload"
    and err: "is_err r \<Longrightarrow> concat chunks = []"
    using write_step_noted [OF assms, of fd deadline payload w l] by blast
  show ?case
  proof (cases "payload = []")
    case True
    then show ?thesis
      by (intro exI [of _ "Inr ()"] exI [of _ w] exI [of _ "[]"]) (simp add: write_all_until.simps)
  next
    case False
    show ?thesis
    proof (cases r)
      case (Inl e)
      then show ?thesis
        using False s err
        by (intro exI [of _ "Inl e"] exI [of _ w1] exI [of _ chunks]) (auto simp: write_all_until.simps intro: exI [of _ 0])
    next
      case (Inr n)
      with ok have time: "deadline - un_now os w1 < deadline - un_now os w" and n: "concat chunks = take n payload"
        by fastforce+
      obtain r' w' chunks' where again: "write_all_until (noting os) fd deadline (drop n payload) (w1, l @ map (Wrote fd) chunks)
          = Some (r', (w', (l @ map (Wrote fd) chunks) @ map (Wrote fd) chunks'))"
        "\<exists>k. concat chunks' = take k (drop n payload)" "is_ok r' \<Longrightarrow> concat chunks' = drop n payload"
        using less [OF time] by blast
      from again(2) obtain k where "concat (chunks @ chunks') = take (n + k) payload"
        using n by (auto simp: take_add)
      moreover have "is_ok r' \<Longrightarrow> concat (chunks @ chunks') = payload"
        using again(3) n by simp
      ultimately show ?thesis
        using False s Inr again(1)
        by (intro exI [of _ r'] exI [of _ w'] exI [of _ "chunks @ chunks'"]) (auto simp: write_all_until.simps)
    qed
  qed
qed

text \<open>
  A reply is one line of bounded length, and all that was received is that line, its end and white space.
\<close>

definition reply_line :: "string \<Rightarrow> bool" where
  "reply_line payload \<longleftrightarrow> length payload \<le> MAX_LEGACY_RESPONSE_BYTES \<and> newline \<notin> set payload"

definition reply_of :: "string \<Rightarrow> string \<Rightarrow> bool" where
  "reply_of received payload \<longleftrightarrow> reply_line payload \<and>
     (\<exists>blank. received = payload @ newline # blank \<and> list_all is_ascii_whitespace blank)"

lemma take_reply_line:
  assumes "reply_line payload" and "take_reply payload chunk = Inr (payload', finished)"
  shows "reply_line payload'" and "finished \<Longrightarrow> reply_of (payload @ chunk) payload'"
    and "\<not> finished \<Longrightarrow> payload' = payload @ chunk"
proof -
  let ?line = "takeWhile (\<lambda>c. c \<noteq> newline) chunk"
  show line: "reply_line payload'"
    using assms by (auto simp: take_reply_def reply_line_def Let_def split: if_splits dest: set_takeWhileD)
  show "\<not> finished \<Longrightarrow> payload' = payload @ chunk"
    using assms by (auto simp: take_reply_def Let_def split: if_splits)
  assume finished
  then have p: "payload' = payload @ ?line" and n: "newline \<in> set chunk"
      and blank: "list_all is_ascii_whitespace (drop (length ?line + 1) chunk)"
    using assms by (auto simp: take_reply_def Let_def list_all_iff list_ex_iff split: if_splits)
  have "dropWhile (\<lambda>c. c \<noteq> newline) chunk = newline # drop (length ?line + 1) chunk"
  proof -
    have "dropWhile (\<lambda>c. c \<noteq> newline) chunk \<noteq> []"
      using n by (simp add: dropWhile_eq_Nil_conv)
    then show ?thesis
      using hd_dropWhile [of "\<lambda>c. c \<noteq> newline" chunk] dropWhile_eq_drop [of "\<lambda>c. c \<noteq> newline" chunk]
      by (metis Suc_eq_plus1 drop_Suc list.collapse tl_drop)
  qed
  then have "chunk = ?line @ newline # drop (length ?line + 1) chunk"
    by (metis takeWhile_dropWhile_id)
  then show "reply_of (payload @ chunk) payload'"
    using p blank line by (auto simp: reply_of_def)
qed

text \<open>One round: what was received carries the payload on, or ends it.\<close>

lemma read_reply_step_noted:
  assumes "calls_take_time os" and "reply_line payload"
  shows "\<exists>r w' got. read_reply_step (noting os) fd deadline payload (w, l) = (r, (w', l @ map (Received fd) got)) \<and>
    (is_ok r \<longrightarrow> un_now os w < deadline \<and> un_now os w < un_now os w') \<and>
    (\<forall>payload'. r = Inr (payload', False) \<longrightarrow> reply_line payload' \<and> payload' = payload @ concat got) \<and>
    (\<forall>payload'. r = Inr (payload', True) \<longrightarrow> reply_of (payload @ concat got) payload')"
proof -
  obtain t w1 where t: "un_set_read_timeout os fd (deadline - un_now os w) w = (t, w1)"
    by fastforce
  obtain c w2 where c: "un_read os fd REPLY_CHUNK w1 = (c, w2)"
    by fastforce
  note time = call_time(7) [OF assms(1) t] call_time(8) [OF assms(1) c]
  show ?thesis
  proof (cases "un_now os w < deadline \<and> is_ok t")
    case False
    then have "\<exists>e w'. read_reply_step (noting os) fd deadline payload (w, l) = (Inl e, (w', l @ map (Received fd) []))"
      using t by (cases t) (auto simp: read_reply_step_def try_bind_def remaining_before_def with_err_def)
    then show ?thesis
      by fastforce
  next
    case True
    let ?got = "case c of Inl _ \<Rightarrow> [] | Inr chunk \<Rightarrow> [chunk]"
    have "read_reply_step (noting os) fd deadline payload (w, l) =
        (case c of Inr chunk \<Rightarrow> take_reply payload chunk
           | Inl e \<Rightarrow> (if e = io_error.Interrupted then Inr (payload, False) else Inl (legacy_map_io_error e)),
         (w2, l @ map (Received fd) ?got))"
      using True t c by (cases t; cases c) (auto simp: read_reply_step_def try_bind_def remaining_before_def with_err_def)
    then show ?thesis
      using True time assms(2) take_reply_line(1) [OF assms(2)] take_reply_line(2) [OF assms(2), of _ _ True]
        take_reply_line(3) [OF assms(2), of _ _ False]
      by (intro exI conjI) (auto split: sum.splits if_splits)
  qed
qed

lemma read_reply_noted:
  assumes "calls_take_time os" and "reply_line payload"
  shows "\<exists>r w' got. read_reply_loop (noting os) fd deadline payload (w, l) = Some (r, (w', l @ map (Received fd) got)) \<and>
    (\<forall>payload'. r = Inr payload' \<longrightarrow> reply_of (payload @ concat got) payload')"
  using assms(2)
proof (induction "deadline - un_now os w" arbitrary: w l payload rule: less_induct)
  case less
  obtain r w1 got where s: "read_reply_step (noting os) fd deadline payload (w, l) = (r, (w1, l @ map (Received fd) got))"
    and time: "is_ok r \<Longrightarrow> deadline - un_now os w1 < deadline - un_now os w"
    and more: "\<And>payload'. r = Inr (payload', False) \<Longrightarrow> reply_line payload' \<and> payload' = payload @ concat got"
    and last: "\<And>payload'. r = Inr (payload', True) \<Longrightarrow> reply_of (payload @ concat got) payload'"
    using read_reply_step_noted [OF assms(1) less.prems, of fd deadline w l] by (metis diff_less_mono2)
  show ?case
  proof (cases r)
    case (Inl e)
    then show ?thesis
      using s by (intro exI [of _ "Inl e"] exI [of _ w1] exI [of _ got]) (simp add: read_reply_loop.simps)
  next
    case (Inr x)
    obtain payload' finished where x: "x = (payload', finished)"
      by fastforce
    show ?thesis
    proof (cases finished)
      case True
      then show ?thesis
        using s Inr x last
        by (intro exI [of _ "Inr payload'"] exI [of _ w1] exI [of _ got]) (simp add: read_reply_loop.simps)
    next
      case False
      then obtain r' w' got' where "read_reply_loop (noting os) fd deadline payload' (w1, l @ map (Received fd) got) =
          Some (r', (w', (l @ map (Received fd) got) @ map (Received fd) got'))"
        "\<And>p. r' = Inr p \<Longrightarrow> reply_of (payload' @ concat got') p"
        using less.hyps [of w1 payload' "l @ map (Received fd) got"] time more Inr x by auto
      then show ?thesis
        using s Inr x False more
        by (intro exI [of _ r'] exI [of _ w'] exI [of _ "got @ got'"]) (simp add: read_reply_loop.simps)
    qed
  qed
qed

lemma judge_action_accepted:
  "judge_action from_slice command payload = PairActionResult.Accepted receipt \<longleftrightarrow>
     (\<exists>response. Option.bind (from_slice payload) read_wire_response = Some response \<and> lw_ok response \<and>
        parse_lifecycle (lw_state response) = Inr (par_lifecycle receipt) \<and>
        command_expected_lifecycle command = Some (par_lifecycle receipt) \<and>
        parse_optional_bool (lw_idempotent response) = Inr (par_idempotent receipt) \<and>
        receipt = \<lparr>par_backend = PairBackendKind.LegacyV04WholePair, par_lifecycle = par_lifecycle receipt,
          par_evidence = (if par_idempotent receipt then PairBackendEvidence.LocalSessionState
                          else PairBackendEvidence.LifecycleAcknowledgement),
          par_idempotent = par_idempotent receipt\<rparr>)"
  by (auto simp: judge_action_def legacy_outcome_unknown_def Let_def split: option.splits sum.splits)

lemma judge_action_not_rejected: "judge_action from_slice command payload \<noteq> PairActionResult.RejectedBeforeSend f"
  by (auto simp: judge_action_def legacy_outcome_unknown_def Let_def split: option.splits sum.splits)

lemma action_over_noted:
  assumes "calls_take_time os"
  shows "\<exists>r w' chunks got. action_over (noting os) from_slice command deadline fd (w, l) =
      Some (r, (w', l @ map (Wrote fd) chunks @ map (Received fd) got)) \<and>
    (\<exists>k. concat chunks = take k (wire_line command)) \<and> (got \<noteq> [] \<longrightarrow> concat chunks = wire_line command) \<and>
    (\<forall>f. r \<noteq> PairActionResult.RejectedBeforeSend f) \<and>
    (\<forall>receipt. r = PairActionResult.Accepted receipt \<longrightarrow> concat chunks = wire_line command \<and>
      (\<exists>payload. reply_of (concat got) payload \<and> judge_action from_slice command payload = r))"
proof -
  obtain r1 w1 chunks where 1: "write_all_until (noting os) fd deadline (wire_line command) (w, l) =
      Some (r1, (w1, l @ map (Wrote fd) chunks))"
    and k: "\<exists>k. concat chunks = take k (wire_line command)" and all: "is_ok r1 \<Longrightarrow> concat chunks = wire_line command"
    using write_all_noted [OF assms, of fd deadline "wire_line command" w l] by blast
  obtain r2 w2 where 2: "un_shutdown_write os fd w1 = (r2, w2)"
    by fastforce
  obtain r3 w3 got where 3: "read_reply_loop (noting os) fd deadline [] (w2, l @ map (Wrote fd) chunks) =
      Some (r3, (w3, (l @ map (Wrote fd) chunks) @ map (Received fd) got))"
    and line: "\<And>payload. r3 = Inr payload \<Longrightarrow> reply_of (concat got) payload"
    using read_reply_noted [OF assms, of "[]" fd deadline w2 "l @ map (Wrote fd) chunks"]
    by (auto simp: reply_line_def)
  let ?read = "is_ok r1 \<and> is_ok r2"
  have "\<exists>r w'. action_over (noting os) from_slice command deadline fd (w, l) =
        Some (r, (w', l @ map (Wrote fd) chunks @ map (Received fd) (if ?read then got else []))) \<and>
      (\<forall>f. r \<noteq> PairActionResult.RejectedBeforeSend f) \<and>
      (\<forall>receipt. r = PairActionResult.Accepted receipt \<longrightarrow> ?read \<and>
        (\<exists>payload. reply_of (concat got) payload \<and> judge_action from_slice command payload = r))"
    using 1 2 3 line judge_action_not_rejected
    by (cases r1; cases r2; cases r3)
      (auto simp: action_over_def run_bind_def total_run_def with_err_def read_one_bounded_reply_def legacy_outcome_unknown_def)
  then obtain r w' where run: "action_over (noting os) from_slice command deadline fd (w, l) =
        Some (r, (w', l @ map (Wrote fd) chunks @ map (Received fd) (if ?read then got else [])))"
      "\<forall>f. r \<noteq> PairActionResult.RejectedBeforeSend f"
      "\<forall>receipt. r = PairActionResult.Accepted receipt \<longrightarrow> ?read \<and>
        (\<exists>payload. reply_of (concat got) payload \<and> judge_action from_slice command payload = r)"
    by blast
  show ?thesis
    using run k all
    by (intro exI [of _ r] exI [of _ w'] exI [of _ chunks] exI [of _ "if ?read then got else []"]) auto
qed

text \<open>The reply an acceptance rests on, given all the bytes that were received.\<close>

definition accepting_reply :: "(string \<Rightarrow> Value option) \<Rightarrow> LegacyCommand \<Rightarrow> PairActionReceipt \<Rightarrow> string \<Rightarrow> bool" where
  "accepting_reply from_slice command receipt received \<longleftrightarrow>
     (\<exists>payload blank response. received = payload @ newline # blank \<and> list_all is_ascii_whitespace blank \<and>
        length payload \<le> MAX_LEGACY_RESPONSE_BYTES \<and> newline \<notin> set payload \<and>
        Option.bind (from_slice payload) read_wire_response = Some response \<and> lw_ok response \<and>
        parse_lifecycle (lw_state response) = Inr (par_lifecycle receipt) \<and>
        command_expected_lifecycle command = Some (par_lifecycle receipt) \<and>
        parse_optional_bool (lw_idempotent response) = Inr (par_idempotent receipt))"

lemma accepted_reply:
  assumes "reply_of received payload" and "judge_action from_slice command payload = PairActionResult.Accepted receipt"
  shows "accepting_reply from_slice command receipt received"
proof -
  obtain response where "Option.bind (from_slice payload) read_wire_response = Some response" "lw_ok response"
      "parse_lifecycle (lw_state response) = Inr (par_lifecycle receipt)"
      "command_expected_lifecycle command = Some (par_lifecycle receipt)"
      "parse_optional_bool (lw_idempotent response) = Inr (par_idempotent receipt)"
    using assms(2) unfolding judge_action_accepted by blast
  then show ?thesis
    using assms(1) unfolding accepting_reply_def reply_of_def reply_line_def by blast
qed

text \<open>
  C34: one command of the compatibility backend is sent at most once, to a peer of this user, and its result says so.
  When the calls of its loops take time, an action returns. A rejection wrote nothing, whatever was opened for it.
  Any other result opened one descriptor, found the peer to be this user before the first byte, wrote a beginning of
  the command line, read only after all of it was written, and closed the descriptor. Acceptance needs the whole line
  written, and all the bytes received then are one line of bounded length, its end and white space; that line says
  the command worked and names the state the command leads to. Every descriptor that was opened is closed.
\<close>

theorem legacy_action_is_disciplined:
  assumes "calls_take_time os"
  shows "\<exists>r w' log. legacy_action (noting os) from_slice self command (w, []) = Some (r, (w', log)) \<and>
    (case r of
       PairActionResult.RejectedBeforeSend f \<Rightarrow> log = [] \<or> (\<exists>fd peer. log = Opened fd # peer @ [Closed fd] \<and>
         (peer = [] \<or> (\<exists>n uid euid. peer = [Peer fd n uid euid])))
     | _ \<Rightarrow> (\<exists>fd uid chunks got.
         log = [Opened fd, Peer fd UCRED_LENGTH uid uid] @ map (Wrote fd) chunks @ map (Received fd) got @ [Closed fd] \<and>
         (\<exists>k. concat chunks = take k (wire_line command)) \<and> (got \<noteq> [] \<longrightarrow> concat chunks = wire_line command) \<and>
         (\<forall>receipt. r = PairActionResult.Accepted receipt \<longrightarrow> concat chunks = wire_line command \<and>
           accepting_reply from_slice command receipt (concat got))))"
proof (cases "instant_checked_add (un_now os w) (lv_timeout self)")
  case None
  then show ?thesis
    by (simp add: legacy_action_def legacy_rejected_before_send_def)
next
  case (Some deadline)
  obtain r1 w1 events where 1: "connect_trusted_until (noting os) (lv_socket_path self) deadline (w, []) = Some (r1, (w1, events))"
    and c: "connection_events r1 events"
    using connect_trusted_noted [OF assms, of "lv_socket_path self" deadline w "[]"] by auto
  show ?thesis
  proof (cases r1)
    case (Inl e)
    then show ?thesis
      using Some 1 c by (simp add: legacy_action_def legacy_rejected_before_send_def connection_events_def)
  next
    case (Inr fd)
    then obtain uid where uid: "events = [Opened fd, Peer fd UCRED_LENGTH uid uid]"
      using c by (auto simp: connection_events_def)
    obtain r w2 chunks got where 2: "action_over (noting os) from_slice command deadline fd (w1, events) =
        Some (r, (w2, events @ map (Wrote fd) chunks @ map (Received fd) got))"
      and k: "\<exists>k. concat chunks = take k (wire_line command)" "got \<noteq> [] \<longrightarrow> concat chunks = wire_line command"
      and sent: "\<And>f. r \<noteq> PairActionResult.RejectedBeforeSend f"
      and acc: "\<And>receipt. r = PairActionResult.Accepted receipt \<Longrightarrow> concat chunks = wire_line command \<and>
        (\<exists>payload. reply_of (concat got) payload \<and> judge_action from_slice command payload = r)"
      using action_over_noted [OF assms, of from_slice command deadline fd w1 events] by blast
    let ?log = "[Opened fd, Peer fd UCRED_LENGTH uid uid] @ map (Wrote fd) chunks @ map (Received fd) got @ [Closed fd]"
    have run: "legacy_action (noting os) from_slice self command (w, []) = Some (r, (un_close os fd w2, ?log))"
      using Some 1 Inr 2 uid by (simp add: legacy_action_def with_stream_def)
    have "concat chunks = wire_line command \<and> accepting_reply from_slice command receipt (concat got)"
      if "r = PairActionResult.Accepted receipt" for receipt
      using acc [OF that] that accepted_reply [of "concat got" _ from_slice command receipt] by auto
    then have "\<exists>fd' uid' chunks' got'. ?log = [Opened fd', Peer fd' UCRED_LENGTH uid' uid'] @ map (Wrote fd') chunks' @
        map (Received fd') got' @ [Closed fd'] \<and>
      (\<exists>k. concat chunks' = take k (wire_line command)) \<and> (got' \<noteq> [] \<longrightarrow> concat chunks' = wire_line command) \<and>
      (\<forall>receipt. r = PairActionResult.Accepted receipt \<longrightarrow> concat chunks' = wire_line command \<and>
        accepting_reply from_slice command receipt (concat got'))"
      using k by (intro exI [of _ fd] exI [of _ uid] exI [of _ chunks] exI [of _ got]) auto
    with run sent show ?thesis
      by (cases r) auto
  qed
qed

text \<open>A peer of this user that answers a start.\<close>

definition answering_os :: "nat unix_os" where
  "answering_os =
     \<lparr>un_now = (\<lambda>w. w), un_sleep = (\<lambda>d w. w + d), un_geteuid = (\<lambda>_. 1000),
      un_symlink_metadata = (\<lambda>_ w. (Inr \<lparr>st_uid = 1000, st_mode = 0xC180, st_size = 0, st_nlink = 1\<rparr>, Suc w)),
      un_socket = (\<lambda>w. (Inr 3, Suc w)), un_connect = (\<lambda>_ _ _ w. (Inr (), Suc w)),
      un_poll = (\<lambda>_ _ _ w. (Inr (1, POLLOUT), Suc w)), un_so_error = (\<lambda>_ w. (Inr None, Suc w)),
      un_getfl = (\<lambda>_ w. (Inr O_NONBLOCK, Suc w)), un_setfl = (\<lambda>_ _ w. (Inr (), Suc w)),
      un_peercred = (\<lambda>_ w. (Inr (12, 1000), Suc w)), un_set_write_timeout = (\<lambda>_ _ w. (Inr (), Suc w)),
      un_write = (\<lambda>_ payload w. (Inr (length payload), Suc w)), un_shutdown_write = (\<lambda>_ w. (Inr (), Suc w)),
      un_set_read_timeout = (\<lambda>_ _ w. (Inr (), Suc w)), un_read = (\<lambda>_ _ w. (Inr [newline], Suc w)),
      un_close = (\<lambda>_ w. Suc w)\<rparr>"

definition linked_reply :: "string \<Rightarrow> Value option" where
  "linked_reply _ = Some (JObject [(''ok'', Bool True), (''state'', JString ''linked'')])"

lemma answering_accepts:
  "\<exists>s. legacy_action (noting answering_os) linked_reply \<lparr>lv_socket_path = ''/run/pair'', lv_timeout = from_secs 1\<rparr>
     LegacyCommand.Start (0, []) = Some (PairActionResult.Accepted
       \<lparr>par_backend = PairBackendKind.LegacyV04WholePair, par_lifecycle = PairLifecycle.Linked,
        par_evidence = PairBackendEvidence.LifecycleAcknowledgement, par_idempotent = False\<rparr>, s)"
  by (simp add: legacy_action_def instant_checked_add_def noting_def with_events_def answering_os_def from_secs_def
      connect_trusted_until_def run_bind_def total_run_def lift_result_def socket_address_def SUN_PATH_LENGTH_def
      inspect_socket_path_def try_bind_def with_err_def S_IFMT_def S_IFSOCK_def closing_on_error_def
      connect_descriptor.simps set_blocking_def verify_peer_effective_uid_def UCRED_LENGTH_def peer_uid_is_trusted_def
      with_stream_def action_over_def write_all_until.simps write_step_def remaining_before_def
      read_one_bounded_reply_def read_reply_loop.simps read_reply_step_def take_reply_def newline_def
      MAX_LEGACY_RESPONSE_BYTES_def judge_action_def linked_reply_def read_wire_response_def wire_members_def
      wire_fields_def optional_value_def parse_lifecycle_def legacy_lifecycles_def and_then_def Let_def)

theorem legacy_action_is_disciplined_witness:
  "\<exists>receipt w' fd uid chunks got.
     legacy_action (noting answering_os) linked_reply \<lparr>lv_socket_path = ''/run/pair'', lv_timeout = from_secs 1\<rparr>
       LegacyCommand.Start (0, []) = Some (PairActionResult.Accepted receipt,
         (w', [Opened fd, Peer fd UCRED_LENGTH uid uid] @ map (Wrote fd) chunks @ map (Received fd) got @ [Closed fd])) \<and>
     concat chunks = wire_line LegacyCommand.Start \<and>
     accepting_reply linked_reply LegacyCommand.Start receipt (concat got)"
proof -
  have "calls_take_time answering_os"
    by (simp add: calls_take_time_def answering_os_def)
  from legacy_action_is_disciplined [OF this, of linked_reply "\<lparr>lv_socket_path = ''/run/pair'', lv_timeout = from_secs 1\<rparr>"
      LegacyCommand.Start 0] answering_accepts
  show ?thesis
    by fastforce
qed

end
