(* ===== verification/Journal.thy ===== *)
theory Journal
  imports Text
begin

unbundle bit_operations_syntax

text \<open>
  The crash-persistent uncertainty journal (\<open>rust/src/journal.rs\<close>).

  The state directory is modelled at the level of the system calls the code makes. Every call
  consults a fault script (\<open>jd_faults\<close>) and may fail, a failing write leaving a prefix behind; a
  crash inside an operation is the script in which every later call fails. The directory keeps
  the versions it has had since its last successful \<open>fsync\<close> (\<open>jd_history\<close>): after a host crash each
  name may show what it had in any of them, and the content of a file that was never synced may
  be anything.
\<close>

subsection \<open>Actions, states, errors\<close>

datatype JournalAction = Start | Stop | Shutdown | RecoverStop

fun label :: "JournalAction \<Rightarrow> string" where
  "label JournalAction.Start = ''start''"
| "label JournalAction.Stop = ''stop''"
| "label JournalAction.Shutdown = ''shutdown''"
| "label JournalAction.RecoverStop = ''recover-stop''"

definition parse_action :: "string \<Rightarrow> JournalAction option" where
  "parse_action s =
     (if s = ''start'' then Some JournalAction.Start
      else if s = ''stop'' then Some JournalAction.Stop
      else if s = ''shutdown'' then Some JournalAction.Shutdown
      else if s = ''recover-stop'' then Some JournalAction.RecoverStop
      else None)"

datatype JournalState = Clean | Pending JournalAction

datatype JournalError =
    StateDirectoryUnavailable | StateDirectoryUntrusted | JournalUntrusted | JournalInvalid
  | JournalWriteFailed

text \<open>The \<open>UncertaintyJournal\<close> trait.\<close>

record 'j UncertaintyJournal =
  uj_is_pending :: "'j \<Rightarrow> bool"
  uj_mark_pending :: "JournalAction \<Rightarrow> ('j, JournalError, unit) fallible"
  uj_clear :: "('j, JournalError, unit) fallible"

fun state_is_pending :: "JournalState \<Rightarrow> bool" where
  "state_is_pending JournalState.Clean = False"
| "state_is_pending (JournalState.Pending _) = True"

text \<open>The in-memory journal.\<close>

record MemoryJournal =
  mj_state :: JournalState

definition memory_journal :: "MemoryJournal UncertaintyJournal" where
  "memory_journal =
     \<lparr>uj_is_pending = (\<lambda>j. state_is_pending (mj_state j)),
      uj_mark_pending = (\<lambda>a j. (Inr (), j\<lparr>mj_state := JournalState.Pending a\<rparr>)),
      uj_clear = (\<lambda>j. (Inr (), j\<lparr>mj_state := JournalState.Clean\<rparr>))\<rparr>"

subsection \<open>The text format\<close>

abbreviation newline :: string where
  "newline \<equiv> [CHR 0x0A]"

definition clean_payload :: string where
  "clean_payload = ''version=1'' @ newline @ ''state=clean'' @ newline"

definition pending_prefix :: string where
  "pending_prefix = ''version=1'' @ newline @ ''state=pending'' @ newline @ ''action=''"

fun encode_state :: "JournalState \<Rightarrow> string" where
  "encode_state JournalState.Clean = clean_payload"
| "encode_state (JournalState.Pending action) = pending_prefix @ label action @ newline"

definition parse_state :: "string \<Rightarrow> JournalState option" where
  "parse_state payload =
     (if payload = clean_payload then Some JournalState.Clean
      else case strip_prefix payload pending_prefix of
          None \<Rightarrow> None
        | Some rest \<Rightarrow>
          (case strip_suffix rest newline of
             None \<Rightarrow> None
           | Some action \<Rightarrow> map_option JournalState.Pending (parse_action action)))"

subsection \<open>The state directory as the system calls see it\<close>

datatype file_kind = Regular | Directory | Symlink | OtherKind

datatype errno = ENOENT | ELOOP | EEXIST | EIO

record metadata =
  md_kind :: file_kind
  md_uid :: nat
  md_mode :: "32 word"
  md_nlink :: nat
  md_len :: nat

record entry =
  fe_kind :: file_kind
  fe_uid :: nat
  fe_mode :: "32 word"
  fe_nlink :: nat
  fe_payload :: string
  fe_synced :: bool

type_synonym listing = "string \<Rightarrow> entry option"

record journal_directory =
  jd_meta :: metadata
  jd_entries :: listing
  jd_history :: "listing list"
  jd_faults :: "nat option list"
  jd_rand :: "nat \<Rightarrow> 8 word"
  jd_drawn :: nat
  jd_euid :: nat
  jd_umask :: "32 word"

definition entry_metadata :: "entry \<Rightarrow> metadata" where
  "entry_metadata e =
     \<lparr>md_kind = fe_kind e, md_uid = fe_uid e, md_mode = fe_mode e, md_nlink = fe_nlink e,
      md_len = length (fe_payload e)\<rparr>"

text \<open>One step of the fault script: \<open>Some k\<close> fails the call, a write after \<open>k\<close> bytes.\<close>

definition next_fault :: "journal_directory \<Rightarrow> nat option \<times> journal_directory" where
  "next_fault d =
     (case jd_faults d of [] \<Rightarrow> (None, d) | f # fs \<Rightarrow> (f, d\<lparr>jd_faults := fs\<rparr>))"

definition faulty :: "(journal_directory, errno, 'a) fallible \<Rightarrow> (journal_directory, errno, 'a) fallible" where
  "faulty m d =
     (case next_fault d of (Some _, d') \<Rightarrow> (Inl errno.EIO, d') | (None, d') \<Rightarrow> m d')"

definition set_entries :: "listing \<Rightarrow> journal_directory \<Rightarrow> journal_directory" where
  "set_entries m d = d\<lparr>jd_entries := m, jd_history := jd_entries d # jd_history d\<rparr>"

text \<open>
  \<open>openat2\<close> beneath the directory without following links: a plain open for reading, and the
  exclusive creation. An entry the caller may not read is refused by the metadata check as well,
  with the same error of the caller.
\<close>

definition open_entry :: "string \<Rightarrow> (journal_directory, errno, entry) fallible" where
  "open_entry name =
     faulty (\<lambda>d. (case jd_entries d name of
                    None \<Rightarrow> Inl errno.ENOENT
                  | Some e \<Rightarrow> if fe_kind e = file_kind.Symlink then Inl errno.ELOOP else Inr e, d))"

definition create_entry :: "string \<Rightarrow> 32 word \<Rightarrow> (journal_directory, errno, unit) fallible" where
  "create_entry name mode =
     faulty (\<lambda>d. case jd_entries d name of
                    Some _ \<Rightarrow> (Inl errno.EEXIST, d)
                  | None \<Rightarrow>
                      (Inr (), set_entries ((jd_entries d)(name \<mapsto>
                         \<lparr>fe_kind = file_kind.Regular, fe_uid = jd_euid d,
                          fe_mode = mode AND NOT (jd_umask d), fe_nlink = 1, fe_payload = [],
                          fe_synced = False\<rparr>)) d))"

definition file_metadata :: "entry \<Rightarrow> (journal_directory, errno, metadata) fallible" where
  "file_metadata e = faulty (\<lambda>d. (Inr (entry_metadata e), d))"

definition own_metadata :: "string \<Rightarrow> (journal_directory, errno, metadata) fallible" where
  "own_metadata name =
     faulty (\<lambda>d. (case jd_entries d name of
                    None \<Rightarrow> Inl errno.EIO
                  | Some e \<Rightarrow> Inr (entry_metadata e), d))"

definition write_all :: "string \<Rightarrow> string \<Rightarrow> (journal_directory, errno, unit) fallible" where
  "write_all name payload d =
     (case next_fault d of (f, d') \<Rightarrow>
        let put = (\<lambda>bytes. d'\<lparr>jd_entries := (jd_entries d')(name :=
               map_option (\<lambda>e. e\<lparr>fe_payload := bytes, fe_synced := False\<rparr>) (jd_entries d' name))\<rparr>)
        in case f of
             Some k \<Rightarrow> (Inl errno.EIO, put (take k payload))
           | None \<Rightarrow> (Inr (), put payload))"

definition sync_file :: "string \<Rightarrow> (journal_directory, errno, unit) fallible" where
  "sync_file name =
     faulty (\<lambda>d. (Inr (), d\<lparr>jd_entries := (jd_entries d)(name :=
               map_option (fe_synced_update (\<lambda>_. True)) (jd_entries d name))\<rparr>))"

definition renameat :: "string \<Rightarrow> string \<Rightarrow> (journal_directory, errno, unit) fallible" where
  "renameat source target =
     faulty (\<lambda>d. case jd_entries d source of
                    None \<Rightarrow> (Inl errno.ENOENT, d)
                  | Some e \<Rightarrow>
                      (Inr (), set_entries ((jd_entries d)(target \<mapsto> e, source := None)) d))"

definition unlinkat :: "string \<Rightarrow> (journal_directory, errno, unit) fallible" where
  "unlinkat name =
     faulty (\<lambda>d. case jd_entries d name of
                    None \<Rightarrow> (Inl errno.ENOENT, d)
                  | Some _ \<Rightarrow> (Inr (), set_entries ((jd_entries d)(name := None)) d))"

definition sync_all :: "(journal_directory, errno, unit) fallible" where
  "sync_all = faulty (\<lambda>d. (Inr (), d\<lparr>jd_history := []\<rparr>))"

definition read_limited :: "nat \<Rightarrow> entry \<Rightarrow> (journal_directory, errno, string) fallible" where
  "read_limited limit e = faulty (\<lambda>d. (Inr (take limit (fe_payload e)), d))"

definition rand_bytes8 :: "(journal_directory, errno, 8 word list) fallible" where
  "rand_bytes8 =
     faulty (\<lambda>d. (Inr (map (\<lambda>i. jd_rand d (jd_drawn d + i)) [0..<8]),
                    d\<lparr>jd_drawn := jd_drawn d + 8\<rparr>))"

subsection \<open>Trust checks and reading\<close>

definition APPLICATION_DIRECTORY :: string where
  "APPLICATION_DIRECTORY = ''jbl-aura-link-rust''"

definition JOURNAL_FILE :: string where
  "JOURNAL_FILE = ''uncertainty.state''"

definition PENDING_FILE :: string where
  "PENDING_FILE = ''uncertainty.pending''"

definition MAX_JOURNAL_BYTES :: nat where
  "MAX_JOURNAL_BYTES = 128"

definition validate_directory_metadata :: "nat \<Rightarrow> metadata \<Rightarrow> (JournalError, unit) result" where
  "validate_directory_metadata euid m =
     (if md_kind m \<noteq> file_kind.Directory \<or> md_uid m \<noteq> euid \<or> md_mode m AND 0x1FF \<noteq> 0x1C0
      then Inl JournalError.StateDirectoryUntrusted else Inr ())"

definition validate_journal_metadata ::
  "nat \<Rightarrow> metadata \<Rightarrow> bool \<Rightarrow> (JournalError, unit) result" where
  "validate_journal_metadata euid m enforce_size =
     (if md_kind m \<noteq> file_kind.Regular \<or> md_uid m \<noteq> euid \<or> md_mode m AND 0x1FF \<noteq> 0x180
         \<or> md_nlink m \<noteq> 1 \<or> enforce_size \<and> md_len m > MAX_JOURNAL_BYTES
      then Inl JournalError.JournalUntrusted else Inr ())"

definition read_state :: "string \<Rightarrow> (journal_directory, JournalError, JournalState option) fallible" where
  "read_state name d =
     (case open_entry name d of
        (Inl error, d) \<Rightarrow>
          (if error = errno.ENOENT then Inr None else Inl JournalError.JournalUntrusted, d)
      | (Inr file, d) \<Rightarrow>
          try_bind (with_err (\<lambda>_. JournalError.JournalUntrusted) (file_metadata file)) (\<lambda>opened.
          try_bind (\<lambda>d. (validate_journal_metadata (jd_euid d) opened True, d)) (\<lambda>_.
          try_bind (with_err (\<lambda>_. JournalError.JournalInvalid)
                      (read_limited (MAX_JOURNAL_BYTES + 1) file)) (\<lambda>payload.
            lift_result
              (if \<not> utf8_valid payload \<or> length payload > MAX_JOURNAL_BYTES
               then Inl JournalError.JournalInvalid
               else ok_or JournalError.JournalInvalid (map_option Some (parse_state payload)))))) d)"

subsection \<open>Committing\<close>

definition temporary_name :: "8 word list \<Rightarrow> string" where
  "temporary_name random = ''.uncertainty.'' @ concat (map hex2_lower random) @ ''.tmp''"

definition rename_entry :: "string \<Rightarrow> string \<Rightarrow> (journal_directory, JournalError, unit) fallible" where
  "rename_entry source target =
     with_err (\<lambda>_. JournalError.JournalWriteFailed) (renameat source target)"

definition unlink_entry :: "string \<Rightarrow> (journal_directory, errno, unit) fallible" where
  "unlink_entry name = unlinkat name"

definition sync_directory :: "(journal_directory, JournalError, unit) fallible" where
  "sync_directory = with_err (\<lambda>_. JournalError.JournalWriteFailed) sync_all"

definition publish :: "string \<Rightarrow> string \<Rightarrow> string \<Rightarrow> (journal_directory, JournalError, unit) fallible" where
  "publish payload temporary target =
     try_bind (with_err (\<lambda>_. JournalError.JournalWriteFailed) (write_all temporary payload)) (\<lambda>_.
     try_bind (with_err (\<lambda>_. JournalError.JournalWriteFailed) (sync_file temporary)) (\<lambda>_.
     try_bind (rename_entry temporary target) (\<lambda>_. sync_directory)))"

definition publish_or_unlink ::
  "string \<Rightarrow> string \<Rightarrow> string \<Rightarrow> (journal_directory, JournalError, unit) fallible" where
  "publish_or_unlink payload temporary target d =
     (case publish payload temporary target d of
        (Inl e, d) \<Rightarrow> (Inl e, snd (unlink_entry temporary d))
      | (Inr u, d) \<Rightarrow> (Inr u, d))"

definition commit_through ::
  "string \<Rightarrow> string \<Rightarrow> JournalState \<Rightarrow> (journal_directory, JournalError, unit) fallible" where
  "commit_through temporary target state =
     try_bind (with_err (\<lambda>_. JournalError.JournalWriteFailed) (create_entry temporary 0x180)) (\<lambda>_.
     try_bind (with_err (\<lambda>_. JournalError.JournalWriteFailed) (own_metadata temporary)) (\<lambda>opened.
     try_bind (with_err (\<lambda>_. JournalError.JournalWriteFailed)
                 (\<lambda>d. (validate_journal_metadata (jd_euid d) opened False, d))) (\<lambda>_.
       publish_or_unlink (encode_state state) temporary target)))"

definition commit :: "string \<Rightarrow> JournalState \<Rightarrow> (journal_directory, JournalError, unit) fallible" where
  "commit target state =
     try_bind (with_err (\<lambda>_. JournalError.JournalWriteFailed) rand_bytes8) (\<lambda>random.
       commit_through (temporary_name random) target state)"

subsection \<open>The file journal\<close>

record FileUncertaintyJournal =
  fj_directory :: journal_directory
  fj_state :: JournalState

definition on_directory ::
  "(journal_directory, JournalError, 'a) fallible \<Rightarrow> (FileUncertaintyJournal, JournalError, 'a) fallible" where
  "on_directory m j = (case m (fj_directory j) of (r, d) \<Rightarrow> (r, j\<lparr>fj_directory := d\<rparr>))"

definition is_pending :: "FileUncertaintyJournal \<Rightarrow> bool" where
  "is_pending j = state_is_pending (fj_state j)"

definition mark_pending :: "JournalAction \<Rightarrow> (FileUncertaintyJournal, JournalError, unit) fallible" where
  "mark_pending action j =
     (let state = JournalState.Pending action
      in try_bind (on_directory (commit PENDING_FILE state)) (\<lambda>_.
           on_directory (commit JOURNAL_FILE state)) (j\<lparr>fj_state := state\<rparr>))"

definition unlink_marker :: "(journal_directory, JournalError, unit) fallible" where
  "unlink_marker d =
     (case unlink_entry PENDING_FILE d of
        (Inr _, d) \<Rightarrow> (Inr (), d)
      | (Inl error, d) \<Rightarrow>
          (if error = errno.ENOENT then Inr () else Inl JournalError.JournalWriteFailed, d))"

definition clear :: "(FileUncertaintyJournal, JournalError, unit) fallible" where
  "clear =
     try_bind (on_directory (commit JOURNAL_FILE JournalState.Clean)) (\<lambda>_.
     try_bind (on_directory unlink_marker) (\<lambda>_ j.
       (Inr (), j\<lparr>fj_state := JournalState.Clean\<rparr>)))"

definition file_journal :: "FileUncertaintyJournal UncertaintyJournal" where
  "file_journal =
     \<lparr>uj_is_pending = is_pending, uj_mark_pending = mark_pending, uj_clear = clear\<rparr>"

subsection \<open>Opening\<close>

text \<open>
  What lies under the state root, with the outcome each call on it will have: creating the root,
  the first \<open>lstat\<close>, \<open>mkdir\<close>, the second \<open>lstat\<close>, the link-free \<open>openat2\<close> and \<open>fstat\<close> of the application
  directory. \<open>st_blank\<close> carries the owner, the umask and the scripts a created directory gets.
\<close>

record state_tree =
  st_root_ok :: bool
  st_stat_ok :: bool
  st_application :: "journal_directory option"
  st_mkdir_ok :: bool
  st_restat_ok :: bool
  st_open_ok :: bool
  st_fstat_ok :: bool
  st_blank :: journal_directory

definition make_directory :: "journal_directory \<Rightarrow> journal_directory" where
  "make_directory b =
     b\<lparr>jd_meta := \<lparr>md_kind = file_kind.Directory, md_uid = jd_euid b,
                   md_mode = 0x1C0 AND NOT (jd_umask b), md_nlink = 2, md_len = 0\<rparr>,
       jd_entries := Map.empty, jd_history := []\<rparr>"

definition ensure_application_directory :: "(state_tree, JournalError, journal_directory) fallible" where
  "ensure_application_directory t =
     (if \<not> st_stat_ok t then (Inl JournalError.StateDirectoryUnavailable, t)
      else case st_application t of
          Some d \<Rightarrow>
            (case validate_directory_metadata (jd_euid d) (jd_meta d) of
               Inl e \<Rightarrow> (Inl e, t) | Inr _ \<Rightarrow> (Inr d, t))
        | None \<Rightarrow>
            if \<not> st_mkdir_ok t then (Inl JournalError.StateDirectoryUnavailable, t)
            else
              let d = make_directory (st_blank t); t = t\<lparr>st_application := Some d\<rparr>
              in if \<not> st_restat_ok t then (Inl JournalError.StateDirectoryUnavailable, t)
                 else case validate_directory_metadata (jd_euid d) (jd_meta d) of
                     Inl e \<Rightarrow> (Inl e, t) | Inr _ \<Rightarrow> (Inr d, t))"

definition open_directory :: "string \<Rightarrow> state_tree \<Rightarrow> (JournalError, unit) result" where
  "open_directory path t =
     (if CHR 0x00 \<in> set path \<or> \<not> st_open_ok t then Inl JournalError.StateDirectoryUntrusted
      else Inr ())"

definition load_state :: "(journal_directory, JournalError, JournalState) fallible" where
  "load_state =
     try_bind (read_state JOURNAL_FILE) (\<lambda>snapshot.
     try_bind (read_state PENDING_FILE) (\<lambda>marker.
     try_bind (lift_result (case marker of
         Some (JournalState.Pending action) \<Rightarrow> Inr (JournalState.Pending action)
       | Some JournalState.Clean \<Rightarrow> Inl JournalError.JournalInvalid
       | None \<Rightarrow> Inr (case snapshot of None \<Rightarrow> JournalState.Clean | Some s \<Rightarrow> s))) (\<lambda>state.
       if marker = None \<and> (case snapshot of None \<Rightarrow> False | Some s \<Rightarrow> state_is_pending s)
       then try_bind (commit PENDING_FILE state) (\<lambda>_. lift_result (Inr state))
       else lift_result (Inr state))))"

definition open_under :: "string \<Rightarrow> (state_tree, JournalError, FileUncertaintyJournal) fallible" where
  "open_under root t =
     (if \<not> starts_with root ''/'' then (Inl JournalError.StateDirectoryUntrusted, t)
      else if \<not> st_root_ok t then (Inl JournalError.StateDirectoryUnavailable, t)
      else try_bind ensure_application_directory (\<lambda>d.
           try_bind (\<lambda>t. (open_directory (path_join root APPLICATION_DIRECTORY) t, t)) (\<lambda>_.
           try_bind (\<lambda>t. (if st_fstat_ok t then Inr ()
                         else Inl JournalError.StateDirectoryUntrusted, t)) (\<lambda>_.
           try_bind (lift_result (validate_directory_metadata (jd_euid d) (jd_meta d))) (\<lambda>_ t.
             case load_state d of
               (Inl e, d) \<Rightarrow> (Inl e, t\<lparr>st_application := Some d\<rparr>)
             | (Inr state, d) \<Rightarrow>
                 (Inr \<lparr>fj_directory = d, fj_state = state\<rparr>, t\<lparr>st_application := Some d\<rparr>))))) t)"

text \<open>\<open>XDG_STATE_HOME\<close> when set and not empty, else \<open>HOME\<close> with \<open>.local/state\<close> appended.\<close>

definition default_state_root ::
  "string option \<Rightarrow> string option \<Rightarrow> (JournalError, string) result" where
  "default_state_root xdg_state_home home =
     (case xdg_state_home of
        Some (c # cs) \<Rightarrow>
          (if c = CHR ''/'' then Inr (c # cs) else Inl JournalError.StateDirectoryUntrusted)
      | _ \<Rightarrow>
          (case home of
             Some (c # cs) \<Rightarrow>
               (if c = CHR ''/'' then Inr (path_join (path_join (c # cs) ''.local'') ''state'')
                else Inl JournalError.StateDirectoryUnavailable)
           | _ \<Rightarrow> Inl JournalError.StateDirectoryUnavailable))"

definition open_default ::
  "string option \<Rightarrow> string option \<Rightarrow> (state_tree, JournalError, FileUncertaintyJournal) fallible" where
  "open_default xdg_state_home home =
     try_bind (lift_result (default_state_root xdg_state_home home)) open_under"

subsection \<open>What a crash may leave\<close>

definition versions :: "journal_directory \<Rightarrow> listing list" where
  "versions d = jd_entries d # jd_history d"

definition crash_image :: "journal_directory \<Rightarrow> listing \<Rightarrow> bool" where
  "crash_image d m \<longleftrightarrow>
     (\<forall>n. \<exists>v \<in> set (versions d).
        case v n of
          None \<Rightarrow> m n = None
        | Some e \<Rightarrow> m n = Some e \<or> \<not> fe_synced e \<and> (\<exists>p. m n = Some (e\<lparr>fe_payload := p\<rparr>)))"

text \<open>A directory as the next process finds it: some entries, any fault and random script.\<close>

definition restarted :: "journal_directory \<Rightarrow> listing \<Rightarrow> journal_directory \<Rightarrow> bool" where
  "restarted d m d' \<longleftrightarrow>
     jd_entries d' = m \<and> jd_history d' = [] \<and> jd_meta d' = jd_meta d \<and> jd_euid d' = jd_euid d"

datatype journal_call = Mark JournalAction | Clear

fun journal_step :: "journal_call \<Rightarrow> (FileUncertaintyJournal, JournalError, unit) fallible" where
  "journal_step (journal_call.Mark a) = mark_pending a"
| "journal_step journal_call.Clear = clear"

text \<open>The calls of a run with their outcomes.\<close>

fun journal_run ::
  "journal_call list \<Rightarrow> FileUncertaintyJournal
    \<Rightarrow> (journal_call \<times> (JournalError, unit) result) list \<times> FileUncertaintyJournal" where
  "journal_run [] j = ([], j)"
| "journal_run (c # cs) j =
     (let (r, j') = journal_step c j; (os, j'') = journal_run cs j' in ((c, r) # os, j''))"

subsection \<open>The format is canonical\<close>

lemma parse_action_label [simp]: "parse_action (label a) = Some a"
  by (cases a) (simp_all add: parse_action_def)

lemma parse_action_Some: "parse_action s = Some a \<longleftrightarrow> s = label a"
  by (cases a) (auto simp: parse_action_def split: if_splits)

lemma parse_encode [simp]: "parse_state (encode_state s) = Some s"
proof (cases s)
  case Clean
  then show ?thesis
    by (simp add: parse_state_def)
next
  case (Pending a)
  have "strip_suffix (label a @ newline) newline = Some (label a)"
    by simp
  then show ?thesis
    using Pending by (simp add: parse_state_def pending_prefix_def clean_payload_def strip_prefix_def
        starts_with_def)
qed

lemma encode_of_parse: "parse_state p = Some s \<Longrightarrow> p = encode_state s"
  by (auto simp: parse_state_def strip_prefix_Some strip_suffix_Some parse_action_Some
      split: if_splits option.splits)

lemma encode_state_length: "length (encode_state s) \<le> MAX_JOURNAL_BYTES"
proof (cases s)
  case (Pending a)
  then show ?thesis
    by (cases a) (simp_all add: pending_prefix_def MAX_JOURNAL_BYTES_def)
qed (simp add: clean_payload_def MAX_JOURNAL_BYTES_def)

lemma encode_state_utf8: "utf8_valid (encode_state s)"
proof (rule all_ascii_utf8, cases s)
  case (Pending a)
  then show "all_ascii (encode_state s)"
    by (cases a) (simp_all add: pending_prefix_def all_ascii_def)
qed (simp add: clean_payload_def all_ascii_def)

lemma file_names_distinct [simp]:
  "PENDING_FILE \<noteq> JOURNAL_FILE" "JOURNAL_FILE \<noteq> PENDING_FILE"
  "temporary_name r \<noteq> PENDING_FILE" "PENDING_FILE \<noteq> temporary_name r"
  "temporary_name r \<noteq> JOURNAL_FILE" "JOURNAL_FILE \<noteq> temporary_name r"
  by (simp_all add: PENDING_FILE_def JOURNAL_FILE_def temporary_name_def)

subsection \<open>What the calls do to one name\<close>

text \<open>
  \<open>touches n P d d'\<close>: from \<open>d\<close> to \<open>d'\<close> the directory keeps its owner and its scripts' source, and
  every version \<open>d'\<close> may show after a crash has at \<open>n\<close> what some version of \<open>d\<close> had, or an entry in \<open>P\<close>.
\<close>

definition same_owner :: "journal_directory \<Rightarrow> journal_directory \<Rightarrow> bool" where
  "same_owner d d' \<longleftrightarrow>
     jd_meta d' = jd_meta d \<and> jd_euid d' = jd_euid d \<and> jd_umask d' = jd_umask d \<and> jd_rand d' = jd_rand d"

definition touches ::
  "string \<Rightarrow> entry set \<Rightarrow> journal_directory \<Rightarrow> journal_directory \<Rightarrow> bool" where
  "touches n P d d' \<longleftrightarrow>
     same_owner d d' \<and>
     (\<forall>v' \<in> set (versions d'). (\<exists>v \<in> set (versions d). v' n = v n) \<or> (\<exists>e \<in> P. v' n = Some e))"

lemma reflp_touches: "reflp (touches n P)"
  by (auto simp: reflp_def touches_def same_owner_def)

lemma transp_touches: "transp (touches n P)"
  unfolding transp_def touches_def same_owner_def by metis

lemma touches_mono: "touches n P d d' \<Longrightarrow> P \<subseteq> Q \<Longrightarrow> touches n Q d d'"
  unfolding touches_def by blast

lemmas touches_unfold = touches_def same_owner_def versions_def set_entries_def faulty_def next_fault_def

lemma next_fault_touches: "next_fault d = (f, d') \<Longrightarrow> touches n P d d'"
  by (auto simp: touches_unfold split: list.splits)

lemma conforms_faulty:
  "conforms (touches n P) m \<Longrightarrow> conforms (touches n P) (faulty m)"
  unfolding conforms_def faulty_def
  by (auto split: prod.splits option.splits dest: next_fault_touches)
    (metis next_fault_touches snd_conv transpD transp_touches)

lemma conforms_reads:
  "conforms (touches n P) (open_entry name)"
  "conforms (touches n P) (file_metadata e)"
  "conforms (touches n P) (own_metadata name)"
  "conforms (touches n P) (read_limited k e)"
  "conforms (touches n P) (\<lambda>d. (g d, d))"
  by (auto simp: open_entry_def file_metadata_def own_metadata_def read_limited_def conforms_def
      intro!: conforms_faulty [unfolded conforms_def, THEN spec] reflpD [OF reflp_touches])

lemma conforms_own_effects:
  "conforms (touches n P) rand_bytes8"
  "conforms (touches n P) sync_all"
  "name \<noteq> n \<Longrightarrow> conforms (touches n P) (create_entry name mode)"
  "name \<noteq> n \<Longrightarrow> conforms (touches n P) (sync_file name)"
  "name \<noteq> n \<Longrightarrow> conforms (touches n P) (unlinkat name)"
  "source \<noteq> n \<Longrightarrow> target \<noteq> n \<Longrightarrow> conforms (touches n P) (renameat source target)"
  unfolding rand_bytes8_def sync_all_def create_entry_def sync_file_def unlinkat_def renameat_def
  by (rule conforms_faulty; auto simp: conforms_def touches_unfold split: option.splits)+

lemma conforms_write_all:
  "name \<noteq> n \<Longrightarrow> conforms (touches n P) (write_all name payload)"
  unfolding conforms_def write_all_def
  by (auto simp: touches_unfold Let_def split: prod.splits option.splits list.splits)

lemmas conforms_rules =
  conforms_reads conforms_own_effects conforms_write_all conforms_with_err
  conforms_try_bind [OF transp_touches] conforms_lift_result [OF reflp_touches]

lemma conforms_publish:
  assumes "temporary \<noteq> n" and "target \<noteq> n"
  shows "conforms (touches n P) (publish_or_unlink payload temporary target)"
proof -
  have pub: "conforms (touches n P) (publish payload temporary target)"
    using assms unfolding publish_def rename_entry_def sync_directory_def
    by (intro conforms_rules)
  have unl: "conforms (touches n P) (unlinkat temporary)"
    using assms(1) by (rule conforms_own_effects)
  show ?thesis
    unfolding conforms_def publish_or_unlink_def unlink_entry_def
    by (auto split: prod.splits sum.splits dest: conformsD [OF pub])
      (metis conformsD [OF pub] conformsD [OF unl] prod.collapse transpD [OF transp_touches])
qed

lemma conforms_commit_other:
  assumes "target \<noteq> n" and "\<And>r. temporary_name r \<noteq> n"
  shows "conforms (touches n P) (commit target st)"
  using assms unfolding commit_def commit_through_def
  by (intro conforms_rules conforms_publish) simp_all

text \<open>The entry a successful commit leaves under its target.\<close>

definition committed :: "journal_directory \<Rightarrow> JournalState \<Rightarrow> entry" where
  "committed d st =
     \<lparr>fe_kind = file_kind.Regular, fe_uid = jd_euid d, fe_mode = 0x180 AND NOT (jd_umask d),
      fe_nlink = 1, fe_payload = encode_state st, fe_synced = True\<rparr>"

definition umask_ok :: "journal_directory \<Rightarrow> bool" where
  "umask_ok d \<longleftrightarrow> (0x180 AND NOT (jd_umask d)) AND 0x1FF = (0x180 :: 32 word)"

text \<open>
  \<open>same_listing\<close>: neither the entries nor the unsynced versions change, whatever the scripts do.
\<close>

definition same_listing :: "journal_directory \<Rightarrow> journal_directory \<Rightarrow> bool" where
  "same_listing d d' \<longleftrightarrow>
     same_owner d d' \<and> jd_entries d' = jd_entries d \<and> jd_history d' = jd_history d"

lemma next_fault_listing: "next_fault d = (f, d') \<Longrightarrow> same_listing d d'"
  by (auto simp: next_fault_def same_listing_def same_owner_def split: list.splits)

lemma same_listing_touches: "same_listing d d' \<Longrightarrow> touches n P d d'"
  by (auto simp: same_listing_def touches_def versions_def)

lemma faulty_cases:
  assumes "faulty m d = (r, d')"
  obtains d0 where "same_listing d d0" and "r = Inl errno.EIO" and "d' = d0"
  | d0 where "same_listing d d0" and "m d0 = (r, d')"
  using assms unfolding faulty_def by (auto split: prod.splits option.splits dest: next_fault_listing)

lemma write_all_cases:
  assumes "write_all name payload d = (r, d')" and "jd_entries d name = Some e"
  obtains bytes where "same_owner d d'" and "jd_history d' = jd_history d"
    and "jd_entries d' = (jd_entries d)(name \<mapsto> e\<lparr>fe_payload := bytes, fe_synced := False\<rparr>)"
    and "r = Inr () \<Longrightarrow> bytes = payload"
  using assms unfolding write_all_def Let_def
  by (auto simp: same_listing_def same_owner_def split: prod.splits option.splits dest!: next_fault_listing)

lemma sync_file_cases:
  assumes "sync_file name d = (r, d')" and "jd_entries d name = Some e"
  shows "same_owner d d' \<and> jd_history d' = jd_history d \<and>
     (case r of Inl _ \<Rightarrow> jd_entries d' = jd_entries d
              | Inr _ \<Rightarrow> jd_entries d' = (jd_entries d)(name \<mapsto> e\<lparr>fe_synced := True\<rparr>))"
  using assms unfolding sync_file_def
  by (elim faulty_cases) (auto simp: same_listing_def same_owner_def)

lemma renameat_cases:
  assumes "renameat source target d = (r, d')" and "jd_entries d source = Some e"
  shows "same_owner d d' \<and>
     (case r of Inl _ \<Rightarrow> same_listing d d'
              | Inr _ \<Rightarrow> jd_entries d' = (jd_entries d)(target \<mapsto> e, source := None)
                        \<and> jd_history d' = jd_entries d # jd_history d)"
  using assms unfolding renameat_def
  by (elim faulty_cases) (auto simp: same_listing_def same_owner_def set_entries_def)

lemma sync_all_cases:
  assumes "sync_all d = (r, d')"
  shows "same_owner d d' \<and> jd_entries d' = jd_entries d \<and>
     (case r of Inl _ \<Rightarrow> jd_history d' = jd_history d | Inr _ \<Rightarrow> jd_history d' = [])"
  using assms unfolding sync_all_def
  by (elim faulty_cases) (auto simp: same_listing_def same_owner_def)

lemma rename_and_sync:
  assumes run: "try_bind (rename_entry temporary target) (\<lambda>_. sync_directory) d = (r, d')"
    and ne: "temporary \<noteq> target" and c: "jd_entries d temporary = Some c"
  shows "touches target {c} d d' \<and>
         (r = Inr () \<longrightarrow> jd_history d' = [] \<and>
            jd_entries d' = (jd_entries d)(target \<mapsto> c, temporary := None))"
proof -
  obtain r3 d3 where m: "renameat temporary target d = (r3, d3)"
    by fastforce
  note d3 = renameat_cases [OF m c]
  have t3: "touches target {c} d d3"
    using d3 ne
    by (auto simp: touches_def versions_def same_owner_def same_listing_def split: sum.splits)
  obtain r4 d4 where f: "sync_all d3 = (r4, d4)"
    by fastforce
  note d4 = sync_all_cases [OF f]
  have t4: "touches target {c} d d4"
    using t3 d4 by (auto simp: touches_def versions_def same_owner_def split: sum.splits)
  show ?thesis
    using run m f t3 t4 d3 d4
    by (cases r3; cases r4)
      (auto simp: try_bind_def with_err_def rename_entry_def sync_directory_def)
qed

lemma publish_target:
  assumes run: "publish payload temporary target d = (r, d')"
    and ne: "temporary \<noteq> target" and e: "jd_entries d temporary = Some e"
    and c: "c = e\<lparr>fe_payload := payload, fe_synced := True\<rparr>"
  shows "touches target {c} d d' \<and>
         (r = Inr () \<longrightarrow> jd_history d' = [] \<and>
            jd_entries d' = (jd_entries d)(target \<mapsto> c, temporary := None))"
proof -
  obtain r1 d1 where w: "write_all temporary payload d = (r1, d1)"
    by fastforce
  obtain bytes where d1: "same_owner d d1" "jd_history d1 = jd_history d"
      "jd_entries d1 = (jd_entries d)(temporary \<mapsto> e\<lparr>fe_payload := bytes, fe_synced := False\<rparr>)"
      "r1 = Inr () \<Longrightarrow> bytes = payload"
    using w e by (rule write_all_cases) blast
  have t1: "touches target {c} d d1"
    using d1 ne by (auto simp: touches_def versions_def)
  obtain r2 d2 where s: "sync_file temporary d1 = (r2, d2)"
    by fastforce
  have d2: "same_owner d1 d2 \<and> jd_history d2 = jd_history d1 \<and>
     (case r2 of Inl _ \<Rightarrow> jd_entries d2 = jd_entries d1
               | Inr _ \<Rightarrow> r1 = Inr () \<longrightarrow> jd_entries d2 = (jd_entries d)(temporary \<mapsto> c))"
    using sync_file_cases [OF s] d1 c by (auto split: sum.splits)
  have t2: "r1 = Inr () \<Longrightarrow> touches target {c} d d2"
    using d1 d2 ne by (auto simp: touches_def versions_def same_owner_def split: sum.splits)
  show ?thesis
  proof (cases "r1 = Inr () \<and> r2 = Inr ()")
    case True
    then have "try_bind (rename_entry temporary target) (\<lambda>_. sync_directory) d2 = (r, d')"
      using run w s by (simp add: publish_def try_bind_def [of "with_err _ _"] with_err_def)
    then show ?thesis
      using rename_and_sync [of temporary target d2 r d' c] ne d2 True transpD [OF transp_touches] t2
      by (auto simp: fun_upd_twist)
  next
    case False
    then show ?thesis
      using run w s t1 t2
      by (cases r1; cases r2) (auto simp: publish_def try_bind_def with_err_def)
  qed
qed

lemma create_entry_cases:
  assumes "create_entry name mode d = (r, d')"
  shows "same_owner d d' \<and>
     (case r of Inl _ \<Rightarrow> same_listing d d'
              | Inr _ \<Rightarrow> jd_entries d name = None \<and> jd_history d' = jd_entries d # jd_history d \<and>
                  jd_entries d' = (jd_entries d)(name \<mapsto>
                    \<lparr>fe_kind = file_kind.Regular, fe_uid = jd_euid d, fe_mode = mode AND NOT (jd_umask d),
                     fe_nlink = 1, fe_payload = [], fe_synced = False\<rparr>))"
  using assms unfolding create_entry_def
  by (elim faulty_cases)
    (auto simp: same_listing_def same_owner_def set_entries_def split: option.splits)

lemma own_metadata_cases:
  assumes "own_metadata name d = (r, d')" and "jd_entries d name = Some e"
  shows "same_listing d d' \<and> (\<forall>m. r = Inr m \<longrightarrow> m = entry_metadata e)"
  using assms unfolding own_metadata_def
  by (elim faulty_cases) (auto simp: same_listing_def same_owner_def)

lemma rand_bytes8_cases: "rand_bytes8 d = (r, d') \<Longrightarrow> same_listing d d'"
  unfolding rand_bytes8_def by (elim faulty_cases) (auto simp: same_listing_def same_owner_def)

lemma publish_or_unlink_target:
  assumes run: "publish_or_unlink payload temporary target d = (r, d')"
    and ne: "temporary \<noteq> target" and e: "jd_entries d temporary = Some e"
    and c: "c = e\<lparr>fe_payload := payload, fe_synced := True\<rparr>"
  shows "touches target {c} d d' \<and>
         (r = Inr () \<longrightarrow> jd_history d' = [] \<and>
            jd_entries d' = (jd_entries d)(target \<mapsto> c, temporary := None))"
proof -
  obtain r1 d1 where p: "publish payload temporary target d = (r1, d1)"
    by fastforce
  note f = publish_target [OF p ne e c]
  have "touches target {c} d1 (snd (unlinkat temporary d1))"
    using conforms_own_effects(5) [OF ne] by (simp add: conforms_def)
  then have u: "touches target {c} d (snd (unlinkat temporary d1))"
    using f transpD [OF transp_touches] by blast
  show ?thesis
    using run p f u by (cases r1) (auto simp: publish_or_unlink_def unlink_entry_def)
qed

lemma commit_through_target:
  assumes run: "commit_through n target st d = (r, d')" and ne: "n \<noteq> target"
  shows "touches target {c. c = committed d st \<and> umask_ok d} d d' \<and>
         (r = Inr () \<longrightarrow> umask_ok d \<and> jd_history d' = [] \<and> jd_entries d n = None \<and>
            jd_entries d' = (jd_entries d)(target \<mapsto> committed d st, n := None))"
proof -
  obtain r1 d1 where 1: "create_entry n 0x180 d = (r1, d1)"
    by fastforce
  note l1 = create_entry_cases [OF 1]
  have t1: "touches target P d d1" for P
    using conforms_own_effects(3) [OF ne] 1 by (rule conformsD)
  obtain r2 d2 where 2: "own_metadata n d1 = (r2, d2)"
    by fastforce
  define e where "e = \<lparr>fe_kind = file_kind.Regular, fe_uid = jd_euid d,
     fe_mode = 0x180 AND NOT (jd_umask d), fe_nlink = 1, fe_payload = [], fe_synced = False\<rparr>"
  show ?thesis
  proof (cases r1)
    case (Inl x)
    then show ?thesis
      using run 1 t1 by (auto simp: commit_through_def try_bind_def with_err_def)
  next
    case (Inr u)
    have e1: "jd_entries d1 = (jd_entries d)(n \<mapsto> e)" "jd_entries d n = None" "same_owner d d1"
      using l1 Inr by (auto simp: e_def)
    have l2: "same_listing d1 d2" and m2: "\<forall>m. r2 = Inr m \<longrightarrow> m = entry_metadata e"
      using own_metadata_cases [OF 2] e1 by auto
    have t2: "touches target P d d2" for P
      using t1 l2 by (meson same_listing_touches transpD transp_touches)
    have v: "validate_journal_metadata (jd_euid d2) (entry_metadata e) False = Inr () \<longleftrightarrow> umask_ok d"
      using l2 e1(3) by (simp add: validate_journal_metadata_def entry_metadata_def e_def
          umask_ok_def same_listing_def same_owner_def)
    have d2: "jd_entries d2 = (jd_entries d)(n \<mapsto> e)"
      using l2 e1 by (simp add: same_listing_def)
    show ?thesis
    proof (cases "umask_ok d \<and> r2 = Inr (entry_metadata e)")
      case True
      have "publish_or_unlink (encode_state st) n target d2 = (r, d')"
        using run 1 2 True v Inr by (simp add: commit_through_def try_bind_def with_err_def)
      then have "touches target {committed d st} d2 d' \<and>
          (r = Inr () \<longrightarrow> jd_history d' = [] \<and>
             jd_entries d' = (jd_entries d2)(target \<mapsto> committed d st, n := None))"
        using d2 ne by (intro publish_or_unlink_target) (auto simp: committed_def e_def)
      moreover from this have "touches target {committed d st} d d'"
        using t2 [of "{committed d st}"] by (meson transpD transp_touches)
      ultimately show ?thesis
        using True e1(2) ne d2 by (auto simp: fun_upd_twist)
    next
      case False
      then show ?thesis
        using run 1 2 m2 v Inr t2
        by (cases r2; cases "validate_journal_metadata (jd_euid d2) (entry_metadata e) False")
          (auto simp: commit_through_def try_bind_def with_err_def)
    qed
  qed
qed

text \<open>
  Whatever happens, a commit leaves at its target what was there or the whole new record, synced;
  when it reports success, only the new record can be seen from then on.
\<close>

lemma commit_target:
  assumes run: "commit target st d = (r, d')" and tmp: "\<And>rd. temporary_name rd \<noteq> target"
  shows "touches target {c. c = committed d st \<and> umask_ok d} d d' \<and>
    (r = Inr () \<longrightarrow> umask_ok d \<and> jd_history d' = [] \<and>
           (\<exists>rd. jd_entries d (temporary_name rd) = None \<and>
             jd_entries d' = (jd_entries d)(target \<mapsto> committed d st, temporary_name rd := None)))"
proof -
  obtain r0 d0 where 0: "rand_bytes8 d = (r0, d0)"
    by fastforce
  have l0: "same_listing d d0"
    using 0 by (rule rand_bytes8_cases)
  then have c0: "committed d0 = committed d" "umask_ok d0 = umask_ok d" "jd_entries d0 = jd_entries d"
    by (auto simp: committed_def umask_ok_def same_listing_def same_owner_def fun_eq_iff)
  show ?thesis
  proof (cases r0)
    case (Inl x)
    then show ?thesis
      using run 0 l0 by (auto simp: commit_def try_bind_def with_err_def intro: same_listing_touches)
  next
    case (Inr rd)
    then have "commit_through (temporary_name rd) target st d0 = (r, d')"
      using run 0 by (simp add: commit_def try_bind_def with_err_def)
    from commit_through_target [OF this tmp] show ?thesis
      using l0 unfolding c0 by (meson same_listing_touches transpD transp_touches)
  qed
qed

subsection \<open>Reading back\<close>

definition good_record :: "nat \<Rightarrow> JournalState \<Rightarrow> entry \<Rightarrow> bool" where
  "good_record euid st e \<longleftrightarrow>
     fe_payload e = encode_state st \<and>
     validate_journal_metadata euid (entry_metadata e) True = Inr ()"

lemma good_committed: "umask_ok d \<Longrightarrow> good_record (jd_euid d) st (committed d st)"
  using encode_state_length [of st]
  by (simp add: good_record_def committed_def validate_journal_metadata_def entry_metadata_def
      umask_ok_def)

lemma synced_committed [simp]: "fe_synced (committed d st)"
  by (simp add: committed_def)

lemma reads_same_listing:
  "open_entry n d = (r, d') \<Longrightarrow> same_listing d d'"
  "file_metadata e d = (r1, d') \<Longrightarrow> same_listing d d'"
  "read_limited k e d = (r2, d') \<Longrightarrow> same_listing d d'"
  unfolding open_entry_def file_metadata_def read_limited_def
  by (erule faulty_cases; auto)+

lemma open_entry_cases:
  "open_entry n d = (r, d') \<Longrightarrow>
     (r = Inl errno.ENOENT \<longrightarrow> jd_entries d n = None) \<and> (\<forall>e. r = Inr e \<longrightarrow> jd_entries d n = Some e)"
  unfolding open_entry_def
  by (erule faulty_cases) (auto simp: same_listing_def split: option.splits if_splits)

lemma same_listing_trans: "same_listing d d' \<Longrightarrow> same_listing d' d'' \<Longrightarrow> same_listing d d''"
  by (auto simp: same_listing_def same_owner_def)

lemma validated_len:
  "validate_journal_metadata euid (entry_metadata e) True = Inr () \<Longrightarrow>
     length (fe_payload e) \<le> MAX_JOURNAL_BYTES"
  by (auto simp: validate_journal_metadata_def entry_metadata_def split: if_splits)

lemma read_state_cases:
  assumes "read_state n d = (r, d')"
  shows "same_listing d d' \<and> (r = Inr None \<longrightarrow> jd_entries d n = None) \<and>
         (\<forall>st. r = Inr (Some st) \<longrightarrow> (\<exists>e. jd_entries d n = Some e \<and> good_record (jd_euid d) st e))"
proof -
  obtain r1 d1 where o: "open_entry n d = (r1, d1)"
    by fastforce
  note l1 = reads_same_listing(1) [OF o]
  note c1 = open_entry_cases [OF o]
  show ?thesis
  proof (cases r1)
    case (Inl x)
    then show ?thesis
      using assms o l1 c1 by (auto simp: read_state_def split: if_splits)
  next
    case (Inr e)
    obtain r2 d2 where m: "file_metadata e d1 = (r2, d2)"
      by fastforce
    have l2: "same_listing d1 d2" and m2: "\<forall>x. r2 = Inr x \<longrightarrow> x = entry_metadata e"
      using m by (auto simp: reads_same_listing file_metadata_def elim!: faulty_cases)
    obtain r3 d3 where p: "read_limited (MAX_JOURNAL_BYTES + 1) e d2 = (r3, d3)"
      by fastforce
    have l3: "same_listing d2 d3"
        and p3: "\<forall>x. r3 = Inr x \<longrightarrow> x = take (MAX_JOURNAL_BYTES + 1) (fe_payload e)"
      using p by (auto simp: reads_same_listing read_limited_def elim!: faulty_cases)
    have euid: "jd_euid d2 = jd_euid d"
      using l1 l2 by (simp add: same_listing_def same_owner_def)
    have l: "same_listing d d2" "same_listing d d3"
      using l1 l2 l3 same_listing_trans by blast+
    show ?thesis
      using assms o Inr m p l m2 p3 c1 euid
      by (cases r2; cases r3)
        (auto simp: read_state_def try_bind_def with_err_def lift_result_def good_record_def
          dest: encode_of_parse validated_len split: sum.splits if_splits)
  qed
qed

subsection \<open>The pending marker is durable\<close>

definition marker_durable :: "journal_directory \<Rightarrow> bool" where
  "marker_durable d \<longleftrightarrow>
     (\<forall>v \<in> set (versions d). \<exists>e a. v PENDING_FILE = Some e \<and> fe_synced e \<and>
        good_record (jd_euid d) (JournalState.Pending a) e)"

lemma marker_durable_touches:
  assumes "marker_durable d" and "touches PENDING_FILE P d d'"
    and "\<And>e. e \<in> P \<Longrightarrow> fe_synced e \<and> (\<exists>a. good_record (jd_euid d) (JournalState.Pending a) e)"
  shows "marker_durable d'"
  using assms unfolding marker_durable_def touches_def same_owner_def by metis

lemma commit_marker_durable:
  assumes "commit PENDING_FILE (JournalState.Pending a) d = (r, d')"
  shows "marker_durable d \<or> r = Inr () \<Longrightarrow> marker_durable d'"
proof -
  note t = commit_target [OF assms]
  assume "marker_durable d \<or> r = Inr ()"
  then show "marker_durable d'"
  proof
    assume "marker_durable d"
    then show ?thesis
    proof (rule marker_durable_touches [OF _ conjunct1 [OF t]])
      fix e
      assume "e \<in> {c. c = committed d (JournalState.Pending a) \<and> umask_ok d}"
      then show "fe_synced e \<and> (\<exists>a. good_record (jd_euid d) (JournalState.Pending a) e)"
        using good_committed by auto
    qed simp
  next
    assume "r = Inr ()"
    then have "umask_ok d" "jd_history d' = []" "jd_entries d' PENDING_FILE = Some (committed d (JournalState.Pending a))"
      using t by auto
    moreover have "jd_euid d' = jd_euid d"
      using t by (simp add: touches_def same_owner_def)
    ultimately show ?thesis
      using good_committed [of d] by (auto simp: marker_durable_def versions_def)
  qed
qed

lemma commit_snapshot_marker:
  "commit JOURNAL_FILE st d = (r, d') \<Longrightarrow> marker_durable d \<Longrightarrow> marker_durable d'"
  using conforms_commit_other [of JOURNAL_FILE PENDING_FILE "{}"]
  by (auto dest: conformsD intro: marker_durable_touches)

lemma unlink_marker_failed:
  assumes "unlink_marker d = (Inl e, d')" and "marker_durable d"
  shows "marker_durable d'"
proof -
  have "same_listing d d'"
    using assms(1) unfolding unlink_marker_def unlink_entry_def unlinkat_def
    by (auto split: prod.splits sum.splits if_splits option.splits elim!: faulty_cases)
  then show ?thesis
    using assms(2) by (auto intro: marker_durable_touches same_listing_touches [where P = "{}"])
qed

lemma journal_step_durable:
  assumes "journal_step c j = (r, j')" and "marker_durable (fj_directory j)"
    and "\<not> (c = journal_call.Clear \<and> r = Inr ())"
  shows "marker_durable (fj_directory j')"
  using assms
  by (cases c; auto simp: mark_pending_def clear_def try_bind_def on_directory_def Let_def
      split: prod.splits sum.splits)
    (metis commit_marker_durable commit_snapshot_marker unlink_marker_failed)+

lemma journal_run_durable:
  assumes "journal_run cs j = (outs, j')" and "marker_durable (fj_directory j)"
    and "(journal_call.Clear, Inr ()) \<notin> set outs"
  shows "marker_durable (fj_directory j')"
  using assms
  by (induction cs arbitrary: j outs)
    (auto split: prod.splits simp: Let_def dest: journal_step_durable)

lemma mark_pending_durable:
  "mark_pending a j = (Inr (), j') \<Longrightarrow> marker_durable (fj_directory j')"
  by (auto simp: mark_pending_def try_bind_def on_directory_def Let_def
      split: prod.splits sum.splits)
    (metis commit_marker_durable commit_snapshot_marker)

lemma crash_image_marker:
  assumes "marker_durable d" and "crash_image d m"
  shows "\<exists>e a. m PENDING_FILE = Some e \<and> good_record (jd_euid d) (JournalState.Pending a) e"
proof -
  obtain v where v: "v \<in> set (versions d)"
    and m: "case v PENDING_FILE of None \<Rightarrow> m PENDING_FILE = None
      | Some e \<Rightarrow> m PENDING_FILE = Some e
          \<or> \<not> fe_synced e \<and> (\<exists>p. m PENDING_FILE = Some (e\<lparr>fe_payload := p\<rparr>))"
    using assms(2) unfolding crash_image_def by blast
  show ?thesis
    using assms(1) v m unfolding marker_durable_def by fastforce
qed

lemma good_record_unique:
  "good_record euid st e \<Longrightarrow> good_record euid st' e \<Longrightarrow> st = st'"
  by (metis good_record_def option.inject parse_encode)

lemma load_state_marker:
  assumes "jd_entries d PENDING_FILE = Some e"
    and "good_record (jd_euid d) (JournalState.Pending a) e"
  shows "fst (load_state d) = Inr (JournalState.Pending a) \<or> is_err (fst (load_state d))"
proof -
  obtain r1 d1 where 1: "read_state JOURNAL_FILE d = (r1, d1)"
    by fastforce
  obtain r2 d2 where 2: "read_state PENDING_FILE d1 = (r2, d2)"
    by fastforce
  have "jd_entries d1 PENDING_FILE = Some e" "jd_euid d1 = jd_euid d"
    using assms read_state_cases [OF 1] by (simp_all add: same_listing_def same_owner_def)
  then have "\<forall>x. r2 = Inr x \<longrightarrow> x = Some (JournalState.Pending a)"
    using assms(2) read_state_cases [OF 2] good_record_unique by (metis not_None_eq option.inject option.simps(3))
  then show ?thesis
    using 1 2 by (cases r1; cases r2) (auto simp: load_state_def try_bind_def lift_result_def)
qed

subsection \<open>Without faults every operation succeeds\<close>

definition quiet :: "journal_directory \<Rightarrow> bool" where
  "quiet d \<longleftrightarrow> jd_faults d = [] \<and> umask_ok d \<and> (\<forall>rd. jd_entries d (temporary_name rd) = None)"

lemma faulty_quiet [simp]: "jd_faults d = [] \<Longrightarrow> faulty m d = m d"
  by (simp add: faulty_def next_fault_def)

lemma commit_quiet:
  assumes "quiet d" and "\<And>rd. temporary_name rd \<noteq> target"
  shows "fst (commit target st d) = Inr () \<and> quiet (snd (commit target st d)) \<and>
    jd_history (snd (commit target st d)) = [] \<and> same_owner d (snd (commit target st d)) \<and>
    jd_entries (snd (commit target st d)) = (jd_entries d)(target \<mapsto> committed d st)"
proof -
  obtain r d' where run: "commit target st d = (r, d')"
    by fastforce
  have none: "jd_entries d (temporary_name rd) = None" for rd
    using assms(1) by (simp add: quiet_def)
  have "r = Inr () \<and> jd_faults d' = []"
    using run assms(1) assms(2) none
    unfolding commit_def commit_through_def publish_or_unlink_def publish_def
      try_bind_def with_err_def rand_bytes8_def create_entry_def own_metadata_def write_all_def
      rename_entry_def sync_directory_def sync_file_def renameat_def sync_all_def
    by (auto simp: quiet_def set_entries_def next_fault_def Let_def validate_journal_metadata_def
        entry_metadata_def umask_ok_def)
  then show ?thesis
    using commit_target [OF run assms(2)] run none assms(1) assms(2) assms(2) [symmetric]
    by (auto simp: quiet_def touches_def same_owner_def umask_ok_def fun_eq_iff)
qed

lemma read_state_quiet:
  "jd_faults d = [] \<Longrightarrow> jd_entries d n = None \<Longrightarrow> read_state n d = (Inr None, d)"
  "jd_faults d = [] \<Longrightarrow> jd_entries d n = Some e \<Longrightarrow> good_record (jd_euid d) st e \<Longrightarrow>
     read_state n d = (Inr (Some st), d)"
  using encode_state_length [of st] encode_state_utf8 [of st]
  by (auto simp: read_state_def open_entry_def file_metadata_def read_limited_def try_bind_def
      with_err_def lift_result_def good_record_def validate_journal_metadata_def entry_metadata_def
      split: if_splits)

lemma committed_cong: "same_owner d d' \<Longrightarrow> committed d' = committed d \<and> jd_euid d' = jd_euid d"
  by (simp add: committed_def same_owner_def fun_eq_iff)

lemma mark_pending_quiet:
  assumes "quiet (fj_directory j)" and "mark_pending a j = (r, j')"
  shows "r = Inr () \<and> fj_state j' = JournalState.Pending a \<and> quiet (fj_directory j') \<and>
    same_owner (fj_directory j) (fj_directory j') \<and>
    jd_entries (fj_directory j') =
      (jd_entries (fj_directory j))
        (PENDING_FILE \<mapsto> committed (fj_directory j) (JournalState.Pending a),
         JOURNAL_FILE \<mapsto> committed (fj_directory j) (JournalState.Pending a))"
proof -
  let ?st = "JournalState.Pending a"
  obtain r1 d1 where 1: "commit PENDING_FILE ?st (fj_directory j) = (r1, d1)"
    by fastforce
  note q1 = commit_quiet [OF assms(1) file_names_distinct(3), of ?st, unfolded 1]
  obtain r2 d2 where 2: "commit JOURNAL_FILE ?st d1 = (r2, d2)"
    by fastforce
  have "quiet d1"
    using q1 by simp
  note q2 = commit_quiet [OF this file_names_distinct(5), of ?st, unfolded 2]
  show ?thesis
    using assms(2) 1 2 q1 q2 committed_cong [of "fj_directory j" d1]
    by (auto simp: mark_pending_def try_bind_def on_directory_def Let_def same_owner_def
        split: prod.splits)
qed

lemma clear_quiet:
  assumes "quiet (fj_directory j)" and "clear j = (r, j')"
  shows "r = Inr () \<and> fj_state j' = JournalState.Clean \<and> quiet (fj_directory j') \<and>
    same_owner (fj_directory j) (fj_directory j') \<and>
    jd_entries (fj_directory j') =
      (jd_entries (fj_directory j))
        (JOURNAL_FILE \<mapsto> committed (fj_directory j) JournalState.Clean, PENDING_FILE := None)"
proof -
  obtain r1 d1 where 1: "commit JOURNAL_FILE JournalState.Clean (fj_directory j) = (r1, d1)"
    by fastforce
  note q1 = commit_quiet [OF assms(1) file_names_distinct(5), of JournalState.Clean, unfolded 1]
  then have "jd_faults d1 = []"
    by (simp add: quiet_def)
  then have "unlink_marker d1 = (Inr (), snd (unlink_marker d1))"
      "jd_entries (snd (unlink_marker d1)) = (jd_entries d1)(PENDING_FILE := None)"
      "jd_faults (snd (unlink_marker d1)) = []" "same_owner d1 (snd (unlink_marker d1))"
    by (auto simp: unlink_marker_def unlink_entry_def unlinkat_def set_entries_def same_owner_def
        split: option.splits)
  then show ?thesis
    using assms(2) 1 q1
    by (auto simp: clear_def try_bind_def on_directory_def quiet_def umask_ok_def same_owner_def
        split: prod.splits)
qed

lemma load_state_quiet:
  assumes "jd_faults d = []"
    and "jd_entries d JOURNAL_FILE = Some s" and "good_record (jd_euid d) st s"
  shows "jd_entries d PENDING_FILE = Some e \<Longrightarrow> good_record (jd_euid d) (JournalState.Pending a) e \<Longrightarrow>
           load_state d = (Inr (JournalState.Pending a), d)"
    and "jd_entries d PENDING_FILE = None \<Longrightarrow> st = JournalState.Clean \<Longrightarrow>
           load_state d = (Inr JournalState.Clean, d)"
  using assms read_state_quiet [of d]
  by (simp_all add: load_state_def try_bind_def lift_result_def)

subsection \<open>The contract of a journal\<close>

text \<open>
  What a client of the trait relies on: marking latches whatever its outcome, a successful clear
  unlatches, a failed one leaves the latch as it was.
\<close>

locale uncertainty_journal =
  fixes jops :: "'j UncertaintyJournal"
  assumes mark_latches: "uj_mark_pending jops a j = (r, j') \<Longrightarrow> uj_is_pending jops j'"
    and clear_unlatches: "uj_clear jops j = (Inr u, j') \<Longrightarrow> \<not> uj_is_pending jops j'"
    and failed_clear_keeps: "uj_clear jops j = (Inl e, j') \<Longrightarrow> uj_is_pending jops j' = uj_is_pending jops j"
begin

lemma pending_after_clear:
  "uj_clear jops j = (r, j') \<Longrightarrow> uj_is_pending jops j' \<longleftrightarrow> is_err r \<and> uj_is_pending jops j"
  by (cases r) (auto dest: clear_unlatches failed_clear_keeps)

end

lemma mark_pending_state: "fj_state (snd (mark_pending a j)) = JournalState.Pending a"
  by (auto simp: mark_pending_def try_bind_def on_directory_def Let_def
      split: prod.splits sum.splits)

lemma clear_state:
  "clear j = (r, j') \<Longrightarrow> fj_state j' = (if is_ok r then JournalState.Clean else fj_state j)"
  by (auto simp: clear_def try_bind_def on_directory_def split: prod.splits sum.splits)

interpretation file_uj: uncertainty_journal file_journal
proof
  show "uj_mark_pending file_journal a j = (r, j') \<Longrightarrow> uj_is_pending file_journal j'" for a j r j'
    using mark_pending_state [of a j] by (simp add: file_journal_def is_pending_def)
qed (auto simp: file_journal_def is_pending_def dest: clear_state)

interpretation memory_uj: uncertainty_journal memory_journal
  by unfold_locales (auto simp: memory_journal_def)

subsection \<open>Opening a directory\<close>

lemma open_under_Inr:
  assumes "open_under root t = (Inr j, t')"
  obtains d where "case st_application t of Some d0 \<Rightarrow> d = d0 | None \<Rightarrow> d = make_directory (st_blank t)"
    and "validate_directory_metadata (jd_euid d) (jd_meta d) = Inr ()"
    and "load_state d = (Inr (fj_state j), fj_directory j)"
  using assms
  by (auto simp: open_under_def try_bind_def lift_result_def ensure_application_directory_def Let_def
      split: if_splits option.splits sum.splits prod.splits)

lemma open_under_trusted:
  assumes "starts_with root ''/''" and "CHR 0x00 \<notin> set root" and "st_root_ok t" and "st_stat_ok t"
    and "st_open_ok t" and "st_fstat_ok t" and "st_application t = Some d"
    and "validate_directory_metadata (jd_euid d) (jd_meta d) = Inr ()"
    and "load_state d = (Inr st, d')"
  shows "open_under root t = (Inr \<lparr>fj_directory = d', fj_state = st\<rparr>, t\<lparr>st_application := Some d'\<rparr>)"
  using assms
  by (simp add: open_under_def try_bind_def lift_result_def ensure_application_directory_def
      open_directory_def path_join_def APPLICATION_DIRECTORY_def)

lemma load_state_clean:
  assumes "load_state d = (Inr JournalState.Clean, d')"
  shows "jd_entries d PENDING_FILE = None \<and>
    (jd_entries d JOURNAL_FILE = None
     \<or> (\<exists>e. jd_entries d JOURNAL_FILE = Some e \<and> good_record (jd_euid d) JournalState.Clean e))"
proof -
  obtain r1 d1 where 1: "read_state JOURNAL_FILE d = (r1, d1)"
    by fastforce
  note c1 = read_state_cases [OF 1]
  obtain r2 d2 where 2: "read_state PENDING_FILE d1 = (r2, d2)"
    by fastforce
  have "r2 = Inr None \<and> (r1 = Inr None \<or> r1 = Inr (Some JournalState.Clean))"
    using assms 1 2
    by (auto simp: load_state_def try_bind_def lift_result_def
        split: sum.splits option.splits JournalState.splits if_splits prod.splits)
  then show ?thesis
    using c1 read_state_cases [OF 2] by (auto simp: same_listing_def)
qed

lemma load_state_migrates:
  assumes "load_state d = (Inr st, d')" and "jd_entries d PENDING_FILE = None"
    and "jd_entries d JOURNAL_FILE = Some e" and "fe_payload e = encode_state (JournalState.Pending a)"
  shows "st = JournalState.Pending a \<and> marker_durable d'"
proof -
  obtain r1 d1 where 1: "read_state JOURNAL_FILE d = (r1, d1)"
    by fastforce
  note c1 = read_state_cases [OF 1]
  obtain r2 d2 where 2: "read_state PENDING_FILE d1 = (r2, d2)"
    by fastforce
  have r: "\<forall>x. r1 = Inr x \<longrightarrow> x = Some (JournalState.Pending a)" "\<forall>x. r2 = Inr x \<longrightarrow> x = None"
    using c1 read_state_cases [OF 2] assms
    by (auto simp: same_listing_def good_record_def) (metis not_None_eq option.inject parse_encode encode_state.simps(2))+
  then show ?thesis
    using assms(1) 1 2
    by (auto simp: load_state_def try_bind_def lift_result_def commit_marker_durable
        split: sum.splits prod.splits)
qed

subsection \<open>Properties\<close>

text \<open>A concrete directory and tree for the witnesses below.\<close>

definition example_directory :: journal_directory where
  "example_directory = make_directory
     \<lparr>jd_meta = \<lparr>md_kind = file_kind.Directory, md_uid = 1000, md_mode = 0x1C0, md_nlink = 2, md_len = 0\<rparr>,
      jd_entries = Map.empty, jd_history = [], jd_faults = [], jd_rand = (\<lambda>_. 0), jd_drawn = 0,
      jd_euid = 1000, jd_umask = 0x3F\<rparr>"

definition example_tree :: "journal_directory \<Rightarrow> state_tree" where
  "example_tree d =
     \<lparr>st_root_ok = True, st_stat_ok = True, st_application = Some d, st_mkdir_ok = True,
      st_restat_ok = True, st_open_ok = True, st_fstat_ok = True, st_blank = d\<rparr>"

definition reopened_state ::
  "string \<Rightarrow> state_tree \<Rightarrow> journal_directory \<Rightarrow> (JournalError, JournalState) result" where
  "reopened_state root t d =
     map_sum id fj_state (fst (open_under root (t\<lparr>st_application := Some d\<rparr>)))"

definition example_journal :: FileUncertaintyJournal where
  "example_journal = \<lparr>fj_directory = example_directory, fj_state = JournalState.Clean\<rparr>"

lemma quiet_example: "quiet (fj_directory example_journal)"
  by (simp add: quiet_def example_journal_def example_directory_def make_directory_def umask_ok_def)

lemma durable_marker_reopens:
  assumes "marker_durable d0" and "crash_image d0 m" and "restarted d0 m d" and "st_application t = Some d"
  shows "case fst (open_under root t) of Inl _ \<Rightarrow> True | Inr j' \<Rightarrow> is_pending j'"
proof -
  obtain e b where "jd_entries d PENDING_FILE = Some e"
      and "good_record (jd_euid d) (JournalState.Pending b) e"
    using crash_image_marker assms(1-3) by (metis restarted_def)
  from load_state_marker [OF this] show ?thesis
    using assms(4) by (cases "open_under root t"; cases "fst (open_under root t)")
      (auto simp: is_pending_def elim!: open_under_Inr)
qed

text \<open>
  C1: crash safety. Once a mark has reported success, whatever marks and clears follow on the same
  journal, with whatever faults, and wherever the host then crashes, as long as no clear reported
  success the next process that opens the directory finds the journal pending or fails to open it.
\<close>

theorem journal_crash_safe:
  assumes "mark_pending a j = (Inr (), j1)"
    and "journal_run cs j1 = (outs, j2)" and "(journal_call.Clear, Inr ()) \<notin> set outs"
    and "crash_image (fj_directory j2) m" and "restarted (fj_directory j2) m d"
    and "st_application t = Some d"
  shows "case fst (open_under root t) of Inl _ \<Rightarrow> True | Inr j' \<Rightarrow> is_pending j'"
proof -
  have "marker_durable (fj_directory j2)"
    using assms(1-3) mark_pending_durable journal_run_durable by blast
  then show ?thesis
    using assms(4-6) by (rule durable_marker_reopens)
qed

theorem journal_crash_safe_witness:
  "\<exists>j1. mark_pending JournalAction.Start example_journal = (Inr (), j1) \<and>
     (case fst (open_under ''/s'' (example_tree (fj_directory j1)\<lparr>st_application := Some ((fj_directory j1)\<lparr>jd_history := []\<rparr>)\<rparr>))
      of Inl _ \<Rightarrow> True | Inr j' \<Rightarrow> is_pending j')"
proof -
  obtain r j1 where m: "mark_pending JournalAction.Start example_journal = (r, j1)"
    by fastforce
  then have m': "mark_pending JournalAction.Start example_journal = (Inr (), j1)"
    using mark_pending_quiet [OF quiet_example m] by simp
  have "crash_image (fj_directory j1) (jd_entries (fj_directory j1))"
    by (auto simp: crash_image_def versions_def split: option.splits)
  then show ?thesis
    using journal_crash_safe [OF m', of "[]" "[]" j1 "jd_entries (fj_directory j1)"
        "(fj_directory j1)\<lparr>jd_history := []\<rparr>"
        "example_tree (fj_directory j1)\<lparr>st_application := Some ((fj_directory j1)\<lparr>jd_history := []\<rparr>)\<rparr>" "''/s''"] m'
    by (simp add: restarted_def)
qed

text \<open>
  C24: the journal works. In a trusted directory where no call fails and no temporary name is taken,
  a mark succeeds and a reopened journal is pending with that action; a clear on it then succeeds
  and the journal opened after it is clean.
\<close>

theorem journal_round_trip:
  assumes "quiet (fj_directory j)"
    and "validate_directory_metadata (jd_euid (fj_directory j)) (jd_meta (fj_directory j)) = Inr ()"
    and "starts_with root ''/''" and "CHR 0x00 \<notin> set root"
    and "st_root_ok t \<and> st_stat_ok t \<and> st_open_ok t \<and> st_fstat_ok t"
    and "mark_pending a j = (r1, j1)" and "clear j1 = (r3, j3)"
  shows "r1 = Inr () \<and> reopened_state root t (fj_directory j1) = Inr (JournalState.Pending a) \<and>
         r3 = Inr () \<and> reopened_state root t (fj_directory j3) = Inr JournalState.Clean"
proof -
  let ?d = "fj_directory j" let ?st = "JournalState.Pending a"
  note m = mark_pending_quiet [OF assms(1,6)]
  then have "quiet (fj_directory j1)"
    by simp
  note c = clear_quiet [OF this assms(7)]
  have good: "good_record (jd_euid ?d) st (committed ?d st)" for st
    using assms(1) by (simp add: quiet_def good_committed)
  have o1: "committed (fj_directory j1) = committed ?d" "jd_euid (fj_directory j1) = jd_euid ?d"
      "jd_euid (fj_directory j3) = jd_euid ?d"
      "jd_meta (fj_directory j1) = jd_meta ?d" "jd_meta (fj_directory j3) = jd_meta ?d"
    using m c committed_cong [of ?d "fj_directory j1"] by (auto simp: same_owner_def)
  have "load_state (fj_directory j1) = (Inr ?st, fj_directory j1)"
    using m good o1 by (intro load_state_quiet(1) [where st = ?st]) (auto simp: quiet_def)
  moreover have "load_state (fj_directory j3) = (Inr JournalState.Clean, fj_directory j3)"
    using m c good o1 by (intro load_state_quiet(2) [where st = JournalState.Clean]) (auto simp: quiet_def)
  ultimately show ?thesis
    using m c assms(2-5) o1
    by (simp add: reopened_state_def open_under_trusted)
qed

theorem journal_round_trip_witness:
  "\<exists>j1 j3. mark_pending JournalAction.Stop example_journal = (Inr (), j1) \<and> clear j1 = (Inr (), j3) \<and>
     reopened_state ''/s'' (example_tree example_directory) (fj_directory j1) =
       Inr (JournalState.Pending JournalAction.Stop) \<and>
     reopened_state ''/s'' (example_tree example_directory) (fj_directory j3) = Inr JournalState.Clean"
proof -
  obtain r1 j1 r3 j3 where m: "mark_pending JournalAction.Stop example_journal = (r1, j1)" and c: "clear j1 = (r3, j3)"
    by (meson prod.exhaust)
  have "validate_directory_metadata (jd_euid (fj_directory example_journal))
      (jd_meta (fj_directory example_journal)) = Inr ()"
    by (simp add: example_journal_def example_directory_def make_directory_def
      validate_directory_metadata_def)
  from journal_round_trip [OF quiet_example this _ _ _ m c, of "''/s''" "example_tree example_directory"]
  show ?thesis
    using m c by (simp add: starts_with_def example_tree_def)
qed

text \<open>
  The journal's text is canonical. A payload parses to a state exactly when it is that state's
  encoding, and every encoding is valid UTF-8 within the size limit, so what is written can be read
  back and nothing else is accepted.
\<close>

theorem state_text_canonical:
  "(parse_state payload = Some st \<longleftrightarrow> payload = encode_state st) \<and>
   length (encode_state st) \<le> MAX_JOURNAL_BYTES \<and> utf8_valid (encode_state st)"
  using encode_of_parse encode_state_length encode_state_utf8 by auto

text \<open>
  C25: opening fails closed. A journal that opens clean lies in an owner-only directory, has no
  pending marker, and its snapshot is missing or is an owner-only regular file with one link that
  holds exactly the clean record.
\<close>

theorem clean_open_is_justified:
  assumes "open_under root t = (Inr j, t')" and "\<not> is_pending j" and "st_application t = Some d"
  shows "md_kind (jd_meta d) = file_kind.Directory \<and> md_uid (jd_meta d) = jd_euid d \<and>
    md_mode (jd_meta d) AND 0x1FF = 0x1C0 \<and> jd_entries d PENDING_FILE = None \<and>
    (case jd_entries d JOURNAL_FILE of
       None \<Rightarrow> True
     | Some e \<Rightarrow> fe_kind e = file_kind.Regular \<and> fe_uid e = jd_euid d \<and> fe_mode e AND 0x1FF = 0x180
         \<and> fe_nlink e = 1 \<and> fe_payload e = encode_state JournalState.Clean)"
proof -
  from assms(1) obtain d0 where d0: "d0 = d"
      and v: "validate_directory_metadata (jd_euid d0) (jd_meta d0) = Inr ()"
      and l: "load_state d0 = (Inr (fj_state j), fj_directory j)"
    using assms(3) by (elim open_under_Inr) simp
  have "fj_state j = JournalState.Clean"
    using assms(2) by (cases "fj_state j") (simp_all add: is_pending_def)
  then have "jd_entries d PENDING_FILE = None"
    "jd_entries d JOURNAL_FILE = None \<or>
      (\<exists>e. jd_entries d JOURNAL_FILE = Some e \<and> good_record (jd_euid d) JournalState.Clean e)"
    using load_state_clean l d0 by auto
  then show ?thesis
    using v d0 by (auto simp: validate_directory_metadata_def good_record_def entry_metadata_def
        validate_journal_metadata_def split: if_splits)
qed

theorem clean_open_is_justified_witness:
  "\<not> is_pending \<lparr>fj_directory = example_directory, fj_state = JournalState.Clean\<rparr> \<and>
   jd_entries example_directory PENDING_FILE = None"
proof -
  have "load_state example_directory = (Inr JournalState.Clean, example_directory)"
    using read_state_quiet(1) [of example_directory]
    by (simp add: load_state_def try_bind_def lift_result_def example_directory_def make_directory_def)
  then have "open_under ''/s'' (example_tree example_directory) =
    (Inr \<lparr>fj_directory = example_directory, fj_state = JournalState.Clean\<rparr>, example_tree example_directory)"
    by (subst open_under_trusted) (auto simp: example_tree_def starts_with_def example_directory_def
        make_directory_def validate_directory_metadata_def)
  from clean_open_is_justified [OF this] show ?thesis
    by (simp add: is_pending_def example_tree_def)
qed

text \<open>
  Migration. A directory written by the one-file journal, with a pending snapshot and no marker,
  opens only as pending with that action, and then the marker is already durable: the open cannot
  report success before every crash image holds it.
\<close>

theorem one_file_pending_is_migrated:
  assumes "open_under root t = (Inr j, t')" and "st_application t = Some d"
    and "jd_entries d PENDING_FILE = None" and "jd_entries d JOURNAL_FILE = Some e"
    and "fe_payload e = encode_state (JournalState.Pending a)"
    and "crash_image (fj_directory j) m"
  shows "fj_state j = JournalState.Pending a \<and>
    (\<exists>e' b. m PENDING_FILE = Some e' \<and> fe_payload e' = encode_state (JournalState.Pending b))"
proof -
  have "load_state d = (Inr (fj_state j), fj_directory j)"
    using assms(1,2) by (elim open_under_Inr) simp
  from load_state_migrates [OF this assms(3-5)] show ?thesis
    using crash_image_marker [OF _ assms(6)] by (auto simp: good_record_def)
qed

definition one_file_directory :: journal_directory where
  "one_file_directory = example_directory\<lparr>jd_entries :=
     [JOURNAL_FILE \<mapsto> committed example_directory (JournalState.Pending JournalAction.Stop)]\<rparr>"

theorem one_file_pending_is_migrated_witness:
  "\<exists>j t'. open_under ''/s'' (example_tree one_file_directory) = (Inr j, t') \<and>
     fj_state j = JournalState.Pending JournalAction.Stop"
proof -
  let ?d = one_file_directory and ?st = "JournalState.Pending JournalAction.Stop"
  have q: "quiet ?d" and f: "jd_faults ?d = []"
    by (auto simp: quiet_def one_file_directory_def example_directory_def make_directory_def umask_ok_def)
  have g: "good_record (jd_euid ?d) ?st (committed example_directory ?st)"
    using good_committed [of example_directory]
    by (simp add: one_file_directory_def umask_ok_def example_directory_def make_directory_def)
  obtain d' where c: "commit PENDING_FILE ?st ?d = (Inr (), d')"
    using commit_quiet [OF q, of PENDING_FILE ?st] by (metis file_names_distinct(3) prod.collapse)
  have "load_state ?d = (Inr ?st, d')"
    using read_state_quiet(1) [OF f, of PENDING_FILE] read_state_quiet(2) [OF f _ g, of JOURNAL_FILE] c
    by (simp add: load_state_def try_bind_def lift_result_def one_file_directory_def)
  then have o: "open_under ''/s'' (example_tree ?d) =
      (Inr \<lparr>fj_directory = d', fj_state = ?st\<rparr>, (example_tree ?d)\<lparr>st_application := Some d'\<rparr>)"
    by (subst open_under_trusted) (auto simp: example_tree_def starts_with_def example_directory_def
        make_directory_def validate_directory_metadata_def one_file_directory_def)
  have "crash_image d' (jd_entries d')"
    by (auto simp: crash_image_def versions_def split: option.splits)
  then show ?thesis
    using one_file_pending_is_migrated [OF o, of ?d "committed example_directory ?st"
        JournalAction.Stop "jd_entries d'"] o
    by (auto simp: example_tree_def one_file_directory_def committed_def)
qed

end
