(* ===== verification/Controller.thy ===== *)
theory Controller
  imports Backend Journal
begin

text \<open>
  The single-owner controller (\<open>rust/src/controller.rs\<close>), generic over a backend, a membership probe
  and an uncertainty journal, each given as the record of its trait's operations.

  A clock reading is an argument (\<open>now\<close>, nanoseconds). \<open>mutate\<close> is written in the two halves the
  journal separates: \<open>mutate_guard\<close> up to and including the durable mark, \<open>mutate_commit\<close> from the
  backend action on; a crash between them is the state \<open>mutate_guard\<close> returns.
\<close>

subsection \<open>Vocabulary\<close>

datatype PairConfigurationState = Ready | NotReady | Unavailable

datatype PairMemberName = JblAuthentics300 | AuraStudio5

datatype PairMemberChannel = FrontLeft | FrontRight | Left | Right | Mono | Stereo | Unknown

datatype PairMemberVerification = Verified | NotVerified | Unavailable

record PairMemberStatus =
  pms_name :: PairMemberName
  pms_verification :: PairMemberVerification
  pms_channels :: "PairMemberChannel list"

record PairConfigurationObservation =
  pco_exact_pair_configured :: bool
  pco_members :: "PairMemberStatus \<times> PairMemberStatus"

definition fixed_member ::
  "PairMemberName \<Rightarrow> PairMemberVerification \<Rightarrow> PairMemberChannel list \<Rightarrow> PairMemberStatus" where
  "fixed_member name verification channels =
     \<lparr>pms_name = name, pms_verification = verification, pms_channels = channels\<rparr>"

definition unavailable_members :: "PairMemberVerification \<Rightarrow> PairMemberStatus \<times> PairMemberStatus" where
  "unavailable_members verification =
     (fixed_member PairMemberName.JblAuthentics300 verification [PairMemberChannel.Unknown],
      fixed_member PairMemberName.AuraStudio5 verification [PairMemberChannel.Unknown])"

definition channel_from_allowlist :: "string \<Rightarrow> PairMemberChannel" where
  "channel_from_allowlist channel =
     (if channel = ''front_left'' then PairMemberChannel.FrontLeft
      else if channel = ''front_right'' then PairMemberChannel.FrontRight
      else if channel = ''left'' then PairMemberChannel.Left
      else if channel = ''right'' then PairMemberChannel.Right
      else if channel = ''mono'' then PairMemberChannel.Mono
      else if channel = ''stereo'' then PairMemberChannel.Stereo
      else PairMemberChannel.Unknown)"

definition observed_member :: "PairMemberName \<Rightarrow> string list list \<Rightarrow> PairMemberStatus" where
  "observed_member name matches =
     (case matches of
        [raw] \<Rightarrow>
          (let projected = map channel_from_allowlist raw;
               channels =
                 (if PairMemberChannel.Unknown \<in> set projected then [PairMemberChannel.Unknown]
                  else fold (\<lambda>channel unique.
                               if channel \<in> set unique then unique else unique @ [channel]) projected [])
           in fixed_member name PairMemberVerification.Verified
                (if channels = [] then [PairMemberChannel.Unknown] else channels))
      | _ \<Rightarrow> fixed_member name PairMemberVerification.NotVerified [PairMemberChannel.Unknown])"

datatype ManagedLiveState =
    Unknown | Offline | Ready | Linking | Linked | Unlinking | Recovering | Degraded | ShuttingDown

datatype ControllerAction = Start | Stop | Shutdown | RecoverStop

datatype ControllerActionOutcome =
    Accepted | AcceptedUnconfirmed | Idempotent | RejectedBeforeSend | OutcomeUnknown
  | PostconditionFailed

datatype ControllerFailure =
    PairConfigurationUnavailable | ExpectedPairNotConfigured | BackendRejectedBeforeSend
  | AuraAdapterUnavailable | AuraDiscoveryUnavailable | AuraVerifiedAdvertisementNotFound
  | AuraDeviceConnectionFailed | AuraWakeProfileConnectFailed | AuraWakeFddfTimedOut
  | AuraWakeFddfInvalid | AuraWakeFddfUnavailable | AuraWakeProfileReleaseFailed
  | AuraGattProfileInvalid | AuraNotificationSetupFailed | AuraWriteUnknown | AuraAckTimeout
  | AuraAckChannelClosed | AuraUnexpectedAck | JblEnterOutcomeUnknown | JblExitOutcomeUnknown
  | JblBroadcastResultTimedOut | JblBroadcastResultUnavailable | JblBroadcastResultRejected
  | AuraStartOutcomeUnknown | BackendOutcomeUnknown | UnexpectedBackendLifecycle
  | MembershipPostconditionFailed | UnresolvedPriorAction | RecoveryNotAllowed
  | JournalUnavailable | JournalCommitFailed

record ControllerActionResult =
  car_action :: ControllerAction
  car_outcome :: ControllerActionOutcome
  car_managed_state :: ManagedLiveState
  car_evidence :: "PairBackendEvidence option"
  car_failure :: "ControllerFailure option"
  car_revision :: "64 word"

datatype PairProbeError = Unavailable | InvalidResponse

type_synonym 'p PairConfigurationProbe =
  "('p, PairProbeError, PairConfigurationObservation) fallible"

record LastActionStatus =
  las_action :: ControllerAction
  las_outcome :: ControllerActionOutcome
  las_evidence :: "PairBackendEvidence option"
  las_failure :: "ControllerFailure option"
  las_revision :: "64 word"
  las_age_ms :: "64 word"

record RecordedAction =
  ra_result :: ControllerActionResult
  ra_recorded_at :: nat

record ControllerStatus =
  cs_backend :: PairBackendKind
  cs_pair_configuration :: PairConfigurationState
  cs_members :: "PairMemberStatus \<times> PairMemberStatus"
  cs_managed_state :: ManagedLiveState
  cs_backend_health :: "PairHealth option"
  cs_unresolved_action :: bool
  cs_consecutive_failures :: "8 word"
  cs_revision :: "64 word"
  cs_last_action :: "LastActionStatus option"

subsection \<open>Closed mappings\<close>

fun journal_action :: "ControllerAction \<Rightarrow> JournalAction" where
  "journal_action ControllerAction.Start = JournalAction.Start"
| "journal_action ControllerAction.Stop = JournalAction.Stop"
| "journal_action ControllerAction.Shutdown = JournalAction.Shutdown"
| "journal_action ControllerAction.RecoverStop = JournalAction.RecoverStop"

fun controller_failure_from_backend :: "PairBackendError \<Rightarrow> ControllerFailure" where
  "controller_failure_from_backend PairBackendError.AuraAdapterUnavailable =
     ControllerFailure.AuraAdapterUnavailable"
| "controller_failure_from_backend PairBackendError.AuraDiscoveryUnavailable =
     ControllerFailure.AuraDiscoveryUnavailable"
| "controller_failure_from_backend PairBackendError.AuraVerifiedAdvertisementNotFound =
     ControllerFailure.AuraVerifiedAdvertisementNotFound"
| "controller_failure_from_backend PairBackendError.AuraDeviceConnectionFailed =
     ControllerFailure.AuraDeviceConnectionFailed"
| "controller_failure_from_backend PairBackendError.AuraWakeProfileConnectFailed =
     ControllerFailure.AuraWakeProfileConnectFailed"
| "controller_failure_from_backend PairBackendError.AuraWakeFddfTimedOut =
     ControllerFailure.AuraWakeFddfTimedOut"
| "controller_failure_from_backend PairBackendError.AuraWakeFddfInvalid =
     ControllerFailure.AuraWakeFddfInvalid"
| "controller_failure_from_backend PairBackendError.AuraWakeFddfUnavailable =
     ControllerFailure.AuraWakeFddfUnavailable"
| "controller_failure_from_backend PairBackendError.AuraWakeProfileReleaseFailed =
     ControllerFailure.AuraWakeProfileReleaseFailed"
| "controller_failure_from_backend PairBackendError.AuraGattProfileInvalid =
     ControllerFailure.AuraGattProfileInvalid"
| "controller_failure_from_backend PairBackendError.AuraNotificationSetupFailed =
     ControllerFailure.AuraNotificationSetupFailed"
| "controller_failure_from_backend _ = ControllerFailure.BackendRejectedBeforeSend"

fun controller_failure_from_unknown_backend :: "PairBackendError \<Rightarrow> ControllerFailure" where
  "controller_failure_from_unknown_backend PairBackendError.AuraWriteUnknown =
     ControllerFailure.AuraWriteUnknown"
| "controller_failure_from_unknown_backend PairBackendError.AuraAcknowledgementTimedOut =
     ControllerFailure.AuraAckTimeout"
| "controller_failure_from_unknown_backend PairBackendError.AuraAcknowledgementChannelClosed =
     ControllerFailure.AuraAckChannelClosed"
| "controller_failure_from_unknown_backend PairBackendError.AuraUnexpectedAcknowledgement =
     ControllerFailure.AuraUnexpectedAck"
| "controller_failure_from_unknown_backend PairBackendError.JblEnterOutcomeUnknown =
     ControllerFailure.JblEnterOutcomeUnknown"
| "controller_failure_from_unknown_backend PairBackendError.JblExitOutcomeUnknown =
     ControllerFailure.JblExitOutcomeUnknown"
| "controller_failure_from_unknown_backend PairBackendError.JblBroadcastResultTimedOut =
     ControllerFailure.JblBroadcastResultTimedOut"
| "controller_failure_from_unknown_backend PairBackendError.JblBroadcastResultUnavailable =
     ControllerFailure.JblBroadcastResultUnavailable"
| "controller_failure_from_unknown_backend PairBackendError.JblBroadcastResultRejected =
     ControllerFailure.JblBroadcastResultRejected"
| "controller_failure_from_unknown_backend PairBackendError.AuraStartOutcomeUnknown =
     ControllerFailure.AuraStartOutcomeUnknown"
| "controller_failure_from_unknown_backend _ = ControllerFailure.BackendOutcomeUnknown"

definition last_action_status :: "nat \<Rightarrow> RecordedAction \<Rightarrow> LastActionStatus" where
  "last_action_status now recorded =
     (let result = ra_result recorded; millis = (now - ra_recorded_at recorded) div 1000000
      in \<lparr>las_action = car_action result, las_outcome = car_outcome result,
          las_evidence = car_evidence result, las_failure = car_failure result,
          las_revision = car_revision result,
          las_age_ms = (if millis < 2 ^ 64 then of_nat millis else - 1)\<rparr>)"

subsection \<open>The controller\<close>

record ('b, 'p, 'j) PairController =
  pc_backend :: 'b
  pc_probe :: 'p
  pc_journal :: 'j
  pc_managed_state :: ManagedLiveState
  pc_unresolved_action :: bool
  pc_consecutive_failures :: "8 word"
  pc_revision :: "64 word"
  pc_last_action :: "RecordedAction option"

record ('b, 'p, 'j) environment =
  env_backend :: "'b PairBackend"
  env_probe :: "'p PairConfigurationProbe"
  env_journal :: "'j UncertaintyJournal"

definition with_journal ::
  "('b, 'p, 'j) environment \<Rightarrow> 'b \<Rightarrow> 'p \<Rightarrow> 'j \<Rightarrow> ('b, 'p, 'j) PairController" where
  "with_journal env backend probe journal =
     (let unresolved_action = uj_is_pending (env_journal env) journal
      in \<lparr>pc_backend = backend, pc_probe = probe, pc_journal = journal,
          pc_managed_state = ManagedLiveState.Unknown, pc_unresolved_action = unresolved_action,
          pc_consecutive_failures = (if unresolved_action then 1 else 0), pc_revision = 0,
          pc_last_action = None\<rparr>)"

definition bump_revision :: "('b, 'p, 'j) PairController \<Rightarrow> ('b, 'p, 'j) PairController" where
  "bump_revision c = c\<lparr>pc_revision := saturating_add (pc_revision c) 1\<rparr>"

definition bump_failures :: "('b, 'p, 'j) PairController \<Rightarrow> ('b, 'p, 'j) PairController" where
  "bump_failures c = c\<lparr>pc_consecutive_failures := saturating_add (pc_consecutive_failures c) 1\<rparr>"

definition finish_with_evidence ::
  "nat \<Rightarrow> ControllerAction \<Rightarrow> ControllerActionOutcome \<Rightarrow> PairBackendEvidence option
    \<Rightarrow> ControllerFailure option \<Rightarrow> ('b, 'p, 'j) PairController
    \<Rightarrow> ControllerActionResult \<times> ('b, 'p, 'j) PairController" where
  "finish_with_evidence now action outcome evidence failure c =
     (let c = bump_revision c;
          result = \<lparr>car_action = action, car_outcome = outcome,
                    car_managed_state = pc_managed_state c, car_evidence = evidence,
                    car_failure = failure, car_revision = pc_revision c\<rparr>
      in (result, c\<lparr>pc_last_action := Some \<lparr>ra_result = result, ra_recorded_at = now\<rparr>\<rparr>))"

definition finish ::
  "nat \<Rightarrow> ControllerAction \<Rightarrow> ControllerActionOutcome \<Rightarrow> ControllerFailure option
    \<Rightarrow> ('b, 'p, 'j) PairController \<Rightarrow> ControllerActionResult \<times> ('b, 'p, 'j) PairController" where
  "finish now action outcome failure c = finish_with_evidence now action outcome None failure c"

definition reject_preflight ::
  "nat \<Rightarrow> ControllerAction \<Rightarrow> ControllerFailure \<Rightarrow> ('b, 'p, 'j) PairController
    \<Rightarrow> ControllerActionResult \<times> ('b, 'p, 'j) PairController" where
  "reject_preflight now action failure c =
     finish now action ControllerActionOutcome.RejectedBeforeSend (Some failure) (bump_failures c)"

definition latch_unknown :: "('b, 'p, 'j) PairController \<Rightarrow> ('b, 'p, 'j) PairController" where
  "latch_unknown c =
     (bump_failures c)\<lparr>pc_unresolved_action := True, pc_managed_state := ManagedLiveState.Unknown\<rparr>"

definition journal_commit_failed ::
  "nat \<Rightarrow> ControllerAction \<Rightarrow> ('b, 'p, 'j) PairController
    \<Rightarrow> ControllerActionResult \<times> ('b, 'p, 'j) PairController" where
  "journal_commit_failed now action c =
     finish now action ControllerActionOutcome.OutcomeUnknown
       (Some ControllerFailure.JournalCommitFailed) (latch_unknown c)"

definition read_pair_configuration ::
  "('b, 'p, 'j) environment \<Rightarrow> ('b, 'p, 'j) PairController
    \<Rightarrow> (PairConfigurationState \<times> PairMemberStatus \<times> PairMemberStatus)
       \<times> ('b, 'p, 'j) PairController" where
  "read_pair_configuration env c =
     (let (observed, p') = env_probe env (pc_probe c); c = c\<lparr>pc_probe := p'\<rparr>
      in case observed of
           Inr observation \<Rightarrow>
             ((if pco_exact_pair_configured observation then PairConfigurationState.Ready
               else PairConfigurationState.NotReady, pco_members observation), c)
         | Inl _ \<Rightarrow>
             ((PairConfigurationState.Unavailable,
               unavailable_members PairMemberVerification.Unavailable), c))"

fun health_matches_managed_state :: "ManagedLiveState \<Rightarrow> PairHealth option \<Rightarrow> bool" where
  "health_matches_managed_state ManagedLiveState.Linked health =
     (\<exists>h \<in> set_option health. ph_level h = PairHealthLevel.Healthy \<and> \<not> ph_reported_error h
        \<and> ph_lifecycle h = PairLifecycle.Linked)"
| "health_matches_managed_state ManagedLiveState.Ready health =
     (\<exists>h \<in> set_option health. ph_level h = PairHealthLevel.Healthy \<and> \<not> ph_reported_error h
        \<and> ph_lifecycle h = PairLifecycle.Ready)"
| "health_matches_managed_state _ health = True"

definition backend_health ::
  "('b, 'p, 'j) environment \<Rightarrow> ('b, 'p, 'j) PairController
    \<Rightarrow> PairHealth option \<times> ('b, 'p, 'j) PairController" where
  "backend_health env c =
     (let (observed, b') = pb_health (env_backend env) (pc_backend c)
      in (ok observed, c\<lparr>pc_backend := b'\<rparr>))"

definition idempotent_health :: "PairLifecycle \<Rightarrow> PairHealth \<Rightarrow> bool" where
  "idempotent_health expected h \<longleftrightarrow>
     ph_lifecycle h = expected \<and> ph_level h = PairHealthLevel.Healthy \<and> \<not> ph_reported_error h
     \<and> \<not> (ph_backend h = PairBackendKind.NativePair
           \<and> ph_aura_transport h = AuraControlTransport.Unresolved)"

fun idempotent_expectation :: "ControllerAction \<Rightarrow> (ManagedLiveState \<times> PairLifecycle) option" where
  "idempotent_expectation ControllerAction.Start = Some (ManagedLiveState.Linked, PairLifecycle.Linked)"
| "idempotent_expectation ControllerAction.Stop = Some (ManagedLiveState.Ready, PairLifecycle.Ready)"
| "idempotent_expectation ControllerAction.Shutdown =
     Some (ManagedLiveState.Offline, PairLifecycle.Offline)"
| "idempotent_expectation ControllerAction.RecoverStop = None"

definition is_idempotent ::
  "('b, 'p, 'j) environment \<Rightarrow> ControllerAction \<Rightarrow> ('b, 'p, 'j) PairController
    \<Rightarrow> bool \<times> ('b, 'p, 'j) PairController" where
  "is_idempotent env action c =
     (case idempotent_expectation action of
        None \<Rightarrow> (False, c)
      | Some (expected_state, expected_lifecycle) \<Rightarrow>
          if pc_managed_state c \<noteq> expected_state then (False, c)
          else let (health, c) = backend_health env c
               in (case health of None \<Rightarrow> False | Some h \<Rightarrow> idempotent_health expected_lifecycle h, c))"

definition status ::
  "('b, 'p, 'j) environment \<Rightarrow> nat \<Rightarrow> ('b, 'p, 'j) PairController
    \<Rightarrow> ControllerStatus \<times> ('b, 'p, 'j) PairController" where
  "status env now c =
     (let previous_managed_state = pc_managed_state c;
          ((pair_configuration, members), c) = read_pair_configuration env c;
          (health, c) = backend_health env c;
          lost_backend = (pc_managed_state c \<noteq> ManagedLiveState.Offline \<and> health = None);
          membership_not_confirmed =
            (pair_configuration \<noteq> PairConfigurationState.Ready
             \<and> pc_managed_state c = ManagedLiveState.Linked);
          contradictory_health = (\<not> health_matches_managed_state (pc_managed_state c) health);
          c = (if lost_backend \<or> membership_not_confirmed \<or> contradictory_health
               then c\<lparr>pc_managed_state := ManagedLiveState.Unknown\<rparr> else c);
          c = (if pc_managed_state c \<noteq> previous_managed_state then bump_revision c else c)
      in (\<lparr>cs_backend = pb_kind (env_backend env) (pc_backend c),
           cs_pair_configuration = pair_configuration, cs_members = members,
           cs_managed_state = pc_managed_state c, cs_backend_health = health,
           cs_unresolved_action = pc_unresolved_action c,
           cs_consecutive_failures = pc_consecutive_failures c, cs_revision = pc_revision c,
           cs_last_action = map_option (last_action_status now) (pc_last_action c)\<rparr>, c))"

subsection \<open>One mutation\<close>

fun transitional_state :: "ControllerAction \<Rightarrow> ManagedLiveState" where
  "transitional_state ControllerAction.Start = ManagedLiveState.Linking"
| "transitional_state ControllerAction.Stop = ManagedLiveState.Unlinking"
| "transitional_state ControllerAction.Shutdown = ManagedLiveState.ShuttingDown"
| "transitional_state ControllerAction.RecoverStop = ManagedLiveState.Recovering"

fun expected_lifecycle :: "ControllerAction \<Rightarrow> PairLifecycle" where
  "expected_lifecycle ControllerAction.Start = PairLifecycle.Linked"
| "expected_lifecycle ControllerAction.Stop = PairLifecycle.Ready"
| "expected_lifecycle ControllerAction.Shutdown = PairLifecycle.ShuttingDown"
| "expected_lifecycle ControllerAction.RecoverStop = PairLifecycle.Ready"

fun accepted_state :: "ControllerAction \<Rightarrow> ManagedLiveState" where
  "accepted_state ControllerAction.Start = ManagedLiveState.Linked"
| "accepted_state ControllerAction.Stop = ManagedLiveState.Ready"
| "accepted_state ControllerAction.Shutdown = ManagedLiveState.Offline"
| "accepted_state ControllerAction.RecoverStop = ManagedLiveState.Ready"

fun transaction_action ::
  "ControllerAction \<Rightarrow> 'b PairBackend \<Rightarrow> 'b PairBackendTransaction
    \<Rightarrow> PairActionResult \<times> 'b PairBackendTransaction" where
  "transaction_action ControllerAction.Start ops = transaction_start ops"
| "transaction_action ControllerAction.Stop ops = transaction_stop ops"
| "transaction_action ControllerAction.Shutdown ops = transaction_shutdown ops"
| "transaction_action ControllerAction.RecoverStop ops = transaction_recover_stop ops"

text \<open>
  Everything before the backend action: an early result, or \<open>None\<close> when the mark is durable and the
  action may begin.
\<close>

definition mutate_mark ::
  "('b, 'p, 'j) environment \<Rightarrow> nat \<Rightarrow> ControllerAction \<Rightarrow> ('b, 'p, 'j) PairController
    \<Rightarrow> ControllerActionResult option \<times> ('b, 'p, 'j) PairController" where
  "mutate_mark env now action c =
     (case uj_mark_pending (env_journal env) (journal_action action) (pc_journal c) of
        (Inl _, j') \<Rightarrow>
          (let c = bump_failures (c\<lparr>pc_journal := j'\<rparr>);
               c = (if uj_is_pending (env_journal env) (pc_journal c)
                    then c\<lparr>pc_unresolved_action := True,
                           pc_managed_state := ManagedLiveState.Unknown\<rparr> else c)
           in apfst Some (finish now action ControllerActionOutcome.RejectedBeforeSend
                            (Some ControllerFailure.JournalUnavailable) c))
      | (Inr _, j') \<Rightarrow>
          (None, bump_revision
                   (c\<lparr>pc_journal := j', pc_managed_state := transitional_state action\<rparr>)))"

definition mutate_configured ::
  "('b, 'p, 'j) environment \<Rightarrow> nat \<Rightarrow> ControllerAction \<Rightarrow> PairConfigurationState
    \<Rightarrow> ('b, 'p, 'j) PairController
    \<Rightarrow> ControllerActionResult option \<times> ('b, 'p, 'j) PairController" where
  "mutate_configured env now action configuration c =
     (case configuration of
        PairConfigurationState.NotReady \<Rightarrow>
          apfst Some (reject_preflight now action ControllerFailure.ExpectedPairNotConfigured c)
      | PairConfigurationState.Unavailable \<Rightarrow>
          apfst Some (reject_preflight now action ControllerFailure.PairConfigurationUnavailable c)
      | PairConfigurationState.Ready \<Rightarrow>
          (let (idempotent, c) = is_idempotent env action c
           in if idempotent
              then apfst Some (finish now action ControllerActionOutcome.Idempotent None
                                 (c\<lparr>pc_consecutive_failures := 0\<rparr>))
              else mutate_mark env now action c))"

definition mutate_guard ::
  "('b, 'p, 'j) environment \<Rightarrow> nat \<Rightarrow> ControllerAction \<Rightarrow> ('b, 'p, 'j) PairController
    \<Rightarrow> ControllerActionResult option \<times> ('b, 'p, 'j) PairController" where
  "mutate_guard env now action c =
     (if pc_unresolved_action c \<and> action \<noteq> ControllerAction.RecoverStop then
        apfst Some (finish now action ControllerActionOutcome.RejectedBeforeSend
                      (Some ControllerFailure.UnresolvedPriorAction) c)
      else if action = ControllerAction.RecoverStop \<and> \<not> pc_unresolved_action c
              \<and> pc_consecutive_failures c < 2 then
        apfst Some (finish now action ControllerActionOutcome.RejectedBeforeSend
                      (Some ControllerFailure.RecoveryNotAllowed) c)
      else if action = ControllerAction.Shutdown \<and> pc_managed_state c = ManagedLiveState.Offline then
        apfst Some (finish now action ControllerActionOutcome.Idempotent None c)
      else
        let ((configuration, _), c) = read_pair_configuration env c
        in mutate_configured env now action configuration c)"

definition clear_journal ::
  "('b, 'p, 'j) environment \<Rightarrow> ('b, 'p, 'j) PairController
    \<Rightarrow> (JournalError, unit) result \<times> ('b, 'p, 'j) PairController" where
  "clear_journal env c =
     (let (r, j') = uj_clear (env_journal env) (pc_journal c) in (r, c\<lparr>pc_journal := j'\<rparr>))"

definition reduce_rejected ::
  "('b, 'p, 'j) environment \<Rightarrow> nat \<Rightarrow> ControllerAction \<Rightarrow> PairActionFailure \<Rightarrow> bool
    \<Rightarrow> ('b, 'p, 'j) PairController \<Rightarrow> ControllerActionResult \<times> ('b, 'p, 'j) PairController" where
  "reduce_rejected env now action failure had_pending_uncertainty c =
     (let may_clear = (action \<noteq> ControllerAction.RecoverStop \<or> \<not> had_pending_uncertainty);
          (cleared, c) = (if may_clear then clear_journal env c else (Inr (), c))
      in if is_err cleared then journal_commit_failed now action c
         else
           let c = (if may_clear then c else c\<lparr>pc_unresolved_action := True\<rparr>)
           in finish now action ControllerActionOutcome.RejectedBeforeSend
                (Some (controller_failure_from_backend (paf_reason failure)))
                ((bump_failures c)\<lparr>pc_managed_state := ManagedLiveState.Degraded\<rparr>))"

definition reduce_accepted ::
  "('b, 'p, 'j) environment \<Rightarrow> nat \<Rightarrow> ControllerAction \<Rightarrow> PairActionReceipt
    \<Rightarrow> ('b, 'p, 'j) PairController \<Rightarrow> ControllerActionResult \<times> ('b, 'p, 'j) PairController" where
  "reduce_accepted env now action receipt c =
     (if par_lifecycle receipt \<noteq> expected_lifecycle action then
        finish now action ControllerActionOutcome.OutcomeUnknown
          (Some ControllerFailure.UnexpectedBackendLifecycle) (latch_unknown c)
      else
        let ((configuration, _), c) = read_pair_configuration env c
        in if configuration \<noteq> PairConfigurationState.Ready then
             finish now action ControllerActionOutcome.PostconditionFailed
               (Some ControllerFailure.MembershipPostconditionFailed) (latch_unknown c)
           else
             let (cleared, c) = clear_journal env c
             in if is_err cleared then journal_commit_failed now action c
                else
                  let c = c\<lparr>pc_consecutive_failures := 0, pc_unresolved_action := False,
                            pc_managed_state := accepted_state action\<rparr>;
                      evidence = par_evidence receipt;
                      outcome = (if evidence = PairBackendEvidence.BroadcastAcknowledgementOnly
                                 then ControllerActionOutcome.AcceptedUnconfirmed
                                 else ControllerActionOutcome.Accepted)
                  in finish_with_evidence now action outcome (Some evidence) None c)"

definition reduce_backend_result ::
  "('b, 'p, 'j) environment \<Rightarrow> nat \<Rightarrow> ControllerAction \<Rightarrow> PairActionResult \<Rightarrow> bool
    \<Rightarrow> ('b, 'p, 'j) PairController \<Rightarrow> ControllerActionResult \<times> ('b, 'p, 'j) PairController" where
  "reduce_backend_result env now action attempted had_pending_uncertainty c =
     (case attempted of
        PairActionResult.RejectedBeforeSend failure \<Rightarrow>
          reduce_rejected env now action failure had_pending_uncertainty c
      | PairActionResult.OutcomeUnknown failure \<Rightarrow>
          finish now action ControllerActionOutcome.OutcomeUnknown
            (Some (controller_failure_from_unknown_backend (paf_reason failure))) (latch_unknown c)
      | PairActionResult.Accepted receipt \<Rightarrow> reduce_accepted env now action receipt c)"

definition mutate_commit ::
  "('b, 'p, 'j) environment \<Rightarrow> nat \<Rightarrow> ControllerAction \<Rightarrow> bool \<Rightarrow> ('b, 'p, 'j) PairController
    \<Rightarrow> ControllerActionResult \<times> ('b, 'p, 'j) PairController" where
  "mutate_commit env now action had_pending_uncertainty c =
     (let (attempted, t) = transaction_action action (env_backend env)
                             (transaction_new (env_backend env) (pc_backend c))
      in reduce_backend_result env now action attempted had_pending_uncertainty
           (c\<lparr>pc_backend := pbt_backend t\<rparr>))"

definition mutate ::
  "('b, 'p, 'j) environment \<Rightarrow> nat \<Rightarrow> ControllerAction \<Rightarrow> ('b, 'p, 'j) PairController
    \<Rightarrow> ControllerActionResult \<times> ('b, 'p, 'j) PairController" where
  "mutate env now action c =
     (case mutate_guard env now action c of
        (Some result, c') \<Rightarrow> (result, c')
      | (None, c') \<Rightarrow> mutate_commit env now action (pc_unresolved_action c) c')"

definition start where
  "start env now c = mutate env now ControllerAction.Start c"

definition stop where
  "stop env now c = mutate env now ControllerAction.Stop c"

definition shutdown where
  "shutdown env now c = mutate env now ControllerAction.Shutdown c"

definition recover_stop where
  "recover_stop env now c = mutate env now ControllerAction.RecoverStop c"

definition teardown_transport_for_exit ::
  "('b, 'p, 'j) environment \<Rightarrow> ('b, 'p, 'j) PairController
    \<Rightarrow> (PairBackendError, unit) result \<times> ('b, 'p, 'j) PairController" where
  "teardown_transport_for_exit env c =
     (let (r, b') = pb_teardown_transport (env_backend env) (pc_backend c)
      in (r, c\<lparr>pc_backend := b'\<rparr>))"

end
