(* ===== verification/Controller_Safety.thy ===== *)
theory Controller_Safety
  imports Controller
begin

text \<open>
  What the controller guarantees of every sequence of calls: how the in-memory latch follows the
  journal, what a mutation may touch, what a claimed state rests on, and what the two journals
  provide it.
\<close>

subsection \<open>Fields an operation leaves alone\<close>

lemma bump_sel [simp]:
  "pc_backend (bump_revision c) = pc_backend c" "pc_probe (bump_revision c) = pc_probe c"
  "pc_journal (bump_revision c) = pc_journal c"
  "pc_managed_state (bump_revision c) = pc_managed_state c"
  "pc_unresolved_action (bump_revision c) = pc_unresolved_action c"
  "pc_consecutive_failures (bump_revision c) = pc_consecutive_failures c"
  "pc_last_action (bump_revision c) = pc_last_action c"
  "pc_revision (bump_revision c) = saturating_add (pc_revision c) 1"
  "pc_backend (bump_failures c) = pc_backend c" "pc_probe (bump_failures c) = pc_probe c"
  "pc_journal (bump_failures c) = pc_journal c"
  "pc_managed_state (bump_failures c) = pc_managed_state c"
  "pc_unresolved_action (bump_failures c) = pc_unresolved_action c"
  "pc_consecutive_failures (bump_failures c) = saturating_add (pc_consecutive_failures c) 1"
  "pc_last_action (bump_failures c) = pc_last_action c"
  "pc_revision (bump_failures c) = pc_revision c"
  by (simp_all add: bump_revision_def bump_failures_def)

lemma latch_unknown_sel [simp]:
  "pc_backend (latch_unknown c) = pc_backend c" "pc_probe (latch_unknown c) = pc_probe c"
  "pc_journal (latch_unknown c) = pc_journal c"
  "pc_managed_state (latch_unknown c) = ManagedLiveState.Unknown"
  "pc_unresolved_action (latch_unknown c) = True"
  "pc_revision (latch_unknown c) = pc_revision c"
  by (simp_all add: latch_unknown_def)

lemma finish_with_evidence_sel [simp]:
  "pc_backend (snd (finish_with_evidence now a out ev f c)) = pc_backend c"
  "pc_probe (snd (finish_with_evidence now a out ev f c)) = pc_probe c"
  "pc_journal (snd (finish_with_evidence now a out ev f c)) = pc_journal c"
  "pc_managed_state (snd (finish_with_evidence now a out ev f c)) = pc_managed_state c"
  "pc_unresolved_action (snd (finish_with_evidence now a out ev f c)) = pc_unresolved_action c"
  "pc_consecutive_failures (snd (finish_with_evidence now a out ev f c)) = pc_consecutive_failures c"
  "pc_revision (snd (finish_with_evidence now a out ev f c)) = saturating_add (pc_revision c) 1"
  "car_action (fst (finish_with_evidence now a out ev f c)) = a"
  "car_outcome (fst (finish_with_evidence now a out ev f c)) = out"
  "car_managed_state (fst (finish_with_evidence now a out ev f c)) = pc_managed_state c"
  "car_evidence (fst (finish_with_evidence now a out ev f c)) = ev"
  "car_failure (fst (finish_with_evidence now a out ev f c)) = f"
  "car_revision (fst (finish_with_evidence now a out ev f c)) = saturating_add (pc_revision c) 1"
  "map_option ra_result (pc_last_action (snd (finish_with_evidence now a out ev f c))) =
     Some (fst (finish_with_evidence now a out ev f c))"
  by (simp_all add: finish_with_evidence_def Let_def)

lemmas finish_sel [simp] = finish_with_evidence_sel [where ev = None, folded finish_def]

lemma read_pair_configuration_sel:
  assumes "read_pair_configuration env c = (o', c')"
  shows "c' = c\<lparr>pc_probe := snd (env_probe env (pc_probe c))\<rparr>"
    and "fst o' = PairConfigurationState.Ready \<longleftrightarrow>
           (\<exists>obs. fst (env_probe env (pc_probe c)) = Inr obs \<and> pco_exact_pair_configured obs)"
  using assms
  by (auto simp: read_pair_configuration_def Let_def split: prod.splits sum.splits if_splits)

lemma apfst_Some [simp]: "apfst Some p \<noteq> (None, c)" "(None, c) \<noteq> apfst Some p"
  "apfst Some p = (Some r, c) \<longleftrightarrow> p = (r, c)" "(Some r, c) = apfst Some p \<longleftrightarrow> p = (r, c)"
  by (cases p; auto)+

lemma is_idempotent_sel:
  assumes "is_idempotent env a c = (i, c')"
  shows "c' = c\<lparr>pc_backend := pc_backend c'\<rparr>"
    and "pc_backend c' = pc_backend c \<or> pc_backend c' = snd (pb_health (env_backend env) (pc_backend c))"
  using assms
  by (auto simp: is_idempotent_def backend_health_def split: option.splits prod.splits if_splits)

lemma is_idempotent_fields:
  assumes "is_idempotent env a c = (i, c')"
  shows "pc_journal c' = pc_journal c" and "pc_unresolved_action c' = pc_unresolved_action c"
    and "pc_managed_state c' = pc_managed_state c" and "pc_revision c' = pc_revision c"
  by (subst is_idempotent_sel(1) [OF assms], simp)+

subsection \<open>What passes the guard\<close>

text \<open>
  The states a mutation starts its backend action from: the pair was just seen configured, the
  journal accepted the mark, and nothing of the backend has been called but its health.
\<close>

lemma mutate_mark_None:
  assumes "mutate_mark env now a c = (None, c')"
  obtains j' where "uj_mark_pending (env_journal env) (journal_action a) (pc_journal c) = (Inr (), j')"
    and "c' = bump_revision (c\<lparr>pc_journal := j', pc_managed_state := transitional_state a\<rparr>)"
  using assms by (auto simp: mutate_mark_def Let_def split: prod.splits sum.splits)

lemma mutate_guard_None:
  assumes "mutate_guard env now a c = (None, c')"
  shows "uj_mark_pending (env_journal env) (journal_action a) (pc_journal c) = (Inr (), pc_journal c')"
    and "pc_managed_state c' = transitional_state a"
    and "pc_unresolved_action c' = pc_unresolved_action c"
    and "pc_consecutive_failures c' = pc_consecutive_failures c"
    and "pc_revision c' = saturating_add (pc_revision c) 1"
    and "pc_unresolved_action c \<Longrightarrow> a = ControllerAction.RecoverStop"
    and "a = ControllerAction.RecoverStop \<Longrightarrow> pc_unresolved_action c \<or> 2 \<le> pc_consecutive_failures c"
    and "\<exists>obs. fst (env_probe env (pc_probe c)) = Inr obs \<and> pco_exact_pair_configured obs"
    and "pc_backend c' = pc_backend c
         \<or> pc_backend c' = snd (pb_health (env_backend env) (pc_backend c))"
proof -
  obtain conf ms c1 where r: "read_pair_configuration env c = ((conf, ms), c1)"
    by (metis prod.exhaust)
  obtain i c2 where i: "is_idempotent env a c1 = (i, c2)"
    by (metis prod.exhaust)
  have *: "conf = PairConfigurationState.Ready" "mutate_mark env now a c2 = (None, c')"
    using assms r i
    by (auto simp: mutate_guard_def mutate_configured_def
        split: if_splits PairConfigurationState.splits)
  have c2: "c2 = c\<lparr>pc_probe := snd (env_probe env (pc_probe c)), pc_backend := pc_backend c2\<rparr>"
      "pc_backend c2 = pc_backend c \<or> pc_backend c2 = snd (pb_health (env_backend env) (pc_backend c))"
    using is_idempotent_sel [OF i] read_pair_configuration_sel(1) [OF r] by simp_all
  show "uj_mark_pending (env_journal env) (journal_action a) (pc_journal c) = (Inr (), pc_journal c')"
      "pc_managed_state c' = transitional_state a"
      "pc_unresolved_action c' = pc_unresolved_action c"
      "pc_consecutive_failures c' = pc_consecutive_failures c"
      "pc_revision c' = saturating_add (pc_revision c) 1"
      "pc_backend c' = pc_backend c
         \<or> pc_backend c' = snd (pb_health (env_backend env) (pc_backend c))"
    using mutate_mark_None [OF *(2)] c2
    by (metis (no_types, lifting) PairController.select_convs PairController.surjective
        PairController.update_convs bump_sel)+
  show "\<exists>obs. fst (env_probe env (pc_probe c)) = Inr obs \<and> pco_exact_pair_configured obs"
    using read_pair_configuration_sel(2) [OF r] *(1) by simp
  show "pc_unresolved_action c \<Longrightarrow> a = ControllerAction.RecoverStop"
      "a = ControllerAction.RecoverStop \<Longrightarrow> pc_unresolved_action c \<or> 2 \<le> pc_consecutive_failures c"
    using assms by (auto simp: mutate_guard_def not_less split: if_splits)
qed

lemma mutate_mark_Some:
  assumes "mutate_mark env now a c = (Some r, c')"
  shows "\<exists>e. uj_mark_pending (env_journal env) (journal_action a) (pc_journal c) = (Inl e, pc_journal c')"
    and "if uj_is_pending (env_journal env) (pc_journal c')
         then pc_unresolved_action c' \<and> pc_managed_state c' = ManagedLiveState.Unknown
         else pc_unresolved_action c' = pc_unresolved_action c \<and> pc_managed_state c' = pc_managed_state c"
    and "pc_revision c' = saturating_add (pc_revision c) 1" and "pc_backend c' = pc_backend c"
    and "car_outcome r = ControllerActionOutcome.RejectedBeforeSend" and "car_evidence r = None"
    and "car_managed_state r = pc_managed_state c'" and "car_revision r = pc_revision c'"
    and "car_action r = a" and "car_failure r = Some ControllerFailure.JournalUnavailable"
    and "map_option ra_result (pc_last_action c') = Some r"
  using assms
  by (auto simp: mutate_mark_def Let_def finish_def finish_with_evidence_def split: prod.splits sum.splits if_splits)

text \<open>
  An early result of the action \<open>a\<close>: nothing but the health of the backend was called, and the journal
  was not touched unless its mark failed.
\<close>

definition reports :: "ControllerAction \<Rightarrow> ControllerActionResult \<Rightarrow> ('b, 'p, 'j) PairController \<Rightarrow> bool" where
  "reports a r c' \<longleftrightarrow>
     car_action r = a \<and> car_managed_state r = pc_managed_state c' \<and> car_revision r = pc_revision c'
     \<and> map_option ra_result (pc_last_action c') = Some r"

definition early_result ::
  "('b, 'p, 'j) environment \<Rightarrow> ControllerAction \<Rightarrow> ('b, 'p, 'j) PairController
    \<Rightarrow> ControllerActionResult \<Rightarrow> ('b, 'p, 'j) PairController \<Rightarrow> bool" where
  "early_result env a c r c' \<longleftrightarrow>
     reports a r c' \<and> car_evidence r = None
     \<and> pc_revision c' = saturating_add (pc_revision c) 1
     \<and> pc_backend c' \<in> {pc_backend c, snd (pb_health (env_backend env) (pc_backend c))}
     \<and> (car_outcome r = ControllerActionOutcome.RejectedBeforeSend \<and> car_failure r \<noteq> None
        \<or> car_outcome r = ControllerActionOutcome.Idempotent \<and> car_failure r = None
          \<and> pc_managed_state c' = pc_managed_state c)
     \<and> (pc_journal c' = pc_journal c \<and> pc_unresolved_action c' = pc_unresolved_action c
          \<and> pc_managed_state c' = pc_managed_state c
        \<or> (\<exists>e. uj_mark_pending (env_journal env) (journal_action a) (pc_journal c) = (Inl e, pc_journal c'))
          \<and> (if uj_is_pending (env_journal env) (pc_journal c')
             then pc_unresolved_action c' \<and> pc_managed_state c' = ManagedLiveState.Unknown
             else pc_unresolved_action c' = pc_unresolved_action c
               \<and> pc_managed_state c' = pc_managed_state c))"

lemma reports_finish [simp]: "finish_with_evidence now a out ev f c = (r, c') \<Longrightarrow> reports a r c'"
  by (auto simp: finish_with_evidence_def Let_def reports_def)

lemma early_finish:
  assumes "finish now a out f c1 = (r, c')"
    and "out = ControllerActionOutcome.RejectedBeforeSend \<and> f \<noteq> None
         \<or> out = ControllerActionOutcome.Idempotent \<and> f = None"
    and "pc_journal c1 = pc_journal c" "pc_unresolved_action c1 = pc_unresolved_action c"
      "pc_managed_state c1 = pc_managed_state c" "pc_revision c1 = pc_revision c"
      "pc_backend c1 \<in> {pc_backend c, snd (pb_health (env_backend env) (pc_backend c))}"
  shows "early_result env a c r c'"
  using assms finish_sel [of now a out f c1]
  by (auto simp: early_result_def finish_def)

lemma early_mark:
  assumes "mutate_mark env now a c1 = (Some r, c')"
    and "pc_journal c1 = pc_journal c" "pc_unresolved_action c1 = pc_unresolved_action c"
      "pc_managed_state c1 = pc_managed_state c" "pc_revision c1 = pc_revision c"
      "pc_backend c1 \<in> {pc_backend c, snd (pb_health (env_backend env) (pc_backend c))}"
  shows "early_result env a c r c'"
  using assms(2-) mutate_mark_Some [OF assms(1)]
  by (simp add: early_result_def reports_def)

lemma early_configured:
  assumes g: "mutate_configured env now a conf c1 = (Some r, c')"
    and c1: "pc_journal c1 = pc_journal c" "pc_unresolved_action c1 = pc_unresolved_action c"
      "pc_managed_state c1 = pc_managed_state c" "pc_revision c1 = pc_revision c"
      "pc_backend c1 = pc_backend c"
  shows "early_result env a c r c'"
proof -
  obtain i c2 where i: "is_idempotent env a c1 = (i, c2)"
    by (metis prod.exhaust)
  have c2: "pc_journal c2 = pc_journal c" "pc_unresolved_action c2 = pc_unresolved_action c"
      "pc_managed_state c2 = pc_managed_state c" "pc_revision c2 = pc_revision c"
      "pc_backend c2 \<in> {pc_backend c, snd (pb_health (env_backend env) (pc_backend c))}"
    using is_idempotent_sel(2) [OF i] c1 by (simp_all add: is_idempotent_fields [OF i])
  show ?thesis
  proof (cases conf)
    case Ready
    show ?thesis
    proof (cases i)
      case True
      then have "finish now a ControllerActionOutcome.Idempotent None
          (c2\<lparr>pc_consecutive_failures := 0\<rparr>) = (r, c')"
        using g Ready i by (simp add: mutate_configured_def)
      then show ?thesis
        by (rule early_finish) (use c2 in simp_all)
    next
      case False
      then have "mutate_mark env now a c2 = (Some r, c')"
        using g Ready i by (simp add: mutate_configured_def)
      then show ?thesis
        by (rule early_mark) (fact c2)+
    qed
  qed (use g c1 in \<open>simp_all add: mutate_configured_def reject_preflight_def early_finish\<close>)
qed

lemma mutate_guard_Some:
  assumes g: "mutate_guard env now a c = (Some r, c')"
  shows "early_result env a c r c'"
proof -
  obtain conf ms c1 where r: "read_pair_configuration env c = ((conf, ms), c1)"
    by (metis prod.exhaust)
  have "mutate_configured env now a conf c1 = (Some r, c') \<Longrightarrow> ?thesis"
    by (erule early_configured) (simp_all add: read_pair_configuration_sel(1) [OF r])
  then show ?thesis
    using g r unfolding mutate_guard_def
    by (simp add: early_finish split: if_splits)
qed

subsection \<open>What the backend action and its reduction do\<close>

fun backend_call :: "ControllerAction \<Rightarrow> 'b PairBackend \<Rightarrow> 'b \<Rightarrow> PairActionResult \<times> 'b" where
  "backend_call ControllerAction.Start = pb_start"
| "backend_call ControllerAction.Stop = pb_stop"
| "backend_call ControllerAction.Shutdown = pb_shutdown"
| "backend_call ControllerAction.RecoverStop = pb_recover_stop"

lemma transaction_action_call: "transaction_action a ops = checked_action ops (backend_call a ops)"
  by (cases a) (simp_all add: transaction_start_def transaction_stop_def transaction_shutdown_def
      transaction_recover_stop_def)

text \<open>The accepted branch, and every other branch that ends a backend action.\<close>

definition accepted_result ::
  "('b, 'p, 'j) environment \<Rightarrow> ControllerAction \<Rightarrow> PairActionResult \<Rightarrow> ('b, 'p, 'j) PairController
    \<Rightarrow> ControllerActionResult \<Rightarrow> ('b, 'p, 'j) PairController \<Rightarrow> bool" where
  "accepted_result env a attempted c r c' \<longleftrightarrow>
     (\<exists>receipt obs.
        attempted = PairActionResult.Accepted receipt \<and> par_lifecycle receipt = expected_lifecycle a
        \<and> fst (env_probe env (pc_probe c)) = Inr obs \<and> pco_exact_pair_configured obs
        \<and> uj_clear (env_journal env) (pc_journal c) = (Inr (), pc_journal c')
        \<and> car_evidence r = Some (par_evidence receipt)
        \<and> car_outcome r = (if par_evidence receipt = PairBackendEvidence.BroadcastAcknowledgementOnly
                            then ControllerActionOutcome.AcceptedUnconfirmed
                            else ControllerActionOutcome.Accepted))
     \<and> car_failure r = None \<and> \<not> pc_unresolved_action c' \<and> pc_managed_state c' = accepted_state a
     \<and> pc_consecutive_failures c' = 0"

definition failed_result ::
  "('b, 'p, 'j) environment \<Rightarrow> PairActionResult \<Rightarrow> ('b, 'p, 'j) PairController
    \<Rightarrow> ControllerActionResult \<Rightarrow> ('b, 'p, 'j) PairController \<Rightarrow> bool" where
  "failed_result env attempted c r c' \<longleftrightarrow>
     car_evidence r = None \<and> car_failure r \<noteq> None
     \<and> pc_consecutive_failures c' = saturating_add (pc_consecutive_failures c) 1
     \<and> (car_outcome r \<in> {ControllerActionOutcome.OutcomeUnknown, ControllerActionOutcome.PostconditionFailed}
          \<and> pc_managed_state c' = ManagedLiveState.Unknown \<and> pc_unresolved_action c'
          \<and> (pc_journal c' = pc_journal c
             \<or> (\<exists>e. uj_clear (env_journal env) (pc_journal c) = (Inl e, pc_journal c')))
        \<or> (\<exists>failure. attempted = PairActionResult.RejectedBeforeSend failure)
          \<and> car_outcome r = ControllerActionOutcome.RejectedBeforeSend
          \<and> pc_managed_state c' = ManagedLiveState.Degraded
          \<and> (pc_unresolved_action c' \<and> pc_journal c' = pc_journal c
             \<or> \<not> pc_unresolved_action c \<and> \<not> pc_unresolved_action c'
               \<and> uj_clear (env_journal env) (pc_journal c) = (Inr (), pc_journal c')))"

lemma finish_failed:
  assumes "finish now a out (Some f) (latch_unknown c1) = (r, c')"
    and "out \<in> {ControllerActionOutcome.OutcomeUnknown, ControllerActionOutcome.PostconditionFailed}"
    and "pc_journal c1 = pc_journal c \<or> (\<exists>e. uj_clear (env_journal env) (pc_journal c) = (Inl e, pc_journal c1))"
    and "pc_consecutive_failures c1 = pc_consecutive_failures c"
  shows "failed_result env attempted c r c'"
  using assms finish_sel [of now a out "Some f" "latch_unknown c1"]
  by (simp add: failed_result_def latch_unknown_def)

lemma reduce_rejected_failed:
  assumes "reduce_rejected env now a failure (pc_unresolved_action c) c = (r, c')"
    and "pc_unresolved_action c \<Longrightarrow> a = ControllerAction.RecoverStop"
  shows "failed_result env (PairActionResult.RejectedBeforeSend failure) c r c'"
proof (cases "pc_unresolved_action c")
  case True
  then show ?thesis
    using assms by (auto simp: reduce_rejected_def failed_result_def finish_def finish_with_evidence_def Let_def)
next
  case False
  obtain cl j' where j: "uj_clear (env_journal env) (pc_journal c) = (cl, j')"
    by fastforce
  show ?thesis
  proof (cases cl)
    case (Inl e)
    then have "finish now a ControllerActionOutcome.OutcomeUnknown
        (Some ControllerFailure.JournalCommitFailed) (latch_unknown (c\<lparr>pc_journal := j'\<rparr>)) = (r, c')"
      using assms False j by (simp add: reduce_rejected_def clear_journal_def journal_commit_failed_def)
    then show ?thesis
      by (rule finish_failed) (use j Inl in simp_all)
  next
    case (Inr u)
    then show ?thesis
      using assms False j
      by (auto simp: reduce_rejected_def failed_result_def clear_journal_def finish_def
          finish_with_evidence_def Let_def)
  qed
qed

lemma reduce_accepted_cases:
  assumes "reduce_accepted env now a receipt c = (r, c')"
  shows "accepted_result env a (PairActionResult.Accepted receipt) c r c'
         \<or> failed_result env (PairActionResult.Accepted receipt) c r c'"
proof -
  obtain conf ms c1 where r: "read_pair_configuration env c = ((conf, ms), c1)"
    by (metis prod.exhaust)
  note c1 = read_pair_configuration_sel [OF r]
  obtain cl j' where j: "uj_clear (env_journal env) (pc_journal c) = (cl, j')"
    by fastforce
  consider (lifecycle) "par_lifecycle receipt \<noteq> expected_lifecycle a"
    | (probe) "par_lifecycle receipt = expected_lifecycle a" "conf \<noteq> PairConfigurationState.Ready"
    | (clear) e where "par_lifecycle receipt = expected_lifecycle a" "conf = PairConfigurationState.Ready" "cl = Inl e"
    | (accepted) "par_lifecycle receipt = expected_lifecycle a" "conf = PairConfigurationState.Ready" "cl = Inr ()"
    by (cases cl) auto
  then show ?thesis
  proof cases
    case lifecycle
    then show ?thesis
      using assms by (auto simp: reduce_accepted_def intro: finish_failed)
  next
    case probe
    then show ?thesis
      using assms r c1(1) by (auto simp: reduce_accepted_def intro: finish_failed)
  next
    case clear
    then have "finish now a ControllerActionOutcome.OutcomeUnknown
        (Some ControllerFailure.JournalCommitFailed) (latch_unknown (c1\<lparr>pc_journal := j'\<rparr>)) = (r, c')"
      using assms r c1(1) j by (simp add: reduce_accepted_def clear_journal_def journal_commit_failed_def)
    then show ?thesis
      by (rule disjI2 [OF finish_failed]) (use j clear c1(1) in simp_all)
  next
    case accepted
    then obtain obs where "fst (env_probe env (pc_probe c)) = Inr obs" "pco_exact_pair_configured obs"
      using c1(2) by auto
    then show ?thesis
      using assms r c1(1) j accepted
      by (auto simp: reduce_accepted_def clear_journal_def accepted_result_def finish_with_evidence_def
          Let_def)
  qed
qed

definition ends ::
  "ControllerAction \<Rightarrow> ('b, 'p, 'j) PairController \<Rightarrow> ControllerActionResult
    \<Rightarrow> ('b, 'p, 'j) PairController \<Rightarrow> bool" where
  "ends a c r c' \<longleftrightarrow>
     reports a r c' \<and> pc_backend c' = pc_backend c \<and> pc_revision c' = saturating_add (pc_revision c) 1"

lemma ends_finish_with_evidence:
  "finish_with_evidence now a out ev f c1 = (r, c') \<Longrightarrow> pc_backend c1 = pc_backend c \<Longrightarrow>
     pc_revision c1 = pc_revision c \<Longrightarrow> ends a c r c'"
  using finish_with_evidence_sel [of now a out ev f c1] by (auto simp: ends_def)

lemmas ends_finish = ends_finish_with_evidence [where ev = None, folded finish_def]

lemma clear_journal_sel:
  "clear_journal env c = (cl, c') \<Longrightarrow> pc_backend c' = pc_backend c \<and> pc_revision c' = pc_revision c"
  by (auto simp: clear_journal_def split: prod.splits)

lemma reduce_ends:
  assumes "reduce_backend_result env now a attempted had c = (r, c')"
  shows "ends a c r c'"
proof -
  obtain conf ms c1 where r: "read_pair_configuration env c = ((conf, ms), c1)"
    by (metis prod.exhaust)
  have c1: "pc_backend c1 = pc_backend c" "pc_revision c1 = pc_revision c"
    by (simp_all add: read_pair_configuration_sel(1) [OF r])
  obtain cl c2 where cl: "clear_journal env c1 = (cl, c2)"
    by fastforce
  obtain cl' c2' where cl': "clear_journal env c = (cl', c2')"
    by fastforce
  show ?thesis
    using assms r c1 cl clear_journal_sel [OF cl] cl' clear_journal_sel [OF cl']
    by (cases attempted)
      (auto simp: reduce_backend_result_def reduce_accepted_def reduce_rejected_def
        journal_commit_failed_def Let_def intro: ends_finish ends_finish_with_evidence split: if_splits)
qed

lemma reduce_cases:
  assumes "reduce_backend_result env now a attempted (pc_unresolved_action c) c = (r, c')"
    and "pc_unresolved_action c \<Longrightarrow> a = ControllerAction.RecoverStop"
  shows "accepted_result env a attempted c r c' \<or> failed_result env attempted c r c'"
proof (cases attempted)
  case (Accepted receipt)
  then show ?thesis
    using assms(1) reduce_accepted_cases [of env now a receipt c r c']
    by (simp add: reduce_backend_result_def)
next
  case (RejectedBeforeSend f)
  then show ?thesis
    using assms(1) reduce_rejected_failed [of env now a f c r c'] assms(2)
    by (simp add: reduce_backend_result_def)
next
  case (OutcomeUnknown f)
  then show ?thesis
    using assms(1) by (auto simp: reduce_backend_result_def intro: finish_failed)
qed

text \<open>The verdict of a reduction is the reading of the backend's result.\<close>

lemma finish_verdict:
  "finish now a out f c = (r, c') \<Longrightarrow> car_outcome r = out \<and> car_failure r = f"
  "finish_with_evidence now a out ev f c = (r, c') \<Longrightarrow> car_outcome r = out \<and> car_failure r = f \<and> car_evidence r = ev"
  by (auto simp: finish_def finish_with_evidence_def Let_def)

lemma reduced_verdict:
  assumes "reduce_backend_result env now a attempted had c = (r, c')"
  shows "case attempted of
       PairActionResult.OutcomeUnknown f \<Rightarrow> car_outcome r = ControllerActionOutcome.OutcomeUnknown \<and>
         car_failure r = Some (controller_failure_from_unknown_backend (paf_reason f))
     | PairActionResult.RejectedBeforeSend f \<Rightarrow>
         (car_outcome r, car_failure r) \<in>
           {(ControllerActionOutcome.RejectedBeforeSend, Some (controller_failure_from_backend (paf_reason f))),
            (ControllerActionOutcome.OutcomeUnknown, Some ControllerFailure.JournalCommitFailed)}
     | PairActionResult.Accepted receipt \<Rightarrow>
         car_outcome r \<in> {ControllerActionOutcome.Accepted, ControllerActionOutcome.AcceptedUnconfirmed} \<and>
           car_failure r = None \<and> car_evidence r = Some (par_evidence receipt) \<or>
         (car_outcome r, car_failure r) \<in>
           {(ControllerActionOutcome.OutcomeUnknown, Some ControllerFailure.UnexpectedBackendLifecycle),
            (ControllerActionOutcome.PostconditionFailed, Some ControllerFailure.MembershipPostconditionFailed),
            (ControllerActionOutcome.OutcomeUnknown, Some ControllerFailure.JournalCommitFailed)}"
  using assms
  by (cases attempted)
    (auto simp: reduce_backend_result_def reduce_rejected_def reduce_accepted_def journal_commit_failed_def
      Let_def dest!: finish_verdict split: prod.splits if_splits)

text \<open>
  One mutation: either an early result, or the durable mark, then one pinned backend call, then its
  reduction.
\<close>

lemma mutate_cases:
  assumes "mutate env now a c = (r, c')"
  obtains (early) "early_result env a c r c'"
  | (acted) c1 attempted t where "mutate_guard env now a c = (None, c1)"
      and "checked_action (env_backend env) (backend_call a (env_backend env))
             (transaction_new (env_backend env) (pc_backend c1)) = (attempted, t)"
      and "pc_backend c' = pbt_backend t"
      and "accepted_result env a attempted c1 r c' \<or> failed_result env attempted c1 r c'"
      and "reports a r c'" and "pc_revision c' = saturating_add (pc_revision c1) 1"
proof -
  obtain g c1 where g: "mutate_guard env now a c = (g, c1)"
    by fastforce
  show ?thesis
  proof (cases g)
    case (Some r')
    then have "mutate_guard env now a c = (Some r, c')"
      using assms g by (simp add: mutate_def)
    then show ?thesis
      by (rule early [OF mutate_guard_Some])
  next
    case None
    obtain attempted t where t: "checked_action (env_backend env) (backend_call a (env_backend env))
             (transaction_new (env_backend env) (pc_backend c1)) = (attempted, t)"
      by fastforce
    note n = mutate_guard_None [OF g [unfolded None]]
    have red: "reduce_backend_result env now a attempted (pc_unresolved_action c1)
        (c1\<lparr>pc_backend := pbt_backend t\<rparr>) = (r, c')"
      using assms g None t n(3) by (simp add: mutate_def mutate_commit_def transaction_action_call)
    have "accepted_result env a attempted (c1\<lparr>pc_backend := pbt_backend t\<rparr>) r c'
        \<or> failed_result env attempted (c1\<lparr>pc_backend := pbt_backend t\<rparr>) r c'"
      using reduce_cases [of env now a attempted "c1\<lparr>pc_backend := pbt_backend t\<rparr>"] red n(3,6) by simp
    then show ?thesis
      using acted [of c1 attempted t] g None t reduce_ends [OF red]
      by (simp add: ends_def accepted_result_def failed_result_def)
  qed
qed

subsection \<open>Runs of the controller\<close>

text \<open>
  What can happen to a controller: the calls of its owner, and changes of the devices it looks at
  (its backend and its probe may answer differently at any time).
\<close>

inductive controller_step ::
  "('b, 'p, 'j) environment \<Rightarrow> ('b, 'p, 'j) PairController \<Rightarrow> ('b, 'p, 'j) PairController \<Rightarrow> bool"
  for env where
  acted: "mutate env now a c = (r, c') \<Longrightarrow> controller_step env c c'"
| observed: "status env now c = (s, c') \<Longrightarrow> controller_step env c c'"
| torn_down: "teardown_transport_for_exit env c = (r, c') \<Longrightarrow> controller_step env c c'"
| external: "controller_step env c (c\<lparr>pc_backend := b, pc_probe := p\<rparr>)"

inductive controller_reachable ::
  "('b, 'p, 'j) environment \<Rightarrow> ('b, 'p, 'j) PairController \<Rightarrow> bool" for env where
  opened: "controller_reachable env (with_journal env b p j)"
| steps: "controller_reachable env c \<Longrightarrow> controller_step env c c' \<Longrightarrow> controller_reachable env c'"

lemma status_sel:
  assumes "status env now c = (s, c')"
  shows "pc_journal c' = pc_journal c" and "pc_unresolved_action c' = pc_unresolved_action c"
    and "pc_consecutive_failures c' = pc_consecutive_failures c"
    and "pc_last_action c' = pc_last_action c"
    and "pc_managed_state c' \<in> {pc_managed_state c, ManagedLiveState.Unknown}"
    and "pc_revision c' = (if pc_managed_state c' = pc_managed_state c then pc_revision c
                           else saturating_add (pc_revision c) 1)"
    and "cs_managed_state s = pc_managed_state c'" and "cs_revision s = pc_revision c'"
    and "cs_unresolved_action s = pc_unresolved_action c'"
    and "cs_consecutive_failures s = pc_consecutive_failures c'"
    and "cs_last_action s = map_option (last_action_status now) (pc_last_action c')"
    and "cs_managed_state s = ManagedLiveState.Linked \<Longrightarrow>
           cs_pair_configuration s = PairConfigurationState.Ready"
    and "cs_managed_state s \<noteq> ManagedLiveState.Offline \<Longrightarrow> cs_managed_state s \<noteq> ManagedLiveState.Unknown \<Longrightarrow>
           cs_backend_health s \<noteq> None"
    and "health_matches_managed_state (cs_managed_state s) (cs_backend_health s)"
    and "pc_backend c' = snd (pb_health (env_backend env) (pc_backend c))"
    and "cs_backend_health s = ok (fst (pb_health (env_backend env) (pc_backend c)))"
    and "cs_backend s = pb_kind (env_backend env) (pc_backend c')"
proof -
  obtain conf ms c1 where r: "read_pair_configuration env c = ((conf, ms), c1)"
    by (metis prod.exhaust)
  note c1 = read_pair_configuration_sel(1) [OF r]
  obtain h b where h: "pb_health (env_backend env) (pc_backend c) = (h, b)"
    by fastforce
  let ?c2 = "c1\<lparr>pc_backend := b\<rparr>"
  let ?drop = "pc_managed_state c \<noteq> ManagedLiveState.Offline \<and> ok h = None
    \<or> conf \<noteq> PairConfigurationState.Ready \<and> pc_managed_state c = ManagedLiveState.Linked
    \<or> \<not> health_matches_managed_state (pc_managed_state c) (ok h)"
  let ?c3 = "if ?drop then ?c2\<lparr>pc_managed_state := ManagedLiveState.Unknown\<rparr> else ?c2"
  have c': "c' = (if pc_managed_state ?c3 \<noteq> pc_managed_state c then bump_revision ?c3 else ?c3)"
    and s: "cs_backend s = pb_kind (env_backend env) (pc_backend c')"
      "cs_pair_configuration s = conf" "cs_managed_state s = pc_managed_state c'"
      "cs_backend_health s = ok h" "cs_unresolved_action s = pc_unresolved_action c'"
      "cs_consecutive_failures s = pc_consecutive_failures c'" "cs_revision s = pc_revision c'"
      "cs_last_action s = map_option (last_action_status now) (pc_last_action c')"
    using assms unfolding status_def r backend_health_def
    by (auto simp: Let_def c1 h)
  have ms: "pc_managed_state c' = (if ?drop then ManagedLiveState.Unknown else pc_managed_state c)"
    unfolding c' by (simp add: c1)
  show "pc_journal c' = pc_journal c" "pc_unresolved_action c' = pc_unresolved_action c"
    "pc_consecutive_failures c' = pc_consecutive_failures c" "pc_last_action c' = pc_last_action c"
    "pc_backend c' = snd (pb_health (env_backend env) (pc_backend c))"
    unfolding c' by (simp_all add: c1 h)
  show "pc_managed_state c' \<in> {pc_managed_state c, ManagedLiveState.Unknown}"
    "cs_managed_state s = ManagedLiveState.Linked \<Longrightarrow> cs_pair_configuration s = PairConfigurationState.Ready"
    "cs_managed_state s \<noteq> ManagedLiveState.Offline \<Longrightarrow> cs_managed_state s \<noteq> ManagedLiveState.Unknown \<Longrightarrow>
       cs_backend_health s \<noteq> None"
    "health_matches_managed_state (cs_managed_state s) (cs_backend_health s)"
    unfolding s ms by (auto split: if_splits)
  show "pc_revision c' = (if pc_managed_state c' = pc_managed_state c then pc_revision c
                           else saturating_add (pc_revision c) 1)"
    unfolding ms unfolding c' by (auto simp: c1)
  show "cs_managed_state s = pc_managed_state c'" "cs_revision s = pc_revision c'"
    "cs_unresolved_action s = pc_unresolved_action c'"
    "cs_consecutive_failures s = pc_consecutive_failures c'"
    "cs_last_action s = map_option (last_action_status now) (pc_last_action c')"
    "cs_backend_health s = ok (fst (pb_health (env_backend env) (pc_backend c)))"
    "cs_backend s = pb_kind (env_backend env) (pc_backend c')"
    by (simp_all add: s h)
qed

text \<open>
  A controller over any journal that keeps the contract: its memory latch is the journal's.
\<close>

locale journalled_controller = uncertainty_journal "env_journal env"
  for env :: "('b, 'p, 'j) environment"
begin

definition latch_agrees :: "('b, 'p, 'j) PairController \<Rightarrow> bool" where
  "latch_agrees c \<longleftrightarrow> pc_unresolved_action c = uj_is_pending (env_journal env) (pc_journal c)"

lemma latch_mutate:
  assumes "latch_agrees c" and "mutate env now a c = (r, c')"
  shows "latch_agrees c'"
  using assms(2)
proof (cases rule: mutate_cases)
  case early
  then show ?thesis
    using assms(1) by (auto simp: early_result_def latch_agrees_def dest: mark_latches)
next
  case (acted c1 attempted t)
  have "uj_is_pending (env_journal env) (pc_journal c1)"
    using mutate_guard_None(1) [OF acted(1)] by (rule mark_latches)
  then show ?thesis
    using acted(4)
    by (auto simp: accepted_result_def failed_result_def latch_agrees_def
        dest: clear_unlatches failed_clear_keeps)
qed

lemma latch_step: "controller_step env c c' \<Longrightarrow> latch_agrees c \<Longrightarrow> latch_agrees c'"
proof (induction rule: controller_step.induct)
  case (acted now a c r c')
  then show ?case
    by (rule latch_mutate [rotated])
next
  case (observed now c s c')
  then show ?case
    by (simp add: latch_agrees_def status_sel)
qed (auto simp: teardown_transport_for_exit_def latch_agrees_def split: prod.splits)

lemma latch_reachable: "controller_reachable env c \<Longrightarrow> latch_agrees c"
proof (induction rule: controller_reachable.induct)
  case (steps c c')
  then show ?case
    using latch_step by blast
qed (simp add: with_journal_def latch_agrees_def Let_def)

text \<open>A claim to be linked, ready or offline is never made while an action is unresolved.\<close>

definition claims_resolved :: "('b, 'p, 'j) PairController \<Rightarrow> bool" where
  "claims_resolved c \<longleftrightarrow>
     (pc_managed_state c \<in> {ManagedLiveState.Linked, ManagedLiveState.Ready, ManagedLiveState.Offline}
        \<longrightarrow> \<not> pc_unresolved_action c)"

lemma claims_mutate:
  assumes "claims_resolved c" and "mutate env now a c = (r, c')"
  shows "claims_resolved c'"
  using assms(2)
proof (cases rule: mutate_cases)
  case early
  then show ?thesis
    using assms(1) by (auto simp: early_result_def claims_resolved_def dest: mark_latches split: if_splits)
next
  case (acted c1 attempted t)
  then show ?thesis
    by (auto simp: accepted_result_def failed_result_def claims_resolved_def)
qed

lemma claims_reachable: "controller_reachable env c \<Longrightarrow> claims_resolved c"
proof (induction rule: controller_reachable.induct)
  case (steps c c')
  from steps(2,1,3) show ?case
  proof (induction rule: controller_step.induct)
    case (acted now a c r c')
    then show ?case
      using claims_mutate by blast
  next
    case (observed now c s c')
    then show ?case
      using status_sel(2,5) [OF observed(1)] by (auto simp: claims_resolved_def)
  qed (auto simp: teardown_transport_for_exit_def claims_resolved_def split: prod.splits)
qed (simp add: with_journal_def claims_resolved_def Let_def)

end

subsection \<open>The controller over its real journal\<close>

definition file_env :: "'b PairBackend \<Rightarrow> 'p PairConfigurationProbe \<Rightarrow> ('b, 'p, FileUncertaintyJournal) environment" where
  "file_env ops probe = \<lparr>env_backend = ops, env_probe = probe, env_journal = file_journal\<rparr>"

lemma file_env_sel [simp]:
  "env_backend (file_env ops probe) = ops" "env_probe (file_env ops probe) = probe"
  "env_journal (file_env ops probe) = file_journal"
  by (simp_all add: file_env_def)

interpretation file_controller: journalled_controller "file_env ops probe"
  by (unfold_locales; simp add: file_uj.mark_latches file_uj.clear_unlatches file_uj.failed_clear_keeps)

subsection \<open>Properties\<close>

text \<open>A small pair for the witnesses: a backend that is its lifecycle, a probe that always sees the pair.\<close>

definition demo_action :: "PairLifecycle \<Rightarrow> PairLifecycle \<Rightarrow> PairActionResult \<times> PairLifecycle" where
  "demo_action l _ =
     (PairActionResult.Accepted
        \<lparr>par_backend = PairBackendKind.NativePair, par_lifecycle = l,
         par_evidence = PairBackendEvidence.BroadcastAcknowledgementOnly, par_idempotent = False\<rparr>, l)"

definition demo_backend :: "PairLifecycle PairBackend" where
  "demo_backend =
     \<lparr>pb_kind = (\<lambda>_. PairBackendKind.NativePair),
      pb_health = (\<lambda>l. (Inr (new_with_route PairBackendKind.NativePair l False
                      AuraControlTransport.Le AuraAcquisitionRoute.FreshLe), l)),
      pb_start = demo_action PairLifecycle.Linked, pb_stop = demo_action PairLifecycle.Ready,
      pb_shutdown = demo_action PairLifecycle.ShuttingDown,
      pb_recover_stop = demo_action PairLifecycle.Ready,
      pb_teardown_transport = default_teardown_transport\<rparr>"

definition demo_probe :: "unit PairConfigurationProbe" where
  "demo_probe p =
     (Inr \<lparr>pco_exact_pair_configured = True,
           pco_members = unavailable_members PairMemberVerification.Verified\<rparr>, p)"

definition demo_env :: "(PairLifecycle, unit, MemoryJournal) environment" where
  "demo_env = \<lparr>env_backend = demo_backend, env_probe = demo_probe, env_journal = memory_journal\<rparr>"

definition demo_controller :: "JournalState \<Rightarrow> (PairLifecycle, unit, MemoryJournal) PairController" where
  "demo_controller st = with_journal demo_env PairLifecycle.Ready () \<lparr>mj_state = st\<rparr>"

lemmas demo_defs =
  demo_env_def demo_controller_def demo_backend_def demo_probe_def demo_action_def memory_journal_def
  with_journal_def mutate_def mutate_guard_def mutate_configured_def mutate_mark_def mutate_commit_def
  read_pair_configuration_def is_idempotent_def backend_health_def bump_revision_def bump_failures_def
  finish_def finish_with_evidence_def reduce_backend_result_def reduce_accepted_def clear_journal_def
  transaction_start_def transaction_recover_stop_def checked_action_def transaction_new_def
  ensure_backend_is_pinned_def Let_def

text \<open>
  The latch. While an action is unresolved, start, stop and shutdown are refused with the reason
  \<open>UnresolvedPriorAction\<close>; the backend, the probe and the journal are not called at all, and only the
  revision and the record of the last action change.
\<close>

theorem unresolved_action_blocks:
  assumes "pc_unresolved_action c" and "a \<noteq> ControllerAction.RecoverStop"
    and "mutate env now a c = (r, c')"
  shows "car_outcome r = ControllerActionOutcome.RejectedBeforeSend \<and>
    car_failure r = Some ControllerFailure.UnresolvedPriorAction \<and>
    c' = c\<lparr>pc_revision := saturating_add (pc_revision c) 1,
           pc_last_action := Some \<lparr>ra_result = r, ra_recorded_at = now\<rparr>\<rparr>"
  using assms
  by (auto simp: mutate_def mutate_guard_def finish_def finish_with_evidence_def bump_revision_def Let_def)

theorem unresolved_action_blocks_witness:
  "car_failure (fst (mutate demo_env 5 ControllerAction.Start
     (demo_controller (JournalState.Pending JournalAction.Stop)))) = Some ControllerFailure.UnresolvedPriorAction"
  using unresolved_action_blocks [of "demo_controller (JournalState.Pending JournalAction.Stop)"
      ControllerAction.Start demo_env 5]
  by (metis (no_types, lifting) ControllerAction.distinct(5) PairController.select_convs(5) MemoryJournal.select_convs(1)
      UncertaintyJournal.select_convs(1) demo_controller_def demo_env_def environment.select_convs(3) memory_journal_def
      prod.collapse state_is_pending.simps(2) with_journal_def)

text \<open>
  C7: the latch is the journal. In every state the controller can reach over the file journal, under
  any backend and probe behaviour and any journal faults, an action is unresolved in memory exactly
  when the journal is pending, and the states linked, ready and offline are never claimed meanwhile.
\<close>

theorem latch_follows_journal:
  assumes "controller_reachable (file_env ops probe) c"
  shows "(pc_unresolved_action c \<longleftrightarrow> is_pending (pc_journal c)) \<and>
    (pc_managed_state c \<in> {ManagedLiveState.Linked, ManagedLiveState.Ready, ManagedLiveState.Offline}
       \<longrightarrow> \<not> pc_unresolved_action c)"
  using file_controller.latch_reachable [OF assms] file_controller.claims_reachable [OF assms]
  by (simp add: file_controller.latch_agrees_def file_controller.claims_resolved_def file_journal_def)

theorem latch_follows_journal_witness:
  "\<not> pc_unresolved_action (with_journal (file_env demo_backend demo_probe) PairLifecycle.Ready () example_journal)"
  using latch_follows_journal [OF controller_reachable.opened, of demo_backend demo_probe PairLifecycle.Ready
      "()" example_journal]
  by (simp add: with_journal_def Let_def is_pending_def example_journal_def)

text \<open>
  C6: acceptance is earned. A mutation reports \<open>Accepted\<close> or \<open>AcceptedUnconfirmed\<close> only after the durable
  mark, the one backend call of that action answering with its expected lifecycle for the pinned
  backend, a fresh probe that saw the exact pair, and a journal cleared without error; the state is
  then the action's own, the evidence is the receipt's, and it is unconfirmed exactly when the receipt
  carries an acknowledgement only.
\<close>

theorem acceptance_is_earned:
  assumes "mutate env now a c = (r, c')"
    and "car_outcome r \<in> {ControllerActionOutcome.Accepted, ControllerActionOutcome.AcceptedUnconfirmed}"
  shows "\<exists>c1 receipt obs. mutate_guard env now a c = (None, c1) \<and>
    fst (backend_call a (env_backend env) (pc_backend c1)) = PairActionResult.Accepted receipt \<and>
    par_backend receipt = pb_kind (env_backend env) (pc_backend c1) \<and>
    par_lifecycle receipt = expected_lifecycle a \<and>
    fst (env_probe env (pc_probe c1)) = Inr obs \<and> pco_exact_pair_configured obs \<and>
    uj_clear (env_journal env) (pc_journal c1) = (Inr (), pc_journal c') \<and>
    pc_managed_state c' = accepted_state a \<and> \<not> pc_unresolved_action c' \<and>
    pc_consecutive_failures c' = 0 \<and> car_evidence r = Some (par_evidence receipt) \<and>
    (car_outcome r = ControllerActionOutcome.AcceptedUnconfirmed \<longleftrightarrow>
       par_evidence receipt = PairBackendEvidence.BroadcastAcknowledgementOnly)"
  using assms(1)
proof (cases rule: mutate_cases)
  case early
  then show ?thesis
    using assms(2) by (auto simp: early_result_def)
next
  case (acted c1 attempted t)
  then have acc: "accepted_result env a attempted c1 r c'"
    using assms(2) by (auto simp: failed_result_def)
  then obtain receipt obs where rec: "attempted = PairActionResult.Accepted receipt"
      "par_lifecycle receipt = expected_lifecycle a"
      "fst (env_probe env (pc_probe c1)) = Inr obs" "pco_exact_pair_configured obs"
      "uj_clear (env_journal env) (pc_journal c1) = (Inr (), pc_journal c')"
      "car_evidence r = Some (par_evidence receipt)"
      "car_outcome r = (if par_evidence receipt = PairBackendEvidence.BroadcastAcknowledgementOnly
         then ControllerActionOutcome.AcceptedUnconfirmed else ControllerActionOutcome.Accepted)"
    unfolding accepted_result_def by blast
  from acted(2) obtain r0 where
      "backend_call a (env_backend env) (pc_backend c1) = (r0, pbt_backend t)"
      "result_backend attempted = pb_kind (env_backend env) (pc_backend c1)"
      "\<And>x. attempted = PairActionResult.Accepted x \<Longrightarrow> r0 = PairActionResult.Accepted x"
    by (elim checked_action_fresh) blast
  then show ?thesis
    using rec acted(1) acc by (intro exI [of _ c1] exI [of _ receipt] exI [of _ obs])
      (auto simp: accepted_result_def)
qed

theorem acceptance_is_earned_witness:
  "\<exists>r c'. mutate demo_env 5 ControllerAction.Start (demo_controller JournalState.Clean) = (r, c') \<and>
     pc_managed_state c' = ManagedLiveState.Linked \<and>
     car_evidence r = Some PairBackendEvidence.BroadcastAcknowledgementOnly"
proof -
  let ?m = "mutate demo_env 5 ControllerAction.Start (demo_controller JournalState.Clean)"
  have o: "car_outcome (fst ?m) = ControllerActionOutcome.AcceptedUnconfirmed"
    by (simp add: demo_defs)
  obtain r c' where m: "?m = (r, c')"
    by fastforce
  show ?thesis
    using acceptance_is_earned [OF m] m o by auto
qed

text \<open>
  Accounting of backend calls. Whatever a mutation returns, it made no backend call beyond at most
  one health read, or it made exactly one call, the one its action names, and only after the journal
  accepted the mark and the probe saw the pair. In the first case the outcome is a rejection or an
  idempotent answer.
\<close>

theorem one_backend_call_after_the_mark:
  assumes "mutate env now a c = (r, c')"
  shows "(pc_backend c' \<in> {pc_backend c, snd (pb_health (env_backend env) (pc_backend c))} \<and>
            car_outcome r \<in> {ControllerActionOutcome.RejectedBeforeSend, ControllerActionOutcome.Idempotent}) \<or>
    (\<exists>b j obs. b \<in> {pc_backend c, snd (pb_health (env_backend env) (pc_backend c))} \<and>
       uj_mark_pending (env_journal env) (journal_action a) (pc_journal c) = (Inr (), j) \<and>
       fst (env_probe env (pc_probe c)) = Inr obs \<and> pco_exact_pair_configured obs \<and>
       pc_backend c' = snd (backend_call a (env_backend env) b))"
  using assms
proof (cases rule: mutate_cases)
  case early
  then show ?thesis
    by (auto simp: early_result_def)
next
  case (acted c1 attempted t)
  obtain r0 where "backend_call a (env_backend env) (pc_backend c1) = (r0, pbt_backend t)"
    by (rule checked_action_fresh [OF acted(2)]) (rule that)
  then show ?thesis
    using acted(3) mutate_guard_None(1,8,9) [OF acted(1)] by auto
qed

theorem one_backend_call_after_the_mark_witness:
  "pc_backend (snd (mutate demo_env 5 ControllerAction.Start (demo_controller JournalState.Clean))) =
     snd (backend_call ControllerAction.Start demo_backend PairLifecycle.Ready)"
proof -
  let ?m = "mutate demo_env 5 ControllerAction.Start (demo_controller JournalState.Clean)"
  have o: "car_outcome (fst ?m) = ControllerActionOutcome.AcceptedUnconfirmed"
    by (simp add: demo_defs)
  obtain r c' where m: "?m = (r, c')"
    by fastforce
  show ?thesis
    using one_backend_call_after_the_mark [OF m] o m
    by (auto simp: demo_env_def demo_backend_def demo_controller_def with_journal_def demo_action_def Let_def)
qed

text \<open>
  C13: only recovery resolves. An unresolved action becomes resolved only through a \<open>RecoverStop\<close> that
  was accepted: no other call of the controller, whatever the devices and the journal do, can release
  the latch.
\<close>

theorem only_recovery_resolves:
  assumes "controller_step env c c'" and "pc_unresolved_action c" and "\<not> pc_unresolved_action c'"
  shows "\<exists>now r. mutate env now ControllerAction.RecoverStop c = (r, c') \<and>
    car_outcome r \<in> {ControllerActionOutcome.Accepted, ControllerActionOutcome.AcceptedUnconfirmed} \<and>
    car_managed_state r = ManagedLiveState.Ready"
  using assms
proof (induction rule: controller_step.induct)
  case (acted now a c r c')
  from acted(1) show ?case
  proof (cases rule: mutate_cases)
    case early
    then show ?thesis
      using acted by (auto simp: early_result_def split: if_splits)
  next
    case (acted c1 attempted t)
    note n = mutate_guard_None [OF acted(1)]
    have a: "a = ControllerAction.RecoverStop"
      using n(6) \<open>pc_unresolved_action c\<close> .
    have "accepted_result env a attempted c1 r c'"
      using acted(4) n(3) \<open>pc_unresolved_action c\<close> \<open>\<not> pc_unresolved_action c'\<close>
      by (auto simp: failed_result_def)
    then show ?thesis
      using a \<open>mutate env now a c = (r, c')\<close> acted(5)
      by (intro exI [of _ now] exI [of _ r]) (auto simp: accepted_result_def reports_def)
  qed
next
  case (observed now c s c')
  then show ?case
    by (simp add: status_sel)
qed (auto simp: teardown_transport_for_exit_def split: prod.splits)

theorem only_recovery_resolves_witness:
  "\<exists>now r c'. mutate demo_env now ControllerAction.RecoverStop
       (demo_controller (JournalState.Pending JournalAction.Start)) = (r, c') \<and>
     car_managed_state r = ManagedLiveState.Ready"
proof -
  let ?c = "demo_controller (JournalState.Pending JournalAction.Start)"
  obtain r c' where m: "mutate demo_env 5 ControllerAction.RecoverStop ?c = (r, c')"
    by fastforce
  have "\<not> pc_unresolved_action (snd (mutate demo_env 5 ControllerAction.RecoverStop ?c))"
    by (simp add: demo_defs)
  moreover have "pc_unresolved_action ?c"
    by (simp add: demo_controller_def with_journal_def demo_env_def memory_journal_def)
  ultimately show ?thesis
    using only_recovery_resolves [OF controller_step.acted [OF m]] m by auto
qed

text \<open>
  Uncertainty is latched. When a mutation ends with \<open>OutcomeUnknown\<close> or \<open>PostconditionFailed\<close>, the
  controller claims nothing about the pair, the action is unresolved in memory, the journal over which
  it runs is pending, and the failure counter has moved.
\<close>

theorem uncertainty_is_latched:
  assumes "mutate (file_env ops probe) now a c = (r, c')"
    and "car_outcome r \<in> {ControllerActionOutcome.OutcomeUnknown, ControllerActionOutcome.PostconditionFailed}"
  shows "pc_managed_state c' = ManagedLiveState.Unknown \<and> pc_unresolved_action c' \<and>
    is_pending (pc_journal c') \<and> car_failure r \<noteq> None \<and> car_evidence r = None \<and>
    pc_consecutive_failures c' = saturating_add (pc_consecutive_failures c) 1"
  using assms(1)
proof (cases rule: mutate_cases)
  case early
  then show ?thesis
    using assms(2) by (auto simp: early_result_def)
next
  case (acted c1 attempted t)
  note n = mutate_guard_None [OF acted(1)]
  have "is_pending (pc_journal c1)"
    using file_uj.mark_latches n(1) by (simp add: file_journal_def)
  then show ?thesis
    using acted(4) assms(2) n(4) file_uj.failed_clear_keeps
    by (auto simp: failed_result_def accepted_result_def file_journal_def split: if_splits)
qed

definition deaf_backend :: "PairLifecycle PairBackend" where
  "deaf_backend = demo_backend\<lparr>pb_start := (\<lambda>l. (PairActionResult.OutcomeUnknown
     \<lparr>paf_backend = PairBackendKind.NativePair, paf_reason = PairBackendError.AuraWriteUnknown,
      paf_observed_lifecycle = None\<rparr>, l))\<rparr>"

theorem uncertainty_is_latched_witness:
  "pc_unresolved_action (snd (mutate (file_env deaf_backend demo_probe) 5 ControllerAction.Start
     (with_journal (file_env deaf_backend demo_probe) PairLifecycle.Ready () example_journal)))"
proof -
  let ?env = "file_env deaf_backend demo_probe"
  let ?c = "with_journal ?env PairLifecycle.Ready () example_journal"
  obtain rj j where j: "mark_pending JournalAction.Start example_journal = (rj, j)"
    by fastforce
  then have j': "mark_pending JournalAction.Start example_journal = (Inr (), j)"
    using mark_pending_quiet [OF quiet_example] by blast
  obtain r c' where m: "mutate ?env 5 ControllerAction.Start ?c = (r, c')"
    by fastforce
  have "car_outcome (fst (mutate ?env 5 ControllerAction.Start ?c)) = ControllerActionOutcome.OutcomeUnknown"
    by (simp add: demo_defs deaf_backend_def file_env_def file_journal_def j' latch_unknown_def
        is_pending_def example_journal_def [unfolded example_directory_def]
        j' [unfolded example_journal_def example_directory_def])
  then show ?thesis
    using uncertainty_is_latched [OF m] m by simp
qed

lemma mutate_revision:
  assumes "mutate env now a c = (r, c')"
  shows "reports a r c'" "pc_revision c \<le> pc_revision c'" "pc_revision c \<noteq> - 1 \<Longrightarrow> pc_revision c < pc_revision c'"
proof -
  have "pc_revision c' = saturating_add (pc_revision c) 1 \<or>
      pc_revision c' = saturating_add (saturating_add (pc_revision c) 1) 1" and rep: "reports a r c'"
    using assms by (auto elim!: mutate_cases simp: early_result_def dest: mutate_guard_None(5))
  then show "reports a r c'" "pc_revision c \<le> pc_revision c'" "pc_revision c \<noteq> - 1 \<Longrightarrow> pc_revision c < pc_revision c'"
    using saturating_add_one_gt [of "pc_revision c"] saturating_add_ge [of "pc_revision c" 1]
      saturating_add_ge [of "saturating_add (pc_revision c) 1" 1] by auto
qed

text \<open>
  C33: revisions order the results. Every mutation moves the revision strictly forward until it
  saturates, its result carries the new revision and state and becomes the last action; a status read
  moves it exactly when it changes the managed state, and never touches the journal, the latch or the
  failure count.
\<close>

theorem revision_orders_results:
  assumes "mutate env now a c = (r, c')" and "status env now' c = (s, d)"
  shows "(pc_revision c \<noteq> - 1 \<longrightarrow> pc_revision c < pc_revision c') \<and> pc_revision c \<le> pc_revision c' \<and>
    car_revision r = pc_revision c' \<and> car_managed_state r = pc_managed_state c' \<and> car_action r = a \<and>
    map_option ra_result (pc_last_action c') = Some r \<and>
    pc_revision d = (if pc_managed_state d = pc_managed_state c then pc_revision c
                     else saturating_add (pc_revision c) 1) \<and>
    pc_journal d = pc_journal c \<and> pc_unresolved_action d = pc_unresolved_action c \<and>
    pc_consecutive_failures d = pc_consecutive_failures c"
  using mutate_revision [OF assms(1)] status_sel(1,2,3,6) [OF assms(2)] by (auto simp: reports_def)

theorem revision_orders_results_witness:
  "pc_revision (demo_controller JournalState.Clean) <
     pc_revision (snd (mutate demo_env 5 ControllerAction.Start (demo_controller JournalState.Clean)))"
proof -
  let ?c = "demo_controller JournalState.Clean"
  have "pc_revision ?c = 0"
    by (simp add: demo_controller_def with_journal_def Let_def)
  then show ?thesis
    using revision_orders_results [of demo_env 5 ControllerAction.Start ?c
        "fst (mutate demo_env 5 ControllerAction.Start ?c)"
        "snd (mutate demo_env 5 ControllerAction.Start ?c)" 6 "fst (status demo_env 6 ?c)" "snd (status demo_env 6 ?c)"]
    by simp
qed

text \<open>
  The status is honest. A status that says linked was read together with the exact pair in the
  retained configuration and a healthy, error-free backend that is itself linked; one that says ready
  with a healthy backend that is ready; any other claim but unknown or offline with a backend that
  answered.
\<close>

theorem status_is_honest:
  assumes "status env now c = (s, c')"
  shows "(cs_managed_state s = ManagedLiveState.Linked \<longrightarrow>
      cs_pair_configuration s = PairConfigurationState.Ready \<and>
      (\<exists>h. cs_backend_health s = Some h \<and> ph_lifecycle h = PairLifecycle.Linked \<and>
           ph_level h = PairHealthLevel.Healthy \<and> \<not> ph_reported_error h)) \<and>
    (cs_managed_state s = ManagedLiveState.Ready \<longrightarrow>
      (\<exists>h. cs_backend_health s = Some h \<and> ph_lifecycle h = PairLifecycle.Ready \<and>
           ph_level h = PairHealthLevel.Healthy \<and> \<not> ph_reported_error h)) \<and>
    (cs_managed_state s \<notin> {ManagedLiveState.Unknown, ManagedLiveState.Offline} \<longrightarrow>
      cs_backend_health s \<noteq> None)"
  using status_sel(12,13,14) [OF assms] by auto

theorem status_is_honest_witness:
  "\<exists>c. cs_managed_state (fst (status demo_env 9 c)) = ManagedLiveState.Linked \<and>
     cs_pair_configuration (fst (status demo_env 9 c)) = PairConfigurationState.Ready"
proof -
  let ?c = "(demo_controller JournalState.Clean)
    \<lparr>pc_backend := PairLifecycle.Linked, pc_managed_state := ManagedLiveState.Linked\<rparr>"
  have "cs_managed_state (fst (status demo_env 9 ?c)) = ManagedLiveState.Linked"
    by (simp add: status_def demo_defs new_with_route_def)
  then show ?thesis
    using status_is_honest [of demo_env 9 ?c "fst (status demo_env 9 ?c)" "snd (status demo_env 9 ?c)"]
    by (intro exI [of _ ?c]) simp
qed

text \<open>
  Recovery is gated. A \<open>RecoverStop\<close> with nothing unresolved and fewer than two consecutive failures
  is refused without calling the backend, the probe or the journal; and when it does act without a
  prior latch it acts on at least two failures.
\<close>

theorem recovery_is_gated:
  assumes "mutate env now ControllerAction.RecoverStop c = (r, c')"
    and "\<not> pc_unresolved_action c"
  shows "if pc_consecutive_failures c < 2
    then car_failure r = Some ControllerFailure.RecoveryNotAllowed \<and>
      c' = c\<lparr>pc_revision := saturating_add (pc_revision c) 1,
             pc_last_action := Some \<lparr>ra_result = r, ra_recorded_at = now\<rparr>\<rparr>
    else car_failure r \<noteq> Some ControllerFailure.RecoveryNotAllowed"
proof (cases "pc_consecutive_failures c < 2")
  case True
  then show ?thesis
    using assms
    by (auto simp: mutate_def mutate_guard_def finish_def finish_with_evidence_def bump_revision_def Let_def)
next
  case False
  have fin: "finish now ControllerAction.RecoverStop out f x = (r, c') \<Longrightarrow> car_failure r = f" for out f x
    by (auto simp: finish_def finish_with_evidence_def Let_def)
  have ne: "controller_failure_from_backend e \<noteq> ControllerFailure.RecoveryNotAllowed"
      "controller_failure_from_unknown_backend e \<noteq> ControllerFailure.RecoveryNotAllowed" for e
    by (cases e; simp)+
  have fe: "finish_with_evidence now ControllerAction.RecoverStop out ev f x = (r, c') \<Longrightarrow> car_failure r = f" for out ev f x
    by (auto simp: finish_with_evidence_def Let_def)
  show ?thesis
    using assms False
    by (auto simp: mutate_def mutate_guard_def mutate_configured_def mutate_mark_def mutate_commit_def
        reduce_backend_result_def reduce_accepted_def reduce_rejected_def journal_commit_failed_def
        reject_preflight_def ne ne [symmetric] Let_def
        split: prod.splits if_splits PairConfigurationState.splits sum.splits option.splits
          PairActionResult.splits dest!: fin fe)
qed

theorem recovery_is_gated_witness:
  "car_failure (fst (mutate demo_env 5 ControllerAction.RecoverStop (demo_controller JournalState.Clean)))
     = Some ControllerFailure.RecoveryNotAllowed"
proof -
  let ?c = "demo_controller JournalState.Clean"
  have "\<not> pc_unresolved_action ?c" "pc_consecutive_failures ?c < 2"
    by (simp_all add: demo_controller_def with_journal_def demo_env_def memory_journal_def)
  then show ?thesis
    using recovery_is_gated [of demo_env 5 ?c "fst (mutate demo_env 5 ControllerAction.RecoverStop ?c)"
        "snd (mutate demo_env 5 ControllerAction.RecoverStop ?c)"] by simp
qed

end
