(* ===== verification/Control.thy ===== *)
theory Control
  imports Model
begin

text \<open>
  The closed JBL commands and the classification of their answers (\<open>rust/src/control.rs\<close>), and the
  LAN client that sends them (\<open>rust/src/client.rs\<close>).

  The HTTP agent, the JSON reader and the XML reader are libraries: the client takes the outcome of
  each exchange and the two readers as parameters. What an exchange may report is the datatype
  \<open>http_outcome\<close>: a response with its status and body (or a failure while reading the body), or a
  transport error with its kind and its chain of causes. A status of 400 or more is what the agent
  reports as an error of its own, with the response inside.
\<close>

subsection \<open>Commands\<close>

datatype PlayTogetherCommand = Enter | Exit

fun form_body :: "PlayTogetherCommand \<Rightarrow> string" where
  "form_body PlayTogetherCommand.Enter = ''command=enterAuracast&payload=null''"
| "form_body PlayTogetherCommand.Exit = ''command=exitAuracast&payload=null''"

datatype BroadcastCommand = Start DeviceIdentity | Stop

definition COMMAND_ID :: "16 word" where
  "COMMAND_ID = 7957"

fun colon_join :: "string list \<Rightarrow> string" where
  "colon_join [] = []"
| "colon_join [x] = x"
| "colon_join (x # xs) = x @ '':'' @ colon_join xs"

abbreviation quote :: string where
  "quote \<equiv> [CHR 0x22]"

definition key :: "string \<Rightarrow> string" where
  "key s = quote @ s @ quote @ '':''"

fun payload_json :: "BroadcastCommand \<Rightarrow> string" where
  "payload_json (BroadcastCommand.Start identity) =
     ''{'' @ key ''action'' @ ''1,'' @ key ''broadcast'' @ ''{'' @ key ''address''
     @ quote @ colon_join (map hex2_upper (binary identity)) @ quote @ '',''
     @ key ''name'' @ quote @ SUPPORTED_JBL_MODEL @ quote @ '',''
     @ key ''need_access_code'' @ ''false,'' @ key ''status'' @ ''2,''
     @ key ''subgroup'' @ ''[{'' @ key ''active_status'' @ ''1,'' @ key ''index'' @ ''0,''
     @ key ''is_support'' @ ''true,'' @ key ''quality'' @ ''0}]}}''"
| "payload_json BroadcastCommand.Stop = ''{'' @ key ''action'' @ ''2}''"

definition to_le_bytes16 :: "16 word \<Rightarrow> 8 word list" where
  "to_le_bytes16 w = [ucast w, ucast (drop_bit 8 w)]"

text \<open>\<open>None\<close> is the panic of the length conversion.\<close>

definition pl_frame :: "BroadcastCommand \<Rightarrow> 8 word list option" where
  "pl_frame command =
     (let payload = payload_json command
      in if length payload < 2 ^ 16
         then Some (as_bytes ''PL'' @ to_le_bytes16 COMMAND_ID
                    @ to_le_bytes16 (of_nat (length payload)) @ as_bytes payload)
         else None)"

subsection \<open>Answers\<close>

definition basic_response_parse ::
  "(string \<Rightarrow> Value option) \<Rightarrow> string \<Rightarrow> (JblError, unit) result" where
  "basic_response_parse from_slice payload =
     (case from_slice payload of
        None \<Rightarrow> Inl JblError.InvalidJson
      | Some value \<Rightarrow>
          (case as_object value of
             None \<Rightarrow> Inl JblError.BasicResponseNotObject
           | Some response \<Rightarrow>
               (case find_key ''error_code'' response of
                  None \<Rightarrow> Inl JblError.BasicResponseCodeMissing
                | Some (JNumber code) \<Rightarrow>
                    (if as_i64 code = Some 0 \<or> as_u64 code = Some 0 then Inr ()
                     else if as_i64 code \<noteq> None \<or> as_u64 code \<noteq> None
                     then Inl JblError.ControlCommandRejected
                     else Inl JblError.BasicResponseCodeInvalid)
                | Some (JString code) \<Rightarrow>
                    (if code = ''0'' then Inr () else Inl JblError.ControlCommandRejected)
                | Some _ \<Rightarrow> Inl JblError.BasicResponseCodeInvalid)))"

datatype PlayTogetherWriteOutcome =
    Accepted | Rejected | OutcomeUnknown | PostconditionFailed | RollbackFailed

datatype PlayTogetherWriteResult = Accepted | Rejected JblError | OutcomeUnknown JblError

fun outcome :: "PlayTogetherWriteResult \<Rightarrow> PlayTogetherWriteOutcome" where
  "outcome PlayTogetherWriteResult.Accepted = PlayTogetherWriteOutcome.Accepted"
| "outcome (PlayTogetherWriteResult.Rejected _) = PlayTogetherWriteOutcome.Rejected"
| "outcome (PlayTogetherWriteResult.OutcomeUnknown _) = PlayTogetherWriteOutcome.OutcomeUnknown"

fun write_error :: "PlayTogetherWriteResult \<Rightarrow> JblError option" where
  "write_error PlayTogetherWriteResult.Accepted = None"
| "write_error (PlayTogetherWriteResult.Rejected error) = Some error"
| "write_error (PlayTogetherWriteResult.OutcomeUnknown error) = Some error"

subsection \<open>Exchanges\<close>

datatype ErrorKind =
    InvalidUrl | UnknownScheme | Dns | InsecureRequestHttpsOnly | ConnectionFailed
  | InvalidProxyUrl | ProxyConnect | ProxyUnauthorized | OtherErrorKind

text \<open>
  A cause in the chain of a transport error: the pin mismatch itself, an I/O error with its boxed
  inner error (which may be the pin mismatch), or anything else.
\<close>

datatype cause = PinMismatch | IoError bool | OtherCause

record Transport =
  tr_kind :: ErrorKind
  tr_sources :: "cause list"

datatype http_outcome = Response nat "string option" | TransportError Transport

fun error_is_peer_pin_mismatch :: "cause \<Rightarrow> bool" where
  "error_is_peer_pin_mismatch PinMismatch = True"
| "error_is_peer_pin_mismatch (IoError inner) = inner"
| "error_is_peer_pin_mismatch OtherCause = False"

definition has_peer_pin_mismatch :: "Transport \<Rightarrow> bool" where
  "has_peer_pin_mismatch transport = list_ex error_is_peer_pin_mismatch (tr_sources transport)"

definition definitely_not_sent :: "ErrorKind \<Rightarrow> bool" where
  "definitely_not_sent kind \<longleftrightarrow>
     kind \<in> {ErrorKind.InvalidUrl, ErrorKind.UnknownScheme, ErrorKind.Dns,
             ErrorKind.InsecureRequestHttpsOnly, ErrorKind.ConnectionFailed,
             ErrorKind.InvalidProxyUrl, ErrorKind.ProxyConnect, ErrorKind.ProxyUnauthorized}"

definition classify_write_transport :: "Transport \<Rightarrow> PlayTogetherWriteResult" where
  "classify_write_transport transport =
     (if has_peer_pin_mismatch transport
      then PlayTogetherWriteResult.Rejected JblError.PeerCertificateMismatch
      else if definitely_not_sent (tr_kind transport)
      then PlayTogetherWriteResult.Rejected JblError.NetworkUnreachable
      else PlayTogetherWriteResult.OutcomeUnknown JblError.NetworkUnreachable)"

definition MAX_RESPONSE_BYTES :: nat where
  "MAX_RESPONSE_BYTES = 1048576"

text \<open>
  What the client needs of its surroundings: the three agents, each making one exchange on a network
  state, and the two readers. \<open>ln_status_text\<close> is the text of the first \<open>Status\<close> element of an XML
  document (\<open>None\<close>: not XML; \<open>Some None\<close>: no such element or no text).
\<close>

datatype Command = DeviceInfo | AuraCastGroupInfo

fun api_name :: "Command \<Rightarrow> string" where
  "api_name Command.DeviceInfo = ''getDeviceInfo''"
| "api_name Command.AuraCastGroupInfo = ''getAuraCastGroupInfo''"

record 'n lan =
  ln_get :: "string \<Rightarrow> 'n \<Rightarrow> http_outcome \<times> 'n"
  ln_post :: "string \<Rightarrow> 'n \<Rightarrow> http_outcome \<times> 'n"
  ln_upnp :: "'n \<Rightarrow> http_outcome \<times> 'n"
  ln_from_slice :: "string \<Rightarrow> Value option"
  ln_status_text :: "string \<Rightarrow> string option option"

definition send_control_form :: "'n lan \<Rightarrow> string \<Rightarrow> 'n \<Rightarrow> PlayTogetherWriteResult \<times> 'n" where
  "send_control_form lan body n =
     (let (response, n) = ln_post lan body n
      in (case response of
            TransportError transport \<Rightarrow> classify_write_transport transport
          | Response status body \<Rightarrow>
              if status \<noteq> 200 then PlayTogetherWriteResult.OutcomeUnknown (JblError.HttpStatus status)
              else (case body of
                      None \<Rightarrow> PlayTogetherWriteResult.OutcomeUnknown JblError.NetworkUnreachable
                    | Some payload \<Rightarrow>
                        if length (take (MAX_RESPONSE_BYTES + 1) payload) > MAX_RESPONSE_BYTES
                        then PlayTogetherWriteResult.OutcomeUnknown JblError.ResponseTooLarge
                        else (case basic_response_parse (ln_from_slice lan) payload of
                                Inr _ \<Rightarrow> PlayTogetherWriteResult.Accepted
                              | Inl error \<Rightarrow>
                                  (if error = JblError.ControlCommandRejected
                                   then PlayTogetherWriteResult.Rejected error
                                   else PlayTogetherWriteResult.OutcomeUnknown error))), n))"

definition send_play_together ::
  "'n lan \<Rightarrow> PlayTogetherCommand \<Rightarrow> 'n \<Rightarrow> PlayTogetherWriteResult \<times> 'n" where
  "send_play_together lan command = send_control_form lan (form_body command)"

definition read_payload :: "http_outcome \<Rightarrow> bool \<Rightarrow> (JblError, string) result" where
  "read_payload response pinned =
     (case response of
        TransportError transport \<Rightarrow>
          Inl (if pinned \<and> has_peer_pin_mismatch transport then JblError.PeerCertificateMismatch
               else JblError.NetworkUnreachable)
      | Response status body \<Rightarrow>
          if status \<ge> 400 \<or> pinned \<and> status \<noteq> 200 then Inl (JblError.HttpStatus status)
          else (case body of
                  None \<Rightarrow> Inl JblError.NetworkUnreachable
                | Some payload \<Rightarrow>
                    if length (take (MAX_RESPONSE_BYTES + 1) payload) > MAX_RESPONSE_BYTES
                    then Inl JblError.ResponseTooLarge else Inr payload))"

definition get_json :: "'n lan \<Rightarrow> Command \<Rightarrow> ('n, JblError, Value) fallible" where
  "get_json lan command n =
     (let (response, n) = ln_get lan (api_name command) n
      in (and_then (read_payload response True)
            (\<lambda>payload. ok_or JblError.InvalidJson (ln_from_slice lan payload)), n))"

definition verified_model :: "'n lan \<Rightarrow> string \<Rightarrow> ('n, JblError, string) fallible" where
  "verified_model lan expected_model n =
     (if expected_model \<noteq> SUPPORTED_JBL_MODEL then (Inl JblError.UnexpectedDeviceModel, n)
      else
        let (response, n) = ln_upnp lan n
        in (and_then (read_payload response False) (\<lambda>payload.
            if \<not> utf8_valid payload then Inl JblError.InvalidXml
            else and_then (ok_or JblError.InvalidXml (ln_status_text lan payload)) (\<lambda>text.
                 and_then (ok_or JblError.ControlDeviceInfoMissing text) (\<lambda>status.
                 and_then (ok_or JblError.InvalidJson (ln_from_slice lan status)) (\<lambda>value.
                 and_then (ok_or JblError.ControlDeviceInfoMissing
                    (map_option trim (Option.bind (get ''hm_product_name'' value) as_str))) (\<lambda>actual.
                   if actual \<noteq> expected_model then Inl JblError.UnexpectedDeviceModel
                   else Inr SUPPORTED_JBL_MODEL))))), n))"

definition group_status ::
  "'n lan \<Rightarrow> DeviceIdentity \<Rightarrow> DeviceIdentity \<Rightarrow> ('n, JblError, GroupStatus) fallible" where
  "group_status lan expected_jbl expected_aura =
     try_bind (get_json lan Command.AuraCastGroupInfo) (\<lambda>response.
       lift_result (parse_group_status response expected_jbl expected_aura))"

definition pair_configuration_status ::
  "'n lan \<Rightarrow> string \<Rightarrow> DeviceIdentity \<Rightarrow> DeviceIdentity \<Rightarrow> ('n, JblError, GroupStatus) fallible" where
  "pair_configuration_status lan expected_model expected_jbl expected_aura =
     try_bind (get_json lan Command.DeviceInfo) (\<lambda>response.
     try_bind (lift_result (parse_device_info response)) (\<lambda>_.
     try_bind (verified_model lan expected_model) (\<lambda>_.
       group_status lan expected_jbl expected_aura)))"

definition sanitized_status ::
  "'n lan \<Rightarrow> string \<Rightarrow> DeviceIdentity \<Rightarrow> DeviceIdentity \<Rightarrow> ('n, JblError, SanitizedStatus) fallible" where
  "sanitized_status lan expected_model expected_jbl expected_aura =
     try_bind (get_json lan Command.DeviceInfo) (\<lambda>response.
     try_bind (lift_result (parse_device_info response)) (\<lambda>device.
     try_bind (verified_model lan expected_model) (\<lambda>model.
     try_bind (group_status lan expected_jbl expected_aura) (\<lambda>play_together.
       lift_result (Inr \<lparr>ss_device = device\<lparr>di_name := Some model, di_model := Some model\<rparr>,
                         ss_play_together = play_together\<rparr>)))))"

subsection \<open>Frames\<close>

lemma length_as_bytes [simp]: "length (as_bytes s) = length s"
  by (simp add: as_bytes_def)

lemma length_hex2_upper [simp]: "length (hex2_upper b) = 2"
  by (simp add: hex2_upper_def)

lemma payload_length:
  "length (binary identity) = 6 \<Longrightarrow> length (payload_json (BroadcastCommand.Start identity)) = 193"
  "length (payload_json BroadcastCommand.Stop) = 12"
  by (auto simp: key_def SUPPORTED_JBL_MODEL_def dest!: length_6)

lemma hex2_upper_inj: "hex2_upper a = hex2_upper b \<longleftrightarrow> a = b"
proof
  assume "hex2_upper a = hex2_upper b"
  then have "hex_nibble (of_nat (byte (hex_digit_upper (unat a div 16)))) = hex_nibble (of_nat (byte (hex_digit_upper (unat b div 16))))"
    "hex_nibble (of_nat (byte (hex_digit_upper (unat a mod 16)))) = hex_nibble (of_nat (byte (hex_digit_upper (unat b mod 16))))"
    by (simp_all add: hex2_upper_def)
  then have "(of_nat (unat a div 16) :: 8 word) = of_nat (unat b div 16)" "(of_nat (unat a mod 16) :: 8 word) = of_nat (unat b mod 16)"
    by (simp_all only: hex_nibble_digits unat_nibbles option.inject)
  then show "a = b" using nibbles_join [of a] nibbles_join [of b] by metis
qed simp
lemma as_bytes_inj: "as_bytes s = as_bytes t \<longleftrightarrow> s = t"
proof -
  have "inj (\<lambda>c. of_nat (byte c) :: 8 word)"
  proof (rule injI)
    fix c d assume "(of_nat (byte c) :: 8 word) = of_nat (byte d)"
    then have "byte c mod 256 = byte d mod 256" by (simp add: word_of_nat_eq_iff take_bit_eq_mod)
    then show "c = d" by simp
  qed
  then show ?thesis by (simp add: as_bytes_def inj_map_eq_map)
qed

lemma payload_start_inj:
  assumes "length (binary i) = 6" and "length (binary j) = 6"
    and "payload_json (BroadcastCommand.Start i) = payload_json (BroadcastCommand.Start j)"
  shows "i = j"
proof -
  obtain a b c d e f where i: "binary i = [a, b, c, d, e, f]"
    using length_6 [OF assms(1)] by blast
  obtain a' b' c' d' e' f' where j: "binary j = [a', b', c', d', e', f']"
    using length_6 [OF assms(2)] by blast
  from assms(3) have "hex2_upper a = hex2_upper a'" "hex2_upper b = hex2_upper b'"
      "hex2_upper c = hex2_upper c'" "hex2_upper d = hex2_upper d'" "hex2_upper e = hex2_upper e'"
      "hex2_upper f = hex2_upper f'"
    by (simp_all add: i j key_def hex2_upper_def)
  then show ?thesis
    using i j by (cases i; cases j) (simp add: hex2_upper_inj)
qed

subsection \<open>Properties\<close>

text \<open>
  Broadcaster frames. For every six-byte identity the frame exists (the length never overflows its
  field), carries the magic, the command number and its payload's length, fits a single ATT write
  request at an MTU of 500, and frames of different commands differ.
\<close>

theorem pl_frame_fits:
  assumes "\<And>i. command = BroadcastCommand.Start i \<Longrightarrow> length (binary i) = 6"
  shows "\<exists>frame. pl_frame command = Some frame \<and> length frame + 3 \<le> 500 \<and>
    take 4 frame = [0x50, 0x4C, 0x15, 0x1F] \<and>
    unat (frame ! 4) + 256 * unat (frame ! 5) = length frame - 6 \<and>
    (\<forall>other. (\<forall>i. other = BroadcastCommand.Start i \<longrightarrow> length (binary i) = 6) \<longrightarrow>
       pl_frame other = Some frame \<longrightarrow> other = command)"
proof -
  have len: "length (payload_json command) \<in> {12, 193}"
    using assms payload_length by (cases command) auto
  have head: "as_bytes ''PL'' @ to_le_bytes16 COMMAND_ID = [0x50, 0x4C, 0x15, 0x1F]"
    by (simp add: as_bytes_def to_le_bytes16_def COMMAND_ID_def)
  have same: "other = command" if "\<forall>i. other = BroadcastCommand.Start i \<longrightarrow> length (binary i) = 6"
      and "pl_frame other = pl_frame command" for other
  proof -
    have "length (payload_json other) \<in> {12, 193}"
      using that(1) payload_length by (cases other) auto
    then have eq: "payload_json other = payload_json command"
      using that(2) len by (auto simp: pl_frame_def Let_def to_le_bytes16_def as_bytes_inj split: if_splits)
    show ?thesis
    proof (cases other; cases command)
      fix i j
      assume "other = BroadcastCommand.Start i" "command = BroadcastCommand.Start j"
      then show ?thesis
        using eq payload_start_inj that(1) assms by blast
    qed (use eq in \<open>auto simp: key_def\<close>)
  qed
  define frame where "frame = [0x50, 0x4C, 0x15, 0x1F] @ to_le_bytes16 (of_nat (length (payload_json command)))
    @ as_bytes (payload_json command)"
  have "pl_frame command = Some frame"
    using len head by (auto simp: pl_frame_def Let_def frame_def simp flip: append_assoc)
  moreover have "length frame + 3 \<le> 500" "take 4 frame = [0x50, 0x4C, 0x15, 0x1F]"
      "unat (frame ! 4) + 256 * unat (frame ! 5) = length frame - 6"
    using len by (auto simp: frame_def to_le_bytes16_def)
  ultimately show ?thesis
    using same by metis
qed

theorem pl_frame_fits_witness:
  "\<exists>frame. pl_frame BroadcastCommand.Stop = Some frame \<and> length frame + 3 \<le> 500"
  using pl_frame_fits [of BroadcastCommand.Stop] by auto

text \<open>
  C37: a write is classified conservatively. One attempt makes exactly one exchange. It is accepted only
  on HTTP 200 with a whole body within the limit that is a JSON object with error code zero; it is
  rejected only when the connection never carried the request or the device answered 200 with an
  explicit nonzero code; every other outcome is unknown.
\<close>

theorem write_classification:
  assumes "send_control_form lan body n = (r, n')"
  shows "(let response = fst (ln_post lan body n) in
    n' = snd (ln_post lan body n) \<and>
    (r = PlayTogetherWriteResult.Accepted \<longrightarrow>
       (\<exists>payload m code. response = Response 200 (Some payload) \<and> length payload \<le> MAX_RESPONSE_BYTES \<and>
          ln_from_slice lan payload = Some (JObject m) \<and> find_key ''error_code'' m = Some code \<and>
          (code = JString ''0'' \<or> code = JNumber (PosInt 0) \<or> code = JNumber (NegInt 0)))) \<and>
    (\<forall>e. r = PlayTogetherWriteResult.Rejected e \<longrightarrow>
       (\<exists>transport. response = TransportError transport \<and>
          (has_peer_pin_mismatch transport \<or> definitely_not_sent (tr_kind transport)))
       \<or> e = JblError.ControlCommandRejected \<and>
         (\<exists>payload m code. response = Response 200 (Some payload) \<and>
            ln_from_slice lan payload = Some (JObject m) \<and> find_key ''error_code'' m = Some code \<and>
            ((\<exists>s. code = JString s \<and> s \<noteq> ''0'') \<or> (\<exists>k. code = JNumber (PosInt k) \<and> k \<noteq> 0)
             \<or> (\<exists>i. code = JNumber (NegInt i) \<and> i \<noteq> 0)))))"
proof -
  have num: "as_i64 k = Some 0 \<or> as_u64 k = Some 0 \<longleftrightarrow> k = PosInt 0 \<or> k = NegInt 0"
      "as_i64 k \<noteq> None \<or> as_u64 k \<noteq> None \<longleftrightarrow> k \<noteq> Float" for k
    by (cases k; auto)+
  have nonzero: "as_i64 k = Some y \<Longrightarrow> (\<exists>j. k = PosInt j) \<or> k = NegInt y"
      "as_u64 k = Some z \<Longrightarrow> k = PosInt z" for k y z
    by (cases k; auto split: if_splits)+
  have obj: "as_object v = Some m \<longleftrightarrow> v = JObject m" for v m
    by (cases v) auto
  have parse: "basic_response_parse f p = Inr () \<Longrightarrow> \<exists>m code. f p = Some (JObject m) \<and>
        find_key ''error_code'' m = Some code \<and>
        (code = JString ''0'' \<or> code = JNumber (PosInt 0) \<or> code = JNumber (NegInt 0))"
      "basic_response_parse f p = Inl JblError.ControlCommandRejected \<Longrightarrow> \<exists>m code. f p = Some (JObject m) \<and>
        find_key ''error_code'' m = Some code \<and>
        ((\<exists>s. code = JString s \<and> s \<noteq> ''0'') \<or> (\<exists>k. code = JNumber (PosInt k) \<and> k \<noteq> 0)
         \<or> (\<exists>i. code = JNumber (NegInt i) \<and> i \<noteq> 0))" for f p
    unfolding basic_response_parse_def
    by (auto simp: obj num split: option.splits Value.splits if_splits dest!: nonzero)
  obtain response n1 where post: "ln_post lan body n = (response, n1)"
    by fastforce
  show ?thesis
    using assms post
    by (cases response)
      (auto simp: send_control_form_def classify_write_transport_def Let_def
        split: if_splits option.splits sum.splits dest!: parse)
qed

definition example_lan :: "nat lan" where
  "example_lan =
     \<lparr>ln_get = (\<lambda>_ n. (TransportError \<lparr>tr_kind = ErrorKind.Dns, tr_sources = []\<rparr>, Suc n)),
      ln_post = (\<lambda>_ n. (Response 200 (Some ''{}''), Suc n)),
      ln_upnp = (\<lambda>n. (Response 200 None, Suc n)),
      ln_from_slice = (\<lambda>_. Some (JObject [(''error_code'', JString ''0'')])),
      ln_status_text = (\<lambda>_. None)\<rparr>"

theorem write_classification_witness:
  "fst (send_control_form example_lan ''x'' 0) = PlayTogetherWriteResult.Accepted \<and>
   snd (send_control_form example_lan ''x'' 0) = 1"
proof -
  have "fst (send_control_form example_lan ''x'' 0) = PlayTogetherWriteResult.Accepted"
    by (simp add: send_control_form_def example_lan_def basic_response_parse_def find_key_def
        MAX_RESPONSE_BYTES_def)
  moreover obtain r n where s: "send_control_form example_lan ''x'' 0 = (r, n)"
    by fastforce
  ultimately show ?thesis
    using write_classification [OF s] by (simp add: Let_def) (simp add: example_lan_def)
qed

text \<open>
  The address is authenticated first. Reading the pair configuration makes its exchanges in the
  fixed order pinned device read, plain UPnP model read, pinned group read; the UPnP service is not
  contacted unless the pinned device read gave a well-formed answer, and the group is not read unless
  the model matched the one supported.
\<close>

theorem pair_configuration_order:
  assumes "pair_configuration_status lan model jbl aura n = (r, n')"
  shows "(let n1 = snd (ln_get lan ''getDeviceInfo'' n); n2 = snd (ln_upnp lan n1);
       n3 = snd (ln_get lan ''getAuraCastGroupInfo'' n2)
     in (case fst (get_json lan Command.DeviceInfo n) of
           Inl e \<Rightarrow> r = Inl e \<and> n' = n1
         | Inr response \<Rightarrow>
             (case parse_device_info response of
                Inl e \<Rightarrow> r = Inl e \<and> n' = n1
              | Inr _ \<Rightarrow>
                  if model \<noteq> SUPPORTED_JBL_MODEL then r = Inl JblError.UnexpectedDeviceModel \<and> n' = n1
                  else (case fst (verified_model lan model n1) of
                          Inl e \<Rightarrow> r = Inl e \<and> n' = n2
                        | Inr _ \<Rightarrow> r = fst (group_status lan jbl aura n2) \<and> n' = n3))))"
proof -
  have get: "get_json lan c k = (fst (get_json lan c k), snd (ln_get lan (api_name c) k))" for c k
    by (simp add: get_json_def Let_def split: prod.splits)
  have model: "verified_model lan model k =
      (fst (verified_model lan model k),
       if model = SUPPORTED_JBL_MODEL then snd (ln_upnp lan k) else k)" for k
    by (simp add: verified_model_def Let_def split: prod.splits)
  have unsupported: "model \<noteq> SUPPORTED_JBL_MODEL \<Longrightarrow>
      fst (verified_model lan model k) = Inl JblError.UnexpectedDeviceModel" for k
    by (simp add: verified_model_def)
  have group: "group_status lan jbl aura k =
      (fst (group_status lan jbl aura k), snd (ln_get lan ''getAuraCastGroupInfo'' k))" for k
    using get [of Command.AuraCastGroupInfo k]
    by (auto simp: group_status_def try_bind_def lift_result_def split: prod.splits sum.splits)
  show ?thesis
    using assms unfolding pair_configuration_status_def try_bind_def lift_result_def Let_def
    by (subst (asm) get, subst (asm) model, subst (asm) group)
      (auto simp: unsupported split: sum.splits if_splits)
qed

theorem pair_configuration_order_witness:
  "snd (pair_configuration_status example_lan SUPPORTED_JBL_MODEL example_jbl example_aura 0) = 1"
  using pair_configuration_order [of example_lan SUPPORTED_JBL_MODEL example_jbl example_aura 0
      "fst (pair_configuration_status example_lan SUPPORTED_JBL_MODEL example_jbl example_aura 0)"
      "snd (pair_configuration_status example_lan SUPPORTED_JBL_MODEL example_jbl example_aura 0)"]
  by (simp add: get_json_def example_lan_def read_payload_def and_then_def)

end
