(* ===== verification/Bluez.thy ===== *)
theory Bluez
  imports Model
begin

text \<open>
  What the two Bluetooth components use of BlueZ and of the kernel's L2CAP sockets, as records of
  operations; only the opening of a socket, which both do in the same way, is code of the program.
\<close>

datatype AddressType = BrEdr | LePublic | LeRandom

type_synonym Address = "8 word list"

record socket_address =
  sa_addr :: Address
  sa_addr_type :: AddressType
  sa_psm :: "16 word"
  sa_cid :: "16 word"

datatype peek = Bytes | Eof | WouldBlock | PeekError

datatype 'a timed = Elapsed | Completed 'a

text \<open>A connected sequential-packet socket.\<close>

record 's att_socket =
  as_poll :: "'s \<Rightarrow> (int \<times> 16 word) \<times> 's"
  as_peek :: "'s \<Rightarrow> peek \<times> 's"
  as_recv_now :: "'s \<Rightarrow> (unit, 8 word list) result option \<times> 's"
  as_send :: "nat \<Rightarrow> 8 word list \<Rightarrow> 's \<Rightarrow> (unit, nat) result timed \<times> 's"
  as_recv :: "nat \<Rightarrow> 's \<Rightarrow> (unit, 8 word list) result timed \<times> 's"

text \<open>
  The bus, the adapter and the creation of a socket. An awaited operation takes the instant its timer fires; a
  lookup that does not wait returns an option.
\<close>

type_synonym 'a awaited = "(unit, 'a) result timed"

datatype SecurityLevel = Low | Medium | High | Fips

record ('w, 's) bluez =
  bz_now :: "'w \<Rightarrow> nat"
  bz_session :: "nat \<Rightarrow> 'w \<Rightarrow> unit awaited \<times> 'w"
  bz_adapter :: "string \<Rightarrow> 'w \<Rightarrow> unit option \<times> 'w"
  bz_is_powered :: "nat \<Rightarrow> 'w \<Rightarrow> bool awaited \<times> 'w"
  bz_local_address :: "nat \<Rightarrow> 'w \<Rightarrow> Address awaited \<times> 'w"
  bz_device :: "Address \<Rightarrow> 'w \<Rightarrow> unit option \<times> 'w"
  bz_new_seq_packet :: "'w \<Rightarrow> nat option \<times> 'w"
  bz_bind :: "nat \<Rightarrow> socket_address \<Rightarrow> 'w \<Rightarrow> unit option \<times> 'w"
  bz_set_security :: "nat \<Rightarrow> SecurityLevel \<Rightarrow> nat \<Rightarrow> 'w \<Rightarrow> unit option \<times> 'w"
  bz_connect :: "nat \<Rightarrow> socket_address \<Rightarrow> nat \<Rightarrow> 'w \<Rightarrow> 's awaited \<times> 'w"
  bz_peer_addr :: "'s \<Rightarrow> 'w \<Rightarrow> socket_address option \<times> 'w"

definition DEFAULT_ADAPTER :: string where
  "DEFAULT_ADAPTER = ''hci0''"

text \<open>An operation whose failure, of either kind, is one given reason: awaited, and immediate.\<close>

definition required :: "'e \<Rightarrow> ('w \<Rightarrow> 'a awaited \<times> 'w) \<Rightarrow> ('w, 'e, 'a) fallible" where
  "required reason m w =
     (case m w of (Completed (Inr v), w) \<Rightarrow> (Inr v, w) | (_, w) \<Rightarrow> (Inl reason, w))"

definition present :: "'e \<Rightarrow> ('w \<Rightarrow> 'a option \<times> 'w) \<Rightarrow> ('w, 'e, 'a) fallible" where
  "present reason m w = (case m w of (r, w) \<Rightarrow> (ok_or reason r, w))"

definition ensure :: "'e \<Rightarrow> bool \<Rightarrow> ('w, 'e, unit) fallible" where
  "ensure reason b w = (if b then Inr () else Inl reason, w)"

lemma required_Inr: "required e m w = (Inr v, w') \<longleftrightarrow> m w = (Completed (Inr v), w')"
  by (auto simp: required_def split: prod.splits timed.splits sum.splits)

lemma present_Inr: "present e m w = (Inr v, w') \<longleftrightarrow> m w = (Some v, w')"
  by (cases "m w"; cases "fst (m w)") (auto simp: present_def)

lemma ensure_Inr: "ensure e b w = (Inr v, w') \<longleftrightarrow> b \<and> w' = w"
  by (auto simp: ensure_def)

text \<open>
  A connected socket of a low security level, bound to the local address, whose peer is the target: the two
  Bluetooth components open theirs with the same calls and map every failure to one reason.
\<close>

definition connected_socket ::
  "('w, 's, 'x) bluez_scheme \<Rightarrow> 'e \<Rightarrow> socket_address \<Rightarrow> socket_address \<Rightarrow> nat \<Rightarrow> ('w, 'e, 's) fallible" where
  "connected_socket bz failure local target deadline =
     try_bind (present failure (bz_new_seq_packet bz)) (\<lambda>fd.
     try_bind (present failure (bz_bind bz fd local)) (\<lambda>_.
     try_bind (present failure (bz_set_security bz fd SecurityLevel.Low 0)) (\<lambda>_.
     try_bind (required failure (bz_connect bz fd target deadline)) (\<lambda>socket.
     try_bind (present failure (bz_peer_addr bz socket)) (\<lambda>peer.
     try_bind (ensure failure (peer = target)) (\<lambda>_.
       lift_result (Inr socket)))))))"

lemma connected_socket_Inr:
  assumes "connected_socket bz failure local target deadline w = (Inr socket, w')"
  obtains fd w1 w2 w3 w4 where "bz_new_seq_packet bz w = (Some fd, w1)" and "bz_bind bz fd local w1 = (Some (), w2)"
    and "bz_set_security bz fd SecurityLevel.Low 0 w2 = (Some (), w3)"
    and "bz_connect bz fd target deadline w3 = (Completed (Inr socket), w4)"
    and "bz_peer_addr bz socket w4 = (Some target, w')"
  using assms unfolding connected_socket_def
  by (auto simp: try_bind_Inr required_Inr present_Inr ensure_Inr lift_result_def)

end
