(* ===== verification/Jbl_Gatt.thy ===== *)
theory Jbl_Gatt
  imports Control Bluez
begin

unbundle bit_operations_syntax

text \<open>
  The broadcaster mutation of the JBL speaker over a public LE ATT bearer (\<open>rust/src/jbl_gatt.rs\<close>):
  the bearer, its MTU exchange, the one write request and the wait for its response.
\<close>

subsection \<open>Packets\<close>

definition JBL_VALUE_HANDLE :: "16 word" where "JBL_VALUE_HANDLE = 0x002A"
definition ATT_FIXED_CID :: "16 word" where "ATT_FIXED_CID = 0x0004"
definition REQUESTED_MTU :: "16 word" where "REQUESTED_MTU = 500"
definition RECEIVE_BUFFER_SIZE :: nat where "RECEIVE_BUFFER_SIZE = 517"
definition MAX_PACKETS_PER_ACTION :: nat where "MAX_PACKETS_PER_ACTION = 32"

datatype WriteResponseKind = Accepted | Notification | Rejected | Unexpected

datatype JblGattFailure =
    RuntimeUnavailable | AdapterUnavailable | AdapterPoweredOff | DeviceConnectionFailed
  | MtuExchangeFailed | TransportNotReady | FrameTooLarge | WriteFailed | WriteResponseTimedOut
  | ChannelClosed | UnexpectedResponse

definition le_word :: "8 word \<Rightarrow> 8 word \<Rightarrow> 16 word" where
  "le_word low high = ucast low OR push_bit 8 (ucast high)"

definition parse_mtu_response :: "8 word list \<Rightarrow> 16 word option" where
  "parse_mtu_response response =
     (case response of
        [opcode, low, high] \<Rightarrow>
          (if opcode = 0x03 \<and> 23 \<le> le_word low high then Some (min (le_word low high) REQUESTED_MTU)
           else None)
      | _ \<Rightarrow> None)"

definition classify_write_response :: "8 word list \<Rightarrow> WriteResponseKind" where
  "classify_write_response response =
     (if response = [0x13] then WriteResponseKind.Accepted
      else if length response = 5 \<and> response ! 0 = 0x01 \<and> response ! 1 = 0x12
              \<and> le_word (response ! 2) (response ! 3) = JBL_VALUE_HANDLE
      then WriteResponseKind.Rejected
      else if response \<noteq> [] \<and> response ! 0 = 0x1B then WriteResponseKind.Notification
      else WriteResponseKind.Unexpected)"

definition att_write_packet :: "8 word list \<Rightarrow> 16 word \<Rightarrow> (JblGattFailure, 8 word list) result" where
  "att_write_packet frame mtu =
     (if length frame > unat mtu - 3 then Inl JblGattFailure.FrameTooLarge
      else Inr (0x12 # to_le_bytes16 JBL_VALUE_HANDLE @ frame))"

subsection \<open>The socket\<close>

definition send_exact ::
  "'s att_socket \<Rightarrow> 8 word list \<Rightarrow> nat \<Rightarrow> JblGattFailure \<Rightarrow> ('s, JblGattFailure, unit) fallible" where
  "send_exact sock payload deadline failure s =
     (case as_send sock deadline payload s of
        (Completed (Inr written), s) \<Rightarrow> (if written = length payload then Inr () else Inl failure, s)
      | (_, s) \<Rightarrow> (Inl failure, s))"

definition receive ::
  "'s att_socket \<Rightarrow> nat \<Rightarrow> JblGattFailure \<Rightarrow> ('s, JblGattFailure, 8 word list) fallible" where
  "receive sock deadline timeout_failure s =
     (case as_recv sock deadline s of
        (Completed (Inr received), s) \<Rightarrow>
          (let packet = take RECEIVE_BUFFER_SIZE received
           in (if packet = [] then Inl JblGattFailure.ChannelClosed else Inr packet, s))
      | (Completed (Inl _), s) \<Rightarrow> (Inl JblGattFailure.ChannelClosed, s)
      | (Elapsed, s) \<Rightarrow> (Inl timeout_failure, s))"

definition exchange_mtu :: "'s att_socket \<Rightarrow> nat \<Rightarrow> ('s, JblGattFailure, 16 word) fallible" where
  "exchange_mtu sock deadline =
     try_bind (send_exact sock (0x02 # to_le_bytes16 REQUESTED_MTU) deadline
                 JblGattFailure.MtuExchangeFailed) (\<lambda>_.
     try_bind (receive sock deadline JblGattFailure.MtuExchangeFailed) (\<lambda>response.
       lift_result (ok_or JblGattFailure.MtuExchangeFailed (parse_mtu_response response))))"

fun await_write_response ::
  "nat \<Rightarrow> 's att_socket \<Rightarrow> nat \<Rightarrow> ('s, JblGattFailure, unit) fallible" where
  "await_write_response 0 sock deadline s = (Inl JblGattFailure.UnexpectedResponse, s)"
| "await_write_response (Suc n) sock deadline s =
     (case receive sock deadline JblGattFailure.WriteResponseTimedOut s of
        (Inl e, s) \<Rightarrow> (Inl e, s)
      | (Inr response, s) \<Rightarrow>
          (case classify_write_response response of
             WriteResponseKind.Accepted \<Rightarrow> (Inr (), s)
           | WriteResponseKind.Notification \<Rightarrow> await_write_response n sock deadline s
           | WriteResponseKind.Rejected \<Rightarrow> (Inl JblGattFailure.WriteFailed, s)
           | WriteResponseKind.Unexpected \<Rightarrow> (Inl JblGattFailure.UnexpectedResponse, s)))"

subsection \<open>The transport\<close>

record 's JblBearer =
  jb_socket :: 's
  jb_mtu :: "16 word"

record ('w, 's) JblGattBroadcastTransport =
  jt_world :: 'w
  jt_bearer :: "'s JblBearer option"

definition public_att_socket_addresses :: "Address \<Rightarrow> Address \<Rightarrow> socket_address \<times> socket_address" where
  "public_att_socket_addresses local target =
     (\<lparr>sa_addr = local, sa_addr_type = AddressType.LePublic, sa_psm = 0, sa_cid = ATT_FIXED_CID\<rparr>,
      \<lparr>sa_addr = target, sa_addr_type = AddressType.LePublic, sa_psm = 0, sa_cid = ATT_FIXED_CID\<rparr>)"

definition jbl_connect_att_socket ::
  "('w, 's) bluez \<Rightarrow> socket_address \<Rightarrow> socket_address \<Rightarrow> nat \<Rightarrow> ('w, JblGattFailure, 's) fallible" where
  "jbl_connect_att_socket bz = connected_socket bz JblGattFailure.DeviceConnectionFailed"

definition connect_public_bearer ::
  "('w, 's) bluez \<Rightarrow> 's att_socket \<Rightarrow> DeviceIdentity \<Rightarrow> ('w, JblGattFailure, 's JblBearer) fallible" where
  "connect_public_bearer bz sock identity w =
     (let deadline = bz_now bz w + from_secs 20
      in try_bind (required JblGattFailure.AdapterUnavailable (bz_session bz deadline)) (\<lambda>_.
         try_bind (present JblGattFailure.AdapterUnavailable (bz_adapter bz DEFAULT_ADAPTER)) (\<lambda>_.
         try_bind (required JblGattFailure.AdapterUnavailable (bz_is_powered bz deadline)) (\<lambda>powered.
         try_bind (ensure JblGattFailure.AdapterPoweredOff powered) (\<lambda>_.
         try_bind (required JblGattFailure.AdapterUnavailable (bz_local_address bz deadline)) (\<lambda>local_address.
         try_bind (present JblGattFailure.DeviceConnectionFailed (bz_device bz (binary identity))) (\<lambda>_.
           let (local, target) = public_att_socket_addresses local_address (binary identity)
           in try_bind (jbl_connect_att_socket bz local target deadline) (\<lambda>socket w.
                case exchange_mtu sock (bz_now bz w + from_secs 5) socket of
                  (Inl e, _) \<Rightarrow> (Inl e, w)
                | (Inr mtu, socket) \<Rightarrow> (Inr \<lparr>jb_socket = socket, jb_mtu = mtu\<rparr>, w)))))))) w)"

text \<open>
  The frame of a command always exists for a six-byte identity, so its missing case is given the error
  of a frame that does not fit.
\<close>

definition write_and_wait_for_ack ::
  "'s att_socket \<Rightarrow> nat \<Rightarrow> BroadcastCommand \<Rightarrow> ('s JblBearer, JblGattFailure, unit) fallible" where
  "write_and_wait_for_ack sock deadline command bearer =
     (case pl_frame command of
        None \<Rightarrow> (Inl JblGattFailure.FrameTooLarge, bearer)
      | Some frame \<Rightarrow>
          (case att_write_packet frame (jb_mtu bearer) of
             Inl e \<Rightarrow> (Inl e, bearer)
           | Inr packet \<Rightarrow>
               (case try_bind (send_exact sock packet deadline JblGattFailure.WriteFailed) (\<lambda>_.
                       await_write_response MAX_PACKETS_PER_ACTION sock deadline) (jb_socket bearer) of
                  (r, s) \<Rightarrow> (r, bearer\<lparr>jb_socket := s\<rparr>))))"

definition gatt_arm ::
  "('w, 's) bluez \<Rightarrow> 's att_socket \<Rightarrow> DeviceIdentity
    \<Rightarrow> (('w, 's) JblGattBroadcastTransport, JblGattFailure, unit) fallible" where
  "gatt_arm bz sock identity t =
     (case connect_public_bearer bz sock identity (jt_world t) of
        (Inl e, w) \<Rightarrow> (Inl e, \<lparr>jt_world = w, jt_bearer = None\<rparr>)
      | (Inr bearer, w) \<Rightarrow> (Inr (), \<lparr>jt_world = w, jt_bearer = Some bearer\<rparr>))"

definition gatt_execute ::
  "('w, 's) bluez \<Rightarrow> 's att_socket \<Rightarrow> BroadcastCommand
    \<Rightarrow> (('w, 's) JblGattBroadcastTransport, JblGattFailure, unit) fallible" where
  "gatt_execute bz sock command t =
     (case jt_bearer t of
        None \<Rightarrow> (Inl JblGattFailure.TransportNotReady, t)
      | Some bearer \<Rightarrow>
          (fst (write_and_wait_for_ack sock (bz_now bz (jt_world t) + from_secs 5) command bearer),
           t\<lparr>jt_bearer := None\<rparr>))"

definition gatt_cancel :: "('w, 's) JblGattBroadcastTransport \<Rightarrow> ('w, 's) JblGattBroadcastTransport" where
  "gatt_cancel t = t\<lparr>jt_bearer := None\<rparr>"

subsection \<open>Lemmas\<close>

lemma classify_accepted_iff: "classify_write_response p = WriteResponseKind.Accepted \<longleftrightarrow> p = [0x13]"
  by (simp add: classify_write_response_def)

lemma classify_notification: "classify_write_response p = WriteResponseKind.Notification \<Longrightarrow> hd p = 0x1B"
  by (auto simp: classify_write_response_def hd_conv_nth split: if_splits)

text \<open>The packets a wait consumed, in order, with the states between them.\<close>

fun received_run :: "'s att_socket \<Rightarrow> nat \<Rightarrow> 's \<Rightarrow> 8 word list list \<Rightarrow> 's \<Rightarrow> bool" where
  "received_run sock deadline s [] s' \<longleftrightarrow> s' = s"
| "received_run sock deadline s (p # ps) s' \<longleftrightarrow>
     (\<exists>s1. receive sock deadline JblGattFailure.WriteResponseTimedOut s = (Inr p, s1)
        \<and> received_run sock deadline s1 ps s')"

lemma await_accepted:
  assumes "await_write_response n sock deadline s = (Inr (), s')"
  shows "\<exists>ps. length ps < n \<and> (\<forall>p \<in> set ps. hd p = 0x1B) \<and> received_run sock deadline s (ps @ [[0x13]]) s'"
  using assms
proof (induction n arbitrary: s)
  case (Suc n)
  obtain r s1 where r: "receive sock deadline JblGattFailure.WriteResponseTimedOut s = (r, s1)"
    by fastforce
  from Suc.prems r obtain p where p: "r = Inr p"
    by (cases r) auto
  show ?case
  proof (cases "classify_write_response p")
    case Accepted
    then have "s' = s1" "p = [0x13]"
      using Suc.prems r p by (simp_all flip: classify_accepted_iff)
    then show ?thesis
      using r p by (intro exI [of _ "[]"]) simp
  next
    case Notification
    then have "await_write_response n sock deadline s1 = (Inr (), s')"
      using Suc.prems r p by simp
    from Suc.IH [OF this] obtain ps where "length ps < n" "\<forall>p \<in> set ps. hd p = 0x1B"
        "received_run sock deadline s1 (ps @ [[0x13]]) s'"
      by blast
    then show ?thesis
      using r p classify_notification [OF Notification] by (intro exI [of _ "p # ps"]) auto
  qed (use Suc.prems r p in auto)
qed simp

lemma write_accepted:
  assumes "fst (write_and_wait_for_ack sock d command bearer) = Inr ()"
  shows "\<exists>frame s1 s2 ps. pl_frame command = Some frame \<and> length frame + 3 \<le> max 3 (unat (jb_mtu bearer)) \<and>
    as_send sock d ([0x12, 0x2A, 0x00] @ frame) (jb_socket bearer) = (Completed (Inr (length frame + 3)), s1) \<and>
    length ps < 32 \<and> (\<forall>p \<in> set ps. hd p = 0x1B) \<and> received_run sock d s1 (ps @ [[0x13]]) s2"
proof -
  obtain frame where f: "pl_frame command = Some frame"
    using assms by (cases "pl_frame command") (simp_all add: write_and_wait_for_ack_def)
  have len: "length frame \<le> unat (jb_mtu bearer) - 3"
    using assms f by (auto simp: write_and_wait_for_ack_def att_write_packet_def split: if_splits)
  have packet: "att_write_packet frame (jb_mtu bearer) = Inr ([0x12, 0x2A, 0x00] @ frame)"
    using len by (simp add: att_write_packet_def to_le_bytes16_def JBL_VALUE_HANDLE_def)
  obtain s1 s2 where send: "send_exact sock ([0x12, 0x2A, 0x00] @ frame) d JblGattFailure.WriteFailed
        (jb_socket bearer) = (Inr (), s1)"
      and wait: "await_write_response 32 sock d s1 = (Inr (), s2)"
    using assms f packet
    by (auto simp: write_and_wait_for_ack_def try_bind_def MAX_PACKETS_PER_ACTION_def
        split: prod.splits sum.splits)
  have "as_send sock d ([0x12, 0x2A, 0x00] @ frame) (jb_socket bearer) = (Completed (Inr (length frame + 3)), s1)"
    using send by (auto simp: send_exact_def split: prod.splits timed.splits sum.splits if_splits)
  moreover obtain ps where "length ps < 32" "\<forall>p \<in> set ps. hd p = 0x1B"
      "received_run sock d s1 (ps @ [[0x13]]) s2"
    using await_accepted [OF wait] by blast
  moreover have "length frame + 3 \<le> max 3 (unat (jb_mtu bearer))"
    using len by simp
  ultimately show ?thesis
    using f by blast
qed

subsection \<open>Properties\<close>

text \<open>
  C36: a broadcaster command is written once and its answer is exact. Executing a command uses up the
  bearer whatever happens, so a second execution without arming again is refused; success means the whole
  write request for that command's frame was sent within the negotiated MTU and, after fewer than 32
  packets that were all notifications, the bare write response arrived.
\<close>

theorem gatt_write_is_exact:
  assumes "gatt_execute bz sock command t = (r, t')"
  shows "jt_bearer t' = None \<and>
    fst (gatt_execute bz sock other t') = Inl JblGattFailure.TransportNotReady \<and>
    (r = Inr () \<longrightarrow>
      (\<exists>bearer frame s1 s2 ps deadline. jt_bearer t = Some bearer \<and> pl_frame command = Some frame \<and>
         length frame + 3 \<le> max 3 (unat (jb_mtu bearer)) \<and>
         as_send sock deadline ([0x12, 0x2A, 0x00] @ frame) (jb_socket bearer) =
           (Completed (Inr (length frame + 3)), s1) \<and>
         length ps < 32 \<and> (\<forall>p \<in> set ps. hd p = 0x1B) \<and>
         received_run sock deadline s1 (ps @ [[0x13]]) s2))"
proof (cases "jt_bearer t")
  case None
  then show ?thesis
    using assms by (auto simp: gatt_execute_def)
next
  case (Some bearer)
  let ?d = "bz_now bz (jt_world t) + from_secs 5"
  have t': "t' = t\<lparr>jt_bearer := None\<rparr>"
      and r: "r = fst (write_and_wait_for_ack sock ?d command bearer)"
    using assms Some by (simp_all add: gatt_execute_def)
  show ?thesis
    using t' r Some write_accepted [of sock ?d command bearer] by (simp add: gatt_execute_def) blast
qed

definition example_gatt_socket :: "nat att_socket" where
  "example_gatt_socket =
     \<lparr>as_poll = (\<lambda>n. ((0, 0), n)), as_peek = (\<lambda>n. (peek.WouldBlock, n)),
      as_recv_now = (\<lambda>n. (None, n)), as_send = (\<lambda>_ p n. (Completed (Inr (length p)), n + 1)),
      as_recv = (\<lambda>_ n. (Completed (Inr [0x13]), n + 10))\<rparr>"

definition example_bluez :: "(nat, nat) bluez" where
  "example_bluez =
     \<lparr>bz_now = (\<lambda>w. w), bz_session = (\<lambda>_ w. (Completed (Inr ()), w)), bz_adapter = (\<lambda>_ w. (Some (), w)),
      bz_is_powered = (\<lambda>_ w. (Completed (Inr True), w)), bz_local_address = (\<lambda>_ w. (Completed (Inr []), w)),
      bz_device = (\<lambda>_ w. (Some (), w)), bz_new_seq_packet = (\<lambda>w. (Some 3, w)), bz_bind = (\<lambda>_ _ w. (Some (), w)),
      bz_set_security = (\<lambda>_ _ _ w. (Some (), w)), bz_connect = (\<lambda>_ _ _ w. (Completed (Inr 0), w)),
      bz_peer_addr = (\<lambda>_ w. (None, w))\<rparr>"

theorem gatt_write_is_exact_witness:
  "\<exists>t'. gatt_execute example_bluez example_gatt_socket BroadcastCommand.Stop
     \<lparr>jt_world = 0, jt_bearer = Some \<lparr>jb_socket = 0, jb_mtu = 500\<rparr>\<rparr> = (Inr (), t') \<and> jt_bearer t' = None"
proof -
  let ?t = "\<lparr>jt_world = 0, jt_bearer = Some \<lparr>jb_socket = 0, jb_mtu = 500\<rparr>\<rparr>"
  let ?e = "gatt_execute example_bluez example_gatt_socket BroadcastCommand.Stop ?t"
  obtain frame where f: "pl_frame BroadcastCommand.Stop = Some frame" "length frame = 18"
    by (simp add: pl_frame_def key_def to_le_bytes16_def)
  have "await_write_response (Suc n) example_gatt_socket d s = (Inr (), s + 10)" for n d s
    by (simp add: receive_def example_gatt_socket_def RECEIVE_BUFFER_SIZE_def classify_write_response_def)
  then have wait: "await_write_response 32 example_gatt_socket d s = (Inr (), s + 10)" for d s
    by (metis eval_nat_numeral(2) eval_nat_numeral(3) numeral_eq_Suc)
  have "fst ?e = Inr ()"
    using f wait
    by (simp add: gatt_execute_def write_and_wait_for_ack_def att_write_packet_def try_bind_def
        send_exact_def MAX_PACKETS_PER_ACTION_def to_le_bytes16_def)
      (simp add: example_gatt_socket_def)
  then obtain t' where e: "?e = (Inr (), t')"
    by (metis prod.collapse)
  from gatt_write_is_exact [OF e] e show ?thesis
    by blast
qed

end
