(* ===== verification/Net.thy ===== *)
theory Net
  imports Text
begin

text \<open>
  Internet addresses as the standard library has them: IPv4 and IPv6 addresses, socket addresses, their
  classification and their text. The GENA observer, the web service and its client share them.
\<close>

datatype Ipv4Addr = Ipv4Addr (octet1: nat) (octet2: nat) (octet3: nat) (octet4: nat)

definition is_unspecified :: "Ipv4Addr \<Rightarrow> bool" where
  "is_unspecified a \<longleftrightarrow> a = Ipv4Addr 0 0 0 0"

definition is_multicast :: "Ipv4Addr \<Rightarrow> bool" where
  "is_multicast a \<longleftrightarrow> 224 \<le> octet1 a \<and> octet1 a \<le> 239"

definition is_loopback :: "Ipv4Addr \<Rightarrow> bool" where
  "is_loopback a \<longleftrightarrow> octet1 a = 127"

definition BROADCAST :: Ipv4Addr where
  "BROADCAST = Ipv4Addr 255 255 255 255"

definition show_ipv4 :: "Ipv4Addr \<Rightarrow> string" where
  "show_ipv4 a = show_nat (octet1 a) @ ''.'' @ show_nat (octet2 a) @ ''.'' @ show_nat (octet3 a) @ ''.''
     @ show_nat (octet4 a)"

text \<open>One part of a dotted address: one to three digits, no leading zero, at most 255.\<close>

definition parse_octet :: "string \<Rightarrow> nat option" where
  "parse_octet s =
     (if s \<noteq> [] \<and> length s \<le> 3 \<and> list_all is_ascii_digit s \<and> (length s = 1 \<or> hd s \<noteq> CHR ''0'')
         \<and> digits_value s \<le> 255
      then Some (digits_value s) else None)"

definition parse_ipv4 :: "string \<Rightarrow> Ipv4Addr option" where
  "parse_ipv4 s =
     (case map parse_octet (split_char CHR ''.'' s) of
        [Some a, Some b, Some c, Some d] \<Rightarrow> Some (Ipv4Addr a b c d)
      | _ \<Rightarrow> None)"

text \<open>An IPv6 address is its eight segments; an address of either family; an address with a port.\<close>

datatype Ipv6Addr = Ipv6Addr (segments: "16 word list")

datatype IpAddr = V4 Ipv4Addr | V6 Ipv6Addr

record SocketAddr =
  sa_ip :: IpAddr
  sa_port :: "16 word"

definition LOCALHOST4 :: Ipv4Addr where
  "LOCALHOST4 = Ipv4Addr 127 0 0 1"

definition LOCALHOST6 :: Ipv6Addr where
  "LOCALHOST6 = Ipv6Addr [0, 0, 0, 0, 0, 0, 0, 1]"

fun ip_is_loopback :: "IpAddr \<Rightarrow> bool" where
  "ip_is_loopback (IpAddr.V4 a) = is_loopback a"
| "ip_is_loopback (IpAddr.V6 a) = (a = LOCALHOST6)"

end
