(* ===== verification/Http_Text.thy ===== *)
theory Http_Text
  imports Text
begin

text \<open>
  Texts the HTTP readers and writers of the program share: decimal numbers in canonical form, splitting at a
  separator, and the shape of a message head. The lemmas say how the splitting functions of the library
  theory \<open>Text\<close> read back what a writer joined.
\<close>

definition CRLF :: string where "CRLF = [CHR 0x0D, CHR 0x0A]"

text \<open>The blank line that ends a head.\<close>

definition HEAD_END :: string where "HEAD_END = CRLF @ CRLF"

text \<open>Digits without a superfluous leading zero.\<close>

definition canonical_digits :: "string \<Rightarrow> bool" where
  "canonical_digits v \<longleftrightarrow>
     v \<noteq> [] \<and> list_all is_ascii_digit v \<and> \<not> (1 < length v \<and> starts_with v ''0'')"

subsection \<open>Decimal numbers\<close>

lemma of_char_digit [simp]: "n < 10 \<Longrightarrow> byte (char_of (48 + n)) = 48 + n"
  by (simp add: of_char_of)

lemma is_ascii_digit_iff: "is_ascii_digit c \<longleftrightarrow> 48 \<le> byte c \<and> byte c \<le> 57"
  by (simp add: is_ascii_digit_def)

lemma digits_value_append: "digits_value (s @ [c]) = 10 * digits_value s + (byte c - 48)"
  by (simp add: digits_value_def)

lemma digits_value_Nil [simp]: "digits_value [] = 0"
  by (simp add: digits_value_def)

lemma show_nat_sel: "show_nat n \<noteq> [] \<and> list_all is_ascii_digit (show_nat n) \<and> digits_value (show_nat n) = n"
proof (induction n rule: show_nat.induct)
  case (1 n)
  show ?case
  proof (cases "n < 10")
    case True
    then show ?thesis
      by (simp add: show_nat.simps [of n] is_ascii_digit_iff digits_value_def)
  next
    case False
    then show ?thesis
      using 1 by (simp add: show_nat.simps [of n] is_ascii_digit_iff digits_value_append)
  qed
qed

lemma show_nat_hd: "0 < n \<Longrightarrow> hd (show_nat n) \<noteq> CHR ''0''"
proof (induction n rule: show_nat.induct)
  case (1 n)
  show ?case
  proof (cases "n < 10")
    case True
    then have "byte (char_of (48 + n)) \<noteq> byte CHR ''0''"
      using 1 by (simp only: of_char_digit) simp
    then have "char_of (48 + n) \<noteq> CHR ''0''"
      by metis
    with True show ?thesis
      by (simp add: show_nat.simps [of n])
  next
    case False
    then have "hd (show_nat (n div 10)) \<noteq> CHR ''0''"
      using 1 by simp
    then show ?thesis
      using False show_nat_sel [of "n div 10"] by (simp add: show_nat.simps [of n])
  qed
qed

lemma show_nat_canonical: "canonical_digits (show_nat n)"
proof -
  have "\<not> (1 < length (show_nat n) \<and> starts_with (show_nat n) ''0'')"
  proof (cases "n = 0")
    case True
    then show ?thesis
      by (simp add: show_nat.simps [of 0])
  next
    case False
    then show ?thesis
      using show_nat_hd [of n] show_nat_sel [of n] by (cases "show_nat n") (auto simp: starts_with_def)
  qed
  then show ?thesis
    using show_nat_sel [of n] by (simp add: canonical_digits_def)
qed

lemma canonical_butlast:
  assumes "canonical_digits (s @ [c])" and "s \<noteq> []"
  shows "canonical_digits s \<and> 0 < digits_value s"
proof -
  have s: "list_all is_ascii_digit s" "hd s \<noteq> CHR ''0''"
    using assms by (cases s; simp add: canonical_digits_def starts_with_def)+
  have pos: "list_all is_ascii_digit t \<Longrightarrow> t \<noteq> [] \<Longrightarrow> hd t \<noteq> CHR ''0'' \<Longrightarrow> 0 < digits_value t" for t
  proof (induction t rule: rev_induct)
    case (snoc d t)
    show ?case
    proof (cases "t = []")
      case True
      with snoc have "d \<noteq> CHR ''0''"
        by simp
      then have "byte d \<noteq> byte CHR ''0''"
        by (simp only: of_char_eq_iff not_False_eq_True)
      with snoc True show ?thesis
        by (simp add: digits_value_def is_ascii_digit_iff)
    next
      case False
      with snoc show ?thesis
        by (simp add: digits_value_append)
    qed
  qed simp
  show ?thesis
    using s pos [of s] assms(2) by (cases s) (auto simp: canonical_digits_def starts_with_def)
qed

lemma show_digits_value: "canonical_digits v \<Longrightarrow> show_nat (digits_value v) = v"
proof (induction v rule: rev_induct)
  case (snoc c s)
  have c: "48 \<le> byte c" "byte c \<le> 57"
    using snoc.prems by (simp_all add: canonical_digits_def is_ascii_digit_iff)
  show ?case
  proof (cases "s = []")
    case True
    moreover have "byte c - 48 < 10"
      using c by linarith
    ultimately show ?thesis
      using c by (simp add: digits_value_def show_nat.simps [of "byte c - 48"])
  next
    case False
    then have s: "canonical_digits s" "0 < digits_value s"
      using canonical_butlast snoc.prems by blast+
    define d where "d = byte c - 48"
    have d: "d < 10"
      unfolding d_def using c by linarith
    have n: "digits_value (s @ [c]) div 10 = digits_value s" "digits_value (s @ [c]) mod 10 = byte c - 48"
      unfolding digits_value_append d_def [symmetric] using d by simp_all
    have "\<not> digits_value (s @ [c]) < 10"
      using s by (simp add: digits_value_append)
    then have "show_nat (digits_value (s @ [c])) = show_nat (digits_value s) @ [char_of (48 + (byte c - 48))]"
      by (simp add: show_nat.simps [of "digits_value (s @ [c])"] n)
    with c s snoc.IH show ?thesis
      by simp
  qed
qed (simp add: canonical_digits_def)

lemma digit_not_plus: "is_ascii_digit c \<Longrightarrow> c \<noteq> CHR ''+''"
  by (auto simp: is_ascii_digit_iff)

lemma parse_unsigned_digits:
  "v \<noteq> [] \<Longrightarrow> list_all is_ascii_digit v \<Longrightarrow>
     parse_unsigned m v = (if digits_value v \<le> m then Some (digits_value v) else None)"
  by (cases v) (auto simp: parse_unsigned_def Let_def digit_not_plus)

lemma parse_unsigned_show: "n \<le> m \<Longrightarrow> parse_unsigned m (show_nat n) = Some n"
  using show_nat_sel [of n] by (simp add: parse_unsigned_digits)

lemma parse_unsigned_canonical:
  "canonical_digits v \<Longrightarrow> parse_unsigned m v = Some n \<longleftrightarrow> v = show_nat n \<and> n \<le> m"
  using show_digits_value [of v] show_nat_sel [of n]
  by (auto simp: parse_unsigned_digits canonical_digits_def split: if_splits)

subsection \<open>Splitting\<close>

lemma split_once_append: "c \<notin> set a \<Longrightarrow> split_once c (a @ c # b) = Some (a, b)"
  by (induction a) auto

lemma split_once_None: "c \<notin> set a \<Longrightarrow> split_once c a = None"
  by (induction a) auto

lemma split_once_Some: "split_once c s = Some (a, b) \<longleftrightarrow> s = a @ c # b \<and> c \<notin> set a"
proof
  show "split_once c s = Some (a, b) \<Longrightarrow> s = a @ c # b \<and> c \<notin> set a"
    by (induction s arbitrary: a) (auto split: if_splits)
qed (simp add: split_once_append)

lemma rsplit_once_append: "c \<notin> set b \<Longrightarrow> rsplit_once c (a @ c # b) = Some (a, b)"
  by (simp add: rsplit_once_def split_once_append)

lemma split_char_nonempty: "split_char c s \<noteq> []"
  by (induction s) (auto split: list.splits)

lemma split_char_append: "c \<notin> set a \<Longrightarrow> split_char c (a @ c # b) = a # split_char c b"
  by (induction a) auto

lemma split_char_none: "c \<notin> set a \<Longrightarrow> split_char c a = [a]"
  by (induction a) auto

lemma split_crlf_nonempty: "split_crlf s \<noteq> []"
  by (induction s rule: split_crlf.induct) (auto split: list.splits)

lemma split_crlf_none: "CHR 0x0D \<notin> set a \<Longrightarrow> split_crlf a = [a]"
  by (induction a rule: split_crlf.induct) auto

lemma split_crlf_append: "CHR 0x0D \<notin> set a \<Longrightarrow> split_crlf (a @ CRLF @ b) = a # split_crlf b"
proof (induction a)
  case Nil
  show ?case by (simp add: CRLF_def)
next
  case (Cons x a)
  show ?case
  proof (cases a)
    case Nil
    with Cons show ?thesis
      by (simp add: CRLF_def)
  next
    case (Cons y ys)
    with Cons.IH Cons.prems show ?thesis
      by auto
  qed
qed

subsection \<open>Message heads\<close>

fun join_crlf :: "string list \<Rightarrow> string" where
  "join_crlf [] = []"
| "join_crlf [l] = l"
| "join_crlf (l # m # ls) = l @ CRLF @ join_crlf (m # ls)"

lemma split_crlf_join:
  "ls \<noteq> [] \<Longrightarrow> list_all (\<lambda>l. CHR 0x0D \<notin> set l) ls \<Longrightarrow> split_crlf (join_crlf ls) = ls"
  by (induction ls rule: join_crlf.induct) (auto simp: split_crlf_none split_crlf_append)

lemma find_subslice_bound: "find_subslice s needle = Some i \<Longrightarrow> i + length needle \<le> length s"
  by (induction s arbitrary: i) (auto simp: starts_with_def split: if_splits dest: arg_cong [of _ _ length])

lemma find_head_end_skip:
  "CHR 0x0D \<notin> set a \<Longrightarrow>
     find_subslice (a @ s) HEAD_END = map_option (\<lambda>i. length a + i) (find_subslice s HEAD_END)"
proof (induction a)
  case Nil
  show ?case
    by (simp add: option.map_id0 flip: id_def)
next
  case (Cons x a)
  then have "\<not> starts_with (x # a @ s) HEAD_END"
    by (auto simp: starts_with_def HEAD_END_def CRLF_def)
  with Cons show ?case
    by (simp add: option.map_comp comp_def)
qed

lemma find_head_end_here: "find_subslice (HEAD_END @ s) HEAD_END = Some 0"
  by (simp add: HEAD_END_def CRLF_def starts_with_def)

lemma find_head_end_crlf:
  "l \<noteq> [] \<Longrightarrow> hd l \<noteq> CHR 0x0D \<Longrightarrow>
     find_subslice (CRLF @ l @ s) HEAD_END = map_option (\<lambda>i. 2 + i) (find_subslice (l @ s) HEAD_END)"
  by (cases l) (auto simp: starts_with_def HEAD_END_def CRLF_def option.map_comp comp_def)

lemma find_head_end:
  assumes "ls \<noteq> []" and "list_all (\<lambda>l. l \<noteq> [] \<and> CHR 0x0D \<notin> set l) ls"
  shows "find_subslice (join_crlf ls @ HEAD_END @ body) HEAD_END = Some (length (join_crlf ls))"
  using assms
proof (induction ls rule: join_crlf.induct)
  case (2 l)
  then show ?case
    by (simp add: find_head_end_skip find_head_end_here)
next
  case (3 l m ls)
  obtain t where t: "join_crlf (m # ls) = m @ t"
    by (cases ls) auto
  have "hd m \<noteq> CHR 0x0D"
    using 3 by (cases m) auto
  then have "find_subslice (CRLF @ join_crlf (m # ls) @ HEAD_END @ body) HEAD_END =
      Some (2 + length (join_crlf (m # ls)))"
    using 3 find_head_end_crlf [of m "t @ HEAD_END @ body"] t by (auto simp del: find_subslice.simps)
  with 3 show ?case
    by (simp add: find_head_end_skip CRLF_def)
qed simp

lemma find_subslice_append:
  assumes "find_subslice s needle = Some i"
  shows "find_subslice (s @ t) needle = Some i"
  using assms
proof (induction s arbitrary: i)
  case (Cons c s)
  show ?case
  proof (cases "starts_with (c # s) needle")
    case True
    then have "starts_with ((c # s) @ t) needle"
      by (metis append.assoc append_take_drop_id starts_with_append starts_with_def)
    with True Cons.prems show ?thesis
      by simp
  next
    case False
    then obtain j where j: "find_subslice s needle = Some j" "i = Suc j"
      using Cons.prems by auto
    then have "length needle \<le> length s"
      using find_subslice_bound by fastforce
    then have "\<not> starts_with ((c # s) @ t) needle"
      using False take_append [of "length needle" "c # s" t] by (simp add: starts_with_def)
    with j Cons.IH show ?thesis
      by simp
  qed
qed simp

end
