(* ===== verification/Gena.thy ===== *)
theory Gena
  imports Model Net Http_Text
begin

text \<open>
  The observer of the broadcaster's business result (\<open>rust/src/broadcast_gena.rs\<close>): one UPnP event
  subscription with a fresh callback path, a bounded HTTP reader, the checks a callback has to pass, and
  the bounded readers of its XML and JSON body.

  The sockets, the clock and the random bytes are the record \<open>gena_net\<close> of operations on one world
  state; the program uses one stream at a time, so reads and writes act on the stream opened last. The XML
  and JSON libraries are two functions of that record, from text to the tree the code inspects.
\<close>

subsection \<open>Vocabulary\<close>

datatype GenaAction = Start | Stop

datatype GenaFailure =
    InvalidConfiguration | RouteUnavailable | ListenerUnavailable | SubscriptionUnavailable
  | InvalidSubscription | CallbackTimedOut | InvalidCallback | BusinessRejected | CleanupFailed

definition EVENT_PORT :: "16 word" where "EVENT_PORT = 59152"
definition EVENT_PATH :: string where "EVENT_PATH = ''/upnp/event/rendercontrol1''"
definition EVENT_NAMESPACE :: string where "EVENT_NAMESPACE = ''urn:schemas-upnp-org:event-1-0''"
definition CONNECT_TIMEOUT :: duration where "CONNECT_TIMEOUT = from_secs 2"
definition BUSINESS_TIMEOUT :: duration where "BUSINESS_TIMEOUT = from_secs 15"
definition SUBSCRIPTION_SECONDS :: nat where "SUBSCRIPTION_SECONDS = 30"
definition MAX_HEADER_BYTES :: nat where "MAX_HEADER_BYTES = 16 * 1024"
definition MAX_HEADER_COUNT :: nat where "MAX_HEADER_COUNT = 64"
definition MAX_BODY_BYTES :: nat where "MAX_BODY_BYTES = 64 * 1024"
definition MAX_CALLBACKS :: nat where "MAX_CALLBACKS = 64"
definition MAX_XML_NODES :: nat where "MAX_XML_NODES = 256"
definition MAX_XML_DEPTH :: nat where "MAX_XML_DEPTH = 16"
definition MAX_XML_TEXT_BYTES :: nat where "MAX_XML_TEXT_BYTES = 64 * 1024"
definition MAX_JSON_NODES :: nat where "MAX_JSON_NODES = 256"
definition MAX_JSON_DEPTH :: nat where "MAX_JSON_DEPTH = 16"
definition MAX_JSON_KEY_BYTES :: nat where "MAX_JSON_KEY_BYTES = 128"
definition MAX_SID_BYTES :: nat where "MAX_SID_BYTES = 256"
definition MIN_CALLBACK_PORT :: "16 word" where "MIN_CALLBACK_PORT = 1024"
definition CALLBACK_PREFIX :: string where "CALLBACK_PREFIX = ''/jbl-aura-event/''"
definition NOTIFICATION_COMMAND :: string where
  "NOTIFICATION_COMMAND = ''notifyDeviceAuracastBroadcastInfo''"

definition USIZE_MAX :: nat where "USIZE_MAX = 2 ^ 64 - 1"

subsection \<open>HTTP heads\<close>

datatype MessageKind = Request | Response

datatype StartLine = RequestLine (sl_method: string) (sl_target: string) | StatusLine nat

record HttpMessage =
  hm_start_line :: StartLine
  hm_headers :: "(string \<times> string) list"
  hm_body :: string

fun status :: "HttpMessage \<Rightarrow> nat option" where
  "status m = (case hm_start_line m of StatusLine s \<Rightarrow> Some s | RequestLine _ _ \<Rightarrow> None)"

definition header :: "HttpMessage \<Rightarrow> string \<Rightarrow> string option" where
  "header m name = map_of (hm_headers m) name"

definition is_http_token_byte :: "char \<Rightarrow> bool" where
  "is_http_token_byte c \<longleftrightarrow> is_ascii_alphanumeric c \<or> c \<in> set ''!#$%&*+-.^_`|~'' \<or> byte c = 0x27"

definition control_byte :: "char \<Rightarrow> bool" where
  "control_byte c \<longleftrightarrow> byte c = 0x7F \<or> (byte c < 0x20 \<and> byte c \<noteq> 0x09)"

definition parse_decimal_usize :: "string \<Rightarrow> (GenaFailure, nat) result" where
  "parse_decimal_usize value =
     (if value = [] \<or> \<not> list_all is_ascii_digit value then Inl GenaFailure.InvalidCallback
      else ok_or GenaFailure.InvalidCallback (parse_unsigned USIZE_MAX value))"

definition parse_start_line :: "string \<Rightarrow> MessageKind \<Rightarrow> (GenaFailure, StartLine) result" where
  "parse_start_line line kind =
     (case kind of
        MessageKind.Request \<Rightarrow>
          (case split_char CHR '' '' line of
             [method, target, version] \<Rightarrow>
               (if method = [] \<or> target = [] \<or> version \<noteq> ''HTTP/1.1'' \<or> \<not> list_all is_http_token_byte method
                then Inl GenaFailure.InvalidCallback else Inr (RequestLine method target))
           | _ \<Rightarrow> Inl GenaFailure.InvalidCallback)
      | MessageKind.Response \<Rightarrow>
          (case split_once CHR '' '' line of
             None \<Rightarrow> Inl GenaFailure.InvalidCallback
           | Some (version, rest) \<Rightarrow>
               (if version \<noteq> ''HTTP/1.1'' then Inl GenaFailure.InvalidCallback
                else
                  let (code, reason) = (case split_once CHR '' '' rest of
                                          None \<Rightarrow> (rest, None) | Some (c, r) \<Rightarrow> (c, Some r))
                  in if length code \<noteq> 3 \<or> \<not> list_all is_ascii_digit code then Inl GenaFailure.InvalidCallback
                     else case parse_unsigned 65535 code of
                         None \<Rightarrow> Inl GenaFailure.InvalidCallback
                       | Some s \<Rightarrow>
                           if \<not> (100 \<le> s \<and> s \<le> 599) then Inl GenaFailure.InvalidCallback
                           else if (case reason of None \<Rightarrow> False | Some r \<Rightarrow> list_ex control_byte r)
                           then Inl GenaFailure.InvalidCallback
                           else Inr (StatusLine s))))"

fun parse_headers ::
  "nat \<Rightarrow> string list \<Rightarrow> (string \<times> string) list \<Rightarrow> (GenaFailure, (string \<times> string) list) result" where
  "parse_headers index [] headers = Inr headers"
| "parse_headers index (line # lines) headers =
     (if index \<ge> MAX_HEADER_COUNT \<or> line = [] \<or> hd line = CHR '' '' \<or> hd line = CHR 0x09
      then Inl GenaFailure.InvalidCallback
      else case split_once CHR '':'' line of
          None \<Rightarrow> Inl GenaFailure.InvalidCallback
        | Some (name, value) \<Rightarrow>
            if name = [] \<or> \<not> list_all is_http_token_byte name then Inl GenaFailure.InvalidCallback
            else
              let value = trim_matches {CHR '' '', CHR 0x09} value
              in if list_ex control_byte value then Inl GenaFailure.InvalidCallback
                 else if map_of headers (to_ascii_lowercase name) \<noteq> None
                 then Inl GenaFailure.InvalidCallback
                 else parse_headers (Suc index) lines ((to_ascii_lowercase name, value) # headers))"

definition parse_http_head ::
  "string \<Rightarrow> MessageKind \<Rightarrow> bool
    \<Rightarrow> (GenaFailure, StartLine \<times> (string \<times> string) list \<times> nat) result" where
  "parse_http_head bytes kind content_length_required =
     (if \<not> utf8_valid bytes then Inl GenaFailure.InvalidCallback
      else case split_crlf bytes of
          [] \<Rightarrow> Inl GenaFailure.InvalidCallback
        | first # lines \<Rightarrow>
            and_then (parse_start_line first kind) (\<lambda>start_line.
            and_then (parse_headers 0 lines []) (\<lambda>headers.
              if map_of headers ''transfer-encoding'' \<noteq> None then Inl GenaFailure.InvalidCallback
              else and_then (case map_of headers ''content-length'' of
                               Some value \<Rightarrow> parse_decimal_usize value
                             | None \<Rightarrow> if content_length_required then Inl GenaFailure.InvalidCallback
                                       else Inr 0) (\<lambda>content_length.
                     if content_length > MAX_BODY_BYTES then Inl GenaFailure.InvalidCallback
                     else Inr (start_line, headers, content_length)))))"

subsection \<open>Event bodies\<close>

text \<open>
  A parsed XML document: what stands before the root element, the root element, and what stands after.
  The attributes of an element are those without a namespace; markup is a comment or a processing
  instruction.
\<close>

datatype xml =
    Element (tag_name: string) (namespace: "string option") (attributes: "(string \<times> string) list")
      (children: "xml list")
  | TextNode string
  | Markup

type_synonym Document = "xml list \<times> xml \<times> xml list"

definition is_element :: "xml \<Rightarrow> bool" where
  "is_element n \<longleftrightarrow> (case n of Element _ _ _ _ \<Rightarrow> True | _ \<Rightarrow> False)"

fun node_children :: "xml \<Rightarrow> xml list" where
  "node_children (Element _ _ _ cs) = cs"
| "node_children _ = []"

fun node_name :: "xml \<Rightarrow> string" where
  "node_name (Element n _ _ _) = n"
| "node_name _ = []"

text \<open>The text of a node; of an element, the text of its first child if that is a text node.\<close>

fun node_text :: "xml \<Rightarrow> string option" where
  "node_text (Element _ _ _ (TextNode t # _)) = Some t"
| "node_text (Element _ _ _ _) = None"
| "node_text (TextNode t) = Some t"
| "node_text Markup = None"

fun node_attribute :: "xml \<Rightarrow> string \<Rightarrow> string option" where
  "node_attribute (Element _ _ as _) name = map_of as name"
| "node_attribute _ name = None"

text \<open>A node and all below it in document order, each with the number of elements from the root to it.\<close>

fun descendants :: "nat \<Rightarrow> xml \<Rightarrow> (xml \<times> nat) list" where
  "descendants d (Element n ns as cs) =
     (Element n ns as cs, Suc d) # concat (map (descendants (Suc d)) cs)"
| "descendants d (TextNode t) = [(TextNode t, d)]"
| "descendants d Markup = [(Markup, d)]"

definition checked_usize_add :: "nat \<Rightarrow> nat \<Rightarrow> (GenaFailure, nat) result" where
  "checked_usize_add a b = (if a + b \<le> USIZE_MAX then Inr (a + b) else Inl GenaFailure.InvalidCallback)"

fun xml_limits :: "(xml \<times> nat) list \<Rightarrow> nat \<Rightarrow> nat \<Rightarrow> (GenaFailure, unit) result" where
  "xml_limits [] nodes text_bytes = Inr ()"
| "xml_limits ((node, depth) # rest) nodes text_bytes =
     and_then (checked_usize_add nodes 1) (\<lambda>nodes.
       if nodes > MAX_XML_NODES \<or> depth > MAX_XML_DEPTH then Inl GenaFailure.InvalidCallback
       else case node of
           TextNode t \<Rightarrow>
             and_then (checked_usize_add text_bytes (length t)) (\<lambda>text_bytes.
               if text_bytes > MAX_XML_TEXT_BYTES then Inl GenaFailure.InvalidCallback
               else xml_limits rest nodes text_bytes)
         | _ \<Rightarrow> xml_limits rest nodes text_bytes)"

text \<open>The walk starts at the document node, which is neither an element nor text.\<close>

definition validate_xml_limits :: "Document \<Rightarrow> (GenaFailure, unit) result" where
  "validate_xml_limits document =
     (case document of (before, root, after) \<Rightarrow>
        xml_limits ((Markup, 0) # concat (map (descendants 0) (before @ root # after))) 0 0)"

definition parse_bounded_xml :: "(string \<Rightarrow> Document option) \<Rightarrow> string \<Rightarrow> (GenaFailure, Document) result" where
  "parse_bounded_xml document_parse text =
     (if length text > MAX_BODY_BYTES \<or> contains_str text ''<!DOCTYPE'' \<or> contains_str text ''<!doctype''
         \<or> contains_str text ''<!ENTITY'' \<or> contains_str text ''<!entity''
      then Inl GenaFailure.InvalidCallback
      else and_then (ok_or GenaFailure.InvalidCallback (document_parse text)) (\<lambda>document.
           and_then (validate_xml_limits document) (\<lambda>_. Inr document)))"

fun visit :: "Value \<Rightarrow> nat \<Rightarrow> nat \<times> nat \<Rightarrow> (GenaFailure, nat \<times> nat) result"
and visit_values :: "Value list \<Rightarrow> nat \<Rightarrow> nat \<times> nat \<Rightarrow> (GenaFailure, nat \<times> nat) result"
and visit_entries :: "(string \<times> Value) list \<Rightarrow> nat \<Rightarrow> nat \<times> nat \<Rightarrow> (GenaFailure, nat \<times> nat) result" where
  "visit value depth (nodes, text_bytes) =
     and_then (checked_usize_add nodes 1) (\<lambda>nodes.
       if depth > MAX_JSON_DEPTH \<or> nodes > MAX_JSON_NODES then Inl GenaFailure.InvalidCallback
       else and_then
         (case value of
            JString t \<Rightarrow> and_then (checked_usize_add text_bytes (length t)) (\<lambda>text_bytes. Inr (nodes, text_bytes))
          | JArray values \<Rightarrow> visit_values values (depth + 1) (nodes, text_bytes)
          | JObject entries \<Rightarrow> visit_entries entries (depth + 1) (nodes, text_bytes)
          | _ \<Rightarrow> Inr (nodes, text_bytes)) (\<lambda>(nodes, text_bytes).
         if text_bytes > MAX_BODY_BYTES then Inl GenaFailure.InvalidCallback else Inr (nodes, text_bytes)))"
| "visit_values [] depth counts = Inr counts"
| "visit_values (value # values) depth counts =
     and_then (visit value depth counts) (visit_values values depth)"
| "visit_entries [] depth counts = Inr counts"
| "visit_entries ((key, value) # entries) depth (nodes, text_bytes) =
     (if length key > MAX_JSON_KEY_BYTES then Inl GenaFailure.InvalidCallback
      else and_then (checked_usize_add text_bytes (length key)) (\<lambda>text_bytes.
           and_then (visit value depth (nodes, text_bytes)) (visit_entries entries depth)))"

definition validate_json_limits :: "Value \<Rightarrow> (GenaFailure, unit) result" where
  "validate_json_limits value = and_then (visit value 1 (0, 0)) (\<lambda>_. Inr ())"

definition or_else :: "'a option \<Rightarrow> 'a option \<Rightarrow> 'a option" where
  "or_else a b = (case a of None \<Rightarrow> b | Some _ \<Rightarrow> a)"

definition extract_info_action_code :: "Value \<Rightarrow> (GenaFailure, int) result" where
  "extract_info_action_code value =
     (case Option.bind (Option.bind (get ''info'' value) (get ''action_code''))
             (\<lambda>v. case v of JNumber n \<Rightarrow> as_i64 n | _ \<Rightarrow> None) of
        None \<Rightarrow> Inl GenaFailure.InvalidCallback
      | Some action_code \<Rightarrow>
          if \<not> (0 \<le> action_code \<and> action_code \<le> 255) then Inl GenaFailure.InvalidCallback
          else Inr action_code)"

definition unwrap_or :: "'a option \<Rightarrow> 'a \<Rightarrow> 'a" where
  "unwrap_or x d = (case x of None \<Rightarrow> d | Some v \<Rightarrow> v)"

definition extract_payload_action_code ::
  "(string \<Rightarrow> Value option) \<Rightarrow> Value \<Rightarrow> (GenaFailure, int) result" where
  "extract_payload_action_code from_str payload =
     (case payload of
        JString text \<Rightarrow>
          (if text = [] \<or> length text > MAX_BODY_BYTES then Inl GenaFailure.InvalidCallback
           else and_then (ok_or GenaFailure.InvalidCallback (from_str text)) (\<lambda>parsed.
                and_then (validate_json_limits parsed) (\<lambda>_.
                  extract_info_action_code (unwrap_or (get NOTIFICATION_COMMAND parsed) parsed))))
      | JObject _ \<Rightarrow> extract_info_action_code (unwrap_or (get NOTIFICATION_COMMAND payload) payload)
      | _ \<Rightarrow> Inl GenaFailure.InvalidCallback)"

definition parse_notification_json ::
  "(string \<Rightarrow> Value option) \<Rightarrow> string \<Rightarrow> (GenaFailure, int option) result" where
  "parse_notification_json from_str text =
     (if text = [] \<or> length text > MAX_BODY_BYTES then Inl GenaFailure.InvalidCallback
      else
        and_then (ok_or GenaFailure.InvalidCallback (from_str text)) (\<lambda>value.
        and_then (validate_json_limits value) (\<lambda>_.
          let root = unwrap_or (get ''UpnpNotifyPassThrough'' value) value in
        and_then (ok_or GenaFailure.InvalidCallback
                    (or_else (get ''pass_through'' root) (get ''passThrough'' root))) (\<lambda>pass_through.
        and_then (ok_or GenaFailure.InvalidCallback
                    (or_else (get ''pass_string'' pass_through) (get ''passString'' pass_through))) (\<lambda>pass_string.
        and_then (ok_or GenaFailure.InvalidCallback
                    (Option.bind (get ''command'' pass_string) as_str)) (\<lambda>command.
          if command \<noteq> NOTIFICATION_COMMAND then Inr None
          else case get ''payload'' pass_string of
              Some payload \<Rightarrow> and_then (extract_payload_action_code from_str payload) (\<lambda>c. Inr (Some c))
            | None \<Rightarrow>
                and_then (ok_or GenaFailure.InvalidCallback (get NOTIFICATION_COMMAND pass_string)) (\<lambda>info.
                and_then (extract_info_action_code info) (\<lambda>c. Inr (Some c)))))))))"

fun merge_action_code :: "int option \<Rightarrow> int option \<Rightarrow> (GenaFailure, int option) result" where
  "merge_action_code target None = Inr target"
| "merge_action_code None (Some candidate) = Inr (Some candidate)"
| "merge_action_code (Some _) (Some candidate) = Inl GenaFailure.InvalidCallback"

definition node_payload :: "xml \<Rightarrow> (GenaFailure, string) result" where
  "node_payload node =
     (let element_child = list_ex is_element (node_children node);
          attributed = (\<lambda>value. if element_child \<or> length value > MAX_XML_TEXT_BYTES
                                 then Inl GenaFailure.InvalidCallback else Inr (trim value))
      in case (node_attribute node ''val'', node_attribute node ''value'') of
           (Some _, Some _) \<Rightarrow> Inl GenaFailure.InvalidCallback
         | (Some value, None) \<Rightarrow> attributed value
         | (None, Some value) \<Rightarrow> attributed value
         | (None, None) \<Rightarrow>
             if element_child then Inl GenaFailure.InvalidCallback
             else and_then (ok_or GenaFailure.InvalidCallback (node_text node)) (\<lambda>text.
                    if trim text = [] \<or> length (trim text) > MAX_XML_TEXT_BYTES
                    then Inl GenaFailure.InvalidCallback else Inr (trim text)))"

fun collect_text :: "xml list \<Rightarrow> string \<Rightarrow> (GenaFailure, string) result" where
  "collect_text [] text = Inr text"
| "collect_text (Element _ _ _ _ # rest) text = Inl GenaFailure.InvalidCallback"
| "collect_text (TextNode t # rest) text =
     (if min (length text + length t) USIZE_MAX > MAX_XML_TEXT_BYTES then Inl GenaFailure.InvalidCallback
      else collect_text rest (text @ t))"
| "collect_text (Markup # rest) text = collect_text rest text"

definition collect_direct_text :: "xml \<Rightarrow> (GenaFailure, string) result" where
  "collect_direct_text node = collect_text (node_children node) []"

definition parse_pass_through_node ::
  "(string \<Rightarrow> Value option) \<Rightarrow> xml \<Rightarrow> (GenaFailure, int option) result" where
  "parse_pass_through_node from_str node = and_then (node_payload node) (parse_notification_json from_str)"

fun merge_nodes ::
  "(xml \<Rightarrow> (GenaFailure, int option) result) \<Rightarrow> xml list \<Rightarrow> int option \<Rightarrow> (GenaFailure, int option) result" where
  "merge_nodes f [] result = Inr result"
| "merge_nodes f (node # nodes) result =
     and_then (f node) (\<lambda>candidate. and_then (merge_action_code result candidate) (merge_nodes f nodes))"

definition is_pass_through :: "string \<Rightarrow> bool" where
  "is_pass_through name \<longleftrightarrow> name = ''UpnpNotifyPassThrough'' \<or> name = ''PassThrough''"

definition inspect_nested_pass_through ::
  "(string \<Rightarrow> Value option) \<Rightarrow> xml \<Rightarrow> (GenaFailure, int option) result" where
  "inspect_nested_pass_through from_str root =
     merge_nodes (parse_pass_through_node from_str)
       (filter (\<lambda>n. is_element n \<and> is_pass_through (node_name n)) (map fst (descendants 0 root))) None"

definition parse_last_change_node ::
  "(string \<Rightarrow> Document option) \<Rightarrow> (string \<Rightarrow> Value option) \<Rightarrow> xml \<Rightarrow> (GenaFailure, int option) result" where
  "parse_last_change_node document_parse from_str node =
     (if list_ex is_element (node_children node) then inspect_nested_pass_through from_str node
      else and_then (collect_direct_text node) (\<lambda>text.
        let trimmed = trim text
        in if trimmed = [] then Inr None
           else if starts_with trimmed ''{'' then parse_notification_json from_str trimmed
           else if \<not> starts_with trimmed ''<'' then Inr None
           else and_then (parse_bounded_xml document_parse trimmed) (\<lambda>(_, root, _).
                  inspect_nested_pass_through from_str root)))"

text \<open>One property of the property set: exactly one element inside, read by its name.\<close>

definition parse_property ::
  "(string \<Rightarrow> Document option) \<Rightarrow> (string \<Rightarrow> Value option) \<Rightarrow> xml \<Rightarrow> (GenaFailure, int option) result" where
  "parse_property document_parse from_str property =
     (if node_name property \<noteq> ''property'' then Inl GenaFailure.InvalidCallback
      else case filter is_element (node_children property) of
          [value] \<Rightarrow>
            (if is_pass_through (node_name value) then parse_pass_through_node from_str value
             else if node_name value = ''LastChange'' then parse_last_change_node document_parse from_str value
             else Inr None)
        | _ \<Rightarrow> Inl GenaFailure.InvalidCallback)"

definition parse_event_body ::
  "(string \<Rightarrow> Document option) \<Rightarrow> (string \<Rightarrow> Value option) \<Rightarrow> string \<Rightarrow> (GenaFailure, int option) result" where
  "parse_event_body document_parse from_str body =
     (if \<not> utf8_valid body then Inl GenaFailure.InvalidCallback
      else and_then (parse_bounded_xml document_parse body) (\<lambda>(_, root, _).
        if node_name root \<noteq> ''propertyset''
           \<or> (case root of Element _ ns _ _ \<Rightarrow> ns | _ \<Rightarrow> None) \<noteq> Some EVENT_NAMESPACE
        then Inl GenaFailure.InvalidCallback
        else merge_nodes (parse_property document_parse from_str)
               (filter is_element (node_children root)) None))"

subsection \<open>Callbacks\<close>

datatype CallbackOutcome = Confirmed | Rejected | Pending

text \<open>Event keys count up from whatever came first and roll from the largest to one.\<close>

definition sequence_is_next :: "32 word option \<Rightarrow> 32 word \<Rightarrow> bool" where
  "sequence_is_next previous next =
     (case previous of
        None \<Rightarrow> True
      | Some p \<Rightarrow> if p = - 1 then next = 1 else next = p + 1)"

definition header_eq_ignore_ascii_case :: "string option \<Rightarrow> string \<Rightarrow> bool" where
  "header_eq_ignore_ascii_case value expected \<longleftrightarrow>
     (case value of None \<Rightarrow> False | Some v \<Rightarrow> eq_ignore_ascii_case v expected)"

fun reduce_action :: "GenaAction \<Rightarrow> int option \<Rightarrow> CallbackOutcome" where
  "reduce_action action None = CallbackOutcome.Pending"
| "reduce_action action (Some code) =
     (if action = GenaAction.Start \<and> code = 33 \<or> action = GenaAction.Stop \<and> code = 34
      then CallbackOutcome.Confirmed
      else if action = GenaAction.Start \<and> code = 31 \<or> action = GenaAction.Stop \<and> code = 32
      then CallbackOutcome.Rejected
      else CallbackOutcome.Pending)"

definition content_type_is_xml :: "string option \<Rightarrow> bool" where
  "content_type_is_xml content_type \<longleftrightarrow>
     (case content_type of
        None \<Rightarrow> True
      | Some value \<Rightarrow>
          (let media_type = trim (hd (split_char CHR '';'' value))
           in eq_ignore_ascii_case media_type ''text/xml''
              \<or> eq_ignore_ascii_case media_type ''application/xml''))"

definition parse_seq :: "string option \<Rightarrow> (GenaFailure, 32 word) result" where
  "parse_seq seq_header =
     and_then (ok_or GenaFailure.InvalidCallback seq_header) (\<lambda>seq_text.
       if seq_text = [] \<or> \<not> list_all is_ascii_digit seq_text then Inl GenaFailure.InvalidCallback
       else and_then (ok_or GenaFailure.InvalidCallback (parse_unsigned (2 ^ 32 - 1) seq_text)) (\<lambda>n.
              Inr (of_nat n)))"

definition validate_callback ::
  "(string \<Rightarrow> Document option) \<Rightarrow> (string \<Rightarrow> Value option) \<Rightarrow> HttpMessage \<Rightarrow> string \<Rightarrow> string
    \<Rightarrow> GenaAction \<Rightarrow> (32 word option, GenaFailure, CallbackOutcome) fallible" where
  "validate_callback document_parse from_str request path sid action last_seq =
     (case hm_start_line request of
        StatusLine _ \<Rightarrow> (Inl GenaFailure.InvalidCallback, last_seq)
      | RequestLine method target \<Rightarrow>
          if method \<noteq> ''NOTIFY'' \<or> target \<noteq> path then (Inl GenaFailure.InvalidCallback, last_seq)
          else if header request ''sid'' \<noteq> Some sid
            \<or> \<not> header_eq_ignore_ascii_case (header request ''nt'') ''upnp:event''
            \<or> \<not> header_eq_ignore_ascii_case (header request ''nts'') ''upnp:propchange''
          then (Inl GenaFailure.InvalidCallback, last_seq)
          else if \<not> content_type_is_xml (header request ''content-type'')
          then (Inl GenaFailure.InvalidCallback, last_seq)
          else (case parse_seq (header request ''seq'') of
              Inl e \<Rightarrow> (Inl e, last_seq)
            | Inr seq \<Rightarrow>
                if \<not> sequence_is_next last_seq seq then (Inl GenaFailure.InvalidCallback, last_seq)
                else (case parse_event_body document_parse from_str (hm_body request) of
                    Inl e \<Rightarrow> (Inl e, last_seq)
                  | Inr action_code \<Rightarrow> (Inr (reduce_action action action_code), Some seq))))"

definition valid_sid :: "string \<Rightarrow> bool" where
  "valid_sid sid \<longleftrightarrow>
     length sid \<le> MAX_SID_BYTES \<and> length sid > length ''uuid:'' \<and> starts_with sid ''uuid:''
     \<and> list_all (\<lambda>c. 0x21 \<le> byte c \<and> byte c \<le> 0x7E) sid \<and> \<not> list_ex (\<lambda>c. c \<in> set ''<>,;'') sid"

definition valid_subscription_timeout :: "string \<Rightarrow> bool" where
  "valid_subscription_timeout timeout \<longleftrightarrow>
     (case Option.bind (strip_prefix timeout ''Second-'') (parse_unsigned 65535) of
        None \<Rightarrow> False
      | Some seconds \<Rightarrow> 1 \<le> seconds \<and> seconds \<le> SUBSCRIPTION_SECONDS)"

subsection \<open>The network\<close>

datatype accepted = Peer "Ipv4Addr option" | NothingWaiting | AcceptError

record 'w gena_net =
  gn_now :: "'w \<Rightarrow> nat"
  gn_udp_bind :: "'w \<Rightarrow> bool \<times> 'w"
  gn_udp_connect :: "Ipv4Addr \<Rightarrow> 16 word \<Rightarrow> 'w \<Rightarrow> bool \<times> 'w"
  gn_udp_local_addr :: "'w \<Rightarrow> Ipv4Addr option option \<times> 'w"
  gn_listen :: "Ipv4Addr \<Rightarrow> 16 word \<Rightarrow> 'w \<Rightarrow> bool \<times> 'w"
  gn_set_nonblocking :: "'w \<Rightarrow> bool \<times> 'w"
  gn_close_listener :: "'w \<Rightarrow> 'w"
  gn_rand_bytes :: "'w \<Rightarrow> 8 word list option \<times> 'w"
  gn_connect :: "Ipv4Addr \<Rightarrow> 16 word \<Rightarrow> duration \<Rightarrow> 'w \<Rightarrow> bool \<times> 'w"
  gn_set_read_timeout :: "duration \<Rightarrow> 'w \<Rightarrow> bool \<times> 'w"
  gn_set_write_timeout :: "duration \<Rightarrow> 'w \<Rightarrow> bool \<times> 'w"
  gn_write :: "string \<Rightarrow> 'w \<Rightarrow> bool \<times> 'w"
  gn_flush :: "'w \<Rightarrow> bool \<times> 'w"
  gn_read :: "'w \<Rightarrow> string option \<times> 'w"
  gn_accept :: "'w \<Rightarrow> accepted \<times> 'w"
  gn_sleep :: "duration \<Rightarrow> 'w \<Rightarrow> 'w"
  gn_document_parse :: "string \<Rightarrow> Document option"
  gn_from_str :: "string \<Rightarrow> Value option"

text \<open>A step whose failure is one given error.\<close>

definition step :: "'e \<Rightarrow> ('w \<Rightarrow> bool \<times> 'w) \<Rightarrow> ('w, 'e, unit) fallible" where
  "step failure m w = (case m w of (worked, w) \<Rightarrow> (if worked then Inr () else Inl failure, w))"


definition READ_BUFFER :: nat where "READ_BUFFER = 4096"

function head_loop ::
  "'w gena_net \<Rightarrow> MessageKind \<Rightarrow> bool \<Rightarrow> string
    \<Rightarrow> ('w, GenaFailure, string \<times> nat \<times> StartLine \<times> (string \<times> string) list \<times> nat) fallible" where
  "head_loop net kind required bytes w =
     (case gn_read net w of
        (None, w) \<Rightarrow> (Inl GenaFailure.InvalidCallback, w)
      | (Some received, w) \<Rightarrow>
          let chunk = take READ_BUFFER received; bytes' = bytes @ chunk
          in if chunk = [] \<or> length bytes' > MAX_HEADER_BYTES + 4 + MAX_BODY_BYTES
             then (Inl GenaFailure.InvalidCallback, w)
             else case find_subslice bytes' (CRLF @ CRLF) of
                 Some index \<Rightarrow>
                   (if index > MAX_HEADER_BYTES then Inl GenaFailure.InvalidCallback
                    else and_then (parse_http_head (take index bytes') kind required)
                      (\<lambda>(start_line, headers, content_length).
                        Inr (bytes', index + 4, start_line, headers, content_length)), w)
               | None \<Rightarrow>
                   if length bytes' > MAX_HEADER_BYTES + 4 then (Inl GenaFailure.InvalidCallback, w)
                   else head_loop net kind required bytes' w)"
  by pat_completeness auto

termination
  by (relation "measure (\<lambda>(net, kind, required, bytes, w). MAX_HEADER_BYTES + 5 - length bytes)")
    (auto simp: not_less neq_Nil_conv)

function body_loop :: "'w gena_net \<Rightarrow> nat \<Rightarrow> string \<Rightarrow> ('w, GenaFailure, string) fallible" where
  "body_loop net expected bytes w =
     (if length bytes \<ge> expected then (Inr bytes, w)
      else case gn_read net w of
          (None, w) \<Rightarrow> (Inl GenaFailure.InvalidCallback, w)
        | (Some received, w) \<Rightarrow>
            let chunk = take READ_BUFFER received; bytes' = bytes @ chunk
            in if chunk = [] \<or> length bytes' > expected then (Inl GenaFailure.InvalidCallback, w)
               else body_loop net expected bytes' w)"
  by pat_completeness auto

termination
  by (relation "measure (\<lambda>(net, expected, bytes, w). expected - length bytes)")
    (auto simp: neq_Nil_conv)

declare head_loop.simps [simp del] body_loop.simps [simp del]

definition read_http_message ::
  "'w gena_net \<Rightarrow> MessageKind \<Rightarrow> bool \<Rightarrow> ('w, GenaFailure, HttpMessage) fallible" where
  "read_http_message net kind content_length_required =
     try_bind (head_loop net kind content_length_required [])
       (\<lambda>(bytes, header_end, start_line, headers, content_length).
     try_bind (lift_result (checked_usize_add header_end content_length)) (\<lambda>total.
     try_bind (lift_result (if length bytes > total then Inl GenaFailure.InvalidCallback else Inr ())) (\<lambda>_.
     try_bind (body_loop net total bytes) (\<lambda>bytes.
       lift_result (Inr \<lparr>hm_start_line = start_line, hm_headers = headers,
                         hm_body = drop header_end bytes\<rparr>)))))"

definition select_local_ipv4 ::
  "'w gena_net \<Rightarrow> Ipv4Addr \<Rightarrow> 16 word \<Rightarrow> ('w, GenaFailure, Ipv4Addr) fallible" where
  "select_local_ipv4 net jbl event_port =
     try_bind (step GenaFailure.RouteUnavailable (gn_udp_bind net)) (\<lambda>_.
     try_bind (step GenaFailure.RouteUnavailable (gn_udp_connect net jbl event_port)) (\<lambda>_ w.
       case gn_udp_local_addr net w of
         (Some (Some address), w) \<Rightarrow> (Inr address, w)
       | (_, w) \<Rightarrow> (Inl GenaFailure.RouteUnavailable, w)))"

fun write_headers :: "'w gena_net \<Rightarrow> GenaFailure \<Rightarrow> (string \<times> string) list \<Rightarrow> ('w, GenaFailure, unit) fallible" where
  "write_headers net failure [] = lift_result (Inr ())"
| "write_headers net failure ((name, value) # rest) =
     try_bind (step failure (gn_write net (name @ '': '' @ value @ CRLF))) (\<lambda>_. write_headers net failure rest)"

definition event_request ::
  "'w gena_net \<Rightarrow> Ipv4Addr \<Rightarrow> 16 word \<Rightarrow> string \<Rightarrow> (string \<times> string) list \<Rightarrow> GenaFailure
    \<Rightarrow> ('w, GenaFailure, HttpMessage) fallible" where
  "event_request net address port method extra_headers failure =
     try_bind (step failure (gn_connect net address port CONNECT_TIMEOUT)) (\<lambda>_.
     try_bind (step failure (gn_set_read_timeout net CONNECT_TIMEOUT)) (\<lambda>_.
     try_bind (step failure (gn_set_write_timeout net CONNECT_TIMEOUT)) (\<lambda>_.
     try_bind (step failure (gn_write net
        (method @ '' '' @ EVENT_PATH @ '' HTTP/1.1'' @ CRLF
         @ ''HOST: '' @ show_ipv4 address @ '':'' @ show_nat (unat port) @ CRLF
         @ ''Content-Length: 0'' @ CRLF @ ''Connection: close'' @ CRLF))) (\<lambda>_.
     try_bind (write_headers net failure extra_headers) (\<lambda>_.
     try_bind (step failure (gn_write net CRLF)) (\<lambda>_.
     try_bind (step failure (gn_flush net)) (\<lambda>_.
       with_err (\<lambda>_. failure) (read_http_message net MessageKind.Response False))))))))"

definition write_callback_response :: "'w gena_net \<Rightarrow> bool \<Rightarrow> 'w \<Rightarrow> 'w" where
  "write_callback_response net accepted w =
     (let status = (if accepted then ''200 OK'' else ''400 Bad Request'');
          (_, w) = gn_write net (''HTTP/1.1 '' @ status @ CRLF @ ''Content-Length: 0'' @ CRLF
                                  @ ''Connection: close'' @ CRLF @ CRLF) w;
          (_, w) = gn_flush net w
      in w)"

definition random_callback_path :: "'w gena_net \<Rightarrow> ('w, GenaFailure, string) fallible" where
  "random_callback_path net w =
     (case gn_rand_bytes net w of
        (None, w) \<Rightarrow> (Inl GenaFailure.ListenerUnavailable, w)
      | (Some random, w) \<Rightarrow> (Inr (CALLBACK_PREFIX @ concat (map hex2_lower (take 32 random))), w))"

subsection \<open>The observer\<close>

record Subscription =
  sb_sid :: string
  sb_path :: string
  sb_last_seq :: "32 word option"

record 'w GenaBroadcastObserver =
  go_jbl_address :: Ipv4Addr
  go_event_port :: "16 word"
  go_callback_port :: "16 word"
  go_allow_loopback :: bool
  go_subscription :: "Subscription option"
  go_world :: 'w

definition from_parts ::
  "Ipv4Addr \<Rightarrow> 16 word \<Rightarrow> 16 word \<Rightarrow> bool \<Rightarrow> 'w \<Rightarrow> (GenaFailure, 'w GenaBroadcastObserver) result" where
  "from_parts jbl_address event_port callback_port allow_loopback w =
     (if event_port = 0 \<or> callback_port < MIN_CALLBACK_PORT \<or> is_unspecified jbl_address
         \<or> is_multicast jbl_address \<or> jbl_address = BROADCAST
         \<or> (is_loopback jbl_address \<and> \<not> allow_loopback)
      then Inl GenaFailure.InvalidConfiguration
      else Inr \<lparr>go_jbl_address = jbl_address, go_event_port = event_port,
                go_callback_port = callback_port, go_allow_loopback = allow_loopback,
                go_subscription = None, go_world = w\<rparr>)"

definition with_callback_port ::
  "string \<Rightarrow> 16 word \<Rightarrow> 'w \<Rightarrow> (GenaFailure, 'w GenaBroadcastObserver) result" where
  "with_callback_port address callback_port w =
     and_then (ok_or GenaFailure.InvalidConfiguration (parse_ipv4 address)) (\<lambda>jbl_address.
       from_parts jbl_address EVENT_PORT callback_port False w)"

definition on_world :: "('w, 'e, 'a) fallible \<Rightarrow> ('w GenaBroadcastObserver, 'e, 'a) fallible" where
  "on_world m g = (case m (go_world g) of (r, w) \<Rightarrow> (r, g\<lparr>go_world := w\<rparr>))"

definition gena_cancel :: "'w gena_net \<Rightarrow> ('w GenaBroadcastObserver, GenaFailure, unit) fallible" where
  "gena_cancel net g =
     (case go_subscription g of
        None \<Rightarrow> (Inr (), g)
      | Some subscription \<Rightarrow>
          (let g = g\<lparr>go_subscription := None, go_world := gn_close_listener net (go_world g)\<rparr>
           in try_bind (on_world (event_request net (go_jbl_address g) (go_event_port g) ''UNSUBSCRIBE''
                 [(''SID'', sb_sid subscription)] GenaFailure.CleanupFailed)) (\<lambda>response.
               lift_result (if status response = Some 200 then Inr () else Inl GenaFailure.CleanupFailed)) g))"

text \<open>What follows a successful bind; whatever fails here closes the listener again.\<close>

definition gena_subscribe ::
  "'w gena_net \<Rightarrow> Ipv4Addr \<Rightarrow> 'w GenaBroadcastObserver \<Rightarrow> ('w, GenaFailure, Subscription) fallible" where
  "gena_subscribe net local_address g =
     (let request = event_request net (go_jbl_address g) (go_event_port g)
      in try_bind (step GenaFailure.ListenerUnavailable (gn_set_nonblocking net)) (\<lambda>_.
         try_bind (random_callback_path net) (\<lambda>path.
         try_bind (request ''SUBSCRIBE''
             [(''CALLBACK'', ''<http://'' @ show_ipv4 local_address @ '':''
                 @ show_nat (unat (go_callback_port g)) @ path @ ''>''),
              (''NT'', ''upnp:event''), (''TIMEOUT'', ''Second-'' @ show_nat SUBSCRIPTION_SECONDS)]
             GenaFailure.SubscriptionUnavailable) (\<lambda>response.
         try_bind (lift_result (if status response \<noteq> Some 200 then Inl GenaFailure.InvalidSubscription
                                else Inr ())) (\<lambda>_.
         try_bind (lift_result (case header response ''sid'' of
              None \<Rightarrow> Inl GenaFailure.InvalidSubscription
            | Some sid \<Rightarrow> if valid_sid sid then Inr sid else Inl GenaFailure.InvalidSubscription)) (\<lambda>sid.
         if (case header response ''timeout'' of None \<Rightarrow> False
             | Some timeout \<Rightarrow> \<not> valid_subscription_timeout timeout)
         then (\<lambda>w. (Inl GenaFailure.InvalidSubscription,
                     snd (request ''UNSUBSCRIBE'' [(''SID'', sid)] GenaFailure.CleanupFailed w)))
         else lift_result (Inr \<lparr>sb_sid = sid, sb_path = path, sb_last_seq = None\<rparr>)))))))"

definition gena_arm :: "'w gena_net \<Rightarrow> ('w GenaBroadcastObserver, GenaFailure, unit) fallible" where
  "gena_arm net =
     try_bind (gena_cancel net) (\<lambda>_ g.
     try_bind (on_world (select_local_ipv4 net (go_jbl_address g) (go_event_port g))) (\<lambda>local_address.
     try_bind (lift_result
         (if is_unspecified local_address \<or> is_multicast local_address
             \<or> (is_loopback local_address \<and> \<not> go_allow_loopback g)
          then Inl GenaFailure.RouteUnavailable else Inr ())) (\<lambda>_.
     try_bind (on_world (step GenaFailure.ListenerUnavailable
         (gn_listen net local_address (go_callback_port g)))) (\<lambda>_ g.
       (case on_world (gena_subscribe net local_address g) g of
          (Inl e, g) \<Rightarrow> (Inl e, g\<lparr>go_world := gn_close_listener net (go_world g)\<rparr>)
        | (Inr subscription, g) \<Rightarrow> (Inr (), g\<lparr>go_subscription := Some subscription\<rparr>))))) g)"

definition serve_callback ::
  "'w gena_net \<Rightarrow> GenaAction \<Rightarrow> nat \<Rightarrow> (Subscription \<times> 'w, GenaFailure, CallbackOutcome) fallible" where
  "serve_callback net action deadline s =
     (case s of (subscription, w) \<Rightarrow>
       (let io_timeout = min (deadline - gn_now net w) CONNECT_TIMEOUT
        in case try_bind (step GenaFailure.InvalidCallback (gn_set_read_timeout net io_timeout)) (\<lambda>_.
                  step GenaFailure.InvalidCallback (gn_set_write_timeout net io_timeout)) w of
             (Inl e, w) \<Rightarrow> (Inl e, subscription, w)
           | (Inr _, w) \<Rightarrow>
               (case read_http_message net MessageKind.Request True w of
                  (Inl e, w) \<Rightarrow> (Inl e, subscription, write_callback_response net False w)
                | (Inr request, w) \<Rightarrow>
                    (case validate_callback (gn_document_parse net) (gn_from_str net) request
                            (sb_path subscription) (sb_sid subscription) action (sb_last_seq subscription) of
                       (outcome, last_seq) \<Rightarrow>
                         (outcome, subscription\<lparr>sb_last_seq := last_seq\<rparr>,
                          write_callback_response net (is_ok outcome) w)))))"

text \<open>
  The wait for the result. A poll that finds no connection sleeps and tries again; how often that happens
  is the clock's business, so the loop has fuel and \<open>None\<close> is running out of it.
\<close>

fun observe_loop ::
  "nat \<Rightarrow> 'w gena_net \<Rightarrow> Ipv4Addr \<Rightarrow> GenaAction \<Rightarrow> nat \<Rightarrow> nat \<Rightarrow> Subscription \<times> 'w
    \<Rightarrow> (GenaFailure, unit) result option \<times> Subscription \<times> 'w" where
  "observe_loop 0 net jbl action deadline accepted s = (None, s)"
| "observe_loop (Suc fuel) net jbl action deadline accepted (subscription, w) =
     (if accepted \<ge> MAX_CALLBACKS then (Some (Inl GenaFailure.InvalidCallback), subscription, w)
      else if gn_now net w \<ge> deadline then (Some (Inl GenaFailure.CallbackTimedOut), subscription, w)
      else case gn_accept net w of
          (AcceptError, w) \<Rightarrow> (Some (Inl GenaFailure.ListenerUnavailable), subscription, w)
        | (NothingWaiting, w) \<Rightarrow>
            observe_loop fuel net jbl action deadline accepted (subscription, gn_sleep net (from_millis 5) w)
        | (Peer ip, w) \<Rightarrow>
            (if ip \<noteq> Some jbl
             then observe_loop fuel net jbl action deadline (accepted + 1) (subscription, w)
             else case serve_callback net action deadline (subscription, w) of
                 (Inl e, s) \<Rightarrow> (Some (Inl e), s)
               | (Inr CallbackOutcome.Confirmed, s) \<Rightarrow> (Some (Inr ()), s)
               | (Inr CallbackOutcome.Rejected, s) \<Rightarrow> (Some (Inl GenaFailure.BusinessRejected), s)
               | (Inr CallbackOutcome.Pending, s) \<Rightarrow>
                   observe_loop fuel net jbl action deadline (accepted + 1) s))"

text \<open>
  Enough fuel for the time left: one round per callback and one per five milliseconds. Where sleeping
  moves the clock by what was asked, the fuel never runs out (\<open>observe_loop_returns\<close> below), so the error
  given for that case is never seen.
\<close>

definition observe_fuel :: "nat \<Rightarrow> nat \<Rightarrow> nat" where
  "observe_fuel deadline now = MAX_CALLBACKS + (deadline - now) div from_millis 5 + 3"

definition observe_until ::
  "'w gena_net \<Rightarrow> GenaAction \<Rightarrow> nat \<Rightarrow> ('w GenaBroadcastObserver, GenaFailure, unit) fallible" where
  "observe_until net action deadline g =
     (case go_subscription g of
        None \<Rightarrow> (Inl GenaFailure.ListenerUnavailable, g)
      | Some subscription \<Rightarrow>
          (case observe_loop (observe_fuel deadline (gn_now net (go_world g))) net (go_jbl_address g) action
                  deadline 0 (subscription, go_world g) of
             (r, subscription, w) \<Rightarrow>
               (case r of None \<Rightarrow> Inl GenaFailure.CallbackTimedOut | Some r \<Rightarrow> r,
                g\<lparr>go_subscription := Some subscription, go_world := w\<rparr>)))"

definition observe_for ::
  "'w gena_net \<Rightarrow> GenaAction \<Rightarrow> duration \<Rightarrow> ('w GenaBroadcastObserver, GenaFailure, unit) fallible" where
  "observe_for net action timeout g =
     (let deadline = gn_now net (go_world g) + min timeout BUSINESS_TIMEOUT;
          (result, g) = observe_until net action deadline g;
          (cleanup, g) = gena_cancel net g
      in (case (result, cleanup) of
            (Inr _, Inr _) \<Rightarrow> Inr ()
          | (Inr _, Inl _) \<Rightarrow> Inl GenaFailure.CleanupFailed
          | (Inl error, _) \<Rightarrow> Inl error, g))"

definition gena_observe ::
  "'w gena_net \<Rightarrow> GenaAction \<Rightarrow> ('w GenaBroadcastObserver, GenaFailure, unit) fallible" where
  "gena_observe net action = observe_for net action BUSINESS_TIMEOUT"

subsection \<open>The wait\<close>

lemma validate_callback_sel:
  assumes "validate_callback dp fs request path sid action seq0 = (Inr outcome, seq0')"
  shows "\<exists>seq code. hm_start_line request = RequestLine ''NOTIFY'' path \<and> header request ''sid'' = Some sid \<and>
    parse_seq (header request ''seq'') = Inr seq \<and> sequence_is_next seq0 seq \<and> seq0' = Some seq \<and>
    parse_event_body dp fs (hm_body request) = Inr code \<and> outcome = reduce_action action code"
  using assms by (auto simp: validate_callback_def split: StartLine.splits if_splits sum.splits)

lemma reduce_confirmed_iff:
  "reduce_action action code = CallbackOutcome.Confirmed \<longleftrightarrow>
     code = Some (case action of GenaAction.Start \<Rightarrow> 33 | GenaAction.Stop \<Rightarrow> 34)"
  by (cases code; cases action) auto

lemma serve_callback_sel:
  assumes "serve_callback net action deadline (sub, w) = (r, sub', w')"
  shows "\<exists>seq0. sub' = sub\<lparr>sb_last_seq := seq0\<rparr> \<and>
    (r = Inr outcome \<longrightarrow> (\<exists>w1 w2 request w3. let timeout = min (deadline - gn_now net w) CONNECT_TIMEOUT in
       gn_set_read_timeout net timeout w = (True, w1) \<and> gn_set_write_timeout net timeout w1 = (True, w2) \<and>
       read_http_message net MessageKind.Request True w2 = (Inr request, w3) \<and>
       w' = write_callback_response net True w3 \<and>
       validate_callback (gn_document_parse net) (gn_from_str net) request (sb_path sub) (sb_sid sub) action
         (sb_last_seq sub) = (Inr outcome, seq0)))"
  using assms
  by (intro exI [of _ "sb_last_seq sub'"])
    (auto simp: serve_callback_def Let_def try_bind_def step_def split: prod.splits sum.splits if_splits)

text \<open>The rounds of the wait that do not end it, before the deadline: nothing waiting, a stranger, a callback without a verdict.\<close>

inductive observe_round ::
  "'w gena_net \<Rightarrow> Ipv4Addr \<Rightarrow> GenaAction \<Rightarrow> nat \<Rightarrow> Subscription \<times> 'w \<Rightarrow> Subscription \<times> 'w \<Rightarrow> bool"
  for net jbl action deadline where
  idle: "gn_now net w < deadline \<Longrightarrow> gn_accept net w = (NothingWaiting, w1) \<Longrightarrow>
    observe_round net jbl action deadline (sub, w) (sub, gn_sleep net (from_millis 5) w1)"
| stranger: "gn_now net w < deadline \<Longrightarrow> gn_accept net w = (Peer ip, w1) \<Longrightarrow> ip \<noteq> Some jbl \<Longrightarrow>
    observe_round net jbl action deadline (sub, w) (sub, w1)"
| undecided: "gn_now net w < deadline \<Longrightarrow> gn_accept net w = (Peer (Some jbl), w1) \<Longrightarrow>
    serve_callback net action deadline (sub, w1) = (Inr CallbackOutcome.Pending, s) \<Longrightarrow>
    observe_round net jbl action deadline (sub, w) s"

lemma observe_round_keeps:
  "(observe_round net jbl action deadline)\<^sup>*\<^sup>* s s' \<Longrightarrow> sb_sid (fst s') = sb_sid (fst s) \<and> sb_path (fst s') = sb_path (fst s)"
proof (induction rule: rtranclp_induct)
  case (step s1 s2)
  from step.hyps(2) have "sb_sid (fst s2) = sb_sid (fst s1) \<and> sb_path (fst s2) = sb_path (fst s1)"
  proof (cases rule: observe_round.cases)
    case (undecided w w1 sub)
    obtain sub2 w2 where "s2 = (sub2, w2)"
      by fastforce
    with serve_callback_sel [OF undecided(4) [unfolded this], of CallbackOutcome.Pending] undecided(1) show ?thesis
      by auto
  qed simp_all
  with step.IH show ?case
    by simp
qed simp

lemma observe_loop_confirmed:
  assumes "observe_loop fuel net jbl action deadline accepted (sub, w) = (Some (Inr ()), sub', w')"
  shows "\<exists>sub1 w1 w2. (observe_round net jbl action deadline)\<^sup>*\<^sup>* (sub, w) (sub1, w1) \<and>
    gn_now net w1 < deadline \<and> gn_accept net w1 = (Peer (Some jbl), w2) \<and>
    serve_callback net action deadline (sub1, w2) = (Inr CallbackOutcome.Confirmed, sub', w')"
  using assms
proof (induction fuel arbitrary: accepted sub w)
  case (Suc fuel)
  obtain a w1 where a: "gn_accept net w = (a, w1)"
    by fastforce
  have before: "gn_now net w < deadline" and few: "accepted < MAX_CALLBACKS"
    using Suc.prems by (auto split: if_splits)
  have further: ?case
    if "observe_round net jbl action deadline (sub, w) (sub1, w2)"
      and "observe_loop fuel net jbl action deadline accepted1 (sub1, w2) = (Some (Inr ()), sub', w')" for sub1 w2 accepted1
    using Suc.IH [OF that(2)] converse_rtranclp_into_rtranclp [of "observe_round net jbl action deadline", OF that(1)] by blast
  show ?case
  proof (cases a)
    case NothingWaiting
    then show ?thesis
      using Suc.prems a before few further [OF observe_round.idle] by auto
  next
    case (Peer ip)
    show ?thesis
    proof (cases "ip = Some jbl")
      case False
      then show ?thesis
        using Suc.prems a before few Peer further [OF observe_round.stranger] by auto
    next
      case True
      obtain r sub1 w2 where s: "serve_callback net action deadline (sub, w1) = (r, sub1, w2)"
        by (metis prod.exhaust)
      consider "r = Inr CallbackOutcome.Confirmed" "sub1 = sub'" "w2 = w'"
        | "r = Inr CallbackOutcome.Pending"
          "observe_loop fuel net jbl action deadline (accepted + 1) (sub1, w2) = (Some (Inr ()), sub', w')"
        using Suc.prems a Peer True s before few by (cases r) (auto split: CallbackOutcome.splits)
      then show ?thesis
      proof cases
        case 1
        then show ?thesis
          using a Peer True s before by blast
      next
        case 2
        then show ?thesis
          using a Peer True s before by (intro further [OF observe_round.undecided]) auto
      qed
    qed
  qed (use Suc.prems a before few in auto)
qed simp

lemma gena_cancel_sel:
  "gena_cancel net g = (r, g') \<Longrightarrow> go_subscription g' = None \<and> go_jbl_address g' = go_jbl_address g"
  by (auto simp: gena_cancel_def try_bind_def on_world_def lift_result_def Let_def
      split: option.splits prod.splits sum.splits)

subsection \<open>Time\<close>

text \<open>
  What a monotonic clock promises: no operation turns it back, and a sleep lasts at least as long as
  asked.
\<close>

definition keeps_time :: "'w gena_net \<Rightarrow> ('w \<Rightarrow> 'a \<times> 'w) \<Rightarrow> bool" where
  "keeps_time net m \<longleftrightarrow> (\<forall>w. gn_now net w \<le> gn_now net (snd (m w)))"

definition clock_moves :: "'w gena_net \<Rightarrow> bool" where
  "clock_moves net \<longleftrightarrow>
     (\<forall>d w. gn_now net w + d \<le> gn_now net (gn_sleep net d w)) \<and> keeps_time net (gn_accept net) \<and>
     (\<forall>d. keeps_time net (gn_set_read_timeout net d)) \<and> (\<forall>d. keeps_time net (gn_set_write_timeout net d)) \<and>
     keeps_time net (gn_read net) \<and> (\<forall>t. keeps_time net (gn_write net t)) \<and> keeps_time net (gn_flush net)"

lemma keeps_timeD: "keeps_time net m \<Longrightarrow> m w = (r, w') \<Longrightarrow> gn_now net w \<le> gn_now net w'"
  by (metis keeps_time_def snd_conv)

lemma keeps_time_step: "keeps_time net m \<Longrightarrow> keeps_time net (step e m)"
  by (auto simp: keeps_time_def step_def split: prod.splits) (metis snd_conv)+

lemma keeps_time_lift_result: "keeps_time net (lift_result r)"
  by (simp add: keeps_time_def lift_result_def)

lemma keeps_time_try_bind:
  assumes "keeps_time net m" and "\<And>v. keeps_time net (f v)"
  shows "keeps_time net (try_bind m f)"
proof -
  have "gn_now net w \<le> gn_now net (snd (try_bind m f w))" for w
  proof -
    obtain r w1 where m: "m w = (r, w1)"
      by fastforce
    have "gn_now net w \<le> gn_now net w1"
      using keeps_timeD [OF assms(1) m] .
    moreover have "gn_now net w1 \<le> gn_now net (snd (f v w1))" for v
      using assms(2) by (simp add: keeps_time_def)
    ultimately show ?thesis
      by (cases r) (auto simp: try_bind_def m intro: order_trans)
  qed
  then show ?thesis
    by (simp add: keeps_time_def)
qed

lemma keeps_time_head_loop:
  assumes "keeps_time net (gn_read net)"
  shows "keeps_time net (head_loop net kind required bytes)"
proof -
  have "gn_now net w \<le> gn_now net (snd (head_loop net kind required bytes w))" for w
    using assms
  proof (induction net kind required bytes w rule: head_loop.induct)
    case (1 net kind required bytes w)
    obtain r w1 where r: "gn_read net w = (r, w1)"
      by fastforce
    have le: "gn_now net w \<le> gn_now net w1"
      using keeps_timeD [OF 1(2) r] .
    show ?case
      by (subst head_loop.simps)
        (use 1 r le in \<open>fastforce simp: Let_def split: option.splits intro: order_trans\<close>)
  qed
  then show ?thesis
    by (simp add: keeps_time_def)
qed

lemma keeps_time_body_loop:
  assumes "keeps_time net (gn_read net)"
  shows "keeps_time net (body_loop net expected bytes)"
proof -
  have "gn_now net w \<le> gn_now net (snd (body_loop net expected bytes w))" for w
    using assms
  proof (induction net expected bytes w rule: body_loop.induct)
    case (1 net expected bytes w)
    obtain r w1 where r: "gn_read net w = (r, w1)"
      by fastforce
    have le: "gn_now net w \<le> gn_now net w1"
      using keeps_timeD [OF 1(2) r] .
    show ?case
      by (subst body_loop.simps)
        (use 1 r le in \<open>fastforce simp: Let_def split: option.splits intro: order_trans\<close>)
  qed
  then show ?thesis
    by (simp add: keeps_time_def)
qed

lemma keeps_time_read_http_message:
  "keeps_time net (gn_read net) \<Longrightarrow> keeps_time net (read_http_message net kind required)"
  unfolding read_http_message_def
  by (auto intro!: keeps_time_try_bind keeps_time_head_loop keeps_time_body_loop keeps_time_lift_result
      split: prod.splits)

lemma serve_callback_time:
  assumes "clock_moves net" and "serve_callback net action deadline (sub, w) = (r, sub', w')"
  shows "gn_now net w \<le> gn_now net w'"
proof -
  let ?d = "min (deadline - gn_now net w) CONNECT_TIMEOUT"
  obtain a w1 where a: "try_bind (step GenaFailure.InvalidCallback (gn_set_read_timeout net ?d)) (\<lambda>_.
      step GenaFailure.InvalidCallback (gn_set_write_timeout net ?d)) w = (a, w1)"
    by fastforce
  obtain m w2 where m: "read_http_message net MessageKind.Request True w1 = (m, w2)"
    by fastforce
  have "keeps_time net (try_bind (step GenaFailure.InvalidCallback (gn_set_read_timeout net ?d)) (\<lambda>_.
      step GenaFailure.InvalidCallback (gn_set_write_timeout net ?d)))"
    using assms(1) by (auto simp: clock_moves_def intro!: keeps_time_try_bind keeps_time_step)
  from keeps_timeD [OF this a] have 1: "gn_now net w \<le> gn_now net w1" .
  have "keeps_time net (read_http_message net MessageKind.Request True)"
    using assms(1) by (simp add: clock_moves_def keeps_time_read_http_message)
  from keeps_timeD [OF this m] have 2: "gn_now net w1 \<le> gn_now net w2" .
  have 3: "gn_now net w2 \<le> gn_now net (write_callback_response net b w2)" for b
  proof -
    have "keeps_time net (gn_write net t)" "keeps_time net (gn_flush net)" for t
      using assms(1) by (simp_all add: clock_moves_def)
    then show ?thesis
      by (simp add: write_callback_response_def Let_def case_prod_unfold keeps_time_def del: append.simps)
        (meson order_trans)
  qed
  from assms(2) a m 1 2 3 show ?thesis
    by (auto simp: serve_callback_def Let_def split: prod.splits sum.splits intro: order_trans)
qed

lemma tick:
  fixes x y :: nat
  assumes "x + 5000000 \<le> y \<or> x = 0" and "0 < y"
  shows "(x + 4999999) div 5000000 < (y + 4999999) div 5000000"
proof -
  have "(x + 4999999) div 5000000 + 1 = (x + 4999999 + 5000000) div 5000000"
    by simp
  moreover have "(x + 4999999 + 5000000) div 5000000 \<le> (y + 4999999) div 5000000" if "x + 5000000 \<le> y"
    using that by (intro div_le_mono) simp
  moreover have "5000000 div 5000000 \<le> (y + 4999999) div 5000000"
    using assms(2) by (intro div_le_mono) simp
  ultimately show ?thesis
    using assms(1) by auto
qed

lemma observe_loop_returns:
  assumes "clock_moves net" and "accepted \<le> MAX_CALLBACKS"
    and "MAX_CALLBACKS - accepted + (deadline - gn_now net w + 4999999) div 5000000 < fuel"
  shows "fst (observe_loop fuel net jbl action deadline accepted (sub, w)) \<noteq> None"
  using assms(2,3)
proof (induction fuel arbitrary: accepted sub w)
  case (Suc fuel)
  obtain a w1 where a: "gn_accept net w = (a, w1)"
    by fastforce
  have le: "gn_now net w \<le> gn_now net w1"
    using assms(1) a by (auto simp: clock_moves_def dest: keeps_timeD)
  show ?case
  proof (cases "accepted \<ge> MAX_CALLBACKS \<or> gn_now net w \<ge> deadline \<or> a = AcceptError")
    case False
    then have open_loop: "accepted < MAX_CALLBACKS" "gn_now net w < deadline" "a \<noteq> AcceptError"
      by auto
    have next_round: "fst (observe_loop fuel net jbl action deadline (accepted + 1) (s, v)) \<noteq> None"
      if "gn_now net w \<le> gn_now net v" for s v
    proof (rule Suc.IH)
      have "(deadline - gn_now net v + 4999999) div 5000000 \<le> (deadline - gn_now net w + 4999999) div 5000000"
        by (intro div_le_mono) (use that in linarith)
      then show "MAX_CALLBACKS - (accepted + 1) + (deadline - gn_now net v + 4999999) div 5000000 < fuel"
        using Suc.prems open_loop(1) by linarith
    qed (use open_loop in simp)
    have later: "fst (observe_loop fuel net jbl action deadline accepted (s, gn_sleep net (from_millis 5) w1)) \<noteq> None" for s
    proof (rule Suc.IH)
      have "gn_now net w + 5000000 \<le> gn_now net (gn_sleep net (from_millis 5) w1)"
      proof -
        have "gn_now net w1 + from_millis 5 \<le> gn_now net (gn_sleep net (from_millis 5) w1)"
          using assms(1) by (simp add: clock_moves_def)
        then show ?thesis
          using le by (simp add: from_millis_def)
      qed
      then have "(deadline - gn_now net (gn_sleep net (from_millis 5) w1) + 4999999) div 5000000
          < (deadline - gn_now net w + 4999999) div 5000000"
        using open_loop(2) by (intro tick) linarith+
      then show "MAX_CALLBACKS - accepted + (deadline - gn_now net (gn_sleep net (from_millis 5) w1) + 4999999) div 5000000 < fuel"
        using Suc.prems by linarith
    qed (use Suc.prems in simp)
    obtain r s v where s: "serve_callback net action deadline (sub, w1) = (r, s, v)"
      by (metis prod.exhaust)
    have "gn_now net w \<le> gn_now net v"
      using serve_callback_time [OF assms(1) s] le by linarith
    then show ?thesis
      using open_loop a later next_round [of w1 sub] next_round [of v s] le s
      by (auto split: accepted.splits sum.splits CallbackOutcome.splits)
  qed (use a in auto)
qed simp

lemma observe_fuel_enough:
  "MAX_CALLBACKS - 0 + (deadline - now + 4999999) div 5000000 < observe_fuel deadline now"
proof -
  have "(deadline - now + 4999999) div 5000000 \<le> (deadline - now) div 5000000 + 1"
    by linarith
  then show ?thesis
    by (simp add: observe_fuel_def from_millis_def)
qed

subsection \<open>Bounds of the readers\<close>

lemma parse_headers_sel:
  assumes "parse_headers index lines headers = Inr headers'" and "distinct (map fst headers)"
    and "length headers = index" and "index \<le> MAX_HEADER_COUNT"
  shows "distinct (map fst headers') \<and> length headers' \<le> MAX_HEADER_COUNT"
  using assms
proof (induction index lines headers rule: parse_headers.induct)
  case (2 index line lines headers)
  obtain name val where s: "split_once CHR '':'' line = Some (name, val)"
    using 2(2) by (auto split: if_splits option.splits)
  let ?v = "trim_matches {CHR '' '', CHR 0x09} val"
  have "parse_headers (Suc index) lines ((to_ascii_lowercase name, ?v) # headers) = Inr headers'"
      "map_of headers (to_ascii_lowercase name) = None" "index < MAX_HEADER_COUNT"
    using 2(2) s by (auto simp: Let_def split: if_splits)
  moreover have "\<not> (index \<ge> MAX_HEADER_COUNT \<or> line = [] \<or> hd line = CHR '' '' \<or> hd line = CHR 0x09)"
      "\<not> (name = [] \<or> \<not> list_all is_http_token_byte name)" "\<not> list_ex control_byte ?v"
    using 2(2) s by (auto simp: Let_def split: if_splits)
  ultimately show ?case
    using 2(1) [OF _ s refl] 2(3,4) by (simp add: map_of_eq_None_iff)
qed simp

lemma parse_http_head_sel:
  assumes "parse_http_head bytes kind required = Inr (start_line, headers, n)"
  shows "distinct (map fst headers) \<and> length headers \<le> MAX_HEADER_COUNT \<and> n \<le> MAX_BODY_BYTES \<and>
    map_of headers ''transfer-encoding'' = None \<and>
    (case map_of headers ''content-length'' of
       None \<Rightarrow> \<not> required \<and> n = 0
     | Some value \<Rightarrow> value \<noteq> [] \<and> list_all is_ascii_digit value \<and> n = digits_value value)"
proof -
  obtain first lines where l: "split_crlf bytes = first # lines"
    using assms by (auto simp: parse_http_head_def split: if_splits list.splits)
  then have h: "parse_headers 0 lines [] = Inr headers" "map_of headers ''transfer-encoding'' = None"
      "n \<le> MAX_BODY_BYTES"
    using assms by (auto simp: parse_http_head_def split: if_splits option.splits)
  have "\<not> is_ascii_digit CHR ''+''"
    by (simp add: is_ascii_digit_def)
  then have "case map_of headers ''content-length'' of
       None \<Rightarrow> \<not> required \<and> n = 0
     | Some value \<Rightarrow> value \<noteq> [] \<and> list_all is_ascii_digit value \<and> n = digits_value value"
    using assms l h(1,2)
    by (auto simp: parse_http_head_def parse_decimal_usize_def parse_unsigned_def Let_def
        split: if_splits option.splits list.splits)
  then show ?thesis
    using parse_headers_sel [OF h(1)] h(2,3) by simp
qed

lemma head_loop_sel:
  assumes "head_loop net kind required bytes w = (Inr (bytes', header_end, start_line, headers, n), w')"
  shows "header_end \<le> length bytes' \<and> (\<exists>head. parse_http_head head kind required = Inr (start_line, headers, n))"
  using assms
proof (induction net kind required bytes w rule: head_loop.induct)
  case (1 net kind required bytes w)
  obtain r w1 where r: "gn_read net w = (r, w1)"
    by fastforce
  then obtain received where received: "r = Some received"
    using 1(2) by (cases r) (auto simp: head_loop.simps [of net kind required bytes w])
  let ?chunk = "take READ_BUFFER received"
  have ok: "\<not> (?chunk = [] \<or> length (bytes @ ?chunk) > MAX_HEADER_BYTES + 4 + MAX_BODY_BYTES)"
    using 1(2) r received
    by (auto simp: head_loop.simps [of net kind required bytes w] Let_def split: if_splits)
  show ?case
  proof (cases "find_subslice (bytes @ ?chunk) (CRLF @ CRLF)")
    case None
    then show ?thesis
      using 1 r received ok
      by (auto simp: head_loop.simps [of net kind required bytes w] Let_def split: if_splits)
  next
    case (Some index)
    then show ?thesis
      using 1(2) r received ok find_subslice_bound [OF Some]
      by (auto simp: head_loop.simps [of net kind required bytes w] Let_def CRLF_def split: if_splits)
  qed
qed

lemma body_loop_sel:
  assumes "body_loop net expected bytes w = (Inr bytes', w')" and "length bytes \<le> expected"
  shows "length bytes' = expected"
  using assms
proof (induction net expected bytes w rule: body_loop.induct)
  case (1 net expected bytes w)
  obtain r w1 where r: "gn_read net w = (r, w1)"
    by fastforce
  show ?case
  proof (cases "expected \<le> length bytes")
    case True
    then have "body_loop net expected bytes w = (Inr bytes, w)"
      by (subst body_loop.simps) simp
    then show ?thesis
      using 1(2,3) True by simp
  next
    case False
    then show ?thesis
      using 1 r
      by (cases r) (auto simp: body_loop.simps [of net expected bytes w] Let_def split: if_splits)
  qed
qed

text \<open>What the JSON limits measure: the number of nodes, the longest path, all text, the longest key.\<close>

fun json_nodes :: "Value \<Rightarrow> nat" where
  "json_nodes (JArray vs) = Suc (sum_list (map json_nodes vs))"
| "json_nodes (JObject es) = Suc (sum_list (map (\<lambda>e. json_nodes (snd e)) es))"
| "json_nodes _ = 1"

fun json_depth :: "Value \<Rightarrow> nat" where
  "json_depth (JArray vs) = Suc (foldr max (map json_depth vs) 0)"
| "json_depth (JObject es) = Suc (foldr max (map (\<lambda>e. json_depth (snd e)) es) 0)"
| "json_depth _ = 1"

fun json_text :: "Value \<Rightarrow> nat" where
  "json_text (JString t) = length t"
| "json_text (JArray vs) = sum_list (map json_text vs)"
| "json_text (JObject es) = sum_list (map (\<lambda>e. length (fst e) + json_text (snd e)) es)"
| "json_text _ = 0"

fun json_keys_short :: "Value \<Rightarrow> bool" where
  "json_keys_short (JArray vs) = list_all json_keys_short vs"
| "json_keys_short (JObject es) = list_all (\<lambda>e. length (fst e) \<le> 128 \<and> json_keys_short (snd e)) es"
| "json_keys_short _ = True"

lemma foldr_max_le: "foldr max xs 0 \<le> (k :: nat) \<longleftrightarrow> (\<forall>x \<in> set xs. x \<le> k)"
  by (induction xs) auto

lemma checked_usize_add_Inr: "checked_usize_add a b = Inr c \<longleftrightarrow> c = a + b \<and> a + b \<le> USIZE_MAX"
  by (auto simp: checked_usize_add_def)

text \<open>The traversal of one value, of a list and of an object's entries, in terms of those measures.\<close>

definition visit_fits :: "Value \<Rightarrow> bool" where
  "visit_fits v \<longleftrightarrow> (\<forall>d n t. visit v d (n, t) =
     (if d + json_depth v \<le> 17 \<and> n + json_nodes v \<le> 256 \<and> t + json_text v \<le> 65536 \<and> json_keys_short v
      then Inr (n + json_nodes v, t + json_text v) else Inl GenaFailure.InvalidCallback))"

lemma visit_values_fits:
  assumes "\<forall>v \<in> set vs. visit_fits v"
  shows "visit_values vs d (n, t) =
    (if vs = [] \<or> (\<forall>v \<in> set vs. d + json_depth v \<le> 17 \<and> json_keys_short v) \<and>
        n + sum_list (map json_nodes vs) \<le> 256 \<and> t + sum_list (map json_text vs) \<le> 65536
     then Inr (n + sum_list (map json_nodes vs), t + sum_list (map json_text vs))
     else Inl GenaFailure.InvalidCallback)"
  using assms
proof (induction vs arbitrary: n t)
  case (Cons v vs)
  then show ?case
    by (cases "vs = []") (auto simp: visit_fits_def and_then_def simp del: visit.simps)
qed simp

lemma visit_entries_fits:
  assumes "\<forall>e \<in> set es. visit_fits (snd e)"
  shows "visit_entries es d (n, t) =
    (if es = [] \<or> (\<forall>e \<in> set es. length (fst e) \<le> 128 \<and> d + json_depth (snd e) \<le> 17 \<and> json_keys_short (snd e)) \<and>
        n + sum_list (map (\<lambda>e. json_nodes (snd e)) es) \<le> 256 \<and>
        t + sum_list (map (\<lambda>e. length (fst e) + json_text (snd e)) es) \<le> 65536
     then Inr (n + sum_list (map (\<lambda>e. json_nodes (snd e)) es),
               t + sum_list (map (\<lambda>e. length (fst e) + json_text (snd e)) es))
     else Inl GenaFailure.InvalidCallback)"
  using assms
proof (induction es arbitrary: n t)
  case (Cons e es)
  then show ?case
    by (cases e; cases "es = []")
      (auto simp: visit_fits_def and_then_def checked_usize_add_def USIZE_MAX_def MAX_JSON_KEY_BYTES_def
        simp del: visit.simps)
qed simp

lemma json_nodes_pos: "0 < json_nodes v"
  by (cases v) auto

lemma depth_list: "d + Suc (foldr max ns 0) \<le> 17 \<longleftrightarrow> d \<le> 16 \<and> (\<forall>n \<in> set ns. Suc d + n \<le> 17)"
proof -
  have "d + Suc (foldr max ns 0) \<le> 17 \<longleftrightarrow> d \<le> 16 \<and> foldr max ns 0 \<le> 16 - d"
    by auto
  also have "\<dots> \<longleftrightarrow> d \<le> 16 \<and> (\<forall>n \<in> set ns. Suc d + n \<le> 17)"
    by (force simp: foldr_max_le)
  finally show ?thesis .
qed

lemmas json_bounds = MAX_JSON_DEPTH_def MAX_JSON_NODES_def MAX_BODY_BYTES_def checked_usize_add_def
  USIZE_MAX_def and_then_def

lemma visit_fits: "visit_fits v"
proof (induction v)
  case (JArray vs)
  then have kids: "\<forall>v \<in> set vs. visit_fits v"
    by blast
  have "visit (JArray vs) d (n, t) =
     (if d + json_depth (JArray vs) \<le> 17 \<and> n + json_nodes (JArray vs) \<le> 256 \<and> t + json_text (JArray vs) \<le> 65536 \<and>
         json_keys_short (JArray vs)
      then Inr (n + json_nodes (JArray vs), t + json_text (JArray vs)) else Inl GenaFailure.InvalidCallback)" for d n t
    unfolding visit.simps json_depth.simps depth_list json_keys_short.simps list_all_iff
    by (cases "vs = []") (auto simp: visit_values_fits [OF kids] json_bounds)
  then show ?case
    by (simp add: visit_fits_def del: visit.simps)
next
  case (JObject es)
  then have kids: "\<forall>e \<in> set es. visit_fits (snd e)"
    by auto
  have "visit (JObject es) d (n, t) =
     (if d + json_depth (JObject es) \<le> 17 \<and> n + json_nodes (JObject es) \<le> 256 \<and> t + json_text (JObject es) \<le> 65536 \<and>
         json_keys_short (JObject es)
      then Inr (n + json_nodes (JObject es), t + json_text (JObject es)) else Inl GenaFailure.InvalidCallback)" for d n t
    unfolding visit.simps json_depth.simps depth_list json_keys_short.simps list_all_iff
    by (cases "es = []") (auto simp: visit_entries_fits [OF kids] json_bounds)
  then show ?case
    by (simp add: visit_fits_def del: visit.simps)
qed (auto simp: visit_fits_def json_bounds)

text \<open>
  One callback that confirms: the speaker connects before the deadline, and what is read from that connection, with no
  more time than is left, is its notification of the result.
\<close>

definition confirming_callback ::
  "'w gena_net \<Rightarrow> Ipv4Addr \<Rightarrow> GenaAction \<Rightarrow> nat \<Rightarrow> Subscription \<Rightarrow> 'w \<Rightarrow> 'w \<Rightarrow> bool" where
  "confirming_callback net jbl action deadline sub w w' \<longleftrightarrow>
     (\<exists>w1 w2 w3 w4 request seq.
        gn_now net w < deadline \<and> gn_accept net w = (Peer (Some jbl), w1) \<and>
        gn_set_read_timeout net (min (deadline - gn_now net w1) CONNECT_TIMEOUT) w1 = (True, w2) \<and>
        gn_set_write_timeout net (min (deadline - gn_now net w1) CONNECT_TIMEOUT) w2 = (True, w3) \<and>
        read_http_message net MessageKind.Request True w3 = (Inr request, w4) \<and>
        hm_start_line request = RequestLine ''NOTIFY'' (sb_path sub) \<and>
        header request ''sid'' = Some (sb_sid sub) \<and> parse_seq (header request ''seq'') = Inr seq \<and>
        sequence_is_next (sb_last_seq sub) seq \<and>
        parse_event_body (gn_document_parse net) (gn_from_str net) (hm_body request) =
          Inr (Some (case action of GenaAction.Start \<Rightarrow> 33 | GenaAction.Stop \<Rightarrow> 34)) \<and>
        w' = write_callback_response net True w4)"

lemma confirmed_callback:
  assumes "serve_callback net action d (sub, w1) = (Inr CallbackOutcome.Confirmed, sub', w')"
    and "gn_now net w < d" and "gn_accept net w = (Peer (Some jbl), w1)"
  shows "confirming_callback net jbl action d sub w w'" and "sb_sid sub' = sb_sid sub"
proof -
  obtain seq1 w2 w3 request w4 where t: "gn_set_read_timeout net (min (d - gn_now net w1) CONNECT_TIMEOUT) w1 = (True, w2)"
      "gn_set_write_timeout net (min (d - gn_now net w1) CONNECT_TIMEOUT) w2 = (True, w3)"
      and m: "read_http_message net MessageKind.Request True w3 = (Inr request, w4)"
      and w': "w' = write_callback_response net True w4"
      and v: "validate_callback (gn_document_parse net) (gn_from_str net) request (sb_path sub) (sb_sid sub)
        action (sb_last_seq sub) = (Inr CallbackOutcome.Confirmed, seq1)"
      and sub': "sub' = sub\<lparr>sb_last_seq := seq1\<rparr>"
    using serve_callback_sel [OF assms(1), of CallbackOutcome.Confirmed] by (auto simp: Let_def)
  show "sb_sid sub' = sb_sid sub"
    using sub' by simp
  obtain seq where "hm_start_line request = RequestLine ''NOTIFY'' (sb_path sub)"
      "header request ''sid'' = Some (sb_sid sub)" "parse_seq (header request ''seq'') = Inr seq"
      "sequence_is_next (sb_last_seq sub) seq"
      "parse_event_body (gn_document_parse net) (gn_from_str net) (hm_body request) =
         Inr (Some (case action of GenaAction.Start \<Rightarrow> 33 | GenaAction.Stop \<Rightarrow> 34))"
    using validate_callback_sel [OF v] reduce_confirmed_iff by metis
  with t m w' assms(2,3) show "confirming_callback net jbl action d sub w w'"
    unfolding confirming_callback_def by blast
qed

lemma observed_evidence:
  assumes "observe_until net action d g = (r, g1)" and "is_ok r"
  obtains sub sub1 w1 where "go_subscription g = Some sub"
    and "(observe_round net (go_jbl_address g) action d)\<^sup>*\<^sup>* (sub, go_world g) (sub1, w1)"
    and "confirming_callback net (go_jbl_address g) action d sub1 w1 (go_world g1)"
    and "go_jbl_address g1 = go_jbl_address g" and "go_event_port g1 = go_event_port g"
    and "map_option sb_sid (go_subscription g1) = Some (sb_sid sub)"
proof -
  obtain sub sub' w' where sub: "go_subscription g = Some sub"
      and l: "observe_loop (observe_fuel d (gn_now net (go_world g))) net (go_jbl_address g) action d 0
        (sub, go_world g) = (Some (Inr ()), sub', w')"
      and g1: "g1 = g\<lparr>go_subscription := Some sub', go_world := w'\<rparr>"
    using assms by (auto simp: observe_until_def is_ok_iff split: option.splits prod.splits)
  obtain sub1 w1 w2 where run: "(observe_round net (go_jbl_address g) action d)\<^sup>*\<^sup>* (sub, go_world g) (sub1, w1)"
      and acc: "gn_now net w1 < d" "gn_accept net w1 = (Peer (Some (go_jbl_address g)), w2)"
      and s: "serve_callback net action d (sub1, w2) = (Inr CallbackOutcome.Confirmed, sub', w')"
    using observe_loop_confirmed [OF l] by blast
  have "sb_sid sub1 = sb_sid sub"
    using observe_round_keeps [OF run] by simp
  then show ?thesis
    using that [OF sub run] confirmed_callback [OF s acc] g1 by simp
qed

subsection \<open>Properties\<close>


definition example_notify :: string where
  "example_notify =
     ''NOTIFY /p HTTP/1.1'' @ CRLF @ ''SID: uuid:a'' @ CRLF @ ''NT: upnp:event'' @ CRLF
     @ ''NTS: upnp:propchange'' @ CRLF @ ''SEQ: 7'' @ CRLF @ ''Content-Length: 1'' @ CRLF @ CRLF @ ''x''"

definition example_event :: Document where
  "example_event =
     ([], Element ''propertyset'' (Some EVENT_NAMESPACE) []
        [Element ''property'' None [] [Element ''PassThrough'' None [] [TextNode ''x'']]], [])"

definition example_body :: Value where
  "example_body =
     JObject [(''pass_through'', JObject [(''pass_string'', JObject
       [(''command'', JString NOTIFICATION_COMMAND),
        (''payload'', JObject [(''info'', JObject [(''action_code'', JNumber (PosInt 33))])])])])]"

text \<open>A world of chunks still to be read; the speaker calls back at once.\<close>

definition example_net :: "(string list \<times> nat) gena_net" where
  "example_net =
     \<lparr>gn_now = snd, gn_udp_bind = Pair True, gn_udp_connect = (\<lambda>_ _. Pair True),
      gn_udp_local_addr = Pair (Some (Some (Ipv4Addr 10 0 0 2))), gn_listen = (\<lambda>_ _. Pair True),
      gn_set_nonblocking = Pair True, gn_close_listener = id, gn_rand_bytes = Pair (Some [1]),
      gn_connect = (\<lambda>_ _ _. Pair True), gn_set_read_timeout = (\<lambda>_. Pair True),
      gn_set_write_timeout = (\<lambda>_. Pair True), gn_write = (\<lambda>_. Pair True), gn_flush = Pair True,
      gn_read = (\<lambda>(q, n). case q of [] \<Rightarrow> (None, (q, n)) | c # cs \<Rightarrow> (Some c, (cs, n))),
      gn_accept = Pair (Peer (Some (Ipv4Addr 10 0 0 1))), gn_sleep = (\<lambda>d (q, n). (q, n + d)),
      gn_document_parse = (\<lambda>_. Some example_event), gn_from_str = (\<lambda>_. Some example_body)\<rparr>"

definition example_observer :: "(string list \<times> nat) GenaBroadcastObserver" where
  "example_observer =
     \<lparr>go_jbl_address = Ipv4Addr 10 0 0 1, go_event_port = EVENT_PORT, go_callback_port = 8098,
      go_allow_loopback = False,
      go_subscription = Some \<lparr>sb_sid = ''uuid:a'', sb_path = ''/p'', sb_last_seq = None\<rparr>,
      go_world = ([example_notify, ''HTTP/1.1 200 OK'' @ CRLF @ CRLF], 0)\<rparr>"


lemmas text_eval = is_ascii_digit_def is_ascii_alphanumeric_def is_ascii_uppercase_def is_ascii_lowercase_def
  is_http_token_byte_def control_byte_def to_ascii_lowercase_def ascii_lower_def starts_with_def trim_matches_def
  digits_value_def parse_unsigned_def parse_decimal_usize_def

lemma example_message:
  "read_http_message example_net MessageKind.Request True ([example_notify, rest], n) =
     (Inr \<lparr>hm_start_line = RequestLine ''NOTIFY'' ''/p'',
           hm_headers = [(''content-length'', ''1''), (''seq'', ''7''), (''nts'', ''upnp:propchange''),
             (''nt'', ''upnp:event''), (''sid'', ''uuid:a'')], hm_body = ''x''\<rparr>, ([rest], n))"
  by (simp add: read_http_message_def try_bind_def lift_result_def example_net_def head_loop.simps
      body_loop.simps CRLF_def example_notify_def READ_BUFFER_def MAX_HEADER_BYTES_def MAX_BODY_BYTES_def
      text_eval parse_http_head_def parse_start_line_def MAX_HEADER_COUNT_def USIZE_MAX_def
      checked_usize_add_def and_then_def char_of_def bit_iff_odd)


lemma example_unsubscribed:
  "read_http_message example_net MessageKind.Response False ([''HTTP/1.1 200 OK'' @ CRLF @ CRLF], n) =
     (Inr \<lparr>hm_start_line = StatusLine 200, hm_headers = [], hm_body = []\<rparr>, ([], n))"
  by (simp add: read_http_message_def try_bind_def lift_result_def example_net_def head_loop.simps
      body_loop.simps CRLF_def READ_BUFFER_def MAX_HEADER_BYTES_def MAX_BODY_BYTES_def
      text_eval parse_http_head_def parse_start_line_def USIZE_MAX_def checked_usize_add_def and_then_def)

lemma example_json: "validate_json_limits example_body = Inr ()"
  using visit_fits [of example_body]
  by (simp add: validate_json_limits_def visit_fits_def example_body_def NOTIFICATION_COMMAND_def del: visit.simps)

lemma example_code: "parse_event_body (gn_document_parse example_net) (gn_from_str example_net) ''x'' = Inr (Some 33)"
proof -
  have "trim ''x'' = ''x''"
    by (rule trim_graphic) (simp add: is_graphic_def)
  then have "parse_pass_through_node (gn_from_str example_net) (Element ''PassThrough'' None [] [TextNode ''x'']) = Inr (Some 33)"
    using example_json
    by (simp add: parse_pass_through_node_def node_payload_def is_element_def MAX_XML_TEXT_BYTES_def MAX_BODY_BYTES_def
        parse_notification_json_def and_then_def example_net_def example_body_def get_def unwrap_or_def or_else_def
        extract_payload_action_code_def extract_info_action_code_def NOTIFICATION_COMMAND_def)
  then show ?thesis
    by (simp add: parse_event_body_def parse_bounded_xml_def contains_str_def starts_with_def and_then_def
        validate_xml_limits_def example_event_def example_net_def checked_usize_add_def USIZE_MAX_def MAX_XML_NODES_def
        MAX_XML_DEPTH_def MAX_XML_TEXT_BYTES_def MAX_BODY_BYTES_def EVENT_NAMESPACE_def is_element_def
        parse_property_def is_pass_through_def)
qed

lemma example_net_ops:
  "gn_now example_net w = snd w" "gn_accept example_net w = (Peer (Some (Ipv4Addr 10 0 0 1)), w)"
  "gn_connect example_net a p d w = (True, w)" "gn_set_read_timeout example_net d w = (True, w)"
  "gn_set_write_timeout example_net d w = (True, w)" "gn_write example_net t w = (True, w)"
  "gn_flush example_net w = (True, w)" "gn_close_listener example_net w = w"
  by (simp_all add: example_net_def)

lemma example_served:
  "serve_callback example_net GenaAction.Start d (\<lparr>sb_sid = ''uuid:a'', sb_path = ''/p'', sb_last_seq = None\<rparr>, ([example_notify, rest], n))
   = (Inr CallbackOutcome.Confirmed, \<lparr>sb_sid = ''uuid:a'', sb_path = ''/p'', sb_last_seq = Some 7\<rparr>, ([rest], n))"
proof -
  have "validate_callback (gn_document_parse example_net) (gn_from_str example_net)
      \<lparr>hm_start_line = RequestLine ''NOTIFY'' ''/p'',
           hm_headers = [(''content-length'', ''1''), (''seq'', ''7''), (''nts'', ''upnp:propchange''),
             (''nt'', ''upnp:event''), (''sid'', ''uuid:a'')], hm_body = ''x''\<rparr> ''/p'' ''uuid:a'' GenaAction.Start None =
      (Inr CallbackOutcome.Confirmed, Some 7)"
    by (simp add: validate_callback_def header_def header_eq_ignore_ascii_case_def eq_ignore_ascii_case_def
        content_type_is_xml_def parse_seq_def text_eval and_then_def sequence_is_next_def example_code)
  then show ?thesis
    by (simp add: serve_callback_def example_message try_bind_def step_def write_callback_response_def example_net_ops)
qed


text \<open>
  C38: the wait for a business result ends. On a monotonic clock whose sleeps last as long as asked, the
  observation loop returns for every speaker behaviour, network and deadline: after at most 64
  connections and one poll per five milliseconds of the time left; the fuel of the model is never used
  up.
\<close>

theorem observation_returns:
  assumes "clock_moves net"
  shows "\<exists>r sub' w'. observe_loop (observe_fuel deadline (gn_now net w)) net jbl action deadline 0 (sub, w) =
    (Some r, sub', w')"
proof -
  have "fst (observe_loop (observe_fuel deadline (gn_now net w)) net jbl action deadline 0 (sub, w)) \<noteq> None"
    by (rule observe_loop_returns [OF assms _ observe_fuel_enough]) simp
  then show ?thesis
    by (metis not_None_eq prod.collapse)
qed

theorem observation_returns_witness:
  "\<exists>r sub' w'. observe_loop (observe_fuel 15 0) example_net (Ipv4Addr 10 0 0 9) GenaAction.Stop 15 0
     (\<lparr>sb_sid = ''uuid:a'', sb_path = ''/p'', sb_last_seq = None\<rparr>, ([], 0)) = (Some r, sub', w')"
proof -
  have "clock_moves example_net"
    by (auto simp: clock_moves_def keeps_time_def example_net_def split: list.splits)
  from observation_returns [OF this, of 15 "([], 0)"] show ?thesis
    by (simp add: example_net_ops)
qed

text \<open>
  C39: what the HTTP reader lets through is bounded and unambiguous. A message that is accepted has at most
  64 headers, no header name twice, no transfer coding, a body of at most 65536 bytes, and the body is
  exactly as long as its decimal \<open>Content-Length\<close> says, or empty where none was needed and none was given.
\<close>

theorem http_message_is_bounded:
  assumes "read_http_message net kind required w = (Inr m, w')"
  shows "distinct (map fst (hm_headers m)) \<and> length (hm_headers m) \<le> 64 \<and> length (hm_body m) \<le> 65536 \<and>
    header m ''transfer-encoding'' = None \<and>
    (case header m ''content-length'' of
       None \<Rightarrow> \<not> required \<and> hm_body m = []
     | Some v \<Rightarrow> v \<noteq> [] \<and> list_all is_ascii_digit v \<and> digits_value v = length (hm_body m))"
proof -
  obtain bytes header_end start_line headers n w1 bytes' where
      h: "head_loop net kind required [] w = (Inr (bytes, header_end, start_line, headers, n), w1)"
    and b: "body_loop net (header_end + n) bytes w1 = (Inr bytes', w')" "length bytes \<le> header_end + n"
    and m: "m = \<lparr>hm_start_line = start_line, hm_headers = headers, hm_body = drop header_end bytes'\<rparr>"
    using assms
    by (auto simp: read_http_message_def try_bind_Inr lift_result_def checked_usize_add_Inr
        split: prod.splits if_splits)
  have "length bytes' = header_end + n"
    using body_loop_sel [OF b] .
  moreover obtain head where "parse_http_head head kind required = Inr (start_line, headers, n)"
    using head_loop_sel [OF h] by blast
  from parse_http_head_sel [OF this] have "distinct (map fst headers) \<and> length headers \<le> MAX_HEADER_COUNT \<and>
    n \<le> MAX_BODY_BYTES \<and> map_of headers ''transfer-encoding'' = None \<and>
    (case map_of headers ''content-length'' of
       None \<Rightarrow> \<not> required \<and> n = 0
     | Some v \<Rightarrow> v \<noteq> [] \<and> list_all is_ascii_digit v \<and> n = digits_value v)" .
  ultimately show ?thesis
    by (cases "map_of headers ''content-length''")
      (simp_all add: m header_def MAX_HEADER_COUNT_def MAX_BODY_BYTES_def)
qed

theorem http_message_is_bounded_witness:
  "length (hm_body (case fst (read_http_message example_net MessageKind.Request True ([example_notify, []], 0)) of
     Inr m \<Rightarrow> m)) \<le> 65536"
  using http_message_is_bounded [OF example_message] by (simp add: example_message)

text \<open>
  The JSON limits mean what their names say. A document passes the traversal exactly when it is at most
  16 levels deep, has at most 256 nodes and at most 65536 bytes of keys and strings, and no key is longer
  than 128 bytes; the early exits of the traversal change nothing.
\<close>

theorem json_limits_exact:
  "validate_json_limits v =
     (if json_depth v \<le> 16 \<and> json_nodes v \<le> 256 \<and> json_text v \<le> 65536 \<and> json_keys_short v
      then Inr () else Inl GenaFailure.InvalidCallback)"
  using visit_fits [of v]
  by (auto simp: validate_json_limits_def visit_fits_def and_then_def simp del: visit.simps)

end
