(* ===== verification/Aura_Protocol.thy ===== *)
theory Aura_Protocol
  imports Model
begin

text \<open>
  The closed protocol of the Aura speaker (\<open>rust/src/aura_protocol.rs\<close>): the two role frames, the one
  acknowledgement, and the match of a Harman FDDF advertisement.
\<close>

definition HARMAN_FDDF_UUID :: string where
  "HARMAN_FDDF_UUID = ''0000fddf-0000-1000-8000-00805f9b34fb''"

definition AURA_STUDIO_5_PID :: "8 word list" where
  "AURA_STUDIO_5_PID = [0x2D, 0x21]"

definition STABLE_IDENTITY_OFFSET :: nat where
  "STABLE_IDENTITY_OFFSET = 11"

definition STABLE_IDENTITY_END :: nat where
  "STABLE_IDENTITY_END = STABLE_IDENTITY_OFFSET + 6"

definition SUCCESS_ACK :: "8 word list" where
  "SUCCESS_ACK = [0xAA, 0x00, 0x02, 0x13, 0x00]"

datatype AuraPlayTogetherCommand = On | Off

fun frame :: "AuraPlayTogetherCommand \<Rightarrow> 8 word list" where
  "frame AuraPlayTogetherCommand.On = [0xAA, 0x13, 0x04, 0x00, 0x3C, 0x01, 0x01]"
| "frame AuraPlayTogetherCommand.Off = [0xAA, 0x13, 0x04, 0x00, 0x3C, 0x01, 0x00]"

definition parse_command_ack :: "8 word list \<Rightarrow> unit option" where
  "parse_command_ack notification = (if notification = SUCCESS_ACK then Some () else None)"

definition matches_verified_fddf :: "string \<Rightarrow> 8 word list \<Rightarrow> DeviceIdentity \<Rightarrow> bool" where
  "matches_verified_fddf service_uuid payload expected_identity \<longleftrightarrow>
     eq_ignore_ascii_case service_uuid HARMAN_FDDF_UUID
     \<and> length payload \<ge> STABLE_IDENTITY_END
     \<and> take 2 payload = AURA_STUDIO_5_PID
     \<and> matches_binary expected_identity
         (take (STABLE_IDENTITY_END - STABLE_IDENTITY_OFFSET) (drop STABLE_IDENTITY_OFFSET payload))"

lemma fddf_identity_unique:
  "matches_verified_fddf u p d \<Longrightarrow> matches_verified_fddf u' p d' \<Longrightarrow> d = d'"
  by (auto simp: matches_verified_fddf_def matches_binary_def intro: DeviceIdentity.expand)

end
