(* ===== verification/Aura_Wake.thy ===== *)
theory Aura_Wake
  imports Aura_Protocol
begin

text \<open>
  The bounded wake acquisition of the Aura speaker through its paired A2DP profile
  (\<open>rust/src/aura_wake.rs\<close>). The two platform traits are operations over one world, the system that both
  the BlueZ calls and the observer act on.
\<close>

subsection \<open>Vocabulary\<close>

definition A2DP_SINK_PROFILE_UUID :: string where
  "A2DP_SINK_PROFILE_UUID = ''0000110b-0000-1000-8000-00805f9b34fb''"

definition AURA_STUDIO_5_PRODUCT_ID :: "16 word" where
  "AURA_STUDIO_5_PRODUCT_ID = 0x212D"

datatype AuraWakeIoFailure = Unavailable | TimedOut | Rejected

datatype StableAddressKind = Public | Other

record StableAuraState =
  sas_exact_identity :: bool
  sas_address_kind :: StableAddressKind
  sas_paired :: bool
  sas_trusted :: bool
  sas_blocked :: bool

datatype FddfAddressKind = ResolvablePrivate | Other

record FreshFddfObservation =
  ffo_fresh :: bool
  ffo_address_kind :: FddfAddressKind
  ffo_product_id :: "16 word"
  ffo_embedded_identity_matches :: bool

record 'b AuraWakeBluez =
  wb_inspect_stable_device :: "DeviceIdentity \<Rightarrow> ('b, AuraWakeIoFailure, StableAuraState) fallible"
  wb_connect_profile :: "DeviceIdentity \<Rightarrow> string \<Rightarrow> duration \<Rightarrow> ('b, AuraWakeIoFailure, unit) fallible"
  wb_disconnect_profile :: "DeviceIdentity \<Rightarrow> string \<Rightarrow> duration \<Rightarrow> ('b, AuraWakeIoFailure, unit) fallible"
  wb_wait_profile_released :: "DeviceIdentity \<Rightarrow> string \<Rightarrow> duration \<Rightarrow> ('b, AuraWakeIoFailure, bool) fallible"

type_synonym 'b AuraWakeFddfObserver =
  "DeviceIdentity \<Rightarrow> duration \<Rightarrow> ('b, AuraWakeIoFailure, FreshFddfObservation option) fallible"

record AuraWakeTimings =
  wt_connect_timeout :: duration
  wt_fddf_timeout :: duration
  wt_release_timeout :: duration

definition default_wake_timings :: AuraWakeTimings where
  "default_wake_timings =
     \<lparr>wt_connect_timeout = from_secs 20, wt_fddf_timeout = from_secs 30, wt_release_timeout = from_secs 5\<rparr>"

datatype AuraWakeFailure =
    InvalidConfiguration | StableDeviceUnavailable | StableIdentityMismatch | StableAddressInvalid
  | StableDeviceNotPaired | StableDeviceNotTrusted | StableDeviceBlocked | ProfileConnectFailed
  | FreshFddfUnavailable | FreshFddfTimedOut | FreshFddfInvalid | ProfileReleaseFailed

datatype AuraWakeCleanup = NotNeeded | Released | ReleaseFailed

record AuraWakeSuccess =
  ws_fresh_fddf_verified :: bool
  ws_cleanup :: AuraWakeCleanup

record AuraWakeError =
  we_failure :: AuraWakeFailure
  we_cleanup :: AuraWakeCleanup

subsection \<open>Validation\<close>

definition wake_timings_validate :: "AuraWakeTimings \<Rightarrow> (AuraWakeFailure, unit) result" where
  "wake_timings_validate t =
     (if wt_connect_timeout t = 0 \<or> wt_connect_timeout t > from_secs 20
         \<or> wt_fddf_timeout t = 0 \<or> wt_fddf_timeout t > from_secs 30
         \<or> wt_release_timeout t = 0 \<or> wt_release_timeout t > from_secs 10
      then Inl AuraWakeFailure.InvalidConfiguration else Inr ())"

definition validate_stable_state :: "StableAuraState \<Rightarrow> (AuraWakeFailure, unit) result" where
  "validate_stable_state state =
     (if \<not> sas_exact_identity state then Inl AuraWakeFailure.StableIdentityMismatch
      else if sas_address_kind state \<noteq> StableAddressKind.Public
      then Inl AuraWakeFailure.StableAddressInvalid
      else if \<not> sas_paired state then Inl AuraWakeFailure.StableDeviceNotPaired
      else if \<not> sas_trusted state then Inl AuraWakeFailure.StableDeviceNotTrusted
      else if sas_blocked state then Inl AuraWakeFailure.StableDeviceBlocked
      else Inr ())"

definition validate_fddf :: "FreshFddfObservation \<Rightarrow> (AuraWakeFailure, unit) result" where
  "validate_fddf observation =
     (if ffo_fresh observation \<and> ffo_address_kind observation = FddfAddressKind.ResolvablePrivate
         \<and> ffo_product_id observation = AURA_STUDIO_5_PRODUCT_ID
         \<and> ffo_embedded_identity_matches observation
      then Inr () else Inl AuraWakeFailure.FreshFddfInvalid)"

subsection \<open>The acquisition\<close>

definition release_profile ::
  "'b AuraWakeBluez \<Rightarrow> DeviceIdentity \<Rightarrow> duration \<Rightarrow> 'b \<Rightarrow> AuraWakeCleanup \<times> 'b" where
  "release_profile ops identity timeout b =
     (let (_, b) = wb_disconnect_profile ops identity A2DP_SINK_PROFILE_UUID timeout b;
          (released, b) = wb_wait_profile_released ops identity A2DP_SINK_PROFILE_UUID timeout b
      in (if released = Inr True then AuraWakeCleanup.Released else AuraWakeCleanup.ReleaseFailed, b))"

definition wake_primary ::
  "'b AuraWakeBluez \<Rightarrow> 'b AuraWakeFddfObserver \<Rightarrow> DeviceIdentity \<Rightarrow> AuraWakeTimings
    \<Rightarrow> ('b, AuraWakeFailure, unit) fallible" where
  "wake_primary ops observer identity timings b =
     (case wb_connect_profile ops identity A2DP_SINK_PROFILE_UUID (wt_connect_timeout timings) b of
        (Inl _, b) \<Rightarrow> (Inl AuraWakeFailure.ProfileConnectFailed, b)
      | (Inr _, b) \<Rightarrow>
          (case observer identity (wt_fddf_timeout timings) b of
             (Inr (Some observation), b) \<Rightarrow> (validate_fddf observation, b)
           | (Inr None, b) \<Rightarrow> (Inl AuraWakeFailure.FreshFddfTimedOut, b)
           | (Inl _, b) \<Rightarrow> (Inl AuraWakeFailure.FreshFddfUnavailable, b)))"

fun wake_result ::
  "(AuraWakeFailure, unit) result \<Rightarrow> AuraWakeCleanup \<Rightarrow> (AuraWakeError, AuraWakeSuccess) result option" where
  "wake_result (Inr _) AuraWakeCleanup.Released =
     Some (Inr \<lparr>ws_fresh_fddf_verified = True, ws_cleanup = AuraWakeCleanup.Released\<rparr>)"
| "wake_result (Inr _) AuraWakeCleanup.ReleaseFailed =
     Some (Inl \<lparr>we_failure = AuraWakeFailure.ProfileReleaseFailed, we_cleanup = AuraWakeCleanup.ReleaseFailed\<rparr>)"
| "wake_result (Inl failure) cleanup = Some (Inl \<lparr>we_failure = failure, we_cleanup = cleanup\<rparr>)"
| "wake_result (Inr _) AuraWakeCleanup.NotNeeded = None"

text \<open>\<open>None\<close> is the \<open>unreachable!\<close> of the source.\<close>

definition acquire_aura_wake ::
  "'b AuraWakeBluez \<Rightarrow> 'b AuraWakeFddfObserver \<Rightarrow> DeviceIdentity \<Rightarrow> AuraWakeTimings \<Rightarrow> 'b
    \<Rightarrow> (AuraWakeError, AuraWakeSuccess) result option \<times> 'b" where
  "acquire_aura_wake ops observer identity timings b =
     (let early = (\<lambda>failure. Some (Inl \<lparr>we_failure = failure, we_cleanup = AuraWakeCleanup.NotNeeded\<rparr>))
      in case wake_timings_validate timings of
           Inl failure \<Rightarrow> (early failure, b)
         | Inr _ \<Rightarrow>
             (case wb_inspect_stable_device ops identity b of
                (Inl _, b) \<Rightarrow> (early AuraWakeFailure.StableDeviceUnavailable, b)
              | (Inr state, b) \<Rightarrow>
                  (case validate_stable_state state of
                     Inl failure \<Rightarrow> (early failure, b)
                   | Inr _ \<Rightarrow>
                       (let (primary, b) = wake_primary ops observer identity timings b;
                            (cleanup, b) = release_profile ops identity (wt_release_timeout timings) b
                        in (wake_result primary cleanup, b)))))"

subsection \<open>Lemmas\<close>

lemma release_profile_needed: "fst (release_profile ops i t b) \<noteq> AuraWakeCleanup.NotNeeded"
  by (simp add: release_profile_def Let_def split: prod.splits)

lemma wake_result_total: "c \<noteq> AuraWakeCleanup.NotNeeded \<Longrightarrow> wake_result p c \<noteq> None"
  by (cases p; cases c) simp_all

lemma wake_result_ok:
  "wake_result p c = Some (Inr s) \<longleftrightarrow>
     is_ok p \<and> c = AuraWakeCleanup.Released \<and>
     s = \<lparr>ws_fresh_fddf_verified = True, ws_cleanup = AuraWakeCleanup.Released\<rparr>"
  by (cases p; cases c) auto

lemma wake_result_err_cleanup: "wake_result p c = Some (Inl e) \<Longrightarrow> we_cleanup e = c"
  by (cases p; cases c) auto

lemma validate_stable_state_ok:
  "validate_stable_state st = Inr () \<longleftrightarrow> sas_exact_identity st \<and> sas_address_kind st = StableAddressKind.Public
     \<and> sas_paired st \<and> sas_trusted st \<and> \<not> sas_blocked st"
  by (simp add: validate_stable_state_def)

subsection \<open>Properties\<close>

text \<open>
  C35: the wake always cleans up after itself. It always returns (its unreachable branch is not reached);
  it touches the profile only for a device that was inspected and found exact, public, paired, trusted
  and not blocked; once it has tried to connect the profile, the disconnect and the wait for its release
  are the last two calls on every path, and the reported cleanup, of a success as of a failure, is what that
  wait observed; a success was released and had connected the profile.
\<close>

theorem wake_cleans_up:
  assumes "acquire_aura_wake ops observer i t b = (r, b')"
  shows "\<exists>outcome. r = Some outcome \<and>
    (let (inspected, b1) = wb_inspect_stable_device ops i b in
     if is_ok (wake_timings_validate t) \<and>
        (\<exists>st. inspected = Inr st \<and> sas_exact_identity st \<and> sas_address_kind st = StableAddressKind.Public
           \<and> sas_paired st \<and> sas_trusted st \<and> \<not> sas_blocked st)
     then
       (let (connected, b2) = wb_connect_profile ops i A2DP_SINK_PROFILE_UUID (wt_connect_timeout t) b1;
            b3 = (if is_ok connected then snd (observer i (wt_fddf_timeout t) b2) else b2);
            b4 = snd (wb_disconnect_profile ops i A2DP_SINK_PROFILE_UUID (wt_release_timeout t) b3);
            (released, b5) = wb_wait_profile_released ops i A2DP_SINK_PROFILE_UUID (wt_release_timeout t) b4;
            cleanup = (if released = Inr True then AuraWakeCleanup.Released else AuraWakeCleanup.ReleaseFailed)
        in b' = b5 \<and>
           (case outcome of
              Inl e \<Rightarrow> we_cleanup e = cleanup
            | Inr s \<Rightarrow> ws_cleanup s = cleanup \<and> cleanup = AuraWakeCleanup.Released \<and> ws_fresh_fddf_verified s \<and> is_ok connected))
     else b' \<in> {b, b1} \<and> (\<exists>f. outcome = Inl \<lparr>we_failure = f, we_cleanup = AuraWakeCleanup.NotNeeded\<rparr>))"
proof -
  obtain ins b1 where ins: "wb_inspect_stable_device ops i b = (ins, b1)"
    by fastforce
  obtain con b2 where con: "wb_connect_profile ops i A2DP_SINK_PROFILE_UUID (wt_connect_timeout t) b1 = (con, b2)"
    by fastforce
  obtain p b3 where p: "wake_primary ops observer i t b1 = (p, b3)"
    by fastforce
  have b3: "b3 = (if is_ok con then snd (observer i (wt_fddf_timeout t) b2) else b2)"
    using p con by (auto simp: wake_primary_def split: prod.splits sum.splits option.splits)
  obtain c b5 where c: "release_profile ops i (wt_release_timeout t) b3 = (c, b5)"
    by fastforce
  obtain outcome where out: "wake_result p c = Some outcome"
    using release_profile_needed [of ops i "wt_release_timeout t" b3] c wake_result_total [of c p] by auto
  show ?thesis
  proof (cases "is_ok (wake_timings_validate t) \<and> (\<exists>s. ins = Inr s \<and> validate_stable_state s = Inr ())")
    case True
    then obtain s where s: "ins = Inr s" "validate_stable_state s = Inr ()"
      by blast
    then have "r = Some outcome" "b' = b5"
      using assms True ins p c out by (auto simp: acquire_aura_wake_def is_ok_iff Let_def)
    moreover have "case outcome of Inl e \<Rightarrow> we_cleanup e = c
        | Inr s \<Rightarrow> ws_cleanup s = c \<and> c = AuraWakeCleanup.Released \<and> ws_fresh_fddf_verified s \<and> is_ok p"
      using out wake_result_err_cleanup by (auto simp: wake_result_ok split: sum.splits)
    moreover have "is_ok con" if "is_ok p"
      using p con that by (auto simp: wake_primary_def split: sum.splits)
    ultimately show ?thesis
      using True ins con s c b3
      by (cases outcome; cases "is_ok con") (auto simp: release_profile_def validate_stable_state_ok Let_def split: prod.splits)
  next
    case False
    then show ?thesis
      using assms ins by (cases ins)
        (auto simp: acquire_aura_wake_def validate_stable_state_ok Let_def split: sum.splits)
  qed
qed

definition example_wake :: "nat AuraWakeBluez" where
  "example_wake =
     \<lparr>wb_inspect_stable_device = (\<lambda>_ n. (Inr \<lparr>sas_exact_identity = True,
        sas_address_kind = StableAddressKind.Public, sas_paired = True, sas_trusted = True,
        sas_blocked = False\<rparr>, n + 1)),
      wb_connect_profile = (\<lambda>_ _ _ n. (Inl AuraWakeIoFailure.TimedOut, n + 10)),
      wb_disconnect_profile = (\<lambda>_ _ _ n. (Inl AuraWakeIoFailure.TimedOut, n + 100)),
      wb_wait_profile_released = (\<lambda>_ _ _ n. (Inr True, n + 1000))\<rparr>"

theorem wake_cleans_up_witness:
  "snd (acquire_aura_wake example_wake (\<lambda>_ _ n. (Inr None, n + 1)) example_aura default_wake_timings 0) = 1111"
proof -
  obtain r b' where a: "acquire_aura_wake example_wake (\<lambda>_ _ n. (Inr None, n + 1)) example_aura
      default_wake_timings 0 = (r, b')"
    by fastforce
  show ?thesis
    using wake_cleans_up [OF a] a
    by (auto simp: example_wake_def wake_timings_validate_def default_wake_timings_def from_secs_def)
qed

text \<open>
  A wake succeeds only on evidence. Success means the profile was connected, the observer then saw
  a fresh advertisement from a resolvable private address with this product and the embedded identity,
  and the profile was seen released; the observer is not asked before the profile is connected.
\<close>

theorem wake_success_evidence:
  assumes "acquire_aura_wake ops observer i t b = (Some (Inr s), b')"
  shows "\<exists>b1 b2 b3 observation.
    b1 = snd (wb_inspect_stable_device ops i b) \<and>
    wb_connect_profile ops i A2DP_SINK_PROFILE_UUID (wt_connect_timeout t) b1 = (Inr (), b2) \<and>
    observer i (wt_fddf_timeout t) b2 = (Inr (Some observation), b3) \<and>
    ffo_fresh observation \<and> ffo_address_kind observation = FddfAddressKind.ResolvablePrivate \<and>
    ffo_product_id observation = AURA_STUDIO_5_PRODUCT_ID \<and> ffo_embedded_identity_matches observation \<and>
    ws_fresh_fddf_verified s \<and> ws_cleanup s = AuraWakeCleanup.Released"
proof -
  obtain ins b1 where ins: "wb_inspect_stable_device ops i b = (ins, b1)"
    by fastforce
  obtain p b2 where p: "wake_primary ops observer i t b1 = (p, b2)"
    by fastforce
  obtain c b4 where c: "release_profile ops i (wt_release_timeout t) b2 = (c, b4)"
    by fastforce
  have "wake_result p c = Some (Inr s)"
    using assms ins p c by (auto simp: acquire_aura_wake_def Let_def split: sum.splits)
  then have "is_ok p" "s = \<lparr>ws_fresh_fddf_verified = True, ws_cleanup = AuraWakeCleanup.Released\<rparr>"
    by (simp_all add: wake_result_ok)
  then show ?thesis
    using p ins
    by (auto simp: wake_primary_def validate_fddf_def split: prod.splits sum.splits option.splits if_splits)
qed

definition example_fddf :: FreshFddfObservation where
  "example_fddf = \<lparr>ffo_fresh = True, ffo_address_kind = FddfAddressKind.ResolvablePrivate,
     ffo_product_id = AURA_STUDIO_5_PRODUCT_ID, ffo_embedded_identity_matches = True\<rparr>"

theorem wake_success_evidence_witness:
  "\<exists>s b'. acquire_aura_wake (example_wake\<lparr>wb_connect_profile := (\<lambda>_ _ _ n. (Inr (), n + 10))\<rparr>)
      (\<lambda>_ _ n. (Inr (Some example_fddf), n)) example_aura default_wake_timings 0 = (Some (Inr s), b')
     \<and> ws_fresh_fddf_verified s"
proof -
  let ?a = "acquire_aura_wake (example_wake\<lparr>wb_connect_profile := (\<lambda>_ _ _ n. (Inr (), n + 10))\<rparr>)
      (\<lambda>_ _ n. (Inr (Some example_fddf), n)) example_aura default_wake_timings 0"
  have "\<exists>s b'. ?a = (Some (Inr s), b')"
    by (simp add: acquire_aura_wake_def wake_primary_def release_profile_def example_wake_def Let_def
        wake_timings_validate_def default_wake_timings_def from_secs_def validate_stable_state_def
        validate_fddf_def example_fddf_def)
  then obtain s b' where a: "?a = (Some (Inr s), b')"
    by blast
  from wake_success_evidence [OF a] show ?thesis
    using a by blast
qed

end
