(* ===== verification/Aura_Control.thy ===== *)
theory Aura_Control
  imports Aura_Wake Backend
begin

unbundle bit_operations_syntax

text \<open>
  The Aura control path over BlueZ (\<open>rust/src/aura_bluez.rs\<close>): the bounded timings, the command core
  with its uncertainty latch over the \<open>AuraIo\<close> trait, the exact order of a cold connection, and the
  raw ATT packets. Wrapper structs with the single field \<open>reason\<close> are their reason.
\<close>

subsection \<open>Vocabulary\<close>

datatype AuraHealth = Offline | Ready | Unavailable | OutcomeUnknown

datatype AuraBearerTransport = Le | BrEdr

datatype AuraFailureReason =
    InvalidConfiguration | RuntimeUnavailable | AdapterUnavailable | AdapterPoweredOff
  | DiscoveryUnavailable | VerifiedAdvertisementNotFound | DeviceConnectionFailed
  | WakeProfileConnectFailed | WakeFddfTimedOut | WakeFddfInvalid | WakeFddfUnavailable
  | WakeProfileReleaseFailed | GattProfileInvalid | NotificationSetupFailed | TransportNotReady
  | NotificationQueueInvalid | WriteFailed | AcknowledgementTimedOut
  | AcknowledgementChannelClosed | UnexpectedAcknowledgement | DisconnectFailed

type_synonym AuraTransportError = AuraFailureReason

type_synonym AuraActionFailure = AuraFailureReason

datatype AuraActionResult =
    Accepted | RejectedBeforeSend AuraActionFailure | OutcomeUnknown AuraActionFailure

subsection \<open>Timings\<close>

record AuraBluezTimings =
  bt_scan_attempts :: "8 word"
  bt_scan_window :: duration
  bt_retry_delay :: duration
  bt_total_connect_timeout :: duration
  bt_device_connect_timeout :: duration
  bt_gatt_setup_timeout :: duration
  bt_command_write_timeout :: duration
  bt_ack_timeout :: duration

definition MAX_SCAN_ATTEMPTS :: "8 word" where
  "MAX_SCAN_ATTEMPTS = 10"

definition MAX_TOTAL_CONNECT_TIMEOUT :: duration where
  "MAX_TOTAL_CONNECT_TIMEOUT = from_secs (10 * 60)"

definition reserved_budget :: "AuraBluezTimings \<Rightarrow> duration option" where
  "reserved_budget t =
     Option.bind (checked_mul (bt_scan_window t) (unat (bt_scan_attempts t))) (\<lambda>windows.
     Option.bind (Option.bind (checked_mul (bt_retry_delay t) (unat (bt_scan_attempts t) - 1))
                    (\<lambda>delays. checked_add windows delays)) (\<lambda>scans.
     Option.bind (checked_add scans (bt_device_connect_timeout t)) (\<lambda>connect.
       checked_add connect (bt_gatt_setup_timeout t))))"

definition bluez_timings_validate :: "AuraBluezTimings \<Rightarrow> (AuraTransportError, unit) result" where
  "bluez_timings_validate t =
     (if bt_scan_attempts t = 0 \<or> bt_scan_attempts t > MAX_SCAN_ATTEMPTS \<or> bt_scan_window t = 0
         \<or> bt_total_connect_timeout t = 0 \<or> bt_total_connect_timeout t > MAX_TOTAL_CONNECT_TIMEOUT
         \<or> bt_device_connect_timeout t = 0 \<or> bt_gatt_setup_timeout t = 0
         \<or> bt_command_write_timeout t = 0 \<or> bt_ack_timeout t = 0
      then Inl AuraFailureReason.InvalidConfiguration
      else case reserved_budget t of
          None \<Rightarrow> Inl AuraFailureReason.InvalidConfiguration
        | Some budget \<Rightarrow>
            if budget > bt_total_connect_timeout t then Inl AuraFailureReason.InvalidConfiguration
            else Inr ())"

definition default_bluez_timings :: AuraBluezTimings where
  "default_bluez_timings =
     \<lparr>bt_scan_attempts = 3, bt_scan_window = from_secs 30, bt_retry_delay = from_secs 15,
      bt_total_connect_timeout = from_secs 150, bt_device_connect_timeout = from_secs 15,
      bt_gatt_setup_timeout = from_secs 15, bt_command_write_timeout = from_secs 5,
      bt_ack_timeout = from_secs 5\<rparr>"

subsection \<open>The command core\<close>

datatype AckObservation = Accepted | Unexpected

record 'i AuraIo =
  io_connect_verified :: "DeviceIdentity \<Rightarrow> ('i, AuraFailureReason, unit) fallible"
  io_health :: "'i \<Rightarrow> AuraHealth \<times> 'i"
  io_prepare_command :: "('i, AuraFailureReason, unit) fallible"
  io_begin_write :: "AuraPlayTogetherCommand \<Rightarrow> ('i, AuraFailureReason, unit) fallible"
  io_wait_for_ack :: "('i, AuraFailureReason, AckObservation) fallible"
  io_shutdown :: "('i, AuraFailureReason, unit) fallible"

record 'i AuraControlCore =
  acc_io :: 'i
  acc_unresolved :: "AuraActionFailure option"

definition core_new :: "'i \<Rightarrow> 'i AuraControlCore" where
  "core_new io = \<lparr>acc_io = io, acc_unresolved = None\<rparr>"

definition on_io :: "('i, 'e, 'a) fallible \<Rightarrow> ('i AuraControlCore, 'e, 'a) fallible" where
  "on_io m c = (case m (acc_io c) of (r, io) \<Rightarrow> (r, c\<lparr>acc_io := io\<rparr>))"

definition core_connect_verified ::
  "'i AuraIo \<Rightarrow> DeviceIdentity \<Rightarrow> ('i AuraControlCore, AuraTransportError, unit) fallible" where
  "core_connect_verified ops identity c =
     try_bind (if acc_unresolved c \<noteq> None then on_io (io_shutdown ops) else lift_result (Inr ())) (\<lambda>_.
     try_bind (on_io (io_connect_verified ops identity)) (\<lambda>_ c.
       (Inr (), c\<lparr>acc_unresolved := None\<rparr>))) c"

definition core_health :: "'i AuraIo \<Rightarrow> 'i AuraControlCore \<Rightarrow> AuraHealth \<times> 'i AuraControlCore" where
  "core_health ops c =
     (if acc_unresolved c \<noteq> None then (AuraHealth.OutcomeUnknown, c)
      else case io_health ops (acc_io c) of (h, io) \<Rightarrow> (h, c\<lparr>acc_io := io\<rparr>))"

definition core_latch_unknown ::
  "AuraFailureReason \<Rightarrow> 'i AuraControlCore \<Rightarrow> AuraActionResult \<times> 'i AuraControlCore" where
  "core_latch_unknown reason c =
     (AuraActionResult.OutcomeUnknown reason, c\<lparr>acc_unresolved := Some reason\<rparr>)"

definition core_command ::
  "'i AuraIo \<Rightarrow> AuraPlayTogetherCommand \<Rightarrow> 'i AuraControlCore \<Rightarrow> AuraActionResult \<times> 'i AuraControlCore" where
  "core_command ops command c =
     (case acc_unresolved c of
        Some failure \<Rightarrow> (AuraActionResult.OutcomeUnknown failure, c)
      | None \<Rightarrow>
          (let (health, io) = io_health ops (acc_io c); c = c\<lparr>acc_io := io\<rparr>
           in if health \<noteq> AuraHealth.Ready
              then (AuraActionResult.RejectedBeforeSend AuraFailureReason.TransportNotReady, c)
              else case on_io (io_prepare_command ops) c of
                  (Inl reason, c) \<Rightarrow> (AuraActionResult.RejectedBeforeSend reason, c)
                | (Inr _, c) \<Rightarrow>
                    (case on_io (io_begin_write ops command) c of
                       (Inl reason, c) \<Rightarrow> core_latch_unknown reason c
                     | (Inr _, c) \<Rightarrow>
                         (case on_io (io_wait_for_ack ops) c of
                            (Inr AckObservation.Accepted, c) \<Rightarrow> (AuraActionResult.Accepted, c)
                          | (Inr AckObservation.Unexpected, c) \<Rightarrow>
                              core_latch_unknown AuraFailureReason.UnexpectedAcknowledgement c
                          | (Inl reason, c) \<Rightarrow> core_latch_unknown reason c))))"

definition core_shutdown :: "'i AuraIo \<Rightarrow> ('i AuraControlCore, AuraTransportError, unit) fallible" where
  "core_shutdown ops c =
     (case on_io (io_shutdown ops) c of
        (r, c) \<Rightarrow> (r, if is_ok r then c\<lparr>acc_unresolved := None\<rparr> else c))"

subsection \<open>The cold connection\<close>

record ('o, 'r) ColdConnectOps =
  cc_connect_stable :: "AuraAcquisitionRoute \<Rightarrow> ('o, AuraFailureReason, 'r) fallible"
  cc_wake_once :: "('o, AuraFailureReason, unit) fallible"
  cc_connect_le :: "('o, AuraFailureReason, 'r) fallible"

definition raw_att_retry_eligible :: "AuraFailureReason \<Rightarrow> bool" where
  "raw_att_retry_eligible reason \<longleftrightarrow>
     reason \<in> {AuraFailureReason.DeviceConnectionFailed, AuraFailureReason.GattProfileInvalid,
               AuraFailureReason.NotificationSetupFailed}"

definition wake_stage_failure :: "AuraFailureReason \<Rightarrow> bool" where
  "wake_stage_failure reason \<longleftrightarrow>
     reason \<in> {AuraFailureReason.WakeProfileConnectFailed, AuraFailureReason.WakeFddfTimedOut,
               AuraFailureReason.WakeFddfInvalid, AuraFailureReason.WakeFddfUnavailable,
               AuraFailureReason.WakeProfileReleaseFailed}"

definition map_wake_error :: "AuraWakeFailure \<Rightarrow> AuraWakeCleanup \<Rightarrow> AuraFailureReason" where
  "map_wake_error failure cleanup =
     (if cleanup = AuraWakeCleanup.ReleaseFailed then AuraFailureReason.WakeProfileReleaseFailed
      else case failure of
          AuraWakeFailure.ProfileConnectFailed \<Rightarrow> AuraFailureReason.WakeProfileConnectFailed
        | AuraWakeFailure.FreshFddfTimedOut \<Rightarrow> AuraFailureReason.WakeFddfTimedOut
        | AuraWakeFailure.FreshFddfInvalid \<Rightarrow> AuraFailureReason.WakeFddfInvalid
        | AuraWakeFailure.FreshFddfUnavailable \<Rightarrow> AuraFailureReason.WakeFddfUnavailable
        | AuraWakeFailure.ProfileReleaseFailed \<Rightarrow> AuraFailureReason.WakeProfileReleaseFailed
        | AuraWakeFailure.InvalidConfiguration \<Rightarrow> AuraFailureReason.InvalidConfiguration
        | _ \<Rightarrow> AuraFailureReason.DeviceConnectionFailed)"

text \<open>The wake step of the native cold connection: the acquisition with its default timings.\<close>

definition native_wake_once ::
  "'b AuraWakeBluez \<Rightarrow> 'b AuraWakeFddfObserver \<Rightarrow> DeviceIdentity \<Rightarrow> 'b
    \<Rightarrow> (AuraFailureReason, unit) result option \<times> 'b" where
  "native_wake_once ops observer identity s =
     (let (r, s) = acquire_aura_wake ops observer identity default_wake_timings s
      in (map_option (\<lambda>r. case r of Inr _ \<Rightarrow> Inr ()
                         | Inl e \<Rightarrow> Inl (map_wake_error (we_failure e) (we_cleanup e))) r, s))"

definition connect_cold_bearer :: "('o, 'r) ColdConnectOps \<Rightarrow> ('o, AuraFailureReason, 'r) fallible" where
  "connect_cold_bearer ops s =
     (let le = (\<lambda>fallback_failure s.
            (case cc_connect_le ops s of
               (Inr bearer, s) \<Rightarrow> (Inr bearer, s)
             | (Inl reason, s) \<Rightarrow>
                 (Inl (if wake_stage_failure fallback_failure then fallback_failure
                       else if reason = AuraFailureReason.VerifiedAdvertisementNotFound
                       then fallback_failure else reason), s)))
      in case cc_connect_stable ops AuraAcquisitionRoute.StableDirect s of
           (Inr bearer, s) \<Rightarrow> (Inr bearer, s)
         | (Inl reason, s) \<Rightarrow>
             if \<not> raw_att_retry_eligible reason then (Inl reason, s)
             else case cc_wake_once ops s of
                 (Inr _, s) \<Rightarrow>
                   (case cc_connect_stable ops AuraAcquisitionRoute.A2dpWakeThenStable s of
                      (Inr bearer, s) \<Rightarrow> (Inr bearer, s)
                    | (Inl reason, s) \<Rightarrow>
                        if raw_att_retry_eligible reason then le reason s else (Inl reason, s))
               | (Inl reason, s) \<Rightarrow>
                   if reason = AuraFailureReason.WakeProfileReleaseFailed
                   then (Inl AuraFailureReason.WakeProfileReleaseFailed, s)
                   else le reason s)"

subsection \<open>Calls of a cold connection\<close>

datatype cold_call = CallStable AuraAcquisitionRoute | CallWake | CallLe

text \<open>The same operations, writing down each call they are asked for.\<close>

definition log_call :: "'c \<Rightarrow> ('s, 'e, 'a) fallible \<Rightarrow> ('s \<times> 'c list, 'e, 'a) fallible" where
  "log_call c m = (\<lambda>(s, calls). case m s of (r, s) \<Rightarrow> (r, s, calls @ [c]))"

definition logged_cold :: "('o, 'r) ColdConnectOps \<Rightarrow> ('o \<times> cold_call list, 'r) ColdConnectOps" where
  "logged_cold ops =
     \<lparr>cc_connect_stable = (\<lambda>route. log_call (CallStable route) (cc_connect_stable ops route)),
      cc_wake_once = log_call CallWake (cc_wake_once ops),
      cc_connect_le = log_call CallLe (cc_connect_le ops)\<rparr>"

lemma logged_cold_sel [simp]:
  "cc_connect_stable (logged_cold ops) route (s, l) =
     (fst (cc_connect_stable ops route s), snd (cc_connect_stable ops route s), l @ [CallStable route])"
  "cc_wake_once (logged_cold ops) (s, l) =
     (fst (cc_wake_once ops s), snd (cc_wake_once ops s), l @ [CallWake])"
  "cc_connect_le (logged_cold ops) (s, l) =
     (fst (cc_connect_le ops s), snd (cc_connect_le ops s), l @ [CallLe])"
  by (simp_all add: logged_cold_def log_call_def split: prod.splits)

lemma log_call_refines:
  "map_prod id fst (log_call c m (s, l)) = m s"
  by (simp add: log_call_def split: prod.splits)

subsection \<open>Properties\<close>

text \<open>
  C20: the command core never hides a write. An accepted command went through a ready bearer, a drained
  queue, a write and an exact acknowledgement, in this order; a command rejected before sending never
  reached the write; every other outcome is unknown and is latched; and while the latch is set a command
  touches nothing.
\<close>

theorem aura_command_discipline:
  assumes "core_command ops cmd c = (r, c')"
  shows "case acc_unresolved c of
      Some failure \<Rightarrow> r = AuraActionResult.OutcomeUnknown failure \<and> c' = c
    | None \<Rightarrow>
        (let (h, i1) = io_health ops (acc_io c); (p, i2) = io_prepare_command ops i1;
             (w, i3) = io_begin_write ops cmd i2; (a, i4) = io_wait_for_ack ops i3
         in case r of
              AuraActionResult.Accepted \<Rightarrow>
                h = AuraHealth.Ready \<and> is_ok p \<and> is_ok w \<and> a = Inr AckObservation.Accepted \<and>
                c' = c\<lparr>acc_io := i4\<rparr>
            | AuraActionResult.RejectedBeforeSend f \<Rightarrow>
                (h \<noteq> AuraHealth.Ready \<and> c' = c\<lparr>acc_io := i1\<rparr> \<or> p = Inl f \<and> c' = c\<lparr>acc_io := i2\<rparr>)
            | AuraActionResult.OutcomeUnknown f \<Rightarrow>
                h = AuraHealth.Ready \<and> is_ok p \<and> acc_unresolved c' = Some f \<and>
                (w = Inl f \<and> acc_io c' = i3 \<or> is_ok w \<and> acc_io c' = i4 \<and> a \<noteq> Inr AckObservation.Accepted))"
proof (cases "acc_unresolved c")
  case None
  obtain h i1 where h: "io_health ops (acc_io c) = (h, i1)"
    by fastforce
  obtain p i2 where p: "io_prepare_command ops i1 = (p, i2)"
    by fastforce
  obtain w i3 where w: "io_begin_write ops cmd i2 = (w, i3)"
    by fastforce
  obtain a i4 where a: "io_wait_for_ack ops i3 = (a, i4)"
    by fastforce
  show ?thesis
    using assms None h p w a
    by (cases p; cases w; cases a)
      (auto simp: core_command_def on_io_def core_latch_unknown_def Let_def
        split: if_splits AckObservation.splits)
qed (use assms in \<open>simp add: core_command_def\<close>)

definition example_io :: "nat AuraIo" where
  "example_io =
     \<lparr>io_connect_verified = (\<lambda>_ n. (Inr (), n)), io_health = (\<lambda>n. (AuraHealth.Ready, n + 1)),
      io_prepare_command = (\<lambda>n. (Inr (), n + 10)), io_begin_write = (\<lambda>_ n. (Inr (), n + 100)),
      io_wait_for_ack = (\<lambda>n. (Inr AckObservation.Unexpected, n + 1000)), io_shutdown = (\<lambda>n. (Inr (), 0))\<rparr>"

theorem aura_command_discipline_witness:
  "acc_unresolved (snd (core_command example_io AuraPlayTogetherCommand.On (core_new 0))) =
     Some AuraFailureReason.UnexpectedAcknowledgement"
proof -
  have r: "core_command example_io AuraPlayTogetherCommand.On (core_new 0) =
      (AuraActionResult.OutcomeUnknown AuraFailureReason.UnexpectedAcknowledgement,
       \<lparr>acc_io = 1111, acc_unresolved = Some AuraFailureReason.UnexpectedAcknowledgement\<rparr>)"
    by (simp add: core_command_def example_io_def core_new_def on_io_def core_latch_unknown_def)
  show ?thesis
    using aura_command_discipline [OF r] r by simp
qed

text \<open>
  The Aura latch opens only after the old bearer is gone. When an operation of the core turns an
  unresolved command into a resolved one, the bearer's shutdown was called on the very state the core was
  left in and succeeded; a reconnection then succeeded too.
\<close>

theorem aura_latch_release:
  assumes "acc_unresolved c = Some f"
    and "core_connect_verified ops i c = (r1, c1)" and "core_shutdown ops c = (r2, c2)"
    and "core_health ops c = (h, c3)"
  shows "(acc_unresolved c1 = None \<longleftrightarrow> is_ok r1) \<and>
    (is_ok r1 \<longleftrightarrow> is_ok (fst (io_shutdown ops (acc_io c))) \<and>
       is_ok (fst (io_connect_verified ops i (snd (io_shutdown ops (acc_io c)))))) \<and>
    (acc_unresolved c2 = None \<longleftrightarrow> is_ok (fst (io_shutdown ops (acc_io c)))) \<and>
    (is_err r1 \<longrightarrow> acc_unresolved c1 = Some f) \<and> (is_err r2 \<longrightarrow> acc_unresolved c2 = Some f) \<and>
    h = AuraHealth.OutcomeUnknown \<and> c3 = c"
  using assms
  by (auto simp: core_connect_verified_def core_shutdown_def core_health_def try_bind_def on_io_def
      lift_result_def split: prod.splits sum.splits)

theorem aura_latch_release_witness:
  "acc_unresolved (snd (core_shutdown example_io \<lparr>acc_io = 3, acc_unresolved = Some AuraFailureReason.WriteFailed\<rparr>)) = None"
proof -
  let ?c = "\<lparr>acc_io = 3, acc_unresolved = Some AuraFailureReason.WriteFailed\<rparr>"
  obtain r1 c1 r2 c2 h c3 where "core_connect_verified example_io example_aura ?c = (r1, c1)"
      "core_shutdown example_io ?c = (r2, c2)" "core_health example_io ?c = (h, c3)"
    by (metis prod.exhaust)
  from aura_latch_release [OF _ this] show ?thesis
    using \<open>core_shutdown example_io ?c = (r2, c2)\<close> by (simp add: example_io_def)
qed

text \<open>
  The budget holds. Timings that validate reserve every scan window, every retry delay, one
  connection and one setup inside the total, the total is at most ten minutes, and no product or sum
  overflowed on the way; the defaults validate and use their 150 seconds exactly.
\<close>

theorem timings_budget:
  "(bluez_timings_validate t = Inr () \<longrightarrow>
      bt_scan_window t * unat (bt_scan_attempts t) + bt_retry_delay t * (unat (bt_scan_attempts t) - 1)
        + bt_device_connect_timeout t + bt_gatt_setup_timeout t \<le> bt_total_connect_timeout t \<and>
      bt_total_connect_timeout t \<le> from_secs 600 \<and> 1 \<le> unat (bt_scan_attempts t) \<and>
      unat (bt_scan_attempts t) \<le> 10) \<and>
   bluez_timings_validate default_bluez_timings = Inr () \<and>
   reserved_budget default_bluez_timings = Some (bt_total_connect_timeout default_bluez_timings)"
proof -
  have "unat (bt_scan_attempts t) \<le> 10" if "bt_scan_attempts t \<le> 10"
    using that by (simp add: word_le_nat_alt)
  moreover have "1 \<le> unat (bt_scan_attempts t)" if "bt_scan_attempts t \<noteq> 0"
    using that unat_gt_0 [of "bt_scan_attempts t"] by (simp add: Suc_leI)
  ultimately have "bluez_timings_validate t = Inr () \<longrightarrow>
      bt_scan_window t * unat (bt_scan_attempts t) + bt_retry_delay t * (unat (bt_scan_attempts t) - 1)
        + bt_device_connect_timeout t + bt_gatt_setup_timeout t \<le> bt_total_connect_timeout t \<and>
      bt_total_connect_timeout t \<le> from_secs 600 \<and> 1 \<le> unat (bt_scan_attempts t) \<and>
      unat (bt_scan_attempts t) \<le> 10"
    by (auto simp: bluez_timings_validate_def reserved_budget_def MAX_TOTAL_CONNECT_TIMEOUT_def
        MAX_SCAN_ATTEMPTS_def bind_eq_Some_conv checked_mul_Some checked_add_Some not_less
        split: if_splits option.splits)
  moreover have "reserved_budget default_bluez_timings = Some (bt_total_connect_timeout default_bluez_timings)"
    by (simp add: reserved_budget_def default_bluez_timings_def checked_mul_def checked_add_def
        from_secs_def duration_max_def)
  moreover from this have "bluez_timings_validate default_bluez_timings = Inr ()"
    by (simp add: bluez_timings_validate_def) (simp add: default_bluez_timings_def from_secs_def
        MAX_SCAN_ATTEMPTS_def MAX_TOTAL_CONNECT_TIMEOUT_def)
  ultimately show ?thesis
    by blast
qed

theorem timings_budget_witness:
  "bluez_timings_validate default_bluez_timings = Inr () \<and>
   bt_total_connect_timeout default_bluez_timings \<le> from_secs 600"
  using timings_budget [of default_bluez_timings] by blast

text \<open>
  The cold connection is bounded and ordered. It makes at most two stable attempts, one wake and one
  LE attempt, in the fixed order stable, wake, stable, LE; a wake happens only after the first stable
  attempt failed for a setup reason; nothing follows a bearer, and when the temporary profile could not
  be confirmed released, nothing at all is tried after it.
\<close>

theorem cold_connect_order:
  assumes "connect_cold_bearer (logged_cold ops) (s, []) = (r, s', calls)"
  shows "calls \<in> {[CallStable AuraAcquisitionRoute.StableDirect],
      [CallStable AuraAcquisitionRoute.StableDirect, CallWake],
      [CallStable AuraAcquisitionRoute.StableDirect, CallWake, CallLe],
      [CallStable AuraAcquisitionRoute.StableDirect, CallWake, CallStable AuraAcquisitionRoute.A2dpWakeThenStable],
      [CallStable AuraAcquisitionRoute.StableDirect, CallWake, CallStable AuraAcquisitionRoute.A2dpWakeThenStable, CallLe]}
    \<and> (CallWake \<in> set calls \<longrightarrow>
         (\<exists>e. fst (cc_connect_stable ops AuraAcquisitionRoute.StableDirect s) = Inl e \<and> raw_att_retry_eligible e))
    \<and> (fst (cc_connect_stable ops AuraAcquisitionRoute.StableDirect s) = Inr b \<longrightarrow>
         r = Inr b \<and> length calls = 1)
    \<and> (CallWake \<in> set calls \<and>
       fst (cc_wake_once ops (snd (cc_connect_stable ops AuraAcquisitionRoute.StableDirect s)))
         = Inl AuraFailureReason.WakeProfileReleaseFailed \<longrightarrow>
         calls = [CallStable AuraAcquisitionRoute.StableDirect, CallWake] \<and>
         r = Inl AuraFailureReason.WakeProfileReleaseFailed)"
proof -
  obtain r1 s1 where 1: "cc_connect_stable ops AuraAcquisitionRoute.StableDirect s = (r1, s1)"
    by fastforce
  obtain r2 s2 where 2: "cc_wake_once ops s1 = (r2, s2)"
    by fastforce
  obtain r3 s3 where 3: "cc_connect_stable ops AuraAcquisitionRoute.A2dpWakeThenStable s2 = (r3, s3)"
    by fastforce
  obtain r4 s4 where 4: "cc_connect_le ops s2 = (r4, s4)"
    by fastforce
  obtain r5 s5 where 5: "cc_connect_le ops s3 = (r5, s5)"
    by fastforce
  show ?thesis
    using assms 1 2 3 4 5
    by (cases r1; cases r2; cases r3; cases r4; cases r5)
      (auto simp: connect_cold_bearer_def Let_def split: if_splits)
qed

definition example_cold :: "(nat, nat) ColdConnectOps" where
  "example_cold =
     \<lparr>cc_connect_stable = (\<lambda>_ n. (Inl AuraFailureReason.DeviceConnectionFailed, n)),
      cc_wake_once = (\<lambda>n. (Inl AuraFailureReason.WakeProfileReleaseFailed, n)),
      cc_connect_le = (\<lambda>n. (Inr n, n))\<rparr>"

theorem cold_connect_order_witness:
  "fst (connect_cold_bearer (logged_cold example_cold) (0, [])) = Inl AuraFailureReason.WakeProfileReleaseFailed"
proof -
  obtain r s' calls where c: "connect_cold_bearer (logged_cold example_cold) (0, []) = (r, s', calls)"
    by (metis prod.exhaust)
  then have "CallWake \<in> set calls"
    by (auto simp: connect_cold_bearer_def example_cold_def raw_att_retry_eligible_def Let_def)
  then show ?thesis
    using cold_connect_order [OF c] c by (simp add: example_cold_def)
qed

end
