(* ===== verification/Aura_Att.thy ===== *)
theory Aura_Att
  imports Aura_Control Bluez
begin

unbundle bit_operations_syntax

text \<open>
  The raw ATT bearer of the Aura control path (the second half of \<open>rust/src/aura_bluez.rs\<close>): packets,
  the health of the socket, the drain of stale notifications, and \<open>BluezIo\<close>, the implementation of
  \<open>AuraIo\<close> that the command core runs over.

  The socket is a record of operations of the kernel: a poll and a peek, a receive that never waits, and
  a send and a receive that may run into the timer of the call.
\<close>

subsection \<open>Packets\<close>

definition ATT_WRITE_REQUEST :: "8 word" where "ATT_WRITE_REQUEST = 0x12"
definition ATT_WRITE_RESPONSE :: "8 word" where "ATT_WRITE_RESPONSE = 0x13"
definition ATT_WRITE_COMMAND :: "8 word" where "ATT_WRITE_COMMAND = 0x52"
definition ATT_HANDLE_VALUE_NOTIFICATION :: "8 word" where "ATT_HANDLE_VALUE_NOTIFICATION = 0x1B"
definition ATT_AURA_WRITE_HANDLE :: "16 word" where "ATT_AURA_WRITE_HANDLE = 0x03EA"
definition ATT_AURA_NOTIFY_HANDLE :: "16 word" where "ATT_AURA_NOTIFY_HANDLE = 0x03EC"
definition ATT_AURA_CCCD_HANDLE :: "16 word" where "ATT_AURA_CCCD_HANDLE = 0x03ED"
definition ATT_CCCD_NOTIFY_ENABLED :: "8 word list" where "ATT_CCCD_NOTIFY_ENABLED = [0x01, 0x00]"
definition ATT_RECEIVE_BUFFER_SIZE :: nat where "ATT_RECEIVE_BUFFER_SIZE = 517"
definition MAX_STALE_NOTIFICATIONS :: nat where "MAX_STALE_NOTIFICATIONS = 32"

datatype AttPdu = WriteResponse | Notification "16 word" "8 word list" | Other

definition handle_le_bytes :: "16 word \<Rightarrow> 8 word list" where
  "handle_le_bytes w = [ucast w, ucast (drop_bit 8 w)]"

definition from_le_bytes16 :: "8 word \<Rightarrow> 8 word \<Rightarrow> 16 word" where
  "from_le_bytes16 low high = ucast low OR push_bit 8 (ucast high)"

definition att_write_request :: "16 word \<Rightarrow> 8 word list \<Rightarrow> 8 word list" where
  "att_write_request handle value = ATT_WRITE_REQUEST # handle_le_bytes handle @ value"

definition att_write_command :: "16 word \<Rightarrow> 8 word list \<Rightarrow> 8 word list" where
  "att_write_command handle value = ATT_WRITE_COMMAND # handle_le_bytes handle @ value"

definition parse_att_pdu :: "8 word list \<Rightarrow> AttPdu" where
  "parse_att_pdu packet =
     (if packet = [ATT_WRITE_RESPONSE] then AttPdu.WriteResponse
      else case packet of
          opcode # low # high # value \<Rightarrow>
            (if opcode = ATT_HANDLE_VALUE_NOTIFICATION
             then AttPdu.Notification (from_le_bytes16 low high) value else AttPdu.Other)
        | _ \<Rightarrow> AttPdu.Other)"

subsection \<open>The socket\<close>

definition POLLIN :: "16 word" where "POLLIN = 0x01"
definition POLLERR :: "16 word" where "POLLERR = 0x08"
definition POLLHUP :: "16 word" where "POLLHUP = 0x10"
definition POLLNVAL :: "16 word" where "POLLNVAL = 0x20"

definition raw_att_poll_revents_are_healthy :: "16 word \<Rightarrow> bool" where
  "raw_att_poll_revents_are_healthy revents \<longleftrightarrow> revents AND (POLLERR OR POLLHUP OR POLLNVAL) = 0"

definition raw_att_fd_is_healthy :: "'s att_socket \<Rightarrow> ('s, unit, bool) fallible" where
  "raw_att_fd_is_healthy sock s =
     (let ((polled, revents), s) = as_poll sock s
      in if polled < 0 then (Inl (), s)
         else if \<not> raw_att_poll_revents_are_healthy revents then (Inr False, s)
         else if polled = 0 \<or> revents AND POLLIN = 0 then (Inr True, s)
         else case as_peek sock s of
             (peek.Bytes, s) \<Rightarrow> (Inr True, s)
           | (peek.Eof, s) \<Rightarrow> (Inr False, s)
           | (peek.WouldBlock, s) \<Rightarrow> (Inr True, s)
           | (peek.PeekError, s) \<Rightarrow> (Inl (), s))"

fun project_bearer_health :: "'t option \<Rightarrow> (unit, bool) result \<Rightarrow> AuraHealth \<times> 't option" where
  "project_bearer_health bearer (Inr True) = (AuraHealth.Ready, bearer)"
| "project_bearer_health bearer (Inr False) = (AuraHealth.Offline, None)"
| "project_bearer_health bearer (Inl _) = (AuraHealth.Unavailable, None)"

fun drain_loop :: "nat \<Rightarrow> 's att_socket \<Rightarrow> ('s, AuraFailureReason, unit) fallible" where
  "drain_loop 0 sock s = (Inl AuraFailureReason.NotificationQueueInvalid, s)"
| "drain_loop (Suc n) sock s =
     (case as_recv_now sock s of
        (None, s) \<Rightarrow> (Inr (), s)
      | (Some (Inl _), s) \<Rightarrow> (Inl AuraFailureReason.AcknowledgementChannelClosed, s)
      | (Some (Inr bytes), s) \<Rightarrow>
          if bytes = [] then (Inl AuraFailureReason.AcknowledgementChannelClosed, s)
          else drain_loop n sock s)"

definition drain_raw_att_packets :: "'s att_socket \<Rightarrow> ('s, AuraFailureReason, unit) fallible" where
  "drain_raw_att_packets sock = drain_loop MAX_STALE_NOTIFICATIONS sock"

text \<open>A timer that fires is the write failing; a short write is a failed write.\<close>

definition raw_att_send_command ::
  "'s att_socket \<Rightarrow> duration \<Rightarrow> 8 word list \<Rightarrow> ('s, AuraFailureReason, unit) fallible" where
  "raw_att_send_command sock timeout value s =
     (let request = att_write_command ATT_AURA_WRITE_HANDLE value
      in case as_send sock timeout request s of
           (Completed (Inr written), s) \<Rightarrow>
             (if written \<noteq> length request then Inl AuraFailureReason.WriteFailed else Inr (), s)
         | (Completed (Inl _), s) \<Rightarrow> (Inl AuraFailureReason.WriteFailed, s)
         | (Elapsed, s) \<Rightarrow> (Inl AuraFailureReason.WriteFailed, s))"

definition observe_ack :: "8 word list \<Rightarrow> AckObservation" where
  "observe_ack packet =
     (case parse_att_pdu packet of
        AttPdu.Notification handle value \<Rightarrow>
          (if handle = ATT_AURA_NOTIFY_HANDLE \<and> parse_command_ack value \<noteq> None
           then AckObservation.Accepted else AckObservation.Unexpected)
      | _ \<Rightarrow> AckObservation.Unexpected)"

definition raw_att_wait_for_notification ::
  "'s att_socket \<Rightarrow> duration \<Rightarrow> ('s, AuraFailureReason, AckObservation) fallible" where
  "raw_att_wait_for_notification sock timeout s =
     (case as_recv sock timeout s of
        (Completed (Inr received), s) \<Rightarrow>
          (let packet = take ATT_RECEIVE_BUFFER_SIZE received
           in if packet = [] then (Inl AuraFailureReason.AcknowledgementChannelClosed, s)
              else (Inr (observe_ack packet), s))
      | (Completed (Inl _), s) \<Rightarrow> (Inl AuraFailureReason.AcknowledgementChannelClosed, s)
      | (Elapsed, s) \<Rightarrow> (Inl AuraFailureReason.AcknowledgementTimedOut, s))"

text \<open>Enabling notifications: the one write of a connection setup.\<close>

definition enable_raw_att_notifications ::
  "'s att_socket \<Rightarrow> duration \<Rightarrow> ('s, AuraFailureReason, unit) fallible" where
  "enable_raw_att_notifications sock deadline s =
     (let request = att_write_request ATT_AURA_CCCD_HANDLE ATT_CCCD_NOTIFY_ENABLED
      in case as_send sock deadline request s of
           (Completed (Inr written), s) \<Rightarrow>
             if written \<noteq> length request then (Inl AuraFailureReason.NotificationSetupFailed, s)
             else (case as_recv sock deadline s of
                     (Completed (Inr received), s) \<Rightarrow>
                       (let response = take ATT_RECEIVE_BUFFER_SIZE received
                        in if response = [] then (Inl AuraFailureReason.NotificationSetupFailed, s)
                           else if parse_att_pdu response = AttPdu.WriteResponse then (Inr (), s)
                           else (Inl AuraFailureReason.GattProfileInvalid, s))
                   | (_, s) \<Rightarrow> (Inl AuraFailureReason.NotificationSetupFailed, s))
         | (_, s) \<Rightarrow> (Inl AuraFailureReason.NotificationSetupFailed, s))"

subsection \<open>The bearer and its owner\<close>

record 's RawAttBearer =
  rb_expected_identity :: DeviceIdentity
  rb_transport :: AuraBearerTransport
  rb_acquisition_route :: AuraAcquisitionRoute
  rb_socket :: 's

record ('s, 'o) BluezIo =
  bi_timings :: AuraBluezTimings
  bi_bearer :: "'s RawAttBearer option"
  bi_acquisition :: 'o

definition same_verified_identity :: "DeviceIdentity \<Rightarrow> DeviceIdentity \<Rightarrow> bool" where
  "same_verified_identity bound requested \<longleftrightarrow> bound = requested"

definition bluez_health :: "'s att_socket \<Rightarrow> ('s, 'o) BluezIo \<Rightarrow> AuraHealth \<times> ('s, 'o) BluezIo" where
  "bluez_health sock io =
     (case bi_bearer io of
        None \<Rightarrow> (AuraHealth.Offline, io)
      | Some bearer \<Rightarrow>
          (let (observed, s) = raw_att_fd_is_healthy sock (rb_socket bearer);
               (health, bearer) = project_bearer_health (Some (bearer\<lparr>rb_socket := s\<rparr>)) observed
           in (health, io\<lparr>bi_bearer := bearer\<rparr>)))"

definition bluez_shutdown :: "(('s, 'o) BluezIo, AuraFailureReason, unit) fallible" where
  "bluez_shutdown io = (Inr (), io\<lparr>bi_bearer := None\<rparr>)"

definition bluez_connect_verified ::
  "'s att_socket \<Rightarrow> (DeviceIdentity \<Rightarrow> 'o \<Rightarrow> ('o, 's RawAttBearer) ColdConnectOps) \<Rightarrow> DeviceIdentity
    \<Rightarrow> (('s, 'o) BluezIo, AuraFailureReason, unit) fallible" where
  "bluez_connect_verified sock cold identity io =
     (let same = (case bi_bearer io of None \<Rightarrow> False
                  | Some bearer \<Rightarrow> same_verified_identity (rb_expected_identity bearer) identity);
          (ready, io) = (if same then apfst (\<lambda>h. h = AuraHealth.Ready) (bluez_health sock io)
                         else (False, io))
      in if ready then (Inr (), io)
         else
           let io = (if bi_bearer io \<noteq> None then snd (bluez_shutdown io) else io)
           in case connect_cold_bearer (cold identity (bi_acquisition io)) (bi_acquisition io) of
                (Inl reason, a) \<Rightarrow> (Inl reason, io\<lparr>bi_acquisition := a\<rparr>)
              | (Inr bearer, a) \<Rightarrow> (Inr (), io\<lparr>bi_acquisition := a, bi_bearer := Some bearer\<rparr>))"

definition with_socket ::
  "AuraFailureReason \<Rightarrow> ('s, AuraFailureReason, 'a) fallible \<Rightarrow> (('s, 'o) BluezIo, AuraFailureReason, 'a) fallible" where
  "with_socket missing m io =
     (case bi_bearer io of
        None \<Rightarrow> (Inl missing, io)
      | Some bearer \<Rightarrow>
          (case m (rb_socket bearer) of
             (r, s) \<Rightarrow> (r, io\<lparr>bi_bearer := Some (bearer\<lparr>rb_socket := s\<rparr>)\<rparr>)))"

definition bluez_prepare_command :: "'s att_socket \<Rightarrow> (('s, 'o) BluezIo, AuraFailureReason, unit) fallible" where
  "bluez_prepare_command sock = with_socket AuraFailureReason.TransportNotReady (drain_raw_att_packets sock)"

definition bluez_begin_write ::
  "'s att_socket \<Rightarrow> AuraPlayTogetherCommand \<Rightarrow> (('s, 'o) BluezIo, AuraFailureReason, unit) fallible" where
  "bluez_begin_write sock command io =
     with_socket AuraFailureReason.TransportNotReady
       (raw_att_send_command sock (bt_command_write_timeout (bi_timings io)) (frame command)) io"

definition bluez_wait_for_ack ::
  "'s att_socket \<Rightarrow> (('s, 'o) BluezIo, AuraFailureReason, AckObservation) fallible" where
  "bluez_wait_for_ack sock io =
     with_socket AuraFailureReason.AcknowledgementChannelClosed
       (raw_att_wait_for_notification sock (bt_ack_timeout (bi_timings io))) io"

definition bluez_io ::
  "'s att_socket \<Rightarrow> (DeviceIdentity \<Rightarrow> 'o \<Rightarrow> ('o, 's RawAttBearer) ColdConnectOps) \<Rightarrow> ('s, 'o) BluezIo AuraIo" where
  "bluez_io sock cold =
     \<lparr>io_connect_verified = bluez_connect_verified sock cold, io_health = bluez_health sock,
      io_prepare_command = bluez_prepare_command sock, io_begin_write = bluez_begin_write sock,
      io_wait_for_ack = bluez_wait_for_ack sock, io_shutdown = bluez_shutdown\<rparr>"

definition transport :: "('s, 'o) BluezIo AuraControlCore \<Rightarrow> AuraBearerTransport option" where
  "transport c = map_option rb_transport (bi_bearer (acc_io c))"

definition acquisition_route :: "('s, 'o) BluezIo AuraControlCore \<Rightarrow> AuraAcquisitionRoute" where
  "acquisition_route c =
     (case bi_bearer (acc_io c) of None \<Rightarrow> AuraAcquisitionRoute.Unresolved
      | Some bearer \<Rightarrow> rb_acquisition_route bearer)"

subsection \<open>Lemmas\<close>

lemma from_to_le_bytes: "handle_le_bytes w = [l, h] \<Longrightarrow> from_le_bytes16 l h = w"
proof -
  assume "handle_le_bytes w = [l, h]"
  then have "l = ucast w" "h = ucast (drop_bit 8 w)"
    by (simp_all add: handle_le_bytes_def)
  moreover have "from_le_bytes16 (ucast w) (ucast (drop_bit 8 w)) = w"
    by (rule bit_word_eqI)
      (auto simp: from_le_bytes16_def bit_or_iff bit_push_bit_iff bit_ucast_iff bit_drop_bit_eq)
  ultimately show ?thesis
    by simp
qed

lemma to_from_le_bytes: "handle_le_bytes (from_le_bytes16 l h) = [l, h]"
  by (auto simp: handle_le_bytes_def from_le_bytes16_def bit_eq_iff bit_or_iff bit_push_bit_iff
      bit_ucast_iff bit_drop_bit_eq dest: bit_imp_le_length)

lemma observe_ack_iff:
  "observe_ack p = AckObservation.Accepted \<longleftrightarrow>
     p = ATT_HANDLE_VALUE_NOTIFICATION # handle_le_bytes ATT_AURA_NOTIFY_HANDLE @ SUCCESS_ACK"
proof
  assume "observe_ack p = AckObservation.Accepted"
  then obtain l h where "p = ATT_HANDLE_VALUE_NOTIFICATION # l # h # SUCCESS_ACK"
      "from_le_bytes16 l h = ATT_AURA_NOTIFY_HANDLE"
    by (auto simp: observe_ack_def parse_att_pdu_def parse_command_ack_def
        split: if_splits list.splits AttPdu.splits)
  then show "p = ATT_HANDLE_VALUE_NOTIFICATION # handle_le_bytes ATT_AURA_NOTIFY_HANDLE @ SUCCESS_ACK"
    using to_from_le_bytes [of l h] by simp
next
  assume p: "p = ATT_HANDLE_VALUE_NOTIFICATION # handle_le_bytes ATT_AURA_NOTIFY_HANDLE @ SUCCESS_ACK"
  have "from_le_bytes16 (ucast ATT_AURA_NOTIFY_HANDLE) (ucast (drop_bit 8 ATT_AURA_NOTIFY_HANDLE)) =
      ATT_AURA_NOTIFY_HANDLE"
    by (rule from_to_le_bytes) (simp add: handle_le_bytes_def)
  then show "observe_ack p = AckObservation.Accepted"
    by (simp add: p observe_ack_def parse_att_pdu_def parse_command_ack_def handle_le_bytes_def
        ATT_HANDLE_VALUE_NOTIFICATION_def ATT_WRITE_RESPONSE_def)
qed

lemma write_sent:
  assumes "bluez_begin_write sock cmd io = (r, io')" and "is_ok r" and "bi_bearer io = Some bearer"
  obtains s1 where "bi_bearer io' = Some (bearer\<lparr>rb_socket := s1\<rparr>)"
    and "as_send sock (bt_command_write_timeout (bi_timings io)) ([0x52, 0xEA, 0x03] @ frame cmd) (rb_socket bearer)
      = (Completed (Inr 10), s1)"
proof -
  have "att_write_command ATT_AURA_WRITE_HANDLE (frame cmd) = [0x52, 0xEA, 0x03] @ frame cmd" "length (frame cmd) = 7"
    by (cases cmd; simp add: att_write_command_def ATT_WRITE_COMMAND_def ATT_AURA_WRITE_HANDLE_def
        handle_le_bytes_def)+
  then show ?thesis
    using assms that
    by (auto simp: bluez_begin_write_def with_socket_def raw_att_send_command_def Let_def
        split: option.splits prod.splits timed.splits sum.splits if_splits)
qed

lemma acknowledged:
  assumes "bluez_wait_for_ack sock io = (Inr AckObservation.Accepted, io')"
    and "bi_bearer io = Some (bearer\<lparr>rb_socket := s1\<rparr>)"
  obtains received s2 where "as_recv sock (bt_ack_timeout (bi_timings io)) s1 = (Completed (Inr received), s2)"
    and "take 517 received = [0x1B, 0xEC, 0x03, 0xAA, 0x00, 0x02, 0x13, 0x00]"
    and "bi_bearer io' = Some (bearer\<lparr>rb_socket := s2\<rparr>)"
proof -
  obtain received s2 where "as_recv sock (bt_ack_timeout (bi_timings io)) s1 = (Completed (Inr received), s2)"
      and "observe_ack (take ATT_RECEIVE_BUFFER_SIZE received) = AckObservation.Accepted"
      and "bi_bearer io' = Some (bearer\<lparr>rb_socket := s2\<rparr>)"
    using assms
    by (auto simp: bluez_wait_for_ack_def with_socket_def raw_att_wait_for_notification_def Let_def
        split: option.splits prod.splits timed.splits sum.splits if_splits)
  moreover have "ATT_HANDLE_VALUE_NOTIFICATION # handle_le_bytes ATT_AURA_NOTIFY_HANDLE @ SUCCESS_ACK =
      [0x1B, 0xEC, 0x03, 0xAA, 0x00, 0x02, 0x13, 0x00]"
    by (simp add: ATT_HANDLE_VALUE_NOTIFICATION_def ATT_AURA_NOTIFY_HANDLE_def handle_le_bytes_def SUCCESS_ACK_def)
  ultimately show ?thesis
    using that unfolding observe_ack_iff ATT_RECEIVE_BUFFER_SIZE_def by metis
qed

text \<open>
  Stale notifications are bounded. Before a command the queue is drained with at most 32 receives: it
  succeeds exactly when one of them finds the queue empty after only nonempty packets, and a queue that
  never runs dry, a closed channel or an error is a failure before anything is written.
\<close>

definition emptied :: "'s att_socket \<Rightarrow> nat \<Rightarrow> 's \<Rightarrow> 's \<Rightarrow> bool" where
  "emptied sock k s s' \<longleftrightarrow>
     (\<forall>j < k. \<exists>bytes. bytes \<noteq> [] \<and>
        fst (as_recv_now sock (((\<lambda>x. snd (as_recv_now sock x)) ^^ j) s)) = Some (Inr bytes)) \<and>
     as_recv_now sock (((\<lambda>x. snd (as_recv_now sock x)) ^^ k) s) = (None, s')"

lemma drain_is_bounded: "drain_raw_att_packets sock s = (Inr (), s') \<longleftrightarrow> (\<exists>k < 32. emptied sock k s s')"
proof -
  have "drain_loop n sock s = (Inr (), s') \<longleftrightarrow> (\<exists>k < n. emptied sock k s s')" for n
  proof (induction n arbitrary: s)
    case (Suc n)
    obtain r s1 where r: "as_recv_now sock s = (r, s1)"
      by fastforce
    have shift: "((\<lambda>x. snd (as_recv_now sock x)) ^^ Suc k) s = ((\<lambda>x. snd (as_recv_now sock x)) ^^ k) s1" for k
      by (simp only: funpow_Suc_right o_apply r snd_conv)
    show ?case
      by (cases r; cases "the r")
        (auto simp: r Suc.IH Ex_less_Suc2 All_less_Suc2 shift emptied_def simp del: funpow.simps(2))
  qed simp
  then show ?thesis
    by (simp add: drain_raw_att_packets_def MAX_STALE_NOTIFICATIONS_def)
qed

text \<open>A look at the socket: one poll, and a peek where data is pending.\<close>

definition looked_at :: "'s att_socket \<Rightarrow> 's \<Rightarrow> 's \<Rightarrow> bool" where
  "looked_at sock s s' \<longleftrightarrow> s' \<in> {snd (as_poll sock s), snd (as_peek sock (snd (as_poll sock s)))}"

lemma healthy_looked_at: "raw_att_fd_is_healthy sock s = (r, s') \<Longrightarrow> looked_at sock s s'"
  by (auto simp: raw_att_fd_is_healthy_def looked_at_def Let_def split: prod.splits if_splits peek.splits)

lemma ready_looked_at:
  assumes "bluez_health sock io = (AuraHealth.Ready, io')"
  obtains bearer s where "bi_bearer io = Some bearer" and "bi_bearer io' = Some (bearer\<lparr>rb_socket := s\<rparr>)"
    and "looked_at sock (rb_socket bearer) s"
proof -
  obtain bearer where bearer: "bi_bearer io = Some bearer"
    using assms by (auto simp: bluez_health_def split: option.splits)
  obtain observed s where h: "raw_att_fd_is_healthy sock (rb_socket bearer) = (observed, s)"
    by fastforce
  have "bi_bearer io' = Some (bearer\<lparr>rb_socket := s\<rparr>)"
    using assms bearer h by (cases observed; cases "ok observed = Some True") (auto simp: bluez_health_def)
  with bearer healthy_looked_at [OF h] that show ?thesis
    by blast
qed

lemma prepared_emptied:
  assumes "bluez_prepare_command sock io = (Inr (), io')" and "bi_bearer io = Some bearer"
  obtains k s where "k < 32" and "emptied sock k (rb_socket bearer) s" and "bi_bearer io' = Some (bearer\<lparr>rb_socket := s\<rparr>)"
proof -
  obtain r s where d: "drain_raw_att_packets sock (rb_socket bearer) = (r, s)"
    by fastforce
  then have "r = Inr ()" "bi_bearer io' = Some (bearer\<lparr>rb_socket := s\<rparr>)"
    using assms by (auto simp: bluez_prepare_command_def with_socket_def)
  with d that show ?thesis
    by (auto simp: drain_is_bounded)
qed

subsection \<open>Properties\<close>

text \<open>
  C21: what acceptance means on the wire. When the core accepts a role command over the raw bearer, these are all the
  calls its socket had, in this order: a look at its state, at most 32 receives that emptied its queue, the sending
  of one packet, the ATT write command to the role handle with the frame of that command, of which it took every byte,
  and one receive, which gave exactly the success notification from the notify handle; no other bytes are
  ever taken for an acknowledgement.
\<close>

theorem accepted_on_the_wire:
  assumes "core_command (bluez_io sock cold) cmd c = (AuraActionResult.Accepted, c')"
  shows "\<exists>bearer s k s0 s1 s2 received.
    bi_bearer (acc_io c) = Some bearer \<and> looked_at sock (rb_socket bearer) s \<and> k < 32 \<and> emptied sock k s s0 \<and>
    bi_bearer (acc_io c') = Some (bearer\<lparr>rb_socket := s2\<rparr>) \<and>
    as_send sock (bt_command_write_timeout (bi_timings (acc_io c))) ([0x52, 0xEA, 0x03] @ frame cmd) s0
      = (Completed (Inr 10), s1) \<and>
    as_recv sock (bt_ack_timeout (bi_timings (acc_io c))) s1 = (Completed (Inr received), s2) \<and>
    take 517 received = [0x1B, 0xEC, 0x03, 0xAA, 0x00, 0x02, 0x13, 0x00]"
proof -
  let ?ops = "bluez_io sock cold"
  obtain h i1 where h: "bluez_health sock (acc_io c) = (h, i1)"
    by fastforce
  obtain p i2 where p: "bluez_prepare_command sock i1 = (p, i2)"
    by fastforce
  obtain w i3 where w: "bluez_begin_write sock cmd i2 = (w, i3)"
    by fastforce
  obtain a i4 where a: "bluez_wait_for_ack sock i3 = (a, i4)"
    by fastforce
  have ops: "io_health ?ops = bluez_health sock" "io_prepare_command ?ops = bluez_prepare_command sock"
      "io_begin_write ?ops = bluez_begin_write sock" "io_wait_for_ack ?ops = bluez_wait_for_ack sock"
    by (simp_all add: bluez_io_def)
  have none: "acc_unresolved c = None"
    using assms by (cases "acc_unresolved c") (simp_all add: core_command_def)
  have "h = AuraHealth.Ready \<and> is_ok p \<and> is_ok w \<and> a = Inr AckObservation.Accepted \<and> acc_io c' = i4"
    using assms none h p w a
    by (cases p; cases w; cases a; cases "h = AuraHealth.Ready")
      (simp_all add: core_command_def ops on_io_def core_latch_unknown_def split: AckObservation.splits, auto)
  then have ok: "h = AuraHealth.Ready" "p = Inr ()" "is_ok w" "a = Inr AckObservation.Accepted" and c': "acc_io c' = i4"
    by (auto simp: is_ok_iff)
  have t: "bi_timings i1 = bi_timings (acc_io c)" "bi_timings i2 = bi_timings i1" "bi_timings i3 = bi_timings i2"
    using h p w
    by (auto simp: bluez_health_def bluez_prepare_command_def bluez_begin_write_def with_socket_def Let_def
        split: option.splits prod.splits)
  obtain bearer s where b: "bi_bearer (acc_io c) = Some bearer" "bi_bearer i1 = Some (bearer\<lparr>rb_socket := s\<rparr>)"
      "looked_at sock (rb_socket bearer) s"
    using ready_looked_at [OF h [unfolded ok(1)]] .
  obtain k s0 where k: "k < 32" "emptied sock k s s0" "bi_bearer i2 = Some (bearer\<lparr>rb_socket := s0\<rparr>)"
    using prepared_emptied [OF p [unfolded ok(2)] b(2)] by auto
  obtain s1 where b3: "bi_bearer i3 = Some (bearer\<lparr>rb_socket := s1\<rparr>)"
      and send: "as_send sock (bt_command_write_timeout (bi_timings (acc_io c))) ([0x52, 0xEA, 0x03] @ frame cmd) s0
        = (Completed (Inr 10), s1)"
    using write_sent [OF w ok(3) k(3)] t(1,2) by (metis RawAttBearer.select_convs(4) RawAttBearer.surjective
        RawAttBearer.update_convs(4))
  obtain received s2 where "as_recv sock (bt_ack_timeout (bi_timings (acc_io c))) s1 = (Completed (Inr received), s2)"
      and "take 517 received = [0x1B, 0xEC, 0x03, 0xAA, 0x00, 0x02, 0x13, 0x00]"
      and "bi_bearer i4 = Some (bearer\<lparr>rb_socket := s2\<rparr>)"
    using acknowledged [OF a [unfolded ok(4)] b3] t by metis
  with b k send c' show ?thesis
    by blast
qed

definition example_socket :: "nat att_socket" where
  "example_socket =
     \<lparr>as_poll = (\<lambda>n. ((0, 0), n)), as_peek = (\<lambda>n. (peek.WouldBlock, n)),
      as_recv_now = (\<lambda>n. (None, n)), as_send = (\<lambda>_ p n. (Completed (Inr (length p)), n + 1)),
      as_recv = (\<lambda>_ n. (Completed (Inr [0x1B, 0xEC, 0x03, 0xAA, 0x00, 0x02, 0x13, 0x00]), n + 10))\<rparr>"

definition example_bearer :: "nat RawAttBearer" where
  "example_bearer =
     \<lparr>rb_expected_identity = example_aura, rb_transport = AuraBearerTransport.BrEdr,
      rb_acquisition_route = AuraAcquisitionRoute.StableDirect, rb_socket = 0\<rparr>"

definition example_core :: "(nat, nat) BluezIo AuraControlCore" where
  "example_core = core_new \<lparr>bi_timings = default_bluez_timings, bi_bearer = Some example_bearer, bi_acquisition = 0\<rparr>"

definition no_cold :: "DeviceIdentity \<Rightarrow> nat \<Rightarrow> (nat, nat RawAttBearer) ColdConnectOps" where
  "no_cold _ _ =
     \<lparr>cc_connect_stable = (\<lambda>_ n. (Inl AuraFailureReason.AdapterUnavailable, n)),
      cc_wake_once = (\<lambda>n. (Inr (), n)), cc_connect_le = (\<lambda>n. (Inl AuraFailureReason.AdapterUnavailable, n))\<rparr>"

theorem accepted_on_the_wire_witness:
  "\<exists>c'. core_command (bluez_io example_socket no_cold) AuraPlayTogetherCommand.On example_core =
     (AuraActionResult.Accepted, c') \<and> bi_bearer (acc_io c') = Some (example_bearer\<lparr>rb_socket := 11\<rparr>)"
proof -
  let ?m = "core_command (bluez_io example_socket no_cold) AuraPlayTogetherCommand.On example_core"
  have "observe_ack [0x1B, 0xEC, 0x03, 0xAA, 0x00, 0x02, 0x13, 0x00] = AckObservation.Accepted"
    by (simp add: observe_ack_iff ATT_HANDLE_VALUE_NOTIFICATION_def
        ATT_AURA_NOTIFY_HANDLE_def handle_le_bytes_def SUCCESS_ACK_def)
  then have "fst ?m = AuraActionResult.Accepted"
    by (simp add: core_command_def bluez_io_def example_core_def core_new_def bluez_health_def
        raw_att_fd_is_healthy_def example_bearer_def example_socket_def raw_att_poll_revents_are_healthy_def
        on_io_def bluez_prepare_command_def bluez_begin_write_def bluez_wait_for_ack_def with_socket_def
        drain_raw_att_packets_def MAX_STALE_NOTIFICATIONS_def numeral_eq_Suc raw_att_send_command_def
        raw_att_wait_for_notification_def ATT_RECEIVE_BUFFER_SIZE_def Let_def)
  then obtain c' where m: "?m = (AuraActionResult.Accepted, c')"
    by (metis prod.collapse)
  have id: "((\<lambda>x. snd (as_recv_now example_socket x)) ^^ k) n = n" for k n
    by (induction k) (simp_all add: example_socket_def)
  from accepted_on_the_wire [OF m] m show ?thesis
    by (auto simp: emptied_def id looked_at_def) (auto simp: example_socket_def example_core_def core_new_def example_bearer_def)
qed

text \<open>
  The health probe fails safe. A bearer counts as ready exactly when the poll worked, reported no
  error, hang-up or invalid descriptor, and, if data is pending, a peek found bytes or would block; a peer
  that closed cleanly is offline; in every other case than ready the bearer is dropped, so the next
  command is rejected before anything is written.
\<close>

theorem bearer_health_fails_safe:
  assumes "bi_bearer io = Some bearer" and "bluez_health sock io = (h, io')"
    and "as_poll sock (rb_socket bearer) = ((polled, revents), s)"
  shows "(h = AuraHealth.Ready \<longleftrightarrow>
       0 \<le> polled \<and> revents AND 0x38 = 0 \<and>
       (polled = 0 \<or> revents AND 1 = 0 \<or> fst (as_peek sock s) \<in> {peek.Bytes, peek.WouldBlock})) \<and>
    (h \<noteq> AuraHealth.Ready \<longrightarrow> bi_bearer io' = None \<and>
       (\<forall>cmd. fst (core_command (bluez_io sock cold) cmd (core_new io')) =
          AuraActionResult.RejectedBeforeSend AuraFailureReason.TransportNotReady))"
proof -
  obtain pk s2 where pk: "as_peek sock s = (pk, s2)"
    by fastforce
  have mask: "POLLERR OR POLLHUP OR POLLNVAL = 0x38" "POLLIN = 1"
    by (simp_all add: POLLERR_def POLLHUP_def POLLNVAL_def POLLIN_def)
  have "fst (core_command (bluez_io sock cold) cmd (core_new io')) =
      AuraActionResult.RejectedBeforeSend AuraFailureReason.TransportNotReady" if "bi_bearer io' = None" for cmd
    using that by (simp add: core_command_def core_new_def bluez_io_def bluez_health_def)
  moreover have "(h = AuraHealth.Ready \<longleftrightarrow>
       0 \<le> polled \<and> revents AND 0x38 = 0 \<and>
       (polled = 0 \<or> revents AND 1 = 0 \<or> pk \<in> {peek.Bytes, peek.WouldBlock})) \<and>
      (h \<noteq> AuraHealth.Ready \<longrightarrow> bi_bearer io' = None)"
    using assms pk
    by (cases pk)
      (auto simp: bluez_health_def raw_att_fd_is_healthy_def raw_att_poll_revents_are_healthy_def mask Let_def
        split: if_splits)
  ultimately show ?thesis
    using pk by simp
qed

theorem bearer_health_fails_safe_witness:
  "fst (bluez_health example_socket (acc_io example_core)) = AuraHealth.Ready"
proof -
  obtain h io' where h: "bluez_health example_socket (acc_io example_core) = (h, io')"
    by fastforce
  have "bi_bearer (acc_io example_core) = Some example_bearer"
    by (simp add: example_core_def core_new_def)
  from bearer_health_fails_safe [OF this h, of 0 0 0 no_cold] show ?thesis
    using h by (simp add: example_socket_def example_bearer_def)
qed

end
