(* ===== verification/Config.thy ===== *)
theory Config
  imports Model
begin

text \<open>
  The runtime configuration the other components receive (\<open>rust/src/config.rs\<close>). How it is read from the
  environment and the configuration file is in the theory \<open>Config_Load\<close>.
\<close>

datatype BroadcastConfirmation = Ack | Gena

record RuntimeConfig =
  rc_address :: string
  rc_certificate :: string
  rc_private_key :: string
  rc_tls_sha256 :: string
  rc_jbl_identity :: DeviceIdentity
  rc_expected_model :: string
  rc_aura_identity :: DeviceIdentity
  rc_timeout :: duration
  rc_gena_callback_port :: "16 word"
  rc_broadcast_confirmation :: BroadcastConfirmation

end
