(* ===== verification/Native_Backend.thy ===== *)
theory Native_Backend
  imports Jbl_Gatt Gena Aura_Att Controller Config
begin

text \<open>
  The native whole-pair backend (\<open>rust/src/backend_native.rs\<close>): the coordinator of the broadcaster write
  with its business result, the pair transaction over the two speakers, and the configuration probe.

  The three collaborators of the transaction are the source's three traits, as records of operations.
  They act on one world, which for the production backend is the product of the JBL client's network, the
  Aura transport and the broadcast observer; sharing it lets the properties speak about the order of calls
  to different speakers.
\<close>

subsection \<open>Vocabulary\<close>

datatype BroadcastAction = Start | Stop

datatype BroadcastResultEvidence = AckOnly | ConfirmedNotification

datatype BroadcastResultFailure = TimedOut | Unavailable | Rejected

record 'w JblRoleControl =
  jr_enter :: "'w \<Rightarrow> PlayTogetherWriteResult \<times> 'w"
  jr_exit :: "'w \<Rightarrow> PlayTogetherWriteResult \<times> 'w"

record 'w AuraRoleControl =
  ar_connect_verified :: "DeviceIdentity \<Rightarrow> ('w, AuraTransportError, unit) fallible"
  ar_health :: "'w \<Rightarrow> AuraHealth \<times> 'w"
  ar_transport :: "'w \<Rightarrow> AuraBearerTransport option"
  ar_acquisition_route :: "'w \<Rightarrow> AuraAcquisitionRoute"
  ar_start :: "'w \<Rightarrow> AuraActionResult \<times> 'w"
  ar_stop :: "'w \<Rightarrow> AuraActionResult \<times> 'w"
  ar_shutdown :: "('w, AuraTransportError, unit) fallible"

record 'w BroadcastResultObserver =
  bo_arm :: "BroadcastAction \<Rightarrow> DeviceIdentity \<Rightarrow> ('w, BroadcastResultFailure, unit) fallible"
  bo_execute :: "BroadcastAction \<Rightarrow> DeviceIdentity \<Rightarrow> ('w, BroadcastResultFailure, BroadcastResultEvidence) fallible"
  bo_cancel :: "'w \<Rightarrow> 'w"

record 'm BroadcastMutationTransport =
  bm_arm :: "DeviceIdentity \<Rightarrow> ('m, JblGattFailure, unit) fallible"
  bm_execute :: "BroadcastCommand \<Rightarrow> ('m, JblGattFailure, unit) fallible"
  bm_cancel :: "'m \<Rightarrow> 'm"

record 'b BroadcastBusinessObserver =
  bb_arm :: "('b, GenaFailure, unit) fallible"
  bb_observe :: "GenaAction \<Rightarrow> ('b, GenaFailure, unit) fallible"
  bb_cancel :: "('b, GenaFailure, unit) fallible"

subsection \<open>Error maps\<close>

fun map_aura_transport_error :: "AuraTransportError \<Rightarrow> PairBackendError" where
  "map_aura_transport_error AuraFailureReason.AdapterUnavailable = PairBackendError.AuraAdapterUnavailable"
| "map_aura_transport_error AuraFailureReason.AdapterPoweredOff = PairBackendError.AuraAdapterUnavailable"
| "map_aura_transport_error AuraFailureReason.DiscoveryUnavailable = PairBackendError.AuraDiscoveryUnavailable"
| "map_aura_transport_error AuraFailureReason.VerifiedAdvertisementNotFound =
     PairBackendError.AuraVerifiedAdvertisementNotFound"
| "map_aura_transport_error AuraFailureReason.DeviceConnectionFailed = PairBackendError.AuraDeviceConnectionFailed"
| "map_aura_transport_error AuraFailureReason.WakeProfileConnectFailed =
     PairBackendError.AuraWakeProfileConnectFailed"
| "map_aura_transport_error AuraFailureReason.WakeFddfTimedOut = PairBackendError.AuraWakeFddfTimedOut"
| "map_aura_transport_error AuraFailureReason.WakeFddfInvalid = PairBackendError.AuraWakeFddfInvalid"
| "map_aura_transport_error AuraFailureReason.WakeFddfUnavailable = PairBackendError.AuraWakeFddfUnavailable"
| "map_aura_transport_error AuraFailureReason.WakeProfileReleaseFailed =
     PairBackendError.AuraWakeProfileReleaseFailed"
| "map_aura_transport_error AuraFailureReason.GattProfileInvalid = PairBackendError.AuraGattProfileInvalid"
| "map_aura_transport_error AuraFailureReason.NotificationSetupFailed =
     PairBackendError.AuraNotificationSetupFailed"
| "map_aura_transport_error _ = PairBackendError.Unavailable"

fun map_aura_action_unknown :: "AuraActionFailure \<Rightarrow> PairBackendError" where
  "map_aura_action_unknown AuraFailureReason.WriteFailed = PairBackendError.AuraWriteUnknown"
| "map_aura_action_unknown AuraFailureReason.AcknowledgementTimedOut =
     PairBackendError.AuraAcknowledgementTimedOut"
| "map_aura_action_unknown AuraFailureReason.AcknowledgementChannelClosed =
     PairBackendError.AuraAcknowledgementChannelClosed"
| "map_aura_action_unknown AuraFailureReason.UnexpectedAcknowledgement =
     PairBackendError.AuraUnexpectedAcknowledgement"
| "map_aura_action_unknown _ = PairBackendError.Unavailable"

fun map_broadcast_result_failure :: "BroadcastResultFailure \<Rightarrow> PairBackendError" where
  "map_broadcast_result_failure BroadcastResultFailure.TimedOut = PairBackendError.JblBroadcastResultTimedOut"
| "map_broadcast_result_failure BroadcastResultFailure.Unavailable =
     PairBackendError.JblBroadcastResultUnavailable"
| "map_broadcast_result_failure BroadcastResultFailure.Rejected = PairBackendError.JblBroadcastResultRejected"

fun map_jbl_gatt_failure :: "JblGattFailure \<Rightarrow> BroadcastResultFailure" where
  "map_jbl_gatt_failure JblGattFailure.WriteResponseTimedOut = BroadcastResultFailure.TimedOut"
| "map_jbl_gatt_failure _ = BroadcastResultFailure.Unavailable"

fun map_gena_failure :: "GenaFailure \<Rightarrow> BroadcastResultFailure" where
  "map_gena_failure GenaFailure.CallbackTimedOut = BroadcastResultFailure.TimedOut"
| "map_gena_failure GenaFailure.BusinessRejected = BroadcastResultFailure.Rejected"
| "map_gena_failure _ = BroadcastResultFailure.Unavailable"

definition map_probe_error :: "JblError \<Rightarrow> PairProbeError" where
  "map_probe_error error =
     (if error \<in> {JblError.InvalidJson, JblError.InvalidXml, JblError.BasicResponseNotObject,
                  JblError.BasicResponseCodeMissing, JblError.BasicResponseCodeInvalid,
                  JblError.DeviceInfoMissing, JblError.ControlDeviceInfoMissing,
                  JblError.UnexpectedDeviceModel, JblError.DeviceReportedError,
                  JblError.GroupInfoMissing, JblError.GroupMembersMissing,
                  JblError.GroupDisabledInvalid, JblError.GroupMemberInvalid}
      then PairProbeError.InvalidResponse else PairProbeError.Unavailable)"

subsection \<open>The confirmed broadcast\<close>

fun broadcast_command :: "BroadcastAction \<Rightarrow> DeviceIdentity \<Rightarrow> BroadcastCommand" where
  "broadcast_command BroadcastAction.Start identity = BroadcastCommand.Start identity"
| "broadcast_command BroadcastAction.Stop identity = BroadcastCommand.Stop"

fun gena_action :: "BroadcastAction \<Rightarrow> GenaAction" where
  "gena_action BroadcastAction.Start = GenaAction.Start"
| "gena_action BroadcastAction.Stop = GenaAction.Stop"

record ('b, 'm) ConfirmedBroadcastCoordinator =
  cb_business :: 'b
  cb_mutation :: 'm

definition on_business ::
  "('b, 'e, 'a) fallible \<Rightarrow> (('b, 'm) ConfirmedBroadcastCoordinator, 'e, 'a) fallible" where
  "on_business m c = (case m (cb_business c) of (r, b) \<Rightarrow> (r, c\<lparr>cb_business := b\<rparr>))"

definition on_mutation ::
  "('m, 'e, 'a) fallible \<Rightarrow> (('b, 'm) ConfirmedBroadcastCoordinator, 'e, 'a) fallible" where
  "on_mutation f c = (case f (cb_mutation c) of (r, m) \<Rightarrow> (r, c\<lparr>cb_mutation := m\<rparr>))"

definition cancel_all ::
  "'b BroadcastBusinessObserver \<Rightarrow> 'm BroadcastMutationTransport
    \<Rightarrow> (('b, 'm) ConfirmedBroadcastCoordinator, GenaFailure, unit) fallible" where
  "cancel_all bops mops c = on_business (bb_cancel bops) (c\<lparr>cb_mutation := bm_cancel mops (cb_mutation c)\<rparr>)"

definition coordinator_arm ::
  "'b BroadcastBusinessObserver \<Rightarrow> 'm BroadcastMutationTransport \<Rightarrow> BroadcastAction \<Rightarrow> DeviceIdentity
    \<Rightarrow> (('b, 'm) ConfirmedBroadcastCoordinator, BroadcastResultFailure, unit) fallible" where
  "coordinator_arm bops mops action identity c =
     (case on_business (bb_arm bops) c of
        (Inl failure, c) \<Rightarrow> (Inl (map_gena_failure failure), snd (cancel_all bops mops c))
      | (Inr _, c) \<Rightarrow>
          (case on_mutation (bm_arm mops identity) c of
             (Inl failure, c) \<Rightarrow> (Inl (map_jbl_gatt_failure failure), snd (cancel_all bops mops c))
           | (Inr _, c) \<Rightarrow> (Inr (), c)))"

definition coordinator_execute ::
  "'b BroadcastBusinessObserver \<Rightarrow> 'm BroadcastMutationTransport \<Rightarrow> BroadcastAction \<Rightarrow> DeviceIdentity
    \<Rightarrow> (('b, 'm) ConfirmedBroadcastCoordinator, BroadcastResultFailure, BroadcastResultEvidence) fallible" where
  "coordinator_execute bops mops action identity c =
     (case on_mutation (bm_execute mops (broadcast_command action identity)) c of
        (Inl failure, c) \<Rightarrow> (Inl (map_jbl_gatt_failure failure), snd (cancel_all bops mops c))
      | (Inr _, c) \<Rightarrow>
          (let (result, c) = with_err map_gena_failure (on_business (bb_observe bops (gena_action action))) c;
               (cleanup, c) = with_err map_gena_failure (cancel_all bops mops) c
           in (case (result, cleanup) of
                 (Inr _, Inr _) \<Rightarrow> Inr BroadcastResultEvidence.ConfirmedNotification
               | (Inr _, Inl failure) \<Rightarrow> Inl failure
               | (Inl failure, _) \<Rightarrow> Inl failure, c)))"

definition coordinator_cancel ::
  "'b BroadcastBusinessObserver \<Rightarrow> 'm BroadcastMutationTransport
    \<Rightarrow> ('b, 'm) ConfirmedBroadcastCoordinator \<Rightarrow> ('b, 'm) ConfirmedBroadcastCoordinator" where
  "coordinator_cancel bops mops c = snd (cancel_all bops mops c)"

datatype ('b, 'm) ProductionBroadcastObserver =
    Ack 'm
  | Gena "('b, 'm) ConfirmedBroadcastCoordinator"

fun observer_arm ::
  "'b BroadcastBusinessObserver \<Rightarrow> 'm BroadcastMutationTransport \<Rightarrow> BroadcastAction \<Rightarrow> DeviceIdentity
    \<Rightarrow> (('b, 'm) ProductionBroadcastObserver, BroadcastResultFailure, unit) fallible" where
  "observer_arm bops mops action identity (Ack m) =
     (case bm_arm mops identity m of (r, m) \<Rightarrow> (map_err map_jbl_gatt_failure r, Ack m))"
| "observer_arm bops mops action identity (Gena c) = apsnd Gena (coordinator_arm bops mops action identity c)"

fun observer_execute ::
  "'b BroadcastBusinessObserver \<Rightarrow> 'm BroadcastMutationTransport \<Rightarrow> BroadcastAction \<Rightarrow> DeviceIdentity
    \<Rightarrow> (('b, 'm) ProductionBroadcastObserver, BroadcastResultFailure, BroadcastResultEvidence) fallible" where
  "observer_execute bops mops action identity (Ack m) =
     (case bm_execute mops (broadcast_command action identity) m of
        (Inr _, m) \<Rightarrow> (Inr BroadcastResultEvidence.AckOnly, Ack m)
      | (Inl failure, m) \<Rightarrow> (Inl (map_jbl_gatt_failure failure), Ack m))"
| "observer_execute bops mops action identity (Gena c) =
     apsnd Gena (coordinator_execute bops mops action identity c)"

fun observer_cancel ::
  "'b BroadcastBusinessObserver \<Rightarrow> 'm BroadcastMutationTransport
    \<Rightarrow> ('b, 'm) ProductionBroadcastObserver \<Rightarrow> ('b, 'm) ProductionBroadcastObserver" where
  "observer_cancel bops mops (Ack m) = Ack (bm_cancel mops m)"
| "observer_cancel bops mops (Gena c) = Gena (coordinator_cancel bops mops c)"

subsection \<open>The pair transaction\<close>

record 'w native_ops =
  no_jbl :: "'w JblRoleControl"
  no_aura :: "'w AuraRoleControl"
  no_observer :: "'w BroadcastResultObserver"
  no_sleep :: "duration \<Rightarrow> 'w \<Rightarrow> 'w"

record 'w NativePairCore =
  nc_world :: 'w
  nc_jbl_identity :: DeviceIdentity
  nc_aura_identity :: DeviceIdentity
  nc_join_delay :: duration
  nc_lifecycle :: PairLifecycle
  nc_unresolved :: "PairActionFailure option"

definition native_core_new ::
  "'w \<Rightarrow> DeviceIdentity \<Rightarrow> DeviceIdentity \<Rightarrow> duration \<Rightarrow> 'w NativePairCore" where
  "native_core_new w jbl_identity aura_identity join_delay =
     \<lparr>nc_world = w, nc_jbl_identity = jbl_identity, nc_aura_identity = aura_identity,
      nc_join_delay = join_delay, nc_lifecycle = PairLifecycle.Offline, nc_unresolved = None\<rparr>"

text \<open>A call of a collaborator, and one whose state change is all that matters.\<close>

definition call :: "('w \<Rightarrow> 'a \<times> 'w) \<Rightarrow> 'w NativePairCore \<Rightarrow> 'a \<times> 'w NativePairCore" where
  "call m c = (case m (nc_world c) of (r, w) \<Rightarrow> (r, c\<lparr>nc_world := w\<rparr>))"

definition run :: "('w \<Rightarrow> 'w) \<Rightarrow> 'w NativePairCore \<Rightarrow> 'w NativePairCore" where
  "run f c = c\<lparr>nc_world := f (nc_world c)\<rparr>"

definition native_accepted :: "PairLifecycle \<Rightarrow> bool \<Rightarrow> PairActionResult" where
  "native_accepted lifecycle idempotent =
     PairActionResult.Accepted
       \<lparr>par_backend = PairBackendKind.NativePair, par_lifecycle = lifecycle,
        par_evidence = (if idempotent then PairBackendEvidence.LocalSessionState
                        else PairBackendEvidence.LifecycleAcknowledgement),
        par_idempotent = idempotent\<rparr>"

definition accepted_with_broadcast_evidence ::
  "PairLifecycle \<Rightarrow> BroadcastResultEvidence \<Rightarrow> PairActionResult" where
  "accepted_with_broadcast_evidence lifecycle evidence =
     PairActionResult.Accepted
       \<lparr>par_backend = PairBackendKind.NativePair, par_lifecycle = lifecycle,
        par_evidence =
          (case evidence of
             BroadcastResultEvidence.AckOnly \<Rightarrow> PairBackendEvidence.BroadcastAcknowledgementOnly
           | BroadcastResultEvidence.ConfirmedNotification \<Rightarrow>
               PairBackendEvidence.BroadcastBusinessNotification),
        par_idempotent = False\<rparr>"

definition native_rejected :: "PairBackendError \<Rightarrow> PairLifecycle option \<Rightarrow> PairActionResult" where
  "native_rejected reason observed =
     PairActionResult.RejectedBeforeSend
       \<lparr>paf_backend = PairBackendKind.NativePair, paf_reason = reason, paf_observed_lifecycle = observed\<rparr>"

definition native_latch_unknown ::
  "PairBackendError \<Rightarrow> PairLifecycle option \<Rightarrow> 'w NativePairCore \<Rightarrow> PairActionResult \<times> 'w NativePairCore" where
  "native_latch_unknown reason observed c =
     (let failure = \<lparr>paf_backend = PairBackendKind.NativePair, paf_reason = reason,
                     paf_observed_lifecycle = observed\<rparr>
      in (PairActionResult.OutcomeUnknown failure,
          c\<lparr>nc_unresolved := Some failure, nc_lifecycle := PairLifecycle.Degraded\<rparr>))"

text \<open>The rejection of the first two stages of a transaction leaves the pair degraded.\<close>

definition degraded_rejection ::
  "PairBackendError \<Rightarrow> 'w NativePairCore \<Rightarrow> PairActionResult \<times> 'w NativePairCore" where
  "degraded_rejection reason c =
     (native_rejected reason (Some PairLifecycle.Degraded), c\<lparr>nc_lifecycle := PairLifecycle.Degraded\<rparr>)"

definition acquire_fresh_aura_bearer :: "'w native_ops \<Rightarrow> ('w NativePairCore, PairBackendError, unit) fallible" where
  "acquire_fresh_aura_bearer ops c =
     try_bind (with_err (\<lambda>_. PairBackendError.Unavailable) (call (ar_shutdown (no_aura ops)))) (\<lambda>_.
       with_err map_aura_transport_error
         (call (ar_connect_verified (no_aura ops) (nc_aura_identity c)))) c"

definition native_health :: "'w native_ops \<Rightarrow> 'w NativePairCore \<Rightarrow> PairHealth \<times> 'w NativePairCore" where
  "native_health ops c =
     (let (aura_health, c) = call (ar_health (no_aura ops)) c;
          healthy = (nc_unresolved c = None \<and>
                     nc_lifecycle c \<in> {PairLifecycle.Ready, PairLifecycle.Linked} \<and>
                     aura_health \<in> {AuraHealth.Ready, AuraHealth.Offline});
          offline = (nc_unresolved c = None \<and> aura_health = AuraHealth.Offline \<and>
                     nc_lifecycle c = PairLifecycle.Offline);
          lifecycle = (if healthy \<or> offline then nc_lifecycle c else PairLifecycle.Degraded)
      in (new_with_route PairBackendKind.NativePair lifecycle (\<not> healthy \<and> \<not> offline)
            (case ar_transport (no_aura ops) (nc_world c) of
               Some AuraBearerTransport.Le \<Rightarrow> AuraControlTransport.Le
             | Some AuraBearerTransport.BrEdr \<Rightarrow> AuraControlTransport.BrEdr
             | None \<Rightarrow> AuraControlTransport.Unresolved)
            (ar_acquisition_route (no_aura ops) (nc_world c)), c))"

text \<open>
  The short circuit of an action that is already in effect: the Aura's health is asked only in the
  lifecycle that would allow it.
\<close>

definition already_in_effect ::
  "'w native_ops \<Rightarrow> PairLifecycle \<Rightarrow> 'w NativePairCore \<Rightarrow> bool \<times> 'w NativePairCore" where
  "already_in_effect ops lifecycle c =
     (if nc_lifecycle c = lifecycle
      then apfst (\<lambda>h. h = AuraHealth.Ready) (call (ar_health (no_aura ops)) c)
      else (False, c))"

definition native_start :: "'w native_ops \<Rightarrow> 'w NativePairCore \<Rightarrow> PairActionResult \<times> 'w NativePairCore" where
  "native_start ops c =
     (case nc_unresolved c of
        Some failure \<Rightarrow> (PairActionResult.OutcomeUnknown failure, c)
      | None \<Rightarrow>
     (case already_in_effect ops PairLifecycle.Linked c of
        (True, c) \<Rightarrow> (native_accepted PairLifecycle.Linked True, c)
      | (False, c) \<Rightarrow>
     (case acquire_fresh_aura_bearer ops c of
        (Inl error, c) \<Rightarrow> degraded_rejection error c
      | (Inr _, c) \<Rightarrow>
     (case call (bo_arm (no_observer ops) BroadcastAction.Start (nc_jbl_identity c))
             (c\<lparr>nc_lifecycle := PairLifecycle.Linking\<rparr>) of
        (Inl failure, c) \<Rightarrow> degraded_rejection (map_broadcast_result_failure failure) c
      | (Inr _, c) \<Rightarrow>
     (case call (jr_enter (no_jbl ops)) c of
        (PlayTogetherWriteResult.OutcomeUnknown _, c) \<Rightarrow>
          native_latch_unknown PairBackendError.JblEnterOutcomeUnknown (Some PairLifecycle.Linking)
            (run (bo_cancel (no_observer ops)) c)
      | (PlayTogetherWriteResult.Rejected error, c) \<Rightarrow>
          (if error = JblError.ControlCommandRejected
           then native_latch_unknown PairBackendError.JblEnterOutcomeUnknown (Some PairLifecycle.Linking)
                  (run (bo_cancel (no_observer ops)) c)
           else degraded_rejection PairBackendError.BackendReportedFailure
                  (run (bo_cancel (no_observer ops)) c))
      | (PlayTogetherWriteResult.Accepted, c) \<Rightarrow>
     (case call (bo_execute (no_observer ops) BroadcastAction.Start (nc_jbl_identity c)) c of
        (Inl failure, c) \<Rightarrow>
          native_latch_unknown (map_broadcast_result_failure failure) (Some PairLifecycle.Linking) c
      | (Inr evidence, c) \<Rightarrow>
     (case call (ar_start (no_aura ops))
             (if nc_join_delay c \<noteq> 0 then run (no_sleep ops (nc_join_delay c)) c else c) of
        (AuraActionResult.Accepted, c) \<Rightarrow>
          (accepted_with_broadcast_evidence PairLifecycle.Linked evidence,
           c\<lparr>nc_lifecycle := PairLifecycle.Linked\<rparr>)
      | (AuraActionResult.RejectedBeforeSend _, c) \<Rightarrow>
          native_latch_unknown PairBackendError.AuraStartOutcomeUnknown (Some PairLifecycle.Linking) c
      | (AuraActionResult.OutcomeUnknown failure, c) \<Rightarrow>
          native_latch_unknown (map_aura_action_unknown failure) (Some PairLifecycle.Linking) c)))))))"

definition native_stop :: "'w native_ops \<Rightarrow> 'w NativePairCore \<Rightarrow> PairActionResult \<times> 'w NativePairCore" where
  "native_stop ops c =
     (case nc_unresolved c of
        Some failure \<Rightarrow> (PairActionResult.OutcomeUnknown failure, c)
      | None \<Rightarrow>
     (case already_in_effect ops PairLifecycle.Ready c of
        (True, c) \<Rightarrow> (native_accepted PairLifecycle.Ready True, c)
      | (False, c) \<Rightarrow>
     (case acquire_fresh_aura_bearer ops c of
        (Inl error, c) \<Rightarrow> degraded_rejection error c
      | (Inr _, c) \<Rightarrow>
     (case call (bo_arm (no_observer ops) BroadcastAction.Stop (nc_jbl_identity c))
             (c\<lparr>nc_lifecycle := PairLifecycle.Unlinking\<rparr>) of
        (Inl failure, c) \<Rightarrow> degraded_rejection (map_broadcast_result_failure failure) c
      | (Inr _, c) \<Rightarrow>
     (case call (ar_stop (no_aura ops)) c of
        (AuraActionResult.RejectedBeforeSend _, c) \<Rightarrow>
          degraded_rejection PairBackendError.BackendReportedFailure
            (run (bo_cancel (no_observer ops)) c)
      | (AuraActionResult.OutcomeUnknown failure, c) \<Rightarrow>
          native_latch_unknown (map_aura_action_unknown failure) (Some PairLifecycle.Unlinking)
            (run (bo_cancel (no_observer ops)) c)
      | (AuraActionResult.Accepted, c) \<Rightarrow>
     (case call (bo_execute (no_observer ops) BroadcastAction.Stop (nc_jbl_identity c)) c of
        (Inl failure, c) \<Rightarrow>
          native_latch_unknown (map_broadcast_result_failure failure) (Some PairLifecycle.Unlinking) c
      | (Inr evidence, c) \<Rightarrow>
     (case call (jr_exit (no_jbl ops)) c of
        (PlayTogetherWriteResult.Accepted, c) \<Rightarrow>
          (accepted_with_broadcast_evidence PairLifecycle.Ready evidence,
           c\<lparr>nc_lifecycle := PairLifecycle.Ready\<rparr>)
      | (_, c) \<Rightarrow>
          native_latch_unknown PairBackendError.JblExitOutcomeUnknown (Some PairLifecycle.Unlinking) c)))))))"

definition native_shutdown :: "'w native_ops \<Rightarrow> 'w NativePairCore \<Rightarrow> PairActionResult \<times> 'w NativePairCore" where
  "native_shutdown ops c =
     (case nc_unresolved c of
        Some failure \<Rightarrow> (PairActionResult.OutcomeUnknown failure, c)
      | None \<Rightarrow>
          (let (stopped, c) = (if nc_lifecycle c \<notin> {PairLifecycle.Ready, PairLifecycle.Offline}
                               then apfst Some (native_stop ops c) else (None, c))
           in case stopped of
                Some (PairActionResult.RejectedBeforeSend f) \<Rightarrow> (PairActionResult.RejectedBeforeSend f, c)
              | Some (PairActionResult.OutcomeUnknown f) \<Rightarrow> (PairActionResult.OutcomeUnknown f, c)
              | _ \<Rightarrow>
                  (case call (ar_shutdown (no_aura ops)) (c\<lparr>nc_lifecycle := PairLifecycle.ShuttingDown\<rparr>) of
                     (Inl _, c) \<Rightarrow>
                       native_latch_unknown PairBackendError.Unavailable (Some PairLifecycle.ShuttingDown) c
                   | (Inr _, c) \<Rightarrow>
                       (native_accepted PairLifecycle.ShuttingDown False,
                        c\<lparr>nc_lifecycle := PairLifecycle.Offline\<rparr>))))"

definition native_recover_stop ::
  "'w native_ops \<Rightarrow> 'w NativePairCore \<Rightarrow> PairActionResult \<times> 'w NativePairCore" where
  "native_recover_stop ops c =
     (case call (ar_shutdown (no_aura ops)) (c\<lparr>nc_lifecycle := PairLifecycle.Recovering\<rparr>) of
        (Inl _, c) \<Rightarrow>
          native_latch_unknown PairBackendError.Unavailable (Some PairLifecycle.Recovering) c
      | (Inr _, c) \<Rightarrow>
          native_stop ops (c\<lparr>nc_unresolved := None, nc_lifecycle := PairLifecycle.Degraded\<rparr>))"

definition native_teardown_transport ::
  "'w native_ops \<Rightarrow> ('w NativePairCore, PairBackendError, unit) fallible" where
  "native_teardown_transport ops =
     with_err (\<lambda>_. PairBackendError.Unavailable) (call (ar_shutdown (no_aura ops)))"

definition NativePairBackend :: "'w native_ops \<Rightarrow> 'w NativePairCore PairBackend" where
  "NativePairBackend ops =
     \<lparr>pb_kind = (\<lambda>_. PairBackendKind.NativePair),
      pb_health = (\<lambda>c. case native_health ops c of (h, c) \<Rightarrow> (Inr h, c)),
      pb_start = native_start ops, pb_stop = native_stop ops, pb_shutdown = native_shutdown ops,
      pb_recover_stop = native_recover_stop ops, pb_teardown_transport = native_teardown_transport ops\<rparr>"

subsection \<open>The production collaborators\<close>

record ('n, 'a, 'o) native_world =
  nw_network :: 'n
  nw_aura :: 'a
  nw_observer :: 'o

definition on_network :: "('n \<Rightarrow> 'r \<times> 'n) \<Rightarrow> ('n, 'a, 'o) native_world \<Rightarrow> 'r \<times> ('n, 'a, 'o) native_world" where
  "on_network m w = (case m (nw_network w) of (r, n) \<Rightarrow> (r, w\<lparr>nw_network := n\<rparr>))"

definition on_aura :: "('a \<Rightarrow> 'r \<times> 'a) \<Rightarrow> ('n, 'a, 'o) native_world \<Rightarrow> 'r \<times> ('n, 'a, 'o) native_world" where
  "on_aura m w = (case m (nw_aura w) of (r, a) \<Rightarrow> (r, w\<lparr>nw_aura := a\<rparr>))"

definition on_observer :: "('o \<Rightarrow> 'r \<times> 'o) \<Rightarrow> ('n, 'a, 'o) native_world \<Rightarrow> 'r \<times> ('n, 'a, 'o) native_world" where
  "on_observer m w = (case m (nw_observer w) of (r, ob) \<Rightarrow> (r, w\<lparr>nw_observer := ob\<rparr>))"

definition jbl_lan_role :: "'n lan \<Rightarrow> ('n, 'a, 'o) native_world JblRoleControl" where
  "jbl_lan_role lan =
     \<lparr>jr_enter = on_network (send_play_together lan PlayTogetherCommand.Enter),
      jr_exit = on_network (send_play_together lan PlayTogetherCommand.Exit)\<rparr>"

definition bluez_aura_role ::
  "'s att_socket \<Rightarrow> (DeviceIdentity \<Rightarrow> 'c \<Rightarrow> ('c, 's RawAttBearer) ColdConnectOps)
    \<Rightarrow> ('n, ('s, 'c) BluezIo AuraControlCore, 'o) native_world AuraRoleControl" where
  "bluez_aura_role sock cold =
     (let io = bluez_io sock cold
      in \<lparr>ar_connect_verified = (\<lambda>identity. on_aura (core_connect_verified io identity)),
          ar_health = on_aura (core_health io), ar_transport = (\<lambda>w. transport (nw_aura w)),
          ar_acquisition_route = (\<lambda>w. acquisition_route (nw_aura w)),
          ar_start = on_aura (core_command io AuraPlayTogetherCommand.On),
          ar_stop = on_aura (core_command io AuraPlayTogetherCommand.Off),
          ar_shutdown = on_aura (core_shutdown io)\<rparr>)"

definition gatt_mutation ::
  "('w, 't) bluez \<Rightarrow> 't att_socket \<Rightarrow> ('w, 't) JblGattBroadcastTransport BroadcastMutationTransport" where
  "gatt_mutation bz sock =
     \<lparr>bm_arm = gatt_arm bz sock, bm_execute = gatt_execute bz sock, bm_cancel = gatt_cancel\<rparr>"

definition gena_business :: "'g gena_net \<Rightarrow> 'g GenaBroadcastObserver BroadcastBusinessObserver" where
  "gena_business net = \<lparr>bb_arm = gena_arm net, bb_observe = gena_observe net, bb_cancel = gena_cancel net\<rparr>"

definition production_observer ::
  "'b BroadcastBusinessObserver \<Rightarrow> 'm BroadcastMutationTransport
    \<Rightarrow> ('n, 'a, ('b, 'm) ProductionBroadcastObserver) native_world BroadcastResultObserver" where
  "production_observer bops mops =
     \<lparr>bo_arm = (\<lambda>action identity. on_observer (observer_arm bops mops action identity)),
      bo_execute = (\<lambda>action identity. on_observer (observer_execute bops mops action identity)),
      bo_cancel = (\<lambda>w. w\<lparr>nw_observer := observer_cancel bops mops (nw_observer w)\<rparr>)\<rparr>"

definition MAX_JOIN_DELAY :: duration where
  "MAX_JOIN_DELAY = from_secs 10"

datatype NativePairBuildError =
    InvalidJoinDelay | JblClientUnavailable | AuraTransportUnavailable | JblGattTransportUnavailable
  | JblGenaObserverUnavailable

text \<open>
  Building the backend. The pinned client, the two asynchronous runtimes and the worlds below the
  components come from outside: \<open>client\<close> is the result of building the client from the configuration, and
  the two flags say whether the runtimes could be built.
\<close>

definition native_pair_new ::
  "(RuntimeConfig \<Rightarrow> (JblError, 'n) result) \<Rightarrow> bool \<Rightarrow> bool \<Rightarrow> 'c \<Rightarrow> 'w \<Rightarrow> 'g
    \<Rightarrow> RuntimeConfig \<Rightarrow> AuraBluezTimings \<Rightarrow> duration
    \<Rightarrow> (NativePairBuildError,
        ('n, ('s, 'c) BluezIo AuraControlCore,
         ('g GenaBroadcastObserver, ('w, 't) JblGattBroadcastTransport) ProductionBroadcastObserver)
          native_world NativePairCore) result" where
  "native_pair_new client aura_runtime gatt_runtime acquisition w g config timings join_delay =
     (if join_delay > MAX_JOIN_DELAY then Inl NativePairBuildError.InvalidJoinDelay
      else and_then (map_err (\<lambda>_. NativePairBuildError.JblClientUnavailable) (client config)) (\<lambda>jbl.
           and_then (map_err (\<lambda>_. NativePairBuildError.AuraTransportUnavailable)
              (and_then (bluez_timings_validate timings) (\<lambda>_.
                 if aura_runtime
                 then Inr (core_new \<lparr>bi_timings = timings, bi_bearer = None, bi_acquisition = acquisition\<rparr>)
                 else Inl AuraFailureReason.RuntimeUnavailable))) (\<lambda>aura.
           and_then (if gatt_runtime then Inr \<lparr>jt_world = w, jt_bearer = None\<rparr>
                     else Inl NativePairBuildError.JblGattTransportUnavailable) (\<lambda>mutation.
           and_then (case rc_broadcast_confirmation config of
                BroadcastConfirmation.Ack \<Rightarrow> Inr (ProductionBroadcastObserver.Ack mutation)
              | BroadcastConfirmation.Gena \<Rightarrow>
                  and_then (map_err (\<lambda>_. NativePairBuildError.JblGenaObserverUnavailable)
                     (with_callback_port (rc_address config) (rc_gena_callback_port config) g)) (\<lambda>business.
                    Inr (ProductionBroadcastObserver.Gena \<lparr>cb_business = business, cb_mutation = mutation\<rparr>)))
             (\<lambda>observer.
           Inr (native_core_new \<lparr>nw_network = jbl, nw_aura = aura, nw_observer = observer\<rparr>
                  (rc_jbl_identity config) (rc_aura_identity config) join_delay))))))"

subsection \<open>The configuration probe\<close>

definition from_group_status :: "GroupStatus \<Rightarrow> PairConfigurationObservation" where
  "from_group_status observed =
     \<lparr>pco_exact_pair_configured = gs_expected_pair_configured observed,
      pco_members =
        (observed_member PairMemberName.JblAuthentics300
           (map gm_channels (filter (\<lambda>m. gm_name m = ''JBL Authentics 300'') (gs_members observed))),
         observed_member PairMemberName.AuraStudio5
           (map gm_channels (filter (\<lambda>m. gm_name m = ''Aura Studio 5'') (gs_members observed))))\<rparr>"

definition jbl_pair_configuration_probe ::
  "'n lan \<Rightarrow> string \<Rightarrow> DeviceIdentity \<Rightarrow> DeviceIdentity \<Rightarrow> 'n PairConfigurationProbe" where
  "jbl_pair_configuration_probe lan expected_model jbl_identity aura_identity n =
     (case pair_configuration_status lan expected_model jbl_identity aura_identity n of
        (Inr observed, n) \<Rightarrow> (Inr (from_group_status observed), n)
      | (Inl error, n) \<Rightarrow> (Inl (map_probe_error error), n))"

subsection \<open>The native backend stays of its kind\<close>

definition native_pinned :: "'w NativePairCore \<Rightarrow> bool" where
  "native_pinned c \<longleftrightarrow> (\<forall>f. nc_unresolved c = Some f \<longrightarrow> paf_backend f = PairBackendKind.NativePair)"

definition native_result :: "PairActionResult \<times> 'w NativePairCore \<Rightarrow> bool" where
  "native_result x \<longleftrightarrow> result_backend (fst x) = PairBackendKind.NativePair \<and> native_pinned (snd x)"

lemma native_result_simps [simp]:
  "native_result (native_latch_unknown reason observed c)"
  "native_result (degraded_rejection reason c) \<longleftrightarrow> native_pinned c"
  "native_result (native_accepted l i, c) \<longleftrightarrow> native_pinned c"
  "native_result (accepted_with_broadcast_evidence l ev, c) \<longleftrightarrow> native_pinned c"
  "native_result (PairActionResult.RejectedBeforeSend f, c) \<longleftrightarrow> paf_backend f = PairBackendKind.NativePair \<and> native_pinned c"
  "native_result (PairActionResult.OutcomeUnknown f, c) \<longleftrightarrow> paf_backend f = PairBackendKind.NativePair \<and> native_pinned c"
  by (simp_all add: native_result_def native_pinned_def native_latch_unknown_def degraded_rejection_def
      native_rejected_def native_accepted_def accepted_with_broadcast_evidence_def Let_def)

lemma native_pinned_simps [simp]:
  "native_pinned (c\<lparr>nc_lifecycle := l\<rparr>) \<longleftrightarrow> native_pinned c"
  "native_pinned (c\<lparr>nc_world := w\<rparr>) \<longleftrightarrow> native_pinned c"
  "native_pinned (c\<lparr>nc_unresolved := None\<rparr>)"
  "native_pinned (run f c) \<longleftrightarrow> native_pinned c"
  by (simp_all add: native_pinned_def run_def)

lemma call_pinned [simp]: "native_pinned (snd (call m c)) \<longleftrightarrow> native_pinned c"
  by (simp add: call_def split_beta)

lemma already_in_effect_pinned [simp]: "native_pinned (snd (already_in_effect ops l c)) \<longleftrightarrow> native_pinned c"
  by (simp add: already_in_effect_def)

lemma acquire_pinned [simp]: "native_pinned (snd (acquire_fresh_aura_bearer ops c)) \<longleftrightarrow> native_pinned c"
  by (simp add: acquire_fresh_aura_bearer_def try_bind_def with_err_def split_beta split: sum.split)

lemma native_start_pinned: "native_pinned c \<Longrightarrow> native_result (native_start ops c)"
  by (simp add: native_start_def split_beta split: option.split bool.split sum.split PlayTogetherWriteResult.split
      AuraActionResult.split)
   (simp add: native_pinned_def)

lemma native_stop_pinned: "native_pinned c \<Longrightarrow> native_result (native_stop ops c)"
  by (simp add: native_stop_def split_beta split: option.split bool.split sum.split PlayTogetherWriteResult.split
      AuraActionResult.split)
   (simp add: native_pinned_def)

lemma native_shutdown_pinned:
  assumes "native_pinned c"
  shows "native_result (native_shutdown ops c)"
proof -
  have "result_backend (fst (native_stop ops c)) = PairBackendKind.NativePair" "native_pinned (snd (native_stop ops c))"
    using native_stop_pinned [OF assms, of ops] by (simp_all add: native_result_def)
  then show ?thesis
    using assms
    by (auto simp: native_shutdown_def split_beta Let_def split: option.split sum.split PairActionResult.split)
      (simp_all add: native_pinned_def)
qed

lemma native_recover_stop_pinned: "native_pinned c \<Longrightarrow> native_result (native_recover_stop ops c)"
  by (simp add: native_recover_stop_def split_beta native_stop_pinned split: sum.split)

lemma native_resultD: "native_result x \<Longrightarrow> x = (r, c) \<Longrightarrow> native_pinned c \<and> result_backend r = PairBackendKind.NativePair"
  by (simp add: native_result_def)

lemma native_health_pinned: "native_pinned (snd (native_health ops c)) \<longleftrightarrow> native_pinned c"
  by (simp add: native_health_def split_beta Let_def)

interpretation native: pair_backend "NativePairBackend ops" native_pinned
  by unfold_locales
    (auto simp: NativePairBackend_def dest: native_resultD [OF native_start_pinned] native_resultD [OF native_stop_pinned]
      native_resultD [OF native_shutdown_pinned] native_resultD [OF native_recover_stop_pinned])

end
