(* ===== verification/Native_Safety.thy ===== *)
theory Native_Safety
  imports Native_Backend
begin

text \<open>
  What the native transaction guarantees (\<open>rust/src/backend_native.rs\<close>). The collaborators are observed
  through a log: the same operations, each appending what was called and how far it got. A role write is
  \<^emph>\<open>refused\<close> when it certainly never left, \<^emph>\<open>uncertain\<close> when it may have reached a speaker, and done
  when the speaker acknowledged it.
\<close>

subsection \<open>Observed calls\<close>

datatype native_call =
    Health | Shutdown | Connect | Arm BroadcastAction | Cancel | Enter | Exit
  | Execute BroadcastAction | AuraStart | AuraStop | Sleep

datatype call_outcome = Completed | Refused | Uncertain

type_synonym call_log = "(native_call \<times> call_outcome) list"

definition noting ::
  "native_call \<Rightarrow> ('r \<Rightarrow> call_outcome) \<Rightarrow> ('w \<Rightarrow> 'r \<times> 'w) \<Rightarrow> 'w \<times> call_log \<Rightarrow> 'r \<times> 'w \<times> call_log" where
  "noting k judge m s = (case m (fst s) of (r, w) \<Rightarrow> (r, w, snd s @ [(k, judge r)]))"

definition attempt_outcome :: "('e, 'a) result \<Rightarrow> call_outcome" where
  "attempt_outcome r = (if is_ok r then call_outcome.Completed else call_outcome.Refused)"

definition execute_outcome :: "('e, 'a) result \<Rightarrow> call_outcome" where
  "execute_outcome r = (if is_ok r then call_outcome.Completed else call_outcome.Uncertain)"

fun write_outcome :: "PlayTogetherWriteResult \<Rightarrow> call_outcome" where
  "write_outcome PlayTogetherWriteResult.Accepted = call_outcome.Completed"
| "write_outcome (PlayTogetherWriteResult.Rejected e) =
     (if e = JblError.ControlCommandRejected then call_outcome.Uncertain else call_outcome.Refused)"
| "write_outcome (PlayTogetherWriteResult.OutcomeUnknown _) = call_outcome.Uncertain"

fun aura_outcome :: "AuraActionResult \<Rightarrow> call_outcome" where
  "aura_outcome AuraActionResult.Accepted = call_outcome.Completed"
| "aura_outcome (AuraActionResult.RejectedBeforeSend _) = call_outcome.Refused"
| "aura_outcome (AuraActionResult.OutcomeUnknown _) = call_outcome.Uncertain"

definition logged :: "'w native_ops \<Rightarrow> ('w \<times> call_log) native_ops" where
  "logged ops =
     \<lparr>no_jbl = \<lparr>jr_enter = noting Enter write_outcome (jr_enter (no_jbl ops)),
                jr_exit = noting Exit write_outcome (jr_exit (no_jbl ops))\<rparr>,
      no_aura = \<lparr>ar_connect_verified = (\<lambda>i. noting Connect attempt_outcome (ar_connect_verified (no_aura ops) i)),
                 ar_health = noting Health (\<lambda>_. call_outcome.Completed) (ar_health (no_aura ops)),
                 ar_transport = (\<lambda>s. ar_transport (no_aura ops) (fst s)),
                 ar_acquisition_route = (\<lambda>s. ar_acquisition_route (no_aura ops) (fst s)),
                 ar_start = noting AuraStart aura_outcome (ar_start (no_aura ops)),
                 ar_stop = noting AuraStop aura_outcome (ar_stop (no_aura ops)),
                 ar_shutdown = noting Shutdown attempt_outcome (ar_shutdown (no_aura ops))\<rparr>,
      no_observer = \<lparr>bo_arm = (\<lambda>a i. noting (Arm a) attempt_outcome (bo_arm (no_observer ops) a i)),
                     bo_execute = (\<lambda>a i. noting (Execute a) execute_outcome (bo_execute (no_observer ops) a i)),
                     bo_cancel = (\<lambda>s. (bo_cancel (no_observer ops) (fst s), snd s @ [(Cancel, call_outcome.Completed)]))\<rparr>,
      no_sleep = (\<lambda>d s. (no_sleep ops d (fst s), snd s @ [(Sleep, call_outcome.Completed)]))\<rparr>"

fun role_write :: "native_call \<Rightarrow> bool" where
  "role_write Enter = True"
| "role_write Exit = True"
| "role_write (Execute _) = True"
| "role_write AuraStart = True"
| "role_write AuraStop = True"
| "role_write _ = False"

definition may_have_reached :: "native_call \<times> call_outcome \<Rightarrow> bool" where
  "may_have_reached e \<longleftrightarrow> role_write (fst e) \<and> snd e \<noteq> call_outcome.Refused"

text \<open>The calls of a transaction that decide it: polls of the health, cancellations and the delay do not.\<close>

definition decisive :: "call_log \<Rightarrow> call_log" where
  "decisive = filter (\<lambda>e. fst e \<notin> {Health, Cancel, Sleep})"

text \<open>A log follows a script when it makes the script's calls in order and stops at the first that fails.\<close>

fun follows :: "native_call list \<Rightarrow> call_log \<Rightarrow> bool" where
  "follows script [] = True"
| "follows [] (e # log) = False"
| "follows (k # script) ((k', r) # log) \<longleftrightarrow>
     k = k' \<and> (if r = call_outcome.Completed then follows script log else log = [])"

definition start_script :: "native_call list" where
  "start_script = [Shutdown, Connect, Arm BroadcastAction.Start, Enter, Execute BroadcastAction.Start, AuraStart]"

definition stop_script :: "native_call list" where
  "stop_script = [Shutdown, Connect, Arm BroadcastAction.Stop, AuraStop, Execute BroadcastAction.Stop, Exit]"

text \<open>What a transaction along a script promises about its result, the new log entries and the core left.\<close>

fun transaction_spec ::
  "native_call list \<Rightarrow> PairLifecycle \<Rightarrow> PairActionResult \<Rightarrow> call_log \<Rightarrow> 'w NativePairCore \<Rightarrow> bool" where
  "transaction_spec script goal (PairActionResult.Accepted receipt) new c \<longleftrightarrow>
     nc_unresolved c = None \<and> nc_lifecycle c = goal \<and>
     (if par_idempotent receipt then new = [(Health, call_outcome.Completed)]
      else decisive new = map (\<lambda>k. (k, call_outcome.Completed)) script)"
| "transaction_spec script goal (PairActionResult.RejectedBeforeSend f) new c \<longleftrightarrow>
     nc_unresolved c = None \<and> nc_lifecycle c = PairLifecycle.Degraded \<and> follows script (decisive new) \<and>
     (\<forall>e \<in> set new. \<not> may_have_reached e)"
| "transaction_spec script goal (PairActionResult.OutcomeUnknown f) new c \<longleftrightarrow>
     nc_unresolved c = Some f \<and> nc_lifecycle c = PairLifecycle.Degraded \<and> follows script (decisive new) \<and>
     (\<exists>e \<in> set new. may_have_reached e)"

subsection \<open>The two transactions\<close>

lemma logged_sel [native_simps]:
  "jr_enter (no_jbl (logged ops)) = noting Enter write_outcome (jr_enter (no_jbl ops))"
  "jr_exit (no_jbl (logged ops)) = noting Exit write_outcome (jr_exit (no_jbl ops))"
  "ar_connect_verified (no_aura (logged ops)) i = noting Connect attempt_outcome (ar_connect_verified (no_aura ops) i)"
  "ar_health (no_aura (logged ops)) = noting Health (\<lambda>_. call_outcome.Completed) (ar_health (no_aura ops))"
  "ar_start (no_aura (logged ops)) = noting AuraStart aura_outcome (ar_start (no_aura ops))"
  "ar_stop (no_aura (logged ops)) = noting AuraStop aura_outcome (ar_stop (no_aura ops))"
  "ar_shutdown (no_aura (logged ops)) = noting Shutdown attempt_outcome (ar_shutdown (no_aura ops))"
  "bo_arm (no_observer (logged ops)) a i = noting (Arm a) attempt_outcome (bo_arm (no_observer ops) a i)"
  "bo_execute (no_observer (logged ops)) a i = noting (Execute a) execute_outcome (bo_execute (no_observer ops) a i)"
  by (simp_all add: logged_def)

lemma run_logged [native_simps]:
  "run (bo_cancel (no_observer (logged ops))) c =
     c\<lparr>nc_world := (bo_cancel (no_observer ops) (fst (nc_world c)), snd (nc_world c) @ [(Cancel, call_outcome.Completed)])\<rparr>"
  "run (no_sleep (logged ops) d) c =
     c\<lparr>nc_world := (no_sleep ops d (fst (nc_world c)), snd (nc_world c) @ [(Sleep, call_outcome.Completed)])\<rparr>"
  by (simp_all add: logged_def run_def)

text \<open>An observed call, taken apart: the answer, and the core with one more log entry.\<close>

lemma call_noting:
  obtains r w where "call (noting k judge m) c = (r, c\<lparr>nc_world := (w, snd (nc_world c) @ [(k, judge r)])\<rparr>)"
  by (cases "m (fst (nc_world c))") (auto simp: call_def noting_def)

lemma already_in_effect_log:
  obtains b w hs where "already_in_effect (logged ops) l c = (b, c\<lparr>nc_world := (w, snd (nc_world c) @ hs)\<rparr>)"
    and "hs = [] \<or> hs = [(Health, call_outcome.Completed)]"
    and "b \<longrightarrow> nc_lifecycle c = l \<and> hs = [(Health, call_outcome.Completed)]"
proof (cases "nc_lifecycle c = l")
  case True
  obtain h w where "call (noting Health (\<lambda>_. call_outcome.Completed) (ar_health (no_aura ops))) c =
      (h, c\<lparr>nc_world := (w, snd (nc_world c) @ [(Health, call_outcome.Completed)])\<rparr>)"
    by (rule call_noting)
  then show ?thesis
    using True that by (auto simp: already_in_effect_def native_simps)
next
  case False
  then show ?thesis
    using that [of False "fst (nc_world c)" "[]"] by (simp add: already_in_effect_def)
qed

lemma acquire_log:
  obtains r w new where "acquire_fresh_aura_bearer (logged ops) c = (r, c\<lparr>nc_world := (w, snd (nc_world c) @ new)\<rparr>)"
    and "is_ok r \<longrightarrow> new = [(Shutdown, call_outcome.Completed), (Connect, call_outcome.Completed)]"
    and "is_err r \<longrightarrow> new = [(Shutdown, call_outcome.Refused)] \<or>
           new = [(Shutdown, call_outcome.Completed), (Connect, call_outcome.Refused)]"
proof -
  obtain r1 w1 where s: "call (noting Shutdown attempt_outcome (ar_shutdown (no_aura ops))) c =
      (r1, c\<lparr>nc_world := (w1, snd (nc_world c) @ [(Shutdown, attempt_outcome r1)])\<rparr>)"
    by (rule call_noting)
  let ?c = "c\<lparr>nc_world := (w1, snd (nc_world c) @ [(Shutdown, attempt_outcome r1)])\<rparr>"
  obtain r2 w2 where k: "call (noting Connect attempt_outcome (ar_connect_verified (no_aura ops) (nc_aura_identity c))) ?c =
      (r2, ?c\<lparr>nc_world := (w2, snd (nc_world ?c) @ [(Connect, attempt_outcome r2)])\<rparr>)"
    by (rule call_noting)
  show ?thesis
  proof (cases r1)
    case (Inl e)
    then show ?thesis
      using s that [of "Inl PairBackendError.Unavailable" w1 "[(Shutdown, call_outcome.Refused)]"]
      by (simp add: acquire_fresh_aura_bearer_def native_simps try_bind_def with_err_def attempt_outcome_def)
  next
    case (Inr u)
    then show ?thesis
      using s k that [of "map_err map_aura_transport_error r2" w2
          "[(Shutdown, call_outcome.Completed), (Connect, attempt_outcome r2)]"]
      by (cases r2) (simp_all add: acquire_fresh_aura_bearer_def native_simps try_bind_def with_err_def attempt_outcome_def)
  qed
qed

definition extends_log :: "('w \<times> call_log) NativePairCore \<Rightarrow> call_log \<Rightarrow> ('w \<times> call_log) NativePairCore \<Rightarrow> bool" where
  "extends_log c new c' \<longleftrightarrow> snd (nc_world c') = snd (nc_world c) @ new"

lemmas spec_simps = extends_log_def decisive_def start_script_def stop_script_def may_have_reached_def
  attempt_outcome_def execute_outcome_def native_accepted_def native_rejected_def native_latch_unknown_def
  degraded_rejection_def accepted_with_broadcast_evidence_def Let_def

lemma native_start_log:
  assumes "nc_unresolved c = None" and "native_start (logged ops) c = (r, c')"
  shows "\<exists>new. extends_log c new c' \<and> transaction_spec start_script PairLifecycle.Linked r new c'"
proof -
  obtain b w1 hs where b: "already_in_effect (logged ops) PairLifecycle.Linked c =
      (b, c\<lparr>nc_world := (w1, snd (nc_world c) @ hs)\<rparr>)"
    and hs: "hs = [] \<or> hs = [(Health, call_outcome.Completed)]"
      "b \<longrightarrow> nc_lifecycle c = PairLifecycle.Linked \<and> hs = [(Health, call_outcome.Completed)]"
    by (rule already_in_effect_log)
  let ?c1 = "c\<lparr>nc_world := (w1, snd (nc_world c) @ hs)\<rparr>"
  obtain q w2 qs where q: "acquire_fresh_aura_bearer (logged ops) ?c1 =
      (q, ?c1\<lparr>nc_world := (w2, snd (nc_world ?c1) @ qs)\<rparr>)"
    and qs: "is_ok q \<longrightarrow> qs = [(Shutdown, call_outcome.Completed), (Connect, call_outcome.Completed)]"
      "is_err q \<longrightarrow> qs = [(Shutdown, call_outcome.Refused)] \<or>
           qs = [(Shutdown, call_outcome.Completed), (Connect, call_outcome.Refused)]"
    by (rule acquire_log)
  let ?c2 = "?c1\<lparr>nc_world := (w2, snd (nc_world ?c1) @ qs), nc_lifecycle := PairLifecycle.Linking\<rparr>"
  obtain a w3 where a: "call (noting (Arm BroadcastAction.Start) attempt_outcome
      (bo_arm (no_observer ops) BroadcastAction.Start (nc_jbl_identity c))) ?c2 =
      (a, ?c2\<lparr>nc_world := (w3, snd (nc_world ?c2) @ [(Arm BroadcastAction.Start, attempt_outcome a)])\<rparr>)"
    by (rule call_noting)
  let ?c3 = "?c2\<lparr>nc_world := (w3, snd (nc_world ?c2) @ [(Arm BroadcastAction.Start, attempt_outcome a)])\<rparr>"
  obtain e w4 where e: "call (noting Enter write_outcome (jr_enter (no_jbl ops))) ?c3 =
      (e, ?c3\<lparr>nc_world := (w4, snd (nc_world ?c3) @ [(Enter, write_outcome e)])\<rparr>)"
    by (rule call_noting)
  let ?c4 = "?c3\<lparr>nc_world := (w4, snd (nc_world ?c3) @ [(Enter, write_outcome e)])\<rparr>"
  obtain x w5 where x: "call (noting (Execute BroadcastAction.Start) execute_outcome
      (bo_execute (no_observer ops) BroadcastAction.Start (nc_jbl_identity c))) ?c4 =
      (x, ?c4\<lparr>nc_world := (w5, snd (nc_world ?c4) @ [(Execute BroadcastAction.Start, execute_outcome x)])\<rparr>)"
    by (rule call_noting)
  let ?c5 = "?c4\<lparr>nc_world := (w5, snd (nc_world ?c4) @ [(Execute BroadcastAction.Start, execute_outcome x)])\<rparr>"
  let ?c6 = "if nc_join_delay c \<noteq> 0 then run (no_sleep (logged ops) (nc_join_delay c)) ?c5 else ?c5"
  obtain s w6 where s: "call (noting AuraStart aura_outcome (ar_start (no_aura ops))) ?c6 =
      (s, ?c6\<lparr>nc_world := (w6, snd (nc_world ?c6) @ [(AuraStart, aura_outcome s)])\<rparr>)"
    by (rule call_noting)
  note steps = assms b q a hs qs
  show ?thesis
  proof (cases "b \<or> is_err q \<or> is_err a")
    case True
    then show ?thesis
      using steps
      by (cases b; cases q; cases a) (auto simp: native_start_def native_simps spec_simps)
  next
    case False
    then have ok: "\<not> b" "q = Inr ()" "a = Inr ()"
      by (cases q; cases a; simp)+
    show ?thesis
    proof (cases e)
      case Accepted
      show ?thesis
      proof (cases x)
        case (Inl f)
        then show ?thesis
          using steps ok e x Accepted by (auto simp: native_start_def native_simps spec_simps)
      next
        case (Inr v)
        then show ?thesis
          using steps ok e x s Accepted
          by (cases "nc_join_delay c = 0"; cases s) (auto simp: native_start_def native_simps spec_simps)
      qed
    next
      case (Rejected err)
      then show ?thesis
        using steps ok e
        by (cases "err = JblError.ControlCommandRejected")
          (auto simp: native_start_def native_simps spec_simps)
    next
      case (OutcomeUnknown err)
      then show ?thesis
        using steps ok e by (auto simp: native_start_def native_simps spec_simps)
    qed
  qed
qed

lemma native_stop_log:
  assumes "nc_unresolved c = None" and "native_stop (logged ops) c = (r, c')"
  shows "\<exists>new. extends_log c new c' \<and> transaction_spec stop_script PairLifecycle.Ready r new c'"
proof -
  obtain b w1 hs where b: "already_in_effect (logged ops) PairLifecycle.Ready c =
      (b, c\<lparr>nc_world := (w1, snd (nc_world c) @ hs)\<rparr>)"
    and hs: "hs = [] \<or> hs = [(Health, call_outcome.Completed)]"
      "b \<longrightarrow> nc_lifecycle c = PairLifecycle.Ready \<and> hs = [(Health, call_outcome.Completed)]"
    by (rule already_in_effect_log)
  let ?c1 = "c\<lparr>nc_world := (w1, snd (nc_world c) @ hs)\<rparr>"
  obtain q w2 qs where q: "acquire_fresh_aura_bearer (logged ops) ?c1 =
      (q, ?c1\<lparr>nc_world := (w2, snd (nc_world ?c1) @ qs)\<rparr>)"
    and qs: "is_ok q \<longrightarrow> qs = [(Shutdown, call_outcome.Completed), (Connect, call_outcome.Completed)]"
      "is_err q \<longrightarrow> qs = [(Shutdown, call_outcome.Refused)] \<or>
           qs = [(Shutdown, call_outcome.Completed), (Connect, call_outcome.Refused)]"
    by (rule acquire_log)
  let ?c2 = "?c1\<lparr>nc_world := (w2, snd (nc_world ?c1) @ qs), nc_lifecycle := PairLifecycle.Unlinking\<rparr>"
  obtain a w3 where a: "call (noting (Arm BroadcastAction.Stop) attempt_outcome
      (bo_arm (no_observer ops) BroadcastAction.Stop (nc_jbl_identity c))) ?c2 =
      (a, ?c2\<lparr>nc_world := (w3, snd (nc_world ?c2) @ [(Arm BroadcastAction.Stop, attempt_outcome a)])\<rparr>)"
    by (rule call_noting)
  let ?c3 = "?c2\<lparr>nc_world := (w3, snd (nc_world ?c2) @ [(Arm BroadcastAction.Stop, attempt_outcome a)])\<rparr>"
  obtain s w4 where s: "call (noting AuraStop aura_outcome (ar_stop (no_aura ops))) ?c3 =
      (s, ?c3\<lparr>nc_world := (w4, snd (nc_world ?c3) @ [(AuraStop, aura_outcome s)])\<rparr>)"
    by (rule call_noting)
  let ?c4 = "?c3\<lparr>nc_world := (w4, snd (nc_world ?c3) @ [(AuraStop, aura_outcome s)])\<rparr>"
  obtain x w5 where x: "call (noting (Execute BroadcastAction.Stop) execute_outcome
      (bo_execute (no_observer ops) BroadcastAction.Stop (nc_jbl_identity c))) ?c4 =
      (x, ?c4\<lparr>nc_world := (w5, snd (nc_world ?c4) @ [(Execute BroadcastAction.Stop, execute_outcome x)])\<rparr>)"
    by (rule call_noting)
  let ?c5 = "?c4\<lparr>nc_world := (w5, snd (nc_world ?c4) @ [(Execute BroadcastAction.Stop, execute_outcome x)])\<rparr>"
  obtain e w6 where e: "call (noting Exit write_outcome (jr_exit (no_jbl ops))) ?c5 =
      (e, ?c5\<lparr>nc_world := (w6, snd (nc_world ?c5) @ [(Exit, write_outcome e)])\<rparr>)"
    by (rule call_noting)
  note steps = assms b q a hs qs
  show ?thesis
  proof (cases "b \<or> is_err q \<or> is_err a")
    case True
    then show ?thesis
      using steps
      by (cases b; cases q; cases a) (auto simp: native_stop_def native_simps spec_simps)
  next
    case False
    then have ok: "\<not> b" "q = Inr ()" "a = Inr ()"
      by (cases q; cases a; simp)+
    show ?thesis
    proof (cases "s = AuraActionResult.Accepted")
      case True
      then show ?thesis
        using steps ok s x e
        by (cases x; cases e) (auto simp: native_stop_def native_simps spec_simps)
    next
      case False
      then show ?thesis
        using steps ok s by (cases s) (auto simp: native_stop_def native_simps spec_simps)
    qed
  qed
qed

lemma native_latched:
  assumes "nc_unresolved c = Some f"
  shows "native_start ops c = (PairActionResult.OutcomeUnknown f, c)"
    and "native_stop ops c = (PairActionResult.OutcomeUnknown f, c)"
    and "native_shutdown ops c = (PairActionResult.OutcomeUnknown f, c)"
  using assms by (simp_all add: native_start_def native_stop_def native_shutdown_def)

subsection \<open>Every action\<close>

fun native_action ::
  "'w native_ops \<Rightarrow> ControllerAction \<Rightarrow> 'w NativePairCore \<Rightarrow> PairActionResult \<times> 'w NativePairCore" where
  "native_action ops ControllerAction.Start = native_start ops"
| "native_action ops ControllerAction.Stop = native_stop ops"
| "native_action ops ControllerAction.Shutdown = native_shutdown ops"
| "native_action ops ControllerAction.RecoverStop = native_recover_stop ops"

text \<open>The account a result gives of the calls made: nothing sent, or settled, or latched.\<close>

fun accountable :: "PairActionResult \<Rightarrow> call_log \<Rightarrow> 'w NativePairCore \<Rightarrow> bool" where
  "accountable (PairActionResult.Accepted _) new c \<longleftrightarrow> nc_unresolved c = None"
| "accountable (PairActionResult.RejectedBeforeSend _) new c \<longleftrightarrow>
     nc_unresolved c = None \<and> (\<forall>e \<in> set new. \<not> may_have_reached e)"
| "accountable (PairActionResult.OutcomeUnknown f) new c \<longleftrightarrow> nc_unresolved c = Some f"

lemma transaction_spec_accountable: "transaction_spec script goal r new c \<Longrightarrow> accountable r new c"
  by (cases r) auto

lemma native_stop_accountable:
  assumes "native_stop (logged ops) c = (r, c')"
  shows "\<exists>new. extends_log c new c' \<and> accountable r new c'"
proof (cases "nc_unresolved c")
  case None
  then show ?thesis
    using native_stop_log [OF _ assms] transaction_spec_accountable by blast
next
  case (Some f)
  then show ?thesis
    using native_latched(2) [OF Some, of "logged ops"] assms
    by (intro exI [of _ "[]"]) (auto simp: extends_log_def)
qed

lemma native_start_accountable:
  assumes "native_start (logged ops) c = (r, c')"
  shows "\<exists>new. extends_log c new c' \<and> accountable r new c'"
proof (cases "nc_unresolved c")
  case None
  then show ?thesis
    using native_start_log [OF _ assms] transaction_spec_accountable by blast
next
  case (Some f)
  then show ?thesis
    using native_latched(1) [OF Some, of "logged ops"] assms
    by (intro exI [of _ "[]"]) (auto simp: extends_log_def)
qed

text \<open>Closing the Aura transport: the last step of a shutdown.\<close>

definition close_transport :: "'w native_ops \<Rightarrow> 'w NativePairCore \<Rightarrow> PairActionResult \<times> 'w NativePairCore" where
  "close_transport ops c =
     (case call (ar_shutdown (no_aura ops)) (c\<lparr>nc_lifecycle := PairLifecycle.ShuttingDown\<rparr>) of
        (Inl _, c) \<Rightarrow> native_latch_unknown PairBackendError.Unavailable (Some PairLifecycle.ShuttingDown) c
      | (Inr _, c) \<Rightarrow>
          (native_accepted PairLifecycle.ShuttingDown False, c\<lparr>nc_lifecycle := PairLifecycle.Offline\<rparr>))"

lemma native_shutdown_cases:
  assumes "nc_unresolved c = None" and "native_shutdown ops c = (r, c')"
  obtains (closed) "close_transport ops c = (r, c')"
  | (stopped) receipt c1 where "native_stop ops c = (PairActionResult.Accepted receipt, c1)"
      "close_transport ops c1 = (r, c')"
  | (refused) "native_stop ops c = (r, c')"
proof (cases "nc_lifecycle c \<in> {PairLifecycle.Ready, PairLifecycle.Offline}")
  case True
  then show ?thesis
    using assms closed by (auto simp: native_shutdown_def close_transport_def)
next
  case False
  obtain r1 c1 where s: "native_stop ops c = (r1, c1)"
    by fastforce
  show ?thesis
  proof (cases r1)
    case (Accepted receipt)
    then show ?thesis
      using assms False s stopped by (simp add: native_shutdown_def close_transport_def)
  qed (use assms False s refused in \<open>auto simp: native_shutdown_def\<close>)
qed

lemma close_transport_log:
  assumes "close_transport (logged ops) c = (r, c')" and "nc_unresolved c = None"
  shows "\<exists>j. extends_log c [(Shutdown, j)] c' \<and> accountable r new c' \<and>
    (\<forall>f. r \<noteq> PairActionResult.RejectedBeforeSend f)"
proof -
  obtain q w where "call (noting Shutdown attempt_outcome (ar_shutdown (no_aura ops)))
      (c\<lparr>nc_lifecycle := PairLifecycle.ShuttingDown\<rparr>) =
      (q, c\<lparr>nc_lifecycle := PairLifecycle.ShuttingDown,
            nc_world := (w, snd (nc_world c) @ [(Shutdown, attempt_outcome q)])\<rparr>)"
    by (rule call_noting [where c = "c\<lparr>nc_lifecycle := PairLifecycle.ShuttingDown\<rparr>"]) simp
  then show ?thesis
    using assms by (cases q) (auto simp: close_transport_def native_simps spec_simps)
qed

lemma native_shutdown_accountable:
  assumes "native_shutdown (logged ops) c = (r, c')"
  shows "\<exists>new. extends_log c new c' \<and> accountable r new c'"
proof (cases "nc_unresolved c")
  case None
  from None assms show ?thesis
  proof (cases rule: native_shutdown_cases)
    case closed
    then show ?thesis
      using close_transport_log [OF _ None] by blast
  next
    case (stopped receipt c1)
    obtain new1 where 1: "extends_log c new1 c1" "nc_unresolved c1 = None"
      using native_stop_accountable [OF stopped(1)] by auto
    obtain j where 2: "extends_log c1 [(Shutdown, j)] c'" "accountable r (new1 @ [(Shutdown, j)]) c'"
        "\<forall>f. r \<noteq> PairActionResult.RejectedBeforeSend f"
      using close_transport_log [OF stopped(2) 1(2)] by (cases r) fastforce+
    then show ?thesis
      using 1(1) by (intro exI [of _ "new1 @ [(Shutdown, j)]"]) (simp add: extends_log_def)
  next
    case refused
    then show ?thesis
      using native_stop_accountable by blast
  qed
next
  case (Some f)
  then show ?thesis
    using native_latched(3) [OF Some, of "logged ops"] assms
    by (intro exI [of _ "[]"]) (auto simp: extends_log_def)
qed

lemma native_recover_log:
  assumes "native_recover_stop (logged ops) c = (r, c')"
  shows "\<exists>j new. extends_log c ((Shutdown, j) # new) c' \<and> accountable r ((Shutdown, j) # new) c' \<and>
    (j = call_outcome.Completed \<or> new = [] \<and> (\<exists>f. r = PairActionResult.OutcomeUnknown f))"
proof -
  let ?c = "c\<lparr>nc_lifecycle := PairLifecycle.Recovering\<rparr>"
  obtain q w where q: "call (noting Shutdown attempt_outcome (ar_shutdown (no_aura ops))) ?c =
      (q, ?c\<lparr>nc_world := (w, snd (nc_world ?c) @ [(Shutdown, attempt_outcome q)])\<rparr>)"
    by (rule call_noting)
  show ?thesis
  proof (cases q)
    case (Inl e)
    then show ?thesis
      using assms q by (auto simp: native_recover_stop_def native_simps spec_simps)
  next
    case (Inr u)
    let ?c1 = "?c\<lparr>nc_world := (w, snd (nc_world ?c) @ [(Shutdown, call_outcome.Completed)]),
      nc_unresolved := None, nc_lifecycle := PairLifecycle.Degraded\<rparr>"
    have "native_stop (logged ops) ?c1 = (r, c')"
      using assms q Inr by (simp add: native_recover_stop_def native_simps attempt_outcome_def)
    from native_stop_accountable [OF this] obtain new where "extends_log ?c1 new c'" "accountable r new c'"
      by blast
    moreover have "accountable r new c' \<Longrightarrow> accountable r ((Shutdown, call_outcome.Completed) # new) c'"
      by (cases r) (auto simp: may_have_reached_def)
    ultimately show ?thesis
      by (intro exI [of _ call_outcome.Completed] exI [of _ new]) (simp add: extends_log_def)
  qed
qed

lemma native_action_accountable:
  assumes "native_action (logged ops) a c = (r, c')"
  shows "\<exists>new. extends_log c new c' \<and> accountable r new c'"
proof (cases a)
  case RecoverStop
  then show ?thesis
    using native_recover_log [of ops c r c'] assms by auto
qed (use assms native_start_accountable native_stop_accountable native_shutdown_accountable in auto)

subsection \<open>Properties\<close>

text \<open>Collaborators for which everything works except what the two answers say.\<close>

definition example_ops :: "PlayTogetherWriteResult \<Rightarrow> AuraActionResult \<Rightarrow> nat native_ops" where
  "example_ops written started =
     \<lparr>no_jbl = \<lparr>jr_enter = Pair written, jr_exit = Pair written\<rparr>,
      no_aura = \<lparr>ar_connect_verified = (\<lambda>_. Pair (Inr ())), ar_health = Pair AuraHealth.Ready,
                 ar_transport = (\<lambda>_. Some AuraBearerTransport.BrEdr),
                 ar_acquisition_route = (\<lambda>_. AuraAcquisitionRoute.StableDirect),
                 ar_start = Pair started, ar_stop = Pair started, ar_shutdown = Pair (Inr ())\<rparr>,
      no_observer = \<lparr>bo_arm = (\<lambda>_ _. Pair (Inr ())), bo_execute = (\<lambda>_ _. Pair (Inr BroadcastResultEvidence.AckOnly)),
                     bo_cancel = id\<rparr>,
      no_sleep = (\<lambda>d w. w + d)\<rparr>"

definition example_pair :: "(nat \<times> call_log) NativePairCore" where
  "example_pair = native_core_new (0, []) example_jbl example_aura 5"

text \<open>Evaluation of an action on the example collaborators.\<close>

lemmas example_native = native_start_def native_stop_def native_recover_stop_def native_shutdown_def
  already_in_effect_def acquire_fresh_aura_bearer_def try_bind_def with_err_def call_def noting_def run_def
  logged_def example_ops_def example_pair_def native_core_new_def spec_simps

text \<open>
  C9: the order of the two transactions. A start that is not already in effect drops the old Aura bearer,
  acquires and verifies a fresh one, arms the broadcast observer, and only then writes: JBL enter,
  broadcaster start, Aura start. A stop writes receiver first: Aura stop, broadcaster stop, JBL exit. Each
  call is made once and only if all before it succeeded; acceptance that is not idempotent means that
  every one of them succeeded, and idempotent acceptance means that nothing but the health was asked.
\<close>

theorem transactions_in_order:
  assumes "nc_unresolved c = None"
    and "script = (if action = ControllerAction.Start then start_script else stop_script)"
    and "action \<in> {ControllerAction.Start, ControllerAction.Stop}"
    and "native_action (logged ops) action c = (r, c')"
  shows "\<exists>new. snd (nc_world c') = snd (nc_world c) @ new \<and> follows script (decisive new) \<and>
    (\<forall>receipt. r = PairActionResult.Accepted receipt \<longrightarrow>
       (if par_idempotent receipt then new = [(Health, call_outcome.Completed)]
        else map fst (decisive new) = script \<and> (\<forall>e \<in> set (decisive new). snd e = call_outcome.Completed)))"
proof -
  have all: "follows ks (map (\<lambda>k. (k, call_outcome.Completed)) ks)" for ks
    by (induction ks) auto
  have "\<exists>new. extends_log c new c' \<and> transaction_spec script
      (if action = ControllerAction.Start then PairLifecycle.Linked else PairLifecycle.Ready) r new c'"
    using assms native_start_log [of c ops r c'] native_stop_log [of c ops r c'] by auto
  then obtain new where new: "extends_log c new c'" "transaction_spec script
      (if action = ControllerAction.Start then PairLifecycle.Linked else PairLifecycle.Ready) r new c'"
    by blast
  have "follows script (decisive new) \<and>
    (\<forall>receipt. r = PairActionResult.Accepted receipt \<longrightarrow>
       (if par_idempotent receipt then new = [(Health, call_outcome.Completed)]
        else map fst (decisive new) = script \<and> (\<forall>e \<in> set (decisive new). snd e = call_outcome.Completed)))"
  proof (cases r)
    case (Accepted receipt)
    then show ?thesis
      using new(2) all by (cases "par_idempotent receipt") (auto simp: decisive_def, auto simp: comp_def)
  qed (use new(2) in auto)
  then show ?thesis
    using new(1) by (auto simp: extends_log_def)
qed

theorem transactions_in_order_witness:
  "\<exists>r c' new. native_action (logged (example_ops PlayTogetherWriteResult.Accepted AuraActionResult.Accepted))
       ControllerAction.Start example_pair = (r, c') \<and>
     follows start_script (decisive new) \<and> snd (nc_world c') = new"
proof -
  obtain r c' where m: "native_action (logged (example_ops PlayTogetherWriteResult.Accepted AuraActionResult.Accepted))
      ControllerAction.Start example_pair = (r, c')"
    by fastforce
  have "nc_unresolved example_pair = None" "snd (nc_world example_pair) = []"
    by (simp_all add: example_pair_def native_core_new_def)
  with transactions_in_order [OF _ refl _ m] m show ?thesis
    by auto
qed

text \<open>
  C10: results tell the truth about the speakers. Whatever the collaborators answer, and for every action:
  a rejection means that no role write that may have reached a speaker was made and nothing is latched; an
  unknown outcome is latched; so after any action that made such a write, the transaction was either
  accepted or is latched as unresolved.
\<close>

theorem rejection_means_nothing_sent:
  assumes "native_action (logged ops) action c = (r, c')"
  shows "\<exists>new. snd (nc_world c') = snd (nc_world c) @ new \<and>
    (\<forall>f. r = PairActionResult.RejectedBeforeSend f \<longrightarrow>
       nc_unresolved c' = None \<and> (\<forall>e \<in> set new. \<not> may_have_reached e)) \<and>
    (\<forall>f. r = PairActionResult.OutcomeUnknown f \<longrightarrow> nc_unresolved c' = Some f) \<and>
    ((\<exists>e \<in> set new. may_have_reached e) \<longrightarrow>
       (\<exists>receipt. r = PairActionResult.Accepted receipt) \<or> nc_unresolved c' \<noteq> None)"
proof -
  obtain new where "extends_log c new c'" "accountable r new c'"
    using native_action_accountable [OF assms] by blast
  then show ?thesis
    by (intro exI [of _ new]; cases r) (auto simp: extends_log_def)
qed

theorem rejection_means_nothing_sent_witness:
  "\<exists>c' f. native_action (logged (example_ops (PlayTogetherWriteResult.OutcomeUnknown JblError.NetworkUnreachable)
       AuraActionResult.Accepted)) ControllerAction.Start example_pair = (PairActionResult.OutcomeUnknown f, c') \<and>
     nc_unresolved c' = Some f"
proof -
  let ?ops = "example_ops (PlayTogetherWriteResult.OutcomeUnknown JblError.NetworkUnreachable) AuraActionResult.Accepted"
  obtain c' f where m: "native_action (logged ?ops) ControllerAction.Start example_pair =
      (PairActionResult.OutcomeUnknown f, c')"
    by (simp add: example_native)
  from rejection_means_nothing_sent [OF m] m show ?thesis
    by auto
qed

text \<open>
  The latch of the backend. While an outcome is unresolved, start, stop and shutdown repeat it and
  touch nothing, and tearing the transport down at exit makes no role write and keeps both the latch and
  the lifecycle; only recovery crosses the latch, and only after the old bearer was shut down: if that
  fails it makes no role write and stays latched.
\<close>

theorem latch_crossed_only_by_recovery:
  assumes "nc_unresolved c = Some f"
  shows "(action \<noteq> ControllerAction.RecoverStop \<longrightarrow>
      native_action ops action c = (PairActionResult.OutcomeUnknown f, c)) \<and>
    (\<exists>w j. snd (native_teardown_transport (logged ops) d) =
       d\<lparr>nc_world := (w, snd (nc_world d) @ [(Shutdown, j)])\<rparr>) \<and>
    (native_recover_stop (logged ops) d = (r, d') \<longrightarrow>
      (\<exists>j new. snd (nc_world d') = snd (nc_world d) @ (Shutdown, j) # new \<and>
         (j \<noteq> call_outcome.Completed \<longrightarrow> new = [] \<and> nc_unresolved d' \<noteq> None)))"
proof -
  have "native_action ops action c = (PairActionResult.OutcomeUnknown f, c)" if "action \<noteq> ControllerAction.RecoverStop"
    using that native_latched [OF assms] by (cases action) auto
  moreover obtain q w where "call (noting Shutdown attempt_outcome (ar_shutdown (no_aura ops))) d =
      (q, d\<lparr>nc_world := (w, snd (nc_world d) @ [(Shutdown, attempt_outcome q)])\<rparr>)"
    by (rule call_noting)
  then have "\<exists>w j. snd (native_teardown_transport (logged ops) d) =
       d\<lparr>nc_world := (w, snd (nc_world d) @ [(Shutdown, j)])\<rparr>"
    by (auto simp: native_teardown_transport_def with_err_def native_simps)
  moreover have "\<exists>j new. snd (nc_world d') = snd (nc_world d) @ (Shutdown, j) # new \<and>
         (j \<noteq> call_outcome.Completed \<longrightarrow> new = [] \<and> nc_unresolved d' \<noteq> None)"
    if "native_recover_stop (logged ops) d = (r, d')"
    using native_recover_log [OF that] by (fastforce simp: extends_log_def)
  ultimately show ?thesis
    by blast
qed

theorem latch_crossed_only_by_recovery_witness:
  "\<exists>f. native_action (example_ops PlayTogetherWriteResult.Accepted AuraActionResult.Accepted) ControllerAction.Stop
     (native_core_new 0 example_jbl example_aura 5\<lparr>nc_unresolved := Some f\<rparr>) =
     (PairActionResult.OutcomeUnknown f, native_core_new 0 example_jbl example_aura 5\<lparr>nc_unresolved := Some f\<rparr>)"
proof -
  let ?f = "\<lparr>paf_backend = PairBackendKind.NativePair, paf_reason = PairBackendError.Unavailable,
    paf_observed_lifecycle = None\<rparr>"
  let ?c = "native_core_new (0 :: nat) example_jbl example_aura 5\<lparr>nc_unresolved := Some ?f\<rparr>"
  have "nc_unresolved ?c = Some ?f"
    by simp
  from latch_crossed_only_by_recovery [OF this, of ControllerAction.Stop] show ?thesis
    by (intro exI [of _ ?f]) simp
qed

text \<open>
  Health is never better than what is known. The pair is reported healthy exactly when nothing is
  unresolved, the last transaction left it ready or linked, and the Aura's control bearer is ready or
  simply released; an unresolved outcome is always reported as degraded, with the error flag; the report
  changes nothing but the Aura's own state.
\<close>

theorem health_is_honest:
  assumes "native_health ops c = (h, c')" and "ar_health (no_aura ops) (nc_world c) = (aura, w)"
  shows "(ph_level h = PairHealthLevel.Healthy \<longleftrightarrow>
       nc_unresolved c = None \<and> nc_lifecycle c \<in> {PairLifecycle.Ready, PairLifecycle.Linked} \<and>
       aura \<in> {AuraHealth.Ready, AuraHealth.Offline}) \<and>
    (nc_unresolved c \<noteq> None \<longrightarrow> ph_lifecycle h = PairLifecycle.Degraded \<and> ph_reported_error h) \<and>
    (\<not> ph_reported_error h \<longrightarrow> ph_lifecycle h = nc_lifecycle c) \<and>
    c' = c\<lparr>nc_world := w\<rparr>"
  using assms
  by (auto simp: native_health_def call_def new_with_route_level_healthy_iff Let_def split: if_splits)

theorem health_is_honest_witness:
  "ph_reported_error (fst (native_health (example_ops PlayTogetherWriteResult.Accepted AuraActionResult.Accepted)
     (native_core_new 0 example_jbl example_aura 5)))"
proof -
  let ?ops = "example_ops PlayTogetherWriteResult.Accepted AuraActionResult.Accepted"
  let ?c = "native_core_new 0 example_jbl example_aura 5"
  obtain h c' where h: "native_health ?ops ?c = (h, c')"
    by fastforce
  have "ar_health (no_aura ?ops) (nc_world ?c) = (AuraHealth.Ready, 0)"
    by (simp add: example_ops_def native_core_new_def)
  from health_is_honest [OF h this] h show ?thesis
    by (auto simp: native_health_def native_core_new_def example_ops_def call_def Let_def)
qed

text \<open>
  A confirmed broadcast. The coordinator reports a confirmed notification exactly when the write was
  acknowledged, then the business result was observed, and then the subscription was cancelled cleanly;
  in every case, success or failure, both the write transport and the subscription are cancelled before it
  returns, and after a failed write the business result is not awaited.
\<close>

theorem broadcast_is_confirmed:
  assumes "coordinator_execute bops mops action identity c = (r, c')"
    and "bm_execute mops (broadcast_command action identity) (cb_mutation c) = (written, m)"
    and "bb_observe bops (gena_action action) (cb_business c) = (observed, b)"
    and "bb_cancel bops (if is_ok written then b else cb_business c) = (cleaned, b')"
  shows "(r = Inr BroadcastResultEvidence.ConfirmedNotification \<longleftrightarrow> is_ok written \<and> is_ok observed \<and> is_ok cleaned) \<and>
    r \<noteq> Inr BroadcastResultEvidence.AckOnly \<and>
    c' = c\<lparr>cb_mutation := bm_cancel mops m, cb_business := b'\<rparr>"
  using assms
  by (cases written; cases observed; cases cleaned)
    (auto simp: coordinator_execute_def on_mutation_def on_business_def cancel_all_def with_err_def)

theorem broadcast_is_confirmed_witness:
  "fst (coordinator_execute
     \<lparr>bb_arm = Pair (Inr ()), bb_observe = (\<lambda>_. Pair (Inr ())), bb_cancel = Pair (Inr ())\<rparr>
     \<lparr>bm_arm = (\<lambda>_. Pair (Inr ())), bm_execute = (\<lambda>_. Pair (Inr ())), bm_cancel = id\<rparr>
     BroadcastAction.Stop example_jbl \<lparr>cb_business = 0 :: nat, cb_mutation = 0 :: nat\<rparr>) =
   Inr BroadcastResultEvidence.ConfirmedNotification"
proof -
  let ?b = "\<lparr>bb_arm = Pair (Inr ()), bb_observe = (\<lambda>_. Pair (Inr ())), bb_cancel = Pair (Inr ())\<rparr>
    :: nat BroadcastBusinessObserver"
  let ?m = "\<lparr>bm_arm = (\<lambda>_. Pair (Inr ())), bm_execute = (\<lambda>_. Pair (Inr ())), bm_cancel = id\<rparr>
    :: nat BroadcastMutationTransport"
  let ?c = "\<lparr>cb_business = 0 :: nat, cb_mutation = 0 :: nat\<rparr>"
  obtain r c' where x: "coordinator_execute ?b ?m BroadcastAction.Stop example_jbl ?c = (r, c')"
    by fastforce
  from broadcast_is_confirmed [OF x, of "Inr ()" 0 "Inr ()" 0 "Inr ()" 0] x show ?thesis
    by simp
qed

end
