(* ===== verification/Pair_Safety.thy ===== *)
theory Pair_Safety
  imports Controller_Safety Native_Safety
begin

text \<open>
  The controller over the native backend and the file journal: what a mutation does to the two speakers, seen
  through the log of the calls that may reach them.
\<close>

subsection \<open>One mutation\<close>

lemma native_backend_call:
  "backend_call a (NativePairBackend ops) = native_action ops a"
  by (cases a) (simp_all add: NativePairBackend_def)

text \<open>Asking the native backend for its health adds one entry to the log and no other.\<close>

lemma native_health_log:
  "snd (nc_world (snd (pb_health (NativePairBackend (logged ops)) b))) =
     snd (nc_world b) @ [(Health, call_outcome.Completed)]"
proof -
  obtain h w where "call (noting Health (\<lambda>_. call_outcome.Completed) (ar_health (no_aura ops))) b =
      (h, b\<lparr>nc_world := (w, snd (nc_world b) @ [(Health, call_outcome.Completed)])\<rparr>)"
    by (rule call_noting)
  then show ?thesis
    by (simp add: NativePairBackend_def native_health_def native_simps Let_def)
qed

definition only_health :: "call_log \<Rightarrow> bool" where
  "only_health log \<longleftrightarrow> set log \<subseteq> {(Health, call_outcome.Completed)}"

lemma only_health_unreached: "only_health log \<Longrightarrow> e \<in> set log \<Longrightarrow> \<not> may_have_reached e"
  by (auto simp: only_health_def may_have_reached_def)

lemma idle_log:
  assumes "b' \<in> {b, snd (pb_health (NativePairBackend (logged ops)) b)}"
  shows "\<exists>hs. snd (nc_world b') = snd (nc_world b) @ hs \<and> only_health hs"
  using assms native_health_log [of ops b] by (auto simp: only_health_def)

text \<open>One mutation over the observed native backend: either idle, or marked and then one action.\<close>

lemma native_mutation:
  assumes "mutate (file_env (NativePairBackend (logged ops)) probe) now a c = (r, c')"
  obtains (idle) hs where "snd (nc_world (pc_backend c')) = snd (nc_world (pc_backend c)) @ hs"
      and "only_health hs"
  | (marked) c1 hs new r0 where "mutate_guard (file_env (NativePairBackend (logged ops)) probe) now a c = (None, c1)"
      and "snd (nc_world (pc_backend c1)) = snd (nc_world (pc_backend c)) @ hs" and "only_health hs"
      and "marker_durable (fj_directory (pc_journal c1))"
      and "native_action (logged ops) a (pc_backend c1) = (r0, pc_backend c')"
      and "snd (nc_world (pc_backend c')) = snd (nc_world (pc_backend c1)) @ new"
      and "accountable r0 new (pc_backend c')"
      and "car_outcome r \<in> {ControllerActionOutcome.Accepted, ControllerActionOutcome.AcceptedUnconfirmed}
        \<or> pc_unresolved_action c' \<or> (\<exists>f. r0 = PairActionResult.RejectedBeforeSend f)"
  using assms
proof (cases rule: mutate_cases)
  case early
  then obtain hs where "snd (nc_world (pc_backend c')) = snd (nc_world (pc_backend c)) @ hs" "only_health hs"
    using idle_log [of "pc_backend c'" "pc_backend c" ops] by (auto simp: early_result_def)
  then show ?thesis
    by (rule idle)
next
  case (acted c1 attempted t)
  let ?env = "file_env (NativePairBackend (logged ops)) probe"
  note n = mutate_guard_None [OF acted(1)]
  obtain hs where hs: "snd (nc_world (pc_backend c1)) = snd (nc_world (pc_backend c)) @ hs" "only_health hs"
    using idle_log [of "pc_backend c1" "pc_backend c" ops] n(9) by auto
  have m: "marker_durable (fj_directory (pc_journal c1))"
    using n(1) by (auto simp: file_journal_def intro: mark_pending_durable)
  obtain r0 where r0: "native_action (logged ops) a (pc_backend c1) = (r0, pc_backend c')"
      and rej: "\<And>x. attempted = PairActionResult.RejectedBeforeSend x \<Longrightarrow> \<exists>y. r0 = PairActionResult.RejectedBeforeSend y"
    using acted(2,3) by (auto simp: native_backend_call elim!: checked_action_fresh)
  obtain new where new: "snd (nc_world (pc_backend c')) = snd (nc_world (pc_backend c1)) @ new"
      "accountable r0 new (pc_backend c')"
    using native_action_accountable [OF r0] by (auto simp: extends_log_def)
  have "car_outcome r \<in> {ControllerActionOutcome.Accepted, ControllerActionOutcome.AcceptedUnconfirmed}
        \<or> pc_unresolved_action c' \<or> (\<exists>f. r0 = PairActionResult.RejectedBeforeSend f)"
    using acted(4) rej by (auto simp: accepted_result_def failed_result_def split: if_splits)
  then show ?thesis
    by (rule marked [OF acted(1) hs m r0 new])
qed

text \<open>The guard of the transaction hands the native result on as it is.\<close>

lemma native_transaction:
  assumes "native_pinned b"
    and "checked_action (NativePairBackend ops) (backend_call a (NativePairBackend ops)) (transaction_new (NativePairBackend ops) b) = (r, t)"
  shows "native_action ops a b = (r, pbt_backend t)" and "native_pinned (pbt_backend t)"
proof -
  have "backend_call a (NativePairBackend ops) \<in> {pb_start (NativePairBackend ops), pb_stop (NativePairBackend ops),
      pb_shutdown (NativePairBackend ops), pb_recover_stop (NativePairBackend ops)}"
    by (cases a) simp_all
  from native.transparent_guard [OF assms(1) this assms(2)]
  show "native_action ops a b = (r, pbt_backend t)" and "native_pinned (pbt_backend t)"
    by (simp_all add: native_backend_call)
qed

text \<open>A pair whose JBL never answers, a controller over it, and one start.\<close>

definition silent_ops :: "nat native_ops" where
  "silent_ops = example_ops (PlayTogetherWriteResult.OutcomeUnknown JblError.NetworkUnreachable) AuraActionResult.Accepted"

definition ready_probe :: "unit PairConfigurationProbe" where
  "ready_probe p =
     (Inr \<lparr>pco_exact_pair_configured = True, pco_members = unavailable_members PairMemberVerification.Verified\<rparr>, p)"

abbreviation silent_env where
  "silent_env \<equiv> file_env (NativePairBackend (logged silent_ops)) ready_probe"

definition silent_controller where
  "silent_controller = with_journal silent_env example_pair () example_journal"

abbreviation silent_log :: call_log where
  "silent_log \<equiv>
     [(Shutdown, call_outcome.Completed), (Connect, call_outcome.Completed),
      (Arm BroadcastAction.Start, call_outcome.Completed), (Enter, call_outcome.Uncertain),
      (Cancel, call_outcome.Completed)]"

lemma silent_controller_sel [simp]:
  "pc_journal silent_controller = example_journal" "pc_unresolved_action silent_controller = False"
  "pc_managed_state silent_controller = ManagedLiveState.Unknown" "pc_probe silent_controller = ()"
  "pc_backend silent_controller = example_pair"
  by (simp_all add: silent_controller_def with_journal_def file_journal_def is_pending_def example_journal_def Let_def)

lemma silent_guard:
  obtains c1 j1 where "mark_pending JournalAction.Start example_journal = (Inr (), j1)"
    and "mutate_guard silent_env 5 ControllerAction.Start silent_controller = (None, c1)"
    and "pc_backend c1 = example_pair" and "pc_journal c1 = j1"
proof -
  obtain j1 where m: "mark_pending JournalAction.Start example_journal = (Inr (), j1)"
    using mark_pending_quiet [OF quiet_example] by (metis prod.collapse)
  have "\<exists>c1. mutate_guard silent_env 5 ControllerAction.Start silent_controller = (None, c1)
      \<and> pc_backend c1 = example_pair \<and> pc_journal c1 = j1"
    using m
    by (simp add: mutate_guard_def mutate_configured_def mutate_mark_def read_pair_configuration_def ready_probe_def
        is_idempotent_def file_journal_def Let_def)
  with m that show ?thesis
    by blast
qed

lemma silent_native_start:
  obtains f b where "native_start (logged silent_ops) example_pair = (PairActionResult.OutcomeUnknown f, b)"
    and "paf_backend f = PairBackendKind.NativePair" and "snd (nc_world b) = snd (nc_world example_pair) @ silent_log"
  by (auto simp: silent_ops_def example_native)

lemma silent_start:
  obtains r c' where "mutate silent_env 5 ControllerAction.Start silent_controller = (r, c')"
    and "snd (nc_world (pc_backend c')) = snd (nc_world (pc_backend silent_controller)) @ silent_log"
    and "car_outcome r = ControllerActionOutcome.OutcomeUnknown"
proof -
  obtain c1 j1 where g: "mutate_guard silent_env 5 ControllerAction.Start silent_controller = (None, c1)"
      "pc_backend c1 = example_pair"
    by (rule silent_guard)
  obtain f b where b: "native_start (logged silent_ops) example_pair = (PairActionResult.OutcomeUnknown f, b)"
      and f: "paf_backend f = PairBackendKind.NativePair"
      and log: "snd (nc_world b) = snd (nc_world example_pair) @ silent_log"
    by (rule silent_native_start)
  obtain r c' where mu: "mutate silent_env 5 ControllerAction.Start silent_controller = (r, c')"
    by fastforce
  then have mc: "mutate_commit silent_env 5 ControllerAction.Start False c1 = (r, c')"
    using g by (simp add: mutate_def)
  have "pb_kind (NativePairBackend (logged silent_ops)) x = PairBackendKind.NativePair"
      "pb_start (NativePairBackend (logged silent_ops)) = native_start (logged silent_ops)" for x
    by (simp_all add: NativePairBackend_def)
  then have "pc_backend c' = b \<and> car_outcome r = ControllerActionOutcome.OutcomeUnknown"
    using mc b g(2) f
    by (auto simp: mutate_commit_def transaction_action_call transaction_new_def checked_action_def
        ensure_backend_is_pinned_def reduce_backend_result_def Let_def finish_def finish_with_evidence_def
        latch_unknown_def)
  then show ?thesis
    using that [OF mu] log by simp
qed

text \<open>
  C2: no role write without a durable mark. When a mutation of the controller over the native backend and
  the file journal makes any role write that may have reached a speaker, it had first passed its guards
  with nothing of the backend called but its health, and had then marked the journal durably; all the rest of what it
  called, the write included, is the one native action that starts from there. Wherever the host crashes from the mark
  until the journal is next written, with the journal directory still there, the next process finds the
  journal pending, and its controller starts latched, or it fails to open the journal.
\<close>

theorem no_write_without_durable_mark:
  assumes "mutate (file_env (NativePairBackend (logged ops)) probe) now a c = (r, c')"
    and "snd (nc_world (pc_backend c')) = snd (nc_world (pc_backend c)) @ new"
    and "e \<in> set new" and "may_have_reached e"
  shows "\<exists>c1 hs acts r0. mutate_guard (file_env (NativePairBackend (logged ops)) probe) now a c = (None, c1) \<and>
    snd (nc_world (pc_backend c1)) = snd (nc_world (pc_backend c)) @ hs \<and> only_health hs \<and> e \<notin> set hs \<and>
    native_action (logged ops) a (pc_backend c1) = (r0, pc_backend c') \<and> new = hs @ acts \<and> e \<in> set acts \<and>
    (\<forall>m d t root j'. crash_image (fj_directory (pc_journal c1)) m \<longrightarrow> restarted (fj_directory (pc_journal c1)) m d \<longrightarrow>
       st_application t = Some d \<longrightarrow> fst (open_under root t) = Inr j' \<longrightarrow>
       is_pending j' \<and> pc_unresolved_action (with_journal (file_env ops' probe') b p j'))"
  using assms(1)
proof (cases rule: native_mutation)
  case (idle hs)
  then show ?thesis
    using assms(2-4) only_health_unreached by auto
next
  case (marked c1 hs new1 r0)
  have "is_pending j' \<and> pc_unresolved_action (with_journal (file_env ops' probe') b p j')"
    if "crash_image (fj_directory (pc_journal c1)) m" "restarted (fj_directory (pc_journal c1)) m d"
      "st_application t = Some d" "fst (open_under root t) = Inr j'" for m d t root j'
    using durable_marker_reopens [OF marked(4) that(1-3), of root] that(4)
    by (simp add: with_journal_def file_journal_def Let_def)
  moreover have "e \<notin> set hs"
    using assms(4) marked(3) only_health_unreached by blast
  moreover have "new = hs @ new1"
    using assms(2) marked(2,6) by simp
  moreover from calculation have "e \<in> set new1"
    using assms(3) by auto
  ultimately show ?thesis
    using marked(1-3,5) by blast
qed

text \<open>
  C3: no speaker is left silently uncertain. When a mutation of the controller over the native backend
  makes a role write that may have reached a speaker, then it ends accepted, or the controller is latched
  with an unresolved action; a mutation that ends in any other way made no such write.
\<close>

theorem write_is_settled_or_latched:
  assumes "mutate (file_env (NativePairBackend (logged ops)) probe) now a c = (r, c')"
    and "snd (nc_world (pc_backend c')) = snd (nc_world (pc_backend c)) @ new"
    and "e \<in> set new" and "may_have_reached e"
  shows "car_outcome r \<in> {ControllerActionOutcome.Accepted, ControllerActionOutcome.AcceptedUnconfirmed}
    \<or> pc_unresolved_action c'"
  using assms(1)
proof (cases rule: native_mutation)
  case (idle hs)
  then show ?thesis
    using assms(2-4) only_health_unreached by auto
next
  case (marked c1 hs new1 r0)
  have "new = hs @ new1"
    using assms(2) marked(2,6) by simp
  then have "e \<in> set new1"
    using assms(3,4) marked(3) only_health_unreached [of hs e] by auto
  then have "r0 \<noteq> PairActionResult.RejectedBeforeSend f" for f
    using marked(7) assms(4) by auto
  then show ?thesis
    using marked(8) by blast
qed

text \<open>
  C11: the reason of a failure is the backend's own. Once a mutation over the native backend has passed its guards, the
  backend is left as the one native action left it, still of its kind, and the verdict is the reading of the result of
  that action: an unknown outcome is reported with its own reason, a rejection with its own reason unless the journal
  cannot be cleared after it, an acceptance with its own evidence unless what follows it fails. The guard of the
  transaction never replaces a reason.
\<close>

theorem failure_is_the_backends_own:
  assumes "mutate (file_env (NativePairBackend ops) probe) now a c = (r, c')" and "native_pinned (pc_backend c)"
    and "mutate_guard (file_env (NativePairBackend ops) probe) now a c = (None, c1)"
    and "native_action ops a (pc_backend c1) = (r0, b)"
  shows "pc_backend c' = b \<and> native_pinned b \<and>
    (case r0 of
       PairActionResult.OutcomeUnknown f \<Rightarrow> car_outcome r = ControllerActionOutcome.OutcomeUnknown \<and>
         car_failure r = Some (controller_failure_from_unknown_backend (paf_reason f))
     | PairActionResult.RejectedBeforeSend f \<Rightarrow>
         (car_outcome r, car_failure r) \<in>
           {(ControllerActionOutcome.RejectedBeforeSend, Some (controller_failure_from_backend (paf_reason f))),
            (ControllerActionOutcome.OutcomeUnknown, Some ControllerFailure.JournalCommitFailed)}
     | PairActionResult.Accepted receipt \<Rightarrow>
         car_outcome r \<in> {ControllerActionOutcome.Accepted, ControllerActionOutcome.AcceptedUnconfirmed} \<and>
           car_failure r = None \<and> car_evidence r = Some (par_evidence receipt) \<or>
         (car_outcome r, car_failure r) \<in>
           {(ControllerActionOutcome.OutcomeUnknown, Some ControllerFailure.UnexpectedBackendLifecycle),
            (ControllerActionOutcome.PostconditionFailed, Some ControllerFailure.MembershipPostconditionFailed),
            (ControllerActionOutcome.OutcomeUnknown, Some ControllerFailure.JournalCommitFailed)})"
proof -
  let ?env = "file_env (NativePairBackend ops) probe"
  obtain attempted t where t: "checked_action (NativePairBackend ops) (backend_call a (NativePairBackend ops))
      (transaction_new (NativePairBackend ops) (pc_backend c1)) = (attempted, t)"
    by fastforce
  have "native_pinned (pc_backend c1)"
    using mutate_guard_None(9) [OF assms(3)] assms(2) native_health_pinned [of ops "pc_backend c"]
    by (auto simp: NativePairBackend_def split: prod.splits)
  note n = native_transaction [OF this t]
  have red: "reduce_backend_result ?env now a r0 (pc_unresolved_action c) (c1\<lparr>pc_backend := b\<rparr>) = (r, c')"
    using assms(1,3,4) t n(1) by (simp add: mutate_def mutate_commit_def transaction_action_call)
  then have "pc_backend c' = b"
    using reduce_ends [OF red] by (simp add: ends_def)
  moreover have "native_pinned b"
    using n assms(4) by simp
  ultimately show ?thesis
    using red reduced_verdict [OF red] by (simp split: PairActionResult.splits)
qed

theorem no_write_without_durable_mark_witness:
  "\<exists>c1 hs acts. mutate_guard silent_env 5 ControllerAction.Start silent_controller = (None, c1) \<and>
     only_health hs \<and> silent_log = hs @ acts \<and> (Enter, call_outcome.Uncertain) \<in> set acts"
proof -
  obtain r c' where m: "mutate silent_env 5 ControllerAction.Start silent_controller = (r, c')"
      and l: "snd (nc_world (pc_backend c')) = snd (nc_world (pc_backend silent_controller)) @ silent_log"
    by (rule silent_start)
  from no_write_without_durable_mark [OF m l, of "(Enter, call_outcome.Uncertain)"
      "NativePairBackend (logged silent_ops)" ready_probe example_pair "()"] show ?thesis
    by (auto simp: may_have_reached_def)
qed

theorem write_is_settled_or_latched_witness:
  "\<exists>r c'. mutate silent_env 5 ControllerAction.Start silent_controller = (r, c') \<and> pc_unresolved_action c'"
proof -
  obtain r c' where m: "mutate silent_env 5 ControllerAction.Start silent_controller = (r, c')"
      and l: "snd (nc_world (pc_backend c')) = snd (nc_world (pc_backend silent_controller)) @ silent_log"
      and out: "car_outcome r = ControllerActionOutcome.OutcomeUnknown"
    by (rule silent_start)
  from write_is_settled_or_latched [OF m l, of "(Enter, call_outcome.Uncertain)"] m out show ?thesis
    by (auto simp: may_have_reached_def)
qed

theorem failure_is_the_backends_own_witness:
  "\<exists>r c'. mutate silent_env 5 ControllerAction.Start silent_controller = (r, c') \<and>
     car_outcome r = ControllerActionOutcome.OutcomeUnknown \<and> native_pinned (pc_backend c')"
proof -
  obtain c1 j1 where g: "mutate_guard silent_env 5 ControllerAction.Start silent_controller = (None, c1)"
      "pc_backend c1 = example_pair"
    by (rule silent_guard)
  obtain f b where b: "native_start (logged silent_ops) example_pair = (PairActionResult.OutcomeUnknown f, b)"
    by (rule silent_native_start)
  obtain r c' where mu: "mutate silent_env 5 ControllerAction.Start silent_controller = (r, c')"
    by fastforce
  have "native_pinned (pc_backend silent_controller)"
    by (simp add: native_pinned_def example_pair_def native_core_new_def)
  from failure_is_the_backends_own [OF mu this g(1), of "PairActionResult.OutcomeUnknown f" b] mu g(2) b show ?thesis
    by simp
qed

end
