(* ===== verification/Pair_Lives.thy ===== *)
theory Pair_Lives
  imports Pair_Safety
begin

text \<open>
  The pair over many lives of its service: one controller after another over the same journal directory, with crashes
  of the host at any moment and new openings after them. What the program promises about all of these together is a
  small machine with one bit, whether the outcome of an action is still owed; the lives of the program refine it.
\<close>

subsection \<open>Runs and simulations\<close>

inductive run_of :: "('s \<Rightarrow> 'e \<Rightarrow> 's \<Rightarrow> bool) \<Rightarrow> 's \<Rightarrow> 'e list \<Rightarrow> 's \<Rightarrow> bool" for moves where
  run_Nil: "run_of moves s [] s"
| run_Cons: "moves s e s1 \<Longrightarrow> run_of moves s1 es s' \<Longrightarrow> run_of moves s (e # es) s'"

inductive_simps run_of_simps [simp]: "run_of moves s [] s'" "run_of moves s (e # es) s'"

lemma run_append: "run_of moves s (es @ es') s' \<longleftrightarrow> (\<exists>s1. run_of moves s es s1 \<and> run_of moves s1 es' s')"
  by (induction es arbitrary: s) auto

text \<open>A system that does what its specification allows, step by step, does so over whole runs.\<close>

locale forward_simulation =
  fixes moves :: "'s \<Rightarrow> 'e \<Rightarrow> 's \<Rightarrow> bool" and spec :: "'a \<Rightarrow> 'e \<Rightarrow> 'a \<Rightarrow> bool" and rel :: "'a \<Rightarrow> 's \<Rightarrow> bool"
  assumes simulated: "moves s e s' \<Longrightarrow> rel a s \<Longrightarrow> \<exists>a'. spec a e a' \<and> rel a' s'"
begin

lemma run_simulated: "run_of moves s es s' \<Longrightarrow> rel a s \<Longrightarrow> \<exists>a'. run_of spec a es a' \<and> rel a' s'"
proof (induction arbitrary: a rule: run_of.induct)
  case (run_Cons s e s1 es s')
  then show ?case
    by (meson simulated run_of.run_Cons)
qed (blast intro: run_Nil)

end

subsection \<open>The promise\<close>

text \<open>
  An event of the life of the pair: an attempted action with its reported outcome and whether a role write of it may
  have reached a speaker; a crash, and whether the action it interrupted had got so far; an opening; anything else.
\<close>

datatype pair_event = Attempt ControllerAction ControllerActionOutcome bool | Crashed bool | Opened_Journal | Unseen

definition accepting :: "ControllerActionOutcome set" where
  "accepting = {ControllerActionOutcome.Accepted, ControllerActionOutcome.AcceptedUnconfirmed}"

definition uncertain :: "ControllerActionOutcome set" where
  "uncertain = {ControllerActionOutcome.OutcomeUnknown, ControllerActionOutcome.PostconditionFailed}"

inductive promise :: "bool \<Rightarrow> pair_event \<Rightarrow> bool \<Rightarrow> bool" where
  refused: "promise owed (Attempt a ControllerActionOutcome.RejectedBeforeSend False) owed"
| satisfied: "\<not> owed \<or> a = ControllerAction.RecoverStop \<Longrightarrow>
    promise owed (Attempt a ControllerActionOutcome.Idempotent False) owed"
| settled: "verdict \<in> accepting \<Longrightarrow> \<not> owed \<or> a = ControllerAction.RecoverStop \<Longrightarrow>
    promise owed (Attempt a verdict reached) False"
| unsettled: "verdict \<in> uncertain \<Longrightarrow> \<not> owed \<or> a = ControllerAction.RecoverStop \<Longrightarrow>
    promise owed (Attempt a verdict reached) True"
| crashed: "promise owed (Crashed reached) (owed \<or> reached)"
| opened: "promise owed Opened_Journal owed"
| unseen: "promise owed Unseen owed"

inductive_cases promise_AttemptE [elim]: "promise owed (Attempt a verdict reached) owed'"

text \<open>What the promise means for its user: an owed outcome stays owed until a recovery is accepted, and blocks.\<close>

fun unsettling :: "pair_event \<Rightarrow> bool" where
  "unsettling (Attempt a verdict reached) \<longleftrightarrow> verdict \<in> uncertain"
| "unsettling (Crashed reached) \<longleftrightarrow> reached"
| "unsettling _ \<longleftrightarrow> False"

fun recovers :: "pair_event \<Rightarrow> bool" where
  "recovers (Attempt a verdict reached) \<longleftrightarrow> a = ControllerAction.RecoverStop \<and> verdict \<in> accepting"
| "recovers _ \<longleftrightarrow> False"

lemma outcomes_disjoint:
  "verdict \<in> accepting \<Longrightarrow> verdict \<notin> uncertain"
  "ControllerActionOutcome.RejectedBeforeSend \<notin> uncertain" "ControllerActionOutcome.RejectedBeforeSend \<notin> accepting"
  "ControllerActionOutcome.Idempotent \<notin> uncertain" "ControllerActionOutcome.Idempotent \<notin> accepting"
  by (auto simp: accepting_def uncertain_def)

lemma unsettling_owes: "promise owed e owed' \<Longrightarrow> unsettling e \<Longrightarrow> owed'"
  by (induction rule: promise.induct) (auto simp: outcomes_disjoint)

lemma owed_stays: "promise owed e owed' \<Longrightarrow> owed \<Longrightarrow> \<not> recovers e \<Longrightarrow> owed'"
  by (induction rule: promise.induct) auto

lemma owed_stays_run:
  "run_of promise owed es owed' \<Longrightarrow> owed \<Longrightarrow> \<forall>e \<in> set es. \<not> recovers e \<Longrightarrow> owed'"
  by (induction rule: run_of.induct) (auto dest: owed_stays)

lemma owed_blocks:
  "promise True (Attempt a verdict reached) owed' \<Longrightarrow> a \<noteq> ControllerAction.RecoverStop \<Longrightarrow>
     verdict = ControllerActionOutcome.RejectedBeforeSend \<and> \<not> reached"
  by auto

subsection \<open>The lives of the service\<close>

type_synonym ('w, 'p) native_controller = "(('w \<times> call_log) NativePairCore, 'p, FileUncertaintyJournal) PairController"

datatype ('w, 'p) pair_life = Alive "('w, 'p) native_controller" | Down journal_directory

definition reaches :: "call_log \<Rightarrow> bool" where
  "reaches log \<longleftrightarrow> list_ex may_have_reached log"

definition lost :: "journal_directory \<Rightarrow> journal_directory \<Rightarrow> bool" where
  "lost d d' \<longleftrightarrow> (\<exists>m. crash_image d m \<and> restarted d m d')"

abbreviation pair_env where
  "pair_env ops probe \<equiv> file_env (NativePairBackend (logged ops)) probe"

text \<open>
  A crash while the journal is being written is a run of that call in which its remaining system calls fail, followed
  by the crash; so the crashes that need a rule are those of a controller at rest, after a mark that may have failed,
  and in the middle of the action. Nothing is assumed of the devices: between any two calls they may change.
\<close>

inductive pair_step ::
  "'w native_ops \<Rightarrow> 'p PairConfigurationProbe \<Rightarrow> ('w, 'p) pair_life \<Rightarrow> pair_event \<Rightarrow> ('w, 'p) pair_life \<Rightarrow> bool"
  for ops probe where
  mutated: "mutate (pair_env ops probe) now a c = (r, c') \<Longrightarrow>
      snd (nc_world (pc_backend c')) = snd (nc_world (pc_backend c)) @ new \<Longrightarrow>
    pair_step ops probe (Alive c) (Attempt a (car_outcome r) (reaches new)) (Alive c')"
| observed: "Controller.status (pair_env ops probe) now c = (s, c') \<Longrightarrow> pair_step ops probe (Alive c) Unseen (Alive c')"
| torn_down: "teardown_transport_for_exit (pair_env ops probe) c = (r', c') \<Longrightarrow> pair_step ops probe (Alive c) Unseen (Alive c')"
| devices: "pair_step ops probe (Alive c) Unseen (Alive (c\<lparr>pc_backend := b, pc_probe := p\<rparr>))"
| crashed: "lost (fj_directory (pc_journal c)) d \<Longrightarrow> pair_step ops probe (Alive c) (Crashed False) (Down d)"
| crashed_marking: "mark_pending (journal_action a) (pc_journal c) = (m, j) \<Longrightarrow> lost (fj_directory j) d \<Longrightarrow>
    pair_step ops probe (Alive c) (Crashed False) (Down d)"
| crashed_acting: "mutate_guard (pair_env ops probe) now a c = (None, c1) \<Longrightarrow>
      native_action (logged ops) a (pc_backend c1) = (r0, b) \<Longrightarrow>
      snd (nc_world b) = snd (nc_world (pc_backend c1)) @ new \<Longrightarrow> lost (fj_directory (pc_journal c1)) d \<Longrightarrow>
    pair_step ops probe (Alive c) (Crashed (reaches (take k new))) (Down d)"
| opened: "st_application t = Some d \<Longrightarrow> open_under root t = (Inr j, t') \<Longrightarrow>
    pair_step ops probe (Down d) Opened_Journal (Alive (with_journal (pair_env ops probe) b p j))"
| not_opened: "st_application t = Some d \<Longrightarrow> open_under root t = (Inl e, t') \<Longrightarrow> st_application t' = Some d1 \<Longrightarrow>
    lost d1 d' \<Longrightarrow> pair_step ops probe (Down d) Unseen (Down d')"

fun keeps_promise :: "bool \<Rightarrow> ('w, 'p) pair_life \<Rightarrow> bool" where
  "keeps_promise owed (Alive c) \<longleftrightarrow> (owed \<longrightarrow> pc_unresolved_action c \<and> marker_durable (fj_directory (pc_journal c)))"
| "keeps_promise owed (Down d) \<longleftrightarrow> (owed \<longrightarrow> marker_durable d)"

subsection \<open>The journal across lives\<close>

lemma lost_marker:
  assumes "marker_durable d" and "lost d d'"
  shows "marker_durable d'"
proof -
  obtain m where m: "crash_image d m" "restarted d m d'"
    using assms(2) by (auto simp: lost_def)
  obtain v where v: "v \<in> set (versions d)"
    and image: "case v PENDING_FILE of None \<Rightarrow> m PENDING_FILE = None
      | Some e \<Rightarrow> m PENDING_FILE = Some e \<or> \<not> fe_synced e \<and> (\<exists>p. m PENDING_FILE = Some (e\<lparr>fe_payload := p\<rparr>))"
    using m(1) unfolding crash_image_def by blast
  then show ?thesis
    using assms(1) m(2) unfolding marker_durable_def restarted_def versions_def by fastforce
qed

lemma same_listing_marker: "same_listing d d' \<Longrightarrow> marker_durable d \<Longrightarrow> marker_durable d'"
  by (auto intro: marker_durable_touches same_listing_touches [where P = "{}"])

lemma load_state_keeps_marker:
  assumes "marker_durable d" and "load_state d = (r, d')"
  shows "marker_durable d' \<and> (\<forall>s. r = Inr s \<longrightarrow> state_is_pending s)"
proof -
  obtain e a where e: "jd_entries d PENDING_FILE = Some e" "good_record (jd_euid d) (JournalState.Pending a) e"
    using assms(1) by (auto simp: marker_durable_def versions_def)
  obtain r1 d1 where 1: "read_state JOURNAL_FILE d = (r1, d1)"
    by fastforce
  obtain r2 d2 where 2: "read_state PENDING_FILE d1 = (r2, d2)"
    by fastforce
  have d1: "same_listing d d1" and d2: "same_listing d1 d2"
    using read_state_cases [OF 1] read_state_cases [OF 2] by auto
  have "jd_entries d1 PENDING_FILE = Some e" "jd_euid d1 = jd_euid d"
    using e(1) d1 by (simp_all add: same_listing_def same_owner_def)
  then have "\<forall>x. r2 = Inr x \<longrightarrow> x = Some (JournalState.Pending a)"
    using e(2) read_state_cases [OF 2] good_record_unique by (metis not_None_eq option.inject option.simps(3))
  then have "d' \<in> {d1, d2}"
    using assms(2) 1 2
    by (cases r1; cases r2) (auto simp: load_state_def try_bind_def lift_result_def)
  then have "marker_durable d'"
    using assms(1) d1 d2 same_listing_marker by blast
  moreover have "state_is_pending st" if "r = Inr st" for st
    using load_state_marker [OF e] assms(2) that by simp
  ultimately show ?thesis
    by blast
qed

lemma open_under_marker:
  assumes "open_under root t = (r, t')" and "st_application t = Some d" and "marker_durable d"
  shows "(\<forall>j. r = Inr j \<longrightarrow> is_pending j \<and> marker_durable (fj_directory j)) \<and>
    (\<forall>d1. st_application t' = Some d1 \<longrightarrow> marker_durable d1)"
proof -
  obtain l d' where l: "load_state d = (l, d')"
    by fastforce
  show ?thesis
    using assms l load_state_keeps_marker [OF assms(3) l]
    by (auto simp: open_under_def try_bind_def lift_result_def ensure_application_directory_def is_pending_def Let_def
        split: if_splits sum.splits prod.splits)
qed

subsection \<open>Every step keeps the promise\<close>

lemma reaches_append [simp]: "reaches (l @ l') \<longleftrightarrow> reaches l \<or> reaches l'"
  by (simp add: reaches_def)

lemma only_health_reaches: "only_health l \<Longrightarrow> \<not> reaches l"
  using only_health_unreached by (auto simp: reaches_def list_ex_iff)

lemma early_simulated:
  assumes "early_result (pair_env ops probe) a c r c'" and "mutate (pair_env ops probe) now a c = (r, c')"
    and "snd (nc_world (pc_backend c')) = snd (nc_world (pc_backend c)) @ new" and "keeps_promise owed (Alive c)"
  shows "promise owed (Attempt a (car_outcome r) (reaches new)) owed \<and> keeps_promise owed (Alive c')"
proof -
  have "\<not> reaches new"
    using assms(1,3) idle_log [of "pc_backend c'" "pc_backend c" ops] only_health_reaches
    by (auto simp: early_result_def)
  moreover have "car_outcome r = ControllerActionOutcome.RejectedBeforeSend
      \<or> car_outcome r = ControllerActionOutcome.Idempotent \<and> (\<not> owed \<or> a = ControllerAction.RecoverStop)"
    using assms(1,4) unresolved_action_blocks [OF _ _ assms(2)] by (auto simp: early_result_def)
  moreover have "keeps_promise owed (Alive c')"
    using assms(1,4) journal_step_durable [of "journal_call.Mark (journal_action a)" "pc_journal c"]
    by (auto simp: early_result_def file_journal_def split: if_splits)
  ultimately show ?thesis
    by (auto intro: promise.intros)
qed

lemma acted_simulated:
  assumes "mutate_guard (pair_env ops probe) now a c = (None, c1)"
    and "accepted_result (pair_env ops probe) a attempted c1 r c' \<or> failed_result (pair_env ops probe) attempted c1 r c'"
    and "\<And>f. attempted = PairActionResult.RejectedBeforeSend f \<Longrightarrow> \<not> reaches new" and "keeps_promise owed (Alive c)"
  shows "\<exists>owed'. promise owed (Attempt a (car_outcome r) (reaches new)) owed' \<and> keeps_promise owed' (Alive c')"
proof -
  note n = mutate_guard_None [OF assms(1)]
  have free: "\<not> owed \<or> a = ControllerAction.RecoverStop"
    using n(6) assms(4) by auto
  have marked: "marker_durable (fj_directory (pc_journal c1))"
    using n(1) by (auto simp: file_journal_def intro: mark_pending_durable)
  consider (accepted) "car_outcome r \<in> accepting"
    | (uncertain) "car_outcome r \<in> uncertain" "pc_unresolved_action c'"
        "pc_journal c' = pc_journal c1 \<or> (\<exists>e. clear (pc_journal c1) = (Inl e, pc_journal c'))"
    | (rejected) f where "attempted = PairActionResult.RejectedBeforeSend f"
        "car_outcome r = ControllerActionOutcome.RejectedBeforeSend"
        "pc_unresolved_action c1 \<Longrightarrow> pc_unresolved_action c' \<and> pc_journal c' = pc_journal c1"
    using assms(2)
    by (auto simp: accepted_result_def failed_result_def file_journal_def accepting_def uncertain_def split: if_splits)
  then show ?thesis
  proof cases
    case accepted
    then show ?thesis
      using free by (intro exI [of _ False]) (auto intro: promise.settled)
  next
    case uncertain
    then have "marker_durable (fj_directory (pc_journal c'))"
      using marked journal_step_durable [of journal_call.Clear "pc_journal c1"] by auto
    then show ?thesis
      using uncertain free by (intro exI [of _ True]) (auto intro: promise.unsettled)
  next
    case rejected
    then show ?thesis
      using assms(3,4) marked n(3) by (intro exI [of _ owed]) (auto intro: promise.refused)
  qed
qed

lemma mutated_simulated:
  assumes "mutate (pair_env ops probe) now a c = (r, c')"
    and "snd (nc_world (pc_backend c')) = snd (nc_world (pc_backend c)) @ new" and "keeps_promise owed (Alive c)"
  shows "\<exists>owed'. promise owed (Attempt a (car_outcome r) (reaches new)) owed' \<and> keeps_promise owed' (Alive c')"
  using assms(1)
proof (cases rule: mutate_cases)
  case early
  then show ?thesis
    using early_simulated [OF early assms] by blast
next
  case (acted c1 attempted t)
  obtain hs where hs: "snd (nc_world (pc_backend c1)) = snd (nc_world (pc_backend c)) @ hs" "only_health hs"
    using idle_log [of "pc_backend c1" "pc_backend c" ops] mutate_guard_None(9) [OF acted(1)] by auto
  obtain r0 where r0: "native_action (logged ops) a (pc_backend c1) = (r0, pc_backend c')"
      and rej: "\<And>x. attempted = PairActionResult.RejectedBeforeSend x \<Longrightarrow> \<exists>y. r0 = PairActionResult.RejectedBeforeSend y"
    using acted(2,3) by (auto simp: native_backend_call elim!: checked_action_fresh)
  obtain new1 where new1: "snd (nc_world (pc_backend c')) = snd (nc_world (pc_backend c1)) @ new1"
      "accountable r0 new1 (pc_backend c')"
    using native_action_accountable [OF r0] by (auto simp: extends_log_def)
  have "new = hs @ new1"
    using assms(2) hs(1) new1(1) by simp
  then have "\<not> reaches new" if "attempted = PairActionResult.RejectedBeforeSend f" for f
    using rej [OF that] new1(2) only_health_reaches [OF hs(2)] by (auto simp: reaches_def list_ex_iff)
  then show ?thesis
    using acted_simulated [OF acted(1,4) _ assms(3)] by blast
qed

lemma lost_keeps_promise:
  assumes "lost d d'" and "owed \<Longrightarrow> marker_durable d"
  shows "keeps_promise owed (Down d')"
  using assms lost_marker by auto

lemma pair_step_simulated:
  assumes "pair_step ops probe s e s'" and "keeps_promise owed s"
  shows "\<exists>owed'. promise owed e owed' \<and> keeps_promise owed' s'"
  using assms
proof (induction rule: pair_step.induct)
  case (mutated now a c r c' new)
  then show ?case
    by (rule mutated_simulated)
next
  case (observed now c st c')
  then show ?case
    by (intro exI [of _ owed]) (auto simp: status_sel intro: promise.unseen)
next
  case (torn_down c r' c')
  then show ?case
    by (intro exI [of _ owed])
      (auto simp: teardown_transport_for_exit_def intro: promise.unseen split: prod.splits)
next
  case (devices c b p)
  then show ?case
    by (intro exI [of _ owed]) (auto intro: promise.unseen)
next
  case (crashed c d)
  then show ?case
    using lost_keeps_promise [OF crashed(1), of owed] promise.crashed [of owed False] by auto
next
  case (crashed_marking a c m j d)
  then have "owed \<Longrightarrow> marker_durable (fj_directory j)"
    using journal_step_durable [of "journal_call.Mark (journal_action a)" "pc_journal c"] by auto
  then show ?case
    using lost_keeps_promise [OF crashed_marking(2), of owed] promise.crashed [of owed False] by auto
next
  case (crashed_acting now a c c1 r0 b new d k)
  have "marker_durable (fj_directory (pc_journal c1))"
    using mutate_guard_None(1) [OF crashed_acting(1)] by (auto simp: file_journal_def intro: mark_pending_durable)
  then show ?case
    using lost_keeps_promise [OF crashed_acting(4)] promise.crashed by blast
next
  case (opened t d root j t' b p)
  then have "owed \<Longrightarrow> is_pending j \<and> marker_durable (fj_directory j)"
    using open_under_marker [OF opened(2,1)] by auto
  then show ?case
    by (intro exI [of _ owed]) (auto simp: with_journal_def file_journal_def Let_def intro: promise.opened)
next
  case (not_opened t d root e t' d1 d')
  then have "owed \<Longrightarrow> marker_durable d1"
    using open_under_marker [OF not_opened(2,1)] by auto
  then show ?case
    using lost_keeps_promise [OF not_opened(4)] promise.unseen by blast
qed

interpretation lives: forward_simulation "pair_step ops probe" promise keeps_promise
  by unfold_locales (rule pair_step_simulated)

subsection \<open>Properties\<close>

text \<open>
  C4: the lives of the service refine the promise. Whatever the devices, the disk and the host do, every run of
  attempted actions, reads, crashes and openings of the journal is a run of the machine that owes an outcome from the
  moment an action ends uncertain, or dies after a role write that may have reached a speaker, until a recovery is
  accepted, and that refuses every other action meanwhile; when an outcome is owed at the end, the controller that
  lives is latched and the marker is durably on the disk.
\<close>

theorem lives_refine_the_promise:
  assumes "run_of (pair_step ops probe) s es s'" and "keeps_promise owed s"
  shows "\<exists>owed'. run_of promise owed es owed' \<and> keeps_promise owed' s'"
  using assms by (rule lives.run_simulated)

text \<open>
  C5: an unsettled write is never forgotten. When an action ended uncertain, or the host crashed after a role write
  that may have reached a speaker, then after any further events over any number of lives, as long as no recovery was
  accepted, an attempt at anything but a recovery is rejected and makes no write that may reach a speaker.
\<close>

theorem unsettled_write_is_never_forgotten:
  assumes "run_of (pair_step ops probe) s (es @ e # es' @ [Attempt a verdict reached]) s'"
    and "unsettling e" and "\<forall>x \<in> set es'. \<not> recovers x" and "a \<noteq> ControllerAction.RecoverStop"
  shows "verdict = ControllerActionOutcome.RejectedBeforeSend \<and> \<not> reached"
proof -
  have "keeps_promise False s"
    by (cases s) simp_all
  then obtain owed' where "run_of promise False (es @ e # es' @ [Attempt a verdict reached]) owed'"
    using lives.run_simulated [OF assms(1)] by blast
  then obtain b0 b1 b2 where "promise b0 e b1" "run_of promise b1 es' b2" "promise b2 (Attempt a verdict reached) owed'"
    by (auto simp: run_append)
  moreover from this have b2
    using unsettling_owes assms(2,3) owed_stays_run by blast
  ultimately show ?thesis
    using owed_blocks assms(4) by auto
qed

text \<open>The pair whose JBL never answers: a crash in the middle of its start, a new life, another start.\<close>

lemma silent_crash:
  obtains d where "pair_step silent_ops ready_probe (Alive silent_controller) (Crashed True) (Down d)"
    and "load_state d = (Inr (JournalState.Pending JournalAction.Start), d)"
    and "validate_directory_metadata (jd_euid d) (jd_meta d) = Inr ()"
proof -
  obtain c1 j1 where m: "mark_pending JournalAction.Start example_journal = (Inr (), j1)"
      and g: "mutate_guard silent_env 5 ControllerAction.Start silent_controller = (None, c1)"
        "pc_backend c1 = example_pair" "pc_journal c1 = j1"
    by (rule silent_guard)
  obtain f b where b: "native_action (logged silent_ops) ControllerAction.Start (pc_backend c1) = (PairActionResult.OutcomeUnknown f, b)"
      "snd (nc_world b) = snd (nc_world (pc_backend c1)) @ silent_log"
    using silent_native_start g(2) by (metis native_action.simps(1))
  note q = mark_pending_quiet [OF quiet_example m]
  let ?d = "(fj_directory j1)\<lparr>jd_history := []\<rparr>" and ?e = "fj_directory example_journal"
  have "crash_image (fj_directory j1) (jd_entries (fj_directory j1))"
    by (auto simp: crash_image_def versions_def split: option.splits)
  then have "lost (fj_directory (pc_journal c1)) ?d"
    using g(3) by (auto simp: lost_def restarted_def intro!: exI [of _ "jd_entries (fj_directory j1)"])
  from pair_step.crashed_acting [OF g(1) b this, of 4]
  have "pair_step silent_ops ready_probe (Alive silent_controller) (Crashed True) (Down ?d)"
    by (simp add: reaches_def may_have_reached_def)
  moreover have good: "good_record (jd_euid ?e) st (committed ?e st)" for st
    using quiet_example by (simp add: quiet_def good_committed)
  have "load_state ?d = (Inr (JournalState.Pending JournalAction.Start), ?d)"
    using q good by (intro load_state_quiet(1) [where st = "JournalState.Pending JournalAction.Start"])
      (auto simp: quiet_def same_owner_def)
  moreover have "validate_directory_metadata (jd_euid ?d) (jd_meta ?d) = Inr ()"
    using q by (simp add: same_owner_def example_journal_def example_directory_def make_directory_def
        validate_directory_metadata_def)
  ultimately show ?thesis
    by (rule that)
qed

lemma silent_lives:
  obtains verdict new s' where "run_of (pair_step silent_ops ready_probe) (Alive silent_controller)
    ([] @ Crashed True # [Opened_Journal] @ [Attempt ControllerAction.Start verdict new]) s'"
proof -
  obtain d where 1: "pair_step silent_ops ready_probe (Alive silent_controller) (Crashed True) (Down d)"
      and l: "load_state d = (Inr (JournalState.Pending JournalAction.Start), d)"
        "validate_directory_metadata (jd_euid d) (jd_meta d) = Inr ()"
    by (rule silent_crash)
  let ?t = "example_tree d" and ?j = "\<lparr>fj_directory = d, fj_state = JournalState.Pending JournalAction.Start\<rparr>"
  have "open_under ''/s'' ?t = (Inr ?j, ?t\<lparr>st_application := Some d\<rparr>)"
    using l by (intro open_under_trusted) (simp_all add: example_tree_def starts_with_def)
  then have 2: "pair_step silent_ops ready_probe (Down d) Opened_Journal (Alive (with_journal silent_env example_pair () ?j))"
    by (rule pair_step.opened [rotated]) (simp add: example_tree_def)
  let ?c = "with_journal silent_env example_pair () ?j"
  obtain r c' where m: "mutate silent_env 6 ControllerAction.Start ?c = (r, c')"
    by fastforce
  have "pc_unresolved_action ?c"
    by (simp add: with_journal_def file_journal_def is_pending_def Let_def)
  then have "snd (nc_world (pc_backend c')) = snd (nc_world (pc_backend ?c)) @ []"
    using unresolved_action_blocks [OF _ _ m] by simp
  from pair_step.mutated [OF m this] 1 2 that show ?thesis
    by (metis append_Cons append_Nil run_of.intros)
qed

theorem lives_refine_the_promise_witness:
  "\<exists>verdict new owed'. run_of promise False
     ([] @ Crashed True # [Opened_Journal] @ [Attempt ControllerAction.Start verdict new]) owed'"
proof -
  obtain verdict new s' where run: "run_of (pair_step silent_ops ready_probe) (Alive silent_controller)
    ([] @ Crashed True # [Opened_Journal] @ [Attempt ControllerAction.Start verdict new]) s'"
    by (rule silent_lives)
  show ?thesis
    using lives_refine_the_promise [OF run, of False] by (metis keeps_promise.simps(1))
qed

theorem unsettled_write_is_never_forgotten_witness:
  "\<exists>s'. run_of (pair_step silent_ops ready_probe) (Alive silent_controller)
     [Crashed True, Opened_Journal, Attempt ControllerAction.Start ControllerActionOutcome.RejectedBeforeSend False] s'"
proof -
  obtain verdict new s' where run: "run_of (pair_step silent_ops ready_probe) (Alive silent_controller)
    ([] @ Crashed True # [Opened_Journal] @ [Attempt ControllerAction.Start verdict new]) s'"
    by (rule silent_lives)
  have "verdict = ControllerActionOutcome.RejectedBeforeSend \<and> \<not> new"
    by (rule unsettled_write_is_never_forgotten [OF run]) simp_all
  with run show ?thesis
    by auto
qed

end
