(* ===== verification/Private_File.thy ===== *)
theory Private_File
  imports Model Posix
begin

text \<open>
  Reading a private file (\<open>rust/src/private_file.rs\<close>, as compiled for Linux): opened without following any
  symbolic link, checked through its descriptor, read up to a limit. The system calls are the record
  \<open>file_os\<close>.
\<close>

datatype PrivateFileKind = Config | Certificate | PrivateKey

datatype OpenPrivateError = Missing | PermissionDenied | SymlinkRejected | Unsupported | Other

fun unavailable :: "PrivateFileKind \<Rightarrow> JblError" where
  "unavailable PrivateFileKind.Config = JblError.ConfigUnavailable"
| "unavailable PrivateFileKind.Certificate = JblError.CertificateUnavailable"
| "unavailable PrivateFileKind.PrivateKey = JblError.PrivateKeyUnavailable"

fun permissions :: "PrivateFileKind \<Rightarrow> JblError" where
  "permissions PrivateFileKind.Config = JblError.ConfigPermissions"
| "permissions PrivateFileKind.Certificate = JblError.CertificatePermissions"
| "permissions PrivateFileKind.PrivateKey = JblError.PrivateKeyPermissions"

fun invalid :: "PrivateFileKind \<Rightarrow> JblError" where
  "invalid PrivateFileKind.Config = JblError.InvalidConfig"
| "invalid PrivateFileKind.Certificate = JblError.CredentialFileInvalid"
| "invalid PrivateFileKind.PrivateKey = JblError.CredentialFileInvalid"

fun too_large :: "PrivateFileKind \<Rightarrow> JblError" where
  "too_large PrivateFileKind.Config = JblError.ConfigTooLarge"
| "too_large PrivateFileKind.Certificate = JblError.CredentialTooLarge"
| "too_large PrivateFileKind.PrivateKey = JblError.CredentialTooLarge"

fun classify_linux_open_error :: "errno \<Rightarrow> OpenPrivateError" where
  "classify_linux_open_error errno.ENOENT = OpenPrivateError.Missing"
| "classify_linux_open_error errno.EACCES = OpenPrivateError.PermissionDenied"
| "classify_linux_open_error errno.ELOOP = OpenPrivateError.SymlinkRejected"
| "classify_linux_open_error errno.ENOSYS = OpenPrivateError.Unsupported"
| "classify_linux_open_error errno.EINVAL = OpenPrivateError.Unsupported"
| "classify_linux_open_error errno.E2BIG = OpenPrivateError.Unsupported"
| "classify_linux_open_error errno.EPERM = OpenPrivateError.Unsupported"
| "classify_linux_open_error _ = OpenPrivateError.Other"

record 'w file_os =
  fo_geteuid :: "'w \<Rightarrow> nat"
  fo_openat2_no_symlinks :: "string \<Rightarrow> ('w, errno, nat) fallible"
  fo_fstat :: "nat \<Rightarrow> ('w, errno, stat) fallible"
  fo_read_up_to :: "nat \<Rightarrow> nat \<Rightarrow> ('w, errno, string) fallible"

definition open_private :: "'w file_os \<Rightarrow> string \<Rightarrow> ('w, OpenPrivateError, nat) fallible" where
  "open_private os path =
     try_bind (lift_result (ok_or OpenPrivateError.Other (c_string path))) (\<lambda>p.
       with_err classify_linux_open_error (fo_openat2_no_symlinks os p))"

definition validate_metadata :: "'w file_os \<Rightarrow> nat \<Rightarrow> PrivateFileKind \<Rightarrow> nat \<Rightarrow> ('w, JblError, unit) fallible" where
  "validate_metadata os fd kind limit =
     try_bind (with_err (\<lambda>_. invalid kind) (fo_fstat os fd)) (\<lambda>metadata w.
       (if st_mode metadata AND S_IFMT \<noteq> S_IFREG then Inl (invalid kind)
        else if limit < st_size metadata then Inl (too_large kind)
        else if st_uid metadata \<noteq> fo_geteuid os w then Inl (permissions kind)
        else if st_mode metadata AND 0x3F \<noteq> 0 then Inl (permissions kind)
        else Inr (), w))"

fun open_error :: "PrivateFileKind \<Rightarrow> OpenPrivateError \<Rightarrow> (JblError, string option) result" where
  "open_error kind OpenPrivateError.Missing = Inr None"
| "open_error kind OpenPrivateError.PermissionDenied = Inl (permissions kind)"
| "open_error kind OpenPrivateError.SymlinkRejected = Inl (invalid kind)"
| "open_error kind OpenPrivateError.Unsupported = Inl (unavailable kind)"
| "open_error kind OpenPrivateError.Other = Inl (unavailable kind)"

definition read_private_file_if_present ::
  "'w file_os \<Rightarrow> string \<Rightarrow> nat \<Rightarrow> PrivateFileKind \<Rightarrow> ('w, JblError, string option) fallible" where
  "read_private_file_if_present os path limit kind w =
     (case open_private os path w of
        (Inl e, w) \<Rightarrow> (open_error kind e, w)
      | (Inr file, w) \<Rightarrow>
          try_bind (validate_metadata os file kind limit) (\<lambda>_.
          try_bind (lift_result (if limit + 1 < 2 ^ 64 then Inr (limit + 1) else Inl (too_large kind))) (\<lambda>read_limit.
          try_bind (with_err (\<lambda>_. invalid kind) (fo_read_up_to os file read_limit)) (\<lambda>payload.
            lift_result (if limit < length payload then Inl (too_large kind) else Inr (Some payload))))) w)"

definition read_private_file ::
  "'w file_os \<Rightarrow> string \<Rightarrow> nat \<Rightarrow> PrivateFileKind \<Rightarrow> ('w, JblError, string) fallible" where
  "read_private_file os path limit kind =
     try_bind (read_private_file_if_present os path limit kind) (\<lambda>payload.
       lift_result (ok_or (unavailable kind) payload))"

text \<open>The three ways a read ends: with bytes, without a file, refused.\<close>

lemma open_private_Inr:
  "open_private os path w = (Inr fd, w1) \<longleftrightarrow> CHR 0x00 \<notin> set path \<and> fo_openat2_no_symlinks os path w = (Inr fd, w1)"
  by (auto simp: open_private_def try_bind_def lift_result_def c_string_def with_err_Inr)

lemma open_private_Inl:
  "open_private os path w = (Inl e, w1) \<longleftrightarrow> (CHR 0x00 \<in> set path \<and> e = OpenPrivateError.Other \<and> w1 = w \<or>
     CHR 0x00 \<notin> set path \<and> (\<exists>n. fo_openat2_no_symlinks os path w = (Inl n, w1) \<and> e = classify_linux_open_error n))"
  by (cases "fo_openat2_no_symlinks os path w")
    (auto simp: open_private_def try_bind_def lift_result_def c_string_def with_err_def map_err_Inl)

lemma open_error_missing: "open_error kind e = Inr x \<longleftrightarrow> e = OpenPrivateError.Missing \<and> x = None"
  by (cases e) auto

lemma classified_missing: "classify_linux_open_error n = OpenPrivateError.Missing \<longleftrightarrow> n = errno.ENOENT"
  by (cases n) simp_all

lemma private_read_payload:
  assumes "read_private_file_if_present os path limit kind w = (Inr (Some payload), w')"
  shows "\<exists>fd w1 m w2. fo_openat2_no_symlinks os path w = (Inr fd, w1) \<and> fo_fstat os fd w1 = (Inr m, w2) \<and>
    private_object S_IFREG (fo_geteuid os w2) m \<and> st_size m \<le> limit \<and>
    fo_read_up_to os fd (limit + 1) w2 = (Inr payload, w') \<and> length payload \<le> limit"
proof -
  obtain fd w1 where "open_private os path w = (Inr fd, w1)"
    using assms unfolding read_private_file_if_present_def
    by (cases "open_private os path w") (auto simp: open_error_missing split: sum.splits)
  with assms show ?thesis
    by (auto simp: open_private_Inr read_private_file_if_present_def try_bind_Inr validate_metadata_def with_err_Inr
        lift_result_def private_object_def split: if_splits)
qed

lemma private_read_missing:
  assumes "read_private_file_if_present os path limit kind w = (r, w')"
  shows "r = Inr None \<longleftrightarrow> CHR 0x00 \<notin> set path \<and> fo_openat2_no_symlinks os path w = (Inl errno.ENOENT, w')"
proof (cases "open_private os path w")
  case (Pair o' w1)
  show ?thesis
  proof (cases o')
    case (Inl e)
    then have "r = open_error kind e" "w' = w1"
      using assms Pair by (simp_all add: read_private_file_if_present_def)
    then show ?thesis
      using Pair Inl open_error_missing [of kind e None] by (auto simp: open_private_Inl classified_missing)
  next
    case (Inr fd)
    then have "r \<noteq> Inr None"
      using assms Pair by (auto simp: read_private_file_if_present_def try_bind_Inr lift_result_def split: if_splits)
    then show ?thesis
      using Pair Inr by (auto simp: open_private_Inr)
  qed
qed

lemma private_read_refused:
  assumes "read_private_file_if_present os path limit kind w = (r, w')" and "CHR 0x00 \<notin> set path"
  shows "case fo_openat2_no_symlinks os path w of
      (Inl e, w1) \<Rightarrow>
        (e = errno.ELOOP \<longrightarrow> r = Inl (invalid kind)) \<and> (e = errno.EACCES \<longrightarrow> r = Inl (permissions kind)) \<and>
        (e \<notin> {errno.ENOENT, errno.ELOOP, errno.EACCES} \<longrightarrow> r = Inl (unavailable kind))
    | (Inr fd, w1) \<Rightarrow>
        (case fo_fstat os fd w1 of
           (Inl _, _) \<Rightarrow> r = Inl (invalid kind)
         | (Inr m, w2) \<Rightarrow>
             if st_mode m AND S_IFMT \<noteq> S_IFREG then r = Inl (invalid kind)
             else if limit < st_size m then r = Inl (too_large kind)
             else st_uid m \<noteq> fo_geteuid os w2 \<or> st_mode m AND 0x3F \<noteq> 0 \<longrightarrow> r = Inl (permissions kind))"
proof (cases "fo_openat2_no_symlinks os path w")
  case (Pair o' w1)
  show ?thesis
  proof (cases o')
    case (Inl e)
    then have "open_private os path w = (Inl (classify_linux_open_error e), w1)"
      using Pair assms(2) by (simp add: open_private_Inl)
    then have "r = open_error kind (classify_linux_open_error e)"
      using assms(1) by (simp add: read_private_file_if_present_def)
    then show ?thesis
      using Pair Inl by (cases e) simp_all
  next
    case (Inr fd)
    then have o: "open_private os path w = (Inr fd, w1)"
      using Pair assms(2) by (simp add: open_private_Inr)
    obtain m w2 where m: "fo_fstat os fd w1 = (m, w2)"
      by fastforce
    show ?thesis
      using assms(1) Pair Inr o m
      by (cases m) (auto simp: read_private_file_if_present_def try_bind_def validate_metadata_def with_err_def lift_result_def
          split: if_splits)
  qed
qed

text \<open>
  C28: a private file is only read when it is private. A read that hands out bytes opened the file without
  following a link, found through the same descriptor a regular file of this user that nobody else may
  touch and that is no longer than the limit, and hands out no more bytes than the limit. Nothing is read,
  without an error, only when the system says that the file is missing. A path with a link in it and anything but
  a regular file are refused as invalid, a file that may not be opened, that another user owns or that
  others may touch as one with wrong permissions, and a longer file as too large.
\<close>

theorem private_read_is_trusted:
  assumes "read_private_file_if_present os path limit kind w = (r, w')"
  shows "(\<forall>payload. r = Inr (Some payload) \<longrightarrow>
      (\<exists>fd w1 m w2. fo_openat2_no_symlinks os path w = (Inr fd, w1) \<and> fo_fstat os fd w1 = (Inr m, w2) \<and>
        private_object S_IFREG (fo_geteuid os w2) m \<and> st_size m \<le> limit \<and>
        fo_read_up_to os fd (limit + 1) w2 = (Inr payload, w') \<and> length payload \<le> limit)) \<and>
    (r = Inr None \<longleftrightarrow> CHR 0x00 \<notin> set path \<and> fo_openat2_no_symlinks os path w = (Inl errno.ENOENT, w')) \<and>
    (CHR 0x00 \<notin> set path \<longrightarrow>
      (case fo_openat2_no_symlinks os path w of
         (Inl e, w1) \<Rightarrow>
           (e = errno.ELOOP \<longrightarrow> r = Inl (invalid kind)) \<and> (e = errno.EACCES \<longrightarrow> r = Inl (permissions kind)) \<and>
           (e \<notin> {errno.ENOENT, errno.ELOOP, errno.EACCES} \<longrightarrow> r = Inl (unavailable kind))
       | (Inr fd, w1) \<Rightarrow>
           (case fo_fstat os fd w1 of
              (Inl _, _) \<Rightarrow> r = Inl (invalid kind)
            | (Inr m, w2) \<Rightarrow>
                if st_mode m AND S_IFMT \<noteq> S_IFREG then r = Inl (invalid kind)
                else if limit < st_size m then r = Inl (too_large kind)
                else st_uid m \<noteq> fo_geteuid os w2 \<or> st_mode m AND 0x3F \<noteq> 0 \<longrightarrow> r = Inl (permissions kind))))"
  using private_read_payload [of os path limit kind w] private_read_missing [OF assms] private_read_refused [OF assms] assms
  by blast
definition example_file_os :: "nat \<Rightarrow> unit file_os" where
  "example_file_os n =
     \<lparr>fo_geteuid = (\<lambda>_. 1000), fo_openat2_no_symlinks = (\<lambda>_ w. (Inr 3, w)),
      fo_fstat = (\<lambda>_ w. (Inr \<lparr>st_uid = 1000, st_mode = 0x8180, st_size = n, st_nlink = 1\<rparr>, w)),
      fo_read_up_to = (\<lambda>_ k w. (Inr (take k ''AURA''), w))\<rparr>"

theorem private_read_is_trusted_witness:
  "\<exists>m. private_object S_IFREG 1000 m \<and> st_size m \<le> 16 \<and>
     fo_fstat (example_file_os 4) 3 () = (Inr m, ()) \<and>
     fo_read_up_to (example_file_os 4) 3 17 () = (Inr ''AURA'', ())"
proof -
  have "read_private_file_if_present (example_file_os 4) ''/c'' 16 PrivateFileKind.Config () = (Inr (Some ''AURA''), ())"
    by (simp add: read_private_file_if_present_def open_private_def c_string_def example_file_os_def try_bind_def
        lift_result_def with_err_def validate_metadata_def S_IFMT_def S_IFREG_def)
  from private_read_is_trusted [OF this] show ?thesis
    by (auto simp: example_file_os_def)
qed

end
