(* ===== verification/Config_Load.thy ===== *)
theory Config_Load
  imports Config Private_File Http_Text
begin

text \<open>
  Reading and installing the private configuration (\<open>rust/src/config.rs\<close>, as compiled for Unix). The process
  environment is the record \<open>process_env\<close>, the calls that install the file are the record \<open>install_os\<close>.
  \<open>Path::parent\<close> and \<open>str::lines\<close> of the standard library are written out first.
\<close>

subsection \<open>Lines and paths\<close>

definition strip_cr :: "string \<Rightarrow> string" where
  "strip_cr l = (case strip_suffix l [CHR 0x0D] of Some l \<Rightarrow> l | None \<Rightarrow> l)"

text \<open>\<open>str::lines\<close>: only a line that its line feed ends also loses a carriage return.\<close>

definition str_lines :: "string \<Rightarrow> string list" where
  "str_lines s =
     (let ps = split_char (CHR 0x0A) s
      in map strip_cr (butlast ps) @ (if last ps = [] then [] else [last ps]))"

text \<open>The last component of the part of a path that follows its root, and what is before its separator.\<close>

definition last_component :: "string \<Rightarrow> string \<times> string" where
  "last_component body = (case rsplit_once (CHR ''/'') body of None \<Rightarrow> ([], body) | Some ac \<Rightarrow> ac)"

lemma last_component_shorter: "body \<noteq> [] \<Longrightarrow> last_component body = (rest, c) \<Longrightarrow> c = [] \<or> c = ''.'' \<Longrightarrow> length rest < length body"
proof -
  assume "body \<noteq> []" "last_component body = (rest, c)" "c = [] \<or> c = ''.''"
  moreover have "length a < length body" if r: "rsplit_once (CHR ''/'') body = Some (a, b)" for a b
  proof -
    obtain x y where s: "split_once (CHR ''/'') (rev body) = Some (x, y)" "a = rev y"
      using r by (auto simp: rsplit_once_def)
    then have "length (rev body) = length x + 1 + length y"
      by (simp add: split_once_Some)
    with s(2) show ?thesis
      by simp
  qed
  ultimately show ?thesis
    by (auto simp: last_component_def split: option.splits)
qed

function trim_components :: "string \<Rightarrow> string" where
  "trim_components body =
     (if body = [] then []
      else let (rest, c) = last_component body
           in if c = [] \<or> c = ''.'' then trim_components rest else body)"
  by pat_completeness auto
termination
  by (relation "measure length") (auto intro: last_component_shorter [OF _ sym])

declare trim_components.simps [simp del]

definition path_parent :: "string \<Rightarrow> string option" where
  "path_parent p =
     (let root = starts_with p ''/'';
          cur_dir = (p = ''.'' \<or> starts_with p ''./'');
          n = (if root \<or> cur_dir then 1 else 0);
          body = trim_components (drop n p)
      in if body = [] then (if cur_dir then Some [] else None)
         else Some (take n p @ trim_components (fst (last_component body))))"

subsection \<open>Sources and values\<close>

definition MAX_CONFIG_BYTES :: nat where "MAX_CONFIG_BYTES = 65536"
definition DEFAULT_GENA_CALLBACK_PORT :: "16 word" where "DEFAULT_GENA_CALLBACK_PORT = 8098"
definition DEFAULT_BROADCAST_CONFIRMATION :: BroadcastConfirmation where
  "DEFAULT_BROADCAST_CONFIRMATION = BroadcastConfirmation.Ack"

definition ALLOWED_KEYS :: "string list" where
  "ALLOWED_KEYS =
     [''JBL_IP'', ''JBL_LOCAL_API_CERT'', ''JBL_LOCAL_API_KEY'', ''JBL_LOCAL_API_TLS_SHA256'',
      ''JBL_LOCAL_API_TIMEOUT'', ''JBL_GENA_CALLBACK_PORT'', ''JBL_BROADCAST_CONFIRMATION'', ''JBL_BT_MAC'',
      ''JBL_EXPECTED_MODEL'', ''AURA_BT_MAC'']"

datatype ConfigSource = Required string | OptionalDefault string | NoSource

fun source_path :: "ConfigSource \<Rightarrow> string option" where
  "source_path (ConfigSource.Required path) = Some path"
| "source_path (ConfigSource.OptionalDefault path) = Some path"
| "source_path ConfigSource.NoSource = None"

record process_env =
  pe_var_os :: "string \<Rightarrow> string option"
  pe_current_dir :: "(io_error, string) result"

definition nonempty_var :: "process_env \<Rightarrow> string \<Rightarrow> string option" where
  "nonempty_var env key = (case pe_var_os env key of Some [] \<Rightarrow> None | v \<Rightarrow> v)"

definition automatic_config_path :: "process_env \<Rightarrow> string option" where
  "automatic_config_path env =
     (case nonempty_var env ''XDG_CONFIG_HOME'' of
        Some root \<Rightarrow> Some (path_join (path_join root ''jbl-aura-link-rust'') ''devices.env'')
      | None \<Rightarrow>
          map_option (\<lambda>root. path_join (path_join (path_join root ''.config'') ''jbl-aura-link-rust'') ''devices.env'')
            (nonempty_var env ''HOME''))"

fun select_config_source :: "string option \<Rightarrow> string option \<Rightarrow> string option \<Rightarrow> ConfigSource" where
  "select_config_source (Some path) _ _ = ConfigSource.Required path"
| "select_config_source None (Some path) _ = ConfigSource.Required path"
| "select_config_source None None (Some path) = ConfigSource.OptionalDefault path"
| "select_config_source None None None = ConfigSource.NoSource"

type_synonym settings = "string \<rightharpoonup> string"

text \<open>One pair of matching quotes around a value is dropped.\<close>

definition unquoted :: "string \<Rightarrow> string" where
  "unquoted v =
     (if 2 \<le> length v \<and> (hd v = CHR 0x27 \<and> last v = CHR 0x27 \<or> hd v = CHR 0x22 \<and> last v = CHR 0x22)
      then butlast (tl v) else v)"

fun parse_config_lines :: "string list \<Rightarrow> settings \<Rightarrow> (JblError, settings) result" where
  "parse_config_lines [] values = Inr values"
| "parse_config_lines (raw_line # ls) values =
     (let line = trim raw_line
      in if line = [] \<or> starts_with line ''#'' then parse_config_lines ls values
         else case split_once (CHR ''='') line of
           None \<Rightarrow> Inl JblError.InvalidConfig
         | Some (raw_key, raw_value) \<Rightarrow>
             let key = trim raw_key
             in if key \<notin> set ALLOWED_KEYS then parse_config_lines ls values
                else if values key \<noteq> None then Inl JblError.InvalidConfig
                else parse_config_lines ls (values(key \<mapsto> unquoted (trim raw_value))))"

definition parse_config_text :: "string \<Rightarrow> (JblError, settings) result" where
  "parse_config_text config = parse_config_lines (str_lines config) Map.empty"

definition resolve_path :: "process_env \<Rightarrow> string \<Rightarrow> string option \<Rightarrow> (JblError, string) result" where
  "resolve_path env path config_path =
     (if is_absolute path then Inr path
      else case Option.bind config_path path_parent of
        Some dir \<Rightarrow> Inr (path_join dir path)
      | None \<Rightarrow>
          (case pe_current_dir env of
             Inr dir \<Rightarrow> Inr (path_join dir path)
           | Inl _ \<Rightarrow> Inl JblError.InvalidConfig))"

definition required :: "settings \<Rightarrow> string \<Rightarrow> (JblError, string) result" where
  "required values key =
     (case map_option trim (values key) of
        None \<Rightarrow> Inl (JblError.MissingSetting key)
      | Some v \<Rightarrow> if v = [] then Inl (JblError.MissingSetting key) else Inr v)"

fun overrides_from :: "process_env \<Rightarrow> string list \<Rightarrow> settings \<Rightarrow> (JblError, settings) result" where
  "overrides_from env [] values = Inr values"
| "overrides_from env (key # keys) values =
     (case pe_var_os env key of
        None \<Rightarrow> overrides_from env keys values
      | Some v \<Rightarrow>
          if utf8_valid v then overrides_from env keys (values(key \<mapsto> v)) else Inl JblError.InvalidConfig)"

definition environment_overrides :: "process_env \<Rightarrow> (JblError, settings) result" where
  "environment_overrides env = overrides_from env ALLOWED_KEYS Map.empty"

definition config_values :: "'w file_os \<Rightarrow> ConfigSource \<Rightarrow> ('w, JblError, settings) fallible" where
  "config_values os source =
     try_bind
       (case source of
          ConfigSource.Required path \<Rightarrow>
            try_bind (read_private_file os path MAX_CONFIG_BYTES PrivateFileKind.Config) (\<lambda>p. lift_result (Inr (Some p)))
        | ConfigSource.OptionalDefault path \<Rightarrow>
            read_private_file_if_present os path MAX_CONFIG_BYTES PrivateFileKind.Config
        | ConfigSource.NoSource \<Rightarrow> lift_result (Inr None))
       (\<lambda>payload. lift_result
          (case payload of
             None \<Rightarrow> Inr Map.empty
           | Some bytes \<Rightarrow> if utf8_valid bytes then parse_config_text bytes else Inl JblError.InvalidConfig))"

subsection \<open>Loading\<close>

definition timeout_setting :: "settings \<Rightarrow> (JblError, nat) result" where
  "timeout_setting values =
     (case parse_unsigned (2 ^ 64 - 1) (case values ''JBL_LOCAL_API_TIMEOUT'' of Some v \<Rightarrow> v | None \<Rightarrow> ''5'') of
        Some n \<Rightarrow> if 1 \<le> n \<and> n \<le> 30 then Inr n else Inl JblError.InvalidTimeout
      | None \<Rightarrow> Inl JblError.InvalidTimeout)"

definition port_setting :: "settings \<Rightarrow> (JblError, 16 word) result" where
  "port_setting values =
     (case values ''JBL_GENA_CALLBACK_PORT'' of
        None \<Rightarrow> Inr DEFAULT_GENA_CALLBACK_PORT
      | Some v \<Rightarrow>
          (case parse_unsigned 65535 v of
             Some n \<Rightarrow> if 1024 \<le> n then Inr (of_nat n) else Inl JblError.InvalidConfig
           | None \<Rightarrow> Inl JblError.InvalidConfig))"

definition confirmation_setting :: "settings \<Rightarrow> (JblError, BroadcastConfirmation) result" where
  "confirmation_setting values =
     (case values ''JBL_BROADCAST_CONFIRMATION'' of
        None \<Rightarrow> Inr DEFAULT_BROADCAST_CONFIRMATION
      | Some v \<Rightarrow>
          if v = ''ack'' then Inr BroadcastConfirmation.Ack
          else if v = ''gena'' then Inr BroadcastConfirmation.Gena
          else Inl JblError.InvalidConfig)"

definition identity_setting :: "settings \<Rightarrow> string \<Rightarrow> (JblError, DeviceIdentity) result" where
  "identity_setting values key = and_then (required values key) (\<lambda>v. ok_or JblError.InvalidConfig (Model.parse v))"

definition config_from_values ::
  "process_env \<Rightarrow> string option \<Rightarrow> settings \<Rightarrow> (JblError, RuntimeConfig) result" where
  "config_from_values env path values =
     and_then (required values ''JBL_LOCAL_API_CERT'') (\<lambda>certificate_value.
     and_then (required values ''JBL_LOCAL_API_KEY'') (\<lambda>private_key_value.
     and_then (timeout_setting values) (\<lambda>timeout_seconds.
     and_then (port_setting values) (\<lambda>gena_callback_port.
     and_then (confirmation_setting values) (\<lambda>broadcast_confirmation.
     and_then (identity_setting values ''JBL_BT_MAC'') (\<lambda>jbl_identity.
     and_then (identity_setting values ''AURA_BT_MAC'') (\<lambda>aura_identity.
       if jbl_identity = aura_identity then Inl JblError.InvalidConfig
       else
         and_then (required values ''JBL_IP'') (\<lambda>address.
         and_then (resolve_path env certificate_value path) (\<lambda>certificate.
         and_then (resolve_path env private_key_value path) (\<lambda>private_key.
         and_then (required values ''JBL_LOCAL_API_TLS_SHA256'') (\<lambda>tls_sha256.
           Inr \<lparr>rc_address = address, rc_certificate = certificate, rc_private_key = private_key,
                rc_tls_sha256 = tls_sha256, rc_jbl_identity = jbl_identity,
                rc_expected_model =
                  (case values ''JBL_EXPECTED_MODEL'' of Some m \<Rightarrow> m | None \<Rightarrow> ''JBL Authentics 300''),
                rc_aura_identity = aura_identity, rc_timeout = from_secs timeout_seconds,
                rc_gena_callback_port = gena_callback_port,
                rc_broadcast_confirmation = broadcast_confirmation\<rparr>)))))))))))"

definition load_from_source ::
  "'w file_os \<Rightarrow> process_env \<Rightarrow> ConfigSource \<Rightarrow> settings \<Rightarrow> ('w, JblError, RuntimeConfig) fallible" where
  "load_from_source os env source overrides =
     try_bind (config_values os source) (\<lambda>values.
       lift_result (config_from_values env (source_path source) (values ++ overrides)))"

definition load :: "'w file_os \<Rightarrow> process_env \<Rightarrow> string option \<Rightarrow> ('w, JblError, RuntimeConfig) fallible" where
  "load os env explicit_path =
     try_bind (lift_result (environment_overrides env)) (\<lambda>overrides.
       load_from_source os env
         (select_config_source explicit_path (pe_var_os env ''JBL_AURA_CONFIG'') (automatic_config_path env))
         overrides)"

subsection \<open>Installing\<close>

definition safe_config_value :: "string \<Rightarrow> bool" where
  "safe_config_value v \<longleftrightarrow>
     \<not> (v = [] \<or> set v \<inter> {CHR 0x00, CHR 0x0A, CHR 0x0D} \<noteq> {}
        \<or> hd v \<in> {CHR 0x27, CHR 0x22} \<or> last v \<in> {CHR 0x27, CHR 0x22})"

fun confirmation_name :: "BroadcastConfirmation \<Rightarrow> string" where
  "confirmation_name BroadcastConfirmation.Ack = ''ack''"
| "confirmation_name BroadcastConfirmation.Gena = ''gena''"

definition config_entries :: "RuntimeConfig \<Rightarrow> (string \<times> string) list" where
  "config_entries config =
     [(''JBL_IP'', rc_address config),
      (''JBL_EXPECTED_MODEL'', rc_expected_model config),
      (''JBL_BT_MAC'', compact_config_value (rc_jbl_identity config)),
      (''AURA_BT_MAC'', compact_config_value (rc_aura_identity config)),
      (''JBL_LOCAL_API_CERT'', rc_certificate config),
      (''JBL_LOCAL_API_KEY'', rc_private_key config),
      (''JBL_LOCAL_API_TLS_SHA256'', rc_tls_sha256 config),
      (''JBL_LOCAL_API_TIMEOUT'', show_nat (rc_timeout config div 1000000000)),
      (''JBL_GENA_CALLBACK_PORT'', show_nat (unat (rc_gena_callback_port config))),
      (''JBL_BROADCAST_CONFIRMATION'', confirmation_name (rc_broadcast_confirmation config))]"

definition config_payload :: "RuntimeConfig \<Rightarrow> string" where
  "config_payload config = concat (map (\<lambda>(k, v). k @ ''='' @ v @ [CHR 0x0A]) (config_entries config))"

text \<open>Every value the installer writes is checked, the paths for being UTF-8 too.\<close>

definition config_is_writable :: "RuntimeConfig \<Rightarrow> bool" where
  "config_is_writable config \<longleftrightarrow>
     utf8_valid (rc_certificate config) \<and> safe_config_value (rc_certificate config)
     \<and> utf8_valid (rc_private_key config) \<and> safe_config_value (rc_private_key config)
     \<and> list_all safe_config_value [rc_address config, rc_tls_sha256 config, rc_expected_model config]"

record 'w install_os =
  io_geteuid :: "'w \<Rightarrow> nat"
  io_create_dir_all :: "string \<Rightarrow> 32 word \<Rightarrow> ('w, errno, unit) fallible"
  io_symlink_metadata :: "string \<Rightarrow> ('w, errno, stat) fallible"
  io_rand_bytes :: "nat \<Rightarrow> ('w, unit, 8 word list) fallible"
  io_create_new :: "string \<Rightarrow> 32 word \<Rightarrow> ('w, errno, nat) fallible"
  io_write_all :: "nat \<Rightarrow> string \<Rightarrow> ('w, errno, unit) fallible"
  io_sync_all :: "nat \<Rightarrow> ('w, errno, unit) fallible"
  io_close :: "nat \<Rightarrow> 'w \<Rightarrow> 'w"
  io_rename :: "string \<Rightarrow> string \<Rightarrow> ('w, errno, unit) fallible"
  io_open_directory :: "string \<Rightarrow> ('w, errno, nat) fallible"
  io_remove_file :: "string \<Rightarrow> ('w, errno, unit) fallible"

text \<open>A descriptor is closed when its block ends, whatever the block returns.\<close>

definition closing :: "'w install_os \<Rightarrow> nat \<Rightarrow> ('w, 'e, 'a) fallible \<Rightarrow> ('w, 'e, 'a) fallible" where
  "closing os fd m w = apsnd (io_close os fd) (m w)"

abbreviation or_unavailable :: "('w, 'e, 'a) fallible \<Rightarrow> ('w, JblError, 'a) fallible" where
  "or_unavailable \<equiv> with_err (\<lambda>_. JblError.ConfigUnavailable)"

definition check_parent :: "'w install_os \<Rightarrow> string \<Rightarrow> ('w, JblError, unit) fallible" where
  "check_parent os parent =
     try_bind (or_unavailable (io_symlink_metadata os parent)) (\<lambda>m w.
       (if st_mode m AND S_IFMT \<noteq> S_IFDIR \<or> st_uid m \<noteq> io_geteuid os w \<or> st_mode m AND 0x1FF \<noteq> 0x1C0
        then Inl JblError.ConfigPermissions else Inr (), w))"

definition check_destination :: "'w install_os \<Rightarrow> string \<Rightarrow> ('w, JblError, unit) fallible" where
  "check_destination os path w =
     (case io_symlink_metadata os path w of
        (Inr m, w) \<Rightarrow>
          (if st_mode m AND S_IFMT = S_IFREG \<and> st_uid m = io_geteuid os w \<and> st_mode m AND 0x1FF = 0x180
              \<and> st_nlink m = 1
           then Inr () else Inl JblError.ConfigPermissions, w)
      | (Inl errno.ENOENT, w) \<Rightarrow> (Inr (), w)
      | (Inl _, w) \<Rightarrow> (Inl JblError.ConfigUnavailable, w))"

definition temporary_config :: "string \<Rightarrow> 8 word list \<Rightarrow> string" where
  "temporary_config parent random =
     path_join parent (''.devices.'' @ concat (map hex2_lower random) @ ''.tmp'')"

definition write_and_publish ::
  "'w install_os \<Rightarrow> nat \<Rightarrow> string \<Rightarrow> string \<Rightarrow> string \<Rightarrow> string \<Rightarrow> ('w, JblError, unit) fallible" where
  "write_and_publish os file temporary path parent payload =
     try_bind (closing os file (
       try_bind (or_unavailable (io_write_all os file payload)) (\<lambda>_.
         or_unavailable (io_sync_all os file)))) (\<lambda>_.
     try_bind (or_unavailable (io_rename os temporary path)) (\<lambda>_.
     try_bind (or_unavailable (io_open_directory os parent)) (\<lambda>directory.
       closing os directory (or_unavailable (io_sync_all os directory)))))"

text \<open>Everything before the temporary file exists; the random bytes that name it.\<close>

definition prepare_install ::
  "'w install_os \<Rightarrow> string \<Rightarrow> string \<Rightarrow> RuntimeConfig \<Rightarrow> ('w, JblError, 8 word list) fallible" where
  "prepare_install os parent path config =
     try_bind (or_unavailable (io_create_dir_all os parent 0x1C0)) (\<lambda>_.
     try_bind (check_parent os parent) (\<lambda>_.
     try_bind (check_destination os path) (\<lambda>_.
     try_bind (lift_result (if config_is_writable config then Inr () else Inl JblError.InvalidConfig)) (\<lambda>_.
       or_unavailable (io_rand_bytes os 8)))))"

definition install_private_config ::
  "'w install_os \<Rightarrow> string \<Rightarrow> RuntimeConfig \<Rightarrow> ('w, JblError, unit) fallible" where
  "install_private_config os path config =
     try_bind (lift_result (ok_or JblError.InvalidConfig (path_parent path))) (\<lambda>parent.
     try_bind (prepare_install os parent path config) (\<lambda>random.
       let temporary = temporary_config parent random
       in try_bind (or_unavailable (io_create_new os temporary 0x180)) (\<lambda>file w.
            case write_and_publish os file temporary path parent (config_payload config) w of
              (Inl e, w) \<Rightarrow> (Inl e, snd (io_remove_file os temporary w))
            | (Inr _, w) \<Rightarrow> (Inr (), w))))"

fun require_all :: "settings \<Rightarrow> string list \<Rightarrow> (JblError, unit) result" where
  "require_all values [] = Inr ()"
| "require_all values (key # keys) = and_then (required values key) (\<lambda>_. require_all values keys)"

definition install_private_default_from_environment ::
  "'w install_os \<Rightarrow> 'w file_os \<Rightarrow> process_env \<Rightarrow> ('w, JblError, unit) fallible" where
  "install_private_default_from_environment os files env =
     try_bind (lift_result (environment_overrides env)) (\<lambda>overrides.
     try_bind (lift_result (require_all overrides
       [''JBL_IP'', ''JBL_LOCAL_API_CERT'', ''JBL_LOCAL_API_KEY'', ''JBL_LOCAL_API_TLS_SHA256'', ''JBL_BT_MAC'',
        ''AURA_BT_MAC''])) (\<lambda>_.
     try_bind (load_from_source files env ConfigSource.NoSource overrides) (\<lambda>config.
     try_bind (lift_result (ok_or JblError.ConfigUnavailable (automatic_config_path env))) (\<lambda>path.
       install_private_config os path config))))"

end
