(* ===== verification/Web_Page.thy ===== *)
theory Web_Page
  imports Text
begin

text \<open>
  The page the web service embeds (\<open>PAGE_HTML\<close> of \<open>rust/src/web.rs\<close>), line by line as bytes, and
  \<open>str::replace\<close>, with which the service puts its nonce in.
\<close>

definition page_lines :: "string list" where
  \<open>page_lines =
    [''<!doctype html>'',
     ''<html lang="zh-CN">'',
     ''<head><meta charset="utf-8"><meta name="viewport" content="width=device-width,initial-scale=1"><title>Play Together</title></head>'',
     ''<body>'',
     ''<main><h1>Play Together</h1>'',
     ''<p id="message">'' @ [CHR 0xE6, CHR 0xAD, CHR 0xA3, CHR 0xE5, CHR 0x9C, CHR 0xA8, CHR 0xE8, CHR 0xAF, CHR 0xBB, CHR 0xE5, CHR 0x8F, CHR 0x96, CHR 0xE2, CHR 0x80, CHR 0xA6] @ ''</p>'',
     ''<dl><dt>'' @ [CHR 0xE8, CHR 0xBF, CHR 0x90, CHR 0xE8, CHR 0xA1, CHR 0x8C, CHR 0xE7, CHR 0x8A, CHR 0xB6, CHR 0xE6, CHR 0x80, CHR 0x81] @ ''</dt><dd id="managed">'' @ [CHR 0xE2, CHR 0x80, CHR 0x94] @ ''</dd><dt>'' @ [CHR 0xE5, CHR 0x8F, CHR 0x8C, CHR 0xE6, CHR 0x88, CHR 0x90, CHR 0xE5, CHR 0x91, CHR 0x98, CHR 0xE9, CHR 0x85, CHR 0x8D, CHR 0xE7, CHR 0xBD, CHR 0xAE] @ ''</dt><dd id="pair">'' @ [CHR 0xE2, CHR 0x80, CHR 0x94] @ ''</dd><dt>'' @ [CHR 0xE5, CHR 0x90, CHR 0x8E, CHR 0xE7, CHR 0xAB, CHR 0xAF, CHR 0xE5, CHR 0x81, CHR 0xA5, CHR 0xE5, CHR 0xBA, CHR 0xB7] @ ''</dt><dd id="health">'' @ [CHR 0xE2, CHR 0x80, CHR 0x94] @ ''</dd><dt>Aura '' @ [CHR 0xE8, CHR 0x8E, CHR 0xB7, CHR 0xE5, CHR 0x8F, CHR 0x96, CHR 0xE8, CHR 0xB7, CHR 0xAF, CHR 0xE5, CHR 0xBE, CHR 0x84] @ ''</dt><dd id="route">'' @ [CHR 0xE2, CHR 0x80, CHR 0x94] @ ''</dd><dt>'' @ [CHR 0xE7, CHR 0x8A, CHR 0xB6, CHR 0xE6, CHR 0x80, CHR 0x81, CHR 0xE7, CHR 0x89, CHR 0x88, CHR 0xE6, CHR 0x9C, CHR 0xAC] @ ''</dt><dd id="revision">'' @ [CHR 0xE2, CHR 0x80, CHR 0x94] @ ''</dd></dl>'',
     ''<h2>'' @ [CHR 0xE6, CHR 0x88, CHR 0x90, CHR 0xE5, CHR 0x91, CHR 0x98] @ ''</h2><ul><li>JBL Authentics 300'' @ [CHR 0xEF, CHR 0xBC, CHR 0x9A] @ ''<span id="jbl">'' @ [CHR 0xE2, CHR 0x80, CHR 0x94] @ ''</span></li><li>Aura Studio 5'' @ [CHR 0xEF, CHR 0xBC, CHR 0x9A] @ ''<span id="aura">'' @ [CHR 0xE2, CHR 0x80, CHR 0x94] @ ''</span></li></ul>'',
     ''<h2>'' @ [CHR 0xE6, CHR 0x9C, CHR 0x80, CHR 0xE8, CHR 0xBF, CHR 0x91, CHR 0xE6, CHR 0x93, CHR 0x8D, CHR 0xE4, CHR 0xBD, CHR 0x9C] @ ''</h2><p id="last">'' @ [CHR 0xE6, CHR 0x9C, CHR 0xAC, CHR 0xE8, CHR 0xBF, CHR 0x9B, CHR 0xE7, CHR 0xA8, CHR 0x8B, CHR 0xE5, CHR 0xB0, CHR 0x9A, CHR 0xE6, CHR 0x97, CHR 0xA0, CHR 0xE6, CHR 0x93, CHR 0x8D, CHR 0xE4, CHR 0xBD, CHR 0x9C] @ ''</p>'',
     ''<button id="start" type="button">'' @ [CHR 0xE5, CHR 0x90, CHR 0xAF, CHR 0xE5, CHR 0x8A, CHR 0xA8] @ ''</button><button id="stop" type="button">'' @ [CHR 0xE5, CHR 0x81, CHR 0x9C, CHR 0xE6, CHR 0xAD, CHR 0xA2] @ ''</button></main>'',
     ''<script nonce="__CSP_NONCE__">'',
     ''"use strict";'',
     ''let revision = null;'',
     ''const byId=id=>document.getElementById(id);'',
     ''function csrf(){const item=document.cookie.split(";").map(v=>v.trim()).find(v=>v.startsWith("jbl_aura_csrf="));return item?item.slice("jbl_aura_csrf=".length):"";}'',
     ''function memberText(member){return member.verification+"'' @ [CHR 0xEF, CHR 0xBC, CHR 0x9B, CHR 0xE5, CHR 0xA3, CHR 0xB0, CHR 0xE9, CHR 0x81, CHR 0x93] @ '' "+member.channels.join(", ");}'',
     ''function render(data){revision=data.revision;byId("managed").textContent=data.managed_state;byId("pair").textContent=data.pair_configuration;byId("health").textContent=data.backend_health?data.backend_health.level+" / "+data.backend_health.lifecycle:"unavailable";byId("route").textContent=data.backend_health?data.backend_health.aura_acquisition_route:"unresolved";byId("revision").textContent=String(data.revision);const members=new Map(data.members.map(member=>[member.name,member]));byId("jbl").textContent=memberText(members.get("JBL Authentics 300"));byId("aura").textContent=memberText(members.get("Aura Studio 5"));const last=data.last_action;byId("last").textContent=last?last.action+" / "+last.outcome+" / evidence="+(last.evidence??"none")+" / failure="+(last.failure??"none")+" / revision="+last.revision+" / age_ms="+last.age_ms:"'' @ [CHR 0xE6, CHR 0x9C, CHR 0xAC, CHR 0xE8, CHR 0xBF, CHR 0x9B, CHR 0xE7, CHR 0xA8, CHR 0x8B, CHR 0xE5, CHR 0xB0, CHR 0x9A, CHR 0xE6, CHR 0x97, CHR 0xA0, CHR 0xE6, CHR 0x93, CHR 0x8D, CHR 0xE4, CHR 0xBD, CHR 0x9C] @ ''";byId("message").textContent=data.unresolved_action?"'' @ [CHR 0xE5, CHR 0xAD, CHR 0x98, CHR 0xE5, CHR 0x9C, CHR 0xA8, CHR 0xE6, CHR 0x9C, CHR 0xAA, CHR 0xE5, CHR 0x86, CHR 0xB3, CHR 0xE6, CHR 0x93, CHR 0x8D, CHR 0xE4, CHR 0xBD, CHR 0x9C, CHR 0xEF, CHR 0xBC, CHR 0x8C, CHR 0xE9, CHR 0x9C, CHR 0x80, CHR 0xE8, CHR 0xA6, CHR 0x81, CHR 0xE5, CHR 0x91, CHR 0xBD, CHR 0xE4, CHR 0xBB, CHR 0xA4, CHR 0xE8, CHR 0xA1, CHR 0x8C, CHR 0xE6, CHR 0x81, CHR 0xA2, CHR 0xE5, CHR 0xA4, CHR 0x8D] @ ''":"'' @ [CHR 0xE7, CHR 0x8A, CHR 0xB6, CHR 0xE6, CHR 0x80, CHR 0x81, CHR 0xE5, CHR 0xB7, CHR 0xB2, CHR 0xE6, CHR 0x9B, CHR 0xB4, CHR 0xE6, CHR 0x96, CHR 0xB0] @ ''";}'',
     ''async function refresh(){const response=await fetch("/api/status",{cache:"no-store"});render(await response.json());}'',
     ''async function mutate(action){if(revision===null){await refresh();}const response=await fetch("/api/"+action,{method:"POST",headers:{"Content-Type":"application/json","X-CSRF-Token":csrf(),"If-Match":"'' @ [CHR 0x5C] @ ''""+revision+"'' @ [CHR 0x5C] @ ''""},body:"{}"});if(response.status===409){await refresh();return;}await response.json();await refresh();}'',
     ''document.getElementById("start").addEventListener("click",()=>mutate("start"));'',
     ''document.getElementById("stop").addEventListener("click",()=>mutate("stop"));'',
     ''refresh().catch(()=>{byId("message").textContent="'' @ [CHR 0xE7, CHR 0x8A, CHR 0xB6, CHR 0xE6, CHR 0x80, CHR 0x81, CHR 0xE8, CHR 0xAF, CHR 0xBB, CHR 0xE5, CHR 0x8F, CHR 0x96, CHR 0xE5, CHR 0xA4, CHR 0xB1, CHR 0xE8, CHR 0xB4, CHR 0xA5] @ ''";});'',
     ''</script>'',
     ''</body></html>'']\<close>

fun join_lines :: "string list \<Rightarrow> string" where
  "join_lines [] = []"
| "join_lines [l] = l"
| "join_lines (l # m # ls) = l @ [CHR 0x0A] @ join_lines (m # ls)"

text \<open>Left to right, without overlap; the patterns of the sources are not empty.\<close>

function str_replace :: "string \<Rightarrow> string \<Rightarrow> string \<Rightarrow> string" where
  "str_replace [] from to = []"
| "str_replace (c # s) from to =
     (if from \<noteq> [] \<and> starts_with (c # s) from
      then to @ str_replace (drop (length from) (c # s)) from to
      else c # str_replace s from to)"
  by pat_completeness auto

termination
  by (relation "measure (\<lambda>(s, _, _). length s)") auto

definition PAGE_HTML :: string where
  "PAGE_HTML = join_lines page_lines"

text \<open>A replacement by a text of at most \<open>k\<close> times the length of the pattern grows a text at most \<open>k\<close> times.\<close>

lemma length_str_replace:
  assumes "length to \<le> k * length from" and "0 < k"
  shows "length (str_replace s from to) \<le> k * length s"
proof (induction s rule: length_induct)
  case (1 s)
  show ?case
  proof (cases s)
    case (Cons c cs)
    show ?thesis
    proof (cases "from \<noteq> [] \<and> starts_with s from")
      case True
      then have len: "length from \<le> length s" "0 < length from"
        by (auto simp: starts_with_def) (metis length_take min.cobounded1)
      then have "length s - length from < length s"
        by linarith
      then have "length (str_replace (drop (length from) s) from to) \<le> k * (length s - length from)"
        using 1 [rule_format, of "drop (length from) s"] by simp
      moreover have "k * (length s - length from) + k * length from = k * length s"
        using len by (simp add: diff_mult_distrib2)
      ultimately have "length to + length (str_replace (drop (length from) s) from to) \<le> k * length s"
        using assms by linarith
      then show ?thesis
        using True Cons by simp
    next
      case False
      have "length (str_replace cs from to) \<le> k * length cs"
        using 1 Cons by simp
      then show ?thesis
        using False Cons assms by auto
    qed
  qed simp
qed

end
