(* ===== verification/Web.thy ===== *)
theory Web
  imports Controller Model Net Web_Page Http_Text
begin

text \<open>
  The HTTP boundary of the service (\<open>rust/src/web.rs\<close>): framing and parsing of one request, the loopback
  authority and same-origin checks, the routes with the guards of a mutation, and the closed projections of
  the controller's results.

  The actor behind the boundary is the record of the \<open>WebActor\<close> trait over a state. The JSON library is two
  parameters: \<open>from_slice\<close> reads a tree from bytes, \<open>to_vec\<close> writes one.
\<close>

definition DEFAULT_WEB_PORT :: "16 word" where "DEFAULT_WEB_PORT = 8096"
definition MAX_HEADER_BYTES :: nat where "MAX_HEADER_BYTES = 16 * 1024"
definition MAX_HEADER_COUNT :: nat where "MAX_HEADER_COUNT = 64"
definition MAX_BODY_BYTES :: nat where "MAX_BODY_BYTES = 4 * 1024"
definition MAX_REQUEST_BYTES :: nat where "MAX_REQUEST_BYTES = MAX_HEADER_BYTES + 4 + MAX_BODY_BYTES"
definition CSRF_COOKIE :: string where "CSRF_COOKIE = ''jbl_aura_csrf''"
definition CSRF_HEADER :: string where "CSRF_HEADER = ''x-csrf-token''"

subsection \<open>The actor\<close>

datatype WebMutation = Start | Stop | RecoverStop

datatype RevisionConflict = RevisionConflict

record 'a WebActor =
  wa_status :: "'a \<Rightarrow> ControllerStatus \<times> 'a"
  wa_mutate_if_revision ::
    "64 word \<Rightarrow> WebMutation \<Rightarrow> ('a, RevisionConflict, ControllerActionResult) fallible"

subsection \<open>Security inputs\<close>

datatype WebConfigError = NonLoopbackBind | InvalidPort | InvalidCsrfToken

record WebSecurity =
  ws_bind_addr :: SocketAddr
  ws_csrf_token :: string

definition web_security_new :: "SocketAddr \<Rightarrow> 8 word list \<Rightarrow> (WebConfigError, WebSecurity) result" where
  "web_security_new bind_addr csrf_token =
     (if sa_ip bind_addr \<noteq> IpAddr.V4 LOCALHOST4 \<and> sa_ip bind_addr \<noteq> IpAddr.V6 LOCALHOST6
      then Inl WebConfigError.NonLoopbackBind
      else if sa_port bind_addr = 0 then Inl WebConfigError.InvalidPort
      else if list_all (\<lambda>b. b = 0) csrf_token then Inl WebConfigError.InvalidCsrfToken
      else Inr \<lparr>ws_bind_addr = bind_addr, ws_csrf_token = concat (map hex2_lower csrf_token)\<rparr>)"

definition web_security_loopback :: "8 word list \<Rightarrow> (WebConfigError, WebSecurity) result" where
  "web_security_loopback csrf_token =
     web_security_new \<lparr>sa_ip = IpAddr.V4 LOCALHOST4, sa_port = DEFAULT_WEB_PORT\<rparr> csrf_token"

definition port :: "WebSecurity \<Rightarrow> 16 word" where
  "port security = sa_port (ws_bind_addr security)"

subsection \<open>Responses\<close>

record HttpResponse =
  hr_status :: nat
  hr_headers :: "(string \<times> string) list"
  hr_body :: string

definition reason_phrase :: "nat \<Rightarrow> string" where
  "reason_phrase code =
     (if code = 200 then ''OK''
      else if code = 400 then ''Bad Request''
      else if code = 403 then ''Forbidden''
      else if code = 404 then ''Not Found''
      else if code = 405 then ''Method Not Allowed''
      else if code = 409 then ''Conflict''
      else if code = 411 then ''Length Required''
      else if code = 413 then ''Payload Too Large''
      else if code = 415 then ''Unsupported Media Type''
      else if code = 428 then ''Precondition Required''
      else if code = 505 then ''HTTP Version Not Supported''
      else ''Error'')"

definition to_http1_bytes :: "HttpResponse \<Rightarrow> string" where
  "to_http1_bytes r =
     ''HTTP/1.1 '' @ show_nat (hr_status r) @ '' '' @ reason_phrase (hr_status r) @ CRLF
     @ concat (map (\<lambda>(name, v). name @ '': '' @ v @ CRLF) (hr_headers r)) @ CRLF @ hr_body r"

definition csp :: "string option \<Rightarrow> string" where
  "csp csp_nonce =
     (case csp_nonce of
        Some nonce \<Rightarrow>
          ''default-src 'self'; script-src 'nonce-'' @ nonce @ [CHR 0x27]
          @ ''; connect-src 'self'; object-src 'none'; base-uri 'none'; form-action 'self'; frame-ancestors ''
          @ [CHR 0x27] @ ''none'' @ [CHR 0x27]
      | None \<Rightarrow>
          ''default-src 'self'; object-src 'none'; base-uri 'none'; form-action 'none'; frame-ancestors ''
          @ [CHR 0x27] @ ''none'' @ [CHR 0x27])"

definition response ::
  "nat \<Rightarrow> string \<Rightarrow> string \<Rightarrow> string option \<Rightarrow> (string \<times> string) list \<Rightarrow> HttpResponse" where
  "response code content_type body csp_nonce additional_headers =
     \<lparr>hr_status = code,
      hr_headers =
        [(''Content-Type'', content_type), (''Content-Length'', show_nat (length body)),
         (''Connection'', ''close''), (''Cache-Control'', ''no-store''), (''Pragma'', ''no-cache''),
         (''X-Content-Type-Options'', ''nosniff''), (''Referrer-Policy'', ''no-referrer''),
         (''Content-Security-Policy'', csp csp_nonce), (''X-Frame-Options'', ''DENY'')]
        @ additional_headers,
      hr_body = body\<rparr>"

definition quoted :: "string \<Rightarrow> string" where
  "quoted s = [CHR 0x22] @ s @ [CHR 0x22]"

definition json_response :: "(Value \<Rightarrow> string) \<Rightarrow> nat \<Rightarrow> Value \<Rightarrow> 64 word option \<Rightarrow> HttpResponse" where
  "json_response to_vec code body revision =
     response code ''application/json; charset=utf-8'' (to_vec body) None
       (case revision of None \<Rightarrow> [] | Some r \<Rightarrow> [(''ETag'', quoted (show_nat (unat r)))])"

datatype RequestError =
    BadRequest | ForbiddenHost | ForbiddenOrigin | CsrfRejected | NotFound | MethodNotAllowed
  | RevisionConflict | LengthRequired | PayloadTooLarge | UnsupportedMediaType | PreconditionRequired
  | InvalidJsonBody | HttpVersionNotSupported

fun error_status :: "RequestError \<Rightarrow> nat \<times> string" where
  "error_status RequestError.BadRequest = (400, ''bad_request'')"
| "error_status RequestError.InvalidJsonBody = (400, ''bad_request'')"
| "error_status RequestError.ForbiddenHost = (403, ''host_rejected'')"
| "error_status RequestError.ForbiddenOrigin = (403, ''origin_rejected'')"
| "error_status RequestError.CsrfRejected = (403, ''csrf_rejected'')"
| "error_status RequestError.NotFound = (404, ''not_found'')"
| "error_status RequestError.MethodNotAllowed = (405, ''method_not_allowed'')"
| "error_status RequestError.RevisionConflict = (409, ''revision_conflict'')"
| "error_status RequestError.LengthRequired = (411, ''length_required'')"
| "error_status RequestError.PayloadTooLarge = (413, ''payload_too_large'')"
| "error_status RequestError.UnsupportedMediaType = (415, ''unsupported_media_type'')"
| "error_status RequestError.PreconditionRequired = (428, ''revision_required'')"
| "error_status RequestError.HttpVersionNotSupported = (505, ''http_version_not_supported'')"

definition error_response :: "(Value \<Rightarrow> string) \<Rightarrow> RequestError \<Rightarrow> HttpResponse" where
  "error_response to_vec error =
     json_response to_vec (fst (error_status error))
       (JObject [(''error'', JString (snd (error_status error)))]) None"

subsection \<open>Requests\<close>

datatype MutationBody = EmptyObject | RecoverStopConfirmation

definition body_matches :: "(string \<Rightarrow> Value option) \<Rightarrow> MutationBody \<Rightarrow> string \<Rightarrow> bool" where
  "body_matches from_slice rule body =
     (case Option.bind (from_slice body) as_object of
        None \<Rightarrow> False
      | Some object \<Rightarrow>
          (case rule of
             MutationBody.EmptyObject \<Rightarrow> object = []
           | MutationBody.RecoverStopConfirmation \<Rightarrow>
               length object = 1
               \<and> Option.bind (map_of object ''confirm'') as_str = Some ''recover-stop''))"

datatype Method = Get | Post | Other

record ParsedRequest =
  pr_method :: Method
  pr_target :: string
  pr_headers :: "(string \<times> string) list"
  pr_body :: string
  pr_content_length :: "nat option"

definition single_header :: "ParsedRequest \<Rightarrow> string \<Rightarrow> string option" where
  "single_header request name = map_of (pr_headers request) name"

definition is_tchar :: "char \<Rightarrow> bool" where
  "is_tchar c \<longleftrightarrow> is_ascii_alphanumeric c \<or> c \<in> set ''!#$%&*+-.^_`|~'' \<or> byte c = 0x27"

definition printable :: "char \<Rightarrow> bool" where
  "printable c \<longleftrightarrow> 0x20 \<le> byte c \<and> byte c \<le> 0x7E"

abbreviation blanks :: "char set" where
  "blanks \<equiv> {CHR '' '', CHR 0x09}"

definition blank_start :: "string \<Rightarrow> bool" where
  "blank_start line \<longleftrightarrow> line \<noteq> [] \<and> hd line \<in> blanks"

definition parse_content_length :: "string \<Rightarrow> (RequestError, nat) result" where
  "parse_content_length v =
     (if \<not> canonical_digits v then Inl RequestError.BadRequest
      else ok_or RequestError.PayloadTooLarge (parse_unsigned (2 ^ 64 - 1) v))"

definition parse_strong_revision :: "string \<Rightarrow> 64 word option" where
  "parse_strong_revision v =
     Option.bind (strip_prefix v [CHR 0x22]) (\<lambda>rest.
     Option.bind (strip_suffix rest [CHR 0x22]) (\<lambda>digits.
       if \<not> canonical_digits digits then None
       else map_option of_nat (parse_unsigned (2 ^ 64 - 1) digits)))"

datatype RequestFrame = Incomplete | Complete | Rejected

text \<open>The header lines of a frame: the content length they give, or nothing when a line is refused.\<close>

fun frame_headers :: "string list \<Rightarrow> nat option \<Rightarrow> nat option option" where
  "frame_headers [] content_length = Some content_length"
| "frame_headers (line # lines) content_length =
     (if line = [] \<or> blank_start line then None
      else case split_once CHR '':'' line of
          None \<Rightarrow> None
        | Some (name, raw_value) \<Rightarrow>
            if name = [] \<or> \<not> list_all is_tchar name then None
            else
              let v = trim_matches blanks raw_value
              in if \<not> list_all printable v then None
                 else if eq_ignore_ascii_case name ''transfer-encoding'' then None
                 else if eq_ignore_ascii_case name ''content-length'' then
                   (if content_length \<noteq> None then None
                    else case parse_content_length v of
                        Inl _ \<Rightarrow> None
                      | Inr len \<Rightarrow>
                          if MAX_BODY_BYTES < len then None else frame_headers lines (Some len))
                 else frame_headers lines content_length)"

definition request_frame :: "string \<Rightarrow> RequestFrame" where
  "request_frame raw =
     (if MAX_REQUEST_BYTES < length raw then RequestFrame.Rejected
      else case find_subslice raw HEAD_END of
          None \<Rightarrow>
            (if MAX_HEADER_BYTES + 4 < length raw then RequestFrame.Rejected else RequestFrame.Incomplete)
        | Some head_end \<Rightarrow>
            if MAX_HEADER_BYTES < head_end then RequestFrame.Rejected
            else if \<not> utf8_valid (take head_end raw) then RequestFrame.Rejected
            else (case split_crlf (take head_end raw) of
                [] \<Rightarrow> RequestFrame.Rejected
              | request_line # lines \<Rightarrow>
                  (case split_char CHR '' '' request_line of
                     [method, _, _] \<Rightarrow>
                       (case frame_headers lines None of
                          None \<Rightarrow> RequestFrame.Rejected
                        | Some content_length \<Rightarrow>
                            if method = ''POST'' \<and> content_length = None then RequestFrame.Rejected
                            else
                              let expected = head_end + 4 + (case content_length of None \<Rightarrow> 0 | Some n \<Rightarrow> n)
                              in if MAX_REQUEST_BYTES < expected then RequestFrame.Rejected
                                 else if length raw < expected then RequestFrame.Incomplete
                                 else if length raw = expected then RequestFrame.Complete
                                 else RequestFrame.Rejected)
                   | _ \<Rightarrow> RequestFrame.Rejected)))"

definition head_byte :: "char \<Rightarrow> bool" where
  "head_byte c \<longleftrightarrow> c = CHR 0x09 \<or> printable c \<or> c = CHR 0x0D \<or> c = CHR 0x0A"

fun parse_header_lines ::
  "nat \<Rightarrow> string list \<Rightarrow> (string \<times> string) list \<Rightarrow> (RequestError, (string \<times> string) list) result" where
  "parse_header_lines count [] headers = Inr headers"
| "parse_header_lines count (line # lines) headers =
     (let count = Suc count
      in if MAX_HEADER_COUNT < count \<or> line = [] \<or> blank_start line then Inl RequestError.BadRequest
         else case split_once CHR '':'' line of
             None \<Rightarrow> Inl RequestError.BadRequest
           | Some (raw_name, raw_value) \<Rightarrow>
               if raw_name = [] \<or> \<not> list_all is_tchar raw_name then Inl RequestError.BadRequest
               else
                 let v = trim_matches blanks raw_value
                 in if \<not> list_all printable v then Inl RequestError.BadRequest
                    else
                      let name = to_ascii_lowercase raw_name
                      in if map_of headers name \<noteq> None then Inl RequestError.BadRequest
                         else parse_header_lines count lines ((name, v) # headers))"

definition method_of :: "string \<Rightarrow> Method" where
  "method_of method_text =
     (if method_text = ''GET'' then Method.Get else if method_text = ''POST'' then Method.Post
      else Method.Other)"

definition target_ok :: "string \<Rightarrow> bool" where
  "target_ok target \<longleftrightarrow>
     starts_with target ''/'' \<and> \<not> starts_with target ''//'' \<and> CHR ''?'' \<notin> set target
     \<and> CHR ''#'' \<notin> set target \<and> list_all (\<lambda>c. 0x21 \<le> byte c \<and> byte c \<le> 0x7E) target"

definition forbidden_headers :: "string list" where
  "forbidden_headers = [''transfer-encoding'', ''trailer'', ''upgrade'', ''proxy-connection'']"

definition header_content_length :: "(string \<times> string) list \<Rightarrow> (RequestError, nat option) result" where
  "header_content_length headers =
     (case map_of headers ''content-length'' of
        Some v \<Rightarrow> and_then (parse_content_length v) (\<lambda>n. Inr (Some n))
      | None \<Rightarrow> Inr None)"

definition check_body :: "Method \<Rightarrow> nat option \<Rightarrow> string \<Rightarrow> (RequestError, unit) result" where
  "check_body method content_length body =
     (if method = Method.Post \<and> content_length = None then Inl RequestError.LengthRequired
      else if \<exists>n \<in> set_option content_length. MAX_BODY_BYTES < n then Inl RequestError.PayloadTooLarge
      else if \<exists>n \<in> set_option content_length. length body \<noteq> n then Inl RequestError.BadRequest
      else if content_length = None \<and> body \<noteq> [] then Inl RequestError.BadRequest
      else if method = Method.Get \<and> (case content_length of None \<Rightarrow> 0 | Some n \<Rightarrow> n) \<noteq> 0
      then Inl RequestError.BadRequest
      else Inr ())"

text \<open>The end of \<open>parse_request\<close>: the request line and the headers are read, the body is what follows the head.\<close>

definition finish_request ::
  "Method \<Rightarrow> string \<Rightarrow> (string \<times> string) list \<Rightarrow> string \<Rightarrow> (RequestError, ParsedRequest) result" where
  "finish_request method target headers body =
     (if list_ex (\<lambda>forbidden. map_of headers forbidden \<noteq> None) forbidden_headers
      then Inl RequestError.BadRequest
      else and_then (header_content_length headers) (\<lambda>content_length.
           and_then (check_body method content_length body) (\<lambda>_.
             Inr \<lparr>pr_method = method, pr_target = target, pr_headers = headers, pr_body = body,
                  pr_content_length = content_length\<rparr>)))"

definition parse_request_line :: "string \<Rightarrow> (RequestError, Method \<times> string) result" where
  "parse_request_line request_line =
     (case split_char CHR '' '' request_line of
        [method_text, target, version] \<Rightarrow>
          if method_text = [] \<or> target = [] \<or> version = [] then Inl RequestError.BadRequest
          else if version \<noteq> ''HTTP/1.1'' then Inl RequestError.HttpVersionNotSupported
          else if \<not> list_all is_tchar method_text then Inl RequestError.BadRequest
          else if \<not> target_ok target then Inl RequestError.BadRequest
          else Inr (method_of method_text, target)
      | _ \<Rightarrow> Inl RequestError.BadRequest)"

definition parse_request :: "string \<Rightarrow> (RequestError, ParsedRequest) result" where
  "parse_request raw =
     (case find_subslice raw HEAD_END of
        None \<Rightarrow>
          Inl (if MAX_HEADER_BYTES < length raw then RequestError.PayloadTooLarge
               else RequestError.BadRequest)
      | Some head_end \<Rightarrow>
          if MAX_HEADER_BYTES < head_end then Inl RequestError.PayloadTooLarge
          else
            let head = take head_end raw
            in if list_ex (\<lambda>c. \<not> head_byte c) head then Inl RequestError.BadRequest
               else if \<not> utf8_valid head then Inl RequestError.BadRequest
               else case split_crlf head of
                   [] \<Rightarrow> Inl RequestError.BadRequest
                 | request_line # lines \<Rightarrow>
                     and_then (parse_request_line request_line) (\<lambda>(method, target).
                     and_then (parse_header_lines 0 lines []) (\<lambda>headers.
                       finish_request method target headers (drop (head_end + 4) raw))))"

subsection \<open>Authority, origin and token\<close>

datatype AuthorityHost = Localhost | Ipv4Loopback | Ipv6Loopback

record LoopbackAuthority =
  la_host :: AuthorityHost
  la_effective_port :: "16 word"

definition parse_port :: "string \<Rightarrow> 16 word option" where
  "parse_port v =
     (if \<not> canonical_digits v then None
      else Option.bind (parse_unsigned 65535 v) (\<lambda>p. if p = 0 then None else Some (of_nat p)))"

text \<open>The host of an authority and the port it names, if any.\<close>

definition authority_parts :: "string \<Rightarrow> (AuthorityHost \<times> 16 word option) option" where
  "authority_parts v =
     (case strip_prefix v ''['' of
        Some rest \<Rightarrow>
          (case split_once CHR '']'' rest of
             None \<Rightarrow> None
           | Some (host, suffix) \<Rightarrow>
               if host \<noteq> ''::1'' then None
               else if suffix = [] then Some (AuthorityHost.Ipv6Loopback, None)
               else Option.bind (Option.bind (strip_prefix suffix '':'') parse_port) (\<lambda>p.
                      Some (AuthorityHost.Ipv6Loopback, Some p)))
      | None \<Rightarrow>
          Option.bind
            (case rsplit_once CHR '':'' v of
               Some (host, p) \<Rightarrow> map_option (\<lambda>p. (host, Some p)) (parse_port p)
             | None \<Rightarrow> Some (v, None)) (\<lambda>(raw_host, raw_port).
            if eq_ignore_ascii_case raw_host ''localhost'' then Some (AuthorityHost.Localhost, raw_port)
            else if raw_host = ''127.0.0.1'' then Some (AuthorityHost.Ipv4Loopback, raw_port)
            else None))"

definition authority_parse :: "string \<Rightarrow> 16 word \<Rightarrow> LoopbackAuthority option" where
  "authority_parse v configured_port =
     (if v = [] \<or> list_ex is_ascii_whitespace v then None
      else Option.bind (authority_parts v) (\<lambda>(host, p).
             if \<exists>q \<in> set_option p. q \<noteq> configured_port then None
             else Some \<lparr>la_host = host, la_effective_port = (case p of None \<Rightarrow> 80 | Some q \<Rightarrow> q)\<rparr>))"

definition origin_is_same :: "string \<Rightarrow> LoopbackAuthority \<Rightarrow> bool" where
  "origin_is_same v host =
     (case strip_prefix v ''http://'' of
        None \<Rightarrow> False
      | Some authority \<Rightarrow>
          if list_ex (\<lambda>c. c \<in> set ''/?#@'') authority then False
          else authority_parse authority (la_effective_port host) = Some host)"

fun csrf_fields :: "string list \<Rightarrow> string option \<Rightarrow> string option" where
  "csrf_fields [] found = found"
| "csrf_fields (f # fs) found =
     (case split_once CHR ''='' (trim_matches blanks f) of
        None \<Rightarrow> None
      | Some (name, v) \<Rightarrow>
          if name = CSRF_COOKIE
          then (if found \<noteq> None \<or> v = [] then None else csrf_fields fs (Some v))
          else csrf_fields fs found)"

definition csrf_cookie_value :: "string \<Rightarrow> string option" where
  "csrf_cookie_value header = csrf_fields (split_char CHR '';'' header) None"

definition constant_time_eq :: "string \<Rightarrow> string \<Rightarrow> bool" where
  "constant_time_eq left right \<longleftrightarrow> length left = length right \<and> left = right"

definition valid_csrf :: "WebSecurity \<Rightarrow> ParsedRequest \<Rightarrow> bool" where
  "valid_csrf security request =
     (case single_header request CSRF_HEADER of
        None \<Rightarrow> False
      | Some header_token \<Rightarrow>
          (case Option.bind (single_header request ''cookie'') csrf_cookie_value of
             None \<Rightarrow> False
           | Some cookie_token \<Rightarrow>
               constant_time_eq header_token cookie_token
               \<and> constant_time_eq header_token (ws_csrf_token security)
               \<and> constant_time_eq cookie_token (ws_csrf_token security)))"

subsection \<open>Closed names\<close>

fun member_name :: "PairMemberName \<Rightarrow> string" where
  "member_name PairMemberName.JblAuthentics300 = ''JBL Authentics 300''"
| "member_name PairMemberName.AuraStudio5 = ''Aura Studio 5''"

fun member_verification_name :: "PairMemberVerification \<Rightarrow> string" where
  "member_verification_name PairMemberVerification.Verified = ''verified''"
| "member_verification_name PairMemberVerification.NotVerified = ''not_verified''"
| "member_verification_name PairMemberVerification.Unavailable = ''unavailable''"

fun member_channel_name :: "PairMemberChannel \<Rightarrow> string" where
  "member_channel_name PairMemberChannel.FrontLeft = ''front_left''"
| "member_channel_name PairMemberChannel.FrontRight = ''front_right''"
| "member_channel_name PairMemberChannel.Left = ''left''"
| "member_channel_name PairMemberChannel.Right = ''right''"
| "member_channel_name PairMemberChannel.Mono = ''mono''"
| "member_channel_name PairMemberChannel.Stereo = ''stereo''"
| "member_channel_name PairMemberChannel.Unknown = ''unknown''"

fun backend_name :: "PairBackendKind \<Rightarrow> string" where
  "backend_name PairBackendKind.LegacyV04WholePair = ''legacy_v04_whole_pair''"
| "backend_name PairBackendKind.NativePair = ''native_pair''"

fun pair_configuration_name :: "PairConfigurationState \<Rightarrow> string" where
  "pair_configuration_name PairConfigurationState.Ready = ''ready''"
| "pair_configuration_name PairConfigurationState.NotReady = ''not_ready''"
| "pair_configuration_name PairConfigurationState.Unavailable = ''unavailable''"

fun managed_state_name :: "ManagedLiveState \<Rightarrow> string" where
  "managed_state_name ManagedLiveState.Unknown = ''unknown''"
| "managed_state_name ManagedLiveState.Offline = ''offline''"
| "managed_state_name ManagedLiveState.Ready = ''ready''"
| "managed_state_name ManagedLiveState.Linking = ''linking''"
| "managed_state_name ManagedLiveState.Linked = ''linked''"
| "managed_state_name ManagedLiveState.Unlinking = ''unlinking''"
| "managed_state_name ManagedLiveState.Recovering = ''recovering''"
| "managed_state_name ManagedLiveState.Degraded = ''degraded''"
| "managed_state_name ManagedLiveState.ShuttingDown = ''shutting_down''"

fun lifecycle_name :: "PairLifecycle \<Rightarrow> string" where
  "lifecycle_name PairLifecycle.Offline = ''offline''"
| "lifecycle_name PairLifecycle.Initializing = ''initializing''"
| "lifecycle_name PairLifecycle.Connecting = ''connecting''"
| "lifecycle_name PairLifecycle.Ready = ''ready''"
| "lifecycle_name PairLifecycle.Linking = ''linking''"
| "lifecycle_name PairLifecycle.Linked = ''linked''"
| "lifecycle_name PairLifecycle.Unlinking = ''unlinking''"
| "lifecycle_name PairLifecycle.Degraded = ''degraded''"
| "lifecycle_name PairLifecycle.Recovering = ''recovering''"
| "lifecycle_name PairLifecycle.ShuttingDown = ''shutting_down''"
| "lifecycle_name PairLifecycle.Failed = ''failed''"

fun health_level_name :: "PairHealthLevel \<Rightarrow> string" where
  "health_level_name PairHealthLevel.Healthy = ''healthy''"
| "health_level_name PairHealthLevel.Transitioning = ''transitioning''"
| "health_level_name PairHealthLevel.Degraded = ''degraded''"
| "health_level_name PairHealthLevel.Unavailable = ''unavailable''"

fun aura_transport_name :: "AuraControlTransport \<Rightarrow> string" where
  "aura_transport_name AuraControlTransport.Le = ''le''"
| "aura_transport_name AuraControlTransport.BrEdr = ''br_edr''"
| "aura_transport_name AuraControlTransport.Unresolved = ''unresolved''"
| "aura_transport_name AuraControlTransport.Unknown = ''unknown''"

fun acquisition_route_name :: "AuraAcquisitionRoute \<Rightarrow> string" where
  "acquisition_route_name AuraAcquisitionRoute.StableDirect = ''stable_direct''"
| "acquisition_route_name AuraAcquisitionRoute.A2dpWakeThenStable = ''a2dp_wake_then_stable''"
| "acquisition_route_name AuraAcquisitionRoute.FreshLe = ''fresh_le''"
| "acquisition_route_name AuraAcquisitionRoute.Unresolved = ''unresolved''"

fun action_name :: "ControllerAction \<Rightarrow> string" where
  "action_name ControllerAction.Start = ''start''"
| "action_name ControllerAction.Stop = ''stop''"
| "action_name ControllerAction.Shutdown = ''shutdown''"
| "action_name ControllerAction.RecoverStop = ''recover_stop''"

fun outcome_name :: "ControllerActionOutcome \<Rightarrow> string" where
  "outcome_name ControllerActionOutcome.Accepted = ''accepted''"
| "outcome_name ControllerActionOutcome.AcceptedUnconfirmed = ''accepted_unconfirmed''"
| "outcome_name ControllerActionOutcome.Idempotent = ''idempotent''"
| "outcome_name ControllerActionOutcome.RejectedBeforeSend = ''rejected_before_send''"
| "outcome_name ControllerActionOutcome.OutcomeUnknown = ''outcome_unknown''"
| "outcome_name ControllerActionOutcome.PostconditionFailed = ''postcondition_failed''"

fun evidence_name :: "PairBackendEvidence \<Rightarrow> string" where
  "evidence_name PairBackendEvidence.LocalSessionState = ''local_session_state''"
| "evidence_name PairBackendEvidence.LifecycleAcknowledgement = ''lifecycle_acknowledgement''"
| "evidence_name PairBackendEvidence.BroadcastAcknowledgementOnly = ''broadcast_acknowledgement_only''"
| "evidence_name PairBackendEvidence.BroadcastBusinessNotification = ''broadcast_business_notification''"

fun failure_name :: "ControllerFailure \<Rightarrow> string" where
  "failure_name ControllerFailure.PairConfigurationUnavailable = ''pair_configuration_unavailable''"
| "failure_name ControllerFailure.ExpectedPairNotConfigured = ''expected_pair_not_configured''"
| "failure_name ControllerFailure.BackendRejectedBeforeSend = ''backend_rejected_before_send''"
| "failure_name ControllerFailure.AuraAdapterUnavailable = ''aura_adapter_unavailable''"
| "failure_name ControllerFailure.AuraDiscoveryUnavailable = ''aura_discovery_unavailable''"
| "failure_name ControllerFailure.AuraVerifiedAdvertisementNotFound = ''aura_verified_advertisement_not_found''"
| "failure_name ControllerFailure.AuraDeviceConnectionFailed = ''aura_device_connection_failed''"
| "failure_name ControllerFailure.AuraWakeProfileConnectFailed = ''wake_profile_connect_failed''"
| "failure_name ControllerFailure.AuraWakeFddfTimedOut = ''wake_fddf_timed_out''"
| "failure_name ControllerFailure.AuraWakeFddfInvalid = ''wake_fddf_invalid''"
| "failure_name ControllerFailure.AuraWakeFddfUnavailable = ''wake_fddf_unavailable''"
| "failure_name ControllerFailure.AuraWakeProfileReleaseFailed = ''wake_profile_release_failed''"
| "failure_name ControllerFailure.AuraGattProfileInvalid = ''aura_gatt_profile_invalid''"
| "failure_name ControllerFailure.AuraNotificationSetupFailed = ''aura_notification_setup_failed''"
| "failure_name ControllerFailure.AuraWriteUnknown = ''aura_write_unknown''"
| "failure_name ControllerFailure.AuraAckTimeout = ''aura_ack_timeout''"
| "failure_name ControllerFailure.AuraAckChannelClosed = ''aura_ack_channel_closed''"
| "failure_name ControllerFailure.AuraUnexpectedAck = ''aura_unexpected_ack''"
| "failure_name ControllerFailure.JblEnterOutcomeUnknown = ''jbl_enter_outcome_unknown''"
| "failure_name ControllerFailure.JblExitOutcomeUnknown = ''jbl_exit_outcome_unknown''"
| "failure_name ControllerFailure.JblBroadcastResultTimedOut = ''jbl_broadcast_result_timed_out''"
| "failure_name ControllerFailure.JblBroadcastResultUnavailable = ''jbl_broadcast_result_unavailable''"
| "failure_name ControllerFailure.JblBroadcastResultRejected = ''jbl_broadcast_result_rejected''"
| "failure_name ControllerFailure.AuraStartOutcomeUnknown = ''aura_start_outcome_unknown''"
| "failure_name ControllerFailure.BackendOutcomeUnknown = ''backend_outcome_unknown''"
| "failure_name ControllerFailure.UnexpectedBackendLifecycle = ''unexpected_backend_lifecycle''"
| "failure_name ControllerFailure.MembershipPostconditionFailed = ''membership_postcondition_failed''"
| "failure_name ControllerFailure.UnresolvedPriorAction = ''unresolved_prior_action''"
| "failure_name ControllerFailure.RecoveryNotAllowed = ''recovery_not_allowed''"
| "failure_name ControllerFailure.JournalUnavailable = ''journal_unavailable''"
| "failure_name ControllerFailure.JournalCommitFailed = ''journal_commit_failed''"

subsection \<open>Response bodies\<close>

text \<open>A serialized struct is the object of its fields in their order; a missing option is null.\<close>

definition json_u64 :: "64 word \<Rightarrow> Value" where
  "json_u64 n = JNumber (PosInt (unat n))"

definition json_opt :: "('a \<Rightarrow> Value) \<Rightarrow> 'a option \<Rightarrow> Value" where
  "json_opt f v = (case v of None \<Rightarrow> Null | Some x \<Rightarrow> f x)"

definition member_body :: "PairMemberStatus \<Rightarrow> Value" where
  "member_body member =
     JObject [(''name'', JString (member_name (pms_name member))),
              (''verification'', JString (member_verification_name (pms_verification member))),
              (''channels'', JArray (map (\<lambda>c. JString (member_channel_name c)) (pms_channels member)))]"

definition health_body :: "PairHealth \<Rightarrow> Value" where
  "health_body health =
     JObject [(''lifecycle'', JString (lifecycle_name (ph_lifecycle health))),
              (''level'', JString (health_level_name (ph_level health))),
              (''reported_error'', Bool (ph_reported_error health)),
              (''aura_transport'', JString (aura_transport_name (ph_aura_transport health))),
              (''aura_acquisition_route'',
               JString (acquisition_route_name (ph_aura_acquisition_route health)))]"

definition last_action_body :: "LastActionStatus \<Rightarrow> Value" where
  "last_action_body action =
     JObject [(''action'', JString (action_name (las_action action))),
              (''outcome'', JString (outcome_name (las_outcome action))),
              (''evidence'', json_opt (\<lambda>e. JString (evidence_name e)) (las_evidence action)),
              (''failure'', json_opt (\<lambda>f. JString (failure_name f)) (las_failure action)),
              (''revision'', json_u64 (las_revision action)),
              (''age_ms'', json_u64 (las_age_ms action))]"

definition status_body :: "ControllerStatus \<Rightarrow> Value" where
  "status_body s =
     JObject [(''backend'', JString (backend_name (cs_backend s))),
              (''pair_configuration'', JString (pair_configuration_name (cs_pair_configuration s))),
              (''members'', JArray [member_body (fst (cs_members s)), member_body (snd (cs_members s))]),
              (''managed_state'', JString (managed_state_name (cs_managed_state s))),
              (''backend_health'', json_opt health_body (cs_backend_health s)),
              (''unresolved_action'', Bool (cs_unresolved_action s)),
              (''consecutive_failures'', JNumber (PosInt (unat (cs_consecutive_failures s)))),
              (''revision'', json_u64 (cs_revision s)),
              (''last_action'', json_opt last_action_body (cs_last_action s))]"

definition action_body :: "ControllerActionResult \<Rightarrow> Value" where
  "action_body result =
     JObject [(''action'', JString (action_name (car_action result))),
              (''outcome'', JString (outcome_name (car_outcome result))),
              (''managed_state'', JString (managed_state_name (car_managed_state result))),
              (''evidence'', json_opt (\<lambda>e. JString (evidence_name e)) (car_evidence result)),
              (''failure'', json_opt (\<lambda>f. JString (failure_name f)) (car_failure result)),
              (''revision'', json_u64 (car_revision result))]"

definition readiness_body :: Value where
  "readiness_body = JObject [(''status'', JString ''ready'')]"

definition readiness_response :: "(Value \<Rightarrow> string) \<Rightarrow> HttpResponse" where
  "readiness_response to_vec = json_response to_vec 200 readiness_body None"

definition status_response :: "(Value \<Rightarrow> string) \<Rightarrow> ControllerStatus \<Rightarrow> HttpResponse" where
  "status_response to_vec s = json_response to_vec 200 (status_body s) (Some (cs_revision s))"

definition action_response :: "(Value \<Rightarrow> string) \<Rightarrow> ControllerActionResult \<Rightarrow> HttpResponse" where
  "action_response to_vec result =
     json_response to_vec 200 (action_body result) (Some (car_revision result))"

definition page_response :: "WebSecurity \<Rightarrow> HttpResponse" where
  "page_response security =
     response 200 ''text/html; charset=utf-8''
       (str_replace PAGE_HTML ''__CSP_NONCE__'' (ws_csrf_token security))
       (Some (ws_csrf_token security))
       [(''Set-Cookie'', CSRF_COOKIE @ ''='' @ ws_csrf_token security @ ''; Path=/; SameSite=Strict'')]"

subsection \<open>The application\<close>

record 'a WebApp =
  app_actor :: 'a
  app_security :: WebSecurity

text \<open>The libraries and the actor's operations a request needs.\<close>

record 'a web_env =
  we_actor :: "'a WebActor"
  we_from_slice :: "string \<Rightarrow> Value option"
  we_to_vec :: "Value \<Rightarrow> string"

definition mutation_response ::
  "'a web_env \<Rightarrow> ParsedRequest \<Rightarrow> WebMutation \<Rightarrow> MutationBody \<Rightarrow> 'a WebApp \<Rightarrow> HttpResponse \<times> 'a WebApp" where
  "mutation_response env request mutation body_rule app =
     (let refuse = (\<lambda>e. (error_response (we_to_vec env) e, app))
      in if single_header request ''origin'' = None then refuse RequestError.ForbiddenOrigin
         else if single_header request ''content-type'' \<noteq> Some ''application/json''
         then refuse RequestError.UnsupportedMediaType
         else case pr_content_length request of
             None \<Rightarrow> refuse RequestError.LengthRequired
           | Some content_length \<Rightarrow>
               if MAX_BODY_BYTES < content_length then refuse RequestError.PayloadTooLarge
               else if \<not> body_matches (we_from_slice env) body_rule (pr_body request)
               then refuse RequestError.InvalidJsonBody
               else if \<not> valid_csrf (app_security app) request then refuse RequestError.CsrfRejected
               else case Option.bind (single_header request ''if-match'') parse_strong_revision of
                   None \<Rightarrow> refuse RequestError.PreconditionRequired
                 | Some expected_revision \<Rightarrow>
                     (case wa_mutate_if_revision (we_actor env) expected_revision mutation (app_actor app) of
                        (Inr result, actor) \<Rightarrow>
                          (action_response (we_to_vec env) result, app\<lparr>app_actor := actor\<rparr>)
                      | (Inl _, actor) \<Rightarrow>
                          (error_response (we_to_vec env) RequestError.RevisionConflict,
                           app\<lparr>app_actor := actor\<rparr>)))"

definition route :: "'a web_env \<Rightarrow> ParsedRequest \<Rightarrow> 'a WebApp \<Rightarrow> HttpResponse \<times> 'a WebApp" where
  "route env request app =
     (let target = pr_target request
      in case pr_method request of
           Method.Get \<Rightarrow>
             if target = ''/'' then (page_response (app_security app), app)
             else if target = ''/api/status'' then
               (let (s, actor) = wa_status (we_actor env) (app_actor app)
                in (status_response (we_to_vec env) s, app\<lparr>app_actor := actor\<rparr>))
             else if target = ''/healthz'' then (readiness_response (we_to_vec env), app)
             else (error_response (we_to_vec env) RequestError.NotFound, app)
         | Method.Post \<Rightarrow>
             if target = ''/api/start''
             then mutation_response env request WebMutation.Start MutationBody.EmptyObject app
             else if target = ''/api/stop''
             then mutation_response env request WebMutation.Stop MutationBody.EmptyObject app
             else if target = ''/internal/recover-stop''
             then mutation_response env request WebMutation.RecoverStop
                    MutationBody.RecoverStopConfirmation app
             else (error_response (we_to_vec env) RequestError.NotFound, app)
         | Method.Other \<Rightarrow> (error_response (we_to_vec env) RequestError.MethodNotAllowed, app))"

definition handle :: "'a web_env \<Rightarrow> string \<Rightarrow> 'a WebApp \<Rightarrow> HttpResponse \<times> 'a WebApp" where
  "handle env raw_request app =
     (let refuse = (\<lambda>e. (error_response (we_to_vec env) e, app))
      in case parse_request raw_request of
           Inl e \<Rightarrow> refuse e
         | Inr request \<Rightarrow>
             (case Option.bind (single_header request ''host'')
                     (\<lambda>v. authority_parse v (port (app_security app))) of
                None \<Rightarrow> refuse RequestError.ForbiddenHost
              | Some host \<Rightarrow>
                  if \<exists>origin \<in> set_option (single_header request ''origin''). \<not> origin_is_same origin host
                  then refuse RequestError.ForbiddenOrigin
                  else route env request app))"

end
