(* ===== verification/Local_Client.thy ===== *)
theory Local_Client
  imports Web Posix
begin

text \<open>
  The client of the local service (\<open>rust/src/local_client.rs\<close>): its own closed vocabulary and the reading of
  a JSON tree into it, one bounded HTTP exchange over a loopback stream, and the operations built on it.

  A loop that retries an interrupted call need not end, so it is a partial function: \<open>None\<close> is a run that
  does not return. The stream and the clock are the record \<open>client_net\<close>; the JSON library is a parameter
  that reads bytes into a tree with its members in document order.
\<close>

datatype LocalClientError =
    Unavailable | TimedOut | ResponseTooLarge | InvalidResponse | ServiceRejected | RevisionConflict

definition service_unavailable :: "LocalClientError \<Rightarrow> bool" where
  "service_unavailable e \<longleftrightarrow> e = LocalClientError.Unavailable"

definition CONNECT_TIMEOUT :: duration where "CONNECT_TIMEOUT = from_secs 2"
definition READY_TIMEOUT :: duration where "READY_TIMEOUT = from_secs 2"
definition STATUS_TIMEOUT :: duration where "STATUS_TIMEOUT = from_secs 120"
definition ACTION_TIMEOUT_SECONDS :: nat where "ACTION_TIMEOUT_SECONDS = 600"
definition ACTION_TIMEOUT :: duration where "ACTION_TIMEOUT = from_secs ACTION_TIMEOUT_SECONDS"
definition MAX_RESPONSE_BYTES :: nat where "MAX_RESPONSE_BYTES = 64 * 1024"
definition MAX_HEADER_BYTES :: nat where "MAX_HEADER_BYTES = 16 * 1024"
definition MAX_HEADER_COUNT :: nat where "MAX_HEADER_COUNT = 64"
definition CSRF_COOKIE :: string where "CSRF_COOKIE = ''jbl_aura_csrf''"

subsection \<open>Vocabulary\<close>

text \<open>Each enumeration with the names its derived reader and writer use.\<close>

datatype LocalBackend = LegacyV04WholePair | NativePair

definition backend_names :: "(string \<times> LocalBackend) list" where
  "backend_names =
     [(''legacy_v04_whole_pair'', LocalBackend.LegacyV04WholePair),
      (''native_pair'', LocalBackend.NativePair)]"

datatype LocalPairConfiguration = Ready | NotReady | Unavailable

definition pair_configuration_names :: "(string \<times> LocalPairConfiguration) list" where
  "pair_configuration_names =
     [(''ready'', LocalPairConfiguration.Ready),
      (''not_ready'', LocalPairConfiguration.NotReady),
      (''unavailable'', LocalPairConfiguration.Unavailable)]"

datatype LocalPairMemberName = JblAuthentics300 | AuraStudio5

definition pair_member_name_names :: "(string \<times> LocalPairMemberName) list" where
  "pair_member_name_names =
     [(''JBL Authentics 300'', LocalPairMemberName.JblAuthentics300),
      (''Aura Studio 5'', LocalPairMemberName.AuraStudio5)]"

datatype LocalPairMemberVerification = Verified | NotVerified | Unavailable

definition pair_member_verification_names :: "(string \<times> LocalPairMemberVerification) list" where
  "pair_member_verification_names =
     [(''verified'', LocalPairMemberVerification.Verified),
      (''not_verified'', LocalPairMemberVerification.NotVerified),
      (''unavailable'', LocalPairMemberVerification.Unavailable)]"

datatype LocalPairMemberChannel =
    FrontLeft | FrontRight | Left | Right | Mono | Stereo | Unknown

definition pair_member_channel_names :: "(string \<times> LocalPairMemberChannel) list" where
  "pair_member_channel_names =
     [(''front_left'', LocalPairMemberChannel.FrontLeft),
      (''front_right'', LocalPairMemberChannel.FrontRight),
      (''left'', LocalPairMemberChannel.Left),
      (''right'', LocalPairMemberChannel.Right),
      (''mono'', LocalPairMemberChannel.Mono),
      (''stereo'', LocalPairMemberChannel.Stereo),
      (''unknown'', LocalPairMemberChannel.Unknown)]"

datatype LocalManagedState =
    Unknown | Offline | Ready | Linking | Linked | Unlinking | Recovering | Degraded | ShuttingDown

definition managed_state_names :: "(string \<times> LocalManagedState) list" where
  "managed_state_names =
     [(''unknown'', LocalManagedState.Unknown),
      (''offline'', LocalManagedState.Offline),
      (''ready'', LocalManagedState.Ready),
      (''linking'', LocalManagedState.Linking),
      (''linked'', LocalManagedState.Linked),
      (''unlinking'', LocalManagedState.Unlinking),
      (''recovering'', LocalManagedState.Recovering),
      (''degraded'', LocalManagedState.Degraded),
      (''shutting_down'', LocalManagedState.ShuttingDown)]"

datatype LocalLifecycle =
    Offline | Initializing | Connecting | Ready | Linking | Linked | Unlinking | Degraded
   | Recovering | ShuttingDown | Failed

definition lifecycle_names :: "(string \<times> LocalLifecycle) list" where
  "lifecycle_names =
     [(''offline'', LocalLifecycle.Offline),
      (''initializing'', LocalLifecycle.Initializing),
      (''connecting'', LocalLifecycle.Connecting),
      (''ready'', LocalLifecycle.Ready),
      (''linking'', LocalLifecycle.Linking),
      (''linked'', LocalLifecycle.Linked),
      (''unlinking'', LocalLifecycle.Unlinking),
      (''degraded'', LocalLifecycle.Degraded),
      (''recovering'', LocalLifecycle.Recovering),
      (''shutting_down'', LocalLifecycle.ShuttingDown),
      (''failed'', LocalLifecycle.Failed)]"

datatype LocalHealthLevel = Healthy | Transitioning | Degraded | Unavailable

definition health_level_names :: "(string \<times> LocalHealthLevel) list" where
  "health_level_names =
     [(''healthy'', LocalHealthLevel.Healthy),
      (''transitioning'', LocalHealthLevel.Transitioning),
      (''degraded'', LocalHealthLevel.Degraded),
      (''unavailable'', LocalHealthLevel.Unavailable)]"

datatype LocalAuraTransport = Le | BrEdr | Unresolved | Unknown

definition aura_transport_names :: "(string \<times> LocalAuraTransport) list" where
  "aura_transport_names =
     [(''le'', LocalAuraTransport.Le),
      (''br_edr'', LocalAuraTransport.BrEdr),
      (''unresolved'', LocalAuraTransport.Unresolved),
      (''unknown'', LocalAuraTransport.Unknown)]"

datatype LocalAuraAcquisitionRoute = StableDirect | A2dpWakeThenStable | FreshLe | Unresolved

definition aura_acquisition_route_names :: "(string \<times> LocalAuraAcquisitionRoute) list" where
  "aura_acquisition_route_names =
     [(''stable_direct'', LocalAuraAcquisitionRoute.StableDirect),
      (''a2dp_wake_then_stable'', LocalAuraAcquisitionRoute.A2dpWakeThenStable),
      (''fresh_le'', LocalAuraAcquisitionRoute.FreshLe),
      (''unresolved'', LocalAuraAcquisitionRoute.Unresolved)]"

datatype LocalActionName = Start | Stop | Shutdown | RecoverStop

definition action_name_names :: "(string \<times> LocalActionName) list" where
  "action_name_names =
     [(''start'', LocalActionName.Start),
      (''stop'', LocalActionName.Stop),
      (''shutdown'', LocalActionName.Shutdown),
      (''recover_stop'', LocalActionName.RecoverStop)]"

datatype LocalActionOutcome =
    Accepted | AcceptedUnconfirmed | Idempotent | RejectedBeforeSend | OutcomeUnknown
   | PostconditionFailed

definition action_outcome_names :: "(string \<times> LocalActionOutcome) list" where
  "action_outcome_names =
     [(''accepted'', LocalActionOutcome.Accepted),
      (''accepted_unconfirmed'', LocalActionOutcome.AcceptedUnconfirmed),
      (''idempotent'', LocalActionOutcome.Idempotent),
      (''rejected_before_send'', LocalActionOutcome.RejectedBeforeSend),
      (''outcome_unknown'', LocalActionOutcome.OutcomeUnknown),
      (''postcondition_failed'', LocalActionOutcome.PostconditionFailed)]"

datatype LocalActionEvidence = LocalSessionState | LifecycleAcknowledgement | BroadcastAcknowledgementOnly | BroadcastBusinessNotification

definition action_evidence_names :: "(string \<times> LocalActionEvidence) list" where
  "action_evidence_names =
     [(''local_session_state'', LocalActionEvidence.LocalSessionState),
      (''lifecycle_acknowledgement'', LocalActionEvidence.LifecycleAcknowledgement),
      (''broadcast_acknowledgement_only'', LocalActionEvidence.BroadcastAcknowledgementOnly),
      (''broadcast_business_notification'', LocalActionEvidence.BroadcastBusinessNotification)]"

datatype LocalFailure =
    PairConfigurationUnavailable | ExpectedPairNotConfigured | BackendRejectedBeforeSend
   | AuraAdapterUnavailable | AuraDiscoveryUnavailable | AuraVerifiedAdvertisementNotFound
   | AuraDeviceConnectionFailed | WakeProfileConnectFailed | WakeFddfTimedOut | WakeFddfInvalid
   | WakeFddfUnavailable | WakeProfileReleaseFailed | AuraGattProfileInvalid
   | AuraNotificationSetupFailed | AuraWriteUnknown | AuraAckTimeout | AuraAckChannelClosed
   | AuraUnexpectedAck | JblEnterOutcomeUnknown | JblExitOutcomeUnknown | JblBroadcastResultTimedOut
   | JblBroadcastResultUnavailable | JblBroadcastResultRejected | AuraStartOutcomeUnknown
   | BackendOutcomeUnknown | UnexpectedBackendLifecycle | MembershipPostconditionFailed
   | UnresolvedPriorAction | RecoveryNotAllowed | JournalUnavailable | JournalCommitFailed

definition failure_names :: "(string \<times> LocalFailure) list" where
  "failure_names =
     [(''pair_configuration_unavailable'', LocalFailure.PairConfigurationUnavailable),
      (''expected_pair_not_configured'', LocalFailure.ExpectedPairNotConfigured),
      (''backend_rejected_before_send'', LocalFailure.BackendRejectedBeforeSend),
      (''aura_adapter_unavailable'', LocalFailure.AuraAdapterUnavailable),
      (''aura_discovery_unavailable'', LocalFailure.AuraDiscoveryUnavailable),
      (''aura_verified_advertisement_not_found'', LocalFailure.AuraVerifiedAdvertisementNotFound),
      (''aura_device_connection_failed'', LocalFailure.AuraDeviceConnectionFailed),
      (''wake_profile_connect_failed'', LocalFailure.WakeProfileConnectFailed),
      (''wake_fddf_timed_out'', LocalFailure.WakeFddfTimedOut),
      (''wake_fddf_invalid'', LocalFailure.WakeFddfInvalid),
      (''wake_fddf_unavailable'', LocalFailure.WakeFddfUnavailable),
      (''wake_profile_release_failed'', LocalFailure.WakeProfileReleaseFailed),
      (''aura_gatt_profile_invalid'', LocalFailure.AuraGattProfileInvalid),
      (''aura_notification_setup_failed'', LocalFailure.AuraNotificationSetupFailed),
      (''aura_write_unknown'', LocalFailure.AuraWriteUnknown),
      (''aura_ack_timeout'', LocalFailure.AuraAckTimeout),
      (''aura_ack_channel_closed'', LocalFailure.AuraAckChannelClosed),
      (''aura_unexpected_ack'', LocalFailure.AuraUnexpectedAck),
      (''jbl_enter_outcome_unknown'', LocalFailure.JblEnterOutcomeUnknown),
      (''jbl_exit_outcome_unknown'', LocalFailure.JblExitOutcomeUnknown),
      (''jbl_broadcast_result_timed_out'', LocalFailure.JblBroadcastResultTimedOut),
      (''jbl_broadcast_result_unavailable'', LocalFailure.JblBroadcastResultUnavailable),
      (''jbl_broadcast_result_rejected'', LocalFailure.JblBroadcastResultRejected),
      (''aura_start_outcome_unknown'', LocalFailure.AuraStartOutcomeUnknown),
      (''backend_outcome_unknown'', LocalFailure.BackendOutcomeUnknown),
      (''unexpected_backend_lifecycle'', LocalFailure.UnexpectedBackendLifecycle),
      (''membership_postcondition_failed'', LocalFailure.MembershipPostconditionFailed),
      (''unresolved_prior_action'', LocalFailure.UnresolvedPriorAction),
      (''recovery_not_allowed'', LocalFailure.RecoveryNotAllowed),
      (''journal_unavailable'', LocalFailure.JournalUnavailable),
      (''journal_commit_failed'', LocalFailure.JournalCommitFailed)]"

record LocalPairMember =
  lpm_name :: LocalPairMemberName
  lpm_verification :: LocalPairMemberVerification
  lpm_channels :: "LocalPairMemberChannel list"

record LocalHealth =
  lh_lifecycle :: LocalLifecycle
  lh_level :: LocalHealthLevel
  lh_reported_error :: bool
  lh_aura_transport :: LocalAuraTransport
  lh_aura_acquisition_route :: LocalAuraAcquisitionRoute

record LocalActionResult =
  lar_action :: LocalActionName
  lar_outcome :: LocalActionOutcome
  lar_managed_state :: LocalManagedState
  lar_evidence :: "LocalActionEvidence option"
  lar_failure :: "LocalFailure option"
  lar_revision :: "64 word"

record LocalLastAction =
  lla_action :: LocalActionName
  lla_outcome :: LocalActionOutcome
  lla_evidence :: "LocalActionEvidence option"
  lla_failure :: "LocalFailure option"
  lla_revision :: "64 word"
  lla_age_ms :: "64 word"

record LocalStatus =
  ls_backend :: LocalBackend
  ls_pair_configuration :: LocalPairConfiguration
  ls_members :: "LocalPairMember \<times> LocalPairMember"
  ls_managed_state :: LocalManagedState
  ls_backend_health :: "LocalHealth option"
  ls_unresolved_action :: bool
  ls_consecutive_failures :: "8 word"
  ls_revision :: "64 word"
  ls_last_action :: "LocalLastAction option"

definition succeeded :: "LocalActionResult \<Rightarrow> bool" where
  "succeeded r \<longleftrightarrow>
     lar_outcome r \<in> {LocalActionOutcome.Accepted, LocalActionOutcome.AcceptedUnconfirmed,
                      LocalActionOutcome.Idempotent}"

subsection \<open>Reading a tree\<close>

text \<open>
  The derived readers: a unit variant is its name, alone or as the one key of an object with a null; a
  struct is an object with known and distinct keys, or the array of its fields in order; a missing or null
  option is none.
\<close>

definition enum_tag :: "Value \<Rightarrow> string option" where
  "enum_tag v =
     (case v of
        JString s \<Rightarrow> Some s
      | JObject [(s, Null)] \<Rightarrow> Some s
      | _ \<Rightarrow> None)"

definition read_enum :: "(string \<times> 'a) list \<Rightarrow> Value \<Rightarrow> 'a option" where
  "read_enum names v = Option.bind (enum_tag v) (map_of names)"

definition struct_fields :: "string list \<Rightarrow> Value \<Rightarrow> (string \<times> Value) list option" where
  "struct_fields names v =
     (case v of
        JObject m \<Rightarrow>
          if distinct (map fst m) \<and> list_all (\<lambda>k. k \<in> set names) (map fst m) then Some m else None
      | JArray vs \<Rightarrow> if length vs = length names then Some (zip names vs) else None
      | _ \<Rightarrow> None)"

definition read_field :: "(string \<times> Value) list \<Rightarrow> string \<Rightarrow> (Value \<Rightarrow> 'a option) \<Rightarrow> 'a option" where
  "read_field m name f = Option.bind (map_of m name) f"

definition read_option :: "(string \<times> Value) list \<Rightarrow> string \<Rightarrow> (Value \<Rightarrow> 'a option) \<Rightarrow> 'a option option" where
  "read_option m name f =
     (case map_of m name of
        None \<Rightarrow> Some None
      | Some Null \<Rightarrow> Some None
      | Some v \<Rightarrow> map_option Some (f v))"

definition read_unsigned :: "nat \<Rightarrow> Value \<Rightarrow> nat option" where
  "read_unsigned limit v =
     (case v of JNumber (PosInt n) \<Rightarrow> if n < limit then Some n else None | _ \<Rightarrow> None)"

definition read_u64 :: "Value \<Rightarrow> 64 word option" where
  "read_u64 v = map_option of_nat (read_unsigned (2 ^ 64) v)"

definition read_u8 :: "Value \<Rightarrow> 8 word option" where
  "read_u8 v = map_option of_nat (read_unsigned 256 v)"

definition read_member :: "Value \<Rightarrow> LocalPairMember option" where
  "read_member v =
     Option.bind (struct_fields [''name'', ''verification'', ''channels''] v) (\<lambda>m.
     Option.bind (read_field m ''name'' (read_enum pair_member_name_names)) (\<lambda>name.
     Option.bind (read_field m ''verification'' (read_enum pair_member_verification_names)) (\<lambda>verification.
     Option.bind (read_field m ''channels'' (\<lambda>cs.
         Option.bind (as_array cs) (\<lambda>vs. those (map (read_enum pair_member_channel_names) vs)))) (\<lambda>channels.
       Some \<lparr>lpm_name = name, lpm_verification = verification, lpm_channels = channels\<rparr>))))"

definition read_health :: "Value \<Rightarrow> LocalHealth option" where
  "read_health v =
     Option.bind (struct_fields [''lifecycle'', ''level'', ''reported_error'', ''aura_transport'',
                                 ''aura_acquisition_route''] v) (\<lambda>m.
     Option.bind (read_field m ''lifecycle'' (read_enum lifecycle_names)) (\<lambda>lifecycle.
     Option.bind (read_field m ''level'' (read_enum health_level_names)) (\<lambda>level.
     Option.bind (read_field m ''reported_error'' as_bool) (\<lambda>reported_error.
     Option.bind (read_field m ''aura_transport'' (read_enum aura_transport_names)) (\<lambda>transport.
     Option.bind (read_field m ''aura_acquisition_route'' (read_enum aura_acquisition_route_names)) (\<lambda>route.
       Some \<lparr>lh_lifecycle = lifecycle, lh_level = level, lh_reported_error = reported_error,
             lh_aura_transport = transport, lh_aura_acquisition_route = route\<rparr>))))))"

definition read_last_action :: "Value \<Rightarrow> LocalLastAction option" where
  "read_last_action v =
     Option.bind (struct_fields [''action'', ''outcome'', ''evidence'', ''failure'', ''revision'', ''age_ms''] v) (\<lambda>m.
     Option.bind (read_field m ''action'' (read_enum action_name_names)) (\<lambda>action.
     Option.bind (read_field m ''outcome'' (read_enum action_outcome_names)) (\<lambda>outcome.
     Option.bind (read_option m ''evidence'' (read_enum action_evidence_names)) (\<lambda>evidence.
     Option.bind (read_option m ''failure'' (read_enum failure_names)) (\<lambda>failure.
     Option.bind (read_field m ''revision'' read_u64) (\<lambda>revision.
     Option.bind (read_field m ''age_ms'' read_u64) (\<lambda>age_ms.
       Some \<lparr>lla_action = action, lla_outcome = outcome, lla_evidence = evidence, lla_failure = failure,
             lla_revision = revision, lla_age_ms = age_ms\<rparr>)))))))"

definition read_action_result :: "Value \<Rightarrow> LocalActionResult option" where
  "read_action_result v =
     Option.bind (struct_fields [''action'', ''outcome'', ''managed_state'', ''evidence'', ''failure'', ''revision''] v) (\<lambda>m.
     Option.bind (read_field m ''action'' (read_enum action_name_names)) (\<lambda>action.
     Option.bind (read_field m ''outcome'' (read_enum action_outcome_names)) (\<lambda>outcome.
     Option.bind (read_field m ''managed_state'' (read_enum managed_state_names)) (\<lambda>managed_state.
     Option.bind (read_option m ''evidence'' (read_enum action_evidence_names)) (\<lambda>evidence.
     Option.bind (read_option m ''failure'' (read_enum failure_names)) (\<lambda>failure.
     Option.bind (read_field m ''revision'' read_u64) (\<lambda>revision.
       Some \<lparr>lar_action = action, lar_outcome = outcome, lar_managed_state = managed_state,
             lar_evidence = evidence, lar_failure = failure, lar_revision = revision\<rparr>)))))))"

definition read_members :: "Value \<Rightarrow> (LocalPairMember \<times> LocalPairMember) option" where
  "read_members v =
     (case v of
        JArray [a, b] \<Rightarrow> Option.bind (read_member a) (\<lambda>x. map_option (Pair x) (read_member b))
      | _ \<Rightarrow> None)"

definition read_status :: "Value \<Rightarrow> LocalStatus option" where
  "read_status v =
     Option.bind (struct_fields [''backend'', ''pair_configuration'', ''members'', ''managed_state'',
         ''backend_health'', ''unresolved_action'', ''consecutive_failures'', ''revision'', ''last_action''] v) (\<lambda>m.
     Option.bind (read_field m ''backend'' (read_enum backend_names)) (\<lambda>backend.
     Option.bind (read_field m ''pair_configuration'' (read_enum pair_configuration_names)) (\<lambda>configuration.
     Option.bind (read_field m ''members'' read_members) (\<lambda>members.
     Option.bind (read_field m ''managed_state'' (read_enum managed_state_names)) (\<lambda>managed_state.
     Option.bind (read_option m ''backend_health'' read_health) (\<lambda>health.
     Option.bind (read_field m ''unresolved_action'' as_bool) (\<lambda>unresolved_action.
     Option.bind (read_field m ''consecutive_failures'' read_u8) (\<lambda>failures.
     Option.bind (read_field m ''revision'' read_u64) (\<lambda>revision.
     Option.bind (read_option m ''last_action'' read_last_action) (\<lambda>last_action.
       Some \<lparr>ls_backend = backend, ls_pair_configuration = configuration, ls_members = members,
             ls_managed_state = managed_state, ls_backend_health = health,
             ls_unresolved_action = unresolved_action, ls_consecutive_failures = failures,
             ls_revision = revision, ls_last_action = last_action\<rparr>))))))))))"

subsection \<open>Plausible projections\<close>

definition valid_health_projection :: "LocalHealth \<Rightarrow> bool" where
  "valid_health_projection health =
     (case lh_aura_acquisition_route health of
        LocalAuraAcquisitionRoute.StableDirect \<Rightarrow> lh_aura_transport health = LocalAuraTransport.BrEdr
      | LocalAuraAcquisitionRoute.A2dpWakeThenStable \<Rightarrow> lh_aura_transport health = LocalAuraTransport.BrEdr
      | LocalAuraAcquisitionRoute.FreshLe \<Rightarrow> lh_aura_transport health = LocalAuraTransport.Le
      | LocalAuraAcquisitionRoute.Unresolved \<Rightarrow> True)"

definition valid_member_projection :: "LocalPairMember \<Rightarrow> bool" where
  "valid_member_projection member =
     (let channels = lpm_channels member
      in channels \<noteq> [] \<and> length channels \<le> 6
         \<and> list_all (\<lambda>index.
              (channels ! index \<noteq> LocalPairMemberChannel.Unknown \<or> length channels = 1)
              \<and> channels ! index \<notin> set (take index channels)) [0..<length channels])"

definition valid_status_projection :: "LocalStatus \<Rightarrow> bool" where
  "valid_status_projection s =
     (let (first, second) = ls_members s
      in if lpm_name first \<noteq> LocalPairMemberName.JblAuthentics300
            \<or> lpm_name second \<noteq> LocalPairMemberName.AuraStudio5
            \<or> \<not> valid_member_projection first \<or> \<not> valid_member_projection second
            \<or> (\<exists>action \<in> set_option (ls_last_action s). ls_revision s < lla_revision action)
            \<or> (\<exists>health \<in> set_option (ls_backend_health s). \<not> valid_health_projection health)
         then False
         else list_all (\<lambda>member.
           (case ls_pair_configuration s of
              LocalPairConfiguration.Ready \<Rightarrow>
                lpm_verification member = LocalPairMemberVerification.Verified
            | LocalPairConfiguration.NotReady \<Rightarrow>
                lpm_verification member \<noteq> LocalPairMemberVerification.Unavailable
            | LocalPairConfiguration.Unavailable \<Rightarrow>
                lpm_verification member = LocalPairMemberVerification.Unavailable)) [first, second])"

subsection \<open>Responses\<close>

record LocalHttpResponse =
  lr_status :: nat
  lr_headers :: "(string \<times> string) list"
  lr_body :: string

definition valid_header_name :: "string \<Rightarrow> bool" where
  "valid_header_name v \<longleftrightarrow>
     v \<noteq> [] \<and> list_all (\<lambda>c. is_ascii_alphanumeric c \<or> c \<in> set ''!#$%&*+-.^_`|~'' \<or> byte c = 0x27) v"

definition valid_header_value :: "string \<Rightarrow> bool" where
  "valid_header_value v \<longleftrightarrow> list_all (\<lambda>c. c = CHR 0x09 \<or> 0x20 \<le> byte c \<and> byte c \<le> 0x7E) v"

fun response_headers ::
  "nat \<Rightarrow> string list \<Rightarrow> (string \<times> string) list \<Rightarrow> (LocalClientError, (string \<times> string) list) result" where
  "response_headers count [] headers = Inr headers"
| "response_headers count (line # lines) headers =
     (if MAX_HEADER_COUNT \<le> count \<or> line = [] \<or> blank_start line then Inl LocalClientError.InvalidResponse
      else case split_once CHR '':'' line of
          None \<Rightarrow> Inl LocalClientError.InvalidResponse
        | Some (raw_name, raw_value) \<Rightarrow>
            let name = to_ascii_lowercase raw_name; v = trim_matches blanks raw_value
            in if \<not> valid_header_name name \<or> \<not> valid_header_value v \<or> map_of headers name \<noteq> None
               then Inl LocalClientError.InvalidResponse
               else response_headers (Suc count) lines ((name, v) # headers))"

definition parse_status_line :: "string \<Rightarrow> (LocalClientError, nat) result" where
  "parse_status_line line =
     (case split_once CHR '' '' line of
        None \<Rightarrow> Inl LocalClientError.InvalidResponse
      | Some (version, rest) \<Rightarrow>
          if version \<noteq> ''HTTP/1.1'' then Inl LocalClientError.InvalidResponse
          else
            let (code, reason) = (case split_once CHR '' '' rest of
                                    None \<Rightarrow> (rest, None) | Some (c, r) \<Rightarrow> (c, Some r))
            in if length code \<noteq> 3 \<or> \<not> list_all is_ascii_digit code then Inl LocalClientError.InvalidResponse
               else case parse_unsigned 65535 code of
                   None \<Rightarrow> Inl LocalClientError.InvalidResponse
                 | Some s \<Rightarrow> if reason = None then Inl LocalClientError.InvalidResponse else Inr s)"

definition finish_response ::
  "nat \<Rightarrow> (string \<times> string) list \<Rightarrow> string \<Rightarrow> (LocalClientError, LocalHttpResponse) result" where
  "finish_response code headers body =
     (if map_of headers ''transfer-encoding'' \<noteq> None then Inl LocalClientError.InvalidResponse
      else case Option.bind (map_of headers ''content-length'') (parse_unsigned (2 ^ 64 - 1)) of
          None \<Rightarrow> Inl LocalClientError.InvalidResponse
        | Some content_length \<Rightarrow>
            if length body \<noteq> content_length \<or> MAX_RESPONSE_BYTES < length body
            then Inl LocalClientError.InvalidResponse
            else Inr \<lparr>lr_status = code, lr_headers = headers, lr_body = body\<rparr>)"

definition parse_response :: "string \<Rightarrow> (LocalClientError, LocalHttpResponse) result" where
  "parse_response payload =
     (case find_subslice payload HEAD_END of
        None \<Rightarrow> Inl LocalClientError.InvalidResponse
      | Some head_end \<Rightarrow>
          if MAX_HEADER_BYTES < head_end then Inl LocalClientError.ResponseTooLarge
          else
            let head = take head_end payload
            in if \<not> utf8_valid head \<or> \<not> list_all head_byte head then Inl LocalClientError.InvalidResponse
               else case split_crlf head of
                   [] \<Rightarrow> Inl LocalClientError.InvalidResponse
                 | status_line # lines \<Rightarrow>
                     and_then (parse_status_line status_line) (\<lambda>code.
                     and_then (response_headers 0 lines []) (\<lambda>headers.
                       finish_response code headers (drop (head_end + 4) payload))))"

subsection \<open>One exchange\<close>

record 'w client_net =
  cn_now :: "'w \<Rightarrow> nat"
  cn_connect :: "SocketAddr \<Rightarrow> duration \<Rightarrow> ('w, io_error, unit) fallible"
  cn_set_write_timeout :: "duration \<Rightarrow> ('w, io_error, unit) fallible"
  cn_write :: "string \<Rightarrow> ('w, io_error, nat) fallible"
  cn_set_read_timeout :: "duration \<Rightarrow> ('w, io_error, unit) fallible"
  cn_read :: "nat \<Rightarrow> ('w, io_error, string) fallible"

type_synonym ('w, 'a) run = "('w, LocalClientError, 'a) partial_run"

fun map_io_error :: "io_error \<Rightarrow> LocalClientError" where
  "map_io_error io_error.TimedOut = LocalClientError.TimedOut"
| "map_io_error io_error.WouldBlock = LocalClientError.TimedOut"
| "map_io_error _ = LocalClientError.Unavailable"

fun map_connect_error :: "io_error \<Rightarrow> LocalClientError" where
  "map_connect_error io_error.TimedOut = LocalClientError.TimedOut"
| "map_connect_error io_error.WouldBlock = LocalClientError.TimedOut"
| "map_connect_error _ = LocalClientError.Unavailable"

definition remaining :: "'w client_net \<Rightarrow> nat \<Rightarrow> ('w, LocalClientError, duration) fallible" where
  "remaining net deadline w =
     (if cn_now net w < deadline then Inr (deadline - cn_now net w) else Inl LocalClientError.TimedOut, w)"

partial_function (option) write_all_before ::
  "'w client_net \<Rightarrow> nat \<Rightarrow> string \<Rightarrow> ('w, unit) run" where
  "write_all_before net deadline payload w =
     (if payload = [] then Some (Inr (), w)
      else
        case try_bind (remaining net deadline) (\<lambda>d. with_err map_io_error (cn_set_write_timeout net d)) w of
          (Inl e, w) \<Rightarrow> Some (Inl e, w)
        | (Inr _, w) \<Rightarrow>
            (case cn_write net payload w of
               (Inr written, w) \<Rightarrow>
                 if written = 0 then Some (Inl LocalClientError.Unavailable, w)
                 else write_all_before net deadline (drop written payload) w
             | (Inl e, w) \<Rightarrow>
                 if e = io_error.Interrupted then write_all_before net deadline payload w
                 else Some (Inl (map_io_error e), w)))"

definition READ_CHUNK :: nat where "READ_CHUNK = 2048"

partial_function (option) read_to_end_loop ::
  "'w client_net \<Rightarrow> nat \<Rightarrow> string \<Rightarrow> ('w, string) run" where
  "read_to_end_loop net deadline payload w =
     (case try_bind (remaining net deadline) (\<lambda>d. with_err map_io_error (cn_set_read_timeout net d)) w of
        (Inl e, w) \<Rightarrow> Some (Inl e, w)
      | (Inr _, w) \<Rightarrow>
          (case cn_read net READ_CHUNK w of
             (Inr chunk, w) \<Rightarrow>
               if chunk = [] then Some (Inr payload, w)
               else if MAX_RESPONSE_BYTES < length payload + length chunk
               then Some (Inl LocalClientError.ResponseTooLarge, w)
               else read_to_end_loop net deadline (payload @ chunk) w
           | (Inl e, w) \<Rightarrow>
               if e = io_error.Interrupted then read_to_end_loop net deadline payload w
               else Some (Inl (map_io_error e), w)))"

definition read_to_end_before :: "'w client_net \<Rightarrow> nat \<Rightarrow> ('w, string) run" where
  "read_to_end_before net deadline = read_to_end_loop net deadline []"

record LocalServiceClient =
  lsc_address :: SocketAddr

definition local_service_client_default :: LocalServiceClient where
  "local_service_client_default =
     \<lparr>lsc_address = \<lparr>sa_ip = IpAddr.V4 LOCALHOST4, sa_port = DEFAULT_WEB_PORT\<rparr>\<rparr>"

definition authority :: "LocalServiceClient \<Rightarrow> string" where
  "authority client = ''127.0.0.1:'' @ show_nat (unat (sa_port (lsc_address client)))"

definition origin :: "LocalServiceClient \<Rightarrow> string" where
  "origin client = ''http://'' @ authority client"

definition header_text :: "string \<times> string \<Rightarrow> string" where
  "header_text h = fst h @ '': '' @ snd h @ CRLF"

text \<open>The bytes of a request; a header that may not be written ends the request.\<close>

definition request_text ::
  "LocalServiceClient \<Rightarrow> string \<Rightarrow> string \<Rightarrow> (string \<times> string) list \<Rightarrow> string
    \<Rightarrow> (LocalClientError, string) result" where
  "request_text client method path headers body =
     (if list_all (\<lambda>h. valid_header_name (fst h) \<and> valid_header_value (snd h)) headers then
        Inr (method @ '' '' @ path @ '' HTTP/1.1'' @ CRLF @ ''Host: '' @ authority client @ CRLF
             @ ''Accept: application/json'' @ CRLF @ ''Accept-Encoding: identity'' @ CRLF
             @ ''Connection: close'' @ CRLF @ ''Content-Length: '' @ show_nat (length body) @ CRLF
             @ concat (map header_text headers) @ CRLF @ body)
      else Inl LocalClientError.InvalidResponse)"

definition request ::
  "'w client_net \<Rightarrow> LocalServiceClient \<Rightarrow> string \<Rightarrow> string \<Rightarrow> (string \<times> string) list \<Rightarrow> string
    \<Rightarrow> duration \<Rightarrow> ('w, LocalHttpResponse) run" where
  "request net client method path headers body timeout w =
     (let deadline = cn_now net w + timeout
      in run_bind (total_run (remaining net deadline)) (\<lambda>left.
         run_bind (total_run (with_err map_connect_error
                     (cn_connect net (lsc_address client) (min left CONNECT_TIMEOUT)))) (\<lambda>_.
         run_bind (total_run (lift_result (request_text client method path headers body))) (\<lambda>text.
         run_bind (write_all_before net deadline text) (\<lambda>_.
         run_bind (read_to_end_before net deadline) (\<lambda>payload.
           total_run (lift_result (parse_response payload))))))) w)"

subsection \<open>Operations\<close>

definition READY_BODY :: string where
  "READY_BODY = ''{'' @ quoted ''status'' @ '':'' @ quoted ''ready'' @ ''}''"

definition client_ready :: "'w client_net \<Rightarrow> LocalServiceClient \<Rightarrow> ('w, unit) run" where
  "client_ready net client =
     run_bind (request net client ''GET'' ''/healthz'' [] [] READY_TIMEOUT) (\<lambda>r.
       total_run (lift_result
         (if lr_status r = 200 \<and> lr_body r = READY_BODY then Inr ()
          else Inl LocalClientError.InvalidResponse)))"

definition etag :: "64 word \<Rightarrow> string" where
  "etag revision = quoted (show_nat (unat revision))"

definition check_status :: "(string \<Rightarrow> Value option) \<Rightarrow> LocalHttpResponse \<Rightarrow> (LocalClientError, LocalStatus) result" where
  "check_status from_slice r =
     (if lr_status r \<noteq> 200 then Inl LocalClientError.ServiceRejected
      else case Option.bind (from_slice (lr_body r)) read_status of
          None \<Rightarrow> Inl LocalClientError.InvalidResponse
        | Some s \<Rightarrow>
            if \<not> valid_status_projection s then Inl LocalClientError.InvalidResponse
            else if map_of (lr_headers r) ''etag'' \<noteq> Some (etag (ls_revision s))
            then Inl LocalClientError.InvalidResponse
            else Inr s)"

definition client_status ::
  "'w client_net \<Rightarrow> (string \<Rightarrow> Value option) \<Rightarrow> LocalServiceClient \<Rightarrow> ('w, LocalStatus) run" where
  "client_status net from_slice client =
     run_bind (request net client ''GET'' ''/api/status'' [] [] STATUS_TIMEOUT) (\<lambda>r.
       total_run (lift_result (check_status from_slice r)))"

definition check_cookie :: "LocalHttpResponse \<Rightarrow> (LocalClientError, string) result" where
  "check_cookie r =
     (if lr_status r \<noteq> 200 then Inl LocalClientError.ServiceRejected
      else case map_of (lr_headers r) ''set-cookie'' of
          None \<Rightarrow> Inl LocalClientError.InvalidResponse
        | Some cookie \<Rightarrow>
            (case split_char CHR '';'' cookie of
               [] \<Rightarrow> Inl LocalClientError.InvalidResponse
             | first # _ \<Rightarrow>
                 (case split_once CHR ''='' first of
                    None \<Rightarrow> Inl LocalClientError.InvalidResponse
                  | Some (name, token) \<Rightarrow>
                      if name \<noteq> CSRF_COOKIE \<or> length token \<noteq> 64
                         \<or> \<not> list_all (\<lambda>c. is_ascii_hexdigit c \<and> \<not> is_ascii_uppercase c) token
                      then Inl LocalClientError.InvalidResponse else Inr token)))"

definition csrf_cookie :: "'w client_net \<Rightarrow> LocalServiceClient \<Rightarrow> ('w, string) run" where
  "csrf_cookie net client =
     run_bind (request net client ''GET'' ''/'' [] [] READY_TIMEOUT) (\<lambda>r.
       total_run (lift_result (check_cookie r)))"

definition check_action ::
  "(string \<Rightarrow> Value option) \<Rightarrow> LocalActionName \<Rightarrow> 64 word \<Rightarrow> LocalHttpResponse
    \<Rightarrow> (LocalClientError, LocalActionResult) result" where
  "check_action from_slice expected_action revision r =
     (if lr_status r = 409 then Inl LocalClientError.RevisionConflict
      else if lr_status r \<noteq> 200 then Inl LocalClientError.ServiceRejected
      else case Option.bind (from_slice (lr_body r)) read_action_result of
          None \<Rightarrow> Inl LocalClientError.InvalidResponse
        | Some result \<Rightarrow>
            if lar_action result \<noteq> expected_action \<or> lar_revision result \<le> revision
            then Inl LocalClientError.InvalidResponse
            else if map_of (lr_headers r) ''etag'' \<noteq> Some (etag (lar_revision result))
            then Inl LocalClientError.InvalidResponse
            else Inr result)"

definition mutation_headers :: "LocalServiceClient \<Rightarrow> 64 word \<Rightarrow> string \<Rightarrow> (string \<times> string) list" where
  "mutation_headers client revision csrf =
     [(''Origin'', origin client), (''Content-Type'', ''application/json''),
      (''If-Match'', etag revision), (''X-CSRF-Token'', csrf),
      (''Cookie'', CSRF_COOKIE @ ''='' @ csrf)]"

definition mutate_with_body ::
  "'w client_net \<Rightarrow> (string \<Rightarrow> Value option) \<Rightarrow> LocalServiceClient \<Rightarrow> string \<Rightarrow> LocalActionName \<Rightarrow> string
    \<Rightarrow> ('w, LocalActionResult) run" where
  "mutate_with_body net from_slice client path expected_action body =
     run_bind (csrf_cookie net client) (\<lambda>csrf.
     run_bind (client_status net from_slice client) (\<lambda>s.
     run_bind (request net client ''POST'' path (mutation_headers client (ls_revision s) csrf) body
                 ACTION_TIMEOUT) (\<lambda>r.
       total_run (lift_result (check_action from_slice expected_action (ls_revision s) r)))))"

definition client_mutate where
  "client_mutate net from_slice client path expected_action =
     mutate_with_body net from_slice client path expected_action ''{}''"

definition client_start where
  "client_start net from_slice client =
     client_mutate net from_slice client ''/api/start'' LocalActionName.Start"

definition client_stop where
  "client_stop net from_slice client =
     client_mutate net from_slice client ''/api/stop'' LocalActionName.Stop"

definition RECOVER_STOP_BODY :: string where
  "RECOVER_STOP_BODY = ''{'' @ quoted ''confirm'' @ '':'' @ quoted ''recover-stop'' @ ''}''"

definition client_recover_stop where
  "client_recover_stop net from_slice client =
     mutate_with_body net from_slice client ''/internal/recover-stop'' LocalActionName.RecoverStop
       RECOVER_STOP_BODY"

end
