(* ===== verification/Web_Requests.thy ===== *)
theory Web_Requests
  imports Web
begin

text \<open>
  What the request readers of the web boundary guarantee: a parsed request is exactly one frame, nothing may
  follow a frame, a well-formed written request is read back, and an actor is only touched by an admitted
  request.
\<close>

subsection \<open>Every parsed request is one frame\<close>

lemma header_literals:
  "to_ascii_lowercase ''content-length'' = ''content-length''"
  "to_ascii_lowercase ''transfer-encoding'' = ''transfer-encoding''"
  by (simp_all add: to_ascii_lowercase_def ascii_lower_def is_ascii_uppercase_def)

lemma parse_header_lines_keeps:
  "parse_header_lines count lines headers = Inr hs \<Longrightarrow> map_of headers k = Some v \<Longrightarrow> map_of hs k = Some v"
proof (induction lines arbitrary: count headers)
  case (Cons line lines)
  from Cons.prems obtain n w where "map_of headers n = None"
      "parse_header_lines (Suc count) lines ((n, w) # headers) = Inr hs"
    by (auto simp: Let_def split: if_splits option.splits)
  with Cons.prems(2) Cons.IH [of "Suc count" "(n, w) # headers"] show ?case
    by (cases "k = n") auto
qed simp

text \<open>The content length the headers read so far give.\<close>

definition declared_length :: "(string \<times> string) list \<Rightarrow> nat option" where
  "declared_length headers = Option.bind (map_of headers ''content-length'') (\<lambda>v. ok (parse_content_length v))"

lemma frame_follows_parse:
  assumes "parse_header_lines count lines headers = Inr hs"
    and "map_of hs ''transfer-encoding'' = None"
    and "\<And>v. map_of hs ''content-length'' = Some v \<Longrightarrow>
           \<exists>n. parse_content_length v = Inr n \<and> n \<le> MAX_BODY_BYTES"
  shows "frame_headers lines (declared_length headers) = Some (declared_length hs)"
  using assms
proof (induction count lines headers rule: parse_header_lines.induct)
  case (2 count line lines headers)
  obtain name raw where sp: "split_once CHR '':'' line = Some (name, raw)"
    using 2(2) by (auto simp: Let_def split: if_splits option.splits)
  define v where "v = trim_matches blanks raw"
  define n where "n = to_ascii_lowercase name"
  have ok: "\<not> (MAX_HEADER_COUNT < Suc count \<or> line = [] \<or> blank_start line)"
      "\<not> (name = [] \<or> \<not> list_all is_tchar name)" "list_all printable v" "map_of headers n = None"
    and rest: "parse_header_lines (Suc count) lines ((n, v) # headers) = Inr hs"
    using 2(2) sp by (auto simp: Let_def v_def n_def split: if_splits)
  have IH: "frame_headers lines (declared_length ((n, v) # headers)) = Some (declared_length hs)"
    using 2(1) [OF refl _ sp refl _ refl _ refl] ok rest 2(3,4) unfolding v_def n_def by auto
  have v: "map_of hs n = Some v"
    using parse_header_lines_keeps [OF rest, of n v] by simp
  have te: "n \<noteq> ''transfer-encoding''"
    using v 2(3) by auto
  show ?case
  proof (cases "n = ''content-length''")
    case True
    then obtain len where len: "parse_content_length v = Inr len" "len \<le> MAX_BODY_BYTES"
      using v 2(4) by auto
    have "declared_length headers = None"
      using ok(4) True by (simp add: declared_length_def)
    moreover have "declared_length ((n, v) # headers) = Some len"
      using len True by (simp add: declared_length_def)
    ultimately show ?thesis
      using ok sp te True len IH
      by (simp add: eq_ignore_ascii_case_def header_literals Let_def flip: v_def n_def)
  next
    case False
    then have "declared_length ((n, v) # headers) = declared_length headers"
      by (simp add: declared_length_def)
    then show ?thesis
      using ok sp te False IH
      by (simp add: eq_ignore_ascii_case_def header_literals Let_def flip: v_def n_def)
  qed
qed simp

lemma parse_request_line_sel:
  assumes "parse_request_line line = Inr (method, target)"
  obtains method_text where "split_char CHR '' '' line = [method_text, target, ''HTTP/1.1'']"
    and "method = method_of method_text"
proof -
  obtain a b c where l: "split_char CHR '' '' line = [a, b, c]"
    using assms unfolding parse_request_line_def by (simp split: list.splits)
  show ?thesis
    using assms that [of a] unfolding parse_request_line_def l list.case by (simp split: if_splits)
qed

lemma parse_request_sel:
  assumes "parse_request raw = Inr request"
  obtains head_end request_line lines meth tgt headers where
    "find_subslice raw HEAD_END = Some head_end" and "head_end \<le> MAX_HEADER_BYTES"
    and "utf8_valid (take head_end raw)"
    and "split_crlf (take head_end raw) = request_line # lines"
    and "parse_request_line request_line = Inr (meth, tgt)"
    and "parse_header_lines 0 lines [] = Inr headers"
    and "finish_request meth tgt headers (drop (head_end + 4) raw) = Inr request"
proof -
  obtain head_end where h: "find_subslice raw HEAD_END = Some head_end" "\<not> MAX_HEADER_BYTES < head_end"
    using assms unfolding parse_request_def by (cases "find_subslice raw HEAD_END") (simp_all split: if_splits)
  note at_head = assms [unfolded parse_request_def h(1) option.case Let_def if_not_P [OF h(2)]]
  have u: "\<not> list_ex (\<lambda>c. \<not> head_byte c) (take head_end raw)" "utf8_valid (take head_end raw)"
    using at_head by (simp_all split: if_splits)
  obtain request_line lines where l: "split_crlf (take head_end raw) = request_line # lines"
    using split_crlf_nonempty by (meson neq_Nil_conv)
  show ?thesis
    using at_head u h l that by (auto split: prod.splits)
qed

lemma check_body_Inr:
  "check_body method content_length body = Inr () \<longleftrightarrow>
     (method = Method.Post \<longrightarrow> content_length \<noteq> None)
     \<and> length body = (case content_length of None \<Rightarrow> 0 | Some n \<Rightarrow> n)
     \<and> length body \<le> MAX_BODY_BYTES \<and> (method = Method.Get \<longrightarrow> body = [])"
  by (cases content_length) (auto simp: check_body_def)

lemma header_content_length_Inr:
  "header_content_length headers = Inr content_length \<longleftrightarrow>
     content_length = declared_length headers
     \<and> (\<forall>v. map_of headers ''content-length'' = Some v \<longrightarrow> is_ok (parse_content_length v))"
  by (auto simp: header_content_length_def declared_length_def is_ok_iff split: option.splits)

lemma finish_request_Inr:
  "finish_request method target headers body = Inr request \<longleftrightarrow>
     list_all (\<lambda>forbidden. map_of headers forbidden = None) forbidden_headers
     \<and> header_content_length headers = Inr (declared_length headers)
     \<and> check_body method (declared_length headers) body = Inr ()
     \<and> request = \<lparr>pr_method = method, pr_target = target, pr_headers = headers, pr_body = body,
                   pr_content_length = declared_length headers\<rparr>"
  by (auto simp: finish_request_def list_ex_iff list_all_iff header_content_length_Inr)

lemma parsed_is_complete:
  assumes "parse_request raw = Inr request"
  shows "request_frame raw = RequestFrame.Complete"
proof -
  obtain head_end request_line lines meth tgt headers where
    h: "find_subslice raw HEAD_END = Some head_end" "head_end \<le> MAX_HEADER_BYTES" "utf8_valid (take head_end raw)"
      "split_crlf (take head_end raw) = request_line # lines"
    and r: "parse_request_line request_line = Inr (meth, tgt)"
    and p: "parse_header_lines 0 lines [] = Inr headers"
    and f: "finish_request meth tgt headers (drop (head_end + 4) raw) = Inr request"
    using parse_request_sel [OF assms] .
  obtain method_text where m: "split_char CHR '' '' request_line = [method_text, tgt, ''HTTP/1.1'']"
      "meth = method_of method_text"
    using parse_request_line_sel [OF r] .
  have te: "map_of headers ''transfer-encoding'' = None"
    using f by (simp add: finish_request_Inr forbidden_headers_def)
  have body: "check_body meth (declared_length headers) (drop (head_end + 4) raw) = Inr ()"
    using f by (simp add: finish_request_Inr)
  have cl: "\<exists>n. parse_content_length v = Inr n \<and> n \<le> MAX_BODY_BYTES"
    if "map_of headers ''content-length'' = Some v" for v
    using f that by (auto simp: finish_request_Inr header_content_length_Inr check_body_Inr declared_length_def is_ok_iff)
  have "declared_length [] = None"
    by (simp add: declared_length_def)
  then have frame: "frame_headers lines None = Some (declared_length headers)"
    using frame_follows_parse [OF p te cl] by simp
  have bound: "head_end + 4 \<le> length raw"
    using find_subslice_bound [OF h(1)] by (simp add: HEAD_END_def CRLF_def)
  then have len: "length raw = head_end + 4 + (case declared_length headers of None \<Rightarrow> 0 | Some n \<Rightarrow> n)"
    using body unfolding check_body_Inr length_drop by linarith
  have small: "(case declared_length headers of None \<Rightarrow> 0 | Some n \<Rightarrow> n) \<le> MAX_BODY_BYTES"
    using body by (simp add: check_body_Inr)
  have post: "method_text = ''POST'' \<Longrightarrow> declared_length headers \<noteq> None"
    using body m(2) by (simp add: check_body_Inr method_of_def)
  show ?thesis
    using h m frame len small post unfolding request_frame_def
    by (auto simp: MAX_REQUEST_BYTES_def Let_def split: option.splits)
qed

subsection \<open>Nothing may follow a frame\<close>

lemma complete_frame_is_final:
  assumes "request_frame raw = RequestFrame.Complete"
  shows "request_frame (raw @ c # t) \<noteq> RequestFrame.Complete"
proof -
  obtain head_end where h: "find_subslice raw HEAD_END = Some head_end"
    using assms by (auto simp: request_frame_def split: if_splits option.splits)
  then have h': "find_subslice (raw @ c # t) HEAD_END = Some head_end"
    by (rule find_subslice_append)
  have "head_end \<le> length raw"
    using find_subslice_bound [OF h] by simp
  then have same: "take head_end (raw @ c # t) = take head_end raw"
    by simp
  obtain line lines where l: "split_crlf (take head_end raw) = line # lines"
    using split_crlf_nonempty by (meson neq_Nil_conv)
  obtain m a b where r: "split_char CHR '' '' line = [m, a, b]"
    using assms h l by (simp add: request_frame_def split: if_splits list.splits)
  obtain cl where f: "frame_headers lines None = Some cl"
    using assms h l r by (simp add: request_frame_def split: if_splits option.splits)
  have "length raw = head_end + 4 + (case cl of None \<Rightarrow> 0 | Some n \<Rightarrow> n)"
    using assms h l r f by (simp add: request_frame_def Let_def split: if_splits)
  then show ?thesis
    using h' same l r f by (simp add: request_frame_def Let_def)
qed

subsection \<open>Reading back what a writer wrote\<close>

text \<open>A header a reader takes as it was written.\<close>

definition plain_value :: "string \<Rightarrow> bool" where
  "plain_value v \<longleftrightarrow> list_all printable v \<and> trim_matches blanks v = v"

definition plain_header :: "string \<times> string \<Rightarrow> bool" where
  "plain_header h \<longleftrightarrow> fst h \<noteq> [] \<and> list_all is_tchar (fst h) \<and> plain_value (snd h)"

definition header_line :: "string \<times> string \<Rightarrow> string" where
  "header_line h = fst h @ '': '' @ snd h"

lemma trim_matches_blank: "trim_matches blanks (CHR '' '' # v) = trim_matches blanks v"
  by (simp add: trim_matches_def)

lemma tchar_sel: "is_tchar c \<Longrightarrow> c \<noteq> CHR '':'' \<and> c \<notin> blanks \<and> c \<noteq> CHR 0x0D \<and> c \<noteq> CHR 0x0A"
  by (auto simp: is_tchar_def is_ascii_alphanumeric_def is_ascii_digit_def is_ascii_uppercase_def is_ascii_lowercase_def)

lemma header_line_sel:
  assumes "plain_header h"
  shows "header_line h \<noteq> []" "\<not> blank_start (header_line h)"
    "split_once CHR '':'' (header_line h) = Some (fst h, CHR '' '' # snd h)"
proof -
  have "CHR '':'' \<notin> set (fst h)"
    using assms tchar_sel by (fastforce simp: plain_header_def list_all_iff)
  then show "split_once CHR '':'' (header_line h) = Some (fst h, CHR '' '' # snd h)"
    by (simp add: header_line_def split_once_append)
  show "header_line h \<noteq> []" "\<not> blank_start (header_line h)"
    using assms tchar_sel by (cases "fst h"; fastforce simp: plain_header_def header_line_def blank_start_def)+
qed

lemma printable_no_cr: "list_all printable v \<Longrightarrow> CHR 0x0D \<notin> set v"
  by (auto simp: list_all_iff printable_def)

lemma header_line_no_cr: "plain_header h \<Longrightarrow> CHR 0x0D \<notin> set (header_line h)"
  using tchar_sel printable_no_cr
  by (fastforce simp: plain_header_def plain_value_def header_line_def list_all_iff)

lemma parse_header_lines_written:
  assumes "list_all plain_header hs" and "count + length hs \<le> MAX_HEADER_COUNT"
    and "distinct (map (\<lambda>h. to_ascii_lowercase (fst h)) hs @ map fst headers)"
  shows "parse_header_lines count (map header_line hs) headers =
    Inr (rev (map (apfst to_ascii_lowercase) hs) @ headers)"
  using assms
proof (induction hs arbitrary: count headers)
  case (Cons h hs)
  have h: "plain_header h"
    using Cons.prems by simp
  define n where "n = to_ascii_lowercase (fst h)"
  have "map_of headers n = None"
    using Cons.prems(3) by (simp add: n_def map_of_eq_None_iff)
  then have "parse_header_lines count (map header_line (h # hs)) headers =
      parse_header_lines (Suc count) (map header_line hs) ((n, snd h) # headers)"
    using header_line_sel [OF h] h Cons.prems(2)
    by (simp add: Let_def trim_matches_blank plain_header_def plain_value_def n_def)
  also have "\<dots> = Inr (rev (map (apfst to_ascii_lowercase) hs) @ (n, snd h) # headers)"
    using Cons.prems by (intro Cons.IH) (auto simp: n_def)
  finally show ?case
    by (simp add: apfst_def map_prod_def n_def case_prod_unfold)
qed simp

definition written_request :: "string \<Rightarrow> string \<Rightarrow> (string \<times> string) list \<Rightarrow> string \<Rightarrow> string" where
  "written_request m t hs body =
     join_crlf ((m @ '' '' @ t @ '' HTTP/1.1'') # map header_line hs) @ HEAD_END @ body"

lemma target_ok_sel: "target_ok t \<Longrightarrow> t \<noteq> [] \<and> CHR '' '' \<notin> set t \<and> list_all printable t"
  by (cases t) (auto simp: target_ok_def starts_with_def printable_def list_all_iff)

lemma tchar_printable: "is_tchar c \<Longrightarrow> printable c"
  by (auto simp: is_tchar_def printable_def is_ascii_alphanumeric_def is_ascii_digit_def
      is_ascii_uppercase_def is_ascii_lowercase_def)

lemma tchars_sel: "list_all is_tchar m \<Longrightarrow> CHR '' '' \<notin> set m \<and> list_all printable m"
  using tchar_sel tchar_printable by (fastforce simp: list_all_iff)

lemma request_line_read:
  assumes "m \<noteq> []" and "list_all is_tchar m" and "target_ok t"
  shows "parse_request_line (m @ '' '' @ t @ '' HTTP/1.1'') = Inr (method_of m, t)"
proof -
  have "split_char CHR '' '' (m @ CHR '' '' # t @ CHR '' '' # ''HTTP/1.1'') = [m, t, ''HTTP/1.1'']"
    using tchars_sel [OF assms(2)] target_ok_sel [OF assms(3)]
    by (simp add: split_char_append split_char_none del: split_char.simps)
  then show ?thesis
    using assms target_ok_sel [OF assms(3)] by (simp add: parse_request_line_def)
qed

lemma set_join_crlf: "set (join_crlf ls) \<subseteq> \<Union> (set ` set ls) \<union> set CRLF"
  by (induction ls rule: join_crlf.induct) auto

lemma printable_head_bytes:
  assumes "list_all (list_all printable) ls"
  shows "list_all head_byte (join_crlf ls)"
  using assms set_join_crlf [of ls] by (fastforce simp: list_all_iff head_byte_def CRLF_def)

lemma head_bytes_utf8: "list_all head_byte s \<Longrightarrow> utf8_valid s"
proof (rule all_ascii_utf8)
  have "head_byte c \<Longrightarrow> byte c < 0x80" for c
    unfolding head_byte_def printable_def by (elim disjE) simp_all
  then show "list_all head_byte s \<Longrightarrow> all_ascii s"
    unfolding all_ascii_def by (simp add: list_all_iff)
qed

lemma header_line_printable: "plain_header h \<Longrightarrow> list_all printable (header_line h)"
  using tchars_sel by (auto simp: plain_header_def plain_value_def header_line_def printable_def)

lemma parse_request_written:
  assumes "m \<noteq> []" "list_all is_tchar m" "target_ok t"
    and hs: "list_all plain_header hs" "length hs \<le> MAX_HEADER_COUNT"
      "distinct (map (\<lambda>h. to_ascii_lowercase (fst h)) hs)"
    and size: "length (join_crlf ((m @ '' '' @ t @ '' HTTP/1.1'') # map header_line hs)) \<le> MAX_HEADER_BYTES"
  shows "parse_request (written_request m t hs body) =
    finish_request (method_of m) t (rev (map (apfst to_ascii_lowercase) hs)) body"
proof -
  define rl where "rl = m @ '' '' @ t @ '' HTTP/1.1''"
  define head where "head = join_crlf (rl # map header_line hs)"
  have "list_all printable rl"
    using tchars_sel [OF assms(2)] target_ok_sel [OF assms(3)] by (simp add: rl_def printable_def)
  then have printable: "list_all (list_all printable) (rl # map header_line hs)"
    using hs(1) header_line_printable by (auto simp: list_all_iff)
  have rl: "rl \<noteq> []"
    by (simp add: rl_def)
  have lines: "list_all (\<lambda>l. l \<noteq> [] \<and> CHR 0x0D \<notin> set l) (rl # map header_line hs)"
    using printable printable_no_cr hs(1) header_line_sel(1) rl by (auto simp: list_all_iff)
  then have find: "find_subslice (head @ HEAD_END @ body) HEAD_END = Some (length head)"
    unfolding head_def by (intro find_head_end) simp_all
  have bytes: "list_all head_byte head"
    unfolding head_def using printable by (rule printable_head_bytes)
  have split: "split_crlf head = rl # map header_line hs"
    unfolding head_def by (rule split_crlf_join) (use lines in \<open>auto simp: list_all_iff\<close>)
  have rest: "drop (length head + 4) (head @ HEAD_END @ body) = body"
    by (simp add: HEAD_END_def CRLF_def)
  have headers: "parse_header_lines 0 (map header_line hs) [] = Inr (rev (map (apfst to_ascii_lowercase) hs))"
    using parse_header_lines_written [of hs 0 "[]"] hs by simp
  have line: "parse_request_line rl = Inr (method_of m, t)"
    unfolding rl_def using assms by (intro request_line_read)
  have "\<not> list_ex (\<lambda>c. \<not> head_byte c) head" "utf8_valid head" "\<not> MAX_HEADER_BYTES < length head"
    using bytes head_bytes_utf8 size by (auto simp: list_ex_iff list_all_iff head_def rl_def)
  then have "parse_request (head @ HEAD_END @ body) =
      finish_request (method_of m) t (rev (map (apfst to_ascii_lowercase) hs)) body"
    using find split rest headers line by (simp add: parse_request_def Let_def and_then_def)
  then show ?thesis
    by (simp add: written_request_def head_def rl_def)
qed

subsection \<open>Who may touch the actor\<close>

text \<open>A request with a loopback host of the configured port and, when it names an origin, the same origin.\<close>

definition admitted :: "WebSecurity \<Rightarrow> ParsedRequest \<Rightarrow> bool" where
  "admitted security request \<longleftrightarrow>
     (\<exists>h host. single_header request ''host'' = Some h \<and> authority_parse h (port security) = Some host
        \<and> (\<forall>origin. single_header request ''origin'' = Some origin \<longrightarrow> origin_is_same origin host))"

fun mutation_target :: "WebMutation \<Rightarrow> string" where
  "mutation_target WebMutation.Start = ''/api/start''"
| "mutation_target WebMutation.Stop = ''/api/stop''"
| "mutation_target WebMutation.RecoverStop = ''/internal/recover-stop''"

fun mutation_rule :: "WebMutation \<Rightarrow> MutationBody" where
  "mutation_rule WebMutation.Start = MutationBody.EmptyObject"
| "mutation_rule WebMutation.Stop = MutationBody.EmptyObject"
| "mutation_rule WebMutation.RecoverStop = MutationBody.RecoverStopConfirmation"

text \<open>
  What a mutation has to carry besides: an origin, a JSON body with the confirmation the mutation asks for,
  the token of this service both as a header and as a cookie, and the revision it was decided on.
\<close>

definition authorised ::
  "(string \<Rightarrow> Value option) \<Rightarrow> WebSecurity \<Rightarrow> ParsedRequest \<Rightarrow> WebMutation \<Rightarrow> 64 word \<Rightarrow> bool" where
  "authorised from_slice security request mutation revision \<longleftrightarrow>
     pr_method request = Method.Post \<and> pr_target request = mutation_target mutation
     \<and> single_header request ''origin'' \<noteq> None
     \<and> single_header request ''content-type'' = Some ''application/json''
     \<and> body_matches from_slice (mutation_rule mutation) (pr_body request)
     \<and> single_header request CSRF_HEADER = Some (ws_csrf_token security)
     \<and> Option.bind (single_header request ''cookie'') csrf_cookie_value = Some (ws_csrf_token security)
     \<and> single_header request ''if-match'' = Some (quoted (show_nat (unat revision)))"

lemma parse_strong_revision_iff:
  "parse_strong_revision v = Some r \<longleftrightarrow> v = quoted (show_nat (unat r))"
proof -
  have u: "unat (of_nat n :: 64 word) = n" if "n \<le> 2 ^ 64 - 1" for n
    using that by (simp add: unsigned_of_nat take_bit_nat_eq_self)
  have r: "unat r \<le> 2 ^ 64 - 1"
    using unsigned_less [of r, where ?'a = nat] by simp
  show ?thesis
  proof
    assume "parse_strong_revision v = Some r"
    then obtain rest digits n where "v = CHR 0x22 # rest" "rest = digits @ [CHR 0x22]"
        and d: "canonical_digits digits" "parse_unsigned (2 ^ 64 - 1) digits = Some n" "r = of_nat n"
      by (auto simp: parse_strong_revision_def bind_eq_Some_conv strip_prefix_Some strip_suffix_Some
          simp del: parse_unsigned_canonical split: if_splits)
    moreover have "digits = show_nat n" "n \<le> 2 ^ 64 - 1"
      using d parse_unsigned_canonical by blast+
    ultimately show "v = quoted (show_nat (unat r))"
      using u by (simp add: quoted_def)
  next
    assume "v = quoted (show_nat (unat r))"
    moreover have "strip_suffix (show_nat (unat r) @ [CHR 0x22]) [CHR 0x22] = Some (show_nat (unat r))"
      by simp
    moreover have "strip_prefix (CHR 0x22 # w) [CHR 0x22] = Some w" for w
      by (simp add: strip_prefix_Some)
    ultimately show "parse_strong_revision v = Some r"
      using show_nat_canonical [of "unat r"] r
      by (simp add: parse_strong_revision_def quoted_def parse_unsigned_show)
  qed
qed

lemma valid_csrf_sel:
  "valid_csrf security request \<longleftrightarrow>
     single_header request CSRF_HEADER = Some (ws_csrf_token security)
     \<and> Option.bind (single_header request ''cookie'') csrf_cookie_value = Some (ws_csrf_token security)"
  by (auto simp: valid_csrf_def constant_time_eq_def split: option.splits)

lemma mutation_response_cases:
  assumes "mutation_response env request mutation (mutation_rule mutation) app = (resp, app')"
    and "pr_method request = Method.Post" and "pr_target request = mutation_target mutation"
  shows "app' = app \<and> hr_status resp \<noteq> 200 \<or>
    (\<exists>revision r actor. authorised (we_from_slice env) (app_security app) request mutation revision
       \<and> wa_mutate_if_revision (we_actor env) revision mutation (app_actor app) = (r, actor)
       \<and> app' = app\<lparr>app_actor := actor\<rparr>)"
  using assms
  by (auto simp: mutation_response_def Let_def authorised_def parse_strong_revision_iff valid_csrf_sel
      error_response_def json_response_def response_def bind_eq_Some_conv
      split: if_splits option.splits sum.splits prod.splits)

lemma handle_cases:
  assumes "handle env raw app = (resp, app')"
  obtains (kept) "app' = app"
  | (read) request where "parse_request raw = Inr request" and "admitted (app_security app) request"
      and "pr_method request = Method.Get" and "pr_target request = ''/api/status''"
      and "app' = app\<lparr>app_actor := snd (wa_status (we_actor env) (app_actor app))\<rparr>"
      and "resp = status_response (we_to_vec env) (fst (wa_status (we_actor env) (app_actor app)))"
  | (mutated) request mutation revision r actor where "parse_request raw = Inr request"
      and "admitted (app_security app) request"
      and "authorised (we_from_slice env) (app_security app) request mutation revision"
      and "wa_mutate_if_revision (we_actor env) revision mutation (app_actor app) = (r, actor)"
      and "app' = app\<lparr>app_actor := actor\<rparr>"
proof (cases "parse_request raw")
  case (Inl e)
  with assms kept show ?thesis
    by (simp add: handle_def Let_def)
next
  case (Inr request)
  show ?thesis
  proof (cases "admitted (app_security app) request")
    case False
    then have "app' = app"
      using assms Inr by (auto simp: handle_def admitted_def Let_def split: option.splits if_splits bind_splits)
    with kept show ?thesis .
  next
    case True
    then have r: "route env request app = (resp, app')"
      using assms Inr by (auto simp: handle_def admitted_def Let_def)
    have post: thesis if "mutation_response env request mutation (mutation_rule mutation) app = (resp, app')"
      and "pr_method request = Method.Post" and "pr_target request = mutation_target mutation" for mutation
      using mutation_response_cases [OF that] mutated Inr True kept by blast
    show ?thesis
    proof (cases "pr_method request")
      case Get
      then show ?thesis
        using r kept read Inr True by (auto simp: route_def Let_def split: if_splits prod.splits)
    next
      case Post
      then consider (m) mutation where "pr_target request = mutation_target mutation"
          "mutation_response env request mutation (mutation_rule mutation) app = (resp, app')"
        | (none) "app' = app"
        using r by (auto simp: route_def Let_def split: if_splits)
          (metis mutation_rule.simps mutation_target.simps)+
      then show ?thesis
        using post Post kept by cases auto
    next
      case Other
      then show ?thesis
        using r kept by (simp add: route_def Let_def)
    qed
  qed
qed

end
