(* ===== verification/Service.thy ===== *)
theory Service
  imports Web_Requests Controller_Safety Posix
begin

text \<open>
  The process around the one controller (\<open>rust/src/service_runtime.rs\<close>): the web actor over the controller,
  its shutdown, the locks that make the process the only owner of the speakers, the termination handlers and
  the start of the user service.

  The system calls are the record \<open>runtime_os\<close> of operations on one world. A descriptor that goes out of
  scope is closed, so the definitions say where.
\<close>

datatype ServiceRuntimeError =
    RuntimeDirectoryUnavailable | RuntimeDirectoryUntrusted | AlreadyRunning | SignalHandlerUnavailable
  | ServiceManagerUnavailable | ServiceStartFailed | ServiceReadyTimedOut | LocalServiceInvalid
  | ControllerInitializationFailed | GracefulShutdownRejected | GracefulShutdownOutcomeUnknown
  | GracefulShutdownPostconditionFailed | TransportTeardownFailed

subsection \<open>The web actor\<close>

record ControllerProcessLock =
  cpl_session_file :: nat
  cpl_operation_file :: nat

record ('b, 'p, 'j) ControllerWebActor =
  cwa_controller :: "('b, 'p, 'j) PairController"
  cwa_teardown_done :: bool
  cwa_process_lock :: ControllerProcessLock

definition controller_web_actor_new ::
  "('b, 'p, 'j) PairController \<Rightarrow> ControllerProcessLock \<Rightarrow> ('b, 'p, 'j) ControllerWebActor" where
  "controller_web_actor_new c lock =
     \<lparr>cwa_controller = c, cwa_teardown_done = False, cwa_process_lock = lock\<rparr>"

definition actor_status ::
  "('b, 'p, 'j) environment \<Rightarrow> nat \<Rightarrow> ('b, 'p, 'j) ControllerWebActor
    \<Rightarrow> ControllerStatus \<times> ('b, 'p, 'j) ControllerWebActor" where
  "actor_status env now a =
     (let (s, c) = Controller.status env now (cwa_controller a) in (s, a\<lparr>cwa_controller := c\<rparr>))"

fun web_action :: "WebMutation \<Rightarrow> ControllerAction" where
  "web_action WebMutation.Start = ControllerAction.Start"
| "web_action WebMutation.Stop = ControllerAction.Stop"
| "web_action WebMutation.RecoverStop = ControllerAction.RecoverStop"

definition actor_mutate_if_revision ::
  "('b, 'p, 'j) environment \<Rightarrow> nat \<Rightarrow> 64 word \<Rightarrow> WebMutation
    \<Rightarrow> (('b, 'p, 'j) ControllerWebActor, RevisionConflict, ControllerActionResult) fallible" where
  "actor_mutate_if_revision env now expected_revision mutation a =
     (if pc_revision (cwa_controller a) \<noteq> expected_revision then (Inl RevisionConflict.RevisionConflict, a)
      else
        let (r, c) =
          (case mutation of
             WebMutation.Start \<Rightarrow> start env now (cwa_controller a)
           | WebMutation.Stop \<Rightarrow> stop env now (cwa_controller a)
           | WebMutation.RecoverStop \<Rightarrow> recover_stop env now (cwa_controller a))
        in (Inr r, a\<lparr>cwa_controller := c\<rparr>))"

text \<open>One request reads the clock at most once; \<open>now\<close> is that reading.\<close>

definition controller_actor ::
  "('b, 'p, 'j) environment \<Rightarrow> nat \<Rightarrow> ('b, 'p, 'j) ControllerWebActor WebActor" where
  "controller_actor env now =
     \<lparr>wa_status = actor_status env now, wa_mutate_if_revision = actor_mutate_if_revision env now\<rparr>"

definition teardown_transport_once ::
  "('b, 'p, 'j) environment
    \<Rightarrow> (('b, 'p, 'j) ControllerWebActor, PairBackendError, unit) fallible" where
  "teardown_transport_once env a =
     (if cwa_teardown_done a then (Inr (), a)
      else
        let (r, c) = teardown_transport_for_exit env (cwa_controller a); a = a\<lparr>cwa_controller := c\<rparr>
        in (r, if is_ok r then a\<lparr>cwa_teardown_done := True\<rparr> else a))"

fun shutdown_error :: "ControllerActionOutcome \<Rightarrow> ServiceRuntimeError option" where
  "shutdown_error ControllerActionOutcome.Accepted = None"
| "shutdown_error ControllerActionOutcome.AcceptedUnconfirmed = None"
| "shutdown_error ControllerActionOutcome.Idempotent = None"
| "shutdown_error ControllerActionOutcome.RejectedBeforeSend =
     Some ServiceRuntimeError.GracefulShutdownRejected"
| "shutdown_error ControllerActionOutcome.OutcomeUnknown =
     Some ServiceRuntimeError.GracefulShutdownOutcomeUnknown"
| "shutdown_error ControllerActionOutcome.PostconditionFailed =
     Some ServiceRuntimeError.GracefulShutdownPostconditionFailed"

definition shutdown_for_exit ::
  "('b, 'p, 'j) environment \<Rightarrow> nat
    \<Rightarrow> (('b, 'p, 'j) ControllerWebActor, ServiceRuntimeError, unit) fallible" where
  "shutdown_for_exit env now a =
     (let (r, c) = shutdown env now (cwa_controller a);
          role_error = shutdown_error (car_outcome r);
          (torn, a) = teardown_transport_once env (a\<lparr>cwa_controller := c\<rparr>);
          teardown_error = map_option (\<lambda>_. ServiceRuntimeError.TransportTeardownFailed) (err torn)
      in (case (role_error, teardown_error) of
            (Some e, _) \<Rightarrow> Inl e
          | (None, Some e) \<Rightarrow> Inl e
          | (None, None) \<Rightarrow> Inr (), a))"

text \<open>What remains when the actor is dropped, before its descriptors are closed.\<close>

definition actor_drop ::
  "('b, 'p, 'j) environment \<Rightarrow> ('b, 'p, 'j) ControllerWebActor \<Rightarrow> ('b, 'p, 'j) ControllerWebActor" where
  "actor_drop env a = snd (teardown_transport_once env a)"

subsection \<open>The system\<close>

record 'w runtime_os =
  ro_var_os :: "string \<Rightarrow> 'w \<Rightarrow> string option"
  ro_geteuid :: "'w \<Rightarrow> nat"
  ro_open_directory :: "string \<Rightarrow> ('w, errno, nat) fallible"
  ro_mkdirat :: "nat \<Rightarrow> string \<Rightarrow> ('w, errno, unit) fallible"
  ro_openat_directory :: "nat \<Rightarrow> string \<Rightarrow> ('w, errno, nat) fallible"
  ro_openat_lock :: "nat \<Rightarrow> string \<Rightarrow> ('w, errno, nat) fallible"
  ro_fstat :: "nat \<Rightarrow> ('w, errno, stat) fallible"
  ro_fstatat_nofollow :: "nat \<Rightarrow> string \<Rightarrow> ('w, errno, stat) fallible"
  ro_flock_exclusive :: "nat \<Rightarrow> ('w, errno, unit) fallible"
  ro_close :: "nat \<Rightarrow> 'w \<Rightarrow> 'w"

definition RUNTIME_DIRECTORY :: string where "RUNTIME_DIRECTORY = ''jbl-aura-link''"
definition OPERATION_LOCK_FILE :: string where "OPERATION_LOCK_FILE = ''operation.lock''"
definition SESSION_LOCK_FILE :: string where "SESSION_LOCK_FILE = ''session.lock''"
definition V04_LAUNCH_RESERVATION :: string where "V04_LAUNCH_RESERVATION = ''launch.reservation''"

text \<open>A descriptor closed when its block ends, and one kept when the block succeeds.\<close>

definition scoped :: "'w runtime_os \<Rightarrow> nat \<Rightarrow> ('w, 'e, 'a) fallible \<Rightarrow> ('w, 'e, 'a) fallible" where
  "scoped os fd m w = (let (r, w) = m w in (r, ro_close os fd w))"

definition kept_on_ok :: "'w runtime_os \<Rightarrow> nat \<Rightarrow> ('w, 'e, 'a) fallible \<Rightarrow> ('w, 'e, 'a) fallible" where
  "kept_on_ok os fd m w = (let (r, w) = m w in (r, if is_ok r then w else ro_close os fd w))"

definition fstat_checked :: "'w runtime_os \<Rightarrow> nat \<Rightarrow> ('w, ServiceRuntimeError, stat) fallible" where
  "fstat_checked os fd =
     with_err (\<lambda>_. ServiceRuntimeError.RuntimeDirectoryUnavailable) (ro_fstat os fd)"

definition validate_directory :: "'w runtime_os \<Rightarrow> nat \<Rightarrow> ('w, ServiceRuntimeError, unit) fallible" where
  "validate_directory os fd =
     try_bind (fstat_checked os fd) (\<lambda>metadata w.
       (if private_object S_IFDIR (ro_geteuid os w) metadata then Inr ()
        else Inl ServiceRuntimeError.RuntimeDirectoryUntrusted, w))"

definition validate_lock_file :: "'w runtime_os \<Rightarrow> nat \<Rightarrow> ('w, ServiceRuntimeError, unit) fallible" where
  "validate_lock_file os fd =
     try_bind (fstat_checked os fd) (\<lambda>metadata w.
       (if private_object S_IFREG (ro_geteuid os w) metadata then Inr ()
        else Inl ServiceRuntimeError.RuntimeDirectoryUntrusted, w))"

definition open_directory :: "'w runtime_os \<Rightarrow> string \<Rightarrow> ('w, ServiceRuntimeError, nat) fallible" where
  "open_directory os path =
     try_bind (lift_result (ok_or ServiceRuntimeError.RuntimeDirectoryUntrusted (c_string path))) (\<lambda>p.
       with_err (\<lambda>_. ServiceRuntimeError.RuntimeDirectoryUnavailable) (ro_open_directory os p))"

definition openat_directory :: "'w runtime_os \<Rightarrow> nat \<Rightarrow> string \<Rightarrow> ('w, ServiceRuntimeError, nat) fallible" where
  "openat_directory os parent name =
     with_err (\<lambda>_. ServiceRuntimeError.RuntimeDirectoryUnavailable) (ro_openat_directory os parent name)"

definition path_exists_at :: "'w runtime_os \<Rightarrow> nat \<Rightarrow> string \<Rightarrow> ('w, ServiceRuntimeError, bool) fallible" where
  "path_exists_at os directory name w =
     (case ro_fstatat_nofollow os directory name w of
        (Inr _, w) \<Rightarrow> (Inr True, w)
      | (Inl e, w) \<Rightarrow>
          (if e = errno.ENOENT then Inr False
           else Inl ServiceRuntimeError.RuntimeDirectoryUnavailable, w))"

definition lock_error :: "errno \<Rightarrow> ServiceRuntimeError" where
  "lock_error e =
     (if e = errno.EWOULDBLOCK then ServiceRuntimeError.AlreadyRunning
      else ServiceRuntimeError.RuntimeDirectoryUnavailable)"

definition acquire_lock_file ::
  "'w runtime_os \<Rightarrow> nat \<Rightarrow> string \<Rightarrow> ('w, ServiceRuntimeError, nat) fallible" where
  "acquire_lock_file os directory name =
     try_bind (with_err (\<lambda>_. ServiceRuntimeError.RuntimeDirectoryUntrusted)
                 (ro_openat_lock os directory name)) (\<lambda>fd.
       kept_on_ok os fd
         (try_bind (validate_lock_file os fd) (\<lambda>_.
          try_bind (with_err lock_error (ro_flock_exclusive os fd)) (\<lambda>_.
            lift_result (Inr fd)))))"

definition acquire_locks ::
  "'w runtime_os \<Rightarrow> nat \<Rightarrow> ('w, ServiceRuntimeError, ControllerProcessLock) fallible" where
  "acquire_locks os directory =
     try_bind (acquire_lock_file os directory OPERATION_LOCK_FILE) (\<lambda>operation_file.
       kept_on_ok os operation_file
         (try_bind (path_exists_at os directory V04_LAUNCH_RESERVATION) (\<lambda>reserved.
            if reserved then lift_result (Inl ServiceRuntimeError.AlreadyRunning)
            else try_bind (acquire_lock_file os directory SESSION_LOCK_FILE) (\<lambda>session_file.
                   lift_result (Inr \<lparr>cpl_session_file = session_file,
                                     cpl_operation_file = operation_file\<rparr>)))))"

definition make_runtime_directory :: "'w runtime_os \<Rightarrow> nat \<Rightarrow> ('w, ServiceRuntimeError, unit) fallible" where
  "make_runtime_directory os root w =
     (case ro_mkdirat os root RUNTIME_DIRECTORY w of
        (Inr _, w) \<Rightarrow> (Inr (), w)
      | (Inl e, w) \<Rightarrow>
          (if e = errno.EEXIST then Inr ()
           else Inl ServiceRuntimeError.RuntimeDirectoryUnavailable, w))"

definition acquire_at ::
  "'w runtime_os \<Rightarrow> string \<Rightarrow> ('w, ServiceRuntimeError, ControllerProcessLock) fallible" where
  "acquire_at os runtime_root =
     (if \<not> is_absolute runtime_root
      then lift_result (Inl ServiceRuntimeError.RuntimeDirectoryUntrusted)
      else try_bind (open_directory os runtime_root) (\<lambda>root.
             scoped os root
               (try_bind (validate_directory os root) (\<lambda>_.
                try_bind (make_runtime_directory os root) (\<lambda>_.
                try_bind (openat_directory os root RUNTIME_DIRECTORY) (\<lambda>directory.
                  scoped os directory
                    (try_bind (validate_directory os directory) (\<lambda>_.
                       acquire_locks os directory))))))))"

definition acquire :: "'w runtime_os \<Rightarrow> ('w, ServiceRuntimeError, ControllerProcessLock) fallible" where
  "acquire os w =
     (case ro_var_os os ''XDG_RUNTIME_DIR'' w of
        None \<Rightarrow> (Inl ServiceRuntimeError.RuntimeDirectoryUnavailable, w)
      | Some root \<Rightarrow>
          if root = [] then (Inl ServiceRuntimeError.RuntimeDirectoryUnavailable, w)
          else acquire_at os root w)"

definition release :: "'w runtime_os \<Rightarrow> ControllerProcessLock \<Rightarrow> 'w \<Rightarrow> 'w" where
  "release os lock w = ro_close os (cpl_operation_file lock) (ro_close os (cpl_session_file lock) w)"

text \<open>
  The service actor is built under the lock; a constructor that fails drops the lock. The constructors of
  the backend, the probe and the journal are operations of the same world.
\<close>

definition build_native_service_actor ::
  "'w runtime_os \<Rightarrow> ('b, 'p, 'j) environment \<Rightarrow> ('w, 'e1, 'b) fallible \<Rightarrow> ('w, 'e2, 'p) fallible
    \<Rightarrow> ('w, 'e3, 'j) fallible \<Rightarrow> ('w, ServiceRuntimeError, ('b, 'p, 'j) ControllerWebActor) fallible" where
  "build_native_service_actor os env backend_new probe_new journal_open =
     try_bind (acquire os) (\<lambda>process_lock w.
       (let (r, w) =
              try_bind (with_err (\<lambda>_. ServiceRuntimeError.ControllerInitializationFailed) backend_new) (\<lambda>backend.
              try_bind (with_err (\<lambda>_. ServiceRuntimeError.ControllerInitializationFailed) probe_new) (\<lambda>probe.
              try_bind (with_err (\<lambda>_. ServiceRuntimeError.ControllerInitializationFailed) journal_open) (\<lambda>journal.
                lift_result (Inr (controller_web_actor_new (with_journal env backend probe journal)
                                    process_lock))))) w
        in (r, if is_ok r then w else release os process_lock w)))"

definition validate_native_runtime ::
  "('w, 'e, 'b) fallible \<Rightarrow> ('w, ServiceRuntimeError, unit) fallible" where
  "validate_native_runtime backend_new =
     try_bind (with_err (\<lambda>_. ServiceRuntimeError.ControllerInitializationFailed) backend_new) (\<lambda>_.
       lift_result (Inr ()))"

subsection \<open>Termination handlers\<close>

text \<open>
  The static that holds the flag, whether the flag is raised, and the signals with a handler. The handler
  raises the flag once a flag is installed.
\<close>

record signal_state =
  sg_flag_installed :: bool
  sg_shutdown :: bool
  sg_handled :: "string set"

definition termination_handler :: "signal_state \<Rightarrow> signal_state" where
  "termination_handler s = (if sg_flag_installed s then s\<lparr>sg_shutdown := True\<rparr> else s)"

definition install_signal ::
  "(string \<Rightarrow> bool) \<Rightarrow> string \<Rightarrow> (signal_state, ServiceRuntimeError, unit) fallible" where
  "install_signal sigaction signal s =
     (if sigaction signal then (Inr (), s\<lparr>sg_handled := insert signal (sg_handled s)\<rparr>)
      else (Inl ServiceRuntimeError.SignalHandlerUnavailable, s))"

definition install_termination_handlers ::
  "(string \<Rightarrow> bool) \<Rightarrow> (signal_state, ServiceRuntimeError, unit) fallible" where
  "install_termination_handlers sigaction s =
     (if sg_flag_installed s then (Inl ServiceRuntimeError.SignalHandlerUnavailable, s)
      else try_bind (install_signal sigaction ''SIGINT'') (\<lambda>_. install_signal sigaction ''SIGTERM'')
             (s\<lparr>sg_flag_installed := True, sg_shutdown := False\<rparr>))"

subsection \<open>A mutation through the web is authorised\<close>

lemma actor_mutate_cases:
  "actor_mutate_if_revision env now revision mutation a =
     (if pc_revision (cwa_controller a) \<noteq> revision then (Inl RevisionConflict.RevisionConflict, a)
      else let (r, c) = mutate env now (web_action mutation) (cwa_controller a)
           in (Inr r, a\<lparr>cwa_controller := c\<rparr>))"
  by (cases mutation) (simp_all add: actor_mutate_if_revision_def start_def stop_def recover_stop_def)

text \<open>
  The contract the web boundary asks of its actor, in terms of a revision and of the evidence of past
  actions: reading keeps the evidence and never lowers the revision, and a mutation for another revision
  changes nothing.
\<close>

locale web_actor =
  fixes ops :: "'a WebActor" and revision :: "'a \<Rightarrow> 64 word" and evidence :: "'a \<Rightarrow> 'e"
  assumes status_keeps: "wa_status ops a = (s, a') \<Longrightarrow> evidence a' = evidence a \<and> cs_revision s = revision a'"
    and conflict: "revision a \<noteq> r \<Longrightarrow>
      wa_mutate_if_revision ops r m a = (Inl RevisionConflict.RevisionConflict, a)"
begin

lemma changed_evidence_is_authorised:
  assumes "we_actor env = ops" and "handle env raw app = (resp, app')"
    and "evidence (app_actor app') \<noteq> evidence (app_actor app)"
  obtains request mutation r actor where "parse_request raw = Inr request"
    and "admitted (app_security app) request"
    and "authorised (we_from_slice env) (app_security app) request mutation (revision (app_actor app))"
    and "wa_mutate_if_revision ops (revision (app_actor app)) mutation (app_actor app) = (r, actor)"
    and "app' = app\<lparr>app_actor := actor\<rparr>"
  using assms(2)
proof (cases rule: handle_cases)
  case kept
  with assms(3) show ?thesis by simp
next
  case (read request)
  then show ?thesis
    using assms(1,3) status_keeps [of "app_actor app"] by (cases "wa_status ops (app_actor app)") auto
next
  case (mutated request mutation rev r actor)
  then have "rev = revision (app_actor app)"
    using assms(1,3) conflict [of "app_actor app" rev mutation] by (cases "revision (app_actor app) = rev") auto
  with mutated assms(1) that show ?thesis by blast
qed

end

interpretation controller: web_actor "controller_actor env now" "\<lambda>a. pc_revision (cwa_controller a)"
  "\<lambda>a. (pc_journal (cwa_controller a), pc_last_action (cwa_controller a), pc_unresolved_action (cwa_controller a))"
  for env :: "('b, 'p, 'j) environment" and now
proof
  fix a a' :: "('b, 'p, 'j) ControllerWebActor" and s
  assume "wa_status (controller_actor env now) a = (s, a')"
  then obtain c where c: "Controller.status env now (cwa_controller a) = (s, c)" "a' = a\<lparr>cwa_controller := c\<rparr>"
    by (auto simp: controller_actor_def actor_status_def split: prod.splits)
  then show "(pc_journal (cwa_controller a'), pc_last_action (cwa_controller a'), pc_unresolved_action (cwa_controller a')) =
      (pc_journal (cwa_controller a), pc_last_action (cwa_controller a), pc_unresolved_action (cwa_controller a))
      \<and> cs_revision s = pc_revision (cwa_controller a')"
    using status_sel(1,2,4,8) [OF c(1)] by simp
next
  fix a :: "('b, 'p, 'j) ControllerWebActor" and r m
  assume "pc_revision (cwa_controller a) \<noteq> r"
  then show "wa_mutate_if_revision (controller_actor env now) r m a = (Inl RevisionConflict.RevisionConflict, a)"
    by (simp add: controller_actor_def actor_mutate_cases)
qed

end
