(* ===== verification/User_Service.thy ===== *)
theory User_Service
  imports Local_Client Service
begin

text \<open>
  Making sure the local service runs (the end of \<open>rust/src/service_runtime.rs\<close>): one readiness check, at most
  one start of the user unit, then polling until a deadline. The child process and the clock are the record
  \<open>process_os\<close>; the loops are partial functions.
\<close>

definition USER_UNIT :: string where "USER_UNIT = ''jbl-aura-link-rust.service''"
definition SYSTEMCTL_TIMEOUT :: duration where "SYSTEMCTL_TIMEOUT = from_secs 5"
definition SERVICE_READY_TIMEOUT :: duration where "SERVICE_READY_TIMEOUT = from_secs 15"
definition READY_POLL_INTERVAL :: duration where "READY_POLL_INTERVAL = from_millis 100"

record 'w process_os =
  po_now :: "'w \<Rightarrow> nat"
  po_sleep :: "duration \<Rightarrow> 'w \<Rightarrow> 'w"
  po_spawn :: "string list \<Rightarrow> ('w, io_error, unit) fallible"
  po_try_wait :: "('w, io_error, bool option) fallible"
  po_kill_and_wait :: "'w \<Rightarrow> 'w"

type_synonym 'w service_run = "('w, ServiceRuntimeError, unit) partial_run"

partial_function (option) wait_for_unit :: "'w process_os \<Rightarrow> nat \<Rightarrow> 'w service_run" where
  "wait_for_unit os deadline w =
     (case po_try_wait os w of
        (Inr (Some success), w) \<Rightarrow>
          Some (if success then Inr () else Inl ServiceRuntimeError.ServiceStartFailed, w)
      | (Inr None, w) \<Rightarrow>
          if po_now os w < deadline then wait_for_unit os deadline (po_sleep os (from_millis 25) w)
          else Some (Inl ServiceRuntimeError.ServiceManagerUnavailable, po_kill_and_wait os w)
      | (Inl _, w) \<Rightarrow> Some (Inl ServiceRuntimeError.ServiceManagerUnavailable, w))"

definition start_user_unit_once :: "'w process_os \<Rightarrow> 'w service_run" where
  "start_user_unit_once os w =
     (case po_spawn os [''systemctl'', ''--user'', ''start'', USER_UNIT] w of
        (Inl _, w) \<Rightarrow> Some (Inl ServiceRuntimeError.ServiceManagerUnavailable, w)
      | (Inr _, w) \<Rightarrow> wait_for_unit os (po_now os w + SYSTEMCTL_TIMEOUT) w)"

partial_function (option) ready_loop ::
  "'w process_os \<Rightarrow> ('w, unit) run \<Rightarrow> nat \<Rightarrow> duration \<Rightarrow> 'w service_run" where
  "ready_loop os ready deadline poll_interval w =
     Option.bind (ready w) (\<lambda>(r, w).
       case r of
         Inr _ \<Rightarrow> Some (Inr (), w)
       | Inl e \<Rightarrow>
           if service_unavailable e \<or> e = LocalClientError.TimedOut then
             if deadline \<le> po_now os w then Some (Inl ServiceRuntimeError.ServiceReadyTimedOut, w)
             else ready_loop os ready deadline poll_interval (po_sleep os poll_interval w)
           else Some (Inl ServiceRuntimeError.LocalServiceInvalid, w))"

definition ensure_user_service_with ::
  "'w process_os \<Rightarrow> ('w, unit) run \<Rightarrow> 'w service_run \<Rightarrow> duration \<Rightarrow> duration \<Rightarrow> 'w service_run" where
  "ensure_user_service_with os ready start_once ready_timeout poll_interval w =
     Option.bind (ready w) (\<lambda>(r, w).
       case r of
         Inr _ \<Rightarrow> Some (Inr (), w)
       | Inl e \<Rightarrow>
           if \<not> service_unavailable e then Some (Inl ServiceRuntimeError.LocalServiceInvalid, w)
           else Option.bind (start_once w) (\<lambda>(started, w).
             case started of
               Inl e \<Rightarrow> Some (Inl e, w)
             | Inr _ \<Rightarrow> ready_loop os ready (po_now os w + ready_timeout) poll_interval w))"

definition ensure_user_service ::
  "'w process_os \<Rightarrow> 'w client_net \<Rightarrow> LocalServiceClient \<Rightarrow> 'w service_run" where
  "ensure_user_service os net client =
     ensure_user_service_with os (client_ready net client) (start_user_unit_once os)
       SERVICE_READY_TIMEOUT READY_POLL_INTERVAL"

subsection \<open>The start is bounded\<close>

text \<open>The clock never goes back, and sleeping takes at least its time.\<close>

definition sleeps :: "'w process_os \<Rightarrow> bool" where
  "sleeps os \<longleftrightarrow> (\<forall>d w. po_now os w + d \<le> po_now os (po_sleep os d w))"

definition answers :: "'w process_os \<Rightarrow> ('w \<Rightarrow> ('r \<times> 'w) option) \<Rightarrow> bool" where
  "answers os m \<longleftrightarrow> (\<forall>w. \<exists>r w'. m w = Some (r, w') \<and> po_now os w \<le> po_now os w')"

lemma answersE:
  assumes "answers os m"
  obtains r w' where "m w = Some (r, w')" and "po_now os w \<le> po_now os w'"
  using assms unfolding answers_def by blast

lemma ready_loop_returns:
  assumes "sleeps os" and "answers os ready" and "0 < interval"
  shows "\<exists>r w'. ready_loop os ready deadline interval w = Some (r, w') \<and>
    (r = Inr () \<longrightarrow> (\<exists>w1. ready w1 = Some (Inr (), w')))"
proof (induction "deadline - po_now os w" arbitrary: w rule: less_induct)
  case less
  obtain r w1 where r: "ready w = Some (r, w1)" "po_now os w \<le> po_now os w1"
    using assms(2) by (rule answersE)
  show ?case
  proof (cases "\<exists>e. r = Inl e \<and> (service_unavailable e \<or> e = LocalClientError.TimedOut) \<and> po_now os w1 < deadline")
    case True
    have "po_now os w1 + interval \<le> po_now os (po_sleep os interval w1)"
      using assms(1) by (simp add: sleeps_def)
    then have "deadline - po_now os (po_sleep os interval w1) < deadline - po_now os w"
      using True r(2) assms(3) by auto
    from less [OF this] True r(1) show ?thesis
      by (subst ready_loop.simps) auto
  next
    case False
    with r(1) show ?thesis
      by (subst ready_loop.simps) (cases r; auto simp: not_less)
  qed
qed

lemma wait_for_unit_returns:
  assumes "sleeps os" and "\<And>w r w'. po_try_wait os w = (r, w') \<Longrightarrow> po_now os w \<le> po_now os w'"
  shows "\<exists>r w'. wait_for_unit os deadline w = Some (r, w')"
proof (induction "deadline - po_now os w" arbitrary: w rule: less_induct)
  case less
  obtain r w1 where r: "po_try_wait os w = (r, w1)"
    by fastforce
  show ?case
  proof (cases "r = Inr None \<and> po_now os w1 < deadline")
    case True
    have "po_now os w1 + from_millis 25 \<le> po_now os (po_sleep os (from_millis 25) w1)"
      using assms(1) by (simp add: sleeps_def)
    then have "deadline - po_now os (po_sleep os (from_millis 25) w1) < deadline - po_now os w"
      using True assms(2) [OF r] by (auto simp: from_millis_def)
    from less [OF this] True r show ?thesis
      by (subst wait_for_unit.simps) auto
  next
    case False
    with r show ?thesis
      by (subst wait_for_unit.simps) (auto split: sum.splits option.splits)
  qed
qed

text \<open>
  Making sure the service runs always ends, and starts it at most once. When sleeping takes its time and
  the readiness check and the start each return, the whole operation returns. The start is only reached
  when the first check found nobody listening: a service that is ready is left alone, and one that
  answers in any other way is an error without a start. Success means that the last thing done was a
  readiness check that succeeded.
\<close>

theorem service_start_is_bounded:
  assumes "sleeps os" and "answers os ready" and "answers os start_once" and "0 < poll_interval"
  shows "\<exists>r w'. ensure_user_service_with os ready start_once timeout poll_interval w = Some (r, w') \<and>
    (\<forall>w0 r0. ready w = Some (r0, w0) \<and> r0 \<noteq> Inl LocalClientError.Unavailable \<longrightarrow>
       w' = w0 \<and> r = (if is_ok r0 then Inr () else Inl ServiceRuntimeError.LocalServiceInvalid)) \<and>
    (r = Inr () \<longrightarrow> (\<exists>w1. ready w1 = Some (Inr (), w')))"
proof -
  obtain r0 w0 where r0: "ready w = Some (r0, w0)"
    using assms(2) by (rule answersE)
  show ?thesis
  proof (cases "r0 = Inl LocalClientError.Unavailable")
    case False
    with r0 show ?thesis
      by (cases r0) (auto simp: ensure_user_service_with_def service_unavailable_def)
  next
    case True
    obtain s w1 where s: "start_once w0 = Some (s, w1)"
      using assms(3) by (rule answersE)
    show ?thesis
    proof (cases s)
      case (Inl e)
      with True r0 s show ?thesis
        by (auto simp: ensure_user_service_with_def service_unavailable_def)
    next
      case (Inr u)
      obtain r w' where l: "ready_loop os ready (po_now os w1 + timeout) poll_interval w1 = Some (r, w')"
          and "r = Inr () \<longrightarrow> (\<exists>w1. ready w1 = Some (Inr (), w'))"
        using ready_loop_returns [OF assms(1,2,4)] by blast
      with True r0 s Inr show ?thesis
        by (auto simp: ensure_user_service_with_def service_unavailable_def)
    qed
  qed
qed

theorem service_start_is_bounded_witness:
  "\<exists>r w'. ensure_user_service_with
     \<lparr>po_now = (\<lambda>w. w), po_sleep = (\<lambda>d w. w + d), po_spawn = (\<lambda>_ w. (Inr (), w)),
      po_try_wait = (\<lambda>w. (Inr (Some True), w)), po_kill_and_wait = id\<rparr>
     (\<lambda>w. Some (if w < 5 then Inl LocalClientError.Unavailable else Inr (), w)) (\<lambda>w. Some (Inr (), w)) 9 2 0 = Some (r, w')"
  using service_start_is_bounded [of "\<lparr>po_now = (\<lambda>w. w), po_sleep = (\<lambda>d w. w + d), po_spawn = (\<lambda>_ w. (Inr (), w)),
      po_try_wait = (\<lambda>w. (Inr (Some True), w)), po_kill_and_wait = id\<rparr>"
      "\<lambda>w. Some (if w < 5 then Inl LocalClientError.Unavailable else Inr (), w)" "\<lambda>w. Some (Inr (), w)" 2 9 0]
  by (auto simp: sleeps_def answers_def)

end
