(* ===== verification/Web_Server.thy ===== *)
theory Web_Server
  imports Web_Requests Posix
begin

text \<open>
  The single-threaded loopback server (\<open>rust/src/web_server.rs\<close>): binding, the accept loop, the trust check
  of a connection, the framed reading of one request and the bounded writing of its response.

  The sockets, the clock, the random bytes and the shutdown flag are the record \<open>server_net\<close> of operations
  on one world; the server handles one stream at a time, so the stream operations act on the one accepted
  last. The loops are partial functions: \<open>None\<close> is a run that does not return.
\<close>

definition READ_CHUNK_BYTES :: nat where "READ_CHUNK_BYTES = 2048"

record WebServerOptions =
  wso_read_deadline :: duration
  wso_write_deadline :: duration
  wso_accept_poll_interval :: duration

definition options_is_valid :: "WebServerOptions \<Rightarrow> bool" where
  "options_is_valid o' \<longleftrightarrow>
     0 < wso_read_deadline o' \<and> wso_read_deadline o' \<le> from_secs 30
     \<and> 0 < wso_write_deadline o' \<and> wso_write_deadline o' \<le> from_secs 30
     \<and> 0 < wso_accept_poll_interval o' \<and> wso_accept_poll_interval o' \<le> from_millis 250"

definition options_default :: WebServerOptions where
  "options_default =
     \<lparr>wso_read_deadline = from_secs 3, wso_write_deadline = from_secs 2,
      wso_accept_poll_interval = from_millis 20\<rparr>"

datatype WebServerError =
    InvalidSecurityConfiguration WebConfigError | InvalidOptions | RandomGenerationFailed | BindFailed
  | ListenerValidationFailed | ListenerConfigurationFailed | AcceptFailed

record 'w server_net =
  sn_now :: "'w \<Rightarrow> nat"
  sn_shutdown :: "'w \<Rightarrow> bool"
  sn_rand_bytes :: "nat \<Rightarrow> ('w, unit, 8 word list) fallible"
  sn_bind :: "SocketAddr \<Rightarrow> ('w, io_error, unit) fallible"
  sn_listener_addr :: "('w, io_error, SocketAddr) fallible"
  sn_listener_nonblocking :: "('w, io_error, unit) fallible"
  sn_accept :: "('w, io_error, SocketAddr) fallible"
  sn_sleep :: "duration \<Rightarrow> 'w \<Rightarrow> 'w"
  sn_set_nonblocking :: "bool \<Rightarrow> ('w, io_error, unit) fallible"
  sn_local_addr :: "('w, io_error, SocketAddr) fallible"
  sn_peer_addr :: "('w, io_error, SocketAddr) fallible"
  sn_set_read_timeout :: "duration \<Rightarrow> ('w, io_error, unit) fallible"
  sn_read :: "nat \<Rightarrow> ('w, io_error, string) fallible"
  sn_peek :: "('w, io_error, nat) fallible"
  sn_set_write_timeout :: "duration \<Rightarrow> ('w, io_error, unit) fallible"
  sn_write :: "string \<Rightarrow> ('w, io_error, nat) fallible"
  sn_close :: "'w \<Rightarrow> 'w"

record 'a WebServer =
  wsv_local_addr :: SocketAddr
  wsv_app :: "'a WebApp"
  wsv_options :: WebServerOptions

subsection \<open>Binding\<close>

definition check_listener :: "SocketAddr \<Rightarrow> SocketAddr \<Rightarrow> (WebServerError, unit) result" where
  "check_listener bound local_addr =
     (if local_addr \<noteq> bound \<or> \<not> ip_is_loopback (sa_ip local_addr)
      then Inl WebServerError.ListenerValidationFailed else Inr ())"

definition bind_with_options ::
  "'w server_net \<Rightarrow> 'a \<Rightarrow> SocketAddr \<Rightarrow> WebServerOptions \<Rightarrow> ('w, WebServerError, 'a WebServer) fallible" where
  "bind_with_options net actor bind_addr options =
     (if \<not> options_is_valid options then lift_result (Inl WebServerError.InvalidOptions)
      else
        try_bind (with_err (\<lambda>_. WebServerError.RandomGenerationFailed) (sn_rand_bytes net 32)) (\<lambda>csrf.
        try_bind (lift_result (map_err WebServerError.InvalidSecurityConfiguration
                    (web_security_new bind_addr csrf))) (\<lambda>security.
        try_bind (with_err (\<lambda>_. WebServerError.BindFailed) (sn_bind net (ws_bind_addr security))) (\<lambda>_.
        try_bind (with_err (\<lambda>_. WebServerError.ListenerValidationFailed) (sn_listener_addr net)) (\<lambda>local_addr.
        try_bind (lift_result (check_listener (ws_bind_addr security) local_addr)) (\<lambda>_.
        try_bind (with_err (\<lambda>_. WebServerError.ListenerConfigurationFailed) (sn_listener_nonblocking net)) (\<lambda>_.
          lift_result (Inr \<lparr>wsv_local_addr = local_addr,
                            wsv_app = \<lparr>app_actor = actor, app_security = security\<rparr>,
                            wsv_options = options\<rparr>))))))))"

definition bind :: "'w server_net \<Rightarrow> 'a \<Rightarrow> SocketAddr \<Rightarrow> ('w, WebServerError, 'a WebServer) fallible" where
  "bind net actor bind_addr = bind_with_options net actor bind_addr options_default"

subsection \<open>Reading one request\<close>

datatype ReadOutcome = Complete string | Rejected string | Closed

definition has_queued_bytes :: "'w server_net \<Rightarrow> 'w \<Rightarrow> bool \<times> 'w" where
  "has_queued_bytes net w =
     (case sn_set_nonblocking net True w of
        (Inl _, w) \<Rightarrow> (True, w)
      | (Inr _, w) \<Rightarrow>
          (let (peeked, w) = sn_peek net w;
               queued = (case peeked of
                           Inr count \<Rightarrow> count \<noteq> 0
                         | Inl e \<Rightarrow> e \<noteq> io_error.WouldBlock)
           in case sn_set_nonblocking net False w of
                (Inl _, w) \<Rightarrow> (True, w)
              | (Inr _, w) \<Rightarrow> (queued, w)))"

text \<open>What a read leaves: the stream closed, or the buffer to go on with.\<close>

definition read_chunk ::
  "'w server_net \<Rightarrow> nat \<Rightarrow> nat \<Rightarrow> string \<Rightarrow> 'w \<Rightarrow> string option \<times> 'w" where
  "read_chunk net deadline limit request w =
     (case sn_read net limit w of
        (Inr bytes, w) \<Rightarrow> (if bytes = [] then None else Some (request @ bytes), w)
      | (Inl e, w) \<Rightarrow>
          (if e = io_error.Interrupted then Some request
           else if e = io_error.WouldBlock \<or> e = io_error.TimedOut
           then (if deadline \<le> sn_now net w then None else Some request)
           else None, w))"

partial_function (option) read_loop ::
  "'w server_net \<Rightarrow> nat \<Rightarrow> duration \<Rightarrow> string \<Rightarrow> 'w \<Rightarrow> (ReadOutcome \<times> 'w) option" where
  "read_loop net deadline stop_poll_interval request w =
     (if sn_shutdown net w then Some (ReadOutcome.Closed, w)
      else case request_frame request of
          RequestFrame.Complete \<Rightarrow>
            (case has_queued_bytes net w of
               (queued, w) \<Rightarrow>
                 if queued then Some (ReadOutcome.Rejected (request @ [CHR 0x00]), w)
                 else Some (ReadOutcome.Complete request, w))
        | RequestFrame.Rejected \<Rightarrow> Some (ReadOutcome.Rejected request, w)
        | RequestFrame.Incomplete \<Rightarrow>
            if deadline \<le> sn_now net w then Some (ReadOutcome.Closed, w)
            else (case sn_set_read_timeout net (min (deadline - sn_now net w) stop_poll_interval) w of
                (Inl _, w) \<Rightarrow> Some (ReadOutcome.Closed, w)
              | (Inr _, w) \<Rightarrow>
                  if MAX_REQUEST_BYTES + 1 \<le> length request then Some (ReadOutcome.Rejected request, w)
                  else (case read_chunk net deadline
                               (min (MAX_REQUEST_BYTES + 1 - length request) READ_CHUNK_BYTES) request w of
                      (None, w) \<Rightarrow> Some (ReadOutcome.Closed, w)
                    | (Some request, w) \<Rightarrow> read_loop net deadline stop_poll_interval request w)))"

definition read_one_request ::
  "'w server_net \<Rightarrow> duration \<Rightarrow> duration \<Rightarrow> 'w \<Rightarrow> (ReadOutcome \<times> 'w) option" where
  "read_one_request net timeout stop_poll_interval w =
     (case checked_add (sn_now net w) timeout of
        None \<Rightarrow> Some (ReadOutcome.Closed, w)
      | Some deadline \<Rightarrow> read_loop net deadline stop_poll_interval [] w)"

subsection \<open>Writing the response\<close>

partial_function (option) write_loop ::
  "'w server_net \<Rightarrow> nat \<Rightarrow> string \<Rightarrow> 'w \<Rightarrow> ((io_error, unit) result \<times> 'w) option" where
  "write_loop net deadline reply w =
     (if reply = [] then Some (Inr (), w)
      else if deadline \<le> sn_now net w then Some (Inl io_error.TimedOut, w)
      else (case sn_set_write_timeout net (deadline - sn_now net w) w of
          (Inl e, w) \<Rightarrow> Some (Inl e, w)
        | (Inr _, w) \<Rightarrow>
            (case sn_write net reply w of
               (Inr count, w) \<Rightarrow>
                 if count = 0 then Some (Inl io_error.OtherError, w)
                 else write_loop net deadline (drop count reply) w
             | (Inl e, w) \<Rightarrow>
                 if e = io_error.Interrupted then write_loop net deadline reply w
                 else if e = io_error.WouldBlock \<or> e = io_error.TimedOut then
                   (if deadline \<le> sn_now net w then Some (Inl io_error.TimedOut, w)
                    else write_loop net deadline reply w)
                 else Some (Inl e, w))))"

definition write_with_deadline ::
  "'w server_net \<Rightarrow> string \<Rightarrow> duration \<Rightarrow> 'w \<Rightarrow> ((io_error, unit) result \<times> 'w) option" where
  "write_with_deadline net reply timeout w =
     (case checked_add (sn_now net w) timeout of
        None \<Rightarrow> Some (Inl io_error.TimedOut, w)
      | Some deadline \<Rightarrow> write_loop net deadline reply w)"

subsection \<open>Connections\<close>

definition addresses_are_trusted :: "'w server_net \<Rightarrow> SocketAddr \<Rightarrow> SocketAddr \<Rightarrow> 'w \<Rightarrow> bool \<times> 'w" where
  "addresses_are_trusted net local_addr accepted_peer w =
     (let (l, w) = sn_local_addr net w; (p, w) = sn_peer_addr net w
      in (case (l, p) of
            (Inr local, Inr peer) \<Rightarrow>
              local = local_addr \<and> ip_is_loopback (sa_ip local) \<and> peer = accepted_peer
              \<and> ip_is_loopback (sa_ip peer)
          | _ \<Rightarrow> False, w))"

definition answer ::
  "'w server_net \<Rightarrow> 'a web_env \<Rightarrow> string \<Rightarrow> 'a WebServer \<Rightarrow> 'w \<Rightarrow> ('a WebServer \<times> 'w) option" where
  "answer net env request server w =
     (let (reply, app) = handle env request (wsv_app server)
      in map_option (\<lambda>(_, w). (server\<lparr>wsv_app := app\<rparr>, sn_close net w))
           (write_with_deadline net (to_http1_bytes reply) (wso_write_deadline (wsv_options server)) w))"

definition handle_connection ::
  "'w server_net \<Rightarrow> 'a web_env \<Rightarrow> SocketAddr \<Rightarrow> 'a WebServer \<Rightarrow> 'w \<Rightarrow> ('a WebServer \<times> 'w) option" where
  "handle_connection net env accepted_peer server w =
     (case sn_set_nonblocking net False w of
        (Inl _, w) \<Rightarrow> Some (server, sn_close net w)
      | (Inr _, w) \<Rightarrow>
          (case addresses_are_trusted net (wsv_local_addr server) accepted_peer w of
             (trusted, w) \<Rightarrow>
               if \<not> trusted then Some (server, sn_close net w)
               else Option.bind
                 (read_one_request net (wso_read_deadline (wsv_options server))
                    (wso_accept_poll_interval (wsv_options server)) w) (\<lambda>(outcome, w).
                 case outcome of
                   ReadOutcome.Complete request \<Rightarrow> answer net env request server w
                 | ReadOutcome.Rejected request \<Rightarrow> answer net env request server w
                 | ReadOutcome.Closed \<Rightarrow> Some (server, sn_close net w))))"

text \<open>
  The accept loop returns the server with its actor, when the shutdown flag is up or, with the error, when
  accepting fails. The environment of a request depends on the clock of its moment.
\<close>

partial_function (option) serve ::
  "'w server_net \<Rightarrow> ('w \<Rightarrow> 'a web_env) \<Rightarrow> 'a WebServer \<Rightarrow> 'w
    \<Rightarrow> ((WebServerError \<times> 'a, 'a) result \<times> 'w) option" where
  "serve net env server w =
     (if sn_shutdown net w then Some (Inr (app_actor (wsv_app server)), w)
      else (case sn_accept net w of
          (Inr accepted_peer, w) \<Rightarrow>
            Option.bind (handle_connection net (env w) accepted_peer server w) (\<lambda>(server, w).
              serve net env server w)
        | (Inl e, w) \<Rightarrow>
            if e = io_error.WouldBlock
            then serve net env server (sn_sleep net (wso_accept_poll_interval (wsv_options server)) w)
            else if e = io_error.Interrupted then serve net env server w
            else Some (Inl (WebServerError.AcceptFailed, app_actor (wsv_app server)), w)))"

subsection \<open>What reaches the application\<close>

text \<open>A complete outcome is one frame; whatever is rejected is not.\<close>

fun framed :: "ReadOutcome \<Rightarrow> bool" where
  "framed (ReadOutcome.Complete raw) = (request_frame raw = RequestFrame.Complete)"
| "framed (ReadOutcome.Rejected raw) = (request_frame raw \<noteq> RequestFrame.Complete)"
| "framed ReadOutcome.Closed = True"

lemma read_loop_framed:
  assumes "read_loop net deadline interval buffer w = Some y"
  shows "framed (fst y)"
proof (rule read_loop.raw_induct [where P = "\<lambda>_ _ _ _ _ y. framed (fst y)", OF _ assms])
  fix loop net deadline interval buffer w y
  assume IH: "\<And>net deadline interval buffer w y. loop net deadline interval buffer w = Some y \<Longrightarrow> framed (fst y)"
    and step: "(if sn_shutdown net w then Some (ReadOutcome.Closed, w)
      else case request_frame buffer of
          RequestFrame.Incomplete \<Rightarrow>
            if deadline \<le> sn_now net w then Some (ReadOutcome.Closed, w)
            else (case sn_set_read_timeout net (min (deadline - sn_now net w) interval) w of
                (Inl _, w) \<Rightarrow> Some (ReadOutcome.Closed, w)
              | (Inr _, w) \<Rightarrow>
                  if MAX_REQUEST_BYTES + 1 \<le> length buffer then Some (ReadOutcome.Rejected buffer, w)
                  else (case read_chunk net deadline
                               (min (MAX_REQUEST_BYTES + 1 - length buffer) READ_CHUNK_BYTES) buffer w of
                      (None, w) \<Rightarrow> Some (ReadOutcome.Closed, w)
                    | (Some buffer, w) \<Rightarrow> loop net deadline interval buffer w))
        | RequestFrame.Complete \<Rightarrow>
            (case has_queued_bytes net w of
               (queued, w) \<Rightarrow>
                 if queued then Some (ReadOutcome.Rejected (buffer @ [CHR 0x00]), w)
                 else Some (ReadOutcome.Complete buffer, w))
        | RequestFrame.Rejected \<Rightarrow> Some (ReadOutcome.Rejected buffer, w)) = Some y"
  show "framed (fst y)"
  proof (cases "request_frame buffer")
    case Incomplete
    with step IH show ?thesis
      by (auto split: if_splits prod.splits sum.splits option.splits)
  next
    case Complete
    with step complete_frame_is_final [OF Complete, of "CHR 0x00" "[]"] show ?thesis
      by (auto split: if_splits prod.splits)
  next
    case Rejected
    with step show ?thesis
      by (auto split: if_splits)
  qed
qed

lemma handle_unframed: "request_frame raw \<noteq> RequestFrame.Complete \<Longrightarrow> handle env raw app = (r, app') \<Longrightarrow> app' = app"
  using parsed_is_complete [of raw] by (cases "parse_request raw") (auto simp: handle_def Let_def)

lemma read_one_request_framed: "read_one_request net timeout interval w = Some (outcome, w') \<Longrightarrow> framed outcome"
  using read_loop_framed by (force simp: read_one_request_def split: option.splits)

lemma answer_sel:
  "answer net env raw server w = Some (server', w') \<Longrightarrow>
     server' = server\<lparr>wsv_app := snd (handle env raw (wsv_app server))\<rparr>"
  by (auto simp: answer_def Let_def split: prod.splits)

lemma answer_unframed:
  assumes "answer net env raw server w = Some (server', w')" and "request_frame raw \<noteq> RequestFrame.Complete"
  shows "server' = server"
proof -
  have "snd (handle env raw (wsv_app server)) = wsv_app server"
    using handle_unframed [OF assms(2)] by (metis prod.collapse)
  then show ?thesis
    using answer_sel [OF assms(1)] by simp
qed

lemma handle_connection_cases:
  assumes "handle_connection net env peer server w = Some (server', w')"
  obtains (kept) "server' = server"
  | (handed) w1 w2 w3 raw where "addresses_are_trusted net (wsv_local_addr server) peer w1 = (True, w2)"
      and "read_one_request net (wso_read_deadline (wsv_options server))
             (wso_accept_poll_interval (wsv_options server)) w2 = Some (ReadOutcome.Complete raw, w3)"
      and "request_frame raw = RequestFrame.Complete"
      and "server' = server\<lparr>wsv_app := snd (handle env raw (wsv_app server))\<rparr>"
proof -
  obtain set w1 where s: "sn_set_nonblocking net False w = (set, w1)"
    by fastforce
  obtain trusted w2 where t: "addresses_are_trusted net (wsv_local_addr server) peer w1 = (trusted, w2)"
    by fastforce
  show ?thesis
  proof (cases "is_ok set \<and> trusted")
    case False
    then show ?thesis
      using assms s t kept by (cases set) (auto simp: handle_connection_def)
  next
    case True
    then obtain ok where ok: "set = Inr ok" "trusted"
      by (auto simp: is_ok_iff)
    let ?read = "read_one_request net (wso_read_deadline (wsv_options server))
             (wso_accept_poll_interval (wsv_options server)) w2"
    obtain outcome w3 where r: "?read = Some (outcome, w3)"
      using assms s t ok unfolding handle_connection_def by (cases ?read) auto
    have f: "framed outcome"
      using r by (rule read_one_request_framed)
    have run: "(case outcome of
          ReadOutcome.Complete request \<Rightarrow> answer net env request server w3
        | ReadOutcome.Rejected request \<Rightarrow> answer net env request server w3
        | ReadOutcome.Closed \<Rightarrow> Some (server, sn_close net w3)) = Some (server', w')"
      using assms s t ok r unfolding handle_connection_def by simp
    show ?thesis
    proof (cases outcome)
      case (Complete raw)
      then show ?thesis
        using run f r t ok(2) by (intro handed [of w1 w2 raw w3]) (auto dest: answer_sel)
    next
      case (Rejected raw)
      then show ?thesis
        using run f by (intro kept) (auto dest: answer_unframed)
    next
      case Closed
      then show ?thesis
        using run by (intro kept) simp
    qed
  qed
qed

lemma trusted_peer: "addresses_are_trusted net local_addr peer w = (True, w') \<Longrightarrow> ip_is_loopback (sa_ip peer)"
  by (auto simp: addresses_are_trusted_def Let_def split: prod.splits sum.splits)

text \<open>A property of the application that every handled request keeps holds of the actor the server returns.\<close>

lemma serve_keeps:
  assumes "serve net env server w = Some y" and "P (app_actor (wsv_app server))"
    and step: "\<And>w raw app. P (app_actor app) \<Longrightarrow> P (app_actor (snd (handle (env w) raw app)))"
  shows "case fst y of Inl (_, actor) \<Rightarrow> P actor | Inr actor \<Rightarrow> P actor"
proof -
  let ?ends = "\<lambda>y. case fst y of Inl (_, actor) \<Rightarrow> P actor | Inr actor \<Rightarrow> P actor"
  let ?keeps = "\<lambda>e :: 'w \<Rightarrow> 'a web_env. \<forall>w raw app. P (app_actor app) \<longrightarrow> P (app_actor (snd (handle (e w) raw app)))"
  have "?keeps env \<longrightarrow> P (app_actor (wsv_app server)) \<longrightarrow> ?ends y"
  proof (rule serve.raw_induct [where P = "\<lambda>_ env server _ y. ?keeps env \<longrightarrow> P (app_actor (wsv_app server)) \<longrightarrow> ?ends y",
        OF _ assms(1)], rule impI)
    fix loop net and env :: "'w \<Rightarrow> 'a web_env" and server w y
    assume IH: "\<And>net env server w y. loop net env server w = Some y \<Longrightarrow>
        ?keeps env \<longrightarrow> P (app_actor (wsv_app server)) \<longrightarrow> ?ends y"
      and run: "(if sn_shutdown net w then Some (Inr (app_actor (wsv_app server)), w)
        else (case sn_accept net w of
            (Inl e, w) \<Rightarrow>
              if e = io_error.WouldBlock
              then loop net env server (sn_sleep net (wso_accept_poll_interval (wsv_options server)) w)
              else if e = io_error.Interrupted then loop net env server w
              else Some (Inl (WebServerError.AcceptFailed, app_actor (wsv_app server)), w)
          | (Inr accepted_peer, w) \<Rightarrow>
              Option.bind (handle_connection net (env w) accepted_peer server w) (\<lambda>(server, w).
                loop net env server w))) = Some y"
      and keeps: "?keeps env"
    have conn: "P (app_actor (wsv_app server)) \<Longrightarrow> P (app_actor (wsv_app server'))"
      if "handle_connection net (env v) peer server w0 = Some (server', w1)" for v peer server' w0 w1
      using that keeps by (cases rule: handle_connection_cases) auto
    note IH = IH [THEN mp, OF _ keeps]
    show "P (app_actor (wsv_app server)) \<longrightarrow>
        (case fst y of Inl (_, actor) \<Rightarrow> P actor | Inr actor \<Rightarrow> P actor)"
    proof (cases "sn_accept net w")
      case (Pair r w1)
      show ?thesis
      proof (cases r)
        case (Inl e)
        with Pair run IH show ?thesis
          by (auto split: if_splits)
      next
        case (Inr peer)
        show ?thesis
        proof (cases "sn_shutdown net w")
          case False
          then obtain server' w2 where "handle_connection net (env w1) peer server w1 = Some (server', w2)"
              "loop net env server' w2 = Some y"
            using Pair Inr run by (auto simp: bind_eq_Some_conv)
          with IH conn show ?thesis by blast
        qed (use run in auto)
      qed
    qed
  qed
  with assms(2) step show ?thesis by blast
qed

end
