(* ===== verification/Cli.thy ===== *)
theory Cli
  imports Config_Load User_Service Web_Server Control Web_Page
begin

text \<open>
  The command line (\<open>rust/src/main.rs\<close>): the options, the dispatch, the service process with its exit, the
  commands of the local client and what they print.

  The process is one world of the record \<open>cli_env\<close>. Writing JSON is the library's work and a parameter.
  A command that does not return is \<open>None\<close>.
\<close>

datatype Command = Configure | Serve | Start | Stop | RecoverStop | Status | Doctor | Group | Help

record Options =
  opt_command :: Command
  opt_config_path :: "string option"
  opt_json :: bool
  opt_recovery_confirmed :: bool
  opt_from_environment :: bool

datatype CliError =
    InvalidArguments | OutputFailed | Configuration JblError | LocalClient LocalClientError
  | ServiceRuntime ServiceRuntimeError | WebServer WebServerError | ActionNotAccepted

subsection \<open>Options\<close>

definition set_command :: "Command option \<Rightarrow> Command \<Rightarrow> (CliError, Command option) result" where
  "set_command slot c = (if slot \<noteq> None then Inl CliError.InvalidArguments else Inr (Some c))"

definition command_words :: "(string \<times> Command) list" where
  "command_words =
     [(''configure'', Command.Configure), (''serve'', Command.Serve), (''start'', Command.Start),
      (''stop'', Command.Stop), (''recover-stop'', Command.RecoverStop), (''status'', Command.Status),
      (''doctor'', Command.Doctor), (''group'', Command.Group), (''help'', Command.Help),
      (''-h'', Command.Help), (''--help'', Command.Help)]"

text \<open>The variables of the argument loop.\<close>

record option_slots =
  os_command :: "Command option"
  os_config_path :: "string option"
  os_json :: bool
  os_recovery_confirmed :: bool
  os_from_environment :: bool

fun parse_arguments :: "string list \<Rightarrow> option_slots \<Rightarrow> (CliError, option_slots) result" where
  "parse_arguments [] s = Inr s"
| "parse_arguments (argument # rest) s =
     (if \<not> utf8_valid argument then Inl CliError.InvalidArguments
      else case map_of command_words argument of
        Some c \<Rightarrow>
          and_then (set_command (os_command s) c) (\<lambda>slot. parse_arguments rest (s\<lparr>os_command := slot\<rparr>))
      | None \<Rightarrow>
          if argument = ''--json'' \<and> \<not> os_json s then parse_arguments rest (s\<lparr>os_json := True\<rparr>)
          else if argument = ''--confirm'' \<and> \<not> os_recovery_confirmed s
          then parse_arguments rest (s\<lparr>os_recovery_confirmed := True\<rparr>)
          else if argument = ''--from-env'' \<and> \<not> os_from_environment s
          then parse_arguments rest (s\<lparr>os_from_environment := True\<rparr>)
          else if argument = ''--config'' \<and> os_config_path s = None
          then (case rest of
                  [] \<Rightarrow> Inl CliError.InvalidArguments
                | path # rest \<Rightarrow> parse_arguments rest (s\<lparr>os_config_path := Some path\<rparr>))
          else Inl CliError.InvalidArguments)"

definition confirmation_valid :: "Command \<Rightarrow> bool \<Rightarrow> bool \<Rightarrow> bool" where
  "confirmation_valid command recovery_confirmed from_environment =
     (case command of
        Command.RecoverStop \<Rightarrow> recovery_confirmed \<and> \<not> from_environment
      | Command.Configure \<Rightarrow> recovery_confirmed \<and> from_environment
      | _ \<Rightarrow> \<not> recovery_confirmed \<and> \<not> from_environment)"

definition check_options :: "option_slots \<Rightarrow> (CliError, Options) result" where
  "check_options s =
     (let command = (case os_command s of Some c \<Rightarrow> c | None \<Rightarrow> Command.Status)
      in if \<not> confirmation_valid command (os_recovery_confirmed s) (os_from_environment s)
           \<or> (os_config_path s \<noteq> None \<and> command \<notin> {Command.Serve, Command.Doctor, Command.Group})
           \<or> (os_json s \<and> command \<in> {Command.Configure, Command.Serve, Command.Help})
         then Inl CliError.InvalidArguments
         else Inr \<lparr>opt_command = command, opt_config_path = os_config_path s, opt_json = os_json s,
                   opt_recovery_confirmed = os_recovery_confirmed s,
                   opt_from_environment = os_from_environment s\<rparr>)"

definition no_options :: option_slots where
  "no_options =
     \<lparr>os_command = None, os_config_path = None, os_json = False, os_recovery_confirmed = False,
      os_from_environment = False\<rparr>"

definition parse_options_from :: "string list \<Rightarrow> (CliError, Options) result" where
  "parse_options_from arguments = and_then (parse_arguments arguments no_options) check_options"

subsection \<open>Names\<close>

fun backend_name :: "LocalBackend \<Rightarrow> string" where
  "backend_name LocalBackend.LegacyV04WholePair = ''legacy_v04_whole_pair''"
| "backend_name LocalBackend.NativePair = ''native_pair''"

fun pair_configuration_name :: "LocalPairConfiguration \<Rightarrow> string" where
  "pair_configuration_name LocalPairConfiguration.Ready = ''ready''"
| "pair_configuration_name LocalPairConfiguration.NotReady = ''not_ready''"
| "pair_configuration_name LocalPairConfiguration.Unavailable = ''unavailable''"

fun managed_state_name :: "LocalManagedState \<Rightarrow> string" where
  "managed_state_name LocalManagedState.Unknown = ''unknown''"
| "managed_state_name LocalManagedState.Offline = ''offline''"
| "managed_state_name LocalManagedState.Ready = ''ready''"
| "managed_state_name LocalManagedState.Linking = ''linking''"
| "managed_state_name LocalManagedState.Linked = ''linked''"
| "managed_state_name LocalManagedState.Unlinking = ''unlinking''"
| "managed_state_name LocalManagedState.Recovering = ''recovering''"
| "managed_state_name LocalManagedState.Degraded = ''degraded''"
| "managed_state_name LocalManagedState.ShuttingDown = ''shutting_down''"

fun lifecycle_name :: "LocalLifecycle \<Rightarrow> string" where
  "lifecycle_name LocalLifecycle.Offline = ''offline''"
| "lifecycle_name LocalLifecycle.Initializing = ''initializing''"
| "lifecycle_name LocalLifecycle.Connecting = ''connecting''"
| "lifecycle_name LocalLifecycle.Ready = ''ready''"
| "lifecycle_name LocalLifecycle.Linking = ''linking''"
| "lifecycle_name LocalLifecycle.Linked = ''linked''"
| "lifecycle_name LocalLifecycle.Unlinking = ''unlinking''"
| "lifecycle_name LocalLifecycle.Degraded = ''degraded''"
| "lifecycle_name LocalLifecycle.Recovering = ''recovering''"
| "lifecycle_name LocalLifecycle.ShuttingDown = ''shutting_down''"
| "lifecycle_name LocalLifecycle.Failed = ''failed''"

fun health_level_name :: "LocalHealthLevel \<Rightarrow> string" where
  "health_level_name LocalHealthLevel.Healthy = ''healthy''"
| "health_level_name LocalHealthLevel.Transitioning = ''transitioning''"
| "health_level_name LocalHealthLevel.Degraded = ''degraded''"
| "health_level_name LocalHealthLevel.Unavailable = ''unavailable''"

fun aura_transport_name :: "LocalAuraTransport \<Rightarrow> string" where
  "aura_transport_name LocalAuraTransport.Le = ''le''"
| "aura_transport_name LocalAuraTransport.BrEdr = ''br_edr''"
| "aura_transport_name LocalAuraTransport.Unresolved = ''unresolved''"
| "aura_transport_name LocalAuraTransport.Unknown = ''unknown''"

fun acquisition_route_name :: "LocalAuraAcquisitionRoute \<Rightarrow> string" where
  "acquisition_route_name LocalAuraAcquisitionRoute.StableDirect = ''stable_direct''"
| "acquisition_route_name LocalAuraAcquisitionRoute.A2dpWakeThenStable = ''a2dp_wake_then_stable''"
| "acquisition_route_name LocalAuraAcquisitionRoute.FreshLe = ''fresh_le''"
| "acquisition_route_name LocalAuraAcquisitionRoute.Unresolved = ''unresolved''"

fun action_name :: "LocalActionName \<Rightarrow> string" where
  "action_name LocalActionName.Start = ''start''"
| "action_name LocalActionName.Stop = ''stop''"
| "action_name LocalActionName.Shutdown = ''shutdown''"
| "action_name LocalActionName.RecoverStop = ''recover_stop''"

fun pair_member_name :: "LocalPairMemberName \<Rightarrow> string" where
  "pair_member_name LocalPairMemberName.JblAuthentics300 = ''JBL Authentics 300''"
| "pair_member_name LocalPairMemberName.AuraStudio5 = ''Aura Studio 5''"

fun pair_member_verification_name :: "LocalPairMemberVerification \<Rightarrow> string" where
  "pair_member_verification_name LocalPairMemberVerification.Verified = ''verified''"
| "pair_member_verification_name LocalPairMemberVerification.NotVerified = ''not_verified''"
| "pair_member_verification_name LocalPairMemberVerification.Unavailable = ''unavailable''"

fun pair_member_channel_name :: "LocalPairMemberChannel \<Rightarrow> string" where
  "pair_member_channel_name LocalPairMemberChannel.FrontLeft = ''front_left''"
| "pair_member_channel_name LocalPairMemberChannel.FrontRight = ''front_right''"
| "pair_member_channel_name LocalPairMemberChannel.Left = ''left''"
| "pair_member_channel_name LocalPairMemberChannel.Right = ''right''"
| "pair_member_channel_name LocalPairMemberChannel.Mono = ''mono''"
| "pair_member_channel_name LocalPairMemberChannel.Stereo = ''stereo''"
| "pair_member_channel_name LocalPairMemberChannel.Unknown = ''unknown''"

fun action_outcome_name :: "LocalActionOutcome \<Rightarrow> string" where
  "action_outcome_name LocalActionOutcome.Accepted = ''accepted''"
| "action_outcome_name LocalActionOutcome.AcceptedUnconfirmed = ''accepted_unconfirmed''"
| "action_outcome_name LocalActionOutcome.Idempotent = ''idempotent''"
| "action_outcome_name LocalActionOutcome.RejectedBeforeSend = ''rejected_before_send''"
| "action_outcome_name LocalActionOutcome.OutcomeUnknown = ''outcome_unknown''"
| "action_outcome_name LocalActionOutcome.PostconditionFailed = ''postcondition_failed''"

fun evidence_name :: "LocalActionEvidence \<Rightarrow> string" where
  "evidence_name LocalActionEvidence.LocalSessionState = ''local_session_state''"
| "evidence_name LocalActionEvidence.LifecycleAcknowledgement = ''lifecycle_acknowledgement''"
| "evidence_name LocalActionEvidence.BroadcastAcknowledgementOnly = ''broadcast_acknowledgement_only''"
| "evidence_name LocalActionEvidence.BroadcastBusinessNotification = ''broadcast_business_notification''"

fun failure_name :: "LocalFailure \<Rightarrow> string" where
  "failure_name LocalFailure.PairConfigurationUnavailable = ''pair_configuration_unavailable''"
| "failure_name LocalFailure.ExpectedPairNotConfigured = ''expected_pair_not_configured''"
| "failure_name LocalFailure.BackendRejectedBeforeSend = ''backend_rejected_before_send''"
| "failure_name LocalFailure.AuraAdapterUnavailable = ''aura_adapter_unavailable''"
| "failure_name LocalFailure.AuraDiscoveryUnavailable = ''aura_discovery_unavailable''"
| "failure_name LocalFailure.AuraVerifiedAdvertisementNotFound = ''aura_verified_advertisement_not_found''"
| "failure_name LocalFailure.AuraDeviceConnectionFailed = ''aura_device_connection_failed''"
| "failure_name LocalFailure.WakeProfileConnectFailed = ''wake_profile_connect_failed''"
| "failure_name LocalFailure.WakeFddfTimedOut = ''wake_fddf_timed_out''"
| "failure_name LocalFailure.WakeFddfInvalid = ''wake_fddf_invalid''"
| "failure_name LocalFailure.WakeFddfUnavailable = ''wake_fddf_unavailable''"
| "failure_name LocalFailure.WakeProfileReleaseFailed = ''wake_profile_release_failed''"
| "failure_name LocalFailure.AuraGattProfileInvalid = ''aura_gatt_profile_invalid''"
| "failure_name LocalFailure.AuraNotificationSetupFailed = ''aura_notification_setup_failed''"
| "failure_name LocalFailure.AuraWriteUnknown = ''aura_write_unknown''"
| "failure_name LocalFailure.AuraAckTimeout = ''aura_ack_timeout''"
| "failure_name LocalFailure.AuraAckChannelClosed = ''aura_ack_channel_closed''"
| "failure_name LocalFailure.AuraUnexpectedAck = ''aura_unexpected_ack''"
| "failure_name LocalFailure.JblEnterOutcomeUnknown = ''jbl_enter_outcome_unknown''"
| "failure_name LocalFailure.JblExitOutcomeUnknown = ''jbl_exit_outcome_unknown''"
| "failure_name LocalFailure.JblBroadcastResultTimedOut = ''jbl_broadcast_result_timed_out''"
| "failure_name LocalFailure.JblBroadcastResultUnavailable = ''jbl_broadcast_result_unavailable''"
| "failure_name LocalFailure.JblBroadcastResultRejected = ''jbl_broadcast_result_rejected''"
| "failure_name LocalFailure.AuraStartOutcomeUnknown = ''aura_start_outcome_unknown''"
| "failure_name LocalFailure.BackendOutcomeUnknown = ''backend_outcome_unknown''"
| "failure_name LocalFailure.UnexpectedBackendLifecycle = ''unexpected_backend_lifecycle''"
| "failure_name LocalFailure.MembershipPostconditionFailed = ''membership_postcondition_failed''"
| "failure_name LocalFailure.UnresolvedPriorAction = ''unresolved_prior_action''"
| "failure_name LocalFailure.RecoveryNotAllowed = ''recovery_not_allowed''"
| "failure_name LocalFailure.JournalUnavailable = ''journal_unavailable''"
| "failure_name LocalFailure.JournalCommitFailed = ''journal_commit_failed''"

subsection \<open>The process\<close>

record DoctorReport =
  dr_configuration :: string
  dr_tls_pin :: string
  dr_lan :: string
  dr_pair_configuration :: string
  dr_members :: nat
  dr_bluetooth_backend :: string

datatype json_value =
  StatusValue LocalStatus | ActionValue LocalActionResult | DoctorValue DoctorReport | GroupValue GroupStatus

record ('w, 'b, 'p, 'j) cli_env =
  ce_stdout :: "string \<Rightarrow> ('w, io_error, unit) fallible"
  ce_serialize :: "json_value \<Rightarrow> string option"
  ce_process :: process_env
  ce_files :: "'w file_os"
  ce_install :: "'w install_os"
  ce_runtime :: "'w runtime_os"
  ce_controller :: "RuntimeConfig \<Rightarrow> ('b, 'p, 'j) environment"
  ce_backend_new :: "RuntimeConfig \<Rightarrow> ('w, PairBackendError, 'b) fallible"
  ce_probe_new :: "RuntimeConfig \<Rightarrow> ('w, PairProbeError, 'p) fallible"
  ce_journal_open :: "('w, JournalError, 'j) fallible"
  ce_sigaction :: "string \<Rightarrow> bool"
  ce_signals :: "'w \<Rightarrow> signal_state"
  ce_put_signals :: "signal_state \<Rightarrow> 'w \<Rightarrow> 'w"
  ce_server :: "'w server_net"
  ce_from_slice :: "string \<Rightarrow> Value option"
  ce_to_vec :: "Value \<Rightarrow> string"
  ce_now :: "'w \<Rightarrow> nat"
  ce_unit :: "'w process_os"
  ce_client :: "'w client_net"
  ce_lan :: "RuntimeConfig \<Rightarrow> ('w, JblError, 'w lan) fallible"

type_synonym 'w cli_run = "('w, CliError, unit) partial_run"

definition write_line :: "('w, 'b, 'p, 'j) cli_env \<Rightarrow> string \<Rightarrow> ('w, CliError, unit) fallible" where
  "write_line ce line =
     with_err (\<lambda>_. CliError.OutputFailed)
       (try_bind (ce_stdout ce line) (\<lambda>_. ce_stdout ce [CHR 0x0A]))"

definition print_json :: "('w, 'b, 'p, 'j) cli_env \<Rightarrow> json_value \<Rightarrow> ('w, CliError, unit) fallible" where
  "print_json ce v =
     try_bind (lift_result (ok_or CliError.OutputFailed (ce_serialize ce v))) (write_line ce)"

fun write_lines :: "('w, 'b, 'p, 'j) cli_env \<Rightarrow> string list \<Rightarrow> ('w, CliError, unit) fallible" where
  "write_lines ce [] = lift_result (Inr ())"
| "write_lines ce (l # ls) = try_bind (write_line ce l) (\<lambda>_. write_lines ce ls)"

definition show_bool :: "bool \<Rightarrow> string" where
  "show_bool b = (if b then ''true'' else ''false'')"

definition show_u64 :: "64 word \<Rightarrow> string" where
  "show_u64 n = show_nat (unat n)"

fun join_commas :: "string list \<Rightarrow> string" where
  "join_commas [] = []"
| "join_commas [x] = x"
| "join_commas (x # y # xs) = x @ '','' @ join_commas (y # xs)"

definition or_none :: "('a \<Rightarrow> string) \<Rightarrow> 'a option \<Rightarrow> string" where
  "or_none f v = (case v of Some x \<Rightarrow> f x | None \<Rightarrow> ''none'')"

subsection \<open>Printing\<close>

definition group_lines :: "GroupStatus \<Rightarrow> string list" where
  "group_lines g =
     (''pair_configuration='' @ (if gs_expected_pair_configured g then ''ready'' else ''not_ready'')
        @ '' members='' @ show_nat (gs_member_count g))
     # map (\<lambda>m. ''member='' @ gm_name m @ '' channels=''
              @ (if gm_channels m = [] then ''-'' else join_commas (gm_channels m))) (gs_members g)"

definition print_group :: "('w, 'b, 'p, 'j) cli_env \<Rightarrow> GroupStatus \<Rightarrow> ('w, CliError, unit) fallible" where
  "print_group ce g = write_lines ce (group_lines g)"

definition member_line :: "LocalPairMember \<Rightarrow> string" where
  "member_line m =
     ''member='' @ pair_member_name (lpm_name m) @ '' verification=''
       @ pair_member_verification_name (lpm_verification m) @ '' channels=''
       @ join_commas (map pair_member_channel_name (lpm_channels m))"

definition status_lines :: "LocalStatus \<Rightarrow> string list" where
  "status_lines s =
     [''backend='' @ backend_name (ls_backend s) @ '' pair_configuration=''
        @ pair_configuration_name (ls_pair_configuration s) @ '' managed_state=''
        @ managed_state_name (ls_managed_state s) @ '' revision='' @ show_u64 (ls_revision s),
      (case ls_backend_health s of
         Some h \<Rightarrow>
           ''backend_health='' @ health_level_name (lh_level h) @ '' lifecycle='' @ lifecycle_name (lh_lifecycle h)
             @ '' reported_error='' @ show_bool (lh_reported_error h)
             @ '' aura_transport='' @ aura_transport_name (lh_aura_transport h)
             @ '' aura_acquisition_route='' @ acquisition_route_name (lh_aura_acquisition_route h)
       | None \<Rightarrow> ''backend_health=unavailable''),
      member_line (fst (ls_members s)), member_line (snd (ls_members s)),
      (case ls_last_action s of
         Some a \<Rightarrow>
           ''last_action='' @ action_name (lla_action a) @ '' outcome='' @ action_outcome_name (lla_outcome a)
             @ '' evidence='' @ or_none evidence_name (lla_evidence a)
             @ '' failure='' @ or_none failure_name (lla_failure a)
             @ '' revision='' @ show_u64 (lla_revision a) @ '' age_ms='' @ show_u64 (lla_age_ms a)
       | None \<Rightarrow> ''last_action=none''),
      ''unresolved_action='' @ show_bool (ls_unresolved_action s)
        @ '' consecutive_failures='' @ show_nat (unat (ls_consecutive_failures s))]"

definition print_local_status ::
  "('w, 'b, 'p, 'j) cli_env \<Rightarrow> LocalStatus \<Rightarrow> bool \<Rightarrow> ('w, CliError, unit) fallible" where
  "print_local_status ce s json =
     (if json then print_json ce (StatusValue s) else write_lines ce (status_lines s))"

definition action_line :: "LocalActionResult \<Rightarrow> string" where
  "action_line r =
     ''action='' @ action_name (lar_action r) @ '' outcome='' @ action_outcome_name (lar_outcome r)
       @ '' managed_state='' @ managed_state_name (lar_managed_state r)
       @ '' evidence='' @ or_none evidence_name (lar_evidence r)
       @ '' failure='' @ or_none failure_name (lar_failure r) @ '' revision='' @ show_u64 (lar_revision r)"

definition print_action ::
  "('w, 'b, 'p, 'j) cli_env \<Rightarrow> LocalActionResult \<Rightarrow> bool \<Rightarrow> ('w, CliError, unit) fallible" where
  "print_action ce r json =
     try_bind (if json then print_json ce (ActionValue r) else write_line ce (action_line r)) (\<lambda>_.
       lift_result (if succeeded r then Inr () else Inl CliError.ActionNotAccepted))"

definition usage :: "('w, 'b, 'p, 'j) cli_env \<Rightarrow> ('w, CliError, unit) fallible" where
  "usage ce =
     write_line ce (join_lines
       [''Usage: jbl-aura-link-rust [--json] <start|stop|status>'',
        ''       jbl-aura-link-rust recover-stop --confirm [--json]'',
        ''       jbl-aura-link-rust configure --from-env --confirm'',
        ''       jbl-aura-link-rust [--config PATH] <serve|doctor|group> [--json]'',
        '''',
        ''Commands:'',
        ''  configure     Atomically install private Rust config from environment'',
        ''  serve         Run the loopback-only single-owner service'',
        ''  start         Ask the local service to start Play Together'',
        ''  stop          Ask the local service to stop Play Together'',
        ''  recover-stop  Explicit one-shot safe STOP recovery; requires --confirm'',
        ''  status        Read sanitized managed state from the local service (default)'',
        ''  doctor        Direct read-only configuration and device check'',
        ''  group         Direct read-only retained membership check'',
        ''  help          Show this text'',
        '''',
        ''start/stop/status/recover-stop never open a device backend. If needed,'',
        ''they start jbl-aura-link-rust.service once and use only loopback HTTP.''])"

subsection \<open>Commands\<close>

definition run_configure :: "('w, 'b, 'p, 'j) cli_env \<Rightarrow> Options \<Rightarrow> ('w, CliError, unit) fallible" where
  "run_configure ce options =
     (if \<not> opt_recovery_confirmed options \<or> \<not> opt_from_environment options
      then lift_result (Inl CliError.InvalidArguments)
      else
        try_bind (with_err CliError.Configuration
                    (install_private_default_from_environment (ce_install ce) (ce_files ce) (ce_process ce))) (\<lambda>_.
          write_line ce ''private_configuration=installed service_started=false''))"

text \<open>The end of the service process: the roles first, then the listener's own error; the actor is dropped.\<close>

definition finish_service ::
  "('b, 'p, 'j) environment \<Rightarrow> nat \<Rightarrow> ('b, 'p, 'j) ControllerWebActor \<Rightarrow> WebServerError option
    \<Rightarrow> (CliError, unit) result \<times> ('b, 'p, 'j) ControllerWebActor" where
  "finish_service env now actor listener_error =
     (let (r, a) = shutdown_for_exit env now actor
      in (case r of
            Inl e \<Rightarrow> Inl (CliError.ServiceRuntime e)
          | Inr _ \<Rightarrow> (case listener_error of None \<Rightarrow> Inr () | Some e \<Rightarrow> Inl (CliError.WebServer e)),
          actor_drop env a))"

definition service_web_env ::
  "('w, 'b, 'p, 'j) cli_env \<Rightarrow> ('b, 'p, 'j) environment \<Rightarrow> 'w \<Rightarrow> ('b, 'p, 'j) ControllerWebActor web_env" where
  "service_web_env ce env w =
     \<lparr>we_actor = controller_actor env (ce_now ce w), we_from_slice = ce_from_slice ce, we_to_vec = ce_to_vec ce\<rparr>"

text \<open>
  The result of the service comes with the actor it ended with, if there was one. An actor that is dropped
  tears its transport down and its locks are closed.
\<close>

type_synonym ('w, 'b, 'p, 'j) service_end =
  "(CliError, unit) result \<times> ('b, 'p, 'j) ControllerWebActor option \<times> 'w"

definition dropped ::
  "('w, 'b, 'p, 'j) cli_env \<Rightarrow> (CliError, unit) result \<times> ('b, 'p, 'j) ControllerWebActor \<Rightarrow> 'w
    \<Rightarrow> ('w, 'b, 'p, 'j) service_end" where
  "dropped ce ra w = (fst ra, Some (snd ra), release (ce_runtime ce) (cwa_process_lock (snd ra)) w)"

definition install_handlers :: "('w, 'b, 'p, 'j) cli_env \<Rightarrow> ('w, ServiceRuntimeError, unit) fallible" where
  "install_handlers ce w =
     (let (r, s) = install_termination_handlers (ce_sigaction ce) (ce_signals ce w) in (r, ce_put_signals ce s w))"

definition serve_until_stopped ::
  "('w, 'b, 'p, 'j) cli_env \<Rightarrow> ('b, 'p, 'j) environment \<Rightarrow> ('b, 'p, 'j) ControllerWebActor \<Rightarrow> 'w
    \<Rightarrow> ('w, 'b, 'p, 'j) service_end option" where
  "serve_until_stopped ce env actor w =
     (case install_handlers ce w of
        (Inl e, w) \<Rightarrow> Some (dropped ce (Inl (CliError.ServiceRuntime e), actor_drop env actor) w)
      | (Inr _, w) \<Rightarrow>
          (case Web_Server.bind (ce_server ce) actor \<lparr>sa_ip = IpAddr.V4 LOCALHOST4, sa_port = DEFAULT_WEB_PORT\<rparr> w of
             (Inl e, w) \<Rightarrow> Some (dropped ce (Inl (CliError.WebServer e), actor_drop env actor) w)
           | (Inr server, w) \<Rightarrow>
               map_option (\<lambda>(served, w).
                   dropped ce
                     (case served of
                        Inr actor \<Rightarrow> finish_service env (ce_now ce w) actor None
                      | Inl (listener_error, actor) \<Rightarrow> finish_service env (ce_now ce w) actor (Some listener_error)) w)
                 (serve (ce_server ce) (service_web_env ce env) server w)))"

definition run_service ::
  "('w, 'b, 'p, 'j) cli_env \<Rightarrow> string option \<Rightarrow> 'w \<Rightarrow> ('w, 'b, 'p, 'j) service_end option" where
  "run_service ce config_path w =
     (case load (ce_files ce) (ce_process ce) config_path w of
        (Inl e, w) \<Rightarrow> Some (Inl (CliError.Configuration e), None, w)
      | (Inr config, w) \<Rightarrow>
          (case build_native_service_actor (ce_runtime ce) (ce_controller ce config) (ce_backend_new ce config)
                  (ce_probe_new ce config) (ce_journal_open ce) w of
             (Inl e, w) \<Rightarrow> Some (Inl (CliError.ServiceRuntime e), None, w)
           | (Inr actor, w) \<Rightarrow> serve_until_stopped ce (ce_controller ce config) actor w))"

definition local_run ::
  "('w, 'a) run \<Rightarrow> ('a \<Rightarrow> ('w, CliError, unit) fallible) \<Rightarrow> 'w cli_run" where
  "local_run m print w =
     map_option (\<lambda>(r, w). case r of Inl e \<Rightarrow> (Inl (CliError.LocalClient e), w) | Inr v \<Rightarrow> print v w) (m w)"

text \<open>The last branch is the source's \<open>unreachable!\<close>: the dispatch below never takes it.\<close>

definition run_local_command :: "('w, 'b, 'p, 'j) cli_env \<Rightarrow> Options \<Rightarrow> 'w cli_run" where
  "run_local_command ce options w =
     (let client = local_service_client_default; net = ce_client ce; from_slice = ce_from_slice ce
      in Option.bind (ensure_user_service (ce_unit ce) net client w) (\<lambda>(r, w).
           case r of
             Inl e \<Rightarrow> Some (Inl (CliError.ServiceRuntime e), w)
           | Inr _ \<Rightarrow>
               (case opt_command options of
                  Command.Status \<Rightarrow>
                    local_run (client_status net from_slice client) (\<lambda>s. print_local_status ce s (opt_json options)) w
                | Command.Start \<Rightarrow>
                    local_run (client_start net from_slice client) (\<lambda>a. print_action ce a (opt_json options)) w
                | Command.Stop \<Rightarrow>
                    local_run (client_stop net from_slice client) (\<lambda>a. print_action ce a (opt_json options)) w
                | Command.RecoverStop \<Rightarrow>
                    if \<not> opt_recovery_confirmed options then Some (Inl CliError.InvalidArguments, w)
                    else local_run (client_recover_stop net from_slice client) (\<lambda>a. print_action ce a (opt_json options)) w
                | _ \<Rightarrow> None)))"

definition doctor_report :: "SanitizedStatus \<Rightarrow> DoctorReport" where
  "doctor_report s =
     \<lparr>dr_configuration = ''ok'', dr_tls_pin = ''present'', dr_lan = ''ok'',
      dr_pair_configuration =
        (if gs_expected_pair_configured (ss_play_together s) then ''ready'' else ''not_ready''),
      dr_members = gs_member_count (ss_play_together s), dr_bluetooth_backend = ''native_constructed''\<rparr>"

definition doctor_lines :: "DoctorReport \<Rightarrow> string list" where
  "doctor_lines d =
     [''configuration='' @ dr_configuration d @ '' tls_pin='' @ dr_tls_pin d @ '' lan='' @ dr_lan d,
      ''pair_configuration='' @ dr_pair_configuration d @ '' members='' @ show_nat (dr_members d),
      ''bluetooth_backend='' @ dr_bluetooth_backend d]"

definition run_doctor :: "('w, 'b, 'p, 'j) cli_env \<Rightarrow> string option \<Rightarrow> bool \<Rightarrow> ('w, CliError, unit) fallible" where
  "run_doctor ce config_path json =
     try_bind (with_err CliError.Configuration (load (ce_files ce) (ce_process ce) config_path)) (\<lambda>config.
     try_bind (with_err CliError.ServiceRuntime (validate_native_runtime (ce_backend_new ce config))) (\<lambda>_.
     try_bind (with_err CliError.Configuration (ce_lan ce config)) (\<lambda>lan.
     try_bind (with_err CliError.Configuration
                 (sanitized_status lan (rc_expected_model config) (rc_jbl_identity config)
                    (rc_aura_identity config))) (\<lambda>s.
       if json then print_json ce (DoctorValue (doctor_report s))
       else write_lines ce (doctor_lines (doctor_report s))))))"

definition run_group :: "('w, 'b, 'p, 'j) cli_env \<Rightarrow> string option \<Rightarrow> bool \<Rightarrow> ('w, CliError, unit) fallible" where
  "run_group ce config_path json =
     try_bind (with_err CliError.Configuration (load (ce_files ce) (ce_process ce) config_path)) (\<lambda>config.
     try_bind (with_err CliError.Configuration (ce_lan ce config)) (\<lambda>lan.
     try_bind (with_err CliError.Configuration
                 (pair_configuration_status lan (rc_expected_model config) (rc_jbl_identity config)
                    (rc_aura_identity config))) (\<lambda>g.
       if json then print_json ce (GroupValue g) else print_group ce g)))"

definition run_command :: "('w, 'b, 'p, 'j) cli_env \<Rightarrow> string list \<Rightarrow> 'w cli_run" where
  "run_command ce arguments w =
     (case parse_options_from arguments of
        Inl e \<Rightarrow> Some (Inl e, w)
      | Inr options \<Rightarrow>
          (case opt_command options of
             Command.Help \<Rightarrow> Some (usage ce w)
           | Command.Configure \<Rightarrow> Some (run_configure ce options w)
           | Command.Serve \<Rightarrow> map_option (\<lambda>(r, _, w). (r, w)) (run_service ce (opt_config_path options) w)
           | Command.Doctor \<Rightarrow> Some (run_doctor ce (opt_config_path options) (opt_json options) w)
           | Command.Group \<Rightarrow> Some (run_group ce (opt_config_path options) (opt_json options) w)
           | _ \<Rightarrow> run_local_command ce options w))"

end
