(* ===== verification/Aura_Scan.thy ===== *)
theory Aura_Scan
  imports Aura_Att
begin

text \<open>
  Acquiring the Aura bearer, first part (\<open>rust/src/aura_bluez.rs\<close>): the active scan for a fresh advertisement,
  the low-energy connection with its retries, and the stable connection to the paired device.

  The scan waits on three sources at once: the deadline, the events of the adapter and the property changes of
  the devices it subscribed to. One \<open>sb_next\<close> is one wait; which source is ready is up to the system. The loop
  is a partial function: it ends when a source ends it.
\<close>

subsection \<open>BlueZ for a scan\<close>

type_synonym Uuid = "128 word"
type_synonym service_data = "Uuid \<rightharpoonup> 8 word list"

datatype AdapterEvent = DeviceAdded Address | DeviceRemoved Address | PropertyChanged

datatype DeviceProperty = ServiceData service_data | OtherProperty

datatype scan_event =
    DeadlineReached
  | AdapterNext "AdapterEvent option"
  | DeviceNext "(Address \<times> DeviceProperty) option"

datatype dbus_value = BoolValue bool | OtherValue

type_synonym interfaces = "string \<rightharpoonup> string \<rightharpoonup> dbus_value"

text \<open>The fields of a discovery filter the program sets; the others keep their defaults.\<close>

datatype DiscoveryTransport = Auto | BrEdr | Le

record DiscoveryFilter =
  df_transport :: DiscoveryTransport
  df_duplicate_data :: bool
  df_pattern :: "string option"

definition aura_discovery_filter :: DiscoveryFilter where
  "aura_discovery_filter =
     \<lparr>df_transport = DiscoveryTransport.Le, df_duplicate_data = True, df_pattern = Some []\<rparr>"

text \<open>
  A hash set is iterated in an order of its own: \<open>sb_hash_set\<close> lists the elements of a list once each, in that
  order. Subscribing to a device adds its events to those the waits may return.
\<close>

record ('w, 's) scan_bluez = "('w, 's) bluez" +
  sb_reported_address :: "Address \<Rightarrow> 'w \<Rightarrow> Address"
  sb_parse_uuid :: "string \<Rightarrow> Uuid option"
  sb_hash_set :: "Address list \<Rightarrow> Address list"
  sb_address_type :: "Address \<Rightarrow> nat \<Rightarrow> 'w \<Rightarrow> AddressType awaited \<times> 'w"
  sb_is_paired :: "Address \<Rightarrow> nat \<Rightarrow> 'w \<Rightarrow> bool awaited \<times> 'w"
  sb_is_trusted :: "Address \<Rightarrow> nat \<Rightarrow> 'w \<Rightarrow> bool awaited \<times> 'w"
  sb_is_blocked :: "Address \<Rightarrow> nat \<Rightarrow> 'w \<Rightarrow> bool awaited \<times> 'w"
  sb_is_connected :: "Address \<Rightarrow> nat \<Rightarrow> 'w \<Rightarrow> bool awaited \<times> 'w"
  sb_service_data :: "Address \<Rightarrow> nat \<Rightarrow> 'w \<Rightarrow> service_data option awaited \<times> 'w"
  sb_set_discovery_filter :: "DiscoveryFilter \<Rightarrow> nat \<Rightarrow> 'w \<Rightarrow> unit awaited \<times> 'w"
  sb_device_addresses :: "nat \<Rightarrow> 'w \<Rightarrow> Address list awaited \<times> 'w"
  sb_subscribe :: "Address \<Rightarrow> nat \<Rightarrow> 'w \<Rightarrow> unit awaited \<times> 'w"
  sb_discover_devices :: "nat \<Rightarrow> 'w \<Rightarrow> unit awaited \<times> 'w"
  sb_next :: "nat \<Rightarrow> 'w \<Rightarrow> scan_event \<times> 'w"
  sb_sleep_until :: "nat \<Rightarrow> 'w \<Rightarrow> 'w"
  sb_sleep :: "duration \<Rightarrow> 'w \<Rightarrow> 'w"
  sb_connect_profile :: "Address \<Rightarrow> Uuid \<Rightarrow> nat \<Rightarrow> 'w \<Rightarrow> unit awaited \<times> 'w"
  sb_disconnect_profile :: "Address \<Rightarrow> Uuid \<Rightarrow> nat \<Rightarrow> 'w \<Rightarrow> unit awaited \<times> 'w"
  sb_object_path :: "string \<Rightarrow> string option"
  sb_system_bus :: "'w \<Rightarrow> unit option \<times> 'w"
  sb_managed_objects :: "duration \<Rightarrow> 'w \<Rightarrow> (string \<rightharpoonup> interfaces) option \<times> 'w"

record AuraBluezConfig =
  abc_adapter_name :: string
  abc_timings :: AuraBluezTimings

definition default_bluez_config :: AuraBluezConfig where
  "default_bluez_config = \<lparr>abc_adapter_name = DEFAULT_ADAPTER, abc_timings = default_bluez_timings\<rparr>"

definition parse_uuid :: "('w, 's) scan_bluez \<Rightarrow> string \<Rightarrow> (AuraFailureReason, Uuid) result" where
  "parse_uuid bz s = ok_or AuraFailureReason.InvalidConfiguration (sb_parse_uuid bz s)"

subsection \<open>Evidence\<close>

datatype FreshAdvertisementEvidence =
    KnownDeviceProperty DeviceProperty
  | NewObjectCurrentServiceData "service_data option"

definition verified_scan_advertisement :: "AddressType \<Rightarrow> 8 word list \<Rightarrow> DeviceIdentity \<Rightarrow> bool" where
  "verified_scan_advertisement address_type fddf_payload expected_identity \<longleftrightarrow>
     address_type = AddressType.LeRandom \<and> matches_verified_fddf HARMAN_FDDF_UUID fddf_payload expected_identity"

definition reduce_fresh_advertisement ::
  "FreshAdvertisementEvidence \<Rightarrow> AddressType \<Rightarrow> Uuid \<Rightarrow> DeviceIdentity \<Rightarrow> bool" where
  "reduce_fresh_advertisement evidence address_type service_uuid expected_identity =
     (let found = (\<lambda>m. case m service_uuid of None \<Rightarrow> False
                     | Some payload \<Rightarrow> verified_scan_advertisement address_type payload expected_identity)
      in case evidence of
           KnownDeviceProperty (DeviceProperty.ServiceData m) \<Rightarrow> found m
         | KnownDeviceProperty DeviceProperty.OtherProperty \<Rightarrow> False
         | NewObjectCurrentServiceData (Some m) \<Rightarrow> found m
         | NewObjectCurrentServiceData None \<Rightarrow> False)"

definition resolvable_private_address :: "Address \<Rightarrow> bool" where
  "resolvable_private_address address \<longleftrightarrow> drop_bit 6 (hd address) = 1"

subsection \<open>The scan\<close>

definition subscribe_device_events ::
  "('w, 's) scan_bluez \<Rightarrow> Address \<Rightarrow> nat \<Rightarrow> ('w, AuraFailureReason, unit) fallible" where
  "subscribe_device_events bz address deadline =
     required AuraFailureReason.DiscoveryUnavailable (sb_subscribe bz address deadline)"

text \<open>Looking a device up and subscribing to it; either may fail and leaves the device unsubscribed.\<close>

definition try_subscribe ::
  "('w, 's) scan_bluez \<Rightarrow> nat \<Rightarrow> Address \<Rightarrow> Address set \<Rightarrow> 'w \<Rightarrow> bool \<times> Address set \<times> 'w" where
  "try_subscribe bz deadline address subscribed w =
     (case bz_device bz address w of
        (None, w) \<Rightarrow> (False, subscribed, w)
      | (Some _, w) \<Rightarrow>
          (case subscribe_device_events bz address deadline w of
             (Inl _, w) \<Rightarrow> (False, subscribed, w)
           | (Inr _, w) \<Rightarrow> (True, insert address subscribed, w)))"

fun subscribe_known ::
  "('w, 's) scan_bluez \<Rightarrow> nat \<Rightarrow> Address list \<Rightarrow> Address set \<Rightarrow> 'w \<Rightarrow> Address set \<times> 'w" where
  "subscribe_known bz deadline [] subscribed w = (subscribed, w)"
| "subscribe_known bz deadline (address # addresses) subscribed w =
     (case try_subscribe bz deadline address subscribed w of
        (_, subscribed, w) \<Rightarrow> subscribe_known bz deadline addresses subscribed w)"

definition on_device_added ::
  "('w, 's) scan_bluez \<Rightarrow> Uuid \<Rightarrow> DeviceIdentity \<Rightarrow> nat \<Rightarrow> Address set \<Rightarrow> Address \<Rightarrow> Address set \<Rightarrow> 'w
    \<Rightarrow> bool \<times> Address set \<times> 'w" where
  "on_device_added bz service_uuid identity deadline preexisting address subscribed w =
     (if address \<in> preexisting then
        (if address \<in> subscribed then (False, subscribed, w)
         else (case try_subscribe bz deadline address subscribed w of (_, subscribed, w) \<Rightarrow> (False, subscribed, w)))
      else if address \<in> subscribed then (False, subscribed, w)
      else (case try_subscribe bz deadline address subscribed w of
          (False, subscribed, w) \<Rightarrow> (False, subscribed, w)
        | (True, subscribed, w) \<Rightarrow>
            (case sb_address_type bz address deadline w of
               (Completed (Inr address_type), w) \<Rightarrow>
                 (case sb_service_data bz address deadline w of
                    (Completed (Inr service_data), w) \<Rightarrow>
                      (reduce_fresh_advertisement (NewObjectCurrentServiceData service_data) address_type
                         service_uuid identity, subscribed, w)
                  | (_, w) \<Rightarrow> (False, subscribed, w))
             | (_, w) \<Rightarrow> (False, subscribed, w))))"

definition on_device_event ::
  "('w, 's) scan_bluez \<Rightarrow> Uuid \<Rightarrow> DeviceIdentity \<Rightarrow> nat \<Rightarrow> (Address \<times> DeviceProperty) option \<Rightarrow> 'w
    \<Rightarrow> Address option \<times> 'w" where
  "on_device_event bz service_uuid identity deadline device_event w =
     (case device_event of
        None \<Rightarrow> (None, w)
      | Some (address, property) \<Rightarrow>
          if property = DeviceProperty.OtherProperty then (None, w)
          else (case bz_device bz address w of
              (None, w) \<Rightarrow> (None, w)
            | (Some _, w) \<Rightarrow>
                (case sb_address_type bz address deadline w of
                   (Completed (Inr address_type), w) \<Rightarrow>
                     (if reduce_fresh_advertisement (KnownDeviceProperty property) address_type service_uuid identity
                      then Some address else None, w)
                 | (_, w) \<Rightarrow> (None, w))))"

text \<open>One wait and what follows it: the value to return, if any, and the two sets for the next round.\<close>

definition scan_step ::
  "('w, 's) scan_bluez \<Rightarrow> Uuid \<Rightarrow> DeviceIdentity \<Rightarrow> nat \<Rightarrow> Address set \<Rightarrow> Address set \<Rightarrow> 'w
    \<Rightarrow> (AuraFailureReason, Address option) result option \<times> Address set \<times> Address set \<times> 'w" where
  "scan_step bz service_uuid identity deadline preexisting subscribed w =
     (case sb_next bz deadline w of
        (DeadlineReached, w) \<Rightarrow> (Some (Inr None), preexisting, subscribed, w)
      | (AdapterNext None, w) \<Rightarrow> (Some (Inl AuraFailureReason.DiscoveryUnavailable), preexisting, subscribed, w)
      | (AdapterNext (Some (AdapterEvent.DeviceRemoved address)), w) \<Rightarrow>
          (None, preexisting - {address}, subscribed - {address}, w)
      | (AdapterNext (Some AdapterEvent.PropertyChanged), w) \<Rightarrow> (None, preexisting, subscribed, w)
      | (AdapterNext (Some (AdapterEvent.DeviceAdded address)), w) \<Rightarrow>
          (case on_device_added bz service_uuid identity deadline preexisting address subscribed w of
             (matched, subscribed, w) \<Rightarrow>
               (if matched then Some (Inr (Some address)) else None, preexisting, subscribed, w))
      | (DeviceNext device_event, w) \<Rightarrow>
          (case on_device_event bz service_uuid identity deadline device_event w of
             (matched, w) \<Rightarrow> (map_option (\<lambda>address. Inr (Some address)) matched, preexisting, subscribed, w)))"

partial_function (option) scan_loop ::
  "('w, 's) scan_bluez \<Rightarrow> Uuid \<Rightarrow> DeviceIdentity \<Rightarrow> nat \<Rightarrow> Address set \<Rightarrow> Address set
    \<Rightarrow> ('w, AuraFailureReason, Address option) partial_run" where
  "scan_loop bz service_uuid identity deadline preexisting subscribed w =
     (case scan_step bz service_uuid identity deadline preexisting subscribed w of
        (Some r, _, _, w) \<Rightarrow> Some (r, w)
      | (None, preexisting, subscribed, w) \<Rightarrow>
          scan_loop bz service_uuid identity deadline preexisting subscribed w)"

definition scan_once ::
  "('w, 's) scan_bluez \<Rightarrow> Address list \<Rightarrow> Uuid \<Rightarrow> DeviceIdentity \<Rightarrow> nat
    \<Rightarrow> ('w, AuraFailureReason, Address option) partial_run" where
  "scan_once bz known service_uuid identity deadline w =
     (case subscribe_known bz deadline known {} w of
        (subscribed, w) \<Rightarrow>
          (case required AuraFailureReason.DiscoveryUnavailable (sb_discover_devices bz deadline) w of
             (Inl e, w) \<Rightarrow> Some (Inl e, w)
           | (Inr _, w) \<Rightarrow> scan_loop bz service_uuid identity deadline (set known) subscribed w))"

subsection \<open>Connections\<close>

definition ATT_PSM :: "16 word" where "ATT_PSM = 0x001F"
definition AURA_ATT_FIXED_CID :: "16 word" where "AURA_ATT_FIXED_CID = 0x0004"
definition STABLE_CONNECT_TIMEOUT :: duration where "STABLE_CONNECT_TIMEOUT = from_secs 20"

definition br_edr_att_socket_addresses :: "Address \<Rightarrow> Address \<Rightarrow> socket_address \<times> socket_address" where
  "br_edr_att_socket_addresses local target =
     (\<lparr>sa_addr = local, sa_addr_type = AddressType.BrEdr, sa_psm = 0, sa_cid = 0\<rparr>,
      \<lparr>sa_addr = target, sa_addr_type = AddressType.BrEdr, sa_psm = ATT_PSM, sa_cid = 0\<rparr>)"

definition le_fixed_att_socket_addresses :: "Address \<Rightarrow> Address \<Rightarrow> socket_address \<times> socket_address" where
  "le_fixed_att_socket_addresses local target =
     (\<lparr>sa_addr = local, sa_addr_type = AddressType.LePublic, sa_psm = 0, sa_cid = AURA_ATT_FIXED_CID\<rparr>,
      \<lparr>sa_addr = target, sa_addr_type = AddressType.LeRandom, sa_psm = 0, sa_cid = AURA_ATT_FIXED_CID\<rparr>)"

definition connect_att_socket ::
  "('w, 's) scan_bluez \<Rightarrow> socket_address \<Rightarrow> socket_address \<Rightarrow> nat \<Rightarrow> ('w, AuraFailureReason, 's) fallible" where
  "connect_att_socket bz = connected_socket bz AuraFailureReason.DeviceConnectionFailed"

text \<open>The socket is set up by the one write that enables the notifications.\<close>

definition set_up_socket ::
  "('w, 's) scan_bluez \<Rightarrow> 's att_socket \<Rightarrow> nat \<Rightarrow> 's \<Rightarrow> ('w, AuraFailureReason, 's) fallible" where
  "set_up_socket bz sock deadline s w =
     (case enable_raw_att_notifications sock deadline s of
        (Inl e, _) \<Rightarrow> (Inl e, w)
      | (Inr _, s) \<Rightarrow> (Inr s, w))"

definition stable_paired_address_type :: "AddressType \<Rightarrow> bool" where
  "stable_paired_address_type address_type \<longleftrightarrow> address_type \<in> {AddressType.BrEdr, AddressType.LePublic}"

definition verified_stable_device :: "AddressType \<Rightarrow> bool \<Rightarrow> bool \<Rightarrow> bool \<Rightarrow> bool" where
  "verified_stable_device address_type paired trusted blocked \<longleftrightarrow>
     stable_paired_address_type address_type \<and> paired \<and> trusted \<and> \<not> blocked"

text \<open>The first calls of both connections: the session, the adapter, its power and its own address.\<close>

definition open_adapter ::
  "('w, 's) scan_bluez \<Rightarrow> AuraBluezConfig \<Rightarrow> nat \<Rightarrow> ('w, AuraFailureReason, Address) fallible" where
  "open_adapter bz config deadline =
     try_bind (required AuraFailureReason.AdapterUnavailable (bz_session bz deadline)) (\<lambda>_.
     try_bind (present AuraFailureReason.AdapterUnavailable (bz_adapter bz (abc_adapter_name config))) (\<lambda>_.
     try_bind (required AuraFailureReason.AdapterUnavailable (bz_is_powered bz deadline)) (\<lambda>powered.
     try_bind (ensure AuraFailureReason.AdapterPoweredOff powered) (\<lambda>_.
       required AuraFailureReason.AdapterUnavailable (bz_local_address bz deadline)))))"

definition stable_socket ::
  "('w, 's) scan_bluez \<Rightarrow> DeviceIdentity \<Rightarrow> Address \<Rightarrow> nat \<Rightarrow> ('w, AuraFailureReason, 's) fallible" where
  "stable_socket bz identity local_address connect_deadline =
     (let address = binary identity; failure = AuraFailureReason.DeviceConnectionFailed
      in try_bind (required failure (sb_address_type bz address connect_deadline)) (\<lambda>address_type.
         try_bind (required failure (sb_is_paired bz address connect_deadline)) (\<lambda>paired.
         try_bind (required failure (sb_is_trusted bz address connect_deadline)) (\<lambda>trusted.
         try_bind (required failure (sb_is_blocked bz address connect_deadline)) (\<lambda>blocked.
         try_bind (ensure failure (verified_stable_device address_type paired trusted blocked)) (\<lambda>_.
           let (local, target) = br_edr_att_socket_addresses local_address address
           in connect_att_socket bz local target connect_deadline))))))"

definition connect_raw_att ::
  "('w, 's) scan_bluez \<Rightarrow> 's att_socket \<Rightarrow> AuraBluezConfig \<Rightarrow> DeviceIdentity \<Rightarrow> nat \<Rightarrow> AuraAcquisitionRoute
    \<Rightarrow> ('w, AuraFailureReason, 's RawAttBearer) fallible" where
  "connect_raw_att bz sock config identity overall_deadline route w =
     (let timings = abc_timings config;
          stable_deadline = min overall_deadline
            (bz_now bz w + min duration_max (STABLE_CONNECT_TIMEOUT + bt_gatt_setup_timeout timings))
      in try_bind (open_adapter bz config stable_deadline) (\<lambda>local_address.
         try_bind (present AuraFailureReason.DeviceConnectionFailed (bz_device bz (binary identity))) (\<lambda>_ w.
         try_bind (stable_socket bz identity local_address
                     (min stable_deadline (bz_now bz w + STABLE_CONNECT_TIMEOUT))) (\<lambda>socket w.
         try_bind (set_up_socket bz sock (min stable_deadline (bz_now bz w + bt_gatt_setup_timeout timings)) socket)
           (\<lambda>socket. lift_result (Inr \<lparr>rb_expected_identity = identity, rb_transport = AuraBearerTransport.BrEdr,
              rb_acquisition_route = route, rb_socket = socket\<rparr>)) w) w)) w)"

record 's ConnectedRawAttempt =
  cra_device :: Address
  cra_socket :: 's

definition connect_found ::
  "('w, 's) scan_bluez \<Rightarrow> 's att_socket \<Rightarrow> Address \<Rightarrow> AuraBluezTimings \<Rightarrow> nat \<Rightarrow> Address
    \<Rightarrow> ('w, AuraFailureReason, 's ConnectedRawAttempt) fallible" where
  "connect_found bz sock local_address timings overall_deadline device w =
     (let (local, target) = le_fixed_att_socket_addresses local_address device
      in try_bind (connect_att_socket bz local target
                     (min overall_deadline (bz_now bz w + bt_device_connect_timeout timings))) (\<lambda>socket w.
         try_bind (set_up_socket bz sock (min overall_deadline (bz_now bz w + bt_gatt_setup_timeout timings)) socket)
           (\<lambda>socket. lift_result (Inr \<lparr>cra_device = device, cra_socket = socket\<rparr>)) w) w)"

definition connect_le_raw_attempt ::
  "('w, 's) scan_bluez \<Rightarrow> 's att_socket \<Rightarrow> Address \<Rightarrow> Uuid \<Rightarrow> DeviceIdentity \<Rightarrow> AuraBluezTimings \<Rightarrow> nat
    \<Rightarrow> ('w, AuraFailureReason, 's ConnectedRawAttempt) partial_run" where
  "connect_le_raw_attempt bz sock local_address service_uuid identity timings overall_deadline w =
     (case required AuraFailureReason.DiscoveryUnavailable (sb_device_addresses bz overall_deadline) w of
        (Inl e, w) \<Rightarrow> Some (Inl e, w)
      | (Inr addresses, w) \<Rightarrow>
          (case scan_once bz (sb_hash_set bz addresses) service_uuid identity
                  (min overall_deadline (bz_now bz w + bt_scan_window timings)) w of
             None \<Rightarrow> None
           | Some (Inl e, w) \<Rightarrow> Some (Inl e, w)
           | Some (Inr None, w) \<Rightarrow> Some (Inl AuraFailureReason.VerifiedAdvertisementNotFound, w)
           | Some (Inr (Some device), w) \<Rightarrow>
               Some (connect_found bz sock local_address timings overall_deadline device w)))"

text \<open>The attempts that are left, and the reason to report when there are none.\<close>

fun retry_loop ::
  "('w, 's) scan_bluez \<Rightarrow> AuraBluezTimings \<Rightarrow> nat \<Rightarrow> ('w, AuraFailureReason, 'a) partial_run \<Rightarrow> nat
    \<Rightarrow> AuraFailureReason \<Rightarrow> ('w, AuraFailureReason, 'a) partial_run" where
  "retry_loop bz timings overall_deadline attempt 0 last_reason w = Some (Inl last_reason, w)"
| "retry_loop bz timings overall_deadline attempt (Suc n) last_reason w =
     (if bz_now bz w \<ge> overall_deadline then Some (Inl last_reason, w)
      else (case attempt w of
          None \<Rightarrow> None
        | Some (Inr v, w) \<Rightarrow> Some (Inr v, w)
        | Some (Inl reason, w) \<Rightarrow>
            retry_loop bz timings overall_deadline attempt n reason
              (if n \<noteq> 0 \<and> bz_now bz w < overall_deadline
               then sb_sleep_until bz (min overall_deadline (bz_now bz w + bt_retry_delay timings)) w else w)))"

definition retry_connect_attempts ::
  "('w, 's) scan_bluez \<Rightarrow> AuraBluezTimings \<Rightarrow> nat \<Rightarrow> ('w, AuraFailureReason, 'a) partial_run
    \<Rightarrow> ('w, AuraFailureReason, 'a) partial_run" where
  "retry_connect_attempts bz timings overall_deadline attempt =
     retry_loop bz timings overall_deadline attempt (unat (bt_scan_attempts timings))
       AuraFailureReason.VerifiedAdvertisementNotFound"

definition connect_le_raw ::
  "('w, 's) scan_bluez \<Rightarrow> 's att_socket \<Rightarrow> AuraBluezConfig \<Rightarrow> DeviceIdentity \<Rightarrow> nat
    \<Rightarrow> ('w, AuraFailureReason, 's RawAttBearer) partial_run" where
  "connect_le_raw bz sock config identity overall_deadline w =
     (let timings = abc_timings config;
          prepared = try_bind (open_adapter bz config overall_deadline) (\<lambda>local_address.
            try_bind (lift_result (parse_uuid bz HARMAN_FDDF_UUID)) (\<lambda>service_uuid.
            try_bind (required AuraFailureReason.DiscoveryUnavailable 
                (sb_set_discovery_filter bz aura_discovery_filter overall_deadline))
              (\<lambda>_. lift_result (Inr (local_address, service_uuid)))))
      in case prepared w of
           (Inl e, w) \<Rightarrow> Some (Inl e, w)
         | (Inr (local_address, service_uuid), w) \<Rightarrow>
             map_option (apfst (map_sum id (\<lambda>connected.
                 \<lparr>rb_expected_identity = identity, rb_transport = AuraBearerTransport.Le,
                  rb_acquisition_route = AuraAcquisitionRoute.FreshLe, rb_socket = cra_socket connected\<rparr>)))
               (retry_connect_attempts bz timings overall_deadline
                  (connect_le_raw_attempt bz sock local_address service_uuid identity timings overall_deadline) w))"

subsection \<open>Runs of the loop\<close>

text \<open>A run of the scan with the events it received; the loop returns exactly along the finite runs.\<close>

inductive scan_run ::
  "('w, 's) scan_bluez \<Rightarrow> Uuid \<Rightarrow> DeviceIdentity \<Rightarrow> nat \<Rightarrow> Address set \<Rightarrow> Address set \<Rightarrow> 'w \<Rightarrow> scan_event list
    \<Rightarrow> (AuraFailureReason, Address option) result \<Rightarrow> 'w \<Rightarrow> bool"
  for bz service_uuid identity deadline where
  returns: "scan_run bz service_uuid identity deadline pre sub w [fst (sb_next bz deadline w)] r w'"
    if "scan_step bz service_uuid identity deadline pre sub w = (Some r, pre', sub', w')"
| continues: "scan_run bz service_uuid identity deadline pre sub w (fst (sb_next bz deadline w) # events) r w'"
    if "scan_step bz service_uuid identity deadline pre sub w = (None, pre', sub', w1)"
      and "scan_run bz service_uuid identity deadline pre' sub' w1 events r w'"

lemma scan_loop_run:
  assumes "scan_loop bz service_uuid identity deadline pre sub w = Some (r, w')"
  shows "\<exists>events. scan_run bz service_uuid identity deadline pre sub w events r w'"
proof -
  let ?P = "\<lambda>bz u i d pre sub w y. \<exists>events. scan_run bz u i d pre sub w events (fst y) (snd y)"
  have "?P bz service_uuid identity deadline pre sub w (r, w')"
  proof (rule scan_loop.raw_induct [where P = ?P, OF _ assms])
    fix loop bz u i d pre sub w y
    assume IH: "\<And>bz u i d pre sub w y. loop bz u i d pre sub w = Some y \<Longrightarrow> ?P bz u i d pre sub w y"
      and run: "(case scan_step bz u i d pre sub w of
          (None, pre, sub, w) \<Rightarrow> loop bz u i d pre sub w | (Some r, _, _, w) \<Rightarrow> Some (r, w)) = Some y"
    obtain found pre' sub' w1 where s: "scan_step bz u i d pre sub w = (found, pre', sub', w1)"
      by (metis prod.exhaust)
    show "?P bz u i d pre sub w y"
    proof (cases found)
      case None
      with run s have "loop bz u i d pre' sub' w1 = Some y"
        by simp
      from IH [OF this] s None show ?thesis
        by (blast intro: scan_run.continues)
    next
      case (Some r)
      with run s have "y = (r, w1)"
        by simp
      with s Some show ?thesis
        by (auto intro: scan_run.returns)
    qed
  qed
  then show ?thesis
    by simp
qed

lemma scan_run_loop:
  "scan_run bz service_uuid identity deadline pre sub w events r w' \<Longrightarrow>
    scan_loop bz service_uuid identity deadline pre sub w = Some (r, w')"
  by (induction rule: scan_run.induct) (simp_all add: scan_loop.simps)

text \<open>A map of service data that holds the advertisement looked for, from a device with a random address.\<close>

definition verified_data ::
  "('w, 's) scan_bluez \<Rightarrow> Uuid \<Rightarrow> DeviceIdentity \<Rightarrow> nat \<Rightarrow> Address \<Rightarrow> service_data \<Rightarrow> bool" where
  "verified_data bz service_uuid identity deadline a m \<longleftrightarrow>
     (\<exists>payload w w'. m service_uuid = Some payload \<and> matches_verified_fddf HARMAN_FDDF_UUID payload identity \<and>
        sb_address_type bz a deadline w = (Completed (Inr AddressType.LeRandom), w'))"

lemma reduce_fresh_advertisement_iff:
  "reduce_fresh_advertisement evidence t u i \<longleftrightarrow>
     (\<exists>m payload. evidence \<in> {KnownDeviceProperty (DeviceProperty.ServiceData m), NewObjectCurrentServiceData (Some m)} \<and>
        m u = Some payload \<and> t = AddressType.LeRandom \<and> matches_verified_fddf HARMAN_FDDF_UUID payload i)"
  by (auto simp: reduce_fresh_advertisement_def verified_scan_advertisement_def Let_def
      split: FreshAdvertisementEvidence.splits DeviceProperty.splits option.splits)

lemma device_event_match:
  assumes "on_device_event bz service_uuid identity deadline event w = (Some a, w')"
  shows "\<exists>m. event = Some (a, DeviceProperty.ServiceData m) \<and> verified_data bz service_uuid identity deadline a m"
  using assms
  by (auto simp: on_device_event_def reduce_fresh_advertisement_iff verified_data_def
      split: option.splits if_splits prod.splits timed.splits sum.splits)

lemma device_added_match:
  assumes "on_device_added bz service_uuid identity deadline pre a sub w = (True, sub', w')"
  shows "a \<notin> pre \<and> a \<notin> sub \<and> (\<exists>m w1 w2. verified_data bz service_uuid identity deadline a m \<and>
    sb_service_data bz a deadline w1 = (Completed (Inr (Some m)), w2))"
  using assms
  by (auto simp: on_device_added_def reduce_fresh_advertisement_iff verified_data_def
      split: option.splits if_splits prod.splits timed.splits sum.splits bool.splits)

lemma scan_step_match:
  assumes "scan_step bz service_uuid identity deadline pre sub w = (Some (Inr (Some a)), pre', sub', w')"
  shows "(\<exists>m. fst (sb_next bz deadline w) = DeviceNext (Some (a, DeviceProperty.ServiceData m)) \<and>
       verified_data bz service_uuid identity deadline a m) \<or>
    (fst (sb_next bz deadline w) = AdapterNext (Some (AdapterEvent.DeviceAdded a)) \<and> a \<notin> pre \<and>
       (\<exists>m w1 w2. verified_data bz service_uuid identity deadline a m \<and>
          sb_service_data bz a deadline w1 = (Completed (Inr (Some m)), w2)))"
proof -
  obtain e w1 where n: "sb_next bz deadline w = (e, w1)"
    by fastforce
  show ?thesis
  proof (cases e)
    case DeadlineReached
    then show ?thesis
      using assms n by (simp add: scan_step_def)
  next
    case (AdapterNext event)
    obtain m s2 w2 where "event = Some (AdapterEvent.DeviceAdded a)"
        "on_device_added bz service_uuid identity deadline pre a sub w1 = (True, s2, w2)"
      using assms n AdapterNext
      by (auto simp: scan_step_def split: option.splits AdapterEvent.splits prod.splits if_splits)
    then show ?thesis
      using n AdapterNext device_added_match [of bz service_uuid identity deadline pre a sub w1 s2 w2] by simp
  next
    case (DeviceNext event)
    obtain w2 where "on_device_event bz service_uuid identity deadline event w1 = (Some a, w2)"
      using assms n DeviceNext by (auto simp: scan_step_def split: prod.splits)
    then show ?thesis
      using n DeviceNext device_event_match [of bz service_uuid identity deadline event w1 a w2] by simp
  qed
qed

lemma scan_step_preexisting:
  assumes "scan_step bz service_uuid identity deadline pre sub w = (r, pre', sub', w')" and "a \<in> pre"
  shows "a \<in> pre' \<or> fst (sb_next bz deadline w) = AdapterNext (Some (AdapterEvent.DeviceRemoved a))"
  using assms
  by (auto simp: scan_step_def split: prod.splits scan_event.splits option.splits AdapterEvent.splits if_splits)

lemma scan_run_match:
  assumes "scan_run bz service_uuid identity deadline pre sub w events r w'" and "r = Inr (Some a)"
  shows "\<exists>earlier m. (events = earlier @ [DeviceNext (Some (a, DeviceProperty.ServiceData m))] \<or>
      events = earlier @ [AdapterNext (Some (AdapterEvent.DeviceAdded a))] \<and>
      (a \<in> pre \<longrightarrow> AdapterNext (Some (AdapterEvent.DeviceRemoved a)) \<in> set earlier) \<and>
      (\<exists>w1 w2. sb_service_data bz a deadline w1 = (Completed (Inr (Some m)), w2))) \<and>
    verified_data bz service_uuid identity deadline a m"
  using assms
proof (induction rule: scan_run.induct)
  case (returns pre sub w r pre' sub' w')
  from scan_step_match [OF returns(1) [unfolded returns(2)]] show ?case
    by (metis append_Nil)
next
  case (continues pre sub w pre' sub' w1 events r w')
  from continues.IH [OF continues.prems] scan_step_preexisting [OF continues.hyps(1), of a] show ?case
    by (metis append_Cons list.set_intros)
qed

end
