(* ===== verification/Aura_Connect.thy ===== *)
theory Aura_Connect
  imports Aura_Scan
begin

text \<open>
  Acquiring the Aura bearer, second part (\<open>rust/src/aura_bluez.rs\<close>): the wake traits over BlueZ, the polling of
  the profile's release, and the cold connection as the transport runs it.

  The traits of the wake and of the cold connection are total in their state. A call that never returns is given
  the state \<open>None\<close>, which no later call leaves: a result means something only with a state \<open>Some w\<close>.
\<close>

subsection \<open>Calls that may not return\<close>

definition returning :: "'e \<Rightarrow> ('w, 'e, 'a) partial_run \<Rightarrow> ('w option, 'e, 'a) fallible" where
  "returning e m s =
     (case Option.bind s m of None \<Rightarrow> (Inl e, None) | Some (r, w) \<Rightarrow> (r, Some w))"

lemma total_run_eq [simp]: "total_run m = (\<lambda>s. Some (m s))"
  by (simp add: total_run_def fun_eq_iff)

lemma returning_Some: "returning e m s = (r, Some w') \<longleftrightarrow> (\<exists>w. s = Some w \<and> m w = Some (r, w'))"
  by (cases s) (auto simp: returning_def split: option.splits)

subsection \<open>The release of the profile\<close>

definition MEDIA_CONTROL_RELEASE_POLL :: duration where
  "MEDIA_CONTROL_RELEASE_POLL = from_millis 100"

definition MEDIA_CONTROL_INTERFACE :: string where
  "MEDIA_CONTROL_INTERFACE = ''org.bluez.MediaControl1''"

definition MEDIA_CONTROL_CONNECTED_PROPERTY :: string where
  "MEDIA_CONTROL_CONNECTED_PROPERTY = ''Connected''"

datatype MediaControlReleaseObservation = Released | Connected | Invalid

definition classify_media_control_release :: "interfaces option \<Rightarrow> MediaControlReleaseObservation" where
  "classify_media_control_release interfaces =
     (case interfaces of
        None \<Rightarrow> MediaControlReleaseObservation.Released
      | Some interfaces \<Rightarrow>
          (case interfaces MEDIA_CONTROL_INTERFACE of
             None \<Rightarrow> MediaControlReleaseObservation.Released
           | Some properties \<Rightarrow>
               (case properties MEDIA_CONTROL_CONNECTED_PROPERTY of
                  None \<Rightarrow> MediaControlReleaseObservation.Invalid
                | Some (BoolValue False) \<Rightarrow> MediaControlReleaseObservation.Released
                | Some (BoolValue True) \<Rightarrow> MediaControlReleaseObservation.Connected
                | Some OtherValue \<Rightarrow> MediaControlReleaseObservation.Invalid)))"

definition exact_device_object_path ::
  "('w, 's) scan_bluez \<Rightarrow> string \<Rightarrow> DeviceIdentity \<Rightarrow> (AuraWakeIoFailure, string) result" where
  "exact_device_object_path bz adapter_name identity =
     ok_or AuraWakeIoFailure.Rejected
       (sb_object_path bz (''/org/bluez/'' @ adapter_name @ ''/dev'' @
          concat (map (\<lambda>byte. ''_'' @ hex2_upper byte) (binary identity))))"

partial_function (option) poll_media_control_release ::
  "('w \<Rightarrow> nat) \<Rightarrow> nat \<Rightarrow> (duration \<Rightarrow> ('w, AuraWakeIoFailure, MediaControlReleaseObservation) fallible)
    \<Rightarrow> (duration \<Rightarrow> 'w \<Rightarrow> 'w) \<Rightarrow> ('w, AuraWakeIoFailure, bool) partial_run" where
  "poll_media_control_release now deadline observe pause w =
     (if now w \<ge> deadline then Some (Inl AuraWakeIoFailure.TimedOut, w)
      else (case observe (deadline - now w) w of
          (Inl e, w) \<Rightarrow> Some (Inl e, w)
        | (Inr observation, w) \<Rightarrow>
            if observation = MediaControlReleaseObservation.Released then Some (Inr True, w)
            else if observation = MediaControlReleaseObservation.Invalid
            then Some (Inl AuraWakeIoFailure.Rejected, w)
            else if now w \<ge> deadline then Some (Inl AuraWakeIoFailure.TimedOut, w)
            else poll_media_control_release now deadline observe pause
                   (pause (min MEDIA_CONTROL_RELEASE_POLL (deadline - now w)) w)))"

subsection \<open>The wake traits\<close>

definition wake_operation_deadline :: "nat \<Rightarrow> nat \<Rightarrow> duration \<Rightarrow> (AuraWakeIoFailure, nat) result" where
  "wake_operation_deadline now overall_deadline requested =
     (if now \<ge> overall_deadline \<or> requested = 0 then Inl AuraWakeIoFailure.TimedOut
      else Inr (min overall_deadline (now + requested)))"

definition wake_timeout_at :: "('w \<Rightarrow> 'a awaited \<times> 'w) \<Rightarrow> ('w, AuraWakeIoFailure, 'a) fallible" where
  "wake_timeout_at m w =
     (case m w of
        (Elapsed, w) \<Rightarrow> (Inl AuraWakeIoFailure.TimedOut, w)
      | (Completed (Inl _), w) \<Rightarrow> (Inl AuraWakeIoFailure.Unavailable, w)
      | (Completed (Inr v), w) \<Rightarrow> (Inr v, w))"

definition within_deadline ::
  "('w, 's) scan_bluez \<Rightarrow> nat \<Rightarrow> duration \<Rightarrow> (nat \<Rightarrow> ('w, AuraWakeIoFailure, 'a) partial_run)
    \<Rightarrow> ('w, AuraWakeIoFailure, 'a) partial_run" where
  "within_deadline bz overall_deadline requested m w =
     (case wake_operation_deadline (bz_now bz w) overall_deadline requested of
        Inl e \<Rightarrow> Some (Inl e, w)
      | Inr deadline \<Rightarrow> m deadline w)"

definition open_wake_adapter ::
  "('w, 's) scan_bluez \<Rightarrow> AuraBluezConfig \<Rightarrow> nat \<Rightarrow> ('w, AuraWakeIoFailure, unit) fallible" where
  "open_wake_adapter bz config deadline =
     try_bind (wake_timeout_at (bz_session bz deadline)) (\<lambda>_.
     try_bind (present AuraWakeIoFailure.Unavailable (bz_adapter bz (abc_adapter_name config))) (\<lambda>_.
     try_bind (wake_timeout_at (bz_is_powered bz deadline)) (\<lambda>powered.
       ensure AuraWakeIoFailure.Unavailable powered)))"

definition exact_stable_wake_device ::
  "('w, 's) scan_bluez \<Rightarrow> AuraBluezConfig \<Rightarrow> DeviceIdentity \<Rightarrow> nat \<Rightarrow> ('w, AuraWakeIoFailure, Address) fallible" where
  "exact_stable_wake_device bz config identity deadline =
     (let expected_address = binary identity
      in try_bind (open_wake_adapter bz config deadline) (\<lambda>_.
         try_bind (present AuraWakeIoFailure.Unavailable (bz_device bz expected_address)) (\<lambda>_ w.
           (if sb_reported_address bz expected_address w \<noteq> expected_address
            then Inl AuraWakeIoFailure.Rejected else Inr expected_address, w))))"

definition stable_state ::
  "('w, 's) scan_bluez \<Rightarrow> AuraBluezConfig \<Rightarrow> DeviceIdentity \<Rightarrow> nat
    \<Rightarrow> ('w, AuraWakeIoFailure, StableAuraState) fallible" where
  "stable_state bz config identity deadline =
     try_bind (exact_stable_wake_device bz config identity deadline) (\<lambda>device.
     try_bind (wake_timeout_at (sb_address_type bz device deadline)) (\<lambda>address_type.
     try_bind (wake_timeout_at (sb_is_paired bz device deadline)) (\<lambda>paired.
     try_bind (wake_timeout_at (sb_is_trusted bz device deadline)) (\<lambda>trusted.
     try_bind (wake_timeout_at (sb_is_blocked bz device deadline)) (\<lambda>blocked w.
       (Inr \<lparr>sas_exact_identity = matches_binary identity (sb_reported_address bz device w),
             sas_address_kind = (if address_type \<in> {AddressType.BrEdr, AddressType.LePublic}
                                 then StableAddressKind.Public else StableAddressKind.Other),
             sas_paired = paired, sas_trusted = trusted, sas_blocked = blocked\<rparr>, w))))))"

definition inspect_stable_device ::
  "('w, 's) scan_bluez \<Rightarrow> AuraBluezConfig \<Rightarrow> nat \<Rightarrow> DeviceIdentity
    \<Rightarrow> ('w, AuraWakeIoFailure, StableAuraState) partial_run" where
  "inspect_stable_device bz config overall_deadline identity =
     within_deadline bz overall_deadline STABLE_CONNECT_TIMEOUT (\<lambda>deadline.
       total_run (stable_state bz config identity deadline))"

text \<open>Connecting and disconnecting differ in the one call they make of the device.\<close>

definition profile_call ::
  "('w, 's) scan_bluez \<Rightarrow> AuraBluezConfig \<Rightarrow> nat \<Rightarrow> (Address \<Rightarrow> Uuid \<Rightarrow> nat \<Rightarrow> 'w \<Rightarrow> unit awaited \<times> 'w)
    \<Rightarrow> DeviceIdentity \<Rightarrow> string \<Rightarrow> duration \<Rightarrow> ('w, AuraWakeIoFailure, unit) partial_run" where
  "profile_call bz config overall_deadline operation identity profile_uuid timeout w =
     (if profile_uuid \<noteq> A2DP_SINK_PROFILE_UUID then Some (Inl AuraWakeIoFailure.Rejected, w)
      else (case sb_parse_uuid bz profile_uuid of
          None \<Rightarrow> Some (Inl AuraWakeIoFailure.Rejected, w)
        | Some uuid \<Rightarrow>
            within_deadline bz overall_deadline timeout (\<lambda>deadline.
              total_run (try_bind (exact_stable_wake_device bz config identity deadline) (\<lambda>device.
                wake_timeout_at (operation device uuid deadline)))) w))"

definition connect_profile where
  "connect_profile bz config overall_deadline = profile_call bz config overall_deadline (sb_connect_profile bz)"

definition disconnect_profile where
  "disconnect_profile bz config overall_deadline = profile_call bz config overall_deadline (sb_disconnect_profile bz)"

definition observe_release ::
  "('w, 's) scan_bluez \<Rightarrow> string \<Rightarrow> duration \<Rightarrow> ('w, AuraWakeIoFailure, MediaControlReleaseObservation) fallible" where
  "observe_release bz object_path remaining =
     try_bind (present AuraWakeIoFailure.Unavailable (sb_managed_objects bz remaining)) (\<lambda>objects.
       lift_result (Inr (classify_media_control_release (objects object_path))))"

definition poll_release ::
  "('w, 's) scan_bluez \<Rightarrow> AuraBluezConfig \<Rightarrow> DeviceIdentity \<Rightarrow> nat \<Rightarrow> ('w, AuraWakeIoFailure, bool) partial_run" where
  "poll_release bz config identity deadline w =
     (case exact_device_object_path bz (abc_adapter_name config) identity of
        Inl e \<Rightarrow> Some (Inl e, w)
      | Inr object_path \<Rightarrow>
          (case present AuraWakeIoFailure.Unavailable (sb_system_bus bz) w of
             (Inl e, w) \<Rightarrow> Some (Inl e, w)
           | (Inr _, w) \<Rightarrow>
               poll_media_control_release (bz_now bz) deadline (observe_release bz object_path) (sb_sleep bz) w))"

definition wait_profile_released ::
  "('w, 's) scan_bluez \<Rightarrow> AuraBluezConfig \<Rightarrow> nat \<Rightarrow> DeviceIdentity \<Rightarrow> string \<Rightarrow> duration
    \<Rightarrow> ('w, AuraWakeIoFailure, bool) partial_run" where
  "wait_profile_released bz config overall_deadline identity profile_uuid timeout w =
     (if profile_uuid \<noteq> A2DP_SINK_PROFILE_UUID then Some (Inl AuraWakeIoFailure.Rejected, w)
      else within_deadline bz overall_deadline timeout (\<lambda>deadline w.
        (case try_bind (exact_stable_wake_device bz config identity deadline) (\<lambda>device.
                wake_timeout_at (sb_is_connected bz device deadline)) w of
           (Inl e, w) \<Rightarrow> Some (Inl e, w)
         | (Inr connected, w) \<Rightarrow>
             if \<not> connected then Some (Inr True, w) else poll_release bz config identity deadline w)) w)"

definition NativeAuraWakeBluez ::
  "('w, 's) scan_bluez \<Rightarrow> AuraBluezConfig \<Rightarrow> nat \<Rightarrow> 'w option AuraWakeBluez" where
  "NativeAuraWakeBluez bz config overall_deadline =
     (let e = AuraWakeIoFailure.Unavailable
      in \<lparr>wb_inspect_stable_device = (\<lambda>i. returning e (inspect_stable_device bz config overall_deadline i)),
          wb_connect_profile = (\<lambda>i uuid t. returning e (connect_profile bz config overall_deadline i uuid t)),
          wb_disconnect_profile = (\<lambda>i uuid t. returning e (disconnect_profile bz config overall_deadline i uuid t)),
          wb_wait_profile_released =
            (\<lambda>i uuid t. returning e (wait_profile_released bz config overall_deadline i uuid t))\<rparr>)"

definition observe_fddf ::
  "('w, 's) scan_bluez \<Rightarrow> AuraBluezConfig \<Rightarrow> DeviceIdentity \<Rightarrow> nat
    \<Rightarrow> ('w, AuraWakeIoFailure, FreshFddfObservation option) partial_run" where
  "observe_fddf bz config identity deadline w =
     (let prepared = try_bind (open_wake_adapter bz config deadline) (\<lambda>_.
            try_bind (wake_timeout_at (sb_set_discovery_filter bz aura_discovery_filter deadline)) (\<lambda>_.
            try_bind (wake_timeout_at (sb_device_addresses bz deadline)) (\<lambda>addresses.
            try_bind (lift_result (ok_or AuraWakeIoFailure.Rejected (sb_parse_uuid bz HARMAN_FDDF_UUID))) (\<lambda>uuid.
              lift_result (Inr (addresses, uuid))))))
      in case prepared w of
           (Inl e, w) \<Rightarrow> Some (Inl e, w)
         | (Inr (addresses, service_uuid), w) \<Rightarrow>
             map_option (apfst (\<lambda>r. case r of
                 Inl _ \<Rightarrow> Inl AuraWakeIoFailure.Unavailable
               | Inr matched \<Rightarrow> Inr (map_option (\<lambda>device.
                   \<lparr>ffo_fresh = True,
                    ffo_address_kind = (if resolvable_private_address device then FddfAddressKind.ResolvablePrivate
                                        else FddfAddressKind.Other),
                    ffo_product_id = AURA_STUDIO_5_PRODUCT_ID, ffo_embedded_identity_matches = True\<rparr>) matched)))
               (scan_once bz (sb_hash_set bz addresses) service_uuid identity deadline w))"

definition NativeAuraWakeFddfObserver ::
  "('w, 's) scan_bluez \<Rightarrow> AuraBluezConfig \<Rightarrow> nat \<Rightarrow> 'w option AuraWakeFddfObserver" where
  "NativeAuraWakeFddfObserver bz config overall_deadline identity timeout =
     returning AuraWakeIoFailure.Unavailable
       (within_deadline bz overall_deadline timeout (observe_fddf bz config identity))"

subsection \<open>The cold connection\<close>

text \<open>A wake that reached its unreachable branch would not return.\<close>

definition NativeColdConnectOps ::
  "('w, 's) scan_bluez \<Rightarrow> 's att_socket \<Rightarrow> AuraBluezConfig \<Rightarrow> DeviceIdentity \<Rightarrow> nat
    \<Rightarrow> ('w option, 's RawAttBearer) ColdConnectOps" where
  "NativeColdConnectOps bz sock config identity overall_deadline =
     (let e = AuraFailureReason.RuntimeUnavailable
      in \<lparr>cc_connect_stable = (\<lambda>route. returning e (total_run (connect_raw_att bz sock config identity overall_deadline route))),
          cc_wake_once = (\<lambda>s.
            case native_wake_once (NativeAuraWakeBluez bz config overall_deadline)
                   (NativeAuraWakeFddfObserver bz config overall_deadline) identity s of
              (Some r, s) \<Rightarrow> (r, s)
            | (None, _) \<Rightarrow> (Inl e, None)),
          cc_connect_le = returning e (connect_le_raw bz sock config identity overall_deadline)\<rparr>)"

text \<open>The deadline all phases of one connection share.\<close>

definition native_cold ::
  "('w, 's) scan_bluez \<Rightarrow> 's att_socket \<Rightarrow> AuraBluezConfig \<Rightarrow> DeviceIdentity \<Rightarrow> 'w option
    \<Rightarrow> ('w option, 's RawAttBearer) ColdConnectOps" where
  "native_cold bz sock config identity s =
     NativeColdConnectOps bz sock config identity
       ((case s of None \<Rightarrow> 0 | Some w \<Rightarrow> bz_now bz w) + bt_total_connect_timeout (abc_timings config))"

definition AURA_VENDOR_SERVICE_UUID :: string where
  "AURA_VENDOR_SERVICE_UUID = ''65786365-6c70-6f69-6e74-2e636f6d0000''"

definition AURA_NOTIFY_UUID :: string where
  "AURA_NOTIFY_UUID = ''65786365-6c70-6f69-6e74-2e636f6d0001''"

definition AURA_WRITE_UUID :: string where
  "AURA_WRITE_UUID = ''65786365-6c70-6f69-6e74-2e636f6d0002''"

fun parse_uuids :: "('w, 's) scan_bluez \<Rightarrow> string list \<Rightarrow> (AuraFailureReason, unit) result" where
  "parse_uuids bz [] = Inr ()"
| "parse_uuids bz (v # vs) = and_then (parse_uuid bz v) (\<lambda>_. parse_uuids bz vs)"

definition validate_protocol_constants :: "('w, 's) scan_bluez \<Rightarrow> (AuraTransportError, unit) result" where
  "validate_protocol_constants bz =
     parse_uuids bz [HARMAN_FDDF_UUID, AURA_VENDOR_SERVICE_UUID, AURA_NOTIFY_UUID, AURA_WRITE_UUID]"

text \<open>The construction of the transport; \<open>runtime\<close> tells whether the executor could be built.\<close>

definition bluez_io_new ::
  "('w, 's) scan_bluez \<Rightarrow> bool \<Rightarrow> AuraBluezConfig \<Rightarrow> 'w \<Rightarrow> (AuraTransportError, ('s, 'w option) BluezIo) result" where
  "bluez_io_new bz runtime config w =
     and_then (validate_protocol_constants bz) (\<lambda>_.
       if \<not> runtime then Inl AuraFailureReason.RuntimeUnavailable
       else Inr \<lparr>bi_timings = abc_timings config, bi_bearer = None, bi_acquisition = Some w\<rparr>)"

definition bluez_aura_transport_new ::
  "('w, 's) scan_bluez \<Rightarrow> bool \<Rightarrow> AuraBluezConfig \<Rightarrow> 'w
    \<Rightarrow> (AuraTransportError, ('s, 'w option) BluezIo AuraControlCore) result" where
  "bluez_aura_transport_new bz runtime config w =
     and_then (bluez_timings_validate (abc_timings config)) (\<lambda>_.
     and_then (bluez_io_new bz runtime config w) (\<lambda>io. Inr (core_new io)))"

subsection \<open>Lemmas\<close>

lemma notifications_enabled:
  assumes "enable_raw_att_notifications sock d s = (Inr v, s')"
  shows "\<exists>s1 received. as_send sock d [0x12, 0xED, 0x03, 0x01, 0x00] s = (Completed (Inr 5), s1) \<and>
    as_recv sock d s1 = (Completed (Inr received), s') \<and> take 517 received = [0x13]"
proof -
  have "att_write_request ATT_AURA_CCCD_HANDLE ATT_CCCD_NOTIFY_ENABLED = [0x12, 0xED, 0x03, 0x01, 0x00]"
    by (simp add: att_write_request_def ATT_WRITE_REQUEST_def ATT_AURA_CCCD_HANDLE_def handle_le_bytes_def
        ATT_CCCD_NOTIFY_ENABLED_def)
  moreover have "parse_att_pdu p = AttPdu.WriteResponse \<longleftrightarrow> p = [0x13]" for p
    by (auto simp: parse_att_pdu_def ATT_WRITE_RESPONSE_def split: list.splits if_splits)
  ultimately show ?thesis
    using assms
    by (auto simp: enable_raw_att_notifications_def ATT_RECEIVE_BUFFER_SIZE_def Let_def
        split: prod.splits timed.splits sum.splits if_splits)
qed

text \<open>A socket that is connected to exactly this target, with the notifications enabled over it.\<close>

definition set_up_to :: "('w, 's) scan_bluez \<Rightarrow> 's att_socket \<Rightarrow> socket_address \<Rightarrow> 's \<Rightarrow> bool" where
  "set_up_to bz sock target s \<longleftrightarrow>
     (\<exists>fd d w1 w2 w3 s0 d' s1 received.
        bz_connect bz fd target d w1 = (Completed (Inr s0), w2) \<and> bz_peer_addr bz s0 w2 = (Some target, w3) \<and>
        as_send sock d' [0x12, 0xED, 0x03, 0x01, 0x00] s0 = (Completed (Inr 5), s1) \<and>
        as_recv sock d' s1 = (Completed (Inr received), s) \<and> take 517 received = [0x13])"

lemma set_up_toI:
  assumes "connect_att_socket bz local target d w = (Inr s0, w1)" and "set_up_socket bz sock d' s0 w1 = (Inr s, w2)"
  shows "set_up_to bz sock target s"
proof -
  obtain v where e: "enable_raw_att_notifications sock d' s0 = (Inr v, s)"
    using assms(2) by (auto simp: set_up_socket_def split: prod.splits sum.splits)
  show ?thesis
    using connected_socket_Inr [OF assms(1) [unfolded connect_att_socket_def]] notifications_enabled [OF e]
    unfolding set_up_to_def by metis
qed

text \<open>The stable device was read as public, paired, trusted and not blocked, in this order.\<close>

definition read_as_stable :: "('w, 's) scan_bluez \<Rightarrow> Address \<Rightarrow> bool" where
  "read_as_stable bz a \<longleftrightarrow>
     (\<exists>d t w1 w2 w3 w4 w5. t \<noteq> AddressType.LeRandom \<and> sb_address_type bz a d w1 = (Completed (Inr t), w2) \<and>
        sb_is_paired bz a d w2 = (Completed (Inr True), w3) \<and> sb_is_trusted bz a d w3 = (Completed (Inr True), w4) \<and>
        sb_is_blocked bz a d w4 = (Completed (Inr False), w5))"

lemma stable_socket_Inr:
  assumes "stable_socket bz identity local_address d w = (Inr s, w')"
  shows "read_as_stable bz (binary identity) \<and>
    (\<exists>local w1. connect_att_socket bz local
       \<lparr>sa_addr = binary identity, sa_addr_type = AddressType.BrEdr, sa_psm = 0x1F, sa_cid = 0\<rparr> d w1 = (Inr s, w'))"
proof -
  obtain t paired trusted blocked w1 w2 w3 w4 where
    r: "sb_address_type bz (binary identity) d w = (Completed (Inr t), w1)"
      "sb_is_paired bz (binary identity) d w1 = (Completed (Inr paired), w2)"
      "sb_is_trusted bz (binary identity) d w2 = (Completed (Inr trusted), w3)"
      "sb_is_blocked bz (binary identity) d w3 = (Completed (Inr blocked), w4)"
    and v: "verified_stable_device t paired trusted blocked"
    and c: "connect_att_socket bz (fst (br_edr_att_socket_addresses local_address (binary identity)))
      (snd (br_edr_att_socket_addresses local_address (binary identity))) d w4 = (Inr s, w')"
    using assms unfolding stable_socket_def Let_def
    by (auto simp: try_bind_Inr required_Inr ensure_Inr split: prod.splits)
  have "t \<noteq> AddressType.LeRandom" "paired" "trusted" "\<not> blocked"
    using v by (auto simp: verified_stable_device_def stable_paired_address_type_def)
  with r have "read_as_stable bz (binary identity)"
    unfolding read_as_stable_def by (metis (full_types))
  with c show ?thesis
    by (auto simp: br_edr_att_socket_addresses_def ATT_PSM_def)
qed

lemma connect_raw_att_Inr:
  assumes "connect_raw_att bz sock config identity deadline route w = (Inr bearer, w')"
  shows "rb_expected_identity bearer = identity \<and> rb_transport bearer = AuraBearerTransport.BrEdr \<and>
    rb_acquisition_route bearer = route \<and> read_as_stable bz (binary identity) \<and>
    set_up_to bz sock \<lparr>sa_addr = binary identity, sa_addr_type = AddressType.BrEdr, sa_psm = 0x1F, sa_cid = 0\<rparr>
      (rb_socket bearer)"
proof -
  obtain local_address d s0 w1 w2 d' s where
    s0: "stable_socket bz identity local_address d w1 = (Inr s0, w2)"
    and s: "set_up_socket bz sock d' s0 w2 = (Inr s, w')"
    and bearer: "bearer = \<lparr>rb_expected_identity = identity, rb_transport = AuraBearerTransport.BrEdr,
      rb_acquisition_route = route, rb_socket = s\<rparr>"
    using assms unfolding connect_raw_att_def Let_def
    by (auto simp: try_bind_Inr present_Inr lift_result_def)
  from stable_socket_Inr [OF s0] bearer show ?thesis
    using set_up_toI [OF _ s] by fastforce
qed

lemma retry_loop_Inr:
  "retry_loop bz timings deadline attempt n reason w = Some (Inr v, w') \<Longrightarrow> \<exists>w1. attempt w1 = Some (Inr v, w')"
  by (induction bz timings deadline attempt n reason w rule: retry_loop.induct)
    (auto split: if_splits option.splits prod.splits sum.splits)

lemma connect_found_Inr:
  assumes "connect_found bz sock local_address timings deadline device w = (Inr c, w')"
  shows "set_up_to bz sock \<lparr>sa_addr = device, sa_addr_type = AddressType.LeRandom, sa_psm = 0, sa_cid = 4\<rparr> (cra_socket c)"
proof -
  obtain local d s0 w1 d' where
    "connect_att_socket bz local \<lparr>sa_addr = device, sa_addr_type = AddressType.LeRandom, sa_psm = 0, sa_cid = 4\<rparr> d w
       = (Inr s0, w1)"
    and "set_up_socket bz sock d' s0 w1 = (Inr (cra_socket c), w')"
    using assms unfolding connect_found_def le_fixed_att_socket_addresses_def AURA_ATT_FIXED_CID_def
    by (auto simp: try_bind_Inr lift_result_def)
  then show ?thesis
    by (rule set_up_toI)
qed

lemma map_sum_Inr: "map_sum f g r = Inr y \<longleftrightarrow> (\<exists>v. r = Inr v \<and> y = g v)"
  by (cases r) auto

lemma connect_le_raw_Inr:
  assumes "connect_le_raw bz sock config identity deadline w = Some (Inr bearer, w')"
  shows "rb_expected_identity bearer = identity \<and> rb_transport bearer = AuraBearerTransport.Le \<and>
    rb_acquisition_route bearer = AuraAcquisitionRoute.FreshLe \<and>
    (\<exists>known u d w0 device w1. sb_parse_uuid bz HARMAN_FDDF_UUID = Some u \<and>
       scan_once bz known u identity d w0 = Some (Inr (Some device), w1) \<and>
       set_up_to bz sock \<lparr>sa_addr = device, sa_addr_type = AddressType.LeRandom, sa_psm = 0, sa_cid = 4\<rparr>
         (rb_socket bearer))"
proof -
  obtain local_address u w0 c where u: "sb_parse_uuid bz HARMAN_FDDF_UUID = Some u"
    and r: "retry_connect_attempts bz (abc_timings config) deadline (connect_le_raw_attempt bz sock local_address u
      identity (abc_timings config) deadline) w0 = Some (Inr c, w')"
    and bearer: "bearer = \<lparr>rb_expected_identity = identity, rb_transport = AuraBearerTransport.Le,
      rb_acquisition_route = AuraAcquisitionRoute.FreshLe, rb_socket = cra_socket c\<rparr>"
    using assms unfolding connect_le_raw_def Let_def
    by (auto simp: try_bind_Inr lift_result_def parse_uuid_def ok_or_Inr map_sum_Inr
        split: prod.splits sum.splits)
  obtain w1 where "connect_le_raw_attempt bz sock local_address u identity (abc_timings config) deadline w1
      = Some (Inr c, w')"
    using retry_loop_Inr [OF r [unfolded retry_connect_attempts_def]] by blast
  then obtain known d w2 device w3 where "scan_once bz known u identity d w2 = Some (Inr (Some device), w3)"
    and "connect_found bz sock local_address (abc_timings config) deadline device w3 = (Inr c, w')"
    by (auto simp: connect_le_raw_attempt_def split: prod.splits sum.splits option.splits)
  with u bearer connect_found_Inr show ?thesis
    by fastforce
qed

lemma wake_timeout_at_Inr: "wake_timeout_at m w = (Inr v, w') \<longleftrightarrow> m w = (Completed (Inr v), w')"
  by (auto simp: wake_timeout_at_def split: prod.splits timed.splits sum.splits)

lemma exact_stable_wake_device_Inr:
  "exact_stable_wake_device bz config identity d w = (Inr a, w') \<Longrightarrow> a = binary identity"
  by (auto simp: exact_stable_wake_device_def try_bind_Inr Let_def split: if_splits)

lemma poll_release_returns:
  assumes pause: "\<And>d w. now w + d \<le> now (pause d w)" and clock: "\<And>d w. now w \<le> now (snd (observe d w))"
  shows "\<exists>r w'. poll_media_control_release now deadline observe pause w = Some (r, w') \<and> r \<noteq> Inr False \<and>
    (r = Inr True \<longrightarrow> (\<exists>d w1. observe d w1 = (Inr MediaControlReleaseObservation.Released, w')))"
proof (induction "deadline - now w" arbitrary: w rule: less_induct)
  case less
  show ?case
  proof (cases "now w \<ge> deadline")
    case False
    obtain r w1 where o: "observe (deadline - now w) w = (r, w1)"
      by fastforce
    show ?thesis
    proof (cases "r = Inr MediaControlReleaseObservation.Connected \<and> now w1 < deadline")
      case True
      let ?w2 = "pause (min MEDIA_CONTROL_RELEASE_POLL (deadline - now w1)) w1"
      have "now w < now ?w2"
        using pause [of w1 "min MEDIA_CONTROL_RELEASE_POLL (deadline - now w1)"] clock [of w "deadline - now w"] o True
        by (auto simp: MEDIA_CONTROL_RELEASE_POLL_def from_millis_def min_def split: if_splits)
      with False have "deadline - now ?w2 < deadline - now w"
        by linarith
      from less [OF this] False o True show ?thesis
        by (simp add: poll_media_control_release.simps [of _ _ _ _ w])
    next
      case stop: False
      show ?thesis
      proof (cases r)
        case (Inl e)
        with False o show ?thesis
          by (simp add: poll_media_control_release.simps [of _ _ _ _ w])
      next
        case (Inr seen)
        with False o stop show ?thesis
          by (cases seen) (auto simp: poll_media_control_release.simps [of _ _ _ _ w])
      qed
    qed
  qed (simp add: poll_media_control_release.simps [of _ _ _ _ w])
qed

lemma connect_cold_bearer_Inr:
  assumes "connect_cold_bearer ops s = (Inr bearer, s')"
  shows "(\<exists>route s0. route \<in> {AuraAcquisitionRoute.StableDirect, AuraAcquisitionRoute.A2dpWakeThenStable} \<and>
      cc_connect_stable ops route s0 = (Inr bearer, s')) \<or> (\<exists>s0. cc_connect_le ops s0 = (Inr bearer, s'))"
  using assms
  by (auto simp: connect_cold_bearer_def Let_def split: prod.splits sum.splits if_splits)

subsection \<open>Properties\<close>

text \<open>An adapter that finds the paired device, for the examples.\<close>

definition example_payload :: "8 word list" where
  "example_payload = [0x2D, 0x21] @ replicate 9 0 @ [2, 0, 0, 0, 0, 1]"

definition example_scan :: "(nat, nat) scan_bluez" where
  "example_scan =
     \<lparr>bz_now = (\<lambda>w. w), bz_session = (\<lambda>_ w. (Completed (Inr ()), w)), bz_adapter = (\<lambda>_ w. (Some (), w)),
      bz_is_powered = (\<lambda>_ w. (Completed (Inr True), w)), bz_local_address = (\<lambda>_ w. (Completed (Inr []), w)),
      bz_device = (\<lambda>_ w. (Some (), w)), bz_new_seq_packet = (\<lambda>w. (Some 3, w)), bz_bind = (\<lambda>_ _ w. (Some (), w)),
      bz_set_security = (\<lambda>_ _ _ w. (Some (), w)), bz_connect = (\<lambda>_ _ _ w. (Completed (Inr 0), w)),
      bz_peer_addr = (\<lambda>_ w. (Some \<lparr>sa_addr = [2, 0, 0, 0, 0, 1], sa_addr_type = AddressType.BrEdr, sa_psm = 0x1F,
        sa_cid = 0\<rparr>, w)), sb_reported_address = (\<lambda>a w. a), sb_parse_uuid = (\<lambda>_. Some 0), sb_hash_set = remdups,
      sb_address_type = (\<lambda>_ _ w. (Completed (Inr AddressType.LePublic), w)),
      sb_is_paired = (\<lambda>_ _ w. (Completed (Inr True), w)), sb_is_trusted = (\<lambda>_ _ w. (Completed (Inr True), w)),
      sb_is_blocked = (\<lambda>_ _ w. (Completed (Inr False), w)), sb_is_connected = (\<lambda>_ _ w. (Completed (Inr True), w)),
      sb_service_data = (\<lambda>_ _ w. (Completed (Inr None), w)),
      sb_set_discovery_filter = (\<lambda>_ _ w. (Completed (Inr ()), w)), sb_device_addresses = (\<lambda>_ w. (Completed (Inr []), w)),
      sb_subscribe = (\<lambda>_ _ w. (Completed (Inr ()), w)), sb_discover_devices = (\<lambda>_ w. (Completed (Inr ()), w)),
      sb_next = (\<lambda>_ w. (DeviceNext (Some ([0x40], DeviceProperty.ServiceData [0 \<mapsto> example_payload])), w + 1)),
      sb_sleep_until = (\<lambda>d w. max d w), sb_sleep = (\<lambda>d w. w + d),
      sb_connect_profile = (\<lambda>_ _ _ w. (Completed (Inr ()), w)),
      sb_disconnect_profile = (\<lambda>_ _ _ w. (Completed (Inr ()), w)), sb_object_path = Some,
      sb_system_bus = (\<lambda>w. (Some (), w)), sb_managed_objects = (\<lambda>_ w. (Some Map.empty, w))\<rparr>"

lemma example_scan_sel:
  "bz_now example_scan w = w" "sb_sleep example_scan d w = w + d" "snd (sb_managed_objects example_scan d w) = w"
  "bz_device example_scan a w = (Some (), w)" "sb_discover_devices example_scan d w = (Completed (Inr ()), w)"
  "sb_next example_scan d w = (DeviceNext (Some ([0x40], DeviceProperty.ServiceData [0 \<mapsto> example_payload])), w + 1)"
  "bz_session example_scan d w = (Completed (Inr ()), w)" "bz_adapter example_scan name w = (Some (), w)"
  "bz_is_powered example_scan d w = (Completed (Inr True), w)" "bz_local_address example_scan d w = (Completed (Inr []), w)"
  "sb_address_type example_scan a d w = (Completed (Inr AddressType.LePublic), w)"
  "sb_is_paired example_scan a d w = (Completed (Inr True), w)" "sb_is_trusted example_scan a d w = (Completed (Inr True), w)"
  "sb_is_blocked example_scan a d w = (Completed (Inr False), w)" "bz_new_seq_packet example_scan w = (Some 3, w)"
  "bz_bind example_scan fd local w = (Some (), w)" "bz_set_security example_scan fd level k w = (Some (), w)"
  "bz_connect example_scan fd target d w = (Completed (Inr 0), w)"
  "bz_peer_addr example_scan s w =
     (Some \<lparr>sa_addr = [2, 0, 0, 0, 0, 1], sa_addr_type = AddressType.BrEdr, sa_psm = 0x1F, sa_cid = 0\<rparr>, w)"
  by (simp_all add: example_scan_def)

text \<open>
  C22: a scan takes only fresh evidence. When it returns a device, the last event it received is either a change of
  that device's service data, which carries the advertisement itself, or the appearance of that device, whose
  service data was then read; and a device that was known before the scan is never taken on its appearance unless
  the scan saw it removed first, so that no cached advertisement counts. The advertisement is of this product and
  identity, and the device has a random address.
\<close>

theorem scan_takes_fresh_evidence:
  assumes "scan_once bz known service_uuid identity deadline w = Some (Inr (Some a), w')"
  shows "\<exists>subscribed w0 earlier final_event m.
    scan_run bz service_uuid identity deadline (set known) subscribed w0 (earlier @ [final_event]) (Inr (Some a)) w' \<and>
    (final_event = DeviceNext (Some (a, DeviceProperty.ServiceData m)) \<or>
     final_event = AdapterNext (Some (AdapterEvent.DeviceAdded a)) \<and>
       (a \<in> set known \<longrightarrow> AdapterNext (Some (AdapterEvent.DeviceRemoved a)) \<in> set earlier) \<and>
       (\<exists>w1 w2. sb_service_data bz a deadline w1 = (Completed (Inr (Some m)), w2))) \<and>
    (\<exists>payload w1 w2. m service_uuid = Some payload \<and> matches_verified_fddf HARMAN_FDDF_UUID payload identity \<and>
       sb_address_type bz a deadline w1 = (Completed (Inr AddressType.LeRandom), w2))"
proof -
  obtain subscribed w0 where "scan_loop bz service_uuid identity deadline (set known) subscribed w0 = Some (Inr (Some a), w')"
    using assms by (auto simp: scan_once_def split: prod.splits sum.splits)
  from scan_loop_run [OF this] obtain events where
    run: "scan_run bz service_uuid identity deadline (set known) subscribed w0 events (Inr (Some a)) w'" ..
  from scan_run_match [OF run refl] run show ?thesis
    unfolding verified_data_def by metis
qed

theorem scan_takes_fresh_evidence_witness:
  "\<exists>w'. scan_once (example_scan\<lparr>sb_address_type := (\<lambda>_ _ w. (Completed (Inr AddressType.LeRandom), w))\<rparr>) [] 0
      example_aura 9 0 = Some (Inr (Some [0x40]), w') \<and>
    matches_verified_fddf HARMAN_FDDF_UUID example_payload example_aura"
proof -
  let ?bz = "example_scan\<lparr>sb_address_type := (\<lambda>_ _ w. (Completed (Inr AddressType.LeRandom), w))\<rparr>"
  have m: "matches_verified_fddf HARMAN_FDDF_UUID example_payload example_aura"
    by (simp add: matches_verified_fddf_def example_payload_def AURA_STUDIO_5_PID_def STABLE_IDENTITY_END_def
        STABLE_IDENTITY_OFFSET_def matches_binary_def eq_ignore_ascii_case_def numeral_eq_Suc)
  then have "scan_loop ?bz 0 example_aura 9 {} {} 0 = Some (Inr (Some [0x40]), 1)"
    by (simp add: scan_loop.simps [of _ _ _ _ _ _ 0] scan_step_def on_device_event_def reduce_fresh_advertisement_iff
        example_scan_sel)
  then have s: "scan_once ?bz [] 0 example_aura 9 0 = Some (Inr (Some [0x40]), 1)"
    by (simp add: scan_once_def required_def example_scan_sel)
  from scan_takes_fresh_evidence [OF s] s m show ?thesis
    by blast
qed

text \<open>
  C23: a bearer is bound to the verified speaker. When a cold connection over BlueZ returns a bearer, it is one for
  the identity asked for, its socket reported exactly the target it was connected to, and the notifications were
  enabled over it by one exact exchange. A classic bearer goes to the address of the identity, whose device was
  read as public, paired, trusted and not blocked; a low-energy bearer goes to the random address of a device that
  a scan for this identity returned.
\<close>

theorem bearer_is_verified:
  assumes "connect_cold_bearer (native_cold bz sock config identity (Some w)) (Some w) = (Inr bearer, Some w')"
  shows "rb_expected_identity bearer = identity \<and>
    (rb_transport bearer = AuraBearerTransport.BrEdr \<and>
     rb_acquisition_route bearer \<in> {AuraAcquisitionRoute.StableDirect, AuraAcquisitionRoute.A2dpWakeThenStable} \<and>
     read_as_stable bz (binary identity) \<and>
     set_up_to bz sock \<lparr>sa_addr = binary identity, sa_addr_type = AddressType.BrEdr, sa_psm = 0x1F, sa_cid = 0\<rparr>
       (rb_socket bearer) \<or>
     rb_transport bearer = AuraBearerTransport.Le \<and> rb_acquisition_route bearer = AuraAcquisitionRoute.FreshLe \<and>
     (\<exists>known u d w0 device w1. sb_parse_uuid bz HARMAN_FDDF_UUID = Some u \<and>
        scan_once bz known u identity d w0 = Some (Inr (Some device), w1) \<and>
        set_up_to bz sock \<lparr>sa_addr = device, sa_addr_type = AddressType.LeRandom, sa_psm = 0, sa_cid = 4\<rparr>
          (rb_socket bearer)))"
  using connect_cold_bearer_Inr [OF assms]
proof (elim disjE exE conjE)
  fix route s0
  assume route: "route \<in> {AuraAcquisitionRoute.StableDirect, AuraAcquisitionRoute.A2dpWakeThenStable}"
    and "cc_connect_stable (native_cold bz sock config identity (Some w)) route s0 = (Inr bearer, Some w')"
  then obtain d w1 where "connect_raw_att bz sock config identity d route w1 = (Inr bearer, w')"
    by (auto simp: native_cold_def NativeColdConnectOps_def returning_Some Let_def)
  from connect_raw_att_Inr [OF this] route show ?thesis
    by blast
next
  fix s0
  assume "cc_connect_le (native_cold bz sock config identity (Some w)) s0 = (Inr bearer, Some w')"
  then obtain d w1 where "connect_le_raw bz sock config identity d w1 = Some (Inr bearer, w')"
    by (auto simp: native_cold_def NativeColdConnectOps_def returning_Some Let_def)
  from connect_le_raw_Inr [OF this] show ?thesis
    by blast
qed

definition enabling_socket :: "nat att_socket" where
  "enabling_socket = example_socket\<lparr>as_recv := (\<lambda>_ n. (Completed (Inr [0x13]), n + 10))\<rparr>"

theorem bearer_is_verified_witness:
  "\<exists>bearer w'. connect_cold_bearer (native_cold example_scan enabling_socket default_bluez_config example_aura (Some 0)) (Some 0)
      = (Inr bearer, Some w') \<and> rb_expected_identity bearer = example_aura"
proof -
  let ?c = "connect_cold_bearer (native_cold example_scan enabling_socket default_bluez_config example_aura (Some 0)) (Some 0)"
  have "\<exists>bearer w'. connect_raw_att example_scan enabling_socket default_bluez_config example_aura d route w = (Inr bearer, w')"
    for d route w
    by (simp add: connect_raw_att_def open_adapter_def stable_socket_def connect_att_socket_def connected_socket_def
        set_up_socket_def enable_raw_att_notifications_def enabling_socket_def example_socket_def try_bind_def
        required_def present_def ensure_def lift_result_def example_scan_sel verified_stable_device_def
        stable_paired_address_type_def br_edr_att_socket_addresses_def ATT_PSM_def att_write_request_def
        handle_le_bytes_def ATT_RECEIVE_BUFFER_SIZE_def parse_att_pdu_def ATT_WRITE_RESPONSE_def Let_def)
  then obtain bearer w' where "connect_raw_att example_scan enabling_socket default_bluez_config example_aura
      (bt_total_connect_timeout (abc_timings default_bluez_config)) AuraAcquisitionRoute.StableDirect 0 = (Inr bearer, w')"
    by blast
  then have c: "?c = (Inr bearer, Some w')"
    by (simp add: connect_cold_bearer_def native_cold_def NativeColdConnectOps_def returning_def example_scan_sel Let_def)
  from bearer_is_verified [OF c] c show ?thesis
    by blast
qed

text \<open>
  Waiting for the release of the profile ends, and believes only what it sees. When sleeping takes its time and
  asking for the objects does not turn the clock back, the wait returns; it never reports that the profile is still
  held, and it reports the release only after the device was read as disconnected or the object of exactly this
  device showed no connected media control.
\<close>

theorem release_wait_is_bounded:
  assumes "\<forall>d w. bz_now bz w + d \<le> bz_now bz (sb_sleep bz d w)"
    and "\<forall>d w. bz_now bz w \<le> bz_now bz (snd (sb_managed_objects bz d w))"
  shows "\<exists>r w'. wait_profile_released bz config overall identity uuid timeout w = Some (r, w') \<and> r \<noteq> Inr False \<and>
    (r = Inr True \<longrightarrow>
       (\<exists>d w1. sb_is_connected bz (binary identity) d w1 = (Completed (Inr False), w')) \<or>
       (\<exists>path objects d w1. exact_device_object_path bz (abc_adapter_name config) identity = Inr path \<and>
          sb_managed_objects bz d w1 = (Some objects, w') \<and>
          classify_media_control_release (objects path) = MediaControlReleaseObservation.Released))"
proof -
  have polled: "\<exists>r w'. poll_release bz config identity d w = Some (r, w') \<and> r \<noteq> Inr False \<and> (r = Inr True \<longrightarrow>
      (\<exists>path objects d w1. exact_device_object_path bz (abc_adapter_name config) identity = Inr path \<and>
         sb_managed_objects bz d w1 = (Some objects, w') \<and>
         classify_media_control_release (objects path) = MediaControlReleaseObservation.Released))" for d w
  proof (cases "exact_device_object_path bz (abc_adapter_name config) identity")
    case (Inr path)
    obtain b w1 where b: "present AuraWakeIoFailure.Unavailable (sb_system_bus bz) w = (b, w1)"
      by fastforce
    have clock: "bz_now bz w \<le> bz_now bz (snd (observe_release bz path d w))" for d w
      using spec [OF spec [OF assms(2), of d], of w]
      by (cases "sb_managed_objects bz d w"; cases "fst (sb_managed_objects bz d w)")
        (auto simp: observe_release_def try_bind_def present_def lift_result_def)
    have "observe_release bz path d w = (Inr seen, w') \<Longrightarrow>
        \<exists>objects. sb_managed_objects bz d w = (Some objects, w') \<and> classify_media_control_release (objects path) = seen"
      for d w seen w'
      by (auto simp: observe_release_def try_bind_Inr present_Inr lift_result_def)
    with poll_release_returns [of "bz_now bz" "sb_sleep bz" "observe_release bz path" d w1] assms(1) clock Inr b
    show ?thesis
      by (cases b) (simp_all add: poll_release_def, blast)
  qed (simp add: poll_release_def)
  show ?thesis
  proof (cases "uuid \<noteq> A2DP_SINK_PROFILE_UUID \<or> is_err (wake_operation_deadline (bz_now bz w) overall timeout)")
    case True
    then show ?thesis
      by (auto simp: wait_profile_released_def within_deadline_def split: sum.splits)
  next
    case False
    then obtain d where d: "wake_operation_deadline (bz_now bz w) overall timeout = Inr d"
      by (cases "wake_operation_deadline (bz_now bz w) overall timeout") auto
    let ?read = "try_bind (exact_stable_wake_device bz config identity d) (\<lambda>device. wake_timeout_at (sb_is_connected bz device d))"
    obtain c w1 where c: "?read w = (c, w1)"
      by fastforce
    have read: "\<exists>w2. sb_is_connected bz (binary identity) d w2 = (Completed (Inr v), w1)" if "c = Inr v" for v
      using c that exact_stable_wake_device_Inr by (fastforce simp: try_bind_Inr wake_timeout_at_Inr)
    have wait: "wait_profile_released bz config overall identity uuid timeout w =
        (case c of Inl e \<Rightarrow> Some (Inl e, w1)
         | Inr connected \<Rightarrow> if \<not> connected then Some (Inr True, w1) else poll_release bz config identity d w1)"
      using False c d by (simp add: wait_profile_released_def within_deadline_def)
    show ?thesis
    proof (cases "c = Inr True")
      case True
      then show ?thesis
        unfolding wait using polled [of d w1] by (simp, blast)
    next
      case False
      then show ?thesis
        unfolding wait using read [of False] by (cases c) auto
    qed
  qed
qed

theorem release_wait_is_bounded_witness:
  "\<exists>r w'. wait_profile_released example_scan default_bluez_config 50 example_aura A2DP_SINK_PROFILE_UUID 10 0
     = Some (r, w') \<and> r \<noteq> Inr False"
  using release_wait_is_bounded [of example_scan default_bluez_config 50 example_aura A2DP_SINK_PROFILE_UUID 10 0]
  by (auto simp: example_scan_sel)

end
