(* ===== verification/Messages.thy ===== *)
theory Messages
  imports Cli Aura_Connect Native_Backend
begin

text \<open>
  What the program says of a failure: the texts of its error types (their \<open>Display\<close> implementations) and the end of the
  process, \<open>main\<close> in \<open>rust/src/main.rs\<close>, with its exit code and its line on the standard error stream.
\<close>

subsection \<open>Texts\<close>

fun jbl_error_text :: "JblError \<Rightarrow> string" where
  "jbl_error_text JblError.ConfigUnavailable = ''private configuration is unavailable''"
| "jbl_error_text JblError.ConfigPermissions = ''private configuration permissions allow another POSIX user''"
| "jbl_error_text JblError.ConfigTooLarge = ''private configuration exceeded the size limit''"
| "jbl_error_text JblError.InvalidConfig = ''private configuration is invalid''"
| "jbl_error_text (JblError.MissingSetting missing) = ''missing setting: '' @ missing"
| "jbl_error_text JblError.InvalidTimeout = ''JBL local API timeout must be 1 through 30 seconds''"
| "jbl_error_text JblError.InvalidAddress = ''device address must be an IP literal''"
| "jbl_error_text JblError.CertificateUnavailable = ''client certificate is unavailable''"
| "jbl_error_text JblError.CertificatePermissions = ''client certificate permissions allow another POSIX user''"
| "jbl_error_text JblError.PrivateKeyUnavailable = ''client private key is unavailable''"
| "jbl_error_text JblError.PrivateKeyPermissions = ''client private key permissions allow another POSIX user''"
| "jbl_error_text JblError.InvalidTlsFingerprint = ''server TLS fingerprint must contain exactly 64 hexadecimal digits''"
| "jbl_error_text JblError.InvalidClientIdentity = ''client certificate or private key is invalid''"
| "jbl_error_text JblError.CredentialFileInvalid = ''client credential must be an owner-only regular file''"
| "jbl_error_text JblError.CredentialTooLarge = ''client credential exceeded the size limit''"
| "jbl_error_text JblError.TlsConfiguration = ''TLS configuration failed''"
| "jbl_error_text JblError.PeerCertificateMismatch = ''server TLS certificate fingerprint did not match''"
| "jbl_error_text JblError.NetworkUnreachable = ''JBL local API is unreachable''"
| "jbl_error_text (JblError.HttpStatus _) = ''JBL local API returned an unsuccessful HTTP status''"
| "jbl_error_text JblError.ResponseTooLarge = ''JBL local API response exceeded the size limit''"
| "jbl_error_text JblError.InvalidJson = ''JBL local API returned invalid JSON''"
| "jbl_error_text JblError.InvalidXml = ''JBL UPnP service returned invalid XML''"
| "jbl_error_text JblError.BasicResponseNotObject = ''JBL control response was not a JSON object''"
| "jbl_error_text JblError.BasicResponseCodeMissing = ''JBL control response omitted error_code''"
| "jbl_error_text JblError.BasicResponseCodeInvalid = ''JBL control response contained invalid error_code''"
| "jbl_error_text JblError.ControlCommandRejected = ''JBL rejected the control command''"
| "jbl_error_text JblError.DeviceInfoMissing = ''JBL device information is missing''"
| "jbl_error_text JblError.ControlDeviceInfoMissing = ''JBL model identity is missing''"
| "jbl_error_text JblError.UnexpectedDeviceModel = ''the discovered JBL model did not match configuration''"
| "jbl_error_text JblError.DeviceReportedError = ''JBL reported a command error''"
| "jbl_error_text JblError.GroupInfoMissing = ''JBL group information is missing''"
| "jbl_error_text JblError.GroupMembersMissing = ''JBL group members are missing''"
| "jbl_error_text JblError.GroupDisabledInvalid = ''JBL group disabled state is missing or invalid''"
| "jbl_error_text JblError.GroupMemberInvalid = ''JBL group member data is invalid''"
| "jbl_error_text JblError.InvalidArguments = ''invalid command-line arguments''"
| "jbl_error_text JblError.OutputFailed = ''command output could not be written''"

fun journal_error_text :: "JournalError \<Rightarrow> string" where
  "journal_error_text JournalError.StateDirectoryUnavailable = ''controller state directory is unavailable''"
| "journal_error_text JournalError.StateDirectoryUntrusted = ''controller state directory failed trust checks''"
| "journal_error_text JournalError.JournalUntrusted = ''controller uncertainty journal failed trust checks''"
| "journal_error_text JournalError.JournalInvalid = ''controller uncertainty journal is invalid''"
| "journal_error_text JournalError.JournalWriteFailed = ''controller uncertainty journal could not be committed''"

fun backend_error_text :: "PairBackendError \<Rightarrow> string" where
  "backend_error_text PairBackendError.InvalidSocketPath = ''legacy backend socket path must be explicit and absolute''"
| "backend_error_text PairBackendError.UntrustedSocket = ''legacy backend socket failed local trust checks''"
| "backend_error_text PairBackendError.InvalidTimeout = ''legacy backend timeout must be greater than zero''"
| "backend_error_text PairBackendError.Unavailable = ''pair backend is unavailable''"
| "backend_error_text PairBackendError.AuraAdapterUnavailable = ''Aura Bluetooth adapter is unavailable''"
| "backend_error_text PairBackendError.AuraDiscoveryUnavailable = ''Aura Bluetooth discovery is unavailable''"
| "backend_error_text PairBackendError.AuraVerifiedAdvertisementNotFound = ''no verified Aura FDDF advertisement was observed''"
| "backend_error_text PairBackendError.AuraDeviceConnectionFailed = ''verified Aura LE connection failed''"
| "backend_error_text PairBackendError.AuraWakeProfileConnectFailed = ''Aura wake A2DP profile connection failed''"
| "backend_error_text PairBackendError.AuraWakeFddfTimedOut = ''Aura wake FDDF observation timed out''"
| "backend_error_text PairBackendError.AuraWakeFddfInvalid = ''Aura wake FDDF observation was invalid''"
| "backend_error_text PairBackendError.AuraWakeFddfUnavailable = ''Aura wake FDDF observation was unavailable''"
| "backend_error_text PairBackendError.AuraWakeProfileReleaseFailed = ''Aura wake A2DP profile release failed''"
| "backend_error_text PairBackendError.AuraGattProfileInvalid = ''Aura vendor GATT profile was unavailable or invalid''"
| "backend_error_text PairBackendError.AuraNotificationSetupFailed = ''Aura notification setup failed''"
| "backend_error_text PairBackendError.AuraWriteUnknown = ''Aura write outcome is unknown''"
| "backend_error_text PairBackendError.AuraAcknowledgementTimedOut = ''Aura acknowledgement timed out''"
| "backend_error_text PairBackendError.AuraAcknowledgementChannelClosed = ''Aura acknowledgement channel closed''"
| "backend_error_text PairBackendError.AuraUnexpectedAcknowledgement = ''Aura acknowledgement was unexpected''"
| "backend_error_text PairBackendError.JblEnterOutcomeUnknown = ''JBL enter outcome is unknown''"
| "backend_error_text PairBackendError.JblExitOutcomeUnknown = ''JBL exit outcome is unknown''"
| "backend_error_text PairBackendError.JblBroadcastResultTimedOut = ''JBL broadcast result timed out''"
| "backend_error_text PairBackendError.JblBroadcastResultUnavailable = ''JBL broadcast result is unavailable''"
| "backend_error_text PairBackendError.JblBroadcastResultRejected = ''JBL broadcast result was rejected''"
| "backend_error_text PairBackendError.AuraStartOutcomeUnknown = ''Aura start outcome is unknown''"
| "backend_error_text PairBackendError.TimedOut = ''pair backend request timed out''"
| "backend_error_text PairBackendError.ResponseTooLarge = ''pair backend response exceeded the size limit''"
| "backend_error_text PairBackendError.InvalidResponse = ''pair backend returned an invalid response''"
| "backend_error_text PairBackendError.BackendReportedFailure = ''pair backend reported a lifecycle command failure''"
| "backend_error_text PairBackendError.InvalidLifecycle = ''pair backend returned an unknown lifecycle''"
| "backend_error_text PairBackendError.UnexpectedLifecycle = ''pair backend returned an unexpected post-state''"
| "backend_error_text PairBackendError.RecoveryUnsupported = ''pair backend does not support explicit recovery''"
| "backend_error_text PairBackendError.BackendChangedDuringTransaction = ''pair backend changed during one lifecycle transaction''"

fun aura_failure_label :: "AuraFailureReason \<Rightarrow> string" where
  "aura_failure_label AuraFailureReason.InvalidConfiguration = ''invalid_configuration''"
| "aura_failure_label AuraFailureReason.RuntimeUnavailable = ''runtime_unavailable''"
| "aura_failure_label AuraFailureReason.AdapterUnavailable = ''adapter_unavailable''"
| "aura_failure_label AuraFailureReason.AdapterPoweredOff = ''adapter_powered_off''"
| "aura_failure_label AuraFailureReason.DiscoveryUnavailable = ''discovery_unavailable''"
| "aura_failure_label AuraFailureReason.VerifiedAdvertisementNotFound = ''verified_advertisement_not_found''"
| "aura_failure_label AuraFailureReason.DeviceConnectionFailed = ''device_connection_failed''"
| "aura_failure_label AuraFailureReason.WakeProfileConnectFailed = ''wake_profile_connect_failed''"
| "aura_failure_label AuraFailureReason.WakeFddfTimedOut = ''wake_fddf_timed_out''"
| "aura_failure_label AuraFailureReason.WakeFddfInvalid = ''wake_fddf_invalid''"
| "aura_failure_label AuraFailureReason.WakeFddfUnavailable = ''wake_fddf_unavailable''"
| "aura_failure_label AuraFailureReason.WakeProfileReleaseFailed = ''wake_profile_release_failed''"
| "aura_failure_label AuraFailureReason.GattProfileInvalid = ''gatt_profile_invalid''"
| "aura_failure_label AuraFailureReason.NotificationSetupFailed = ''notification_setup_failed''"
| "aura_failure_label AuraFailureReason.TransportNotReady = ''transport_not_ready''"
| "aura_failure_label AuraFailureReason.NotificationQueueInvalid = ''notification_queue_invalid''"
| "aura_failure_label AuraFailureReason.WriteFailed = ''write_failed''"
| "aura_failure_label AuraFailureReason.AcknowledgementTimedOut = ''acknowledgement_timed_out''"
| "aura_failure_label AuraFailureReason.AcknowledgementChannelClosed = ''acknowledgement_channel_closed''"
| "aura_failure_label AuraFailureReason.UnexpectedAcknowledgement = ''unexpected_acknowledgement''"
| "aura_failure_label AuraFailureReason.DisconnectFailed = ''disconnect_failed''"

fun wake_failure_code :: "AuraWakeFailure \<Rightarrow> string" where
  "wake_failure_code AuraWakeFailure.InvalidConfiguration = ''invalid_configuration''"
| "wake_failure_code AuraWakeFailure.StableDeviceUnavailable = ''stable_device_unavailable''"
| "wake_failure_code AuraWakeFailure.StableIdentityMismatch = ''stable_identity_mismatch''"
| "wake_failure_code AuraWakeFailure.StableAddressInvalid = ''stable_address_invalid''"
| "wake_failure_code AuraWakeFailure.StableDeviceNotPaired = ''stable_device_not_paired''"
| "wake_failure_code AuraWakeFailure.StableDeviceNotTrusted = ''stable_device_not_trusted''"
| "wake_failure_code AuraWakeFailure.StableDeviceBlocked = ''stable_device_blocked''"
| "wake_failure_code AuraWakeFailure.ProfileConnectFailed = ''profile_connect_failed''"
| "wake_failure_code AuraWakeFailure.FreshFddfUnavailable = ''fresh_fddf_unavailable''"
| "wake_failure_code AuraWakeFailure.FreshFddfTimedOut = ''fresh_fddf_timed_out''"
| "wake_failure_code AuraWakeFailure.FreshFddfInvalid = ''fresh_fddf_invalid''"
| "wake_failure_code AuraWakeFailure.ProfileReleaseFailed = ''profile_release_failed''"

fun gena_failure_label :: "GenaFailure \<Rightarrow> string" where
  "gena_failure_label GenaFailure.InvalidConfiguration = ''invalid_configuration''"
| "gena_failure_label GenaFailure.RouteUnavailable = ''route_unavailable''"
| "gena_failure_label GenaFailure.ListenerUnavailable = ''listener_unavailable''"
| "gena_failure_label GenaFailure.SubscriptionUnavailable = ''subscription_unavailable''"
| "gena_failure_label GenaFailure.InvalidSubscription = ''invalid_subscription''"
| "gena_failure_label GenaFailure.CallbackTimedOut = ''callback_timed_out''"
| "gena_failure_label GenaFailure.InvalidCallback = ''invalid_callback''"
| "gena_failure_label GenaFailure.BusinessRejected = ''business_rejected''"
| "gena_failure_label GenaFailure.CleanupFailed = ''cleanup_failed''"

fun gatt_failure_label :: "JblGattFailure \<Rightarrow> string" where
  "gatt_failure_label JblGattFailure.RuntimeUnavailable = ''runtime_unavailable''"
| "gatt_failure_label JblGattFailure.AdapterUnavailable = ''adapter_unavailable''"
| "gatt_failure_label JblGattFailure.AdapterPoweredOff = ''adapter_powered_off''"
| "gatt_failure_label JblGattFailure.DeviceConnectionFailed = ''device_connection_failed''"
| "gatt_failure_label JblGattFailure.MtuExchangeFailed = ''mtu_exchange_failed''"
| "gatt_failure_label JblGattFailure.TransportNotReady = ''transport_not_ready''"
| "gatt_failure_label JblGattFailure.FrameTooLarge = ''frame_too_large''"
| "gatt_failure_label JblGattFailure.WriteFailed = ''write_failed''"
| "gatt_failure_label JblGattFailure.WriteResponseTimedOut = ''write_response_timed_out''"
| "gatt_failure_label JblGattFailure.ChannelClosed = ''channel_closed''"
| "gatt_failure_label JblGattFailure.UnexpectedResponse = ''unexpected_response''"

fun build_error_text :: "NativePairBuildError \<Rightarrow> string" where
  "build_error_text NativePairBuildError.InvalidJoinDelay = ''native pair join delay is invalid''"
| "build_error_text NativePairBuildError.JblClientUnavailable = ''native JBL control client could not be initialized''"
| "build_error_text NativePairBuildError.AuraTransportUnavailable = ''native Aura transport could not be initialized''"
| "build_error_text NativePairBuildError.JblGattTransportUnavailable = ''native JBL GATT transport could not be initialized''"
| "build_error_text NativePairBuildError.JblGenaObserverUnavailable = ''native JBL business-result observer could not be initialized''"

fun local_client_error_text :: "LocalClientError \<Rightarrow> string" where
  "local_client_error_text LocalClientError.Unavailable = ''the local Play Together service is unavailable''"
| "local_client_error_text LocalClientError.TimedOut = ''the local Play Together service timed out''"
| "local_client_error_text LocalClientError.ResponseTooLarge = ''the local Play Together response exceeded its limit''"
| "local_client_error_text LocalClientError.InvalidResponse = ''the local Play Together service returned an invalid response''"
| "local_client_error_text LocalClientError.ServiceRejected = ''the local Play Together service rejected the request''"
| "local_client_error_text LocalClientError.RevisionConflict = ''the local Play Together state changed; run the command again''"

fun service_error_text :: "ServiceRuntimeError \<Rightarrow> string" where
  "service_error_text ServiceRuntimeError.RuntimeDirectoryUnavailable = ''the private user runtime directory is unavailable''"
| "service_error_text ServiceRuntimeError.RuntimeDirectoryUntrusted = ''the private user runtime directory failed trust checks''"
| "service_error_text ServiceRuntimeError.AlreadyRunning = ''another v0.4 or Rust Play Together controller already owns the devices''"
| "service_error_text ServiceRuntimeError.SignalHandlerUnavailable = ''termination handlers could not be installed''"
| "service_error_text ServiceRuntimeError.ServiceManagerUnavailable = ''the user service manager is unavailable''"
| "service_error_text ServiceRuntimeError.ServiceStartFailed = ''the Rust Play Together user service could not be started''"
| "service_error_text ServiceRuntimeError.ServiceReadyTimedOut = ''the Rust Play Together user service did not become ready in time''"
| "service_error_text ServiceRuntimeError.LocalServiceInvalid = ''the local Rust Play Together service failed its readiness check''"
| "service_error_text ServiceRuntimeError.ControllerInitializationFailed = ''the native Play Together controller could not be initialized''"
| "service_error_text ServiceRuntimeError.GracefulShutdownRejected = ''graceful Play Together shutdown was rejected before completion''"
| "service_error_text ServiceRuntimeError.GracefulShutdownOutcomeUnknown = ''graceful Play Together shutdown outcome is unknown''"
| "service_error_text ServiceRuntimeError.GracefulShutdownPostconditionFailed = ''graceful Play Together shutdown postcondition failed''"
| "service_error_text ServiceRuntimeError.TransportTeardownFailed = ''Play Together transport teardown failed''"

fun web_server_error_text :: "WebServerError \<Rightarrow> string" where
  "web_server_error_text (WebServerError.InvalidSecurityConfiguration _) = ''Web service security configuration is invalid''"
| "web_server_error_text WebServerError.InvalidOptions = ''Web service deadlines are invalid''"
| "web_server_error_text WebServerError.RandomGenerationFailed = ''Web service CSRF generation failed''"
| "web_server_error_text WebServerError.BindFailed = ''Web service loopback bind failed''"
| "web_server_error_text WebServerError.ListenerValidationFailed = ''Web service listener is not trusted loopback''"
| "web_server_error_text WebServerError.ListenerConfigurationFailed = ''Web service listener configuration failed''"
| "web_server_error_text WebServerError.AcceptFailed = ''Web service accept failed''"

definition wake_error_text :: "AuraWakeError \<Rightarrow> string" where
  "wake_error_text e = wake_failure_code (we_failure e)"

definition pin_mismatch_text :: string where
  "pin_mismatch_text = ''peer certificate fingerprint mismatch''"

fun cli_error_text :: "CliError \<Rightarrow> string" where
  "cli_error_text CliError.InvalidArguments = ''invalid command-line arguments''"
| "cli_error_text CliError.OutputFailed = ''command output could not be written''"
| "cli_error_text (CliError.Configuration e) = jbl_error_text e"
| "cli_error_text (CliError.LocalClient e) = local_client_error_text e"
| "cli_error_text (CliError.ServiceRuntime e) = service_error_text e"
| "cli_error_text (CliError.WebServer e) = web_server_error_text e"
| "cli_error_text CliError.ActionNotAccepted = ''the Play Together action was not accepted''"

subsection \<open>The end of the process\<close>

datatype ExitCode = SUCCESS | FAILURE

text \<open>The formatted line is written piece by piece, and an error of the stream is ignored.\<close>

fun write_pieces :: "(string \<Rightarrow> ('w, io_error, unit) fallible) \<Rightarrow> string list \<Rightarrow> ('w, io_error, unit) fallible" where
  "write_pieces stderr [] = lift_result (Inr ())"
| "write_pieces stderr (s # ss) = try_bind (stderr s) (\<lambda>_. write_pieces stderr ss)"

definition failure_line :: "CliError \<Rightarrow> string list" where
  "failure_line e = [''jbl-aura-link-rust: '', cli_error_text e, [CHR 0x0A]]"

definition main_process ::
  "('w, 'b, 'p, 'j) cli_env \<Rightarrow> (string \<Rightarrow> ('w, io_error, unit) fallible) \<Rightarrow> string list \<Rightarrow> 'w \<Rightarrow> (ExitCode \<times> 'w) option" where
  "main_process ce stderr arguments w =
     (case run_command ce arguments w of
        None \<Rightarrow> None
      | Some (Inr _, w) \<Rightarrow> Some (ExitCode.SUCCESS, w)
      | Some (Inl e, w) \<Rightarrow> Some (ExitCode.FAILURE, snd (write_pieces stderr (failure_line e) w)))"

lemma main_process_exits:
  "main_process ce stderr arguments w = Some (ExitCode.SUCCESS, w') \<longleftrightarrow> run_command ce arguments w = Some (Inr (), w')"
  "run_command ce arguments w = Some (Inl e, w') \<Longrightarrow>
    main_process ce stderr arguments w = Some (ExitCode.FAILURE, snd (write_pieces stderr (failure_line e) w'))"
  by (auto simp: main_process_def split: option.splits prod.splits sum.splits)

subsection \<open>One printable line\<close>

definition printable_text :: "string \<Rightarrow> bool" where
  "printable_text s \<longleftrightarrow> s \<noteq> [] \<and> list_all (\<lambda>c. 0x20 \<le> byte c \<and> byte c \<le> 0x7E) s"

lemma printable_append: "printable_text s \<Longrightarrow> printable_text t \<Longrightarrow> printable_text (s @ t)"
  by (auto simp: printable_text_def)

lemma allowed_keys_printable: "k \<in> set ALLOWED_KEYS \<Longrightarrow> printable_text k"
  by (auto simp: ALLOWED_KEYS_def printable_text_def)

lemma local_client_error_text_printable: "printable_text (local_client_error_text e)"
  by (cases e) (simp_all add: printable_text_def)

lemma service_error_text_printable: "printable_text (service_error_text e)"
  by (cases e) (simp_all add: printable_text_def)

lemma web_server_error_text_printable: "printable_text (web_server_error_text e)"
  by (cases e) (simp_all add: printable_text_def)

lemma jbl_error_text_printable:
  assumes "\<And>k. e = JblError.MissingSetting k \<Longrightarrow> k \<in> set ALLOWED_KEYS"
  shows "printable_text (jbl_error_text e)"
proof (cases e)
  case (MissingSetting k)
  moreover have "printable_text ''missing setting: ''"
    by (simp add: printable_text_def)
  ultimately show ?thesis
    using assms allowed_keys_printable printable_append [of "''missing setting: ''" k] by simp
qed (simp_all add: printable_text_def)

lemma cli_error_text_printable:
  assumes "\<And>k. e = CliError.Configuration (JblError.MissingSetting k) \<Longrightarrow> k \<in> set ALLOWED_KEYS"
  shows "printable_text (cli_error_text e)"
proof (cases e)
  case (Configuration c)
  then show ?thesis
    using assms jbl_error_text_printable [of c] by simp
qed (simp_all add: local_client_error_text_printable service_error_text_printable web_server_error_text_printable,
    simp_all add: printable_text_def)

text \<open>The settings a load can miss are the known ones.\<close>

lemma and_then_Inl:
  "and_then r f = Inl e \<Longrightarrow> (r = Inl e \<Longrightarrow> P) \<Longrightarrow> (\<And>v. r = Inr v \<Longrightarrow> f v = Inl e \<Longrightarrow> P) \<Longrightarrow> P"
  by (cases r) (auto simp: and_then_def)

definition known_setting :: "(JblError, 'a) result \<Rightarrow> bool" where
  "known_setting r \<longleftrightarrow> (\<forall>k. r = Inl (JblError.MissingSetting k) \<longrightarrow> k \<in> set ALLOWED_KEYS)"

lemma known_setting_and_then: "known_setting r \<Longrightarrow> (\<And>v. known_setting (f v)) \<Longrightarrow> known_setting (and_then r f)"
  by (cases r) (simp_all add: known_setting_def and_then_def)

lemma known_setting_Inr [simp]: "known_setting (Inr v)"
  by (simp add: known_setting_def)

lemma known_setting_InvalidConfig: "known_setting (Inl JblError.InvalidConfig)"
  by (simp add: known_setting_def)

lemma known_setting_if: "(\<not> b \<Longrightarrow> known_setting r) \<Longrightarrow> known_setting (if b then Inl JblError.InvalidConfig else r)"
  by (simp add: known_setting_def)

lemma known_setting_ok_or: "known_setting (ok_or JblError.InvalidConfig x)"
  by (simp add: known_setting_def)

lemma known_setting_required: "k \<in> set ALLOWED_KEYS \<Longrightarrow> known_setting (Config_Load.required vs k)"
  by (auto simp: known_setting_def Config_Load.required_def split: option.splits if_splits)

lemma known_setting_timeout: "known_setting (timeout_setting vs)"
  by (auto simp: known_setting_def timeout_setting_def split: option.splits if_splits)

lemma known_setting_port: "known_setting (port_setting vs)"
  by (auto simp: known_setting_def port_setting_def split: option.splits if_splits)

lemma known_setting_confirmation: "known_setting (confirmation_setting vs)"
  by (auto simp: known_setting_def confirmation_setting_def split: option.splits if_splits)

lemma known_setting_resolve: "known_setting (resolve_path env v path)"
  by (auto simp: known_setting_def resolve_path_def split: option.splits if_splits sum.splits)

lemma known_setting_lines: "known_setting (parse_config_lines ls vs)"
  by (induction ls arbitrary: vs) (simp_all add: known_setting_if known_setting_InvalidConfig Let_def split: option.split prod.split)

lemma known_setting_overrides: "known_setting (overrides_from env ks vs)"
  by (induction ks arbitrary: vs) (simp_all add: known_setting_InvalidConfig split: option.split)

lemmas known_setting_parts = known_setting_timeout known_setting_port known_setting_confirmation known_setting_resolve

lemma known_setting_config: "known_setting (config_from_values env path vs)"
  unfolding config_from_values_def identity_setting_def
  by (intro known_setting_and_then known_setting_required known_setting_parts known_setting_if known_setting_ok_or)
    (simp_all add: ALLOWED_KEYS_def)

lemma known_setting_read:
  "known_setting (fst (read_private_file_if_present os path limit kind w))" "known_setting (fst (read_private_file os path limit kind w))"
proof -
  have kinds: "unavailable kind \<noteq> JblError.MissingSetting k" "permissions kind \<noteq> JblError.MissingSetting k"
    "invalid kind \<noteq> JblError.MissingSetting k" "too_large kind \<noteq> JblError.MissingSetting k" for k
    by (cases kind; simp)+
  have opened: "known_setting (open_error kind e)" for e
    using kinds by (cases e) (auto simp: known_setting_def)
  have mapped: "apfst (map_err (\<lambda>_. invalid kind)) r \<noteq> (Inl (JblError.MissingSetting k), w')"
    for r :: "(_, 'c) result \<times> _" and k w'
    using kinds(3) [of k] by (cases r) (auto simp: map_err_Inl dest: sym)
  show present: "known_setting (fst (read_private_file_if_present os path limit kind w))" for w
    using kinds opened
    by (auto simp: known_setting_def read_private_file_if_present_def validate_metadata_def try_bind_def with_err_def lift_result_def
        mapped split: prod.splits sum.splits if_splits)
  show "known_setting (fst (read_private_file os path limit kind w))"
    using present [of w] kinds kinds [symmetric]
    by (auto simp: known_setting_def read_private_file_def try_bind_def lift_result_def split: prod.splits sum.splits)
qed

lemma known_setting_load: "known_setting (fst (load os env path w))"
proof -
  have read: "known_setting (fst (config_values os source w))" for source
  proof (cases source)
    case (Required p)
    then show ?thesis
      using known_setting_read(2) [of os p MAX_CONFIG_BYTES PrivateFileKind.Config w] known_setting_lines
      by (auto simp: known_setting_def config_values_def try_bind_def lift_result_def parse_config_text_def
          split: prod.splits sum.splits option.splits if_splits)
  next
    case (OptionalDefault p)
    then show ?thesis
      using known_setting_read(1) [of os p MAX_CONFIG_BYTES PrivateFileKind.Config w] known_setting_lines
      by (auto simp: known_setting_def config_values_def try_bind_def lift_result_def parse_config_text_def
          split: prod.splits sum.splits option.splits if_splits)
  qed (simp add: config_values_def try_bind_def lift_result_def)
  show ?thesis
    using read [of "select_config_source path (pe_var_os env ''JBL_AURA_CONFIG'') (automatic_config_path env)"]
      known_setting_overrides known_setting_config
    by (auto simp: known_setting_def load_def load_from_source_def environment_overrides_def try_bind_def lift_result_def
        split: prod.splits sum.splits)
qed

text \<open>
  A failed load is one printable line. Whatever the environment and the configuration file hold, the line the process
  ends with when it cannot load its configuration is its name, a printable text that is fixed but for the name of a
  known setting, and a line end: nothing of what was read appears in it.
\<close>

theorem load_failure_is_one_line:
  assumes "load os env path w = (Inl e, w')"
  shows "concat (failure_line (CliError.Configuration e)) = ''jbl-aura-link-rust: '' @ jbl_error_text e @ [CHR 0x0A] \<and>
    printable_text (jbl_error_text e) \<and> (\<forall>k. e = JblError.MissingSetting k \<longrightarrow> k \<in> set ALLOWED_KEYS)"
proof -
  have "\<forall>k. e = JblError.MissingSetting k \<longrightarrow> k \<in> set ALLOWED_KEYS"
    using known_setting_load [of os env path w] assms by (simp add: known_setting_def)
  then show ?thesis
    using cli_error_text_printable [of "CliError.Configuration e"] by (simp add: failure_line_def)
qed

end
