(* ===== verification/Lan_Client.thy ===== *)
theory Lan_Client
  imports Control Tls Net Config
begin

text \<open>
  The LAN client of the JBL speaker (the first half of \<open>rust/src/client.rs\<close>): its construction, the addresses of
  its requests and the requests themselves. The HTTP library is one operation that makes a request with an agent;
  an agent is the record of the settings it was built with. The exchanges of the theory \<open>Control\<close> run over the
  \<open>lan\<close> that is built here.
\<close>

subsection \<open>Addresses as text\<close>

fun show_hex :: "nat \<Rightarrow> string" where
  "show_hex n = (if n < 16 then [hex_digit_lower n] else show_hex (n div 16) @ [hex_digit_lower (n mod 16)])"

declare show_hex.simps [simp del]

fun colon_hex :: "16 word list \<Rightarrow> string" where
  "colon_hex [] = []"
| "colon_hex [s] = show_hex (unat s)"
| "colon_hex (s # ss) = show_hex (unat s) @ '':'' @ colon_hex ss"

text \<open>The first longest run of zero segments, as its start and length; the run being read is the last pair.\<close>

fun zero_run :: "nat \<Rightarrow> 16 word list \<Rightarrow> nat \<times> nat \<Rightarrow> nat \<times> nat \<Rightarrow> nat \<times> nat" where
  "zero_run i [] longest current = longest"
| "zero_run i (s # ss) longest current =
     (if s = 0 then
        let current = (if snd current = 0 then i else fst current, snd current + 1)
        in zero_run (i + 1) ss (if snd current > snd longest then current else longest) current
      else zero_run (i + 1) ss longest (0, 0))"

definition show_ipv6 :: "Ipv6Addr \<Rightarrow> string" where
  "show_ipv6 a =
     (let ss = segments a in
      if take 6 ss = [0, 0, 0, 0, 0, 0xFFFF] \<and> length ss = 8
      then ''::ffff:'' @ show_ipv4 (Ipv4Addr (unat (ss ! 6) div 256) (unat (ss ! 6) mod 256)
                                             (unat (ss ! 7) div 256) (unat (ss ! 7) mod 256))
      else let (from, n) = zero_run 0 ss (0, 0) (0, 0)
           in if n > 1 then colon_hex (take from ss) @ ''::'' @ colon_hex (drop (from + n) ss) else colon_hex ss)"

text \<open>
  Reading: a number of at most so many digits, an address of four numbers, and groups with an embedded address at
  their end. Each reader returns what it leaves.
\<close>

definition take_digits :: "(char \<Rightarrow> bool) \<Rightarrow> nat \<Rightarrow> string \<Rightarrow> (string \<times> string) option" where
  "take_digits digit most s =
     (let ds = takeWhile digit s
      in if ds = [] \<or> length ds > most then None else Some (ds, dropWhile digit s))"

definition read_octet :: "string \<Rightarrow> (nat \<times> string) option" where
  "read_octet s =
     Option.bind (take_digits is_ascii_digit 3 s) (\<lambda>(ds, rest).
       if hd ds = CHR ''0'' \<and> length ds > 1 \<or> digits_value ds > 255 then None else Some (digits_value ds, rest))"

definition read_char :: "char \<Rightarrow> string \<Rightarrow> string option" where
  "read_char c s = (case s of x # xs \<Rightarrow> if x = c then Some xs else None | [] \<Rightarrow> None)"

definition read_ipv4 :: "string \<Rightarrow> (Ipv4Addr \<times> string) option" where
  "read_ipv4 s =
     Option.bind (read_octet s) (\<lambda>(a, s).
     Option.bind (Option.bind (read_char CHR ''.'' s) read_octet) (\<lambda>(b, s).
     Option.bind (Option.bind (read_char CHR ''.'' s) read_octet) (\<lambda>(c, s).
     Option.bind (Option.bind (read_char CHR ''.'' s) read_octet) (\<lambda>(d, s).
       Some (Ipv4Addr a b c d, s)))))"

definition read_group :: "string \<Rightarrow> (16 word \<times> string) option" where
  "read_group s =
     map_option (\<lambda>(ds, rest). (of_nat (foldl (\<lambda>acc c. 16 * acc + hex_value c) 0 ds), rest))
       (take_digits is_ascii_hexdigit 4 s)"

definition separated :: "nat \<Rightarrow> string \<Rightarrow> string option" where
  "separated i s = (if i = 0 then Some s else read_char CHR '':'' s)"

text \<open>\<open>left\<close> groups may still be read after \<open>i\<close>; the flag tells whether an embedded address ended them.\<close>

fun read_groups :: "nat \<Rightarrow> nat \<Rightarrow> 16 word list \<Rightarrow> string \<Rightarrow> 16 word list \<times> bool \<times> string" where
  "read_groups 0 i acc s = (acc, False, s)"
| "read_groups (Suc left) i acc s =
     (case if left > 0 then Option.bind (separated i s) read_ipv4 else None of
        Some (a, rest) \<Rightarrow>
          (acc @ [of_nat (256 * octet1 a + octet2 a), of_nat (256 * octet3 a + octet4 a)], True, rest)
      | None \<Rightarrow>
          (case Option.bind (separated i s) read_group of
             None \<Rightarrow> (acc, False, s)
           | Some (g, rest) \<Rightarrow> read_groups left (i + 1) (acc @ [g]) rest))"

definition read_ipv6 :: "string \<Rightarrow> (Ipv6Addr \<times> string) option" where
  "read_ipv6 s =
     (let (head, embedded, s) = read_groups 8 0 [] s
      in if length head = 8 then Some (Ipv6Addr head, s)
         else if embedded then None
         else Option.bind (Option.bind (read_char CHR '':'' s) (read_char CHR '':'')) (\<lambda>s.
                let (tail, _, s) = read_groups (8 - (length head + 1)) 0 [] s
                in Some (Ipv6Addr (head @ replicate (8 - length head - length tail) 0 @ tail), s)))"

definition parse_ip :: "string \<Rightarrow> IpAddr option" where
  "parse_ip s =
     (case (case read_ipv4 s of Some (a, rest) \<Rightarrow> Some (IpAddr.V4 a, rest)
            | None \<Rightarrow> map_option (apfst IpAddr.V6) (read_ipv6 s)) of
        Some (a, []) \<Rightarrow> Some a
      | _ \<Rightarrow> None)"

subsection \<open>The client\<close>

record ClientPorts =
  cp_https :: "16 word"
  cp_upnp :: "16 word"

definition JBL_PORTS :: ClientPorts where
  "JBL_PORTS = \<lparr>cp_https = 443, cp_upnp = 59152\<rparr>"

record 'x agent =
  ag_tls_connector :: "'x PinnedOpenSslConnector option"
  ag_proxy_from_env :: bool
  ag_https_only :: bool
  ag_redirects :: nat
  ag_max_idle_connections :: "nat option"
  ag_max_idle_connections_per_host :: "nat option"
  ag_timeout :: duration
  ag_timeout_connect :: duration
  ag_timeout_read :: duration
  ag_timeout_write :: duration

record 'x JblLanClient =
  jc_address :: IpAddr
  jc_https_port :: "16 word"
  jc_upnp_port :: "16 word"
  jc_agent :: "'x agent"
  jc_write_agent :: "'x agent"
  jc_upnp_agent :: "'x agent"

text \<open>The settings the three agents share.\<close>

definition base_agent :: "duration \<Rightarrow> 'x agent" where
  "base_agent timeout =
     \<lparr>ag_tls_connector = None, ag_proxy_from_env = False, ag_https_only = False, ag_redirects = 0,
      ag_max_idle_connections = None, ag_max_idle_connections_per_host = None, ag_timeout = timeout,
      ag_timeout_connect = timeout, ag_timeout_read = timeout, ag_timeout_write = timeout\<rparr>"

definition new_with_ports ::
  "'w file_os \<Rightarrow> ('c, 'k, 'b, 'x) openssl \<Rightarrow> string \<Rightarrow> string \<Rightarrow> string \<Rightarrow> string \<Rightarrow> duration \<Rightarrow> ClientPorts
    \<Rightarrow> ('w, JblError, 'x JblLanClient) fallible" where
  "new_with_ports os ssl address certificate_path private_key_path tls_sha256 timeout ports =
     try_bind (lift_result (ok_or JblError.InvalidAddress (parse_ip address))) (\<lambda>ip.
     try_bind (lift_result (parse_sha256_fingerprint tls_sha256)) (\<lambda>expected_sha256.
     try_bind (build_tls_connector os ssl certificate_path private_key_path expected_sha256) (\<lambda>connector.
       let agent = (base_agent timeout)\<lparr>ag_tls_connector := Some connector, ag_https_only := True\<rparr>
       in lift_result (Inr
            \<lparr>jc_address = ip, jc_https_port = cp_https ports, jc_upnp_port = cp_upnp ports, jc_agent = agent,
             jc_write_agent = agent\<lparr>ag_max_idle_connections := Some 0, ag_max_idle_connections_per_host := Some 0\<rparr>,
             jc_upnp_agent = base_agent timeout\<rparr>))))"

definition lan_client_new where
  "lan_client_new os ssl address certificate_path private_key_path tls_sha256 timeout =
     new_with_ports os ssl address certificate_path private_key_path tls_sha256 timeout JBL_PORTS"

fun url_host :: "IpAddr \<Rightarrow> string" where
  "url_host (IpAddr.V4 a) = show_ipv4 a"
| "url_host (IpAddr.V6 a) = ''['' @ show_ipv6 a @ '']''"

definition https_authority :: "'x JblLanClient \<Rightarrow> string" where
  "https_authority client =
     url_host (jc_address client) @
       (if jc_https_port client = cp_https JBL_PORTS then [] else '':'' @ show_nat (unat (jc_https_port client)))"

definition endpoint :: "'x JblLanClient \<Rightarrow> string \<Rightarrow> string" where
  "endpoint client api = ''https://'' @ https_authority client @ ''/httpapi.asp?command='' @ api"

definition write_endpoint :: "'x JblLanClient \<Rightarrow> string" where
  "write_endpoint client = ''https://'' @ https_authority client @ ''/httpapi.asp''"

definition upnp_endpoint :: "'x JblLanClient \<Rightarrow> string" where
  "upnp_endpoint client =
     ''http://'' @ url_host (jc_address client) @ '':'' @ show_nat (unat (jc_upnp_port client))
       @ ''/upnp/control/rendercontrol1''"

subsection \<open>The requests\<close>

record 'x http_request =
  hr_agent :: "'x agent"
  hr_method :: string
  hr_url :: string
  hr_headers :: "(string \<times> string) list"
  hr_body :: string

definition get_request :: "'x JblLanClient \<Rightarrow> string \<Rightarrow> 'x http_request" where
  "get_request client api =
     \<lparr>hr_agent = jc_agent client, hr_method = ''GET'', hr_url = endpoint client api,
      hr_headers = [(''Accept'', ''application/json''), (''Accept-Encoding'', ''identity'')], hr_body = []\<rparr>"

definition write_request :: "'x JblLanClient \<Rightarrow> string \<Rightarrow> 'x http_request" where
  "write_request client body =
     \<lparr>hr_agent = jc_write_agent client, hr_method = ''POST'', hr_url = write_endpoint client,
      hr_headers = [(''Accept'', ''application/json''), (''Accept-Encoding'', ''identity''),
                    (''Content-Type'', ''application/x-www-form-urlencoded'')], hr_body = body\<rparr>"

abbreviation (input) quote_mark :: string where
  "quote_mark \<equiv> [CHR 0x22]"

definition control_device_info_envelope :: string where
  "control_device_info_envelope =
     ''<?xml version='' @ quote_mark @ ''1.0'' @ quote_mark @ '' encoding='' @ quote_mark @ ''utf-8'' @ quote_mark @ ''?>''
     @ ''<s:Envelope s:encodingStyle='' @ quote_mark @ ''http://schemas.xmlsoap.org/soap/encoding/'' @ quote_mark @ '' ''
     @ ''xmlns:s='' @ quote_mark @ ''http://schemas.xmlsoap.org/soap/envelope/'' @ quote_mark @ ''><s:Body>''
     @ ''<u:GetControlDeviceInfo xmlns:u='' @ quote_mark @ ''urn:schemas-upnp-org:service:RenderingControl:1'' @ quote_mark @ ''>''
     @ ''<InstanceID>0</InstanceID></u:GetControlDeviceInfo></s:Body></s:Envelope>''"

definition model_request :: "'x JblLanClient \<Rightarrow> 'x http_request" where
  "model_request client =
     \<lparr>hr_agent = jc_upnp_agent client, hr_method = ''POST'', hr_url = upnp_endpoint client,
      hr_headers = [(''Content-Type'', ''text/xml;charset='' @ quote_mark @ ''utf-8'' @ quote_mark),
                    (''SOAPAction'', quote_mark @ ''urn:schemas-upnp-org:service:RenderingControl:1#GetControlDeviceInfo''
                       @ quote_mark)],
      hr_body = control_device_info_envelope\<rparr>"

text \<open>The exchanges of the client over the HTTP library and the two readers.\<close>

definition lan_of ::
  "('x http_request \<Rightarrow> 'n \<Rightarrow> http_outcome \<times> 'n) \<Rightarrow> (string \<Rightarrow> Value option) \<Rightarrow> (string \<Rightarrow> string option option)
    \<Rightarrow> 'x JblLanClient \<Rightarrow> 'n lan" where
  "lan_of http from_slice status_text client =
     \<lparr>ln_get = (\<lambda>api. http (get_request client api)), ln_post = (\<lambda>body. http (write_request client body)),
      ln_upnp = http (model_request client), ln_from_slice = from_slice, ln_status_text = status_text\<rparr>"

text \<open>The client of a configuration, and the exchanges over it as the other components receive them.\<close>

definition build_client ::
  "'w file_os \<Rightarrow> ('c, 'k, 'b, 'x) openssl \<Rightarrow> RuntimeConfig \<Rightarrow> ('w, JblError, 'x JblLanClient) fallible" where
  "build_client os ssl config =
     lan_client_new os ssl (rc_address config) (rc_certificate config) (rc_private_key config) (rc_tls_sha256 config)
       (rc_timeout config)"

definition configured_lan ::
  "('x http_request \<Rightarrow> 'w \<Rightarrow> http_outcome \<times> 'w) \<Rightarrow> (string \<Rightarrow> Value option) \<Rightarrow> (string \<Rightarrow> string option option)
    \<Rightarrow> 'w file_os \<Rightarrow> ('c, 'k, 'b, 'x) openssl \<Rightarrow> RuntimeConfig \<Rightarrow> ('w, JblError, 'w lan) fallible" where
  "configured_lan http from_slice status_text os ssl config =
     try_bind (build_client os ssl config) (\<lambda>client. lift_result (Inr (lan_of http from_slice status_text client)))"

subsection \<open>Properties\<close>

text \<open>The HTTP library with a log of the requests it was asked to make.\<close>

definition noting_requests ::
  "('x http_request \<Rightarrow> 'n \<Rightarrow> http_outcome \<times> 'n) \<Rightarrow> 'x http_request \<Rightarrow> 'n \<times> 'x http_request list
    \<Rightarrow> http_outcome \<times> 'n \<times> 'x http_request list" where
  "noting_requests http req s = (case http req (fst s) of (r, n) \<Rightarrow> (r, (n, snd s @ [req])))"

lemma noted: "snd (snd (noting_requests http req s)) = snd s @ [req]"
  by (simp add: noting_requests_def split: prod.splits)

lemma get_json_request:
  "snd (snd (get_json (lan_of (noting_requests http) from_slice status_text client) command s)) =
     snd s @ [get_request client (api_name command)]"
  using noted [of http "get_request client (api_name command)" s]
  by (auto simp: get_json_def lan_of_def split: prod.splits)

lemma verified_model_request:
  "snd (snd (verified_model (lan_of (noting_requests http) from_slice status_text client) model s)) =
     (if model = SUPPORTED_JBL_MODEL then snd s @ [model_request client] else snd s)"
  using noted [of http "model_request client" s]
  by (auto simp: verified_model_def lan_of_def Let_def split: prod.splits)

lemma group_status_request:
  "snd (snd (group_status (lan_of (noting_requests http) from_slice status_text client) j a s)) =
     snd s @ [get_request client (api_name Command.AuraCastGroupInfo)]"
  using get_json_request [of http from_slice status_text client Command.AuraCastGroupInfo s]
  by (auto simp: group_status_def try_bind_def lift_result_def split: prod.splits sum.splits)

text \<open>
  C18: a role write of the JBL is one request to the pinned speaker. A client that could be built has the address and
  the fingerprint that were configured; sending a role command makes exactly one request, a form POST over HTTPS to
  that address, with the agent whose connector is pinned to that fingerprint, that takes no proxy, follows no
  redirect and reuses no connection, so that the library has no connection to retry it on.
\<close>

theorem role_write_is_one_pinned_request:
  assumes "lan_client_new os ssl address certificate private_key fingerprint timeout w = (Inr client, w')"
  shows "\<exists>ip bytes req. parse_ip address = Some ip \<and> parse_sha256_fingerprint fingerprint = Inr bytes \<and>
    snd (snd (send_play_together (lan_of (noting_requests http) from_slice status_text client) command (n, []))) = [req] \<and>
    hr_method req = ''POST'' \<and> hr_url req = ''https://'' @ url_host ip @ ''/httpapi.asp'' \<and> hr_body req = form_body command \<and>
    map_option poc_expected_sha256 (ag_tls_connector (hr_agent req)) = Some bytes \<and> ag_https_only (hr_agent req) \<and>
    \<not> ag_proxy_from_env (hr_agent req) \<and> ag_redirects (hr_agent req) = 0 \<and>
    ag_max_idle_connections (hr_agent req) = Some 0 \<and> ag_max_idle_connections_per_host (hr_agent req) = Some 0"
proof -
  obtain ip bytes connector w1 where ip: "parse_ip address = Some ip" and bytes: "parse_sha256_fingerprint fingerprint = Inr bytes"
    and c: "build_tls_connector os ssl certificate private_key bytes w = (Inr connector, w1)"
    and client: "jc_address client = ip" "jc_https_port client = 443"
      "jc_write_agent client = (base_agent timeout)\<lparr>ag_tls_connector := Some connector, ag_https_only := True,
         ag_max_idle_connections := Some 0, ag_max_idle_connections_per_host := Some 0\<rparr>"
    using assms
    by (auto simp: lan_client_new_def new_with_ports_def try_bind_Inr lift_result_def ok_or_Inr JBL_PORTS_def Let_def)
  have "poc_expected_sha256 connector = bytes"
    using c by (auto simp: build_tls_connector_def try_bind_Inr lift_result_def and_then_Inr)
  moreover have "snd (snd (send_play_together (lan_of (noting_requests http) from_slice status_text client) command (n, []))) =
      [write_request client (form_body command)]"
    using noted [of http "write_request client (form_body command)" "(n, [])"]
    by (auto simp: send_play_together_def send_control_form_def lan_of_def Let_def split: prod.splits)
  ultimately show ?thesis
    using ip bytes client
    by (simp add: write_request_def write_endpoint_def https_authority_def JBL_PORTS_def base_agent_def)
qed

definition credential_os :: "unit file_os" where
  "credential_os =
     \<lparr>fo_geteuid = (\<lambda>_. 1000), fo_openat2_no_symlinks = (\<lambda>path w. (Inr (if path = ''/c'' then 3 else 4), w)),
      fo_fstat = (\<lambda>_ w. (Inr \<lparr>st_uid = 1000, st_mode = 0x8180, st_size = 60, st_nlink = 1\<rparr>, w)),
      fo_read_up_to = (\<lambda>fd k w. (Inr (if fd = 3 then CERTIFICATE_BEGIN @ CERTIFICATE_END
                                    else PRIVATE_KEY_BEGIN @ PRIVATE_KEY_END), w))\<rparr>"

definition accepting_ssl :: "(string, string, unit, unit) openssl" where
  "accepting_ssl =
     \<lparr>ol_x509_from_pem = Some, ol_private_key_from_pem = Some, ol_builder = Some (), ol_set_certificate = (\<lambda>_ _. Some ()),
      ol_set_private_key = (\<lambda>_ _. Some ()), ol_check_private_key = (\<lambda>_. True), ol_build = (\<lambda>_. ())\<rparr>"

lemma example_client:
  "\<exists>client. lan_client_new credential_os accepting_ssl ''192.0.2.10'' ''/c'' ''/k'' (replicate 64 CHR ''0'') 5 () = (Inr client, ())"
proof -
  have ip: "parse_ip ''192.0.2.10'' = Some (IpAddr.V4 (Ipv4Addr 192 0 2 10))"
    by (simp add: parse_ip_def read_ipv4_def read_octet_def take_digits_def read_char_def is_ascii_digit_def
        digits_value_def Let_def)
  obtain bytes where bytes: "parse_sha256_fingerprint (replicate 64 CHR ''0'') = Inr bytes"
    by (simp add: parse_sha256_fingerprint_def fingerprint_separator_def is_ascii_hexdigit_def is_ascii_digit_def
        list_all_iff Let_def)
  have block: "pem_block (b @ e) b e = Inr (b @ e)" if "b \<noteq> []" "e \<noteq> []" for b e
    using that by (cases b; cases e) (simp_all add: pem_block_def find_bytes_def starts_with_def)
  have read: "read_private_file credential_os path MAX_CREDENTIAL_BYTES kind () =
      (Inr (if path = ''/c'' then CERTIFICATE_BEGIN @ CERTIFICATE_END else PRIVATE_KEY_BEGIN @ PRIVATE_KEY_END), ())"
    if "path \<in> {''/c'', ''/k''}" for path kind
    using that
    by (auto simp: read_private_file_def read_private_file_if_present_def open_private_def c_string_def credential_os_def
        try_bind_def lift_result_def with_err_def validate_metadata_def S_IFMT_def S_IFREG_def MAX_CREDENTIAL_BYTES_def
        CERTIFICATE_BEGIN_def CERTIFICATE_END_def PRIVATE_KEY_BEGIN_def PRIVATE_KEY_END_def)
  have "\<exists>c. build_tls_connector credential_os accepting_ssl ''/c'' ''/k'' bytes () = (Inr c, ())"
    using read [of "''/c''" PrivateFileKind.Certificate] read [of "''/k''" PrivateFileKind.PrivateKey]
      block [of CERTIFICATE_BEGIN CERTIFICATE_END] block [of PRIVATE_KEY_BEGIN PRIVATE_KEY_END]
    by (simp add: build_tls_connector_def try_bind_def lift_result_def configured_builder_def accepting_ssl_def
        CERTIFICATE_BEGIN_def CERTIFICATE_END_def PRIVATE_KEY_BEGIN_def PRIVATE_KEY_END_def)
  with ip bytes show ?thesis
    by (auto simp: lan_client_new_def new_with_ports_def try_bind_def lift_result_def Let_def)
qed

theorem role_write_is_one_pinned_request_witness:
  "\<exists>client :: unit JblLanClient. \<exists>req.
     snd (snd (send_play_together (lan_of (noting_requests (\<lambda>_ n. (Response 500 None, n))) (\<lambda>_. None) (\<lambda>_. None) client)
       PlayTogetherCommand.Enter ((), []))) = [req] \<and> hr_method req = ''POST'' \<and> ag_redirects (hr_agent req) = 0"
proof -
  obtain client where c: "lan_client_new credential_os accepting_ssl ''192.0.2.10'' ''/c'' ''/k'' (replicate 64 CHR ''0'') 5 ()
      = (Inr client, ())"
    using example_client by blast
  from role_write_is_one_pinned_request [OF c, of "\<lambda>_ n. (Response 500 None, n)" "\<lambda>_. None" "\<lambda>_. None"
      PlayTogetherCommand.Enter "()"] show ?thesis
    by blast
qed

text \<open>
  The speaker is authenticated before it is asked. Reading the pair configuration makes a prefix of three
  requests in this order: the device information over the pinned agent, the model over the plain one, the group over
  the pinned one; the plain request is only made when the pinned one before it was answered by a device, and a
  configuration is only returned after all three.
\<close>

theorem configuration_requests_in_order:
  assumes "pair_configuration_status (lan_of (noting_requests http) from_slice status_text client) model j a (n, []) =
    (r, (n', log))"
  shows "\<exists>k \<in> {1, 2, 3}. log = take k [get_request client ''getDeviceInfo'', model_request client,
      get_request client ''getAuraCastGroupInfo''] \<and>
    (is_ok r \<longrightarrow> k = 3) \<and>
    (k > 1 \<longrightarrow> (\<exists>v s. get_json (lan_of (noting_requests http) from_slice status_text client) Command.DeviceInfo (n, []) = (Inr v, s) \<and>
       is_ok (parse_device_info v)))"
proof -
  let ?lan = "lan_of (noting_requests http) from_slice status_text client"
  let ?all = "[get_request client ''getDeviceInfo'', model_request client, get_request client ''getAuraCastGroupInfo'']"
  obtain d n1 l1 where d: "get_json ?lan Command.DeviceInfo (n, []) = (d, (n1, l1))"
    by (metis prod.exhaust)
  have l1: "l1 = [get_request client ''getDeviceInfo'']"
    using get_json_request [of http from_slice status_text client Command.DeviceInfo "(n, [])"] d by simp
  show ?thesis
  proof (cases "\<exists>v i. d = Inr v \<and> parse_device_info v = Inr i")
    case False
    then have "log = take 1 ?all" "\<not> is_ok r"
      using assms d l1
      by (auto simp: pair_configuration_status_def try_bind_def lift_result_def split: sum.splits)
    then show ?thesis
      by (intro bexI [of _ 1]) auto
  next
    case True
    then obtain v i where v: "d = Inr v" "parse_device_info v = Inr i"
      by blast
    obtain m n2 l2 where m: "verified_model ?lan model (n1, l1) = (m, (n2, l2))"
      by (metis prod.exhaust)
    have l2: "l2 = (if model = SUPPORTED_JBL_MODEL then take 2 ?all else l1)"
      using verified_model_request [of http from_slice status_text client model "(n1, l1)"] m l1 by simp
    obtain gr n3 l3 where gr: "group_status ?lan j a (n2, l2) = (gr, (n3, l3))"
      by (metis prod.exhaust)
    have l3: "l3 = l2 @ [get_request client ''getAuraCastGroupInfo'']"
      using group_status_request [of http from_slice status_text client j a "(n2, l2)"] gr by simp
    have res: "(r, (n', log)) = (case m of Inl e \<Rightarrow> (Inl e, (n2, l2)) | Inr _ \<Rightarrow> (gr, (n3, l3)))"
      using assms d v m gr by (cases m) (simp_all add: pair_configuration_status_def try_bind_def lift_result_def)
    have supported: "is_ok m \<Longrightarrow> model = SUPPORTED_JBL_MODEL"
      using m by (auto simp: verified_model_def split: if_splits)
    show ?thesis
    proof (cases m)
      case (Inl e)
      then show ?thesis
        using res l1 l2 d v by (intro bexI [of _ "if model = SUPPORTED_JBL_MODEL then 2 else 1"]) auto
    next
      case (Inr x)
      then show ?thesis
        using res l1 l2 l3 d v supported by (intro bexI [of _ 3]) auto
    qed
  qed
qed

theorem configuration_requests_in_order_witness:
  "\<exists>client :: unit JblLanClient. \<exists>k \<in> {1, 2, 3}.
     snd (snd (pair_configuration_status (lan_of (noting_requests (\<lambda>_ n. (Response 500 None, n))) (\<lambda>_. None) (\<lambda>_. None) client)
       SUPPORTED_JBL_MODEL example_jbl example_aura ((), []))) =
     take k [get_request client ''getDeviceInfo'', model_request client, get_request client ''getAuraCastGroupInfo'']"
proof -
  obtain client where "lan_client_new credential_os accepting_ssl ''192.0.2.10'' ''/c'' ''/k'' (replicate 64 CHR ''0'') 5 ()
      = (Inr client, ())"
    using example_client by blast
  let ?p = "pair_configuration_status (lan_of (noting_requests (\<lambda>_ n. (Response 500 None, n))) (\<lambda>_. None) (\<lambda>_. None) client)
      SUPPORTED_JBL_MODEL example_jbl example_aura ((), [])"
  obtain r log where p: "?p = (r, ((), log))"
    by (cases ?p) auto
  from configuration_requests_in_order [OF p] obtain k where "k \<in> {1, 2, 3}"
      "log = take k [get_request client ''getDeviceInfo'', model_request client, get_request client ''getAuraCastGroupInfo'']"
    by blast
  with p show ?thesis
    by (intro exI [of _ client] bexI [of _ k]) simp_all
qed

end
