(* ===== verification/Names.thy ===== *)
theory Names
  imports Local_Client
begin

text \<open>
  The names the web boundary writes and the local client reads: each table of the client has exactly the
  values of the service's enumeration, one by one.
\<close>

text \<open>The value of the client's enumeration that has the name the service writes.\<close>

definition named :: "(string \<times> 'b) list \<Rightarrow> ('a \<Rightarrow> string) \<Rightarrow> 'a \<Rightarrow> 'b" where
  "named names name x = the (map_of names (name x))"

abbreviation "local_backend \<equiv> named backend_names backend_name"
abbreviation "local_configuration \<equiv> named pair_configuration_names pair_configuration_name"
abbreviation "local_member_name \<equiv> named pair_member_name_names member_name"
abbreviation "local_verification \<equiv> named pair_member_verification_names member_verification_name"
abbreviation "local_channel \<equiv> named pair_member_channel_names member_channel_name"
abbreviation "local_managed \<equiv> named managed_state_names managed_state_name"
abbreviation "local_lifecycle \<equiv> named lifecycle_names lifecycle_name"
abbreviation "local_level \<equiv> named health_level_names health_level_name"
abbreviation "local_transport \<equiv> named aura_transport_names aura_transport_name"
abbreviation "local_route \<equiv> named aura_acquisition_route_names acquisition_route_name"
abbreviation "local_action \<equiv> named action_name_names action_name"
abbreviation "local_outcome \<equiv> named action_outcome_names outcome_name"
abbreviation "local_evidence \<equiv> named action_evidence_names evidence_name"
abbreviation "local_failure \<equiv> named failure_names failure_name"

lemmas name_tables = backend_names_def pair_configuration_names_def pair_member_name_names_def
  pair_member_verification_names_def pair_member_channel_names_def managed_state_names_def
  lifecycle_names_def health_level_names_def aura_transport_names_def aura_acquisition_route_names_def
  action_name_names_def action_outcome_names_def action_evidence_names_def failure_names_def

definition faithful_names :: "(string \<times> 'b) list \<Rightarrow> ('a \<Rightarrow> string) \<Rightarrow> bool" where
  "faithful_names names name \<longleftrightarrow>
     (\<forall>x. map_of names (name x) = Some (named names name x)) \<and> inj (named names name) \<and> surj (named names name)"

lemma faithful_namesI:
  assumes "\<And>x. x \<in> set xs" and k: "map name xs = map fst names" and "distinct (map fst names)"
    and d: "distinct (map snd names)" and s: "\<And>y. y \<in> set (map snd names)"
  shows "faithful_names names name"
proof -
  have "map (\<lambda>x. map_of names (name x)) xs = map (map_of names) (map name xs)"
    by simp
  also have "\<dots> = map (\<lambda>h. Some (snd h)) names"
    unfolding k using assms(3) by (simp add: map_of_eq_Some_iff)
  finally have m: "map (\<lambda>x. map_of names (name x)) xs = map (\<lambda>h. Some (snd h)) names" .
  have named: "map (\<lambda>x. named names name x) xs = map snd names"
    using arg_cong [OF m, of "map the"] by (simp add: named_def comp_def)
  have some: "map_of names (name x) = Some (named names name x)" for x
  proof -
    have "map_of names (name x) \<in> set (map (\<lambda>h. Some (snd h)) names)"
      using assms(1) unfolding m [symmetric] by simp
    then show ?thesis
      by (auto simp: named_def)
  qed
  have "inj_on (named names name) (set xs)"
    using d unfolding named [symmetric] by (simp add: distinct_map)
  moreover have "set xs = UNIV"
    using assms(1) by blast
  moreover have "surj (named names name)"
    using s unfolding named [symmetric] by (fastforce simp: image_iff)
  ultimately show ?thesis
    using some by (simp add: faithful_names_def)
qed

lemma faithful_backend_name: "faithful_names backend_names backend_name"
proof (rule faithful_namesI)
  let ?all = "[PairBackendKind.LegacyV04WholePair, PairBackendKind.NativePair]"
  show "x \<in> set ?all" for x
    by (cases x) simp_all
  show "map backend_name ?all = map fst backend_names" and "distinct (map fst backend_names)"
    by (simp_all add: backend_names_def)
  show "distinct (map snd backend_names)"
    by (simp add: backend_names_def)
  show "y \<in> set (map snd backend_names)" for y
    unfolding backend_names_def list.map snd_conv by (cases y) simp_all
qed

lemma faithful_pair_configuration_name: "faithful_names pair_configuration_names pair_configuration_name"
proof (rule faithful_namesI)
  let ?all = "[PairConfigurationState.Ready, PairConfigurationState.NotReady, PairConfigurationState.Unavailable]"
  show "x \<in> set ?all" for x
    by (cases x) simp_all
  show "map pair_configuration_name ?all = map fst pair_configuration_names" and "distinct (map fst pair_configuration_names)"
    by (simp_all add: pair_configuration_names_def)
  show "distinct (map snd pair_configuration_names)"
    by (simp add: pair_configuration_names_def)
  show "y \<in> set (map snd pair_configuration_names)" for y
    unfolding pair_configuration_names_def list.map snd_conv by (cases y) simp_all
qed

lemma faithful_member_name: "faithful_names pair_member_name_names member_name"
proof (rule faithful_namesI)
  let ?all = "[PairMemberName.JblAuthentics300, PairMemberName.AuraStudio5]"
  show "x \<in> set ?all" for x
    by (cases x) simp_all
  show "map member_name ?all = map fst pair_member_name_names" and "distinct (map fst pair_member_name_names)"
    by (simp_all add: pair_member_name_names_def)
  show "distinct (map snd pair_member_name_names)"
    by (simp add: pair_member_name_names_def)
  show "y \<in> set (map snd pair_member_name_names)" for y
    unfolding pair_member_name_names_def list.map snd_conv by (cases y) simp_all
qed

lemma faithful_member_verification_name: "faithful_names pair_member_verification_names member_verification_name"
proof (rule faithful_namesI)
  let ?all = "[PairMemberVerification.Verified, PairMemberVerification.NotVerified,
       PairMemberVerification.Unavailable]"
  show "x \<in> set ?all" for x
    by (cases x) simp_all
  show "map member_verification_name ?all = map fst pair_member_verification_names" and "distinct (map fst pair_member_verification_names)"
    by (simp_all add: pair_member_verification_names_def)
  show "distinct (map snd pair_member_verification_names)"
    by (simp add: pair_member_verification_names_def)
  show "y \<in> set (map snd pair_member_verification_names)" for y
    unfolding pair_member_verification_names_def list.map snd_conv by (cases y) simp_all
qed

lemma faithful_member_channel_name: "faithful_names pair_member_channel_names member_channel_name"
proof (rule faithful_namesI)
  let ?all = "[PairMemberChannel.FrontLeft, PairMemberChannel.FrontRight, PairMemberChannel.Left,
       PairMemberChannel.Right, PairMemberChannel.Mono, PairMemberChannel.Stereo,
       PairMemberChannel.Unknown]"
  show "x \<in> set ?all" for x
    by (cases x) simp_all
  show "map member_channel_name ?all = map fst pair_member_channel_names" and "distinct (map fst pair_member_channel_names)"
    by (simp_all add: pair_member_channel_names_def)
  show "distinct (map snd pair_member_channel_names)"
    by (simp add: pair_member_channel_names_def)
  show "y \<in> set (map snd pair_member_channel_names)" for y
    unfolding pair_member_channel_names_def list.map snd_conv by (cases y) simp_all
qed

lemma faithful_managed_state_name: "faithful_names managed_state_names managed_state_name"
proof (rule faithful_namesI)
  let ?all = "[ManagedLiveState.Unknown, ManagedLiveState.Offline, ManagedLiveState.Ready,
       ManagedLiveState.Linking, ManagedLiveState.Linked, ManagedLiveState.Unlinking,
       ManagedLiveState.Recovering, ManagedLiveState.Degraded, ManagedLiveState.ShuttingDown]"
  show "x \<in> set ?all" for x
    by (cases x) simp_all
  show "map managed_state_name ?all = map fst managed_state_names" and "distinct (map fst managed_state_names)"
    by (simp_all add: managed_state_names_def)
  show "distinct (map snd managed_state_names)"
    by (simp add: managed_state_names_def)
  show "y \<in> set (map snd managed_state_names)" for y
    unfolding managed_state_names_def list.map snd_conv by (cases y) simp_all
qed

lemma faithful_lifecycle_name: "faithful_names lifecycle_names lifecycle_name"
proof (rule faithful_namesI)
  let ?all = "[PairLifecycle.Offline, PairLifecycle.Initializing, PairLifecycle.Connecting, PairLifecycle.Ready,
       PairLifecycle.Linking, PairLifecycle.Linked, PairLifecycle.Unlinking, PairLifecycle.Degraded,
       PairLifecycle.Recovering, PairLifecycle.ShuttingDown, PairLifecycle.Failed]"
  show "x \<in> set ?all" for x
    by (cases x) simp_all
  show "map lifecycle_name ?all = map fst lifecycle_names" and "distinct (map fst lifecycle_names)"
    by (simp_all add: lifecycle_names_def)
  show "distinct (map snd lifecycle_names)"
    by (simp add: lifecycle_names_def)
  show "y \<in> set (map snd lifecycle_names)" for y
    unfolding lifecycle_names_def list.map snd_conv by (cases y) simp_all
qed

lemma faithful_health_level_name: "faithful_names health_level_names health_level_name"
proof (rule faithful_namesI)
  let ?all = "[PairHealthLevel.Healthy, PairHealthLevel.Transitioning, PairHealthLevel.Degraded,
       PairHealthLevel.Unavailable]"
  show "x \<in> set ?all" for x
    by (cases x) simp_all
  show "map health_level_name ?all = map fst health_level_names" and "distinct (map fst health_level_names)"
    by (simp_all add: health_level_names_def)
  show "distinct (map snd health_level_names)"
    by (simp add: health_level_names_def)
  show "y \<in> set (map snd health_level_names)" for y
    unfolding health_level_names_def list.map snd_conv by (cases y) simp_all
qed

lemma faithful_aura_transport_name: "faithful_names aura_transport_names aura_transport_name"
proof (rule faithful_namesI)
  let ?all = "[AuraControlTransport.Le, AuraControlTransport.BrEdr, AuraControlTransport.Unresolved,
       AuraControlTransport.Unknown]"
  show "x \<in> set ?all" for x
    by (cases x) simp_all
  show "map aura_transport_name ?all = map fst aura_transport_names" and "distinct (map fst aura_transport_names)"
    by (simp_all add: aura_transport_names_def)
  show "distinct (map snd aura_transport_names)"
    by (simp add: aura_transport_names_def)
  show "y \<in> set (map snd aura_transport_names)" for y
    unfolding aura_transport_names_def list.map snd_conv by (cases y) simp_all
qed

lemma faithful_acquisition_route_name: "faithful_names aura_acquisition_route_names acquisition_route_name"
proof (rule faithful_namesI)
  let ?all = "[AuraAcquisitionRoute.StableDirect, AuraAcquisitionRoute.A2dpWakeThenStable,
       AuraAcquisitionRoute.FreshLe, AuraAcquisitionRoute.Unresolved]"
  show "x \<in> set ?all" for x
    by (cases x) simp_all
  show "map acquisition_route_name ?all = map fst aura_acquisition_route_names" and "distinct (map fst aura_acquisition_route_names)"
    by (simp_all add: aura_acquisition_route_names_def)
  show "distinct (map snd aura_acquisition_route_names)"
    by (simp add: aura_acquisition_route_names_def)
  show "y \<in> set (map snd aura_acquisition_route_names)" for y
    unfolding aura_acquisition_route_names_def list.map snd_conv by (cases y) simp_all
qed

lemma faithful_action_name: "faithful_names action_name_names action_name"
proof (rule faithful_namesI)
  let ?all = "[ControllerAction.Start, ControllerAction.Stop, ControllerAction.Shutdown,
       ControllerAction.RecoverStop]"
  show "x \<in> set ?all" for x
    by (cases x) simp_all
  show "map action_name ?all = map fst action_name_names" and "distinct (map fst action_name_names)"
    by (simp_all add: action_name_names_def)
  show "distinct (map snd action_name_names)"
    by (simp add: action_name_names_def)
  show "y \<in> set (map snd action_name_names)" for y
    unfolding action_name_names_def list.map snd_conv by (cases y) simp_all
qed

lemma faithful_outcome_name: "faithful_names action_outcome_names outcome_name"
proof (rule faithful_namesI)
  let ?all = "[ControllerActionOutcome.Accepted, ControllerActionOutcome.AcceptedUnconfirmed,
       ControllerActionOutcome.Idempotent, ControllerActionOutcome.RejectedBeforeSend,
       ControllerActionOutcome.OutcomeUnknown, ControllerActionOutcome.PostconditionFailed]"
  show "x \<in> set ?all" for x
    by (cases x) simp_all
  show "map outcome_name ?all = map fst action_outcome_names" and "distinct (map fst action_outcome_names)"
    by (simp_all add: action_outcome_names_def)
  show "distinct (map snd action_outcome_names)"
    by (simp add: action_outcome_names_def)
  show "y \<in> set (map snd action_outcome_names)" for y
    unfolding action_outcome_names_def list.map snd_conv by (cases y) simp_all
qed

lemma faithful_evidence_name: "faithful_names action_evidence_names evidence_name"
proof (rule faithful_namesI)
  let ?all = "[PairBackendEvidence.LocalSessionState, PairBackendEvidence.LifecycleAcknowledgement,
       PairBackendEvidence.BroadcastAcknowledgementOnly,
       PairBackendEvidence.BroadcastBusinessNotification]"
  show "x \<in> set ?all" for x
    by (cases x) simp_all
  show "map evidence_name ?all = map fst action_evidence_names" and "distinct (map fst action_evidence_names)"
    by (simp_all add: action_evidence_names_def)
  show "distinct (map snd action_evidence_names)"
    by (simp add: action_evidence_names_def)
  show "y \<in> set (map snd action_evidence_names)" for y
    unfolding action_evidence_names_def list.map snd_conv by (cases y) simp_all
qed

lemma distinct_failure_names: "distinct (map fst failure_names)"
  by (simp add: failure_names_def)

lemma all_failure_names: "y \<in> set (map snd failure_names)"
  unfolding failure_names_def list.map snd_conv by (cases y) simp_all

lemma faithful_failure_name: "faithful_names failure_names failure_name"
proof (rule faithful_namesI)
  let ?all = "[ControllerFailure.PairConfigurationUnavailable, ControllerFailure.ExpectedPairNotConfigured,
       ControllerFailure.BackendRejectedBeforeSend, ControllerFailure.AuraAdapterUnavailable,
       ControllerFailure.AuraDiscoveryUnavailable, ControllerFailure.AuraVerifiedAdvertisementNotFound,
       ControllerFailure.AuraDeviceConnectionFailed, ControllerFailure.AuraWakeProfileConnectFailed,
       ControllerFailure.AuraWakeFddfTimedOut, ControllerFailure.AuraWakeFddfInvalid,
       ControllerFailure.AuraWakeFddfUnavailable, ControllerFailure.AuraWakeProfileReleaseFailed,
       ControllerFailure.AuraGattProfileInvalid, ControllerFailure.AuraNotificationSetupFailed,
       ControllerFailure.AuraWriteUnknown, ControllerFailure.AuraAckTimeout,
       ControllerFailure.AuraAckChannelClosed, ControllerFailure.AuraUnexpectedAck,
       ControllerFailure.JblEnterOutcomeUnknown, ControllerFailure.JblExitOutcomeUnknown,
       ControllerFailure.JblBroadcastResultTimedOut, ControllerFailure.JblBroadcastResultUnavailable,
       ControllerFailure.JblBroadcastResultRejected, ControllerFailure.AuraStartOutcomeUnknown,
       ControllerFailure.BackendOutcomeUnknown, ControllerFailure.UnexpectedBackendLifecycle,
       ControllerFailure.MembershipPostconditionFailed, ControllerFailure.UnresolvedPriorAction,
       ControllerFailure.RecoveryNotAllowed, ControllerFailure.JournalUnavailable,
       ControllerFailure.JournalCommitFailed]"
  show "x \<in> set ?all" for x
    by (cases x) simp_all
  show "map failure_name ?all = map fst failure_names"
    by (simp add: failure_names_def)
  show "distinct (map snd failure_names)"
    by (simp add: failure_names_def)
qed (rule distinct_failure_names all_failure_names)+

lemma read_named [simp]: "faithful_names names name \<Longrightarrow> read_enum names (JString (name x)) = Some (named names name x)"
  by (simp add: read_enum_def enum_tag_def faithful_names_def)

lemmas faithful = faithful_backend_name faithful_pair_configuration_name faithful_member_name
  faithful_member_verification_name faithful_member_channel_name faithful_managed_state_name
  faithful_lifecycle_name faithful_health_level_name faithful_aura_transport_name
  faithful_acquisition_route_name faithful_action_name faithful_outcome_name faithful_evidence_name
  faithful_failure_name

end
