(* ===== verification/Exchange.thy ===== *)
theory Exchange
  imports Service Names
begin

text \<open>
  The local client and the web boundary together: the reading of the written bodies and responses, and whole
  exchanges over a loopback stream.
\<close>

subsection \<open>Bodies\<close>

definition local_member :: "PairMemberStatus \<Rightarrow> LocalPairMember" where
  "local_member m =
     \<lparr>lpm_name = local_member_name (pms_name m), lpm_verification = local_verification (pms_verification m),
      lpm_channels = map local_channel (pms_channels m)\<rparr>"

definition local_health :: "PairHealth \<Rightarrow> LocalHealth" where
  "local_health h =
     \<lparr>lh_lifecycle = local_lifecycle (ph_lifecycle h), lh_level = local_level (ph_level h),
      lh_reported_error = ph_reported_error h, lh_aura_transport = local_transport (ph_aura_transport h),
      lh_aura_acquisition_route = local_route (ph_aura_acquisition_route h)\<rparr>"

definition local_last_action :: "LastActionStatus \<Rightarrow> LocalLastAction" where
  "local_last_action a =
     \<lparr>lla_action = local_action (las_action a), lla_outcome = local_outcome (las_outcome a),
      lla_evidence = map_option local_evidence (las_evidence a),
      lla_failure = map_option local_failure (las_failure a), lla_revision = las_revision a,
      lla_age_ms = las_age_ms a\<rparr>"

definition local_status :: "ControllerStatus \<Rightarrow> LocalStatus" where
  "local_status s =
     \<lparr>ls_backend = local_backend (cs_backend s),
      ls_pair_configuration = local_configuration (cs_pair_configuration s),
      ls_members = map_prod local_member local_member (cs_members s),
      ls_managed_state = local_managed (cs_managed_state s),
      ls_backend_health = map_option local_health (cs_backend_health s),
      ls_unresolved_action = cs_unresolved_action s,
      ls_consecutive_failures = cs_consecutive_failures s, ls_revision = cs_revision s,
      ls_last_action = map_option local_last_action (cs_last_action s)\<rparr>"

definition local_result :: "ControllerActionResult \<Rightarrow> LocalActionResult" where
  "local_result r =
     \<lparr>lar_action = local_action (car_action r), lar_outcome = local_outcome (car_outcome r),
      lar_managed_state = local_managed (car_managed_state r),
      lar_evidence = map_option local_evidence (car_evidence r),
      lar_failure = map_option local_failure (car_failure r), lar_revision = car_revision r\<rparr>"

lemma read_u64_json [simp]: "read_u64 (json_u64 n) = Some n"
  using unsigned_less [of n, where ?'a = nat] by (simp add: read_u64_def read_unsigned_def json_u64_def)

lemma read_u8_json [simp]: "read_u8 (JNumber (PosInt (unat n))) = Some n"
  using unsigned_less [of n, where ?'a = nat] by (simp add: read_u8_def read_unsigned_def)

lemma read_option_at:
  assumes "map_of m k = Some (json_opt g x)" and "\<And>y. f (g y) = Some (h y)" and "\<And>y. g y \<noteq> Null"
  shows "read_option m k f = Some (map_option h x)"
proof (cases x)
  case None
  then show ?thesis
    using assms(1) by (simp add: read_option_def json_opt_def)
next
  case (Some y)
  then show ?thesis
    using assms(1) assms(2,3) [of y] by (cases "g y") (simp_all add: read_option_def json_opt_def)
qed

lemma struct_fields_object:
  "struct_fields names (JObject m) =
     (if distinct (map fst m) \<and> list_all (\<lambda>k. k \<in> set names) (map fst m) then Some m else None)"
  by (simp add: struct_fields_def)

lemma those_map_Some [simp]: "those (map (\<lambda>x. Some (f x)) xs) = Some (map f xs)"
  by (induction xs) simp_all

lemma read_member_body: "read_member (member_body m) = Some (local_member m)"
  by (simp add: read_member_def member_body_def struct_fields_object read_field_def faithful local_member_def comp_def)

lemma read_health_body: "read_health (health_body h) = Some (local_health h)"
  by (simp add: read_health_def health_body_def struct_fields_object read_field_def faithful local_health_def)

lemma read_evidence:
  "map_of m k = Some (json_opt (\<lambda>e. JString (evidence_name e)) x) \<Longrightarrow>
     read_option m k (read_enum action_evidence_names) = Some (map_option local_evidence x)"
  by (erule read_option_at) (simp_all add: faithful)

lemma read_failure:
  "map_of m k = Some (json_opt (\<lambda>e. JString (failure_name e)) x) \<Longrightarrow>
     read_option m k (read_enum failure_names) = Some (map_option local_failure x)"
  by (erule read_option_at) (simp_all add: faithful)

lemma read_last_action_body: "read_last_action (last_action_body a) = Some (local_last_action a)"
  by (simp add: read_last_action_def last_action_body_def struct_fields_object read_field_def faithful
      read_evidence [where x = "las_evidence a"] read_failure [where x = "las_failure a"] local_last_action_def)

lemma read_action_body: "read_action_result (action_body r) = Some (local_result r)"
  by (simp add: read_action_result_def action_body_def struct_fields_object read_field_def faithful
      read_evidence [where x = "car_evidence r"] read_failure [where x = "car_failure r"] local_result_def)

lemma read_status_body: "read_status (status_body s) = Some (local_status s)"
proof -
  have health: "map_of m k = Some (json_opt health_body (cs_backend_health s)) \<Longrightarrow>
      read_option m k read_health = Some (map_option local_health (cs_backend_health s))" for m k
    by (erule read_option_at) (simp add: read_health_body, simp add: health_body_def)
  have last: "map_of m k = Some (json_opt last_action_body (cs_last_action s)) \<Longrightarrow>
      read_option m k read_last_action = Some (map_option local_last_action (cs_last_action s))" for m k
    by (erule read_option_at) (simp add: read_last_action_body, simp add: last_action_body_def)
  have members: "read_members (JArray [member_body a, member_body b]) = Some (local_member a, local_member b)" for a b
    by (simp add: read_members_def read_member_body)
  show ?thesis
    by (simp add: read_status_def status_body_def struct_fields_object read_field_def faithful health last members
        local_status_def map_prod_def split_beta)
qed

subsection \<open>Responses\<close>

lemma byte_ascii_lower: "byte (ascii_lower c) = (if is_ascii_uppercase c then byte c + 32 else byte c)"
  by (simp add: ascii_lower_def is_ascii_uppercase_def of_char_of)

lemma tchar_lower: "is_tchar c \<Longrightarrow> is_tchar (ascii_lower c)"
proof (cases "is_ascii_uppercase c")
  case True
  then have "is_ascii_lowercase (ascii_lower c)"
    by (auto simp: is_ascii_lowercase_def byte_ascii_lower) (simp_all add: is_ascii_uppercase_def)
  then show ?thesis
    by (simp add: is_tchar_def is_ascii_alphanumeric_def)
qed (simp add: ascii_lower_def)

lemma valid_header_name_tchar: "valid_header_name n \<longleftrightarrow> n \<noteq> [] \<and> list_all is_tchar n"
  by (simp add: valid_header_name_def is_tchar_def [abs_def])

lemma plain_header_valid:
  assumes "plain_header h"
  shows "valid_header_name (to_ascii_lowercase (fst h))" "valid_header_value (snd h)"
  using assms tchar_lower
  by (auto simp: plain_header_def plain_value_def valid_header_name_tchar valid_header_value_def printable_def
      to_ascii_lowercase_def list_all_iff)

lemma response_headers_written:
  assumes "list_all plain_header hs" and "count + length hs \<le> Local_Client.MAX_HEADER_COUNT"
    and "distinct (map (\<lambda>h. to_ascii_lowercase (fst h)) hs @ map fst headers)"
  shows "response_headers count (map header_line hs) headers =
    Inr (rev (map (apfst to_ascii_lowercase) hs) @ headers)"
  using assms
proof (induction hs arbitrary: count headers)
  case (Cons h hs)
  have h: "plain_header h"
    using Cons.prems by simp
  define n where "n = to_ascii_lowercase (fst h)"
  have "map_of headers n = None"
    using Cons.prems(3) by (simp add: n_def map_of_eq_None_iff)
  then have "response_headers count (map header_line (h # hs)) headers =
      response_headers (Suc count) (map header_line hs) ((n, snd h) # headers)"
    using header_line_sel [OF h] plain_header_valid [OF h] h Cons.prems(2)
    by (simp add: Let_def trim_matches_blank plain_header_def plain_value_def n_def)
  also have "\<dots> = Inr (rev (map (apfst to_ascii_lowercase) hs) @ (n, snd h) # headers)"
    using Cons.prems by (intro Cons.IH) (auto simp: n_def)
  finally show ?case
    by (simp add: apfst_def map_prod_def n_def case_prod_unfold)
qed simp

lemma join_crlf_concat:
  "join_crlf (l # ls) @ CRLF = l @ CRLF @ concat (map (\<lambda>h. h @ CRLF) ls)"
  by (induction ls arbitrary: l) auto

lemma concat_header_lines: "concat (map (\<lambda>(name, v). name @ '': '' @ v @ CRLF) hs) = concat (map (\<lambda>h. h @ CRLF) (map header_line hs))"
  by (induction hs) (auto simp: header_line_def)

definition status_line :: "nat \<Rightarrow> string" where
  "status_line code = ''HTTP/1.1 '' @ show_nat code @ '' '' @ reason_phrase code"

lemma to_http1_bytes_join:
  "to_http1_bytes r = join_crlf (status_line (hr_status r) # map header_line (hr_headers r)) @ HEAD_END @ hr_body r"
proof -
  have "join_crlf (status_line (hr_status r) # map header_line (hr_headers r)) @ HEAD_END @ hr_body r =
      (join_crlf (status_line (hr_status r) # map header_line (hr_headers r)) @ CRLF) @ CRLF @ hr_body r"
    by (simp add: HEAD_END_def)
  also have "\<dots> = to_http1_bytes r"
    unfolding join_crlf_concat to_http1_bytes_def concat_header_lines status_line_def append.assoc ..
  finally show ?thesis by simp
qed

lemma show_nat_length: "0 < k \<Longrightarrow> n < 10 ^ k \<Longrightarrow> length (show_nat n) \<le> k"
proof (induction n arbitrary: k rule: show_nat.induct)
  case (1 n)
  show ?case
  proof (cases "n < 10")
    case True
    with 1 show ?thesis by (simp add: show_nat.simps [of n])
  next
    case False
    with 1(3) obtain j where j: "k = Suc j" "0 < j"
      by (cases k; cases "k - 1") auto
    then have "n div 10 < 10 ^ j"
      using 1(3) by (simp add: div_less_iff_less_mult mult.commute)
    then show ?thesis
      using 1(1) [OF False j(2)] False j by (simp add: show_nat.simps [of n])
  qed
qed

lemma digits_printable: "list_all is_ascii_digit s \<Longrightarrow> list_all printable s \<and> CHR '' '' \<notin> set s"
  by (auto simp: list_all_iff is_ascii_digit_iff printable_def)

lemma show_nat_printable: "list_all printable (show_nat n)" "CHR '' '' \<notin> set (show_nat n)"
  using digits_printable show_nat_sel by blast+

lemma reason_phrase_printable: "list_all printable (reason_phrase code)"
  by (simp add: reason_phrase_def printable_def)

lemma status_line_read:
  assumes "100 \<le> code" and "code < 1000"
  shows "parse_status_line (status_line code) = Inr code"
proof -
  have "length (show_nat code) \<le> 3"
    using assms show_nat_length [of 3 code] by simp
  moreover have "\<not> length (show_nat code) \<le> 2"
  proof
    assume "length (show_nat code) \<le> 2"
    have bound: "list_all is_ascii_digit s \<Longrightarrow> digits_value s < 10 ^ length s" for s
    proof (induction s rule: rev_induct)
      case (snoc c s)
      then have "byte c - 48 < 10"
        by (auto simp: is_ascii_digit_iff)
      with snoc show ?case
        by (simp add: digits_value_append)
    qed simp
    have "code < 10 ^ length (show_nat code)"
      using bound [of "show_nat code"] show_nat_sel [of code] by simp
    also have "\<dots> \<le> (10 :: nat) ^ 2"
      using \<open>length (show_nat code) \<le> 2\<close> by (intro power_increasing) simp_all
    finally show False
      using assms by simp
  qed
  ultimately have len: "length (show_nat code) = 3"
    by simp
  have "split_once CHR '' '' (status_line code) = Some (''HTTP/1.1'', show_nat code @ CHR '' '' # reason_phrase code)"
    using split_once_append [of "CHR '' ''" "''HTTP/1.1''"] by (simp add: status_line_def)
  moreover have "split_once CHR '' '' (show_nat code @ CHR '' '' # reason_phrase code) = Some (show_nat code, reason_phrase code)"
    by (rule split_once_append) (rule show_nat_printable)
  ultimately show ?thesis
    using len show_nat_sel [of code] assms parse_unsigned_show [of code 65535]
    by (simp add: parse_status_line_def)
qed

lemma parse_response_written:
  assumes code: "100 \<le> hr_status r" "hr_status r < 1000"
    and hs: "list_all plain_header (hr_headers r)" "length (hr_headers r) \<le> Local_Client.MAX_HEADER_COUNT"
      "distinct (map (\<lambda>h. to_ascii_lowercase (fst h)) (hr_headers r))"
    and size: "length (join_crlf (status_line (hr_status r) # map header_line (hr_headers r)))
      \<le> Local_Client.MAX_HEADER_BYTES"
  shows "parse_response (to_http1_bytes r) =
    finish_response (hr_status r) (rev (map (apfst to_ascii_lowercase) (hr_headers r))) (hr_body r)"
proof -
  define sl where "sl = status_line (hr_status r)"
  define head where "head = join_crlf (sl # map header_line (hr_headers r))"
  have "list_all printable sl" and sl: "sl \<noteq> []"
    using show_nat_printable reason_phrase_printable by (simp_all add: sl_def status_line_def printable_def)
  then have printable: "list_all (list_all printable) (sl # map header_line (hr_headers r))"
    using hs(1) header_line_printable by (auto simp: list_all_iff)
  then have lines: "list_all (\<lambda>l. l \<noteq> [] \<and> CHR 0x0D \<notin> set l) (sl # map header_line (hr_headers r))"
    using printable_no_cr hs(1) header_line_sel(1) sl by (auto simp: list_all_iff)
  then have find: "find_subslice (head @ HEAD_END @ hr_body r) HEAD_END = Some (length head)"
    unfolding head_def by (intro find_head_end) simp_all
  have bytes: "list_all head_byte head"
    unfolding head_def using printable by (rule printable_head_bytes)
  have split: "split_crlf head = sl # map header_line (hr_headers r)"
    unfolding head_def by (rule split_crlf_join) (use lines in \<open>auto simp: list_all_iff\<close>)
  have rest: "drop (length head + 4) (head @ HEAD_END @ hr_body r) = hr_body r"
    by (simp add: HEAD_END_def CRLF_def)
  have headers: "response_headers 0 (map header_line (hr_headers r)) [] =
      Inr (rev (map (apfst to_ascii_lowercase) (hr_headers r)))"
    using response_headers_written [of "hr_headers r" 0 "[]"] hs by simp
  have line: "parse_status_line sl = Inr (hr_status r)"
    unfolding sl_def using code by (rule status_line_read)
  have "utf8_valid head" "\<not> Local_Client.MAX_HEADER_BYTES < length head"
    using bytes head_bytes_utf8 size by (simp_all add: head_def sl_def)
  then show ?thesis
    unfolding to_http1_bytes_join using find split rest headers line bytes
    by (simp add: parse_response_def Let_def and_then_def flip: sl_def head_def)
qed

lemma plain_valueI:
  assumes "list_all printable v" and "v \<noteq> []" and "hd v \<notin> blanks" and "last v \<notin> blanks"
  shows "plain_value v"
proof -
  have "dropWhile (\<lambda>c. c \<in> blanks) v = v"
    using assms(2,3) by (cases v) auto
  moreover have "dropWhile (\<lambda>c. c \<in> blanks) (rev v) = rev v"
    using assms(2,4) by (cases "rev v") (auto simp: hd_rev [symmetric])
  ultimately show ?thesis
    using assms(1) by (simp add: plain_value_def trim_matches_def)
qed

lemma digit_not_blank: "is_ascii_digit c \<Longrightarrow> c \<notin> blanks"
  by (auto simp: is_ascii_digit_iff)

lemma plain_show_nat: "plain_value (show_nat n)"
  using show_nat_sel [of n] show_nat_printable digit_not_blank
  by (intro plain_valueI) (auto simp: list_all_iff)

lemma plain_etag: "plain_value (etag r)"
  using show_nat_printable by (intro plain_valueI) (auto simp: etag_def quoted_def printable_def)

lemmas char_eval = is_tchar_def is_ascii_alphanumeric_def is_ascii_digit_def is_ascii_uppercase_def
  is_ascii_lowercase_def printable_def

lemmas lower_eval = to_ascii_lowercase_def ascii_lower_def is_ascii_uppercase_def char_of_def bit_iff_odd

definition base_names :: "string list" where
  "base_names =
     [''content-type'', ''content-length'', ''connection'', ''cache-control'', ''pragma'',
      ''x-content-type-options'', ''referrer-policy'', ''content-security-policy'', ''x-frame-options'']"

definition base_headers :: "string \<Rightarrow> nat \<Rightarrow> string option \<Rightarrow> (string \<times> string) list" where
  "base_headers content_type n nonce = hr_headers (response 200 content_type (replicate n CHR ''x'') nonce [])"

lemma response_headers_eq:
  "hr_headers (response code content_type body nonce extra) = base_headers content_type (length body) nonce @ extra"
  by (simp add: response_def base_headers_def)

lemma base_headers_names:
  "map (\<lambda>h. to_ascii_lowercase (fst h)) (base_headers content_type n nonce) = base_names"
  by (simp add: base_headers_def response_def base_names_def lower_eval)

lemma base_headers_plain:
  assumes "plain_value content_type" and "plain_value (csp nonce)"
  shows "list_all plain_header (base_headers content_type n nonce)"
proof -
  have "list_all (\<lambda>h. fst h \<noteq> [] \<and> list_all is_tchar (fst h)) (base_headers content_type n nonce)"
    by (simp add: base_headers_def response_def char_eval)
  moreover have "list_all (\<lambda>h. plain_value (snd h)) (base_headers content_type n nonce)"
    using assms plain_show_nat
    by (simp add: base_headers_def response_def) (simp add: plain_value_def trim_matches_def printable_def)
  ultimately show ?thesis
    by (auto simp: plain_header_def list_all_iff)
qed

lemma csp_None_plain: "plain_value (csp None)"
  by (simp add: csp_def plain_value_def trim_matches_def printable_def)

lemma length_join_crlf: "length (join_crlf (l # ls)) = length l + (\<Sum>x \<leftarrow> ls. length x + 2)"
  by (induction ls arbitrary: l) (auto simp: CRLF_def)

definition headers_size :: "(string \<times> string) list \<Rightarrow> nat" where
  "headers_size hs = (\<Sum>h \<leftarrow> hs. length (fst h) + length (snd h) + 4)"

lemma length_head: "length (join_crlf (l # map header_line hs)) = length l + headers_size hs"
  unfolding length_join_crlf headers_size_def by (induction hs) (simp_all add: header_line_def)

lemma base_headers_size:
  assumes "n \<le> Local_Client.MAX_RESPONSE_BYTES"
  shows "headers_size (base_headers content_type n nonce) \<le> 300 + length content_type + length (csp nonce)"
proof -
  have "length (show_nat n) \<le> 5"
    using assms by (intro show_nat_length) (simp_all add: MAX_RESPONSE_BYTES_def)
  then show ?thesis
    by (simp add: headers_size_def base_headers_def response_def)
qed

abbreviation lowered :: "(string \<times> string) list \<Rightarrow> (string \<times> string) list" where
  "lowered hs \<equiv> map (apfst to_ascii_lowercase) hs"

lemma fst_lowered: "map fst (lowered hs) = map (\<lambda>h. to_ascii_lowercase (fst h)) hs"
  by simp

lemma map_of_rev_lowered:
  assumes "distinct (map (\<lambda>h. to_ascii_lowercase (fst h)) hs)"
  shows "map_of (rev (lowered hs)) k = map_of (lowered hs) k"
proof -
  have "distinct (map fst (lowered hs))" "distinct (map fst (rev (lowered hs)))"
    using assms unfolding rev_map [symmetric] fst_lowered distinct_rev by simp_all
  then have "map_of (rev (lowered hs)) = map_of (lowered hs)"
    by (simp only: map_of_inject_set set_rev)
  then show ?thesis by simp
qed

lemma lookup_base:
  "map_of (lowered (base_headers content_type n nonce)) ''content-length'' = Some (show_nat n)"
  by (simp add: base_headers_def response_def lower_eval)

lemma lookup_extra: "k \<notin> set base_names \<Longrightarrow> map_of (lowered (base_headers content_type n nonce @ extra)) k = map_of (lowered extra) k"
proof -
  assume "k \<notin> set base_names"
  then have "map_of (lowered (base_headers content_type n nonce)) k = None"
    unfolding map_of_eq_None_iff set_map [symmetric] fst_lowered base_headers_names .
  then show ?thesis
    by (simp add: map_add_def split: option.splits)
qed

lemma response_read:
  assumes code: "100 \<le> code" "code < 1000" and plain: "plain_value content_type" "plain_value (csp nonce)"
    "list_all plain_header extra" and d: "distinct (base_names @ map (\<lambda>h. to_ascii_lowercase (fst h)) extra)"
    and te: "''transfer-encoding'' \<notin> set (map (\<lambda>h. to_ascii_lowercase (fst h)) extra)"
    and size: "length extra \<le> 50" "length body \<le> Local_Client.MAX_RESPONSE_BYTES"
      "length content_type + length (csp nonce) + headers_size extra \<le> 8000"
  shows "parse_response (to_http1_bytes (response code content_type body nonce extra)) =
    Inr \<lparr>lr_status = code, lr_headers = rev (lowered (base_headers content_type (length body) nonce @ extra)), lr_body = body\<rparr>"
proof -
  define hs where "hs = base_headers content_type (length body) nonce @ extra"
  let ?r = "response code content_type body nonce extra"
  have sel: "hr_status ?r = code" "hr_headers ?r = hs" "hr_body ?r = body"
    by (simp add: response_def, simp add: response_headers_eq hs_def, simp add: response_def)
  have names: "distinct (map (\<lambda>h. to_ascii_lowercase (fst h)) hs)"
    using d base_headers_names by (simp add: hs_def)
  have "length (base_headers content_type (length body) nonce) = 9"
    by (simp add: base_headers_def response_def)
  then have count: "length hs \<le> Local_Client.MAX_HEADER_COUNT"
    using size by (simp add: hs_def MAX_HEADER_COUNT_def)
  have "length (show_nat code) \<le> 3"
    using code by (intro show_nat_length) simp_all
  moreover have "length (reason_phrase code) \<le> 30"
    by (simp add: reason_phrase_def)
  ultimately have "length (status_line code) + headers_size hs \<le> Local_Client.MAX_HEADER_BYTES"
    using base_headers_size [OF size(2), of content_type nonce] size(3)
    by (simp add: status_line_def hs_def headers_size_def MAX_HEADER_BYTES_def)
  then have "parse_response (to_http1_bytes ?r) = finish_response code (rev (lowered hs)) body"
    using parse_response_written [of ?r] code names count plain base_headers_plain
    unfolding sel length_head by (simp add: hs_def)
  moreover have "map_of (rev (lowered hs)) ''content-length'' = Some (show_nat (length body))"
    unfolding map_of_rev_lowered [OF names] by (simp add: hs_def lookup_base map_add_def)
  moreover have "map_of (rev (lowered hs)) ''transfer-encoding'' = None"
    unfolding map_of_rev_lowered [OF names] using te unfolding hs_def
    by (subst lookup_extra) (simp_all add: base_names_def map_of_eq_None_iff image_image)
  ultimately show ?thesis
    using size(2) parse_unsigned_show [of "length body" "2 ^ 64 - 1"]
    by (simp add: finish_response_def hs_def MAX_RESPONSE_BYTES_def)
qed

lemma plain_json_type: "plain_value ''application/json; charset=utf-8''" "plain_value ''text/html; charset=utf-8''"
  by (simp_all add: plain_value_def trim_matches_def printable_def)

lemma etag_length: "length (etag r) \<le> 22"
proof -
  have "unat r < 10 ^ 20"
    using unsigned_less [of r, where ?'a = nat] by simp
  then show ?thesis
    using show_nat_length [of 20 "unat r"] by (simp add: etag_def quoted_def)
qed

lemma json_response_read:
  assumes "100 \<le> code" and "code < 1000" and "length (to_vec body) \<le> Local_Client.MAX_RESPONSE_BYTES"
  obtains hs where "parse_response (to_http1_bytes (json_response to_vec code body revision)) =
      Inr \<lparr>lr_status = code, lr_headers = hs, lr_body = to_vec body\<rparr>"
    and "map_of hs ''etag'' = map_option etag revision"
proof -
  define extra where "extra = (case revision of None \<Rightarrow> [] | Some r \<Rightarrow> [(''ETag'', etag r)])"
  define hs where "hs = base_headers ''application/json; charset=utf-8'' (length (to_vec body)) None @ extra"
  have r: "json_response to_vec code body revision =
      response code ''application/json; charset=utf-8'' (to_vec body) None extra"
    by (simp add: json_response_def extra_def etag_def split: option.split)
  have names: "map (\<lambda>h. to_ascii_lowercase (fst h)) extra = (case revision of None \<Rightarrow> [] | Some _ \<Rightarrow> [''etag''])"
    by (simp add: extra_def lower_eval split: option.split)
  have plain: "list_all plain_header extra"
    using plain_etag by (simp add: extra_def plain_header_def char_eval split: option.split)
  have d: "distinct (base_names @ map (\<lambda>h. to_ascii_lowercase (fst h)) extra)"
    unfolding names by (simp add: base_names_def split: option.split)
  have "headers_size extra \<le> 50" "length extra \<le> 50"
    using etag_length [of "the revision"] by (cases revision; simp add: extra_def headers_size_def)+
  moreover have "length (csp None) \<le> 200"
    by (simp add: csp_def)
  moreover have "''transfer-encoding'' \<notin> set (map (\<lambda>h. to_ascii_lowercase (fst h)) extra)"
    unfolding names by (simp split: option.split)
  ultimately have "parse_response (to_http1_bytes (json_response to_vec code body revision)) =
      Inr \<lparr>lr_status = code, lr_headers = rev (lowered hs), lr_body = to_vec body\<rparr>"
    unfolding r hs_def using assms plain d plain_json_type csp_None_plain by (intro response_read) simp_all
  moreover have "map_of (rev (lowered hs)) ''etag'' = map_option etag revision"
  proof -
    have "distinct (map (\<lambda>h. to_ascii_lowercase (fst h)) hs)"
      using d by (simp add: hs_def base_headers_names)
    then have "map_of (rev (lowered hs)) ''etag'' = map_of (lowered extra) ''etag''"
      unfolding hs_def by (simp only: map_of_rev_lowered) (rule lookup_extra, simp add: base_names_def)
    also have "\<dots> = map_option etag revision"
      by (simp add: extra_def lower_eval split: option.split)
    finally show ?thesis .
  qed
  ultimately show ?thesis
    using that by blast
qed

text \<open>The token of the service: sixty-four lower case hexadecimal digits.\<close>

definition hex_token :: "string \<Rightarrow> bool" where
  "hex_token t \<longleftrightarrow> length t = 64 \<and> list_all (\<lambda>c. is_ascii_hexdigit c \<and> \<not> is_ascii_uppercase c) t"

lemma hex_token_sel:
  assumes "hex_token t"
  shows "list_all printable t" "CHR '';'' \<notin> set t" "CHR ''='' \<notin> set t" "t \<noteq> []" "hd t \<notin> blanks" "last t \<notin> blanks"
proof -
  have c: "printable c" "c \<noteq> CHR '';''" "c \<noteq> CHR ''=''" "c \<notin> blanks" if "is_ascii_hexdigit c" for c
    using that unfolding is_ascii_hexdigit_def is_ascii_digit_def printable_def by auto
  have t: "\<And>c. c \<in> set t \<Longrightarrow> is_ascii_hexdigit c" and ne: "t \<noteq> []"
    using assms by (auto simp: hex_token_def list_all_iff)
  show "t \<noteq> []"
    by (rule ne)
  show "list_all printable t"
    using t c(1) by (simp add: list_all_iff)
  show "CHR '';'' \<notin> set t" "CHR ''='' \<notin> set t"
    using t c(2,3) by metis+
  show "hd t \<notin> blanks" "last t \<notin> blanks"
    using t c(4) hd_in_set [OF ne] last_in_set [OF ne] by metis+
qed

lemma web_security_token:
  assumes "web_security_new bind csrf = Inr security" and "length csrf = 32"
  shows "hex_token (ws_csrf_token security)"
proof -
  have digit: "is_ascii_hexdigit (hex_digit_lower n) \<and> \<not> is_ascii_uppercase (hex_digit_lower n)" if "n < 16" for n
    using that by (drule_tac less_16_cases) (elim insertE emptyE;
        simp add: is_ascii_hexdigit_def is_ascii_digit_def is_ascii_uppercase_def hex_digit_lower_def)
  have "unat b div 16 < 16" for b :: "8 word"
    using unsigned_less [of b, where ?'a = nat] by (simp add: div_less_iff_less_mult)
  then have two: "list_all (\<lambda>c. is_ascii_hexdigit c \<and> \<not> is_ascii_uppercase c) (hex2_lower b)" "length (hex2_lower b) = 2" for b
    using digit by (simp_all add: hex2_lower_def)
  have "length (concat (map hex2_lower bs)) = 2 * length bs
      \<and> list_all (\<lambda>c. is_ascii_hexdigit c \<and> \<not> is_ascii_uppercase c) (concat (map hex2_lower bs))" for bs
    using two by (induction bs) simp_all
  moreover have "ws_csrf_token security = concat (map hex2_lower csrf)"
    using assms(1) by (auto simp: web_security_new_def split: if_splits)
  ultimately show ?thesis
    using assms(2) by (simp add: hex_token_def)
qed

lemma page_length: "length PAGE_HTML = 2825"
  by code_simp

lemma csp_nonce_plain:
  assumes "hex_token t"
  shows "plain_value (csp (Some t))" "length (csp (Some t)) \<le> 300"
proof -
  show "plain_value (csp (Some t))"
    using hex_token_sel(1) [OF assms] by (intro plain_valueI) (simp_all add: csp_def printable_def)
  show "length (csp (Some t)) \<le> 300"
    using assms by (simp add: csp_def hex_token_def)
qed

lemma cookie_value_plain:
  assumes "hex_token t"
  shows "plain_value (Web.CSRF_COOKIE @ ''='' @ t @ ''; Path=/; SameSite=Strict'')"
    "length (Web.CSRF_COOKIE @ ''='' @ t @ ''; Path=/; SameSite=Strict'') \<le> 110"
proof -
  show "plain_value (Web.CSRF_COOKIE @ ''='' @ t @ ''; Path=/; SameSite=Strict'')"
    using hex_token_sel(1) [OF assms] by (intro plain_valueI) (simp_all add: Web.CSRF_COOKIE_def printable_def)
  show "length (Web.CSRF_COOKIE @ ''='' @ t @ ''; Path=/; SameSite=Strict'') \<le> 110"
    using assms by (simp add: Web.CSRF_COOKIE_def hex_token_def)
qed

lemma page_response_read:
  assumes token: "hex_token (ws_csrf_token security)"
  obtains hs body where "parse_response (to_http1_bytes (page_response security)) =
      Inr \<lparr>lr_status = 200, lr_headers = hs, lr_body = body\<rparr>"
    and "check_cookie \<lparr>lr_status = 200, lr_headers = hs, lr_body = body\<rparr> = Inr (ws_csrf_token security)"
proof -
  define t where "t = ws_csrf_token security"
  define cookie where "cookie = Web.CSRF_COOKIE @ ''='' @ t @ ''; Path=/; SameSite=Strict''"
  define body where "body = str_replace PAGE_HTML ''__CSP_NONCE__'' t"
  define hs where "hs = base_headers ''text/html; charset=utf-8'' (length body) (Some t) @ [(''Set-Cookie'', cookie)]"
  have len: "length body \<le> 5 * 2825"
    using length_str_replace [of t 5 "''__CSP_NONCE__''" PAGE_HTML] token
    by (simp add: body_def page_length t_def hex_token_def)
  have names: "map (\<lambda>h. to_ascii_lowercase (fst h)) [(''Set-Cookie'', cookie)] = [''set-cookie'']"
    by (simp add: lower_eval)
  have d: "distinct (base_names @ [''set-cookie''])"
    by (simp add: base_names_def)
  have plain: "list_all plain_header [(''Set-Cookie'', cookie)]"
    using cookie_value_plain [OF token] by (simp add: plain_header_def cookie_def t_def char_eval)
  have "parse_response (to_http1_bytes (response 200 ''text/html; charset=utf-8'' body (Some t) [(''Set-Cookie'', cookie)])) =
      Inr \<lparr>lr_status = 200, lr_headers = rev (lowered hs), lr_body = body\<rparr>"
    unfolding hs_def
  proof (rule response_read)
    show "length ''text/html; charset=utf-8'' + length (csp (Some t)) + headers_size [(''Set-Cookie'', cookie)] \<le> 8000"
      using csp_nonce_plain(2) [OF token] cookie_value_plain(2) [OF token] by (simp add: headers_size_def cookie_def t_def)
  qed (use plain d names len plain_json_type csp_nonce_plain [OF token] in
      \<open>simp_all add: t_def MAX_RESPONSE_BYTES_def base_names_def\<close>)
  moreover have "page_response security = response 200 ''text/html; charset=utf-8'' body (Some t) [(''Set-Cookie'', cookie)]"
    by (simp add: page_response_def body_def t_def cookie_def)
  moreover have "map_of (rev (lowered hs)) ''set-cookie'' = Some cookie"
  proof -
    have "distinct (map (\<lambda>h. to_ascii_lowercase (fst h)) hs)"
      using d names by (simp add: hs_def base_headers_names)
    then have "map_of (rev (lowered hs)) ''set-cookie'' = map_of (lowered [(''Set-Cookie'', cookie)]) ''set-cookie''"
      unfolding hs_def by (simp only: map_of_rev_lowered) (rule lookup_extra, simp add: base_names_def)
    then show ?thesis
      by (simp add: lower_eval)
  qed
  moreover have "split_char CHR '';'' cookie = (Web.CSRF_COOKIE @ ''='' @ t) # split_char CHR '';'' '' Path=/; SameSite=Strict''"
    using split_char_append [of "CHR '';''" "Web.CSRF_COOKIE @ ''='' @ t" "'' Path=/; SameSite=Strict''"]
      hex_token_sel(2) [OF token] by (simp add: cookie_def t_def Web.CSRF_COOKIE_def)
  moreover have "split_once CHR ''='' (Web.CSRF_COOKIE @ ''='' @ t) = Some (Web.CSRF_COOKIE, t)"
    using split_once_append [of "CHR ''=''" Web.CSRF_COOKIE t] by (simp add: Web.CSRF_COOKIE_def)
  ultimately show ?thesis
    using that [of "rev (lowered hs)" body] token
    by (simp add: check_cookie_def t_def hex_token_def CSRF_COOKIE_def Web.CSRF_COOKIE_def)
qed

subsection \<open>Requests\<close>

text \<open>The headers a client request carries, in the order it writes them.\<close>

definition client_headers :: "LocalServiceClient \<Rightarrow> nat \<Rightarrow> (string \<times> string) list" where
  "client_headers client n =
     [(''Host'', authority client), (''Accept'', ''application/json''), (''Accept-Encoding'', ''identity''),
      (''Connection'', ''close''), (''Content-Length'', show_nat n)]"

lemma request_text_written:
  assumes "list_all (\<lambda>h. valid_header_name (fst h) \<and> valid_header_value (snd h)) headers"
  shows "request_text client m path headers body =
    Inr (written_request m path (client_headers client (length body) @ headers) body)"
proof -
  have c: "concat (map header_text hs) = concat (map (\<lambda>h. h @ CRLF) (map header_line hs))" for hs
    by (induction hs) (simp_all add: header_text_def header_line_def)
  have "written_request m path hs body =
      (join_crlf ((m @ '' '' @ path @ '' HTTP/1.1'') # map header_line hs) @ CRLF) @ CRLF @ body" for hs
    by (simp add: written_request_def HEAD_END_def)
  then have w: "written_request m path hs body =
      (m @ '' '' @ path @ '' HTTP/1.1'') @ CRLF @ concat (map header_text hs) @ CRLF @ body" for hs
    unfolding join_crlf_concat c by simp
  show ?thesis
    using assms unfolding w request_text_def by (simp add: client_headers_def header_text_def)
qed

lemma authority_plain: "plain_value (authority client)" "length (authority client) \<le> 15"
proof -
  have "unat (sa_port (lsc_address client)) < 10 ^ 5"
    using unsigned_less [of "sa_port (lsc_address client)", where ?'a = nat] by simp
  then have "length (show_nat (unat (sa_port (lsc_address client)))) \<le> 5"
    by (intro show_nat_length) simp_all
  then show "length (authority client) \<le> 15"
    by (simp add: authority_def)
  have "last (show_nat n) \<notin> blanks" for n
    using show_nat_sel [of n] digit_not_blank by (auto simp: list_all_iff)
  then show "plain_value (authority client)"
    using show_nat_printable show_nat_sel [of "unat (sa_port (lsc_address client))"]
    by (intro plain_valueI) (auto simp: authority_def printable_def)
qed

lemma authority_read:
  assumes "sa_port (lsc_address client) \<noteq> 0"
  shows "authority_parse (authority client) (sa_port (lsc_address client)) =
    Some \<lparr>la_host = AuthorityHost.Ipv4Loopback, la_effective_port = sa_port (lsc_address client)\<rparr>"
proof -
  define p where "p = sa_port (lsc_address client)"
  have p: "unat p \<le> 65535" "unat p \<noteq> 0"
    using unsigned_less [of p, where ?'a = nat] assms by (simp_all add: p_def unsigned_eq_0_iff)
  have port: "parse_port (show_nat (unat p)) = Some p"
    using p show_nat_canonical by (simp add: parse_port_def parse_unsigned_show)
  have colon: "CHR '':'' \<notin> set (show_nat n)" and white: "\<not> list_ex is_ascii_whitespace (show_nat n)" for n
    using show_nat_sel [of n] by (auto simp: list_all_iff list_ex_iff is_ascii_digit_iff is_ascii_whitespace_def)
  have "rsplit_once CHR '':'' (''127.0.0.1'' @ CHR '':'' # show_nat (unat p)) = Some (''127.0.0.1'', show_nat (unat p))"
    by (rule rsplit_once_append) (rule colon)
  moreover have "strip_prefix (''127.0.0.1'' @ s) ''['' = None" for s
    by (simp add: strip_prefix_def starts_with_def)
  moreover have "\<not> eq_ignore_ascii_case ''127.0.0.1'' ''localhost''"
    by (simp add: eq_ignore_ascii_case_def lower_eval)
  ultimately have "authority_parts (''127.0.0.1'' @ CHR '':'' # show_nat (unat p)) =
      Some (AuthorityHost.Ipv4Loopback, Some p)"
    using port by (simp add: authority_parts_def)
  then show ?thesis
    using white by (simp add: authority_parse_def authority_def p_def is_ascii_whitespace_def)
qed

lemma origin_read:
  assumes "sa_port (lsc_address client) \<noteq> 0"
  shows "origin_is_same (origin client)
    \<lparr>la_host = AuthorityHost.Ipv4Loopback, la_effective_port = sa_port (lsc_address client)\<rparr>"
proof -
  have "\<not> list_ex (\<lambda>c. c \<in> set ''/?#@'') (authority client)"
    using show_nat_sel [of "unat (sa_port (lsc_address client))"]
    by (auto simp: authority_def list_ex_iff list_all_iff is_ascii_digit_iff)
  moreover have "strip_prefix (origin client) ''http://'' = Some (authority client)"
    by (simp add: origin_def strip_prefix_Some)
  ultimately show ?thesis
    using authority_read [OF assms] by (simp add: origin_is_same_def)
qed

lemma origin_plain: "plain_value (origin client)" "length (origin client) \<le> 22"
proof -
  have "authority client \<noteq> []"
    by (simp add: authority_def)
  moreover have "last (authority client) \<notin> blanks"
    using show_nat_sel [of "unat (sa_port (lsc_address client))"] digit_not_blank
    by (auto simp: authority_def list_all_iff)
  ultimately show "plain_value (origin client)"
    using authority_plain(1) by (intro plain_valueI) (auto simp: origin_def printable_def plain_value_def)
  show "length (origin client) \<le> 22"
    using authority_plain(2) by (simp add: origin_def)
qed

lemma cookie_read:
  assumes "hex_token t"
  shows "csrf_cookie_value (CSRF_COOKIE @ ''='' @ t) = Some t"
proof -
  have "split_char CHR '';'' (CSRF_COOKIE @ ''='' @ t) = [CSRF_COOKIE @ ''='' @ t]"
    using hex_token_sel(2) [OF assms] by (intro split_char_none) (simp add: CSRF_COOKIE_def)
  moreover have "plain_value (CSRF_COOKIE @ ''='' @ t)"
    using hex_token_sel [OF assms] by (intro plain_valueI) (simp_all add: CSRF_COOKIE_def printable_def)
  moreover have "split_once CHR ''='' (CSRF_COOKIE @ ''='' @ t) = Some (CSRF_COOKIE, t)"
    using split_once_append [of "CHR ''=''" CSRF_COOKIE t] by (simp add: CSRF_COOKIE_def)
  ultimately show ?thesis
    using hex_token_sel(4) [OF assms]
    by (simp add: csrf_cookie_value_def plain_value_def Web.CSRF_COOKIE_def CSRF_COOKIE_def)
qed

definition read_headers :: "LocalServiceClient \<Rightarrow> nat \<Rightarrow> (string \<times> string) list \<Rightarrow> (string \<times> string) list" where
  "read_headers client n headers = rev (lowered headers) @
     [(''content-length'', show_nat n), (''connection'', ''close''), (''accept-encoding'', ''identity''),
      (''accept'', ''application/json''), (''host'', authority client)]"

lemma rev_lowered_client: "rev (lowered (client_headers client n @ headers)) = read_headers client n headers"
  by (simp add: client_headers_def read_headers_def lower_eval)

lemma lookup_fixed:
  assumes "k \<notin> set (map (\<lambda>h. to_ascii_lowercase (fst h)) headers)"
  shows "map_of (read_headers client n headers) k = map_of (read_headers client n []) k"
proof -
  have "map_of (rev (lowered headers)) k = None"
    using assms unfolding map_of_eq_None_iff set_map [symmetric] rev_map [symmetric] set_rev fst_lowered .
  then show ?thesis
    unfolding read_headers_def by (simp add: map_add_def split: option.split)
qed

lemma client_headers_plain: "list_all plain_header (client_headers client n)"
proof -
  have "list_all (\<lambda>h. fst h \<noteq> [] \<and> list_all is_tchar (fst h)) (client_headers client n)"
    by (simp add: client_headers_def char_eval)
  moreover have "list_all (\<lambda>h. plain_value (snd h)) (client_headers client n)"
    using authority_plain plain_show_nat
    by (simp add: client_headers_def) (simp add: plain_value_def trim_matches_def printable_def)
  ultimately show ?thesis
    by (auto simp: plain_header_def list_all_iff)
qed

definition client_names :: "string list" where
  "client_names = [''host'', ''accept'', ''accept-encoding'', ''connection'', ''content-length'']"

lemma client_headers_names: "map (\<lambda>h. to_ascii_lowercase (fst h)) (client_headers client n) = client_names"
  by (simp add: client_headers_def client_names_def lower_eval)

lemma parse_content_length_show: "n < 2 ^ 64 \<Longrightarrow> parse_content_length (show_nat n) = Inr n"
  using show_nat_canonical by (simp add: parse_content_length_def parse_unsigned_show)

lemma client_request_parsed:
  assumes m: "m = ''GET'' \<and> body = [] \<or> m = ''POST''" and "target_ok path" and "length path \<le> 100"
    and headers: "list_all plain_header headers" "length headers \<le> 20" "headers_size headers \<le> 8000"
      "distinct (client_names @ map (\<lambda>h. to_ascii_lowercase (fst h)) headers)"
      "list_all (\<lambda>forbidden. forbidden \<notin> set (map (\<lambda>h. to_ascii_lowercase (fst h)) headers)) forbidden_headers"
    and body: "length body \<le> Web.MAX_BODY_BYTES"
  shows "parse_request (written_request m path (client_headers client (length body) @ headers) body) =
    Inr \<lparr>pr_method = method_of m, pr_target = path, pr_headers = read_headers client (length body) headers,
         pr_body = body, pr_content_length = Some (length body)\<rparr>"
proof -
  define n where "n = length body"
  define hs where "hs = client_headers client n @ headers"
  have n: "n \<le> 4096" "parse_content_length (show_nat n) = Inr n"
    using body parse_content_length_show [of n] by (simp_all add: n_def Web.MAX_BODY_BYTES_def)
  have "length (show_nat n) \<le> 5"
    using n by (intro show_nat_length) simp_all
  then have "length (m @ '' '' @ path @ '' HTTP/1.1'') + headers_size hs \<le> Web.MAX_HEADER_BYTES"
    using m assms(3) headers(3) authority_plain(2) [of client]
    by (auto simp: hs_def headers_size_def client_headers_def Web.MAX_HEADER_BYTES_def)
  moreover have names: "distinct (map (\<lambda>h. to_ascii_lowercase (fst h)) hs)"
    using headers(4) by (simp add: hs_def client_headers_names)
  moreover have "length hs \<le> Web.MAX_HEADER_COUNT"
    using headers(2) by (simp add: hs_def client_headers_def Web.MAX_HEADER_COUNT_def)
  moreover have "list_all is_tchar m" "m \<noteq> []"
    using m by (auto simp: char_eval)
  moreover have "list_all plain_header hs"
    using headers(1) client_headers_plain by (simp add: hs_def)
  ultimately have "parse_request (written_request m path hs body) =
      finish_request (method_of m) path (rev (lowered hs)) body"
    using assms(2) by (intro parse_request_written) (simp_all only: length_head not_False_eq_True)
  moreover have cl: "map_of (rev (lowered hs)) ''content-length'' = Some (show_nat n)"
    unfolding map_of_rev_lowered [OF names] by (simp add: hs_def client_headers_def lower_eval)
  moreover have "list_all (\<lambda>forbidden. map_of (rev (lowered hs)) forbidden = None) forbidden_headers"
    unfolding map_of_rev_lowered [OF names] map_of_eq_None_iff set_map [symmetric] fst_lowered
    using headers(5) by (simp add: hs_def client_headers_names client_names_def forbidden_headers_def image_image)
  moreover have "declared_length (rev (lowered hs)) = Some n"
    using cl n by (simp add: declared_length_def)
  moreover have "header_content_length (rev (lowered hs)) = Inr (Some n)"
    using cl n by (simp add: header_content_length_def)
  moreover have "check_body (method_of m) (Some n) body = Inr ()"
    using m body by (auto simp: check_body_Inr n_def method_of_def)
  ultimately have "parse_request (written_request m path hs body) =
      Inr \<lparr>pr_method = method_of m, pr_target = path, pr_headers = rev (lowered hs), pr_body = body, pr_content_length = Some n\<rparr>"
    by (simp add: finish_request_Inr)
  then show ?thesis
    unfolding hs_def rev_lowered_client n_def .
qed

text \<open>The headers of a mutation of the client.\<close>

lemma mutation_headers_sel:
  assumes "hex_token t"
  shows "list_all plain_header (mutation_headers client r t)" "length (mutation_headers client r t) \<le> 20"
    "headers_size (mutation_headers client r t) \<le> 8000"
    "map (\<lambda>h. to_ascii_lowercase (fst h)) (mutation_headers client r t) =
       [''origin'', ''content-type'', ''if-match'', ''x-csrf-token'', ''cookie'']"
proof -
  have "plain_value (CSRF_COOKIE @ ''='' @ t)" "plain_value t"
    using hex_token_sel [OF assms] by (intro plain_valueI; simp add: CSRF_COOKIE_def printable_def)+
  moreover have "plain_value ''application/json''"
    by (simp add: plain_value_def trim_matches_def printable_def)
  ultimately have "list_all (\<lambda>h. plain_value (snd h)) (mutation_headers client r t)"
    using origin_plain plain_etag by (simp add: mutation_headers_def)
  moreover have "list_all (\<lambda>h. fst h \<noteq> [] \<and> list_all is_tchar (fst h)) (mutation_headers client r t)"
    by (simp add: mutation_headers_def char_eval)
  ultimately show "list_all plain_header (mutation_headers client r t)"
    by (auto simp: plain_header_def list_all_iff)
  show "length (mutation_headers client r t) \<le> 20"
    by (simp add: mutation_headers_def)
  show "headers_size (mutation_headers client r t) \<le> 8000"
    using assms origin_plain(2) [of client] etag_length [of r]
    by (simp add: mutation_headers_def headers_size_def hex_token_def CSRF_COOKIE_def)
  show "map (\<lambda>h. to_ascii_lowercase (fst h)) (mutation_headers client r t) =
       [''origin'', ''content-type'', ''if-match'', ''x-csrf-token'', ''cookie'']"
    by (simp add: mutation_headers_def lower_eval)
qed

lemma plain_header_writable: "plain_header h \<Longrightarrow> valid_header_name (fst h) \<and> valid_header_value (snd h)"
  by (auto simp: plain_header_def plain_value_def valid_header_name_tchar valid_header_value_def printable_def list_all_iff)

subsection \<open>The loopback stream\<close>

text \<open>
  The stream as the client sees it when the service answers: what is written is collected, and the first
  read hands the collected bytes to the application once they form one complete frame.
\<close>

record 'a loopback =
  lb_app :: "'a WebApp"
  lb_request :: string
  lb_response :: "string option"

definition loopback_read :: "'a web_env \<Rightarrow> nat \<Rightarrow> ('a loopback, io_error, string) fallible" where
  "loopback_read env n w =
     (case lb_response w of
        Some rest \<Rightarrow> (Inr (take n rest), w\<lparr>lb_response := Some (drop n rest)\<rparr>)
      | None \<Rightarrow>
          if request_frame (lb_request w) = RequestFrame.Complete then
            (let (r, app) = handle env (lb_request w) (lb_app w); text = to_http1_bytes r
             in (Inr (take n text), w\<lparr>lb_app := app, lb_response := Some (drop n text)\<rparr>))
          else (Inl io_error.TimedOut, w))"

definition loopback_net :: "'a web_env \<Rightarrow> 'a loopback client_net" where
  "loopback_net env =
     \<lparr>cn_now = (\<lambda>_. 0),
      cn_connect = (\<lambda>address _ w.
        if address = ws_bind_addr (app_security (lb_app w))
        then (Inr (), w\<lparr>lb_request := [], lb_response := None\<rparr>) else (Inl io_error.OtherError, w)),
      cn_set_write_timeout = (\<lambda>_ w. (Inr (), w)),
      cn_write = (\<lambda>bytes w. (Inr (length bytes), w\<lparr>lb_request := lb_request w @ bytes\<rparr>)),
      cn_set_read_timeout = (\<lambda>_ w. (Inr (), w)),
      cn_read = loopback_read env\<rparr>"

lemma loopback_net_sel [simp]:
  "cn_now (loopback_net env) w = 0"
  "cn_connect (loopback_net env) address d w =
     (if address = ws_bind_addr (app_security (lb_app w))
      then (Inr (), w\<lparr>lb_request := [], lb_response := None\<rparr>) else (Inl io_error.OtherError, w))"
  "cn_set_write_timeout (loopback_net env) d w = (Inr (), w)"
  "cn_write (loopback_net env) bytes w = (Inr (length bytes), w\<lparr>lb_request := lb_request w @ bytes\<rparr>)"
  "cn_set_read_timeout (loopback_net env) d w = (Inr (), w)"
  "cn_read (loopback_net env) n w = loopback_read env n w"
  by (simp_all add: loopback_net_def)

lemma loopback_write:
  assumes "0 < deadline" and "msg \<noteq> []"
  shows "write_all_before (loopback_net env) deadline msg w =
    Some (Inr (), w\<lparr>lb_request := lb_request w @ msg\<rparr>)"
  using assms
  by (simp add: write_all_before.simps [of _ _ msg] write_all_before.simps [of _ _ "[]"]
      try_bind_def remaining_def with_err_def)

lemma loopback_read_rest:
  assumes "0 < deadline" and "lb_response w = Some rest"
    and "length payload + length rest \<le> MAX_RESPONSE_BYTES"
  shows "read_to_end_loop (loopback_net env) deadline payload w =
    Some (Inr (payload @ rest), w\<lparr>lb_response := Some []\<rparr>)"
  using assms
proof (induction "length rest" arbitrary: rest payload w rule: less_induct)
  case less
  show ?case
  proof (cases "rest = []")
    case True
    with less.prems show ?thesis
      by (simp add: read_to_end_loop.simps [of _ _ payload] loopback_read_def try_bind_def
          remaining_def with_err_def READ_CHUNK_def)
  next
    case False
    define w' where "w' = w\<lparr>lb_response := Some (drop READ_CHUNK rest)\<rparr>"
    have "length (drop READ_CHUNK rest) < length rest"
      using False by (simp add: READ_CHUNK_def)
    moreover have "length (payload @ take READ_CHUNK rest) + length (drop READ_CHUNK rest) \<le> MAX_RESPONSE_BYTES"
      using less.prems(3) by simp
    ultimately have IH: "read_to_end_loop (loopback_net env) deadline (payload @ take READ_CHUNK rest) w' =
        Some (Inr ((payload @ take READ_CHUNK rest) @ drop READ_CHUNK rest), w'\<lparr>lb_response := Some []\<rparr>)"
      using less.prems(1) by (intro less.hyps) (simp_all add: w'_def)
    have "take READ_CHUNK rest \<noteq> []"
      using False by (simp add: READ_CHUNK_def)
    then have "read_to_end_loop (loopback_net env) deadline payload w =
        read_to_end_loop (loopback_net env) deadline (payload @ take READ_CHUNK rest) w'"
      using less.prems
      by (subst read_to_end_loop.simps)
        (auto simp: loopback_read_def try_bind_def remaining_def with_err_def w'_def)
    then show ?thesis
      using IH by (simp add: w'_def)
  qed
qed

lemma loopback_request:
  assumes w: "request_text client m path headers body = Inr msg" "msg \<noteq> []" "0 < timeout"
      "lsc_address client = ws_bind_addr (app_security (lb_app w))"
    and frame: "request_frame msg = RequestFrame.Complete"
    and h: "handle env msg (lb_app w) = (r, app)"
    and size: "length (to_http1_bytes r) \<le> MAX_RESPONSE_BYTES"
  shows "request (loopback_net env) client m path headers body timeout w =
    Some (parse_response (to_http1_bytes r), w\<lparr>lb_app := app, lb_request := msg, lb_response := Some []\<rparr>)"
proof -
  let ?net = "loopback_net env"
  define w1 where "w1 = w\<lparr>lb_request := [], lb_response := None\<rparr>"
  define w2 where "w2 = w1\<lparr>lb_request := msg\<rparr>"
  define reply where "reply = to_http1_bytes r"
  have connect: "cn_connect ?net (lsc_address client) d w = (Inr (), w1)" for d
    using w(4) by (simp add: w1_def)
  have wrote: "write_all_before ?net timeout msg w1 = Some (Inr (), w2)"
    using loopback_write [OF w(3,2), of env w1] by (simp add: w1_def w2_def)
  have ne: "take READ_CHUNK reply \<noteq> []"
    by (simp add: reply_def to_http1_bytes_def READ_CHUNK_def)
  have "read_to_end_loop ?net timeout [] w2 =
      read_to_end_loop ?net timeout (take READ_CHUNK reply) (w2\<lparr>lb_app := app, lb_response := Some (drop READ_CHUNK reply)\<rparr>)"
    using w(3) frame h ne size
    by (subst read_to_end_loop.simps)
      (auto simp: loopback_read_def try_bind_def remaining_def with_err_def w2_def w1_def reply_def Let_def)
  also have "\<dots> = Some (Inr reply, w2\<lparr>lb_app := app, lb_response := Some []\<rparr>)"
    using loopback_read_rest [OF w(3), of "w2\<lparr>lb_app := app, lb_response := Some (drop READ_CHUNK reply)\<rparr>"] size
    by (simp add: reply_def)
  finally have read: "read_to_end_before ?net timeout w2 = Some (Inr reply, w2\<lparr>lb_app := app, lb_response := Some []\<rparr>)"
    by (simp add: read_to_end_before_def)
  show ?thesis
    using w(1,3) connect wrote read
    by (simp add: request_def run_bind_def total_run_def remaining_def with_err_def lift_result_def
        reply_def w1_def w2_def)
qed

text \<open>A request of the client that the application reads back, answered over the loopback stream.\<close>

lemma written_request_ne: "written_request m path hs body \<noteq> []"
  by (simp add: written_request_def HEAD_END_def CRLF_def)

lemma client_request_handled:
  assumes m: "m = ''GET'' \<and> body = [] \<or> m = ''POST''" "target_ok path" "length path \<le> 100"
    and headers: "list_all plain_header headers" "length headers \<le> 20" "headers_size headers \<le> 8000"
      "distinct (client_names @ map (\<lambda>h. to_ascii_lowercase (fst h)) headers)"
      "list_all (\<lambda>forbidden. forbidden \<notin> set (map (\<lambda>h. to_ascii_lowercase (fst h)) headers)) forbidden_headers"
    and body: "length body \<le> Web.MAX_BODY_BYTES"
    and net: "lsc_address client = ws_bind_addr (app_security app)" "sa_port (lsc_address client) \<noteq> 0"
    and origin: "\<And>o'. map_of (read_headers client (length body) headers) ''origin'' = Some o' \<Longrightarrow> o' = origin client"
    and req: "req = \<lparr>pr_method = method_of m, pr_target = path,
        pr_headers = read_headers client (length body) headers, pr_body = body,
        pr_content_length = Some (length body)\<rparr>"
    and msg: "msg = written_request m path (client_headers client (length body) @ headers) body"
  shows "request_text client m path headers body = Inr msg" "parse_request msg = Inr req"
    "handle env msg app = route env req app"
proof -
  show "request_text client m path headers body = Inr msg"
    unfolding msg using headers(1) plain_header_writable by (intro request_text_written) (auto simp: list_all_iff)
  show parsed: "parse_request msg = Inr req"
    unfolding msg req using m headers body by (rule client_request_parsed)
  have "''host'' \<in> set client_names"
    by (simp add: client_names_def)
  then have "''host'' \<notin> set (map (\<lambda>h. to_ascii_lowercase (fst h)) headers)"
    using headers(4) unfolding distinct_append by blast
  then have "map_of (pr_headers req) ''host'' = map_of (read_headers client (length body) []) ''host''"
    unfolding req ParsedRequest.select_convs by (rule lookup_fixed)
  then have host: "single_header req ''host'' = Some (authority client)"
    by (simp add: single_header_def read_headers_def)
  have origin': "\<not> (\<exists>o' \<in> set_option (single_header req ''origin''). \<not> origin_is_same o'
      \<lparr>la_host = AuthorityHost.Ipv4Loopback, la_effective_port = sa_port (lsc_address client)\<rparr>)"
    using origin origin_read [OF net(2)] by (auto simp: single_header_def req)
  then show "handle env msg app = route env req app"
    using parsed host authority_read [OF net(2)] net(1) by (simp add: handle_def Let_def port_def)
qed

lemma client_exchange:
  assumes m: "m = ''GET'' \<and> body = [] \<or> m = ''POST''" "target_ok path" "length path \<le> 100"
    and headers: "list_all plain_header headers" "length headers \<le> 20" "headers_size headers \<le> 8000"
      "distinct (client_names @ map (\<lambda>h. to_ascii_lowercase (fst h)) headers)"
      "list_all (\<lambda>forbidden. forbidden \<notin> set (map (\<lambda>h. to_ascii_lowercase (fst h)) headers)) forbidden_headers"
    and body: "length body \<le> Web.MAX_BODY_BYTES"
    and net: "lsc_address client = ws_bind_addr (app_security (lb_app w))" "sa_port (lsc_address client) \<noteq> 0"
    and origin: "\<And>o'. map_of (read_headers client (length body) headers) ''origin'' = Some o' \<Longrightarrow> o' = origin client"
    and timeout: "0 < timeout"
    and route: "route env \<lparr>pr_method = method_of m, pr_target = path,
        pr_headers = read_headers client (length body) headers, pr_body = body,
        pr_content_length = Some (length body)\<rparr> (lb_app w) = (r, app)"
    and size: "length (to_http1_bytes r) \<le> MAX_RESPONSE_BYTES"
  obtains w' where "request (loopback_net env) client m path headers body timeout w =
      Some (parse_response (to_http1_bytes r), w')"
    and "lb_app w' = app"
proof -
  define msg where "msg = written_request m path (client_headers client (length body) @ headers) body"
  note handled = client_request_handled [OF m headers body net origin refl msg_def]
  have "request_frame msg = RequestFrame.Complete"
    using handled(2) by (rule parsed_is_complete)
  moreover have "msg \<noteq> []"
    unfolding msg_def by (rule written_request_ne)
  ultimately have "request (loopback_net env) client m path headers body timeout w =
      Some (parse_response (to_http1_bytes r), w\<lparr>lb_app := app, lb_request := msg, lb_response := Some []\<rparr>)"
    using handled(1,3) route net size timeout by (intro loopback_request) simp_all
  then show ?thesis
    by (rule that) simp
qed

end
