(* ===== verification/Client_Service.thy ===== *)
theory Client_Service
  imports Exchange
begin

text \<open>
  The command line client against the service: what a client operation returns is what the one controller
  did, and only an authorised request makes the controller act.
\<close>

subsection \<open>Exchanges with the application\<close>

text \<open>A stream to an application that is bound where the client connects.\<close>

definition connected :: "LocalServiceClient \<Rightarrow> 'a loopback \<Rightarrow> bool" where
  "connected client w \<longleftrightarrow>
     ws_bind_addr (app_security (lb_app w)) = lsc_address client \<and> sa_port (lsc_address client) \<noteq> 0
     \<and> hex_token (ws_csrf_token (app_security (lb_app w)))"

lemma timeouts_positive: "0 < READY_TIMEOUT" "0 < STATUS_TIMEOUT" "0 < ACTION_TIMEOUT"
  by (simp_all add: READY_TIMEOUT_def STATUS_TIMEOUT_def ACTION_TIMEOUT_def ACTION_TIMEOUT_SECONDS_def from_secs_def)

lemma length_to_http1_bytes:
  "length (to_http1_bytes r) = length (status_line (hr_status r)) + headers_size (hr_headers r) + 4 + length (hr_body r)"
  unfolding to_http1_bytes_join length_append length_head by (simp add: HEAD_END_def CRLF_def)

lemma json_response_fits:
  assumes "length (to_vec body) + 1024 \<le> MAX_RESPONSE_BYTES"
  shows "length (to_http1_bytes (json_response to_vec 200 body revision)) \<le> MAX_RESPONSE_BYTES"
proof -
  let ?type = "''application/json; charset=utf-8''"
  have "length (status_line 200) \<le> 50"
    using show_nat_length [of 3 200] by (simp add: status_line_def reason_phrase_def)
  moreover have "headers_size (base_headers ?type (length (to_vec body)) None) \<le> 600"
    using base_headers_size [of "length (to_vec body)" ?type None] assms by (simp add: csp_def)
  moreover have "headers_size (case revision of None \<Rightarrow> [] | Some r \<Rightarrow> [(''ETag'', etag r)]) \<le> 50"
    by (auto simp: headers_size_def split: option.split intro: order_trans [OF etag_length])
  ultimately show ?thesis
    using assms
    unfolding length_to_http1_bytes json_response_def response_headers_eq etag_def [symmetric]
    by (simp add: headers_size_def response_def)
qed

lemma get_exchange:
  assumes "connected client w" and "target_ok path" and "length path \<le> 100" and "0 < timeout"
    and "route env \<lparr>pr_method = Method.Get, pr_target = path, pr_headers = read_headers client 0 [], pr_body = [],
        pr_content_length = Some 0\<rparr> (lb_app w) = (r, app)"
    and "length (to_http1_bytes r) \<le> MAX_RESPONSE_BYTES"
  obtains w' where "request (loopback_net env) client ''GET'' path [] [] timeout w =
      Some (parse_response (to_http1_bytes r), w')"
    and "lb_app w' = app"
proof (rule client_exchange [of "''GET''" "[]" path "[]" client w timeout env r app])
  show "list_all (\<lambda>forbidden. forbidden \<notin> set (map (\<lambda>h. to_ascii_lowercase (fst h)) [])) forbidden_headers"
    by (simp add: list_all_iff)
  show "\<And>o'. map_of (read_headers client (length []) []) ''origin'' = Some o' \<Longrightarrow> o' = origin client"
    by (simp add: read_headers_def)
  show "sa_port (lsc_address client) \<noteq> 0"
    using assms(1) unfolding connected_def by blast
qed (use assms that in \<open>simp_all add: connected_def headers_size_def client_names_def method_of_def Web.MAX_BODY_BYTES_def\<close>)

lemma cookie_exchange:
  assumes "connected client w"
    and "length (to_http1_bytes (page_response (app_security (lb_app w)))) \<le> MAX_RESPONSE_BYTES"
  obtains w' where "csrf_cookie (loopback_net env) client w = Some (Inr (ws_csrf_token (app_security (lb_app w))), w')"
    and "lb_app w' = lb_app w"
proof -
  obtain w' where w': "request (loopback_net env) client ''GET'' ''/'' [] [] READY_TIMEOUT w =
      Some (parse_response (to_http1_bytes (page_response (app_security (lb_app w)))), w')" "lb_app w' = lb_app w"
    by (rule get_exchange [OF assms(1), of "''/''" READY_TIMEOUT env "page_response (app_security (lb_app w))" "lb_app w"])
      (use assms(2) timeouts_positive in \<open>simp_all add: target_ok_def starts_with_def route_def\<close>)
  obtain hs body where "parse_response (to_http1_bytes (page_response (app_security (lb_app w)))) =
      Inr \<lparr>lr_status = 200, lr_headers = hs, lr_body = body\<rparr>"
      "check_cookie \<lparr>lr_status = 200, lr_headers = hs, lr_body = body\<rparr> = Inr (ws_csrf_token (app_security (lb_app w)))"
    using page_response_read [of "app_security (lb_app w)"] assms(1) unfolding connected_def by blast
  then show ?thesis
    using that [OF _ w'(2)] w'(1) by (simp add: csrf_cookie_def run_bind_def total_run_def lift_result_def)
qed

lemma status_exchange:
  assumes "connected client w"
    and "wa_status (we_actor env) (app_actor (lb_app w)) = (s, a)"
    and "valid_status_projection (local_status s)"
    and "from_slice (we_to_vec env (status_body s)) = Some (status_body s)"
    and "length (to_http1_bytes (status_response (we_to_vec env) s)) \<le> MAX_RESPONSE_BYTES"
  obtains w' where "client_status (loopback_net env) from_slice client w = Some (Inr (local_status s), w')"
    and "lb_app w' = (lb_app w)\<lparr>app_actor := a\<rparr>"
proof -
  let ?r = "status_response (we_to_vec env) s"
  obtain w' where w': "request (loopback_net env) client ''GET'' ''/api/status'' [] [] STATUS_TIMEOUT w =
      Some (parse_response (to_http1_bytes ?r), w')" "lb_app w' = (lb_app w)\<lparr>app_actor := a\<rparr>"
    by (rule get_exchange [OF assms(1), of "''/api/status''" STATUS_TIMEOUT env ?r "(lb_app w)\<lparr>app_actor := a\<rparr>"])
      (use assms(2,5) timeouts_positive in \<open>simp_all add: target_ok_def starts_with_def route_def\<close>)
  have "length (we_to_vec env (status_body s)) \<le> MAX_RESPONSE_BYTES"
    using assms(5) by (simp add: to_http1_bytes_def status_response_def json_response_def response_def)
  then obtain hs where hs: "parse_response (to_http1_bytes ?r) =
      Inr \<lparr>lr_status = 200, lr_headers = hs, lr_body = we_to_vec env (status_body s)\<rparr>"
      "map_of hs ''etag'' = Some (etag (cs_revision s))"
    using json_response_read [of 200 "we_to_vec env" "status_body s" "Some (cs_revision s)"]
    by (auto simp: status_response_def)
  have "check_status from_slice \<lparr>lr_status = 200, lr_headers = hs, lr_body = we_to_vec env (status_body s)\<rparr> =
      Inr (local_status s)"
    using assms(3,4) hs(2) by (simp add: check_status_def read_status_body) (simp add: local_status_def)
  then show ?thesis
    using that [OF _ w'(2)] w'(1) hs(1) by (simp add: client_status_def run_bind_def total_run_def lift_result_def)
qed

lemma ready_exchange:
  assumes "connected client w" and "we_to_vec env readiness_body = READY_BODY"
  obtains w' where "client_ready (loopback_net env) client w = Some (Inr (), w')" and "lb_app w' = lb_app w"
proof -
  let ?r = "readiness_response (we_to_vec env)"
  have size: "length READY_BODY + 1024 \<le> MAX_RESPONSE_BYTES"
    by (simp add: READY_BODY_def quoted_def MAX_RESPONSE_BYTES_def)
  obtain w' where w': "request (loopback_net env) client ''GET'' ''/healthz'' [] [] READY_TIMEOUT w =
      Some (parse_response (to_http1_bytes ?r), w')" "lb_app w' = lb_app w"
    by (rule get_exchange [OF assms(1), of "''/healthz''" READY_TIMEOUT env ?r "lb_app w"])
      (use assms(2) size timeouts_positive json_response_fits [of "we_to_vec env" readiness_body None] in
        \<open>simp_all add: target_ok_def starts_with_def route_def readiness_response_def\<close>)
  obtain hs where "parse_response (to_http1_bytes ?r) = Inr \<lparr>lr_status = 200, lr_headers = hs, lr_body = READY_BODY\<rparr>"
    using json_response_read [of 200 "we_to_vec env" readiness_body None] assms(2) size
    by (auto simp: readiness_response_def)
  then show ?thesis
    using that [OF _ w'(2)] w'(1) by (simp add: client_ready_def run_bind_def total_run_def lift_result_def)
qed

lemma local_status_revision: "ls_revision (local_status s) = cs_revision s"
  by (simp add: local_status_def)

text \<open>A mutation of the client is authorised, and the application answers it with the actor's result.\<close>

definition mutation_request :: "LocalServiceClient \<Rightarrow> 64 word \<Rightarrow> string \<Rightarrow> WebMutation \<Rightarrow> string \<Rightarrow> ParsedRequest" where
  "mutation_request client revision t m body =
     \<lparr>pr_method = method_of ''POST'', pr_target = mutation_target m,
      pr_headers = read_headers client (length body) (mutation_headers client revision t), pr_body = body,
      pr_content_length = Some (length body)\<rparr>"

lemma mutation_request_headers:
  "single_header (mutation_request client revision t m body) ''origin'' = Some (origin client)"
  "single_header (mutation_request client revision t m body) ''content-type'' = Some ''application/json''"
  "single_header (mutation_request client revision t m body) ''if-match'' = Some (etag revision)"
  "single_header (mutation_request client revision t m body) ''x-csrf-token'' = Some t"
  "single_header (mutation_request client revision t m body) ''cookie'' = Some (CSRF_COOKIE @ ''='' @ t)"
  by (simp_all add: single_header_def mutation_request_def read_headers_def mutation_headers_def lower_eval)

lemma mutation_routed:
  assumes t: "hex_token (ws_csrf_token (app_security app))"
    and body: "length body \<le> Web.MAX_BODY_BYTES" "body_matches (we_from_slice env) (mutation_rule m) body"
    and act: "wa_mutate_if_revision (we_actor env) revision m (app_actor app) = (Inr r, a)"
  shows "route env (mutation_request client revision (ws_csrf_token (app_security app)) m body) app =
    (action_response (we_to_vec env) r, app\<lparr>app_actor := a\<rparr>)"
proof -
  let ?req = "mutation_request client revision (ws_csrf_token (app_security app)) m body"
  have "valid_csrf (app_security app) ?req"
    using cookie_read [OF t] by (simp add: valid_csrf_sel CSRF_HEADER_def mutation_request_headers)
  moreover have "parse_strong_revision (etag revision) = Some revision"
    by (simp add: parse_strong_revision_iff etag_def)
  moreover have "pr_content_length ?req = Some (length body)" "pr_body ?req = body"
    by (simp_all add: mutation_request_def)
  ultimately have resp: "mutation_response env ?req m (mutation_rule m) app =
      (action_response (we_to_vec env) r, app\<lparr>app_actor := a\<rparr>)"
    using body act by (simp add: mutation_response_def Let_def mutation_request_headers)
  have "pr_method ?req = Method.Post" "pr_target ?req = mutation_target m"
    by (simp_all add: mutation_request_def method_of_def)
  with resp show ?thesis
    by (cases m) (simp_all add: route_def Let_def)
qed

lemma mutation_request_sound:
  assumes "hex_token t"
  shows "target_ok (mutation_target m)" "length (mutation_target m) \<le> 100"
    "distinct (client_names @ map (\<lambda>h. to_ascii_lowercase (fst h)) (mutation_headers client revision t))"
    "list_all (\<lambda>forbidden. forbidden \<notin> set (map (\<lambda>h. to_ascii_lowercase (fst h)) (mutation_headers client revision t)))
       forbidden_headers"
    "map_of (read_headers client n (mutation_headers client revision t)) ''origin'' = Some o' \<Longrightarrow> o' = origin client"
proof -
  show "target_ok (mutation_target m)" "length (mutation_target m) \<le> 100"
    by (cases m; simp add: target_ok_def starts_with_def)+
  show "distinct (client_names @ map (\<lambda>h. to_ascii_lowercase (fst h)) (mutation_headers client revision t))"
    unfolding mutation_headers_sel(4) [OF assms] by (simp add: client_names_def)
  show "list_all (\<lambda>forbidden. forbidden \<notin> set (map (\<lambda>h. to_ascii_lowercase (fst h)) (mutation_headers client revision t)))
       forbidden_headers"
    unfolding mutation_headers_sel(4) [OF assms] by (simp add: forbidden_headers_def)
  show "map_of (read_headers client n (mutation_headers client revision t)) ''origin'' = Some o' \<Longrightarrow> o' = origin client"
    by (simp add: read_headers_def mutation_headers_def lower_eval)
qed

lemma mutation_handled:
  assumes "ws_bind_addr (app_security app) = lsc_address client" "sa_port (lsc_address client) \<noteq> 0"
      "hex_token (ws_csrf_token (app_security app))"
    and "length body \<le> Web.MAX_BODY_BYTES" "body_matches (we_from_slice env) (mutation_rule m) body"
    and "wa_mutate_if_revision (we_actor env) revision m (app_actor app) = (Inr r, a)"
    and "headers = mutation_headers client revision (ws_csrf_token (app_security app))"
  shows "handle env (written_request ''POST'' (mutation_target m) (client_headers client (length body) @ headers) body) app =
    (action_response (we_to_vec env) r, app\<lparr>app_actor := a\<rparr>)"
  using client_request_handled(3) [of "''POST''" body "mutation_target m" headers client app _ _ env, OF _ _ _ _ _ _ _ _ _ _ _ _ refl refl]
    mutation_routed [OF assms(3-6), of client] mutation_request_sound [OF assms(3)] mutation_headers_sel [OF assms(3)] assms
  by (simp add: mutation_request_def)

lemma mutation_exchange:
  assumes con: "connected client w"
    and body: "length body \<le> Web.MAX_BODY_BYTES" "body_matches (we_from_slice env) (mutation_rule m) body"
    and act: "wa_mutate_if_revision (we_actor env) revision m (app_actor (lb_app w)) = (Inr r, a)"
    and size: "length (to_http1_bytes (action_response (we_to_vec env) r)) \<le> MAX_RESPONSE_BYTES"
  obtains w' where "request (loopback_net env) client ''POST'' (mutation_target m)
      (mutation_headers client revision (ws_csrf_token (app_security (lb_app w)))) body ACTION_TIMEOUT w =
      Some (parse_response (to_http1_bytes (action_response (we_to_vec env) r)), w')"
    and "lb_app w' = (lb_app w)\<lparr>app_actor := a\<rparr>"
proof -
  have t: "hex_token (ws_csrf_token (app_security (lb_app w)))"
    and addr: "lsc_address client = ws_bind_addr (app_security (lb_app w))" "sa_port (lsc_address client) \<noteq> 0"
    using con unfolding connected_def by simp_all
  note sound = mutation_request_sound [OF t] and sel = mutation_headers_sel [OF t]
  have "\<And>o'. map_of (read_headers client (length body) (mutation_headers client revision
      (ws_csrf_token (app_security (lb_app w))))) ''origin'' = Some o' \<Longrightarrow> o' = origin client"
    by (rule sound(5))
  from client_exchange [OF _ sound(1,2) sel(1-3) sound(3,4) body(1) addr this timeouts_positive(3)
      mutation_routed [OF t body act, unfolded mutation_request_def] size]
  show ?thesis
    using that by blast
qed

lemma page_response_fits:
  assumes "hex_token (ws_csrf_token security)"
  shows "length (to_http1_bytes (page_response security)) \<le> MAX_RESPONSE_BYTES"
proof -
  define body where "body = str_replace PAGE_HTML ''__CSP_NONCE__'' (ws_csrf_token security)"
  have "length body \<le> 5 * 2825"
    using length_str_replace [of "ws_csrf_token security" 5 "''__CSP_NONCE__''" PAGE_HTML] assms
    by (simp add: body_def page_length hex_token_def)
  moreover have "headers_size (base_headers ''text/html; charset=utf-8'' (length body) (Some (ws_csrf_token security))) \<le> 700"
    using base_headers_size [of "length body" "''text/html; charset=utf-8''" "Some (ws_csrf_token security)"]
      csp_nonce_plain(2) [OF assms] calculation by (simp add: MAX_RESPONSE_BYTES_def)
  moreover have "length (status_line 200) \<le> 50"
    using show_nat_length [of 3 200] by (simp add: status_line_def reason_phrase_def)
  ultimately show ?thesis
    using cookie_value_plain(2) [OF assms]
    unfolding length_to_http1_bytes page_response_def response_headers_eq body_def [symmetric]
    by (simp add: headers_size_def MAX_RESPONSE_BYTES_def response_def)
qed

lemma web_security_bind: "web_security_new bind csrf = Inr security \<Longrightarrow> ws_bind_addr security = bind"
  by (auto simp: web_security_new_def split: if_splits)

lemma loopback_connected:
  assumes "web_security_loopback csrf = Inr (app_security (lb_app w))" and "length csrf = 32"
  shows "connected local_service_client_default w"
  using web_security_token [OF assms(1) [unfolded web_security_loopback_def] assms(2)]
    web_security_bind [OF assms(1) [unfolded web_security_loopback_def]]
  by (simp add: connected_def local_service_client_default_def DEFAULT_WEB_PORT_def)

text \<open>The client operation of each mutation.\<close>

fun client_operation where
  "client_operation WebMutation.Start = client_start"
| "client_operation WebMutation.Stop = client_stop"
| "client_operation WebMutation.RecoverStop = client_recover_stop"

fun mutation_body :: "WebMutation \<Rightarrow> string" where
  "mutation_body WebMutation.RecoverStop = RECOVER_STOP_BODY"
| "mutation_body _ = ''{}''"

lemma client_operation_request:
  "client_operation m net from_slice client =
     mutate_with_body net from_slice client (mutation_target m) (local_action (web_action m)) (mutation_body m)"
  by (cases m) (simp_all add: client_start_def client_stop_def client_recover_stop_def client_mutate_def named_def
      action_name_names_def fun_eq_iff)

text \<open>What the two sides rely on of the JSON library: the bodies they exchange are read as they were written, and
  leave room for a head.\<close>

definition json_agrees :: "'a web_env \<Rightarrow> ControllerStatus \<Rightarrow> ControllerActionResult \<Rightarrow> bool" where
  "json_agrees env s r \<longleftrightarrow>
     we_from_slice env (we_to_vec env (status_body s)) = Some (status_body s)
     \<and> we_from_slice env (we_to_vec env (action_body r)) = Some (action_body r)
     \<and> we_from_slice env ''{}'' = Some (JObject [])
     \<and> we_from_slice env RECOVER_STOP_BODY = Some (JObject [(''confirm'', JString ''recover-stop'')])
     \<and> length (we_to_vec env (status_body s)) + 1024 \<le> MAX_RESPONSE_BYTES
     \<and> length (we_to_vec env (action_body r)) + 1024 \<le> MAX_RESPONSE_BYTES"

lemma mutation_body_matches:
  "json_agrees env s r \<Longrightarrow> body_matches (we_from_slice env) (mutation_rule m) (mutation_body m)
     \<and> length (mutation_body m) \<le> Web.MAX_BODY_BYTES"
  by (cases m) (simp_all add: json_agrees_def body_matches_def RECOVER_STOP_BODY_def quoted_def Web.MAX_BODY_BYTES_def)

lemma client_operation_reports:
  assumes "web_security_loopback csrf = Inr (app_security (lb_app w))" and "length csrf = 32"
    and "we_actor wenv = controller_actor env now"
    and "Controller.status env now (cwa_controller (app_actor (lb_app w))) = (s, c1)"
    and "mutate env now (web_action mutation) c1 = (r, c2)"
    and "pc_revision c1 \<noteq> - 1" and "valid_status_projection (local_status s)" and "json_agrees wenv s r"
  shows "\<exists>w'. client_operation mutation (loopback_net wenv) (we_from_slice wenv) local_service_client_default w =
      Some (Inr (local_result r), w') \<and> cwa_controller (app_actor (lb_app w')) = c2"
proof -
  let ?client = local_service_client_default and ?net = "loopback_net wenv" and ?token = "ws_csrf_token (app_security (lb_app w))"
  have con: "connected ?client w"
    using assms(1,2) by (rule loopback_connected)
  obtain w1 where w1: "csrf_cookie ?net ?client w = Some (Inr ?token, w1)" "lb_app w1 = lb_app w"
    using cookie_exchange [OF con page_response_fits] con unfolding connected_def by blast
  define a1 where "a1 = (app_actor (lb_app w))\<lparr>cwa_controller := c1\<rparr>"
  have st: "wa_status (we_actor wenv) (app_actor (lb_app w1)) = (s, a1)"
    using assms(3,4) w1(2) by (simp add: controller_actor_def actor_status_def a1_def)
  have con1: "connected ?client w1"
    using con unfolding connected_def w1(2) .
  obtain w2 where w2: "client_status ?net (we_from_slice wenv) ?client w1 = Some (Inr (local_status s), w2)"
      "lb_app w2 = (lb_app w)\<lparr>app_actor := a1\<rparr>"
    using status_exchange [OF con1 st assms(7)] assms(8) w1(2) json_response_fits
    unfolding json_agrees_def status_response_def by metis
  have con2: "connected ?client w2" and token: "ws_csrf_token (app_security (lb_app w2)) = ?token"
    using con unfolding connected_def w2(2) by simp_all
  have rev: "cs_revision s = pc_revision c1"
    using status_sel(8) [OF assms(4)] .
  define a2 where "a2 = a1\<lparr>cwa_controller := c2\<rparr>"
  have act: "wa_mutate_if_revision (we_actor wenv) (cs_revision s) mutation (app_actor (lb_app w2)) = (Inr r, a2)"
    using assms(3,5) w2(2) rev by (simp add: controller_actor_def actor_mutate_cases a1_def a2_def)
  obtain w3 where w3: "request ?net ?client ''POST'' (mutation_target mutation)
        (mutation_headers ?client (cs_revision s) ?token) (mutation_body mutation) ACTION_TIMEOUT w2 =
        Some (parse_response (to_http1_bytes (action_response (we_to_vec wenv) r)), w3)"
      "lb_app w3 = (lb_app w2)\<lparr>app_actor := a2\<rparr>"
    using mutation_exchange [OF con2 _ _ act] mutation_body_matches [OF assms(8)] assms(8)
      json_response_fits unfolding token json_agrees_def action_response_def by metis
  obtain hs where hs: "parse_response (to_http1_bytes (action_response (we_to_vec wenv) r)) =
      Inr \<lparr>lr_status = 200, lr_headers = hs, lr_body = we_to_vec wenv (action_body r)\<rparr>"
      "map_of hs ''etag'' = Some (etag (car_revision r))"
    using json_response_read [of 200 "we_to_vec wenv" "action_body r" "Some (car_revision r)"] assms(8)
    unfolding json_agrees_def action_response_def by auto
  have "car_action r = web_action mutation" "car_revision r = pc_revision c2" "pc_revision c1 < pc_revision c2"
    using mutate_revision [OF assms(5)] assms(6) by (simp_all add: reports_def)
  then have "check_action (we_from_slice wenv) (local_action (web_action mutation)) (cs_revision s)
      \<lparr>lr_status = 200, lr_headers = hs, lr_body = we_to_vec wenv (action_body r)\<rparr> = Inr (local_result r)"
    using hs(2) assms(8) rev
    by (simp add: check_action_def json_agrees_def read_action_body) (simp add: local_result_def)
  then have "client_operation mutation ?net (we_from_slice wenv) ?client w = Some (Inr (local_result r), w3)"
    using w1(1) w2(1) w3(1) hs(1)
    by (simp add: client_operation_request mutate_with_body_def run_bind_def total_run_def lift_result_def
        local_status_revision)
  moreover have "cwa_controller (app_actor (lb_app w3)) = c2"
    using w3(2) by (simp add: a2_def)
  ultimately show ?thesis by blast
qed

text \<open>
  The client reports what the controller did. Over the loopback stream to the service, a start, stop or
  recovery of the local client returns: it reads the page for the token and the status for the revision,
  sends one mutation, and its result is, name by name, the result of that one mutation of the controller,
  made on the state the status left; the service ends in the controller's state after it.
\<close>

theorem client_reports_the_controller:
  assumes "web_security_loopback csrf = Inr (app_security (lb_app w))" and "length csrf = 32"
    and "we_actor wenv = controller_actor env now"
    and "Controller.status env now (cwa_controller (app_actor (lb_app w))) = (s, c1)"
    and "mutate env now (web_action mutation) c1 = (r, c2)"
    and "pc_revision c1 \<noteq> - 1" and "valid_status_projection (local_status s)" and "json_agrees wenv s r"
  shows "\<exists>w'. client_operation mutation (loopback_net wenv) (we_from_slice wenv) local_service_client_default w =
      Some (Inr (local_result r), w') \<and> cwa_controller (app_actor (lb_app w')) = c2"
  using assms by (rule client_operation_reports)

text \<open>
  C16: an action is only ever taken for an authorised request. When handling one request of the web boundary
  changes the journal, the unresolved flag or the last action of the controller, the bytes were one admitted
  and authorised mutation (the loopback host and the same origin, the JSON body with its confirmation, the
  token of this process as header and as cookie) whose \<open>If-Match\<close> names the revision the controller had, and
  the change is exactly that one mutation of the controller.
\<close>

theorem mutation_is_authorised:
  assumes "we_actor wenv = controller_actor env now" and "handle wenv raw app = (resp, app')"
    and "c = cwa_controller (app_actor app)" and "c' = cwa_controller (app_actor app')"
    and "(pc_journal c', pc_last_action c', pc_unresolved_action c')
           \<noteq> (pc_journal c, pc_last_action c, pc_unresolved_action c)"
  shows "\<exists>request mutation. parse_request raw = Inr request \<and> admitted (app_security app) request
    \<and> authorised (we_from_slice wenv) (app_security app) request mutation (pc_revision c)
    \<and> c' = snd (mutate env now (web_action mutation) c)"
proof -
  obtain request mutation r actor where a: "parse_request raw = Inr request" "admitted (app_security app) request"
      "authorised (we_from_slice wenv) (app_security app) request mutation (pc_revision c)"
    and m: "wa_mutate_if_revision (controller_actor env now) (pc_revision c) mutation (app_actor app) = (r, actor)"
      "app' = app\<lparr>app_actor := actor\<rparr>"
    using controller.changed_evidence_is_authorised [OF assms(1,2)] assms(3-5) by metis
  have "c' = snd (mutate env now (web_action mutation) c)"
    using m assms(3,4) by (auto simp: controller_actor_def actor_mutate_cases split: prod.splits)
  with a show ?thesis by blast
qed


subsection \<open>A small service\<close>

definition demo_security :: WebSecurity where
  "demo_security =
     \<lparr>ws_bind_addr = \<lparr>sa_ip = IpAddr.V4 LOCALHOST4, sa_port = DEFAULT_WEB_PORT\<rparr>,
      ws_csrf_token = concat (map hex2_lower (replicate 32 1))\<rparr>"

definition demo_actor :: "(PairLifecycle, unit, MemoryJournal) ControllerWebActor" where
  "demo_actor =
     controller_web_actor_new (demo_controller JournalState.Clean) \<lparr>cpl_session_file = 4, cpl_operation_file = 3\<rparr>"

definition demo_app :: "(PairLifecycle, unit, MemoryJournal) ControllerWebActor WebApp" where
  "demo_app = \<lparr>app_actor = demo_actor, app_security = demo_security\<rparr>"

definition demo_status :: ControllerStatus where
  "demo_status = fst (Controller.status demo_env 5 (demo_controller JournalState.Clean))"

definition demo_result :: ControllerActionResult where
  "demo_result = fst (mutate demo_env 5 ControllerAction.Start
     (snd (Controller.status demo_env 5 (demo_controller JournalState.Clean))))"

text \<open>A library that knows just the bodies of this exchange.\<close>

definition demo_web_env :: "(PairLifecycle, unit, MemoryJournal) ControllerWebActor web_env" where
  "demo_web_env =
     \<lparr>we_actor = controller_actor demo_env 5,
      we_from_slice = (\<lambda>t. map_of [(''{}'', JObject []),
        (RECOVER_STOP_BODY, JObject [(''confirm'', JString ''recover-stop'')]),
        (''status'', status_body demo_status), (''action'', action_body demo_result)] t),
      we_to_vec = (\<lambda>v. if v = status_body demo_status then ''status''
                       else if v = action_body demo_result then ''action''
                       else if v = readiness_body then READY_BODY else [])\<rparr>"

lemma demo_security: "web_security_loopback (replicate 32 1) = Inr demo_security"
  by (simp add: web_security_loopback_def web_security_new_def demo_security_def DEFAULT_WEB_PORT_def list_all_iff)

lemma demo_json: "json_agrees demo_web_env demo_status demo_result"
proof -
  have "status_body demo_status \<noteq> action_body demo_result"
    by (simp add: status_body_def action_body_def)
  then show ?thesis
    by (simp add: json_agrees_def demo_web_env_def RECOVER_STOP_BODY_def quoted_def MAX_RESPONSE_BYTES_def)
qed

lemma demo_read: "Controller.status demo_env 5 (demo_controller JournalState.Clean) = (demo_status, demo_controller JournalState.Clean)"
  by (simp add: demo_status_def status_def demo_defs)

lemma demo_valid: "valid_status_projection (local_status demo_status)"
  by (simp add: demo_status_def status_def demo_defs unavailable_members_def fixed_member_def new_with_route_def
      local_status_def local_member_def local_health_def named_def name_tables valid_status_projection_def
      valid_member_projection_def valid_health_projection_def)

lemma demo_start: "\<exists>c2. mutate demo_env 5 ControllerAction.Start (demo_controller JournalState.Clean) = (demo_result, c2)
    \<and> pc_last_action c2 \<noteq> None"
proof -
  obtain c2 where m: "mutate demo_env 5 ControllerAction.Start (demo_controller JournalState.Clean) = (demo_result, c2)"
    using demo_read by (simp add: demo_result_def) (metis prod.collapse)
  then show ?thesis
    using mutate_revision(1) [OF m] by (auto simp: reports_def)
qed

theorem client_reports_the_controller_witness:
  "\<exists>w'. client_start (loopback_net demo_web_env) (we_from_slice demo_web_env) local_service_client_default
     \<lparr>lb_app = demo_app, lb_request = [], lb_response = None\<rparr> = Some (Inr (local_result demo_result), w')"
proof -
  obtain c2 where m: "mutate demo_env 5 ControllerAction.Start (demo_controller JournalState.Clean) = (demo_result, c2)"
    using demo_start by blast
  have r: "pc_revision (demo_controller JournalState.Clean) \<noteq> - 1"
    by (simp add: demo_controller_def with_journal_def Let_def)
  show ?thesis
    using client_reports_the_controller [where w = "\<lparr>lb_app = demo_app, lb_request = [], lb_response = None\<rparr>"
        and mutation = WebMutation.Start and wenv = demo_web_env and csrf = "replicate 32 1" and now = 5
        and r = demo_result, OF _ _ _ _ _ r demo_valid demo_json, of demo_env c2]
      demo_security demo_read m
    by (auto simp: demo_app_def demo_web_env_def demo_actor_def controller_web_actor_new_def)
qed

definition demo_request :: string where
  "demo_request = written_request ''POST'' ''/api/start''
     (client_headers local_service_client_default (length ''{}'')
      @ mutation_headers local_service_client_default 0 (ws_csrf_token demo_security)) ''{}''"

lemma demo_handled:
  obtains c2 where "pc_last_action c2 \<noteq> None"
    and "handle demo_web_env demo_request demo_app =
      (action_response (we_to_vec demo_web_env) demo_result, demo_app\<lparr>app_actor := demo_actor\<lparr>cwa_controller := c2\<rparr>\<rparr>)"
proof -
  obtain c2 where m: "mutate demo_env 5 ControllerAction.Start (demo_controller JournalState.Clean) = (demo_result, c2)"
      "pc_last_action c2 \<noteq> None"
    using demo_start by blast
  have c: "pc_revision (demo_controller JournalState.Clean) = 0" "pc_last_action (demo_controller JournalState.Clean) = None"
    by (simp_all add: demo_controller_def with_journal_def Let_def)
  have "hex_token (ws_csrf_token demo_security)"
    using web_security_token demo_security by (auto simp: web_security_loopback_def)
  moreover have "body_matches (we_from_slice demo_web_env) MutationBody.EmptyObject ''{}''"
    by (simp add: body_matches_def demo_web_env_def)
  moreover have "wa_mutate_if_revision (we_actor demo_web_env) 0 WebMutation.Start demo_actor =
      (Inr demo_result, demo_actor\<lparr>cwa_controller := c2\<rparr>)"
    using m(1) c(1) by (simp add: demo_web_env_def controller_actor_def actor_mutate_cases demo_actor_def
        controller_web_actor_new_def)
  ultimately have "handle demo_web_env demo_request demo_app =
      (action_response (we_to_vec demo_web_env) demo_result, demo_app\<lparr>app_actor := demo_actor\<lparr>cwa_controller := c2\<rparr>\<rparr>)"
    using mutation_handled [of demo_app local_service_client_default "''{}''" demo_web_env WebMutation.Start 0 demo_result
        "demo_actor\<lparr>cwa_controller := c2\<rparr>"]
    by (simp add: demo_request_def demo_app_def demo_security_def local_service_client_default_def DEFAULT_WEB_PORT_def
        Web.MAX_BODY_BYTES_def)
  with m(2) show ?thesis
    by (rule that)
qed

lemma demo_controller_sel:
  "pc_revision (demo_controller JournalState.Clean) = 0" "pc_last_action (demo_controller JournalState.Clean) = None"
  by (simp_all add: demo_controller_def with_journal_def Let_def)

theorem mutation_is_authorised_witness:
  "\<exists>request mutation. parse_request demo_request = Inr request \<and>
     authorised (we_from_slice demo_web_env) demo_security request mutation 0"
proof -
  obtain c2 where m: "pc_last_action c2 \<noteq> None" and h: "handle demo_web_env demo_request demo_app =
      (action_response (we_to_vec demo_web_env) demo_result, demo_app\<lparr>app_actor := demo_actor\<lparr>cwa_controller := c2\<rparr>\<rparr>)"
    by (rule demo_handled)
  have "we_actor demo_web_env = controller_actor demo_env 5"
    by (simp add: demo_web_env_def)
  from mutation_is_authorised [OF this h refl refl] show ?thesis
    using m demo_controller_sel by (auto simp: demo_app_def demo_actor_def controller_web_actor_new_def)
qed

text \<open>
  Whatever \<open>parse_request\<close> accepts is, byte for byte, one complete frame: \<open>request_frame\<close>, which the
  server runs on the bytes read so far, calls it complete, and no byte may follow it: any longer text that
  begins with it is refused by the parser. So what the framing rejects (a second request behind the first, a
  length that lies, an encoding the parser does not know) never reaches a route.
\<close>

theorem parsed_request_is_one_frame:
  assumes "parse_request raw = Inr req"
  shows "request_frame raw = RequestFrame.Complete \<and> length raw \<le> MAX_REQUEST_BYTES
    \<and> is_err (parse_request (raw @ c # t))"
proof -
  have complete: "request_frame raw = RequestFrame.Complete"
    using assms by (rule parsed_is_complete)
  then have "request_frame (raw @ c # t) \<noteq> RequestFrame.Complete"
    by (rule complete_frame_is_final)
  then have "is_err (parse_request (raw @ c # t))"
    using parsed_is_complete by (auto simp: is_ok_iff)
  moreover have "length raw \<le> MAX_REQUEST_BYTES"
    using complete by (auto simp: request_frame_def split: if_splits)
  ultimately show ?thesis
    using complete by simp
qed

lemma demo_parsed: "\<exists>req. parse_request demo_request = Inr req"
proof -
  let ?client = local_service_client_default and ?t = "ws_csrf_token demo_security"
  have t: "hex_token ?t"
    using web_security_token demo_security by (auto simp: web_security_loopback_def)
  note sound = mutation_request_sound [OF t] and sel = mutation_headers_sel [OF t]
  have "parse_request demo_request = Inr (mutation_request ?client 0 ?t WebMutation.Start ''{}'')"
    using client_request_parsed [of "''POST''" "''{}''" "mutation_target WebMutation.Start"
        "mutation_headers ?client 0 ?t" ?client, OF _ sound(1,2) sel(1-3) sound(3,4)]
    unfolding demo_request_def mutation_request_def by (simp add: Web.MAX_BODY_BYTES_def)
  then show ?thesis by blast
qed

theorem parsed_request_is_one_frame_witness:
  "request_frame demo_request = RequestFrame.Complete"
  using demo_parsed parsed_request_is_one_frame by blast

end
