(* ===== verification/Server_Liveness.thy ===== *)
theory Server_Liveness
  imports Web_Server
begin

text \<open>
  The server comes to an end. Its loops are partial functions; when every system call takes time, each of them
  returns, since each is bounded by a deadline, and the accept loop returns once the shutdown flag stays up.
\<close>

text \<open>Every call takes at least one tick of the clock.\<close>

definition slow :: "'w server_net \<Rightarrow> ('w \<Rightarrow> 'r \<times> 'w) \<Rightarrow> bool" where
  "slow net m \<longleftrightarrow> (\<forall>w. sn_now net w < sn_now net (snd (m w)))"

definition takes_time :: "'w server_net \<Rightarrow> bool" where
  "takes_time net \<longleftrightarrow>
     (\<forall>b. slow net (sn_set_nonblocking net b)) \<and> slow net (sn_local_addr net) \<and> slow net (sn_peer_addr net)
     \<and> (\<forall>d. slow net (sn_set_read_timeout net d)) \<and> (\<forall>n. slow net (sn_read net n)) \<and> slow net (sn_peek net)
     \<and> (\<forall>d. slow net (sn_set_write_timeout net d)) \<and> (\<forall>s. slow net (sn_write net s)) \<and> slow net (sn_accept net)
     \<and> (\<forall>d w. sn_now net w < sn_now net (sn_sleep net d w)) \<and> (\<forall>w. sn_now net w < sn_now net (sn_close net w))"

lemma slowD: "slow net m \<Longrightarrow> m w = (r, w') \<Longrightarrow> sn_now net w < sn_now net w'"
  by (metis slow_def snd_conv)

lemma timeD:
  assumes "takes_time net"
  shows "sn_set_nonblocking net b w = (r1, w') \<Longrightarrow> sn_now net w < sn_now net w'"
    and "sn_local_addr net w = (r2, w') \<Longrightarrow> sn_now net w < sn_now net w'"
    and "sn_peer_addr net w = (r2, w') \<Longrightarrow> sn_now net w < sn_now net w'"
    and "sn_set_read_timeout net d w = (r1, w') \<Longrightarrow> sn_now net w < sn_now net w'"
    and "sn_read net n w = (r3, w') \<Longrightarrow> sn_now net w < sn_now net w'"
    and "sn_peek net w = (r4, w') \<Longrightarrow> sn_now net w < sn_now net w'"
    and "sn_set_write_timeout net d w = (r1, w') \<Longrightarrow> sn_now net w < sn_now net w'"
    and "sn_write net reply w = (r4, w') \<Longrightarrow> sn_now net w < sn_now net w'"
    and "sn_accept net w = (r2, w') \<Longrightarrow> sn_now net w < sn_now net w'"
    and "sn_now net w < sn_now net (sn_sleep net d w)" and "sn_now net w < sn_now net (sn_close net w)"
  using assms unfolding takes_time_def by (auto dest: slowD)

lemma has_queued_bytes_time:
  assumes "takes_time net" and "has_queued_bytes net w = (b, w')"
  shows "sn_now net w < sn_now net w'"
  using assms(2) unfolding has_queued_bytes_def
  by (auto simp: Let_def split: prod.splits sum.splits dest!: timeD(1,6) [OF assms(1)])

lemma read_chunk_time:
  assumes "takes_time net" and "read_chunk net deadline limit buffer w = (r, w')"
  shows "sn_now net w < sn_now net w'"
  using assms(2) unfolding read_chunk_def
  by (auto split: prod.splits sum.splits dest!: timeD(5) [OF assms(1)])

lemma read_loop_returns:
  assumes "takes_time net"
  shows "\<exists>outcome w'. read_loop net deadline interval buffer w = Some (outcome, w') \<and> sn_now net w \<le> sn_now net w'"
proof (induction "deadline - sn_now net w" arbitrary: w buffer rule: less_induct)
  case less
  obtain b w1 where q: "has_queued_bytes net w = (b, w1)"
    by fastforce
  obtain r w2 where s: "sn_set_read_timeout net (min (deadline - sn_now net w) interval) w = (r, w2)"
    by fastforce
  obtain c w3 where c: "read_chunk net deadline (min (MAX_REQUEST_BYTES + 1 - length buffer) READ_CHUNK_BYTES) buffer w2 = (c, w3)"
    by fastforce
  note q' = has_queued_bytes_time [OF assms q] and s' = timeD(4) [OF assms s] and c' = read_chunk_time [OF assms c]
  show ?case
  proof (cases "\<not> sn_shutdown net w \<and> request_frame buffer = RequestFrame.Incomplete \<and> sn_now net w < deadline
      \<and> is_ok r \<and> \<not> MAX_REQUEST_BYTES + 1 \<le> length buffer \<and> c \<noteq> None")
    case True
    then obtain buffer' u where "c = Some buffer'" "r = Inr u"
      by (auto simp: is_ok_iff)
    moreover have "deadline - sn_now net w3 < deadline - sn_now net w"
      using True s' c' by linarith
    note less [OF this, of buffer']
    ultimately show ?thesis
      using True s c s' c' by (subst read_loop.simps) fastforce
  next
    case False
    then show ?thesis
      using q s c q' s' c' by (subst read_loop.simps) (auto split: RequestFrame.splits sum.splits option.splits)
  qed
qed

lemma write_loop_returns:
  assumes "takes_time net"
  shows "\<exists>r w'. write_loop net deadline reply w = Some (r, w') \<and> sn_now net w \<le> sn_now net w'"
proof (induction "deadline - sn_now net w" arbitrary: w reply rule: less_induct)
  case less
  obtain r w1 where s: "sn_set_write_timeout net (deadline - sn_now net w) w = (r, w1)"
    by fastforce
  obtain c w2 where c: "sn_write net reply w1 = (c, w2)"
    by fastforce
  note s' = timeD(7) [OF assms s] and c' = timeD(8) [OF assms c]
  have again: "\<exists>r w'. write_loop net deadline reply' w2 = Some (r, w') \<and> sn_now net w \<le> sn_now net w'"
    if "sn_now net w < deadline" for reply'
    using less [of w2 reply'] that s' c' by fastforce
  show ?case
    using s c s' c' again
    by (subst write_loop.simps) (auto split: sum.splits)
qed

lemma answer_returns:
  assumes "takes_time net"
  shows "\<exists>server' w'. answer net env raw server w = Some (server', w') \<and> sn_now net w \<le> sn_now net w'"
proof -
  obtain r w' where "write_with_deadline net (to_http1_bytes (fst (handle env raw (wsv_app server))))
      (wso_write_deadline (wsv_options server)) w = Some (r, w')" "sn_now net w \<le> sn_now net w'"
    using write_loop_returns [OF assms] by (fastforce simp: write_with_deadline_def split: option.splits)
  then show ?thesis
    using timeD(11) [OF assms, of w'] by (auto simp: answer_def Let_def case_prod_unfold)
qed

lemma handle_connection_returns:
  assumes "takes_time net"
  shows "\<exists>server' w'. handle_connection net env peer server w = Some (server', w') \<and> sn_now net w \<le> sn_now net w'"
proof -
  obtain r w1 where r: "sn_set_nonblocking net False w = (r, w1)"
    by fastforce
  obtain t w2 where t: "addresses_are_trusted net (wsv_local_addr server) peer w1 = (t, w2)"
    by fastforce
  have time: "sn_now net w < sn_now net w1" "sn_now net w1 \<le> sn_now net w2"
    using timeD(1) [OF assms r] t
    by (auto simp: addresses_are_trusted_def Let_def split: prod.splits dest!: timeD(2,3) [OF assms])
  obtain outcome w3 where o': "read_one_request net (wso_read_deadline (wsv_options server))
      (wso_accept_poll_interval (wsv_options server)) w2 = Some (outcome, w3)" "sn_now net w2 \<le> sn_now net w3"
    using read_loop_returns [OF assms] by (fastforce simp: read_one_request_def split: option.splits)
  have closed: "sn_now net v < sn_now net (sn_close net v)" for v
    by (rule timeD(11) [OF assms])
  have answered: "\<exists>server' w'. answer net env raw server w3 = Some (server', w') \<and> sn_now net w \<le> sn_now net w'" for raw
    using answer_returns [OF assms, of env raw server w3] time o'(2) by fastforce
  show ?thesis
    using r t o' time answered closed [of w1] closed [of w2] closed [of w3] unfolding handle_connection_def
    by (auto split: sum.splits ReadOutcome.splits)
qed

text \<open>
  C17: a termination signal ends the service. When every system call takes time and the shutdown flag is up
  from some moment on, the accept loop returns the actor, whatever the peers send or withhold: no
  connection can hold it up, since reading and writing one have deadlines.
\<close>

theorem raised_flag_ends_the_service:
  assumes "takes_time net" and "\<forall>w. T \<le> sn_now net w \<longrightarrow> sn_shutdown net w"
  shows "\<exists>r w'. serve net env server w = Some (r, w')"
proof (induction "T - sn_now net w" arbitrary: w server rule: less_induct)
  case less
  obtain r w1 where a: "sn_accept net w = (r, w1)"
    by fastforce
  note a' = timeD(9) [OF assms(1) a]
  show ?case
  proof (cases "sn_shutdown net w")
    case True
    then show ?thesis
      by (subst serve.simps) simp
  next
    case False
    then have below: "sn_now net w < T"
      using assms(2) not_less by blast
    have again: "\<exists>r w'. serve net env server' v = Some (r, w')" if "sn_now net w < sn_now net v" for server' v
      using that below by (intro less) linarith
    show ?thesis
    proof (cases r)
      case (Inr peer)
      obtain server' w2 where "handle_connection net (env w1) peer server w1 = Some (server', w2)" "sn_now net w1 \<le> sn_now net w2"
        using handle_connection_returns [OF assms(1)] by blast
      with False a a' Inr again [of w2 server'] show ?thesis
        by (subst serve.simps) auto
    next
      case (Inl e)
      have "sn_now net w < sn_now net (sn_sleep net (wso_accept_poll_interval (wsv_options server)) w1)"
        using timeD(10) [OF assms(1)] a' less_trans by blast
      with False a a' Inl again show ?thesis
        by (subst serve.simps) auto
    qed
  qed
qed

definition ticking_net :: "nat server_net" where
  "ticking_net =
     \<lparr>sn_now = (\<lambda>w. w), sn_shutdown = (\<lambda>w. 100 \<le> w), sn_rand_bytes = (\<lambda>n w. (Inr (replicate n 0), Suc w)),
      sn_bind = (\<lambda>_ w. (Inr (), Suc w)), sn_listener_addr = (\<lambda>w. (Inl io_error.OtherError, Suc w)),
      sn_listener_nonblocking = (\<lambda>w. (Inr (), Suc w)), sn_accept = (\<lambda>w. (Inl io_error.WouldBlock, Suc w)),
      sn_sleep = (\<lambda>d w. Suc (w + d)), sn_set_nonblocking = (\<lambda>_ w. (Inr (), Suc w)),
      sn_local_addr = (\<lambda>w. (Inl io_error.OtherError, Suc w)), sn_peer_addr = (\<lambda>w. (Inl io_error.OtherError, Suc w)),
      sn_set_read_timeout = (\<lambda>_ w. (Inr (), Suc w)), sn_read = (\<lambda>_ w. (Inl io_error.TimedOut, Suc w)),
      sn_peek = (\<lambda>w. (Inr 0, Suc w)), sn_set_write_timeout = (\<lambda>_ w. (Inr (), Suc w)),
      sn_write = (\<lambda>s w. (Inr (length s), Suc w)), sn_close = Suc\<rparr>"

theorem raised_flag_ends_the_service_witness:
  "\<forall>(env :: nat \<Rightarrow> unit web_env) server. \<exists>r w'. serve ticking_net env server 0 = Some (r, w')"
proof (intro allI)
  fix env :: "nat \<Rightarrow> unit web_env" and server
  show "\<exists>r w'. serve ticking_net env server 0 = Some (r, w')"
    by (rule raised_flag_ends_the_service [of _ 100]) (simp_all add: takes_time_def slow_def ticking_net_def)
qed

end
