(* ===== verification/Config_Round_Trip.thy ===== *)
theory Config_Round_Trip
  imports Config_Load
begin

text \<open>
  What the installer writes, the loader reads back. The lemmas say when trimming leaves a text alone, how a
  text of lines is split again, and that the entries of an installed configuration parse to its settings.
\<close>

subsection \<open>Trimmed texts\<close>

definition trimmed :: "string \<Rightarrow> bool" where
  "trimmed s \<longleftrightarrow> (\<forall>w \<in> set unicode_spaces. \<not> starts_with s w \<and> \<not> starts_with (rev s) (rev w))"

lemma spaces_not_graphic: "\<forall>w \<in> set unicode_spaces. w \<noteq> [] \<and> (\<forall>c \<in> set w. \<not> is_graphic c)"
  by (simp add: unicode_spaces_def is_graphic_def)

lemma starts_with_Nil [simp]: "starts_with [] w \<longleftrightarrow> w = []"
  by (auto simp: starts_with_def)

lemma starts_with_iff: "starts_with s p \<longleftrightarrow> (\<exists>r. s = p @ r)"
  by (metis starts_with_append strip_prefix_Some strip_prefix_def)

lemma starts_with_take: "starts_with (take k x) w \<Longrightarrow> starts_with x w"
  by (metis append.assoc append_take_drop_id starts_with_iff)

lemma starts_with_append_cases:
  assumes "starts_with (a @ b) w"
  shows "starts_with a w \<or> b \<noteq> [] \<and> hd b \<in> set w"
proof -
  obtain r where "a @ b = w @ r"
    using assms starts_with_iff by blast
  then consider us where "a = w @ us" | u us where "w = a @ u # us" "b = u # us @ r"
    by (auto simp: append_eq_append_conv2) (metis append_Cons append_Nil append_Nil2 neq_Nil_conv)
  then show ?thesis
    by cases (auto simp: starts_with_iff)
qed

lemma strip_any_suffix: "\<exists>k. strip_any n seps s = drop k s"
proof (induction n arbitrary: s)
  case 0
  show ?case
    by (intro exI [of _ 0]) simp
next
  case (Suc n)
  then show ?case
    by (auto split: option.splits) (metis drop_0, metis drop_drop)
qed

lemma strip_any_done:
  "length s \<le> n \<Longrightarrow> w \<in> set seps \<Longrightarrow> w \<noteq> [] \<Longrightarrow> \<not> starts_with (strip_any n seps s) w"
proof (induction n arbitrary: s)
  case (Suc n)
  show ?case
  proof (cases "find (\<lambda>w. w \<noteq> [] \<and> starts_with s w) seps")
    case None
    then have "\<not> starts_with s w"
      using Suc.prems by (auto simp: find_None_iff)
    with None show ?thesis
      by simp
  next
    case (Some u)
    then have "u \<noteq> []"
      by (auto simp: find_Some_iff)
    then have "length (drop (length u) s) \<le> n"
      using Suc.prems(1) by (cases u) auto
    with Suc Some show ?thesis
      by simp
  qed
qed simp

lemma trimmed_trim: "trimmed (trim s)"
  unfolding trimmed_def
proof
  fix w
  assume w: "w \<in> set unicode_spaces"
  then have "w \<noteq> []"
    using spaces_not_graphic by blast
  obtain k where "trim_end (trim_start s) = rev (drop k (rev (trim_start s)))"
    unfolding trim_end_def using strip_any_suffix by metis
  then have "trim s = take (length (trim_start s) - k) (trim_start s)"
    by (simp add: trim_def rev_drop)
  moreover have "\<not> starts_with (trim_start s) w"
    using w \<open>w \<noteq> []\<close> by (simp add: trim_start_def strip_any_done)
  moreover have "\<not> starts_with (rev (trim s)) (rev w)"
    using w \<open>w \<noteq> []\<close> by (simp add: trim_def trim_end_def strip_any_done)
  ultimately show "\<not> starts_with (trim s) w \<and> \<not> starts_with (rev (trim s)) (rev w)"
    using starts_with_take by metis
qed

lemma trim_trimmed: "trimmed s \<Longrightarrow> trim s = s"
proof -
  assume s: "trimmed s"
  have "trim_start s = s"
    using s by (auto simp: trim_start_def trimmed_def intro!: strip_any_none)
  moreover have "strip_any (length s) (map rev unicode_spaces) (rev s) = rev s"
    using s by (intro strip_any_none) (auto simp: trimmed_def)
  then have "trim_end s = s"
    by (simp add: trim_end_def)
  ultimately show ?thesis
    by (simp add: trim_def)
qed

lemma trim_iff_trimmed: "trim s = s \<longleftrightarrow> trimmed s"
  by (metis trimmed_trim trim_trimmed)

lemma trimmed_graphic: "list_all is_graphic s \<Longrightarrow> trimmed s"
  using trim_graphic trim_iff_trimmed by blast

lemma trimmed_prefixed:
  assumes "k \<noteq> []" and "is_graphic (hd k)" and "is_graphic (last k)" and "trimmed v"
  shows "trimmed (k @ v)"
  unfolding trimmed_def
proof
  fix w
  assume w: "w \<in> set unicode_spaces"
  then have n: "w \<noteq> []" "\<And>c. is_graphic c \<Longrightarrow> c \<notin> set w"
    using spaces_not_graphic by blast+
  have "\<not> starts_with (k @ v) w"
    using starts_with_hd [of w "k @ v"] n assms(1,2) by (metis hd_append2 hd_in_set)
  moreover have "\<not> starts_with (rev v @ rev k) (rev w)"
    using starts_with_append_cases [of "rev v" "rev k" "rev w"] assms w n(2) [OF assms(3)]
    by (auto simp: trimmed_def hd_rev)
  ultimately show "\<not> starts_with (k @ v) w \<and> \<not> starts_with (rev (k @ v)) (rev w)"
    by simp
qed

subsection \<open>Lines and entries\<close>

lemma strip_cr_none: "CHR 0x0D \<notin> set l \<Longrightarrow> strip_cr l = l"
  by (auto simp: strip_cr_def strip_suffix_Some split: option.splits)

lemma split_char_lines:
  "\<forall>l \<in> set ls. c \<notin> set l \<Longrightarrow> split_char c (concat (map (\<lambda>l. l @ [c]) ls)) = ls @ [[]]"
  by (induction ls) (auto simp: split_char_append)

lemma str_lines_written:
  assumes "\<forall>l \<in> set ls. CHR 0x0A \<notin> set l \<and> CHR 0x0D \<notin> set l"
  shows "str_lines (concat (map (\<lambda>l. l @ [CHR 0x0A]) ls)) = ls"
proof -
  have "split_char (CHR 0x0A) (concat (map (\<lambda>l. l @ [CHR 0x0A]) ls)) = ls @ [[]]"
    using assms by (intro split_char_lines) blast
  moreover have "map strip_cr ls = ls"
    using assms by (intro map_idI) (simp add: strip_cr_none)
  ultimately show ?thesis
    by (simp add: str_lines_def)
qed

text \<open>A value the parser reads as it is written.\<close>

definition plain_value :: "string \<Rightarrow> bool" where
  "plain_value v \<longleftrightarrow> v \<noteq> [] \<and> trimmed v \<and> hd v \<notin> {CHR 0x27, CHR 0x22} \<and> set v \<inter> {CHR 0x0A, CHR 0x0D} = {}"

definition entry_line :: "string \<times> string \<Rightarrow> string" where
  "entry_line e = fst e @ ''='' @ snd e"

lemma allowed_keys:
  "\<forall>k \<in> set ALLOWED_KEYS. k \<noteq> [] \<and> list_all is_graphic k \<and> CHR ''='' \<notin> set k \<and> hd k \<noteq> CHR ''#''"
  by (simp add: ALLOWED_KEYS_def is_graphic_def)

lemma parse_entry:
  assumes "k \<in> set ALLOWED_KEYS" and "plain_value v" and "values k = None"
  shows "parse_config_lines (entry_line (k, v) # ls) values = parse_config_lines ls (values(k \<mapsto> v))"
proof -
  have k: "k \<noteq> []" "list_all is_graphic k" "CHR ''='' \<notin> set k" "hd k \<noteq> CHR ''#''"
    using assms(1) allowed_keys by blast+
  have "trimmed ((k @ ''='') @ v)"
    using assms(2) k(1,2) by (intro trimmed_prefixed) (cases k; simp add: is_graphic_def plain_value_def)+
  then have "trim (entry_line (k, v)) = entry_line (k, v)"
    by (simp add: entry_line_def trim_trimmed)
  moreover have "\<not> starts_with (entry_line (k, v)) ''#''" "entry_line (k, v) \<noteq> []"
    using k(1,4) by (cases k; simp add: entry_line_def starts_with_def)+
  moreover have "split_once (CHR ''='') (entry_line (k, v)) = Some (k, v)"
    using split_once_append [OF k(3)] by (simp add: entry_line_def)
  moreover have "unquoted (trim v) = v"
    using assms(2) by (auto simp: plain_value_def unquoted_def trim_trimmed)
  ultimately show ?thesis
    using assms(1,3) trim_graphic [OF k(2)] by (simp add: Let_def)
qed

lemma parse_entries:
  assumes "\<forall>(k, v) \<in> set es. k \<in> set ALLOWED_KEYS \<and> plain_value v" and "distinct (map fst es)"
    and "\<forall>k \<in> fst ` set es. values k = None"
  shows "parse_config_lines (map entry_line es) values = Inr (values ++ map_of es)"
  using assms
proof (induction es arbitrary: "values")
  case (Cons e es)
  obtain k v where e: "e = (k, v)"
    by fastforce
  have "parse_config_lines (map entry_line (e # es)) values = parse_config_lines (map entry_line es) (values(k \<mapsto> v))"
    using Cons.prems e parse_entry [of k v "values"] by simp
  also have "\<dots> = Inr (values(k \<mapsto> v) ++ map_of es)"
    using Cons.prems e by (intro Cons.IH) auto
  also have "values(k \<mapsto> v) ++ map_of es = values ++ map_of (e # es)"
    using Cons.prems(2) e by (simp add: map_add_upd_left dom_map_of_conv_image_fst)
  finally show ?case .
qed simp

lemma utf8_append: "utf8_valid a \<Longrightarrow> utf8_valid b \<Longrightarrow> utf8_valid (a @ b)"
proof (induction a rule: utf8_valid.induct)
  case (2 x xs)
  consider "byte x < 0x80" | "0xC2 \<le> byte x" "byte x \<le> 0xDF" | "0xE0 \<le> byte x" "byte x \<le> 0xEF"
    | "0xF0 \<le> byte x" "byte x \<le> 0xF4"
    using 2(5) by (simp only: utf8_valid.simps split: if_splits)
  then show ?case
  proof cases
    case 1
    with 2 show ?thesis by simp
  next
    case c: 2
    obtain b ys where "xs = b # ys"
      using 2(5) c by (cases xs) simp_all
    with 2 c show ?thesis by simp
  next
    case c: 3
    obtain b c ys where "xs = b # c # ys"
      using 2(5) c by (cases xs; cases "tl xs") simp_all
    with 2 c show ?thesis by simp
  next
    case c: 4
    obtain b c d ys where "xs = b # c # d # ys"
      using 2(5) c by (cases xs; cases "tl xs"; cases "tl (tl xs)") simp_all
    with 2 c show ?thesis by simp
  qed
qed simp

subsection \<open>Loaded configurations\<close>

lemma required_setting_Inr: "required values key = Inr v \<longleftrightarrow> (\<exists>raw. values key = Some raw \<and> v = trim raw \<and> v \<noteq> [])"
  by (auto simp: required_def split: option.splits)

lemma path_join_absolute:
  assumes "is_absolute d" and "trimmed v"
  shows "is_absolute (path_join d v) \<and> trimmed (path_join d v)"
proof -
  have d: "d \<noteq> []" "hd d = CHR ''/''"
    using assms(1) starts_with_hd [of "''/''" d] by (auto simp: is_absolute_def)
  obtain k where k: "path_join d v = k @ v" "k \<noteq> []" "hd k = CHR ''/''" "last k = CHR ''/''"
  proof (cases "ends_with d ''/''")
    case True
    then have "last d = CHR ''/''"
      by (metis last_snoc strip_suffix_Some strip_suffix_def)
    with True d show ?thesis
      by (intro that [of d]) (simp_all add: path_join_def)
  next
    case False
    with d show ?thesis
      by (intro that [of "d @ ''/''"]) (simp_all add: path_join_def)
  qed
  have "is_absolute (k @ v)"
    using k(2,3) by (cases k) (simp_all add: is_absolute_def starts_with_def)
  moreover have "trimmed (k @ v)"
    using k(2-4) assms(2) by (intro trimmed_prefixed) (simp_all add: is_graphic_def)
  ultimately show ?thesis
    by (simp add: k(1))
qed

text \<open>What a configuration built from the environment alone satisfies.\<close>

definition loaded_config :: "RuntimeConfig \<Rightarrow> bool" where
  "loaded_config c \<longleftrightarrow>
     trimmed (rc_address c) \<and> trimmed (rc_tls_sha256 c) \<and>
     is_absolute (rc_certificate c) \<and> trimmed (rc_certificate c) \<and>
     is_absolute (rc_private_key c) \<and> trimmed (rc_private_key c) \<and>
     valid_identity (rc_jbl_identity c) \<and> valid_identity (rc_aura_identity c) \<and>
     rc_jbl_identity c \<noteq> rc_aura_identity c \<and>
     (\<exists>n \<in> {1..30}. rc_timeout c = from_secs n) \<and> 1024 \<le> unat (rc_gena_callback_port c)"

lemma resolve_without_config:
  assumes "resolve_path env v None = Inr p" and "trimmed v" and "\<forall>d. pe_current_dir env = Inr d \<longrightarrow> is_absolute d"
  shows "is_absolute p \<and> trimmed p"
  using assms path_join_absolute by (auto simp: resolve_path_def split: if_splits sum.splits)

lemma loaded_without_file:
  assumes "config_from_values env None values = Inr c" and "\<forall>d. pe_current_dir env = Inr d \<longrightarrow> is_absolute d"
  shows "loaded_config c"
proof -
  obtain cv kv t p b j a addr cert key tls where
      r: "required values ''JBL_LOCAL_API_CERT'' = Inr cv" "required values ''JBL_LOCAL_API_KEY'' = Inr kv"
        "timeout_setting values = Inr t" "port_setting values = Inr p"
        "identity_setting values ''JBL_BT_MAC'' = Inr j" "identity_setting values ''AURA_BT_MAC'' = Inr a"
        "required values ''JBL_IP'' = Inr addr" "resolve_path env cv None = Inr cert" "resolve_path env kv None = Inr key"
        "required values ''JBL_LOCAL_API_TLS_SHA256'' = Inr tls" "j \<noteq> a"
      and c: "rc_address c = addr" "rc_certificate c = cert" "rc_private_key c = key" "rc_tls_sha256 c = tls"
        "rc_jbl_identity c = j" "rc_aura_identity c = a" "rc_timeout c = from_secs t" "rc_gena_callback_port c = p"
    using assms(1) unfolding config_from_values_def by (auto split: if_splits)
  have "trimmed addr" "trimmed tls" "trimmed cv" "trimmed kv"
    using r(1,2,7,10) trimmed_trim by (auto simp: required_setting_Inr)
  moreover have "is_absolute cert \<and> trimmed cert" "is_absolute key \<and> trimmed key"
    using r(8,9) assms(2) resolve_without_config calculation(3,4) by blast+
  moreover have "valid_identity j" "valid_identity a"
    using r(5,6) parse_valid by (auto simp: identity_setting_def)
  moreover have "1 \<le> t \<and> t \<le> 30"
    using r(3) by (auto simp: timeout_setting_def split: option.splits if_splits)
  moreover have "1024 \<le> unat p"
    using r(4) by (auto simp: port_setting_def DEFAULT_GENA_CALLBACK_PORT_def parse_unsigned_def Let_def
        unat_of_nat take_bit_eq_mod split: option.splits if_splits)
  ultimately show ?thesis
    using c r(11) by (auto simp: loaded_config_def)
qed

lemma graphic_plain: "s \<noteq> [] \<Longrightarrow> list_all is_graphic s \<Longrightarrow> hd s \<notin> {CHR 0x27, CHR 0x22} \<Longrightarrow> plain_value s"
  by (auto simp: plain_value_def trimmed_graphic list_all_iff is_graphic_def)

lemma safe_plain: "safe_config_value s \<Longrightarrow> trimmed s \<Longrightarrow> plain_value s"
  by (auto simp: plain_value_def safe_config_value_def)

lemma digits_plain: "plain_value (show_nat n)"
proof -
  have d: "show_nat n \<noteq> []" "list_all is_ascii_digit (show_nat n)"
    using show_nat_sel by blast+
  then have "list_all is_graphic (show_nat n)"
    by (auto simp: list_all_iff is_graphic_def is_ascii_digit_iff)
  moreover have "hd (show_nat n) \<notin> {CHR 0x27, CHR 0x22}"
    using d by (cases "show_nat n") (auto simp: is_ascii_digit_iff)
  ultimately show ?thesis
    using d(1) by (intro graphic_plain)
qed

lemma hex_digit_lower_no_quote: "n < 16 \<Longrightarrow> hex_digit_lower n \<notin> {CHR 0x27, CHR 0x22}"
  by (drule less_16_cases) (elim insertE emptyE; simp add: hex_digit_lower_def char_of_def bit_Suc_0_iff)

lemma identity_plain: "valid_identity d \<Longrightarrow> plain_value (compact_config_value d)"
proof -
  assume "valid_identity d"
  then obtain b bs where b: "binary d = b # bs"
    by (cases "binary d") (auto simp: valid_identity_def)
  have "list_all is_graphic (compact_config_value d)"
    using hex2_graphic(1) by (auto simp: compact_config_value_def list_all_iff)
  moreover have "hd (compact_config_value d) \<notin> {CHR 0x27, CHR 0x22}"
    using hex_digit_lower_no_quote [of "unat b div 16"] by (simp add: compact_config_value_def b hex2_lower_def)
  moreover have "compact_config_value d \<noteq> []"
    by (simp add: compact_config_value_def b hex2_lower_def)
  ultimately show ?thesis
    by (intro graphic_plain)
qed

lemma confirmation_plain: "plain_value (confirmation_name b)"
  by (cases b) (auto intro!: graphic_plain simp: is_graphic_def)

lemma config_entries_plain:
  assumes "loaded_config c" and "config_is_writable c" and "trimmed (rc_expected_model c)"
  shows "\<forall>(k, v) \<in> set (config_entries c). k \<in> set ALLOWED_KEYS \<and> plain_value v"
proof -
  have "plain_value (rc_address c)" "plain_value (rc_expected_model c)" "plain_value (rc_certificate c)"
      "plain_value (rc_private_key c)" "plain_value (rc_tls_sha256 c)"
    using assms by (auto simp: loaded_config_def config_is_writable_def intro!: safe_plain)
  moreover have "plain_value (compact_config_value (rc_jbl_identity c))"
      "plain_value (compact_config_value (rc_aura_identity c))"
    using assms(1) identity_plain by (auto simp: loaded_config_def)
  ultimately show ?thesis
    by (simp add: config_entries_def ALLOWED_KEYS_def digits_plain confirmation_plain)
qed

lemma parse_payload:
  assumes "\<forall>(k, v) \<in> set (config_entries c). k \<in> set ALLOWED_KEYS \<and> plain_value v"
  shows "parse_config_text (config_payload c) = Inr (map_of (config_entries c))"
proof -
  have p: "config_payload c = concat (map (\<lambda>l. l @ [CHR 0x0A]) (map entry_line (config_entries c)))"
    by (simp add: config_payload_def entry_line_def case_prod_unfold comp_def)
  have "CHR 0x0A \<notin> set (entry_line e) \<and> CHR 0x0D \<notin> set (entry_line e)" if "e \<in> set (config_entries c)" for e
  proof -
    have "list_all is_graphic (fst e)" "plain_value (snd e)"
      using assms that allowed_keys by (auto simp: case_prod_unfold)
    then show ?thesis
      by (auto simp: entry_line_def plain_value_def list_all_iff is_graphic_def)
  qed
  then have "str_lines (config_payload c) = map entry_line (config_entries c)"
    unfolding p by (intro str_lines_written) auto
  moreover have "distinct (map fst (config_entries c))"
    by (simp add: config_entries_def)
  ultimately show ?thesis
    using parse_entries [OF assms, of Map.empty] by (simp add: parse_config_text_def)
qed

lemma config_from_entries:
  assumes "loaded_config c" and "\<forall>(k, v) \<in> set (config_entries c). k \<in> set ALLOWED_KEYS \<and> plain_value v"
  shows "config_from_values env path (map_of (config_entries c)) = Inr c"
proof -
  let ?m = "map_of (config_entries c)"
  have req: "required ?m k = Inr v" if "(k, v) \<in> set (config_entries c)" for k v
  proof -
    have "?m k = Some v"
      using that by (intro map_of_is_SomeI) (simp_all add: config_entries_def)
    moreover have "v \<noteq> []" "trim v = v"
      using assms(2) that by (auto simp: plain_value_def trim_trimmed)
    ultimately show ?thesis
      by (simp add: required_setting_Inr)
  qed
  obtain n where n: "1 \<le> n" "n \<le> 30" "rc_timeout c = from_secs n"
    using assms(1) by (auto simp: loaded_config_def)
  then have t: "timeout_setting ?m = Inr n"
    by (simp add: timeout_setting_def config_entries_def from_secs_def parse_unsigned_show)
  have "unat (rc_gena_callback_port c) \<le> 65535"
    using unsigned_less [of "rc_gena_callback_port c", where ?'a = nat] by simp
  then have p: "port_setting ?m = Inr (rc_gena_callback_port c)"
    using assms(1) by (simp add: port_setting_def config_entries_def parse_unsigned_show loaded_config_def)
  have b: "confirmation_setting ?m = Inr (rc_broadcast_confirmation c)"
    by (cases "rc_broadcast_confirmation c") (simp_all add: confirmation_setting_def config_entries_def)
  have i: "identity_setting ?m ''JBL_BT_MAC'' = Inr (rc_jbl_identity c)"
      "identity_setting ?m ''AURA_BT_MAC'' = Inr (rc_aura_identity c)"
    using assms(1) req [of "''JBL_BT_MAC''" "compact_config_value (rc_jbl_identity c)"]
      req [of "''AURA_BT_MAC''" "compact_config_value (rc_aura_identity c)"]
    by (simp_all add: identity_setting_def loaded_config_def parse_compact and_then_def config_entries_def)
  have r: "required ?m ''JBL_IP'' = Inr (rc_address c)"
      "required ?m ''JBL_LOCAL_API_CERT'' = Inr (rc_certificate c)"
      "required ?m ''JBL_LOCAL_API_KEY'' = Inr (rc_private_key c)"
      "required ?m ''JBL_LOCAL_API_TLS_SHA256'' = Inr (rc_tls_sha256 c)"
    by (rule req, simp add: config_entries_def)+
  have m: "?m ''JBL_EXPECTED_MODEL'' = Some (rc_expected_model c)"
    by (simp add: config_entries_def)
  have "resolve_path env (rc_certificate c) path = Inr (rc_certificate c)"
      "resolve_path env (rc_private_key c) path = Inr (rc_private_key c)"
    using assms(1) by (simp_all add: resolve_path_def loaded_config_def)
  then show ?thesis
    using assms(1) n by (simp add: config_from_values_def and_then_def t p b i r m loaded_config_def)
qed

lemma utf8_payload:
  assumes "\<forall>(k, v) \<in> set (config_entries c). k \<in> set ALLOWED_KEYS \<and> utf8_valid v"
  shows "utf8_valid (config_payload c)"
proof -
  have line: "utf8_valid (k @ ''='' @ v @ [CHR 0x0A])" if "(k, v) \<in> set (config_entries c)" for k v
  proof -
    have "all_ascii k"
      using assms that allowed_keys by (force simp: all_ascii_def list_all_iff is_graphic_def)
    then have "utf8_valid k"
      by (rule all_ascii_utf8)
    moreover have "utf8_valid v"
      using assms that by blast
    ultimately show ?thesis
      by (intro utf8_append) simp_all
  qed
  have "\<forall>e \<in> set es. utf8_valid (f e) \<Longrightarrow> utf8_valid (concat (map f es))" for f :: "string \<times> string \<Rightarrow> string" and es
    by (induction es) (simp_all add: utf8_append)
  with line show ?thesis
    by (auto simp: config_payload_def case_prod_unfold)
qed

lemma utf8_entries:
  assumes "loaded_config c" and "config_is_writable c"
    and "list_all utf8_valid [rc_address c, rc_tls_sha256 c, rc_expected_model c]"
  shows "\<forall>(k, v) \<in> set (config_entries c). k \<in> set ALLOWED_KEYS \<and> utf8_valid v"
proof -
  have g: "list_all is_graphic s \<Longrightarrow> utf8_valid s" for s
    by (rule all_ascii_utf8) (auto simp: all_ascii_def list_all_iff is_graphic_def)
  have "list_all is_graphic (show_nat n)" for n
    using show_nat_sel [of n] by (auto simp: list_all_iff is_graphic_def is_ascii_digit_iff)
  moreover have "list_all is_graphic (compact_config_value d)" for d
    using hex2_graphic(1) by (auto simp: compact_config_value_def list_all_iff)
  moreover have "list_all is_graphic (confirmation_name b)" for b
    by (cases b) (simp_all add: is_graphic_def)
  ultimately show ?thesis
    using assms by (simp add: config_entries_def ALLOWED_KEYS_def config_is_writable_def g)
qed

text \<open>Each field of a configuration is read from its own setting.\<close>

lemma config_from_values_sel:
  assumes "config_from_values env path values = Inr c"
  obtains cv kv t where "required values ''JBL_LOCAL_API_CERT'' = Inr cv" and "required values ''JBL_LOCAL_API_KEY'' = Inr kv"
    and "resolve_path env cv path = Inr (rc_certificate c)" and "resolve_path env kv path = Inr (rc_private_key c)"
    and "timeout_setting values = Inr t" and "rc_timeout c = from_secs t"
    and "port_setting values = Inr (rc_gena_callback_port c)"
    and "confirmation_setting values = Inr (rc_broadcast_confirmation c)"
    and "identity_setting values ''JBL_BT_MAC'' = Inr (rc_jbl_identity c)"
    and "identity_setting values ''AURA_BT_MAC'' = Inr (rc_aura_identity c)"
    and "required values ''JBL_IP'' = Inr (rc_address c)"
    and "required values ''JBL_LOCAL_API_TLS_SHA256'' = Inr (rc_tls_sha256 c)"
    and "rc_expected_model c = (case values ''JBL_EXPECTED_MODEL'' of Some m \<Rightarrow> m | None \<Rightarrow> ''JBL Authentics 300'')"
  using assms that unfolding config_from_values_def by (auto split: if_splits)

lemma same_setting_same_entry:
  assumes "config_from_values env path values = Inr c" and "config_from_values env path values' = Inr c'"
    and "k \<in> set ALLOWED_KEYS" and "values' k = values k"
  shows "map_of (config_entries c') k = map_of (config_entries c) k"
  using assms(1)
proof (cases rule: config_from_values_sel)
  case a: (1 cv kv t)
  show ?thesis
    using assms(2)
  proof (cases rule: config_from_values_sel)
    case b: (1 cv' kv' t')
    have cong: "required values' k = required values k" "identity_setting values' k = identity_setting values k"
      using assms(4) by (simp_all add: Config_Load.required_def identity_setting_def)
    have 1: "rc_address c' = rc_address c" if "k = ''JBL_IP''"
      using cong(1) a(11) b(11) unfolding that by simp
    have 2: "rc_tls_sha256 c' = rc_tls_sha256 c" if "k = ''JBL_LOCAL_API_TLS_SHA256''"
      using cong(1) a(12) b(12) unfolding that by simp
    have 3: "rc_certificate c' = rc_certificate c" if "k = ''JBL_LOCAL_API_CERT''"
      using cong(1) a(1,3) b(1,3) unfolding that by simp
    have 4: "rc_private_key c' = rc_private_key c" if "k = ''JBL_LOCAL_API_KEY''"
      using cong(1) a(2,4) b(2,4) unfolding that by simp
    have 5: "rc_jbl_identity c' = rc_jbl_identity c" if "k = ''JBL_BT_MAC''"
      using cong(2) a(9) b(9) unfolding that by simp
    have 6: "rc_aura_identity c' = rc_aura_identity c" if "k = ''AURA_BT_MAC''"
      using cong(2) a(10) b(10) unfolding that by simp
    have 7: "rc_timeout c' = rc_timeout c" if "k = ''JBL_LOCAL_API_TIMEOUT''"
    proof -
      have "timeout_setting values' = timeout_setting values"
        unfolding timeout_setting_def assms(4) [unfolded that] ..
      then show ?thesis
        using a(5,6) b(5,6) by simp
    qed
    have 8: "rc_gena_callback_port c' = rc_gena_callback_port c" if "k = ''JBL_GENA_CALLBACK_PORT''"
    proof -
      have "port_setting values' = port_setting values"
        unfolding port_setting_def assms(4) [unfolded that] ..
      then show ?thesis
        using a(7) b(7) by simp
    qed
    have 9: "rc_broadcast_confirmation c' = rc_broadcast_confirmation c" if "k = ''JBL_BROADCAST_CONFIRMATION''"
    proof -
      have "confirmation_setting values' = confirmation_setting values"
        unfolding confirmation_setting_def assms(4) [unfolded that] ..
      then show ?thesis
        using a(8) b(8) by simp
    qed
    have 10: "rc_expected_model c' = rc_expected_model c" if "k = ''JBL_EXPECTED_MODEL''"
      using a(13) b(13) unfolding assms(4) [unfolded that] by simp
    note fields = 1 2 3 4 5 6 7 8 9 10
    have "k = ''JBL_IP'' \<or> k = ''JBL_LOCAL_API_CERT'' \<or> k = ''JBL_LOCAL_API_KEY'' \<or> k = ''JBL_LOCAL_API_TLS_SHA256'' \<or>
        k = ''JBL_LOCAL_API_TIMEOUT'' \<or> k = ''JBL_GENA_CALLBACK_PORT'' \<or> k = ''JBL_BROADCAST_CONFIRMATION'' \<or>
        k = ''JBL_BT_MAC'' \<or> k = ''JBL_EXPECTED_MODEL'' \<or> k = ''AURA_BT_MAC''"
      using assms(3) unfolding ALLOWED_KEYS_def list.set insert_iff empty_iff HOL.simp_thms .
    then show ?thesis
      by (elim disjE) (frule fields, simp add: config_entries_def)+
  qed
qed

lemma overrides_from_sel:
  "overrides_from env ks vs = Inr overrides \<Longrightarrow> pe_var_os env k = None \<Longrightarrow> overrides k = vs k"
  by (induction ks arbitrary: vs) (auto split: option.splits if_splits)

lemma no_overrides: "\<forall>k \<in> set ks. pe_var_os env k = None \<Longrightarrow> overrides_from env ks vs = Inr vs"
  by (induction ks) simp_all


definition example_settings :: settings where
  "example_settings =
     [''JBL_IP'' \<mapsto> '' 192.0.2.10'', ''JBL_LOCAL_API_CERT'' \<mapsto> ''/p/cert.pem'', ''JBL_LOCAL_API_KEY'' \<mapsto> ''key.pem'',
      ''JBL_LOCAL_API_TLS_SHA256'' \<mapsto> ''00'', ''JBL_BT_MAC'' \<mapsto> ''020000000002'', ''AURA_BT_MAC'' \<mapsto> ''020000000001'']"

definition example_env :: process_env where
  "example_env = \<lparr>pe_var_os = example_settings, pe_current_dir = Inr ''/home''\<rparr>"

definition example_config :: RuntimeConfig where
  "example_config =
     \<lparr>rc_address = ''192.0.2.10'', rc_certificate = ''/p/cert.pem'', rc_private_key = ''/home/key.pem'',
      rc_tls_sha256 = ''00'', rc_jbl_identity = example_jbl, rc_expected_model = ''JBL Authentics 300'',
      rc_aura_identity = example_aura, rc_timeout = from_secs 5, rc_gena_callback_port = 8098,
      rc_broadcast_confirmation = BroadcastConfirmation.Ack\<rparr>"

lemma example_loads: "config_from_values example_env None example_settings = Inr example_config"
proof -
  have r: "required example_settings ''JBL_IP'' = Inr ''192.0.2.10''"
      "required example_settings ''JBL_LOCAL_API_CERT'' = Inr ''/p/cert.pem''"
      "required example_settings ''JBL_LOCAL_API_KEY'' = Inr ''key.pem''"
      "required example_settings ''JBL_LOCAL_API_TLS_SHA256'' = Inr ''00''"
    by code_simp+
  have i: "identity_setting example_settings ''JBL_BT_MAC'' = Inr example_jbl"
      "identity_setting example_settings ''AURA_BT_MAC'' = Inr example_aura"
    by code_simp+
  have "timeout_setting example_settings = Inr 5"
    by (simp add: timeout_setting_def example_settings_def parse_unsigned_def digits_value_def is_ascii_digit_def)
  moreover have "resolve_path example_env ''/p/cert.pem'' None = Inr ''/p/cert.pem''"
      "resolve_path example_env ''key.pem'' None = Inr ''/home/key.pem''"
    by code_simp+
  ultimately show ?thesis
    using r i
    by (simp add: config_from_values_def and_then_def port_setting_def confirmation_setting_def
        DEFAULT_GENA_CALLBACK_PORT_def DEFAULT_BROADCAST_CONFIRMATION_def example_config_def example_settings_def)
qed

definition payload_os :: "string \<Rightarrow> unit file_os" where
  "payload_os p =
     \<lparr>fo_geteuid = (\<lambda>_. 1000), fo_openat2_no_symlinks = (\<lambda>_ w. (Inr 3, w)),
      fo_fstat = (\<lambda>_ w. (Inr \<lparr>st_uid = 1000, st_mode = 0x8180, st_size = length p, st_nlink = 1\<rparr>, w)),
      fo_read_up_to = (\<lambda>_ k w. (Inr (take k p), w))\<rparr>"

definition bare_env :: process_env where
  "bare_env = \<lparr>pe_var_os = Map.empty, pe_current_dir = Inr ''/''\<rparr>"

lemma example_payload_read:
  "read_private_file_if_present (payload_os (config_payload example_config)) path MAX_CONFIG_BYTES PrivateFileKind.Config () =
     (Inr (Some (config_payload example_config)), ())" if "CHR 0x00 \<notin> set path"
proof -
  have "length (config_payload example_config) \<le> MAX_CONFIG_BYTES"
    by (simp add: config_payload_def config_entries_def example_config_def compact_config_value_def hex2_lower_def
        from_secs_def show_nat.simps MAX_CONFIG_BYTES_def)
  then show ?thesis
    using that
    by (simp add: read_private_file_if_present_def open_private_def c_string_def payload_os_def
        try_bind_def lift_result_def with_err_def validate_metadata_def S_IFMT_def S_IFREG_def MAX_CONFIG_BYTES_def)
qed


end
