(* ===== verification/Service_Safety.thy ===== *)
theory Service_Safety
  imports Cli Client_Service Server_Liveness Config_Round_Trip
begin

text \<open>
  What the service process as a whole guarantees: which bytes reach the controller, and what its exit
  reports.
\<close>

subsection \<open>What reaches the controller\<close>

text \<open>
  C15: only complete requests of a loopback peer reach the actor. When handling a connection changes the
  server, then its peer is a loopback address, the bytes read are exactly one complete request that the
  parser accepts and the security checks admit, and the change is the one the application makes for it.
\<close>

theorem only_frames_reach_the_actor:
  assumes "handle_connection net env peer server w = Some (server', w')" and "server' \<noteq> server"
  shows "ip_is_loopback (sa_ip peer) \<and>
    (\<exists>raw request w1 w2. read_one_request net (wso_read_deadline (wsv_options server))
        (wso_accept_poll_interval (wsv_options server)) w1 = Some (ReadOutcome.Complete raw, w2) \<and>
      request_frame raw = RequestFrame.Complete \<and> parse_request raw = Inr request \<and>
      admitted (app_security (wsv_app server)) request \<and>
      server' = server\<lparr>wsv_app := snd (handle env raw (wsv_app server))\<rparr>)"
  using assms(1)
proof (cases rule: handle_connection_cases)
  case kept
  with assms(2) show ?thesis by simp
next
  case (handed w1 w2 w3 raw)
  obtain resp app' where h: "handle env raw (wsv_app server) = (resp, app')"
    by fastforce
  then have "app' \<noteq> wsv_app server"
    using handed(4) assms(2) by auto
  then obtain req where "parse_request raw = Inr req" "admitted (app_security (wsv_app server)) req"
    by (rule_tac handle_cases [OF h]) blast+
  with handed trusted_peer [OF handed(1)] show ?thesis
    by blast
qed

text \<open>A stream that holds the bytes of one request and swallows the answer.\<close>

definition demo_addr :: SocketAddr where
  "demo_addr = \<lparr>sa_ip = IpAddr.V4 LOCALHOST4, sa_port = DEFAULT_WEB_PORT\<rparr>"

definition demo_server_net :: "string server_net" where
  "demo_server_net =
     \<lparr>sn_now = (\<lambda>_. 0), sn_shutdown = (\<lambda>_. False), sn_rand_bytes = (\<lambda>n w. (Inr (replicate n 1), w)),
      sn_bind = (\<lambda>_ w. (Inr (), w)), sn_listener_addr = (\<lambda>w. (Inr demo_addr, w)),
      sn_listener_nonblocking = (\<lambda>w. (Inr (), w)), sn_accept = (\<lambda>w. (Inr demo_addr, w)),
      sn_sleep = (\<lambda>_ w. w), sn_set_nonblocking = (\<lambda>_ w. (Inr (), w)),
      sn_local_addr = (\<lambda>w. (Inr demo_addr, w)), sn_peer_addr = (\<lambda>w. (Inr demo_addr, w)),
      sn_set_read_timeout = (\<lambda>_ w. (Inr (), w)), sn_read = (\<lambda>k w. (Inr (take k w), drop k w)),
      sn_peek = (\<lambda>w. (if w = [] then Inl io_error.WouldBlock else Inr 1, w)),
      sn_set_write_timeout = (\<lambda>_ w. (Inr (), w)), sn_write = (\<lambda>s w. (Inr (length s), w)), sn_close = (\<lambda>w. w)\<rparr>"

definition demo_server :: "(PairLifecycle, unit, MemoryJournal) ControllerWebActor WebServer" where
  "demo_server = \<lparr>wsv_local_addr = demo_addr, wsv_app = demo_app, wsv_options = options_default\<rparr>"

lemma demo_server_net_sel [simp]:
  "sn_now demo_server_net w = 0" "sn_shutdown demo_server_net w = False"
  "sn_set_nonblocking demo_server_net b w = (Inr (), w)"
  "sn_local_addr demo_server_net w = (Inr demo_addr, w)" "sn_peer_addr demo_server_net w = (Inr demo_addr, w)"
  "sn_set_read_timeout demo_server_net d w = (Inr (), w)" "sn_read demo_server_net k w = (Inr (take k w), drop k w)"
  "sn_peek demo_server_net w = (if w = [] then Inl io_error.WouldBlock else Inr 1, w)"
  "sn_set_write_timeout demo_server_net d w = (Inr (), w)" "sn_write demo_server_net reply w = (Inr (length reply), w)"
  "sn_close demo_server_net w = w"
  by (simp_all add: demo_server_net_def)

lemma demo_request_length: "length demo_request \<le> READ_CHUNK_BYTES"
proof -
  have "length (ws_csrf_token demo_security) = 64"
    by (simp add: demo_security_def length_concat comp_def hex2_lower_def sum_list_replicate)
  then show ?thesis
    by (simp add: demo_request_def written_request_def client_headers_def mutation_headers_def READ_CHUNK_BYTES_def
      header_line_def CRLF_def HEAD_END_def authority_def origin_def etag_def quoted_def local_service_client_default_def
      DEFAULT_WEB_PORT_def Local_Client.CSRF_COOKIE_def show_nat.simps)
qed

lemma demo_request_nonempty: "demo_request \<noteq> []"
  by (simp add: demo_request_def written_request_def)

lemma demo_request_read:
  "read_one_request demo_server_net (from_secs 3) interval demo_request = Some (ReadOutcome.Complete demo_request, [])"
proof -
  have frame: "request_frame demo_request = RequestFrame.Complete"
    using demo_parsed parsed_is_complete by blast
  have empty: "request_frame [] = RequestFrame.Incomplete"
    by (simp add: request_frame_def Let_def)
  have limit: "min (Suc MAX_REQUEST_BYTES) READ_CHUNK_BYTES = READ_CHUNK_BYTES" "0 < READ_CHUNK_BYTES"
    by (simp_all add: MAX_REQUEST_BYTES_def Web.MAX_HEADER_BYTES_def MAX_BODY_BYTES_def READ_CHUNK_BYTES_def)
  have deadline: "checked_add 0 (from_secs 3) = Some (from_secs 3)" "0 < from_secs 3"
    by (simp_all add: checked_add_def from_secs_def duration_max_def)
  have last: "read_loop demo_server_net d i demo_request [] = Some (ReadOutcome.Complete demo_request, [])" for d i
    by (subst read_loop.simps) (simp add: frame has_queued_bytes_def)
  show ?thesis
    using deadline limit demo_request_length demo_request_nonempty last
    by (simp add: read_one_request_def, subst read_loop.simps)
      (simp add: empty read_chunk_def)
qed

theorem only_frames_reach_the_actor_witness:
  "\<exists>server' w'. handle_connection demo_server_net demo_web_env demo_addr demo_server demo_request = Some (server', w') \<and>
     server' = demo_server\<lparr>wsv_app := snd (handle demo_web_env demo_request demo_app)\<rparr>"
proof -
  obtain c2 where c2: "pc_last_action c2 \<noteq> None" "handle demo_web_env demo_request demo_app =
      (action_response (we_to_vec demo_web_env) demo_result, demo_app\<lparr>app_actor := demo_actor\<lparr>cwa_controller := c2\<rparr>\<rparr>)"
    by (rule demo_handled)
  obtain r w2 where w: "write_with_deadline demo_server_net
      (to_http1_bytes (action_response (we_to_vec demo_web_env) demo_result)) (from_secs 2) [] = Some (r, w2)"
  proof -
    have deadline: "checked_add 0 (from_secs 2) = Some (from_secs 2)" "0 < from_secs 2"
      by (simp_all add: checked_add_def from_secs_def duration_max_def)
    show ?thesis
      using deadline that
      by (simp add: write_with_deadline_def write_loop.simps [of _ _ "[]"]
          write_loop.simps [of _ _ "to_http1_bytes (action_response (we_to_vec demo_web_env) demo_result)"])
  qed
  obtain server' where run: "handle_connection demo_server_net demo_web_env demo_addr demo_server demo_request = Some (server', w2)"
      and server': "server' = demo_server\<lparr>wsv_app := demo_app\<lparr>app_actor := demo_actor\<lparr>cwa_controller := c2\<rparr>\<rparr>\<rparr>"
    using demo_request_read w c2(2) that
    by (simp add: handle_connection_def addresses_are_trusted_def answer_def demo_server_def options_default_def
        demo_addr_def LOCALHOST4_def is_loopback_def)
  have "server' \<noteq> demo_server"
    using server' c2(1) demo_controller_sel(2)
    by (auto simp: demo_server_def demo_app_def demo_actor_def controller_web_actor_new_def)
  from only_frames_reach_the_actor [OF run this] run show ?thesis
    using server' c2(2) by auto
qed

subsection \<open>The end of the service\<close>

text \<open>What a request can do to the controller: ask for its status, or make one of the mutations the web boundary offers.\<close>

inductive service_call :: "('b, 'p, 'j) environment \<Rightarrow> ('b, 'p, 'j) PairController \<Rightarrow> ('b, 'p, 'j) PairController \<Rightarrow> bool"
  for env where
  requested: "mutate env now (web_action mutation) c = (r, c') \<Longrightarrow> service_call env c c'"
| observed: "Controller.status env now c = (s, c') \<Longrightarrow> service_call env c c'"

lemma service_call_step: "service_call env c c' \<Longrightarrow> controller_step env c c'"
  by (auto elim!: service_call.cases intro: controller_step.intros)

lemma service_calls_reachable:
  "(service_call env)\<^sup>*\<^sup>* c c' \<Longrightarrow> controller_reachable env c \<Longrightarrow> controller_reachable env c'"
  by (induction rule: rtranclp_induct) (blast intro: controller_reachable.steps service_call_step)+

text \<open>An actor that is serving: its controller came from the first one by requests, its transport is up, its locks are held.\<close>

definition serving ::
  "('b, 'p, 'j) environment \<Rightarrow> ('b, 'p, 'j) ControllerWebActor \<Rightarrow> ('b, 'p, 'j) ControllerWebActor \<Rightarrow> bool" where
  "serving env a a' \<longleftrightarrow> (service_call env)\<^sup>*\<^sup>* (cwa_controller a) (cwa_controller a') \<and>
     cwa_teardown_done a' = cwa_teardown_done a \<and> cwa_process_lock a' = cwa_process_lock a"

lemma serving_refl [simp]: "serving env a a"
  by (simp add: serving_def)

lemma serving_step:
  assumes "serving env a a'" and "service_call env (cwa_controller a') c"
  shows "serving env a (a'\<lparr>cwa_controller := c\<rparr>)"
  using assms by (simp add: serving_def) (blast intro: rtranclp.rtrancl_into_rtrancl)

lemma handle_serving:
  assumes "serving env a (app_actor app)" and "we_actor wenv = controller_actor env now"
  shows "serving env a (app_actor (snd (handle wenv raw app)))"
proof -
  obtain resp app' where h: "handle wenv raw app = (resp, app')"
    by fastforce
  then have "serving env a (app_actor app')"
  proof (cases rule: handle_cases)
    case kept
    with assms(1) show ?thesis by simp
  next
    case (read request)
    then show ?thesis
      using assms by (auto simp: controller_actor_def actor_status_def split: prod.splits
          intro: serving_step service_call.observed)
  next
    case (mutated request mutation revision r actor)
    then show ?thesis
      using assms by (auto simp: controller_actor_def actor_mutate_cases split: if_splits prod.splits
          intro: serving_step service_call.requested)
  qed
  with h show ?thesis by simp
qed

text \<open>
  The verdict of a service that ran, from the final shutdown of the roles, the teardown of the transport and what
  the listener reported: the error of the roles first, then that of the transport, then the listener's.
\<close>

fun exit_verdict ::
  "ServiceRuntimeError option \<Rightarrow> (PairBackendError, unit) result \<Rightarrow> WebServerError option \<Rightarrow> (CliError, unit) result" where
  "exit_verdict (Some e) _ _ = Inl (CliError.ServiceRuntime e)"
| "exit_verdict None (Inl _) _ = Inl (CliError.ServiceRuntime ServiceRuntimeError.TransportTeardownFailed)"
| "exit_verdict None (Inr _) (Some e) = Inl (CliError.WebServer e)"
| "exit_verdict None (Inr _) None = Inr ()"

text \<open>
  The end of a service over the controller \<open>c\<close> it served last: one shutdown, one teardown, and a second try of the
  teardown only when the first failed.
\<close>

definition ends_from ::
  "('b, 'p, 'j) environment \<Rightarrow> nat \<Rightarrow> ('b, 'p, 'j) PairController \<Rightarrow> (CliError, unit) result
    \<Rightarrow> ('b, 'p, 'j) ControllerWebActor \<Rightarrow> bool" where
  "ends_from env now c r a \<longleftrightarrow>
     (\<exists>s c1 t c2 listener_error. Controller.shutdown env now c = (s, c1) \<and> teardown_transport_for_exit env c1 = (t, c2) \<and>
        r = exit_verdict (shutdown_error (car_outcome s)) t listener_error \<and>
        cwa_controller a = (if is_ok t then c2 else snd (teardown_transport_for_exit env c2)))"

lemma finish_service_ends:
  assumes "finish_service env now a listener_error = (r, a')" and "\<not> cwa_teardown_done a"
  shows "ends_from env now (cwa_controller a) r a'" and "cwa_process_lock a' = cwa_process_lock a"
proof -
  obtain s c1 where s: "Controller.shutdown env now (cwa_controller a) = (s, c1)"
    by fastforce
  obtain t c2 where t: "teardown_transport_for_exit env c1 = (t, c2)"
    by fastforce
  have v: "r = exit_verdict (shutdown_error (car_outcome s)) t listener_error"
    using assms s t
    by (cases "shutdown_error (car_outcome s)"; cases t; cases listener_error)
      (simp_all add: finish_service_def shutdown_for_exit_def teardown_transport_once_def Let_def)
  have "cwa_controller a' = (if is_ok t then c2 else snd (teardown_transport_for_exit env c2))"
    and lock: "cwa_process_lock a' = cwa_process_lock a"
    using assms s t
    by (cases t; simp add: finish_service_def shutdown_for_exit_def teardown_transport_once_def actor_drop_def Let_def
        split: prod.splits; auto)+
  with s t v show "ends_from env now (cwa_controller a) r a'" and "cwa_process_lock a' = cwa_process_lock a"
    unfolding ends_from_def by blast+
qed

text \<open>How the service got its controller: the locks, then the backend, the probe and the journal, each from the state before.\<close>

lemma built_actor:
  assumes "build_native_service_actor os env backend_new probe_new journal_open w = (Inr a, w')"
  obtains lock wl b wb p wp j where "acquire os w = (Inr lock, wl)" and "backend_new wl = (Inr b, wb)"
    and "probe_new wb = (Inr p, wp)" and "journal_open wp = (Inr j, w')"
    and "a = controller_web_actor_new (with_journal env b p j) lock"
proof -
  let ?make = "\<lambda>lock. try_bind (with_err (\<lambda>_. ServiceRuntimeError.ControllerInitializationFailed) backend_new) (\<lambda>backend.
      try_bind (with_err (\<lambda>_. ServiceRuntimeError.ControllerInitializationFailed) probe_new) (\<lambda>probe.
      try_bind (with_err (\<lambda>_. ServiceRuntimeError.ControllerInitializationFailed) journal_open) (\<lambda>journal.
        lift_result (Inr (controller_web_actor_new (with_journal env backend probe journal) lock)))))"
  obtain lock wl where l: "acquire os w = (Inr lock, wl)"
      "(let (r, w) = ?make lock wl in (r, if is_ok r then w else release os lock w)) = (Inr a, w')"
    using assms by (auto simp: build_native_service_actor_def try_bind_Inr)
  then have "?make lock wl = (Inr a, w')"
    by (cases "?make lock wl") auto
  with l(1) that show ?thesis
    by (auto simp: try_bind_Inr lift_result_def with_err_Inr)
qed

lemma bound_server_actor:
  "Web_Server.bind net actor addr w = (Inr server, w') \<Longrightarrow> app_actor (wsv_app server) = actor"
  by (auto simp: bind_def bind_with_options_def try_bind_Inr lift_result_def split: if_splits)

text \<open>
  An accounted end of a service that opened with the controller \<open>c0\<close>: either it never served, and then failed after the
  teardown alone, or it served requests up to a controller from which it ended; the locks are closed last.
\<close>

definition accounted_end ::
  "('w, 'b, 'p, 'j) cli_env \<Rightarrow> ('b, 'p, 'j) environment \<Rightarrow> ('b, 'p, 'j) PairController \<Rightarrow> (CliError, unit) result
    \<Rightarrow> ('b, 'p, 'j) ControllerWebActor \<Rightarrow> 'w \<Rightarrow> bool" where
  "accounted_end ce env c0 r a w' \<longleftrightarrow>
     (\<exists>w. w' = release (ce_runtime ce) (cwa_process_lock a) w \<and>
        (is_err r \<and> cwa_controller a = snd (teardown_transport_for_exit env c0) \<or>
         (\<exists>c. (service_call env)\<^sup>*\<^sup>* c0 c \<and> ends_from env (ce_now ce w) c r a)))"

lemma dropped_early:
  assumes "dropped ce (Inl e, actor_drop env actor) w = (r, Some a, w')" and "\<not> cwa_teardown_done actor"
  shows "accounted_end ce env (cwa_controller actor) r a w' \<and> cwa_process_lock a = cwa_process_lock actor"
  using assms
  by (auto simp: accounted_end_def dropped_def actor_drop_def teardown_transport_once_def Let_def split: prod.splits)

lemma dropped_finished:
  assumes "dropped ce (finish_service env (ce_now ce w) actor listener_error) w = (r, Some a, w')"
    and "serving env actor0 actor" and "\<not> cwa_teardown_done actor0"
  shows "accounted_end ce env (cwa_controller actor0) r a w' \<and> cwa_process_lock a = cwa_process_lock actor0"
proof -
  have f: "finish_service env (ce_now ce w) actor listener_error = (r, a)" and w': "w' = release (ce_runtime ce) (cwa_process_lock a) w"
    using assms(1) by (auto simp: dropped_def prod_eq_iff)
  have "\<not> cwa_teardown_done actor"
    using assms(2,3) by (simp add: serving_def)
  from finish_service_ends [OF f this] assms(2) w' show ?thesis
    unfolding accounted_end_def serving_def by auto
qed

lemma serve_until_stopped_accounted:
  assumes "serve_until_stopped ce env actor w = Some (r, Some a, w')" and "\<not> cwa_teardown_done actor"
  shows "accounted_end ce env (cwa_controller actor) r a w' \<and> cwa_process_lock a = cwa_process_lock actor"
proof -
  obtain h w1 where h: "install_handlers ce w = (h, w1)"
    by fastforce
  obtain b w2 where b: "Web_Server.bind (ce_server ce) actor \<lparr>sa_ip = IpAddr.V4 LOCALHOST4, sa_port = DEFAULT_WEB_PORT\<rparr> w1 = (b, w2)"
    by fastforce
  show ?thesis
  proof (cases "is_ok h \<and> is_ok b")
    case False
    then obtain e v where "dropped ce (Inl e, actor_drop env actor) v = (r, Some a, w')"
      using assms(1) h b unfolding serve_until_stopped_def by (cases h; cases b) auto
    then show ?thesis
      using assms(2) by (rule dropped_early)
  next
    case True
    then obtain u server where ok: "h = Inr u" "b = Inr server"
      by (auto simp: is_ok_iff)
    obtain served w3 where s: "serve (ce_server ce) (service_web_env ce env) server w2 = Some (served, w3)"
        and d: "dropped ce (case served of Inr actor \<Rightarrow> finish_service env (ce_now ce w3) actor None
          | Inl (e, actor) \<Rightarrow> finish_service env (ce_now ce w3) actor (Some e)) w3 = (r, Some a, w')"
      using assms(1) h b ok by (auto simp: serve_until_stopped_def)
    have "case fst (served, w3) of Inl (_, actor') \<Rightarrow> serving env actor actor' | Inr actor' \<Rightarrow> serving env actor actor'"
    proof (rule serve_keeps [OF s])
      show "serving env actor (app_actor (wsv_app server))"
        using bound_server_actor b ok by fastforce
    qed (auto simp: service_web_env_def intro: handle_serving)
    with d obtain actor' l where "dropped ce (finish_service env (ce_now ce w3) actor' l) w3 = (r, Some a, w')"
        "serving env actor actor'"
      by (auto split: sum.splits prod.splits)
    then show ?thesis
      using assms(2) by (rule dropped_finished)
  qed
qed

text \<open>What a successful end comes to.\<close>

definition clean_end ::
  "('b, 'p, 'j) environment \<Rightarrow> ('b, 'p, 'j) PairController \<Rightarrow> ('b, 'p, 'j) ControllerWebActor \<Rightarrow> bool" where
  "clean_end env c0 a \<longleftrightarrow>
     (\<exists>c now s c1. (service_call env)\<^sup>*\<^sup>* c0 c \<and> Controller.shutdown env now c = (s, c1) \<and>
        car_outcome s \<in> {ControllerActionOutcome.Accepted, ControllerActionOutcome.AcceptedUnconfirmed,
                         ControllerActionOutcome.Idempotent} \<and>
        teardown_transport_for_exit env c1 = (Inr (), cwa_controller a))"

lemma shutdown_error_None: "shutdown_error o' = None \<Longrightarrow> o' \<in> {ControllerActionOutcome.Accepted,
    ControllerActionOutcome.AcceptedUnconfirmed, ControllerActionOutcome.Idempotent}"
  by (cases o') simp_all

lemma exit_verdict_ok: "exit_verdict e t l = Inr () \<longleftrightarrow> e = None \<and> is_ok t \<and> l = None"
  by (cases e; cases t; cases l) simp_all

lemma accounted_success:
  assumes "accounted_end ce env c0 (Inr ()) a w'"
  shows "clean_end env c0 a"
proof -
  obtain c now s c1 t c2 l where "(service_call env)\<^sup>*\<^sup>* c0 c" "Controller.shutdown env now c = (s, c1)"
      "teardown_transport_for_exit env c1 = (t, c2)" "exit_verdict (shutdown_error (car_outcome s)) t l = Inr ()"
      "cwa_controller a = (if is_ok t then c2 else snd (teardown_transport_for_exit env c2))"
    using assms unfolding accounted_end_def ends_from_def by (metis is_ok.simps(1))
  moreover from this(4) have "shutdown_error (car_outcome s) = None" "t = Inr ()"
    by (auto simp: exit_verdict_ok is_ok_iff)
  ultimately show ?thesis
    using shutdown_error_None [of "car_outcome s"] by (auto simp: clean_end_def)
qed

text \<open>
  C12: the exit of the service is accounted for. When a service process that owned a controller ends, it had loaded its
  configuration, taken the two locks and built that controller over the backend, the probe and the journal it
  opened, one after the other. Either it never came to serve, and it then ends with an error after the teardown of
  the transport; or requests for the status and for start, stop and recovery, and nothing else, led from
  that first controller to the one it served last, on which it then made exactly one final shutdown of the roles,
  followed by the teardown of the transport (tried once more if it failed), and that is the controller it ends with.
  Its result is the verdict of these: it is successful only when that shutdown was accepted, or was not needed, the
  transport was torn down and the listener reported nothing. Closing the locks it took is the last thing done.
\<close>

theorem service_exit_is_accounted:
  assumes "run_service ce path w = Some (r, Some a, w')"
  shows "\<exists>config w1 lock wl b wb p wp j w2 c0. load (ce_files ce) (ce_process ce) path w = (Inr config, w1) \<and>
    acquire (ce_runtime ce) w1 = (Inr lock, wl) \<and> ce_backend_new ce config wl = (Inr b, wb) \<and>
    ce_probe_new ce config wb = (Inr p, wp) \<and> ce_journal_open ce wp = (Inr j, w2) \<and>
    c0 = with_journal (ce_controller ce config) b p j \<and>
    accounted_end ce (ce_controller ce config) c0 r a w' \<and> cwa_process_lock a = lock \<and>
    (r = Inr () \<longrightarrow> clean_end (ce_controller ce config) c0 a)"
proof -
  obtain config w1 where c: "load (ce_files ce) (ce_process ce) path w = (Inr config, w1)"
    using assms by (auto simp: run_service_def split: prod.splits sum.splits)
  obtain actor w2 where b: "build_native_service_actor (ce_runtime ce) (ce_controller ce config) (ce_backend_new ce config)
      (ce_probe_new ce config) (ce_journal_open ce) w1 = (Inr actor, w2)"
    using assms c by (auto simp: run_service_def split: prod.splits sum.splits)
  have run: "serve_until_stopped ce (ce_controller ce config) actor w2 = Some (r, Some a, w')"
    using assms c b by (simp add: run_service_def)
  show ?thesis
    using b
  proof (cases rule: built_actor)
    case (1 lock wl b wb p wp j)
    then have "\<not> cwa_teardown_done actor" "cwa_controller actor = with_journal (ce_controller ce config) b p j"
        "cwa_process_lock actor = lock"
      by (simp_all add: controller_web_actor_new_def)
    with serve_until_stopped_accounted [OF run] have "accounted_end ce (ce_controller ce config)
        (with_journal (ce_controller ce config) b p j) r a w'" "cwa_process_lock a = lock"
      by simp_all
    moreover from this(1) have "r = Inr () \<longrightarrow> clean_end (ce_controller ce config) (with_journal (ce_controller ce config) b p j) a"
      by (intro impI accounted_success) simp
    ultimately show ?thesis
      using 1(1-4) c by blast
  qed
qed

subsection \<open>A small process\<close>

definition demo_runtime_os :: "'w runtime_os" where
  "demo_runtime_os =
     \<lparr>ro_var_os = (\<lambda>_ _. Some ''/run''), ro_geteuid = (\<lambda>_. 1000), ro_open_directory = (\<lambda>_ w. (Inr 3, w)),
      ro_mkdirat = (\<lambda>_ _ w. (Inr (), w)), ro_openat_directory = (\<lambda>_ _ w. (Inr 4, w)),
      ro_openat_lock = (\<lambda>_ name w. (Inr (if name = OPERATION_LOCK_FILE then 5 else 6), w)),
      ro_fstat = (\<lambda>fd w. (Inr \<lparr>st_uid = 1000, st_mode = (if fd < 5 then 0x41C0 else 0x8180), st_size = 0, st_nlink = 1\<rparr>, w)),
      ro_fstatat_nofollow = (\<lambda>_ _ w. (Inl Posix.errno.ENOENT, w)), ro_flock_exclusive = (\<lambda>_ w. (Inr (), w)),
      ro_close = (\<lambda>_ w. w)\<rparr>"

definition demo_cli :: "'w client_net \<Rightarrow> 'w server_net \<Rightarrow> ('w, PairLifecycle, unit, MemoryJournal) cli_env" where
  "demo_cli client_net server_net =
     \<lparr>ce_stdout = (\<lambda>_ w. (Inr (), w)), ce_serialize = (\<lambda>_. None), ce_process = example_env,
      ce_files = \<lparr>fo_geteuid = (\<lambda>_. 1000), fo_openat2_no_symlinks = (\<lambda>_ w. (Inl Posix.errno.ENOENT, w)),
                  fo_fstat = (\<lambda>_ w. (Inl Posix.errno.EINVAL, w)), fo_read_up_to = (\<lambda>_ _ w. (Inl Posix.errno.EINVAL, w))\<rparr>,
      ce_install = \<lparr>io_geteuid = (\<lambda>_. 1000), io_create_dir_all = (\<lambda>_ _ w. (Inl Posix.errno.EACCES, w)),
                    io_symlink_metadata = (\<lambda>_ w. (Inl Posix.errno.ENOENT, w)), io_rand_bytes = (\<lambda>_ w. (Inl (), w)),
                    io_create_new = (\<lambda>_ _ w. (Inl Posix.errno.EACCES, w)), io_write_all = (\<lambda>_ _ w. (Inl Posix.errno.EACCES, w)),
                    io_sync_all = (\<lambda>_ w. (Inl Posix.errno.EACCES, w)), io_close = (\<lambda>_ w. w),
                    io_rename = (\<lambda>_ _ w. (Inl Posix.errno.EACCES, w)), io_open_directory = (\<lambda>_ w. (Inl Posix.errno.EACCES, w)),
                    io_remove_file = (\<lambda>_ w. (Inl Posix.errno.EACCES, w))\<rparr>,
      ce_runtime = demo_runtime_os, ce_controller = (\<lambda>_. demo_env), ce_backend_new = (\<lambda>_ w. (Inr PairLifecycle.Ready, w)),
      ce_probe_new = (\<lambda>_ w. (Inr (), w)), ce_journal_open = (\<lambda>w. (Inr \<lparr>mj_state = JournalState.Clean\<rparr>, w)),
      ce_sigaction = (\<lambda>_. True),
      ce_signals = (\<lambda>_. \<lparr>sg_flag_installed = False, sg_shutdown = False, sg_handled = {}\<rparr>), ce_put_signals = (\<lambda>_ w. w),
      ce_server = server_net, ce_from_slice = we_from_slice demo_web_env, ce_to_vec = we_to_vec demo_web_env,
      ce_now = (\<lambda>_. 5),
      ce_unit = \<lparr>po_now = (\<lambda>_. 0), po_sleep = (\<lambda>_ w. w), po_spawn = (\<lambda>_ w. (Inl io_error.OtherError, w)),
                 po_try_wait = (\<lambda>w. (Inr None, w)), po_kill_and_wait = (\<lambda>w. w)\<rparr>,
      ce_client = client_net, ce_lan = (\<lambda>_ w. (Inl JblError.NetworkUnreachable, w))\<rparr>"

lemma demo_load: "load (ce_files (demo_cli cn sn)) (ce_process (demo_cli cn sn)) None w = (Inr example_config, w)"
proof -
  have "environment_overrides example_env = Inr example_settings"
    by (simp add: environment_overrides_def ALLOWED_KEYS_def example_env_def example_settings_def fun_upd_twist)
  moreover have "automatic_config_path example_env = None" "pe_var_os example_env ''JBL_AURA_CONFIG'' = None"
    by (simp_all add: automatic_config_path_def nonempty_var_def example_env_def example_settings_def)
  ultimately show ?thesis
    using example_loads
    by (simp add: demo_cli_def load_def load_from_source_def config_values_def try_bind_def lift_result_def)
qed

lemma demo_acquire: "acquire demo_runtime_os w = (Inr \<lparr>cpl_session_file = 6, cpl_operation_file = 5\<rparr>, w)"
  by (simp add: acquire_def acquire_at_def demo_runtime_os_def is_absolute_def starts_with_def open_directory_def c_string_def
      try_bind_def lift_result_def with_err_def scoped_def validate_directory_def fstat_checked_def private_object_def
      S_IFMT_def S_IFDIR_def S_IFREG_def make_runtime_directory_def openat_directory_def acquire_locks_def
      acquire_lock_file_def validate_lock_file_def kept_on_ok_def path_exists_at_def OPERATION_LOCK_FILE_def
      SESSION_LOCK_FILE_def V04_LAUNCH_RESERVATION_def Let_def)

definition unconnected :: "'w client_net" where
  "unconnected =
     \<lparr>cn_now = (\<lambda>_. 0), cn_connect = (\<lambda>_ _ w. (Inl io_error.OtherError, w)),
      cn_set_write_timeout = (\<lambda>_ w. (Inr (), w)), cn_write = (\<lambda>_ w. (Inl io_error.OtherError, w)),
      cn_set_read_timeout = (\<lambda>_ w. (Inr (), w)), cn_read = (\<lambda>_ w. (Inl io_error.OtherError, w))\<rparr>"

abbreviation stopped_cli :: "(string, PairLifecycle, unit, MemoryJournal) cli_env" where
  "stopped_cli \<equiv> demo_cli unconnected (demo_server_net\<lparr>sn_shutdown := (\<lambda>_. True)\<rparr>)"

lemma demo_built:
  "build_native_service_actor (ce_runtime (demo_cli cn sn)) demo_env (ce_backend_new (demo_cli cn sn) config)
     (ce_probe_new (demo_cli cn sn) config) (ce_journal_open (demo_cli cn sn)) w =
   (Inr (controller_web_actor_new (demo_controller JournalState.Clean) \<lparr>cpl_session_file = 6, cpl_operation_file = 5\<rparr>), w)"
  by (simp add: build_native_service_actor_def demo_cli_def try_bind_def demo_acquire with_err_def lift_result_def
      demo_controller_def)

lemma demo_bound: "Web_Server.bind (demo_server_net\<lparr>sn_shutdown := f\<rparr>) actor demo_addr w =
    (Inr \<lparr>wsv_local_addr = demo_addr, wsv_app = \<lparr>app_actor = actor, app_security = demo_security\<rparr>,
          wsv_options = options_default\<rparr>, w)"
proof -
  have "web_security_new demo_addr (replicate 32 1) = Inr demo_security"
    using demo_security by (simp add: web_security_loopback_def demo_addr_def)
  moreover have "ws_bind_addr demo_security = demo_addr" "ip_is_loopback (sa_ip demo_addr)"
    by (simp_all add: demo_security_def demo_addr_def LOCALHOST4_def is_loopback_def)
  ultimately show ?thesis
    by (simp add: bind_def bind_with_options_def options_is_valid_def options_default_def from_secs_def from_millis_def
        try_bind_def lift_result_def with_err_def check_listener_def demo_server_net_def)
qed

theorem service_exit_is_accounted_witness:
  "\<exists>r a w' c0. run_service stopped_cli None [] = Some (r, Some a, w') \<and>
     c0 = demo_controller JournalState.Clean \<and> accounted_end stopped_cli demo_env c0 r a w'"
proof -
  let ?actor = "controller_web_actor_new (demo_controller JournalState.Clean) \<lparr>cpl_session_file = 6, cpl_operation_file = 5\<rparr>"
  have handlers: "install_handlers stopped_cli [] = (Inr (), [])"
    by (simp add: install_handlers_def demo_cli_def install_termination_handlers_def try_bind_def install_signal_def)
  have env: "ce_controller stopped_cli config = demo_env" "ce_server stopped_cli = demo_server_net\<lparr>sn_shutdown := (\<lambda>_. True)\<rparr>" for config
    by (simp_all add: demo_cli_def)
  have "\<exists>r a w'. serve_until_stopped stopped_cli demo_env ?actor [] = Some (r, Some a, w')"
    using handlers by (simp add: serve_until_stopped_def env demo_bound [unfolded demo_addr_def] serve.simps dropped_def)
  then obtain r a w' where run: "run_service stopped_cli None [] = Some (r, Some a, w')"
    using demo_load [of unconnected "demo_server_net\<lparr>sn_shutdown := (\<lambda>_. True)\<rparr>" "[]"]
    by (auto simp: run_service_def env demo_built)
  from service_exit_is_accounted [OF run] show ?thesis
    using run by (auto simp: env) (auto simp: demo_cli_def demo_controller_def)
qed

end
