(* ===== verification/Lock_Safety.thy ===== *)
theory Lock_Safety
  imports Service_Safety "HOL-Library.Multiset"
begin

text \<open>
  The descriptors of the process lock. An operating system that counts the open descriptors is put around the
  one of the model; the composition rules below follow the ownership of a descriptor through early returns.
\<close>

definition acquiring ::
  "('w, 'e, nat) fallible \<Rightarrow> ('w \<times> nat multiset, 'e, nat) fallible" where
  "acquiring m s = (case m (fst s) of (r, w) \<Rightarrow>
     (r, (w, case r of Inr fd \<Rightarrow> add_mset fd (snd s) | Inl _ \<Rightarrow> snd s)))"

definition passing :: "('w, 'e, 'a) fallible \<Rightarrow> ('w \<times> nat multiset, 'e, 'a) fallible" where
  "passing m s = (case m (fst s) of (r, w) \<Rightarrow> (r, (w, snd s)))"

definition counted :: "'w runtime_os \<Rightarrow> ('w \<times> nat multiset) runtime_os" where
  "counted os =
     \<lparr>ro_var_os = (\<lambda>name s. ro_var_os os name (fst s)), ro_geteuid = (\<lambda>s. ro_geteuid os (fst s)),
      ro_open_directory = (\<lambda>p. acquiring (ro_open_directory os p)), ro_mkdirat = (\<lambda>fd n. passing (ro_mkdirat os fd n)),
      ro_openat_directory = (\<lambda>fd n. acquiring (ro_openat_directory os fd n)),
      ro_openat_lock = (\<lambda>fd n. acquiring (ro_openat_lock os fd n)), ro_fstat = (\<lambda>fd. passing (ro_fstat os fd)),
      ro_fstatat_nofollow = (\<lambda>fd n. passing (ro_fstatat_nofollow os fd n)),
      ro_flock_exclusive = (\<lambda>fd. passing (ro_flock_exclusive os fd)),
      ro_close = (\<lambda>fd s. (ro_close os fd (fst s), snd s - {#fd#}))\<rparr>"

text \<open>\<open>owns m f\<close>: when \<open>m\<close> succeeds with \<open>v\<close> it leaves the descriptors \<open>f v\<close> open, when it fails none.\<close>

definition owns :: "('w \<times> nat multiset, 'e, 'a) fallible \<Rightarrow> ('a \<Rightarrow> nat multiset) \<Rightarrow> bool" where
  "owns m f \<longleftrightarrow> (\<forall>w D r w' D'. m (w, D) = (r, (w', D')) \<longrightarrow> D' = D + (case r of Inl _ \<Rightarrow> {#} | Inr v \<Rightarrow> f v))"

lemma ownsD: "owns m f \<Longrightarrow> m (w, D) = (r, (w', D')) \<Longrightarrow> D' = D + (case r of Inl _ \<Rightarrow> {#} | Inr v \<Rightarrow> f v)"
  by (simp add: owns_def)

lemma owns_opening: "owns (acquiring m) (\<lambda>fd. {#fd#})"
  by (auto simp: owns_def acquiring_def split: prod.splits sum.splits)

lemma owns_passing: "owns (passing m) (\<lambda>_. {#})"
  by (auto simp: owns_def passing_def split: prod.splits sum.splits)

lemma owns_lift: "(\<And>v. r = Inr v \<Longrightarrow> f v = {#}) \<Longrightarrow> owns (lift_result r) f"
  by (auto simp: owns_def lift_result_def split: sum.splits)

lemma owns_raise: "owns (lift_result (Inl e)) f"
  by (rule owns_lift) simp

lemma owns_with_err: "owns m f \<Longrightarrow> owns (with_err g m) f"
  unfolding owns_def with_err_def
proof (intro allI impI)
  fix w D r w' D'
  assume h: "\<forall>w D r w' D'. m (w, D) = (r, (w', D')) \<longrightarrow> D' = D + (case r of Inl _ \<Rightarrow> {#} | Inr v \<Rightarrow> f v)"
    and run: "apfst (map_err g) (m (w, D)) = (r, w', D')"
  obtain r1 where m: "m (w, D) = (r1, (w', D'))" and r: "r = map_err g r1"
    using run by (cases "m (w, D)") auto
  with h [rule_format, OF m] show "D' = D + (case r of Inl _ \<Rightarrow> {#} | Inr v \<Rightarrow> f v)"
    by (cases r1) simp_all
qed

lemma owns_returned:
  assumes "owns m h" and "\<And>v. f (g v) = h v"
  shows "owns (try_bind m (\<lambda>v. lift_result (Inr (g v)))) f"
  unfolding owns_def
proof (intro allI impI)
  fix w D r w' D'
  assume run: "try_bind m (\<lambda>v. lift_result (Inr (g v))) (w, D) = (r, (w', D'))"
  obtain r1 w1 D1 where m: "m (w, D) = (r1, (w1, D1))"
    by (metis surj_pair)
  from ownsD [OF assms(1) m] run m show "D' = D + (case r of Inl _ \<Rightarrow> {#} | Inr v \<Rightarrow> f v)"
    by (cases r1) (auto simp: try_bind_def lift_result_def assms(2))
qed

lemma owns_pure: "(\<And>s. snd (m s) = s) \<Longrightarrow> (\<And>s v. fst (m s) = Inr v \<Longrightarrow> f v = {#}) \<Longrightarrow> owns m f"
  by (fastforce simp: owns_def prod_eq_iff split: sum.splits)

lemma owns_try_bind:
  assumes "owns m (\<lambda>_. {#})" and "\<And>v. owns (k v) f"
  shows "owns (try_bind m k) f"
  unfolding owns_def
proof (intro allI impI)
  fix w D r w' D'
  assume run: "try_bind m k (w, D) = (r, (w', D'))"
  obtain r1 w1 D1 where m: "m (w, D) = (r1, (w1, D1))"
    by (metis surj_pair)
  have "D1 = D"
    using ownsD [OF assms(1) m] by (simp split: sum.splits)
  with run m show "D' = D + (case r of Inl _ \<Rightarrow> {#} | Inr v \<Rightarrow> f v)"
    using ownsD [OF assms(2)] by (cases r1) (auto simp: try_bind_def)
qed

text \<open>A descriptor that is opened and closed again, and one that stays with the result.\<close>

lemma owns_scoped:
  assumes "owns m (\<lambda>fd. {#fd#})" and "\<And>fd. owns (k fd) f"
  shows "owns (try_bind m (\<lambda>fd. scoped (counted os) fd (k fd))) f"
  unfolding owns_def
proof (intro allI impI)
  fix w D r w' D'
  assume run: "try_bind m (\<lambda>fd. scoped (counted os) fd (k fd)) (w, D) = (r, (w', D'))"
  obtain r1 w1 D1 where m: "m (w, D) = (r1, (w1, D1))"
    by (metis surj_pair)
  show "D' = D + (case r of Inl _ \<Rightarrow> {#} | Inr v \<Rightarrow> f v)"
  proof (cases r1)
    case (Inl e)
    with run m ownsD [OF assms(1) m] show ?thesis
      by (auto simp: try_bind_def)
  next
    case (Inr fd)
    obtain r2 w2 D2 where k: "k fd (w1, D1) = (r2, (w2, D2))"
      by (metis surj_pair)
    with run m Inr ownsD [OF assms(1) m] ownsD [OF assms(2) k] show ?thesis
      by (auto simp: try_bind_def scoped_def counted_def)
  qed
qed

lemma owns_kept:
  assumes "owns m (\<lambda>fd. {#fd#})" and "\<And>fd. owns (k fd) (g fd)"
    and keeps: "\<And>fd s s' v. k fd s = (Inr v, s') \<Longrightarrow> f v = add_mset fd (g fd v)"
  shows "owns (try_bind m (\<lambda>fd. kept_on_ok (counted os) fd (k fd))) f"
  unfolding owns_def
proof (intro allI impI)
  fix w D r w' D'
  assume run: "try_bind m (\<lambda>fd. kept_on_ok (counted os) fd (k fd)) (w, D) = (r, (w', D'))"
  obtain r1 w1 D1 where m: "m (w, D) = (r1, (w1, D1))"
    by (metis surj_pair)
  show "D' = D + (case r of Inl _ \<Rightarrow> {#} | Inr v \<Rightarrow> f v)"
  proof (cases r1)
    case (Inl e)
    with run m ownsD [OF assms(1) m] show ?thesis
      by (auto simp: try_bind_def)
  next
    case (Inr fd)
    obtain r2 w2 D2 where k: "k fd (w1, D1) = (r2, (w2, D2))"
      by (metis surj_pair)
    with run m Inr ownsD [OF assms(1) m] ownsD [OF assms(2) k] keeps [of fd "(w1, D1)"] show ?thesis
      by (cases r2) (auto simp: try_bind_def kept_on_ok_def counted_def)
  qed
qed

lemma owns_fstat_checked: "owns (fstat_checked (counted os) fd) (\<lambda>_. {#})"
  by (simp add: fstat_checked_def counted_def owns_with_err owns_passing)

lemma owns_validate:
  "owns (validate_directory (counted os) fd) (\<lambda>_. {#})" "owns (validate_lock_file (counted os) fd) (\<lambda>_. {#})"
  unfolding validate_directory_def validate_lock_file_def
  by (rule owns_try_bind [OF owns_fstat_checked], rule owns_pure, simp_all)+

lemma owns_acquire_lock_file: "owns (acquire_lock_file (counted os) directory name) (\<lambda>fd. {#fd#})"
  unfolding acquire_lock_file_def
proof (rule owns_kept [where g = "\<lambda>_ _. {#}"])
  show "owns (with_err (\<lambda>_. ServiceRuntimeError.RuntimeDirectoryUntrusted) (ro_openat_lock (counted os) directory name)) (\<lambda>fd. {#fd#})"
    by (simp add: counted_def owns_with_err owns_opening)
  show "owns (try_bind (validate_lock_file (counted os) fd) (\<lambda>_.
      try_bind (with_err lock_error (ro_flock_exclusive (counted os) fd)) (\<lambda>_. lift_result (Inr fd)))) (\<lambda>_. {#})" for fd
    by (intro owns_try_bind owns_validate owns_lift) (simp_all add: counted_def owns_with_err owns_passing)
qed (auto simp: try_bind_Inr lift_result_def)

lemma owns_path_exists_at: "owns (path_exists_at (counted os) directory name) (\<lambda>_. {#})"
  by (auto simp: owns_def path_exists_at_def counted_def passing_def split: prod.splits sum.splits)

definition lock_descriptors :: "ControllerProcessLock \<Rightarrow> nat multiset" where
  "lock_descriptors lock = {#cpl_session_file lock, cpl_operation_file lock#}"

lemma owns_acquire_locks: "owns (acquire_locks (counted os) directory) lock_descriptors"
  unfolding acquire_locks_def
proof (rule owns_kept [OF owns_acquire_lock_file, where g = "\<lambda>_ lock. {#cpl_session_file lock#}"])
  fix operation_file
  show "owns (try_bind (path_exists_at (counted os) directory V04_LAUNCH_RESERVATION) (\<lambda>reserved.
      if reserved then lift_result (Inl ServiceRuntimeError.AlreadyRunning)
      else try_bind (acquire_lock_file (counted os) directory SESSION_LOCK_FILE) (\<lambda>session_file.
             lift_result (Inr \<lparr>cpl_session_file = session_file, cpl_operation_file = operation_file\<rparr>))))
      (\<lambda>lock. {#cpl_session_file lock#})"
  proof (rule owns_try_bind [OF owns_path_exists_at])
    fix reserved
    have "owns (try_bind (acquire_lock_file (counted os) directory SESSION_LOCK_FILE) (\<lambda>session_file.
             lift_result (Inr \<lparr>cpl_session_file = session_file, cpl_operation_file = operation_file\<rparr>)))
      (\<lambda>lock. {#cpl_session_file lock#})"
      by (rule owns_returned [OF owns_acquire_lock_file]) simp
    then show "owns (if reserved then lift_result (Inl ServiceRuntimeError.AlreadyRunning)
      else try_bind (acquire_lock_file (counted os) directory SESSION_LOCK_FILE) (\<lambda>session_file.
             lift_result (Inr \<lparr>cpl_session_file = session_file, cpl_operation_file = operation_file\<rparr>)))
      (\<lambda>lock. {#cpl_session_file lock#})"
      by (simp add: owns_raise)
  qed
qed (auto simp: try_bind_Inr lift_result_def lock_descriptors_def split: if_splits)

lemma owns_open_directories:
  "owns (open_directory (counted os) path) (\<lambda>fd. {#fd#})"
  "owns (openat_directory (counted os) directory name) (\<lambda>fd. {#fd#})"
  unfolding open_directory_def openat_directory_def
  by (rule owns_try_bind owns_lift | simp add: counted_def owns_with_err owns_opening)+

lemma owns_make_runtime_directory: "owns (make_runtime_directory (counted os) root) (\<lambda>_. {#})"
  by (auto simp: owns_def make_runtime_directory_def counted_def passing_def split: prod.splits sum.splits)

lemma owns_acquire_at: "owns (acquire_at (counted os) runtime_root) lock_descriptors"
proof (cases "is_absolute runtime_root")
  case True
  have "owns (try_bind (openat_directory (counted os) root RUNTIME_DIRECTORY) (\<lambda>directory.
      scoped (counted os) directory (try_bind (validate_directory (counted os) directory) (\<lambda>_.
        acquire_locks (counted os) directory)))) lock_descriptors" for root
    by (intro owns_scoped owns_open_directories owns_try_bind owns_validate owns_acquire_locks)
  then have "owns (try_bind (validate_directory (counted os) root) (\<lambda>_. try_bind (make_runtime_directory (counted os) root) (\<lambda>_.
      try_bind (openat_directory (counted os) root RUNTIME_DIRECTORY) (\<lambda>directory.
        scoped (counted os) directory (try_bind (validate_directory (counted os) directory) (\<lambda>_.
          acquire_locks (counted os) directory)))))) lock_descriptors" for root
    by (intro owns_try_bind [OF owns_validate(1)] owns_try_bind [OF owns_make_runtime_directory])
  with True show ?thesis
    unfolding acquire_at_def by (simp add: owns_scoped owns_open_directories)
qed (simp add: acquire_at_def owns_raise)

lemma owns_acquire: "owns (acquire (counted os)) lock_descriptors"
  unfolding owns_def acquire_def
  using ownsD [OF owns_acquire_at] by (auto split: option.splits if_splits)

text \<open>
  C32: taking the process lock leaks no descriptor and loses none. Run over an operating system that counts the
  open descriptors, from no descriptor open, \<open>acquire\<close> leaves exactly the two lock files of the lock it returns
  open; on every early return (a directory that is missing, foreign or replaced, a lock that is held, a launch
  reservation of an older release) everything that was opened on the way has been closed.
\<close>
theorem lock_descriptors_are_accounted:
  assumes "acquire (counted os) (w, {#}) = (r, (w', D))"
  shows "D = (case r of Inl _ \<Rightarrow> {#} | Inr lock \<Rightarrow> {#cpl_session_file lock, cpl_operation_file lock#})"
  using ownsD [OF owns_acquire assms] by (simp add: lock_descriptors_def split: sum.splits)

theorem lock_descriptors_are_accounted_witness:
  "acquire (counted demo_runtime_os) ((), {#}) = (Inr \<lparr>cpl_session_file = 6, cpl_operation_file = 5\<rparr>, ((), {#6, 5#}))"
proof -
  have "fst (acquire (counted demo_runtime_os) ((), {#})) = Inr \<lparr>cpl_session_file = 6, cpl_operation_file = 5\<rparr>"
    by (simp add: acquire_def acquire_at_def counted_def acquiring_def passing_def demo_runtime_os_def is_absolute_def
        starts_with_def open_directory_def c_string_def try_bind_def lift_result_def with_err_def scoped_def
        validate_directory_def fstat_checked_def private_object_def S_IFMT_def S_IFDIR_def S_IFREG_def
        make_runtime_directory_def openat_directory_def acquire_locks_def acquire_lock_file_def validate_lock_file_def
        kept_on_ok_def path_exists_at_def OPERATION_LOCK_FILE_def SESSION_LOCK_FILE_def V04_LAUNCH_RESERVATION_def Let_def)
  then obtain w' D where run: "acquire (counted demo_runtime_os) ((), {#}) = (Inr \<lparr>cpl_session_file = 6, cpl_operation_file = 5\<rparr>, (w', D))"
    by (metis prod.collapse)
  show ?thesis
    using lock_descriptors_are_accounted [OF run] run by simp
qed

end
