(* ===== verification/Cli_Options.thy ===== *)
theory Cli_Options
  imports Cli
begin

text \<open>
  The grammar of the command line. A command line is a sequence of tokens; the parser accepts exactly the
  sequences in which every word is a command, no kind of token occurs twice and the options fit the command.
\<close>

datatype token = Word string | JsonFlag | ConfirmFlag | FromEnvFlag | ConfigArgument string

fun token_arguments :: "token \<Rightarrow> string list" where
  "token_arguments (Word w) = [w]"
| "token_arguments JsonFlag = [''--json'']"
| "token_arguments ConfirmFlag = [''--confirm'']"
| "token_arguments FromEnvFlag = [''--from-env'']"
| "token_arguments (ConfigArgument path) = [''--config'', path]"

fun words :: "token list \<Rightarrow> string list" where
  "words [] = []"
| "words (Word w # ts) = w # words ts"
| "words (_ # ts) = words ts"

fun config_arguments :: "token list \<Rightarrow> string list" where
  "config_arguments [] = []"
| "config_arguments (ConfigArgument p # ts) = p # config_arguments ts"
| "config_arguments (_ # ts) = config_arguments ts"

text \<open>The tokens that may follow what the slots already hold, and the slots after them.\<close>

definition tokens_fit :: "option_slots \<Rightarrow> token list \<Rightarrow> bool" where
  "tokens_fit s ts \<longleftrightarrow>
     set (words ts) \<subseteq> fst ` set command_words
     \<and> length (words ts) + (if os_command s = None then 0 else 1) \<le> 1
     \<and> length (config_arguments ts) + (if os_config_path s = None then 0 else 1) \<le> 1
     \<and> count_list ts JsonFlag + of_bool (os_json s) \<le> 1
     \<and> count_list ts ConfirmFlag + of_bool (os_recovery_confirmed s) \<le> 1
     \<and> count_list ts FromEnvFlag + of_bool (os_from_environment s) \<le> 1"

definition slots_after :: "option_slots \<Rightarrow> token list \<Rightarrow> option_slots" where
  "slots_after s ts =
     \<lparr>os_command = (case words ts of w # _ \<Rightarrow> map_of command_words w | [] \<Rightarrow> os_command s),
      os_config_path = (case config_arguments ts of p # _ \<Rightarrow> Some p | [] \<Rightarrow> os_config_path s),
      os_json = (os_json s \<or> JsonFlag \<in> set ts),
      os_recovery_confirmed = (os_recovery_confirmed s \<or> ConfirmFlag \<in> set ts),
      os_from_environment = (os_from_environment s \<or> FromEnvFlag \<in> set ts)\<rparr>"

lemma slots_after_Nil [simp]: "slots_after s [] = s"
  by (cases s) (simp add: slots_after_def)

lemma command_words_utf8: "map_of command_words w = Some c \<Longrightarrow> utf8_valid w"
  by (drule map_of_SomeD) (auto simp: command_words_def)

lemma command_word_iff: "w \<in> fst ` set command_words \<longleftrightarrow> (\<exists>c. map_of command_words w = Some c)"
  by (metis domD domI dom_map_of_conv_image_fst)

lemma command_words_flags:
  "map_of command_words ''--json'' = None" "map_of command_words ''--confirm'' = None"
  "map_of command_words ''--from-env'' = None" "map_of command_words ''--config'' = None"
  by (simp_all add: command_words_def)

text \<open>One token more: which slots it needs free and what it leaves.\<close>

fun take_token :: "option_slots \<Rightarrow> token \<Rightarrow> option_slots option" where
  "take_token s (Word w) =
     (if os_command s = None \<and> w \<in> fst ` set command_words
      then Some (s\<lparr>os_command := map_of command_words w\<rparr>) else None)"
| "take_token s JsonFlag = (if os_json s then None else Some (s\<lparr>os_json := True\<rparr>))"
| "take_token s ConfirmFlag = (if os_recovery_confirmed s then None else Some (s\<lparr>os_recovery_confirmed := True\<rparr>))"
| "take_token s FromEnvFlag = (if os_from_environment s then None else Some (s\<lparr>os_from_environment := True\<rparr>))"
| "take_token s (ConfigArgument p) = (if os_config_path s = None then Some (s\<lparr>os_config_path := Some p\<rparr>) else None)"

lemma tokens_fit_Cons:
  "tokens_fit s (t # ts) \<and> s' = slots_after s (t # ts) \<longleftrightarrow>
     (\<exists>s1. take_token s t = Some s1 \<and> tokens_fit s1 ts \<and> s' = slots_after s1 ts)"
proof (cases t)
  case (Word w)
  show ?thesis
    by (cases "words ts"; cases "config_arguments ts") (auto simp: Word tokens_fit_def slots_after_def command_word_iff split: if_splits)
next
  case (ConfigArgument p)
  show ?thesis
    by (cases "words ts"; cases "config_arguments ts") (auto simp: ConfigArgument tokens_fit_def slots_after_def split: if_splits)
qed (cases "words ts"; cases "config_arguments ts"; auto simp: tokens_fit_def slots_after_def count_list_0_iff split: if_splits)+

lemma parse_token:
  assumes "take_token s t = Some s1"
  shows "parse_arguments (token_arguments t @ rest) s = parse_arguments rest s1"
proof (cases t)
  case (Word w)
  with assms obtain c where c: "map_of command_words w = Some c" "os_command s = None" "s1 = s\<lparr>os_command := Some c\<rparr>"
    by (auto simp: command_word_iff split: if_splits)
  with command_words_utf8 [OF c(1)] show ?thesis
    by (simp add: Word set_command_def and_then_def)
qed (use assms in \<open>simp_all add: command_words_flags split: if_splits\<close>)

lemma parse_tokens:
  "tokens_fit s ts \<Longrightarrow> parse_arguments (concat (map token_arguments ts)) s = Inr (slots_after s ts)"
proof (induction ts arbitrary: s)
  case (Cons t ts)
  then obtain s1 where "take_token s t = Some s1" "tokens_fit s1 ts" "slots_after s (t # ts) = slots_after s1 ts"
    using tokens_fit_Cons [of s t ts "slots_after s (t # ts)"] by blast
  with Cons.IH show ?case
    by (simp add: parse_token)
qed simp

lemma parsed_tokens:
  "parse_arguments args s = Inr s' \<Longrightarrow>
     \<exists>ts. args = concat (map token_arguments ts) \<and> tokens_fit s ts \<and> s' = slots_after s ts"
proof (induction args s rule: parse_arguments.induct)
  case (1 s)
  then show ?case
    by (intro exI [of _ "[]"]) (simp add: tokens_fit_def)
next
  case (2 a rest s)
  have more: "\<exists>ts. a # rest = concat (map token_arguments ts) \<and> tokens_fit s ts \<and> s' = slots_after s ts"
    if t: "take_token s t = Some s1" "a # rest = token_arguments t @ rest'"
      "\<exists>ts. rest' = concat (map token_arguments ts) \<and> tokens_fit s1 ts \<and> s' = slots_after s1 ts" for t s1 rest'
  proof -
    obtain ts where "rest' = concat (map token_arguments ts)" "tokens_fit s1 ts" "s' = slots_after s1 ts"
      using t(3) by blast
    with t(1,2) show ?thesis
      using tokens_fit_Cons [of s t ts s'] by (intro exI [of _ "t # ts"]) auto
  qed
  show ?case
  proof (cases "map_of command_words a")
    case (Some c)
    with 2 show ?thesis
      by (intro more [of "Word a" "s\<lparr>os_command := Some c\<rparr>" rest])
        (auto simp: set_command_def and_then_def command_word_iff split: if_splits)
  next
    case None
    with "2.prems" consider "a = ''--json''" "\<not> os_json s" "parse_arguments rest (s\<lparr>os_json := True\<rparr>) = Inr s'"
      | "a = ''--confirm''" "\<not> os_recovery_confirmed s" "parse_arguments rest (s\<lparr>os_recovery_confirmed := True\<rparr>) = Inr s'"
      | "a = ''--from-env''" "\<not> os_from_environment s" "parse_arguments rest (s\<lparr>os_from_environment := True\<rparr>) = Inr s'"
      | p rest' where "a = ''--config''" "os_config_path s = None" "rest = p # rest'"
          "parse_arguments rest' (s\<lparr>os_config_path := Some p\<rparr>) = Inr s'"
      by (auto split: if_splits list.splits)
    then show ?thesis
    proof cases
      case 1
      with 2 None show ?thesis
        by (intro more [of JsonFlag "s\<lparr>os_json := True\<rparr>" rest]) auto
    next
      case c: 2
      with 2 None show ?thesis
        by (intro more [of ConfirmFlag "s\<lparr>os_recovery_confirmed := True\<rparr>" rest]) auto
    next
      case 3
      with 2 None show ?thesis
        by (intro more [of FromEnvFlag "s\<lparr>os_from_environment := True\<rparr>" rest]) auto
    next
      case 4
      with 2 None show ?thesis
        by (intro more [of "ConfigArgument p" "s\<lparr>os_config_path := Some p\<rparr>" rest']) auto
    qed
  qed
qed



end
