(* ===== verification/Cli_Names.thy ===== *)
theory Cli_Names
  imports Cli Names
begin

text \<open>
  The command line and the service name the same closed vocabularies in two places: the \<open>*_name\<close> functions of
  main.rs and the serialization of the protocol's enumerations. The lemmas below compare the two.
\<close>

lemma backend_name_reads: "map_of backend_names (Cli.backend_name b) = Some b"
  by (cases b) (simp_all add: backend_names_def)

lemma pair_configuration_name_reads: "map_of pair_configuration_names (Cli.pair_configuration_name p) = Some p"
  by (cases p) (simp_all add: pair_configuration_names_def)

lemma managed_state_name_reads: "map_of managed_state_names (Cli.managed_state_name m) = Some m"
  by (cases m) (simp_all add: managed_state_names_def)

lemma lifecycle_name_reads: "map_of lifecycle_names (Cli.lifecycle_name l) = Some l"
  by (cases l) (simp_all add: lifecycle_names_def)

lemma health_level_name_reads: "map_of health_level_names (Cli.health_level_name h) = Some h"
  by (cases h) (simp_all add: health_level_names_def)

lemma aura_transport_name_reads: "map_of aura_transport_names (Cli.aura_transport_name t) = Some t"
  by (cases t) (simp_all add: aura_transport_names_def)

lemma acquisition_route_name_reads: "map_of aura_acquisition_route_names (Cli.acquisition_route_name q) = Some q"
  by (cases q) (simp_all add: aura_acquisition_route_names_def)

lemma action_name_reads: "map_of action_name_names (Cli.action_name a) = Some a"
  by (cases a) (simp_all add: action_name_names_def)

lemma pair_member_name_reads: "map_of pair_member_name_names (Cli.pair_member_name n) = Some n"
  by (cases n) (simp_all add: pair_member_name_names_def)

lemma pair_member_verification_name_reads: "map_of pair_member_verification_names (Cli.pair_member_verification_name v) = Some v"
  by (cases v) (simp_all add: pair_member_verification_names_def)

lemma pair_member_channel_name_reads: "map_of pair_member_channel_names (Cli.pair_member_channel_name c) = Some c"
  by (cases c) (simp_all add: pair_member_channel_names_def)

lemma action_outcome_name_reads: "map_of action_outcome_names (Cli.action_outcome_name u) = Some u"
  by (cases u) (simp_all add: action_outcome_names_def)

lemma evidence_name_reads: "map_of action_evidence_names (Cli.evidence_name e) = Some e"
  by (cases e) (simp_all add: action_evidence_names_def)

lemma reads_back:
  assumes k: "names = map (\<lambda>x. (name x, x)) (map snd names)" and "distinct (map fst names)" and "x \<in> set (map snd names)"
  shows "map_of names (name x) = Some x"
proof -
  have "(name x, x) \<in> set (map (\<lambda>x. (name x, x)) (map snd names))"
    using assms(3) by auto
  with assms(2) show ?thesis
    unfolding k [symmetric] by (simp add: map_of_is_SomeI)
qed

lemma failure_names_table: "failure_names = map (\<lambda>x. (Cli.failure_name x, x)) (map snd failure_names)"
  unfolding failure_names_def by simp

lemma failure_name_reads: "map_of failure_names (Cli.failure_name f) = Some f"
  by (rule reads_back [OF failure_names_table distinct_failure_names all_failure_names])

lemmas printed_names_read =
  backend_name_reads
  pair_configuration_name_reads
  managed_state_name_reads
  lifecycle_name_reads
  health_level_name_reads
  aura_transport_name_reads
  acquisition_route_name_reads
  action_name_reads
  pair_member_name_reads
  pair_member_verification_name_reads
  pair_member_channel_name_reads
  action_outcome_name_reads
  evidence_name_reads
  failure_name_reads

text \<open>
  The word the command line prints for a value of any of the fourteen closed vocabularies of the protocol is
  the word the service sends for it: reading it with the protocol's own table gives the value back, so no two
  values are printed alike.
\<close>
theorem printed_names_are_the_protocol_names:
  "map_of backend_names (Cli.backend_name b) = Some b \<and>
     map_of pair_configuration_names (Cli.pair_configuration_name p) = Some p \<and>
     map_of managed_state_names (Cli.managed_state_name m) = Some m \<and>
     map_of lifecycle_names (Cli.lifecycle_name l) = Some l \<and>
     map_of health_level_names (Cli.health_level_name h) = Some h \<and>
     map_of aura_transport_names (Cli.aura_transport_name t) = Some t \<and>
     map_of aura_acquisition_route_names (Cli.acquisition_route_name q) = Some q \<and>
     map_of action_name_names (Cli.action_name a) = Some a \<and>
     map_of pair_member_name_names (Cli.pair_member_name n) = Some n \<and>
     map_of pair_member_verification_names (Cli.pair_member_verification_name v) = Some v \<and>
     map_of pair_member_channel_names (Cli.pair_member_channel_name c) = Some c \<and>
     map_of action_outcome_names (Cli.action_outcome_name u) = Some u \<and>
     map_of action_evidence_names (Cli.evidence_name e) = Some e \<and>
     map_of failure_names (Cli.failure_name f) = Some f"
  by (intro conjI printed_names_read)

end
