(* ===== verification/Config_Install.thy ===== *)
theory Config_Install
  imports Config_Round_Trip
begin

text \<open>
  The installer as a sequence of calls: every call that changes the file system is written to a log with
  whether it succeeded, and the log of an installation is the fixed sequence of its steps, broken off at
  the first that fails.
\<close>

datatype install_event =
    MakeDirectory string | CreateNew string | WriteAll nat string | SyncAll nat | Rename string string
  | OpenDirectory string | Remove string

type_synonym install_log = "(install_event \<times> bool) list"

definition noted_call ::
  "install_event \<Rightarrow> ('w, 'e, 'a) fallible \<Rightarrow> ('w \<times> install_log, 'e, 'a) fallible" where
  "noted_call e m s = (case m (fst s) of (r, w) \<Rightarrow> (r, (w, snd s @ [(e, is_ok r)])))"

definition unnoted :: "('w, 'e, 'a) fallible \<Rightarrow> ('w \<times> install_log, 'e, 'a) fallible" where
  "unnoted m s = (case m (fst s) of (r, w) \<Rightarrow> (r, (w, snd s)))"

text \<open>The recording installer interface.\<close>

definition recorded :: "'w install_os \<Rightarrow> ('w \<times> install_log) install_os" where
  "recorded os =
     \<lparr>io_geteuid = (\<lambda>s. io_geteuid os (fst s)),
      io_create_dir_all = (\<lambda>p m. noted_call (MakeDirectory p) (io_create_dir_all os p m)),
      io_symlink_metadata = (\<lambda>p. unnoted (io_symlink_metadata os p)),
      io_rand_bytes = (\<lambda>n. unnoted (io_rand_bytes os n)),
      io_create_new = (\<lambda>p m. noted_call (CreateNew p) (io_create_new os p m)),
      io_write_all = (\<lambda>fd b. noted_call (WriteAll fd b) (io_write_all os fd b)),
      io_sync_all = (\<lambda>fd. noted_call (SyncAll fd) (io_sync_all os fd)),
      io_close = (\<lambda>fd s. (io_close os fd (fst s), snd s)),
      io_rename = (\<lambda>a b. noted_call (Rename a b) (io_rename os a b)),
      io_open_directory = (\<lambda>p. noted_call (OpenDirectory p) (io_open_directory os p)),
      io_remove_file = (\<lambda>p. noted_call (Remove p) (io_remove_file os p))\<rparr>"

definition install_steps ::
  "string \<Rightarrow> string \<Rightarrow> string \<Rightarrow> string \<Rightarrow> nat \<Rightarrow> nat \<Rightarrow> install_event list" where
  "install_steps parent temporary path payload file directory =
     [MakeDirectory parent, CreateNew temporary, WriteAll file payload, SyncAll file, Rename temporary path,
      OpenDirectory parent, SyncAll directory]"

definition done_steps :: "install_event list \<Rightarrow> install_log" where
  "done_steps es = map (\<lambda>e. (e, True)) es"

text \<open>The steps up to the first that fails.\<close>

definition broken_off :: "nat \<Rightarrow> install_event list \<Rightarrow> install_log" where
  "broken_off n es = done_steps (take n es) @ [(es ! n, False)]"

lemma noted_call_cases:
  obtains (ok) v w' where "noted_call e m (w, l) = (Inr v, (w', l @ [(e, True)]))"
  | (err) x w' where "noted_call e m (w, l) = (Inl x, (w', l @ [(e, False)]))"
  by (cases "m w"; cases "fst (m w)") (auto simp: noted_call_def)

lemma write_and_publish_log:
  fixes os :: "'w install_os" and parent temporary path payload :: string and fd :: nat
  defines "steps \<equiv> \<lambda>directory. drop 2 (install_steps parent temporary path payload fd directory)"
  assumes "write_and_publish (recorded os) fd temporary path parent payload (w, l) = (r, (w', l'))"
  shows "\<exists>directory. r = Inr () \<and> l' = l @ done_steps (steps directory) \<or>
    is_err r \<and> (\<exists>n < 5. l' = l @ broken_off n (steps directory))"
proof -
  note defs = write_and_publish_def recorded_def try_bind_def closing_def with_err_def steps_def install_steps_def
    done_steps_def broken_off_def
  show ?thesis
  proof (cases rule: noted_call_cases [of "WriteAll fd payload" "io_write_all os fd payload" w l])
    case (err x w1)
    then show ?thesis
      using assms(2) by (auto simp: defs intro!: exI [of _ 0])
  next
    case wrote: (ok u1 w1)
    show ?thesis
    proof (cases rule: noted_call_cases [of "SyncAll fd" "io_sync_all os fd" w1 "l @ [(WriteAll fd payload, True)]"])
      case (err x w2)
      with wrote show ?thesis
        using assms(2) by (auto simp: defs intro!: exI [of _ 1])
    next
      case sync: (ok u2 w2)
      let ?l2 = "l @ [(WriteAll fd payload, True), (SyncAll fd, True)]"
      show ?thesis
      proof (cases rule: noted_call_cases [of "Rename temporary path" "io_rename os temporary path" "io_close os fd w2" ?l2])
        case (err x w3)
        with wrote sync show ?thesis
          using assms(2) by (auto simp: defs intro!: exI [of _ 2])
      next
        case rename: (ok u3 w3)
        let ?l3 = "?l2 @ [(Rename temporary path, True)]"
        show ?thesis
        proof (cases rule: noted_call_cases [of "OpenDirectory parent" "io_open_directory os parent" w3 ?l3])
          case (err x w4)
          with wrote sync rename show ?thesis
            using assms(2) by (auto simp: defs intro!: exI [of _ 3])
        next
          case opened: (ok d w4)
          show ?thesis
          proof (rule exI [of _ d])
            show "r = Inr () \<and> l' = l @ done_steps (steps d) \<or> is_err r \<and> (\<exists>n < 5. l' = l @ broken_off n (steps d))"
              using wrote sync rename opened assms(2)
              by (cases rule: noted_call_cases [of "SyncAll d" "io_sync_all os d" w4 "?l3 @ [(OpenDirectory parent, True)]"])
                (auto simp: defs intro!: exI [of _ 4])
          qed
        qed
      qed
    qed
  qed
qed

lemma prepare_install_log:
  assumes "prepare_install (recorded os) parent path config (w, []) = (r, (w', l))"
  shows "is_ok r \<and> config_is_writable config \<and> l = [(MakeDirectory parent, True)] \<or>
    is_err r \<and> (\<exists>b. l = [(MakeDirectory parent, b)])"
proof (cases rule: noted_call_cases [of "MakeDirectory parent" "io_create_dir_all os parent 0x1C0" w "[]"])
  case (err x w1)
  then show ?thesis
    using assms by (auto simp: prepare_install_def recorded_def try_bind_def with_err_def)
next
  case (ok u w1)
  then show ?thesis
    using assms
    by (auto simp: prepare_install_def recorded_def check_parent_def check_destination_def unnoted_def try_bind_def
        with_err_def lift_result_def map_err_Inl split: prod.splits sum.splits errno.splits if_splits)
qed

text \<open>
  How the log of an installation may end: all steps done; broken off before there was a temporary file; or
  broken off later, and then the temporary file is removed.
\<close>

definition install_log_ok :: "install_event list \<Rightarrow> string \<Rightarrow> bool \<Rightarrow> install_log \<Rightarrow> bool" where
  "install_log_ok steps temporary success l \<longleftrightarrow>
     (if success then l = done_steps steps
      else l = done_steps (take 1 steps) \<or> (\<exists>n < 2. l = broken_off n steps)
        \<or> (\<exists>n b. 2 \<le> n \<and> n < 7 \<and> l = broken_off n steps @ [(Remove temporary, b)]))"

lemma publish_log:
  assumes "try_bind (or_unavailable (io_create_new (recorded os) temporary 0x180)) (\<lambda>file w.
      case write_and_publish (recorded os) file temporary path parent payload w of
        (Inl e, w) \<Rightarrow> (Inl e, snd (io_remove_file (recorded os) temporary w))
      | (Inr _, w) \<Rightarrow> (Inr (), w)) (w, [(MakeDirectory parent, True)]) = (r, (w', l))"
  shows "\<exists>fd directory. install_log_ok (install_steps parent temporary path payload fd directory) temporary (is_ok r) l"
proof (cases rule: noted_call_cases [of "CreateNew temporary" "io_create_new os temporary 0x180" w "[(MakeDirectory parent, True)]"])
  case (err x w1)
  then have "\<not> is_ok r" "l = [(MakeDirectory parent, True), (CreateNew temporary, False)]"
    using assms by (auto simp: try_bind_def with_err_def recorded_def)
  moreover have "[(MakeDirectory parent, True), (CreateNew temporary, False)] =
      broken_off 1 (install_steps parent temporary path payload fd directory)" for fd directory
    by (simp add: broken_off_def done_steps_def install_steps_def)
  ultimately show ?thesis
    unfolding install_log_ok_def by (metis one_less_numeral_iff semiring_norm(76))
next
  case (ok fd w1)
  let ?l = "[(MakeDirectory parent, True), (CreateNew temporary, True)]"
  obtain r1 w2 l2 where p: "write_and_publish (recorded os) fd temporary path parent payload (w1, ?l) = (r1, (w2, l2))"
    by (metis surj_pair)
  obtain directory where d: "r1 = Inr () \<and> l2 = ?l @ done_steps (drop 2 (install_steps parent temporary path payload fd directory))
      \<or> is_err r1 \<and> (\<exists>n < 5. l2 = ?l @ broken_off n (drop 2 (install_steps parent temporary path payload fd directory)))"
    using write_and_publish_log [OF p] by blast
  define es where "es = install_steps parent temporary path payload fd directory"
  have es: "?l = done_steps (take 2 es)" "length es = 7"
    by (simp_all add: es_def install_steps_def done_steps_def)
  have whole: "?l @ done_steps (drop 2 es) = done_steps es"
    unfolding es(1) by (simp add: done_steps_def flip: map_append)
  have off: "?l @ broken_off n (drop 2 es) = broken_off (n + 2) es" for n
  proof -
    have "take (n + 2) es = take 2 es @ take n (drop 2 es)" "es ! (n + 2) = drop 2 es ! n"
      using take_add [of 2 n es] es(2) by (simp_all only: add.commute nth_drop)
    then show ?thesis
      unfolding es(1) broken_off_def done_steps_def by simp
  qed
  have "install_log_ok es temporary (is_ok r) l"
  proof (cases r1)
    case (Inr u)
    then have "l = l2" "is_ok r"
      using assms ok p by (auto simp: try_bind_def with_err_def recorded_def)
    with Inr d whole show ?thesis
      by (simp add: install_log_ok_def es_def)
  next
    case (Inl e)
    then obtain n where n: "n < 5" "l2 = broken_off (n + 2) es"
      using d off by (auto simp: es_def)
    have "\<not> is_ok r" "\<exists>b. l = l2 @ [(Remove temporary, b)]"
      using assms ok p Inl by (auto simp: try_bind_def with_err_def recorded_def noted_call_def split: prod.splits)
    then show ?thesis
      using n unfolding install_log_ok_def by (auto intro!: exI [of _ "n + 2"])
  qed
  then show ?thesis
    unfolding es_def by blast
qed

text \<open>
  C27: an installation is all or nothing. Whatever the calls of the system return, the calls an installation
  makes are these steps in this order, up to the first that fails: the directory, a new temporary file,
  the whole text, a sync, the rename over the destination, a sync of the directory. The destination is
  thus only ever replaced by a complete and synced file; success means that every step succeeded; a
  failure after the temporary file was created ends with its removal.
\<close>

theorem install_is_atomic:
  assumes "install_private_config (recorded os) path config (w, []) = (r, (w', l))"
    and "path_parent path = Some parent"
  shows "\<exists>temporary fd directory.
    install_log_ok (install_steps parent temporary path (config_payload config) fd directory) temporary (is_ok r) l"
proof -
  obtain p w1 l1 where p: "prepare_install (recorded os) parent path config (w, []) = (p, (w1, l1))"
    by (metis surj_pair)
  show ?thesis
  proof (cases p)
    case (Inl e)
    then obtain b where l: "l1 = [(MakeDirectory parent, b)]"
      using prepare_install_log [OF p] by auto
    have "\<not> is_ok r" "l = l1"
      using assms p Inl by (auto simp: install_private_config_def try_bind_def lift_result_def)
    with l show ?thesis
      by (cases b) (auto simp: install_log_ok_def install_steps_def done_steps_def broken_off_def)
  next
    case (Inr random)
    then have "l1 = [(MakeDirectory parent, True)]"
      using prepare_install_log [OF p] by auto
    then show ?thesis
      using assms p Inr publish_log [of os "temporary_config parent random" path parent "config_payload config" w1 r w' l]
      by (auto simp: install_private_config_def try_bind_def lift_result_def Let_def)
  qed
qed

definition quiet_install_os :: "unit install_os" where
  "quiet_install_os =
     \<lparr>io_geteuid = (\<lambda>_. 1000), io_create_dir_all = (\<lambda>_ _ w. (Inr (), w)),
      io_symlink_metadata = (\<lambda>p w.
        (if p = ''/c'' then Inr \<lparr>st_uid = 1000, st_mode = 0x41C0, st_size = 0, st_nlink = 2\<rparr> else Inl errno.ENOENT, w)),
      io_rand_bytes = (\<lambda>n w. (Inr (replicate n 7), w)), io_create_new = (\<lambda>_ _ w. (Inr 3, w)),
      io_write_all = (\<lambda>_ _ w. (Inr (), w)), io_sync_all = (\<lambda>_ w. (Inr (), w)), io_close = (\<lambda>_ w. w),
      io_rename = (\<lambda>_ _ w. (Inr (), w)), io_open_directory = (\<lambda>_ w. (Inr 4, w)),
      io_remove_file = (\<lambda>_ w. (Inr (), w))\<rparr>"

theorem install_is_atomic_witness:
  "\<exists>w l temporary fd directory. install_private_config (recorded quiet_install_os) ''/c/d'' example_config ((), []) = (Inr (), (w, l)) \<and>
     l = done_steps (install_steps ''/c'' temporary ''/c/d'' (config_payload example_config) fd directory)"
proof -
  have parent: "path_parent ''/c/d'' = Some ''/c''"
    by code_simp
  have "config_is_writable example_config"
    by (simp add: config_is_writable_def safe_config_value_def example_config_def)
  then obtain l where i: "install_private_config (recorded quiet_install_os) ''/c/d'' example_config ((), []) = (Inr (), ((), l))"
    by (simp add: install_private_config_def parent prepare_install_def recorded_def quiet_install_os_def try_bind_def
        lift_result_def with_err_def noted_call_def unnoted_def check_parent_def check_destination_def write_and_publish_def
        closing_def S_IFMT_def S_IFDIR_def S_IFREG_def Let_def)
  from install_is_atomic [OF this parent] i show ?thesis
    by (auto simp: install_log_ok_def)
qed

end
