(* ===== verification/Spec2Isabelle.thy ===== *)
theory Spec2Isabelle
  imports Legacy_Backend Pair_Lives Messages Lan_Client Aura_Connect Service_Safety Lock_Safety Cli_Options Cli_Names User_Service Config_Install
begin

text \<open>
  \<^bold>\<open>A verification of the JBL/Aura "play together" controller\<close> (the Rust crate under \<open>rust/src/\<close>).

  \<^bold>\<open>The program.\<close> A user service puts two speakers, a JBL (the broadcaster) and an Aura (the receiver), into a
  linked pair and takes them out of it. A role write cannot be repeated or undone safely when its outcome is
  unknown, so everything is built around one rule: an action is marked in a durable journal before the first
  write, and an outcome that cannot be proved leaves the controller latched until the operator asks for the one
  recovery action. The command line (\<open>main.rs\<close>) talks to the service through a local client (\<open>local_client.rs\<close>)
  and a loopback HTTP server (\<open>web_server.rs\<close>, \<open>web.rs\<close>); the service (\<open>service_runtime.rs\<close>) owns the process lock
  and one controller (\<open>controller.rs\<close>) over a journal (\<open>journal.rs\<close>) and a backend (\<open>backend_native.rs\<close>), which
  drives the Aura (\<open>aura_bluez.rs\<close>, \<open>aura_wake.rs\<close>, \<open>aura_protocol.rs\<close>), the JBL (\<open>jbl_gatt.rs\<close>, \<open>control.rs\<close>,
  \<open>client.rs\<close>) and the observer of its business result (\<open>broadcast_gena.rs\<close>).

  \<^bold>\<open>Conventions.\<close> A \<open>Result\<close> is a sum with the error on the left, fallible stateful code is a function from a
  state to a result and the new state (\<open>fallible\<close>, with \<open>try_bind\<close> for the question mark). Traits are records of
  operations over a world type; operating system, sockets, BlueZ, JSON and XML readers and the clock are such
  records, parameters of the definitions that use them. Text is the list of its UTF-8 bytes, machine integers are
  words where they wrap and natural numbers where the code checks or saturates. Enumerations keep the names of the
  source and are always written qualified.

  \<^bold>\<open>The theories, bottom up.\<close>
  \<^item> \<open>Prelude\<close>, \<open>Text\<close>, \<open>Net\<close>, \<open>Posix\<close>, \<open>Http_Text\<close>: results, byte strings, addresses, system vocabulary and the
    text functions the HTTP code shares. They model the part of the standard library the sources use.
  \<^item> \<open>Journal\<close> (\<open>journal.rs\<close>): the one-line records, the two files of a journal directory, the atomic commit, marking,
    clearing and opening with the trust checks, over a directory in which any call may fail and a crash may happen
    between any two calls. The locale \<open>uncertainty_journal\<close> states what the controller relies on; it is interpreted
    for the file journal and for the in-memory one.
  \<^item> \<open>Backend\<close>, \<open>Model\<close>, \<open>Config\<close> (\<open>backend.rs\<close>, \<open>model.rs\<close>, \<open>error.rs\<close>): the vocabularies of results, identities
    and sanitized projections.
  \<^item> \<open>Controller\<close>, \<open>Controller_Safety\<close> (\<open>controller.rs\<close>): the whole mutation (guard, mark, one backend action,
    reduction, postcondition) and \<open>status\<close>; the locale \<open>journalled_controller\<close> carries the invariant that the latch
    and the journal agree, and is interpreted on the file journal.
  \<^item> \<open>Control\<close>, \<open>Jbl_Gatt\<close>, \<open>Gena\<close>, \<open>Bluez\<close> (\<open>control.rs\<close>, \<open>client.rs\<close>, \<open>jbl_gatt.rs\<close>, \<open>broadcast_gena.rs\<close>): the JBL
    side: control forms and their classification, the one GATT write, and the subscription that confirms it.
  \<^item> \<open>Tls\<close>, \<open>Lan_Client\<close> (\<open>tls.rs\<close>, \<open>client.rs\<close>): fingerprints, the client identity and the pinned connector; the three
    agents of the LAN client, its addresses and its requests.
  \<^item> \<open>Aura_Protocol\<close>, \<open>Aura_Wake\<close>, \<open>Aura_Control\<close>, \<open>Aura_Att\<close>, \<open>Aura_Scan\<close>, \<open>Aura_Connect\<close>
    (\<open>aura_protocol.rs\<close>, \<open>aura_wake.rs\<close>, \<open>aura_bluez.rs\<close>): the Aura
    side: frames, the wake acquisition and its cleanup, the command core, the order of a cold connection and the raw
    ATT bearer, the fresh scan and the connections over BlueZ.
  \<^item> \<open>Native_Backend\<close>, \<open>Native_Safety\<close> (\<open>backend_native.rs\<close>): the transaction over both speakers; \<open>Pair_Safety\<close>
    composes it with the controller and the file journal and follows the log of calls that may reach a speaker. The locale
    \<open>pair_backend\<close> (in \<open>Backend\<close>) states when the guard of a transaction is transparent and is interpreted on the native
    backend. \<open>Pair_Lives\<close> strings the lives of the service together: mutations, status requests, crashes and reopenings of
    the journal are steps of one machine, and the locale \<open>forward_simulation\<close>, interpreted on it, carries each run over to
    a run of a specification with one bit of state, the promise that an unsettled write is never forgotten.
  \<^item> \<open>Legacy_Backend\<close> (\<open>backend_legacy.rs\<close>): the compatibility backend over a Unix socket, which the crate compiles for
    its tests.
  \<^item> \<open>Private_File\<close>, \<open>Config_Load\<close>, \<open>Config_Round_Trip\<close>, \<open>Config_Install\<close> (\<open>private_file.rs\<close>, \<open>config.rs\<close>): trusted
    reading of private files, settings and their validation, and the atomic installation of a configuration.
  \<^item> \<open>Web\<close>, \<open>Web_Page\<close>, \<open>Web_Requests\<close> (\<open>web.rs\<close>): framing, parsing, security checks, routes and responses;
    \<open>Web_Server\<close>, \<open>Server_Liveness\<close> (\<open>web_server.rs\<close>): the accept loop with its deadlines.
  \<^item> \<open>Service\<close>, \<open>User_Service\<close>, \<open>Service_Safety\<close>, \<open>Lock_Safety\<close> (\<open>service_runtime.rs\<close>): the process lock, the actor, the
    signal flag, the start of the unit. The locale \<open>web_actor\<close> states what the web boundary may assume of the actor and
    is interpreted on the controller.
  \<^item> \<open>Local_Client\<close>, \<open>Names\<close>, \<open>Exchange\<close>, \<open>Client_Service\<close> (\<open>local_client.rs\<close>): requests, the bounded response
    reader, the projections; then the client and the web boundary over one loopback stream.
  \<^item> \<open>Cli\<close>, \<open>Cli_Options\<close>, \<open>Cli_Names\<close> (\<open>main.rs\<close>): options, dispatch, every command and its output. \<open>Messages\<close> has the
    texts of the errors of every module and the end of the process, its exit code and its one line of text. This theory
    closes the chain from the arguments of a command to the controller's verdict.

  \<^bold>\<open>What is shown.\<close> For the journal: a crash anywhere between marking and clearing is found as pending when the
  journal is opened again, and a clean opening is justified by what is on the disk. For the controller and the backend:
  no role write without a durable mark; every write is settled or latched; acceptance needs the backend's
  acknowledgement and a fresh postcondition; only a recovery leaves the latch; the reason of a failure is the backend's
  own; and over any sequence of lives of the service, crashes included, a write that was not settled keeps every later
  life latched until a recovery. For the devices: the exact packets and their order, every role write over a connection to
  the pinned certificate, acceptance only on the exact acknowledgement, evidence of a business result only from the
  subscription of this transaction. For the service: only authorised and complete requests of a loopback peer change the actor, a raised
  flag ends the service, its exit is accounted for, and its locks leak no descriptor. For the client and the command line:
  the exit status is the controller's verdict. Each numbered property stands after a text that says it in words; where it
  has hypotheses, a witness applies it to concrete data.

  \<^bold>\<open>Loops, fuel and time.\<close> Loops bounded by data are recursive functions. Loops bounded only by a clock are partial
  functions into \<open>option\<close> (client and server reads and writes, the accept loop, waiting for a unit), and the theorems that
  need them to return prove it from a clock that moves when a call takes time or when a sleep is asked for. The
  observation loop of \<open>Gena\<close> has fuel: one round for each of the 64 callbacks and one for each five milliseconds of the
  time left, shown to be enough (\<open>observe_loop_returns\<close>). The scan for
  an advertisement waits on events of the system and is a partial function too; \<open>scan_run\<close> is its relation, and the loop
  returns exactly along its runs. Asynchronous code runs on a single-threaded executor that is
  blocked on, and is modelled as the sequence of its awaits; the service itself is single-threaded.

  \<^bold>\<open>What is not modelled.\<close> OpenSSL and the HTTP library are parameters: a handshake is a tree of calls of
  the verification callback, a request is an operation on the record of its agent, address, headers and body. The JSON and XML parsers are parameters, with what is needed of them as
  hypotheses of the properties that need it (that a body written by the service is read back). The \<open>Debug\<close>
  implementations, which print redacted structures for developers, are left out, as are the test modules and the
  constructors only they call. Accessors are the fields of the records. The variants of \<open>private_file.rs\<close> for systems
  other than Linux are left out, and reads and writes of a TLS stream are handed to the library as they are.
\<close>

section \<open>From the command line to the controller\<close>

text \<open>The command line of each mutation, and the outcomes that count as success.\<close>

fun command_arguments :: "WebMutation \<Rightarrow> string list" where
  "command_arguments WebMutation.Start = [''start'']"
| "command_arguments WebMutation.Stop = [''stop'']"
| "command_arguments WebMutation.RecoverStop = [''recover-stop'', ''--confirm'']"

definition settled_outcomes :: "ControllerActionOutcome set" where
  "settled_outcomes =
     {ControllerActionOutcome.Accepted, ControllerActionOutcome.AcceptedUnconfirmed, ControllerActionOutcome.Idempotent}"

lemma succeeded_local_result: "succeeded (local_result r) \<longleftrightarrow> car_outcome r \<in> settled_outcomes"
  by (cases "car_outcome r")
    (simp_all add: succeeded_def local_result_def settled_outcomes_def named_def action_outcome_names_def)

text \<open>Output that succeeds and leaves the service alone.\<close>

definition prints :: "(('a, 'x) loopback_scheme, 'b, 'p, 'j) cli_env \<Rightarrow> bool" where
  "prints ce \<longleftrightarrow> (\<forall>l w. \<exists>w'. ce_stdout ce l w = (Inr (), w') \<and> lb_app w' = lb_app w)"

lemma write_line_prints:
  assumes "prints ce"
  obtains w' where "write_line ce l w = (Inr (), w')" and "lb_app w' = lb_app w"
proof -
  obtain w1 where w1: "ce_stdout ce l w = (Inr (), w1)" "lb_app w1 = lb_app w"
    using assms unfolding prints_def by blast
  obtain w2 where w2: "ce_stdout ce [CHR 0x0A] w1 = (Inr (), w2)" "lb_app w2 = lb_app w1"
    using assms unfolding prints_def by blast
  show ?thesis
    using w1 w2 by (intro that [of w2]) (simp_all add: write_line_def with_err_def try_bind_def)
qed

definition action_options :: "WebMutation \<Rightarrow> Options" where
  "action_options m =
     \<lparr>opt_command = (case m of WebMutation.Start \<Rightarrow> Command.Start | WebMutation.Stop \<Rightarrow> Command.Stop
                             | WebMutation.RecoverStop \<Rightarrow> Command.RecoverStop),
      opt_config_path = None, opt_json = False, opt_recovery_confirmed = (m = WebMutation.RecoverStop),
      opt_from_environment = False\<rparr>"

lemma command_arguments_parse: "parse_options_from (command_arguments m) = Inr (action_options m)"
  by (cases m) (simp_all add: parse_options_from_def command_words_def set_command_def and_then_def no_options_def
      check_options_def confirmation_valid_def action_options_def Let_def)

lemma run_action_command:
  assumes "client_ready (ce_client ce) local_service_client_default w = Some (Inr (), w1)"
  shows "run_command ce (command_arguments m) w =
    local_run (client_operation m (ce_client ce) (ce_from_slice ce) local_service_client_default)
      (\<lambda>a. print_action ce a False) w1"
  using assms unfolding run_command_def command_arguments_parse sum.case
  by (cases m) (simp_all add: action_options_def run_local_command_def ensure_user_service_def
      ensure_user_service_with_def Let_def)

lemma action_command_exchange:
  assumes "ce_client ce = loopback_net wenv" and "ce_from_slice ce = we_from_slice wenv" and "prints ce"
    and "web_security_loopback csrf = Inr (app_security (lb_app w))" and "length csrf = 32"
    and "we_actor wenv = controller_actor env now"
    and "Controller.status env now (cwa_controller (app_actor (lb_app w))) = (s, c1)"
    and "mutate env now (web_action mutation) c1 = (r, c2)"
    and "pc_revision c1 \<noteq> - 1" and "valid_status_projection (local_status s)"
    and "json_agrees wenv s r" and "we_to_vec wenv readiness_body = READY_BODY"
  shows "\<exists>w'. run_command ce (command_arguments mutation) w =
      Some (if car_outcome r \<in> settled_outcomes then Inr () else Inl CliError.ActionNotAccepted, w')
    \<and> cwa_controller (app_actor (lb_app w')) = c2"
proof -
  obtain w1 where w1: "client_ready (loopback_net wenv) local_service_client_default w = Some (Inr (), w1)"
      "lb_app w1 = lb_app w"
    using ready_exchange [OF loopback_connected [OF assms(4,5)] assms(12)] .
  obtain w2 where w2: "client_operation mutation (loopback_net wenv) (we_from_slice wenv) local_service_client_default w1 =
      Some (Inr (local_result r), w2)" "cwa_controller (app_actor (lb_app w2)) = c2"
    using client_operation_reports [of csrf w1 wenv env now s c1 mutation r c2] assms w1(2) by auto
  obtain w3 where w3: "write_line ce (action_line (local_result r)) w2 = (Inr (), w3)" "lb_app w3 = lb_app w2"
    using write_line_prints [OF assms(3)] .
  have "run_command ce (command_arguments mutation) w =
      Some (if car_outcome r \<in> settled_outcomes then Inr () else Inl CliError.ActionNotAccepted, w3)"
    using run_action_command [of ce w w1 mutation] w1(1) w2(1) w3(1) assms(1,2)
    by (simp add: local_run_def print_action_def try_bind_def lift_result_def succeeded_local_result)
  with w2(2) w3(2) show ?thesis
    by auto
qed


abbreviation demo_loopback where
  "demo_loopback \<equiv> \<lparr>lb_app = demo_app, lb_request = [], lb_response = None\<rparr>"

definition idle_server_net :: "'w server_net" where
  "idle_server_net =
     \<lparr>sn_now = (\<lambda>_. 0), sn_shutdown = (\<lambda>_. True), sn_rand_bytes = (\<lambda>n w. (Inr (replicate n 1), w)),
      sn_bind = (\<lambda>_ w. (Inr (), w)), sn_listener_addr = (\<lambda>w. (Inr demo_addr, w)),
      sn_listener_nonblocking = (\<lambda>w. (Inr (), w)), sn_accept = (\<lambda>w. (Inl io_error.WouldBlock, w)),
      sn_sleep = (\<lambda>_ w. w), sn_set_nonblocking = (\<lambda>_ w. (Inr (), w)),
      sn_local_addr = (\<lambda>w. (Inr demo_addr, w)), sn_peer_addr = (\<lambda>w. (Inr demo_addr, w)),
      sn_set_read_timeout = (\<lambda>_ w. (Inr (), w)), sn_read = (\<lambda>_ w. (Inr [], w)), sn_peek = (\<lambda>w. (Inr 0, w)),
      sn_set_write_timeout = (\<lambda>_ w. (Inr (), w)), sn_write = (\<lambda>_ w. (Inl io_error.OtherError, w)), sn_close = (\<lambda>w. w)\<rparr>"

abbreviation demo_process where
  "demo_process \<equiv> demo_cli (loopback_net demo_web_env) idle_server_net"

lemma demo_result_settled: "car_outcome demo_result \<in> settled_outcomes"
  by (simp add: demo_result_def demo_read, simp add: demo_defs settled_outcomes_def)

lemma demo_readiness: "we_to_vec demo_web_env readiness_body = READY_BODY"
  by (simp add: demo_web_env_def readiness_body_def status_body_def action_body_def)

lemma demo_process_sel:
  "ce_client demo_process = loopback_net demo_web_env" "ce_from_slice demo_process = we_from_slice demo_web_env"
  "prints demo_process"
  by (simp_all add: demo_cli_def prints_def)





end
